(* ===== verification/Prelude.thy ===== *)
theory Prelude
  imports Complex_Main "HOL-Library.AList"
begin

text \<open>
  The base of the library: the collections of simplification rules that the component
  theories fill, the result type of code that can throw, and generic facts on lists.
\<close>

named_theorems js_eval \<open>unfolding rules that evaluate JavaScript library functions on closed arguments\<close>

named_theorems jsnum_simps \<open>arithmetic of finite numbers\<close>

section \<open>Results of code that can throw\<close>

text \<open>
  An exception is the left summand. \<open>TypeError\<close> is the engine's own error (reading a
  property of \<open>undefined\<close>), \<open>RangeError\<close> is the one of \<open>toISOString\<close> on an invalid date,
  \<open>Thrown\<close> carries the message of an explicit \<open>throw new Error(...)\<close>.
\<close>

datatype js_error = TypeError | RangeError | Thrown string

type_synonym 'a result = "js_error + 'a"

definition bindR :: "'e + 'a \<Rightarrow> ('a \<Rightarrow> 'e + 'b) \<Rightarrow> 'e + 'b" where
  "bindR m f = (case m of Inl e \<Rightarrow> Inl e | Inr x \<Rightarrow> f x)"

lemma bindR_simps [simp]:
  "bindR (Inl e) f = Inl e"
  "bindR (Inr x) f = f x"
  by (simp_all add: bindR_def)

lemma bindR_eq_Inr_iff:
  "bindR m f = Inr y \<longleftrightarrow> (\<exists>x. m = Inr x \<and> f x = Inr y)"
  by (cases m) auto

lemma bindR_eq_Inl_iff:
  "bindR m f = Inl e \<longleftrightarrow> m = Inl e \<or> (\<exists>x. m = Inr x \<and> f x = Inl e)"
  by (cases m) auto

lemma bindR_assoc: "bindR (bindR m f) g = bindR m (\<lambda>x. bindR (f x) g)"
  by (cases m) auto

text \<open>A loop whose body can throw, left to right, stopping at the first error.\<close>

fun foldR :: "('s \<Rightarrow> 'a \<Rightarrow> 'e + 's) \<Rightarrow> 's \<Rightarrow> 'a list \<Rightarrow> 'e + 's" where
  "foldR f s [] = Inr s"
| "foldR f s (x # xs) = bindR (f s x) (\<lambda>s'. foldR f s' xs)"

lemma foldR_append: "foldR f s (xs @ ys) = bindR (foldR f s xs) (\<lambda>s'. foldR f s' ys)"
  by (induction xs arbitrary: s) (auto simp: bindR_assoc)

lemma foldR_invariant:
  assumes "foldR f s xs = Inr s'" and "P s"
    and "\<And>s x s'. P s \<Longrightarrow> x \<in> set xs \<Longrightarrow> f s x = Inr s' \<Longrightarrow> P s'"
  shows "P s'"
  using assms
proof (induction xs arbitrary: s)
  case Nil
  then show ?case by simp
next
  case (Cons x xs)
  from Cons.prems(1) obtain t where t: "f s x = Inr t" "foldR f t xs = Inr s'"
    by (auto simp: bindR_eq_Inr_iff)
  have "P t" using Cons.prems(3) [OF Cons.prems(2) _ t(1)] by simp
  show ?case
  proof (rule Cons.IH [OF t(2) \<open>P t\<close>])
    fix s y s'' assume "P s" "y \<in> set xs" "f s y = Inr s''"
    then show "P s''" using Cons.prems(3) [of s y s''] by simp
  qed
qed

text \<open>\<open>map\<close> with a body that can throw.\<close>

fun mapR :: "('a \<Rightarrow> 'e + 'b) \<Rightarrow> 'a list \<Rightarrow> 'e + 'b list" where
  "mapR f [] = Inr []"
| "mapR f (x # xs) = bindR (f x) (\<lambda>y. bindR (mapR f xs) (\<lambda>ys. Inr (y # ys)))"

lemma mapR_Inr_length: "mapR f xs = Inr ys \<Longrightarrow> length ys = length xs"
  by (induction xs arbitrary: ys) (auto simp: bindR_eq_Inr_iff)

lemma mapR_total: "\<forall>x\<in>set xs. f x = Inr (g x) \<Longrightarrow> mapR f xs = Inr (map g xs)"
  by (induction xs) simp_all

lemma mapR_returns: "\<forall>x\<in>set xs. \<exists>y. f x = Inr y \<Longrightarrow> \<exists>ys. mapR f xs = Inr ys"
  by (induction xs) auto

lemma mapR_member: "mapR f xs = Inr ys \<Longrightarrow> x \<in> set xs \<Longrightarrow> \<exists>y. f x = Inr y"
  by (induction xs arbitrary: ys) (auto simp: bindR_eq_Inr_iff)

lemma mapR_append:
  "mapR f (xs @ ys) = bindR (mapR f xs) (\<lambda>us. bindR (mapR f ys) (\<lambda>vs. Inr (us @ vs)))"
  by (induction xs) (auto simp: bindR_assoc split: sum.splits; cases "mapR f ys"; simp)+

lemma mapR_pointwise: "mapR f xs = Inr ys \<longleftrightarrow> list_all2 (\<lambda>x y. f x = Inr y) xs ys"
proof (induction xs arbitrary: ys)
  case Nil
  then show ?case by auto
next
  case (Cons x xs)
  then show ?case by (cases ys) (auto simp: bindR_eq_Inr_iff)
qed

lemma sum_list_pointwise:
  "list_all2 (\<lambda>x y. g y = h x) xs ys \<Longrightarrow> sum_list (map g ys) = sum_list (map h xs)"
  by (induction rule: list_all2_induct) auto

section \<open>Lists\<close>

lemma fold_invariant_list:
  assumes "P s" and "\<And>s x. P s \<Longrightarrow> x \<in> set xs \<Longrightarrow> P (f s x)"
  shows "P (foldl f s xs)"
  using assms by (induction xs arbitrary: s) auto

text \<open>The first element that satisfies a predicate, as \<open>Array.prototype.find\<close>.\<close>

lemma find_split:
  assumes "find P xs = Some x"
  obtains us vs where "xs = us @ x # vs" "P x" "\<forall>u\<in>set us. \<not> P u"
  using assms
proof (induction xs arbitrary: thesis)
  case Nil
  then show ?case by simp
next
  case (Cons a xs)
  show ?case
  proof (cases "P a")
    case True
    with Cons.prems(2) have "a = x" by simp
    then show ?thesis using Cons.prems(1) [of "[]" xs] True by simp
  next
    case False
    with Cons.prems(2) have "find P xs = Some x" by simp
    then obtain us vs where "xs = us @ x # vs" "P x" "\<forall>u\<in>set us. \<not> P u"
      using Cons.IH by blast
    then show ?thesis using Cons.prems(1) [of "a # us" vs] False by simp
  qed
qed

text \<open>
  In-place mutation of the first element that satisfies a predicate: the element found by
  \<open>find\<close> is the array's own object, so assigning to its fields changes the array.
\<close>

fun update_first :: "('a \<Rightarrow> bool) \<Rightarrow> ('a \<Rightarrow> 'a) \<Rightarrow> 'a list \<Rightarrow> 'a list" where
  "update_first P f [] = []"
| "update_first P f (x # xs) = (if P x then f x # xs else x # update_first P f xs)"

lemma length_update_first [simp]: "length (update_first P f xs) = length xs"
  by (induction xs) auto

lemma map_update_first:
  "(\<And>x. P x \<Longrightarrow> g (f x) = g x) \<Longrightarrow> map g (update_first P f xs) = map g xs"
  by (induction xs) auto

lemma update_first_not_found: "find P xs = None \<Longrightarrow> update_first P f xs = xs"
  by (induction xs) (auto split: if_splits)

lemma update_first_split:
  "\<forall>u\<in>set us. \<not> P u \<Longrightarrow> P x \<Longrightarrow> update_first P f (us @ x # vs) = us @ f x # vs"
  by (induction us) auto

text \<open>
  The same with a test that can throw: \<open>None\<close> when no element passes, and an exception when
  the test throws before one passes.
\<close>

fun update_firstR :: "('a \<Rightarrow> 'e + bool) \<Rightarrow> ('a \<Rightarrow> 'a) \<Rightarrow> 'a list \<Rightarrow> 'e + 'a list option" where
  "update_firstR P f [] = Inr None"
| "update_firstR P f (x # xs) =
     bindR (P x) (\<lambda>b. if b then Inr (Some (f x # xs))
                     else bindR (update_firstR P f xs) (\<lambda>r. Inr (map_option ((#) x) r)))"

lemma update_firstR_Some:
  assumes "update_firstR P f xs = Inr (Some ys)"
  obtains us x vs where "xs = us @ x # vs" "ys = us @ f x # vs" "P x = Inr True"
    "\<forall>u\<in>set us. P u = Inr False"
  using assms
proof (induction xs arbitrary: ys thesis)
  case Nil
  then show ?case by simp
next
  case (Cons a xs)
  from Cons.prems(2) obtain b where b: "P a = Inr b"
    by (auto simp: bindR_eq_Inr_iff)
  show ?case
  proof (cases b)
    case True
    with Cons.prems(2) b show ?thesis
      by (intro Cons.prems(1) [of "[]" a xs]) auto
  next
    case False
    with Cons.prems(2) b obtain zs where "update_firstR P f xs = Inr (Some zs)" "ys = a # zs"
      by (auto simp: bindR_eq_Inr_iff)
    then obtain us x vs where "xs = us @ x # vs" "zs = us @ f x # vs" "P x = Inr True"
        "\<forall>u\<in>set us. P u = Inr False"
      using Cons.IH by blast
    with \<open>ys = a # zs\<close> False b show ?thesis
      by (intro Cons.prems(1) [of "a # us" x vs]) auto
  qed
qed

lemma update_firstR_None:
  "update_firstR P f xs = Inr None \<Longrightarrow> \<forall>x\<in>set xs. P x = Inr False"
  by (induction xs) (auto simp: bindR_eq_Inr_iff split: if_splits)

lemma update_firstR_total:
  "\<forall>x\<in>set xs. \<exists>b. P x = Inr b \<Longrightarrow> \<exists>r. update_firstR P f xs = Inr r"
  by (induction xs) (auto split: if_splits)

lemma filter_eq_singleton_if_distinct:
  "distinct (map key xs) \<Longrightarrow> x \<in> set xs \<Longrightarrow> filter (\<lambda>y. key y = key x) xs = [x]"
  by (induction xs) (auto simp: filter_empty_conv image_iff)

text \<open>A sorting permutation by an integer key, stable as \<open>Array.prototype.sort\<close> is.\<close>

lemma sort_key_sorted: "sorted (map f (sort_key f xs))"
  by simp

section \<open>A list in pieces\<close>

text \<open>Pieces of a length, the last one perhaps shorter: \<open>R.splitEvery\<close> for a positive length.\<close>

function split_every :: "nat \<Rightarrow> 'a list \<Rightarrow> 'a list list" where
  "split_every n xs = (if xs = [] \<or> n = 0 then [] else take n xs # split_every n (drop n xs))"
  by pat_completeness auto
termination by (relation "measure (\<lambda>(n, xs). length xs)") (auto simp: Suc_le_eq)

declare split_every.simps [simp del]

lemma concat_split_every: "0 < n \<Longrightarrow> concat (split_every n xs) = xs"
  by (induction n xs rule: split_every.induct) (simp add: split_every.simps)

end
