(* ===== verification/Js_Number.thy ===== *)
theory Js_Number
  imports Prelude
begin

text \<open>
  JavaScript numbers. A number is a finite value, an infinity or \<open>NaN\<close>, with the operations
  of IEEE 754 on the special values. Finite values are exact rationals: rounding is not
  modelled, and there is one zero (the code never divides by a negative zero on purpose).
  Everything the code decides with \<open>isNaN\<close>, with \<open>||\<close> on numbers, or by dividing by
  zero is decided the same way here.
\<close>

datatype jsnum = Fin rat | PInf | NInf | NaN

section \<open>Arithmetic\<close>

instantiation jsnum :: "{zero, one, plus, minus, uminus, times, inverse, ord}"
begin

definition zero_jsnum :: jsnum where "zero_jsnum = Fin 0"

definition one_jsnum :: jsnum where "one_jsnum = Fin 1"

fun plus_jsnum :: "jsnum \<Rightarrow> jsnum \<Rightarrow> jsnum" where
  "plus_jsnum (Fin a) (Fin b) = Fin (a + b)"
| "plus_jsnum NaN _ = NaN"
| "plus_jsnum _ NaN = NaN"
| "plus_jsnum PInf NInf = NaN"
| "plus_jsnum NInf PInf = NaN"
| "plus_jsnum PInf _ = PInf"
| "plus_jsnum _ PInf = PInf"
| "plus_jsnum NInf _ = NInf"
| "plus_jsnum _ NInf = NInf"

fun uminus_jsnum :: "jsnum \<Rightarrow> jsnum" where
  "uminus_jsnum (Fin a) = Fin (- a)"
| "uminus_jsnum PInf = NInf"
| "uminus_jsnum NInf = PInf"
| "uminus_jsnum NaN = NaN"

definition minus_jsnum :: "jsnum \<Rightarrow> jsnum \<Rightarrow> jsnum" where
  "minus_jsnum a b = a + (- b)"

definition inf_of_sign :: "rat \<Rightarrow> jsnum" where
  "inf_of_sign s = (if s = 0 then NaN else if 0 < s then PInf else NInf)"

lemma inf_of_sign_zero [simp]: "inf_of_sign 0 = NaN"
  by (simp add: inf_of_sign_def)

fun sign_of :: "jsnum \<Rightarrow> rat" where
  "sign_of (Fin a) = sgn a"
| "sign_of PInf = 1"
| "sign_of NInf = -1"
| "sign_of NaN = 0"

fun times_jsnum :: "jsnum \<Rightarrow> jsnum \<Rightarrow> jsnum" where
  "times_jsnum (Fin a) (Fin b) = Fin (a * b)"
| "times_jsnum x y = inf_of_sign (sign_of x * sign_of y)"

fun divide_jsnum :: "jsnum \<Rightarrow> jsnum \<Rightarrow> jsnum" where
  "divide_jsnum (Fin a) (Fin b) = (if b = 0 then inf_of_sign (sgn a) else Fin (a / b))"
| "divide_jsnum NaN _ = NaN"
| "divide_jsnum _ NaN = NaN"
| "divide_jsnum (Fin _) _ = Fin 0"
| "divide_jsnum x (Fin b) = inf_of_sign (sign_of x * (if 0 \<le> b then 1 else -1))"
| "divide_jsnum _ _ = NaN"

definition inverse_jsnum :: "jsnum \<Rightarrow> jsnum" where
  "inverse_jsnum x = divide (Fin 1) x"

fun less_jsnum :: "jsnum \<Rightarrow> jsnum \<Rightarrow> bool" where
  "less_jsnum (Fin a) (Fin b) = (a < b)"
| "less_jsnum NaN _ = False"
| "less_jsnum _ NaN = False"
| "less_jsnum NInf NInf = False"
| "less_jsnum NInf _ = True"
| "less_jsnum (Fin _) PInf = True"
| "less_jsnum _ _ = False"

definition less_eq_jsnum :: "jsnum \<Rightarrow> jsnum \<Rightarrow> bool" where
  "less_eq_jsnum a b = (a < b \<or> (a = b \<and> a \<noteq> NaN))"

instance ..

end

text \<open>
  Addition and multiplication are commutative monoids on all numbers, the special values
  included, so the library's sums over lists and multisets apply to them.
\<close>

instance jsnum :: comm_monoid_add
proof
  fix x y z :: jsnum
  show "0 + x = x" by (cases x) (simp_all add: zero_jsnum_def)
  show "x + y = y + x" by (cases x; cases y) auto
  show "x + y + z = x + (y + z)" by (cases x; cases y; cases z) auto
qed

lemma sign_of_inf_of_sign: "s \<in> {-1, 0, 1} \<Longrightarrow> sign_of (inf_of_sign s) = s"
  by (auto simp: inf_of_sign_def)

lemma sign_of_mem: "sign_of x \<in> {-1, 0, 1}"
  by (cases x) (auto simp: sgn_if)

lemma sign_of_times: "sign_of (x * y) = sign_of x * sign_of (y :: jsnum)"
  by (cases x; cases y)
    (auto simp: inf_of_sign_def sgn_mult sgn_if mult_less_0_iff zero_less_mult_iff)

lemma times_not_fin:
  "(\<forall>a b. \<not> (x = Fin a \<and> y = Fin b)) \<Longrightarrow> x * y = inf_of_sign (sign_of x * sign_of y)"
  by (cases x; cases y) auto

instance jsnum :: comm_monoid_mult
proof
  fix a b c :: jsnum
  show "a * b = b * a" by (cases a; cases b) (simp_all add: mult.commute)
  show "1 * a = a" by (cases a) (simp_all add: one_jsnum_def inf_of_sign_def)
  show "a * b * c = a * (b * c)"
    by (cases a; cases b; cases c)
      (auto simp: inf_of_sign_def sgn_if mult_less_0_iff zero_less_mult_iff)
qed

instance jsnum :: numeral ..

lemma numeral_Fin: "(numeral n :: jsnum) = Fin (numeral n)"
  by (induction n)
    (simp_all only: numeral.simps one_jsnum_def plus_jsnum.simps)

lemma zero_Fin: "(0 :: jsnum) = Fin 0"
  by (simp add: zero_jsnum_def)

lemma one_Fin: "(1 :: jsnum) = Fin 1"
  by (simp add: one_jsnum_def)

lemma minus_Fin [simp]: "Fin a - Fin b = Fin (a - b)"
  by (simp add: minus_jsnum_def)

lemma le_Fin [simp]: "Fin a \<le> Fin b \<longleftrightarrow> a \<le> b"
  by (auto simp: less_eq_jsnum_def)

lemma inverse_Fin: "b \<noteq> 0 \<Longrightarrow> inverse (Fin b) = Fin (1 / b)"
  by (simp add: inverse_jsnum_def)

lemma divide_Fin: "b \<noteq> 0 \<Longrightarrow> Fin a / Fin b = Fin (a / b)"
  by simp

lemma NaN_plus [simp]: "x + NaN = NaN"
  by (cases x) auto

lemma NaN_times [simp]: "NaN * x = NaN" "x * NaN = NaN"
  by (cases x; simp add: inf_of_sign_def)+

lemma NaN_divide [simp]: "x / NaN = NaN"
  by (cases x) auto

lemma NaN_minus [simp]: "NaN - x = NaN" "x - NaN = NaN"
  by (simp_all add: minus_jsnum_def)

lemma minus_plus_num: "x - (a + b) = x - a - b" for x a b :: jsnum
  by (cases x; cases a; cases b) (simp_all add: minus_jsnum_def)

lemma NaN_not_less [simp]: "\<not> x < NaN" "\<not> NaN < x"
  by (cases x; simp)+

lemma Fin_numeral_times [simp]: "Fin a * Fin b = Fin (a * b)"
  by simp

lemmas [jsnum_simps] = numeral_Fin zero_Fin one_Fin

section \<open>Truthiness, coercion, tests\<close>

text \<open>A number is falsy when it is zero or \<open>NaN\<close>; \<open>undefined\<close> coerces to \<open>NaN\<close>.\<close>

definition truthy :: "jsnum \<Rightarrow> bool" where
  "truthy x \<longleftrightarrow> x \<noteq> Fin 0 \<and> x \<noteq> NaN"

lemma truthy_simps [simp]:
  "truthy (Fin a) \<longleftrightarrow> a \<noteq> 0" "truthy PInf" "truthy NInf" "\<not> truthy NaN"
  by (auto simp: truthy_def)

lemma truthy_consts [simp]: "\<not> truthy 0" "truthy 1" "truthy (numeral n)"
  by (simp_all add: jsnum_simps)

definition truthy_opt :: "jsnum option \<Rightarrow> bool" where
  "truthy_opt v = (case v of None \<Rightarrow> False | Some x \<Rightarrow> truthy x)"

lemma truthy_opt_simps [simp]: "\<not> truthy_opt None" "truthy_opt (Some x) = truthy x"
  by (simp_all add: truthy_opt_def)

definition toNum :: "jsnum option \<Rightarrow> jsnum" where
  "toNum v = (case v of None \<Rightarrow> NaN | Some x \<Rightarrow> x)"

lemma toNum_simps [simp]: "toNum None = NaN" "toNum (Some x) = x"
  by (simp_all add: toNum_def)

text \<open>\<open>a || b\<close> on numbers, where the left operand may be \<open>undefined\<close>.\<close>

definition or_num :: "jsnum option \<Rightarrow> jsnum \<Rightarrow> jsnum" where
  "or_num v d = (case v of None \<Rightarrow> d | Some x \<Rightarrow> if truthy x then x else d)"

definition isNaN :: "jsnum \<Rightarrow> bool" where
  "isNaN x \<longleftrightarrow> x = NaN"

definition is_fin :: "jsnum \<Rightarrow> bool" where
  "is_fin x = (case x of Fin _ \<Rightarrow> True | _ \<Rightarrow> False)"

lemma is_fin_simps [simp]:
  "is_fin (Fin a)" "\<not> is_fin PInf" "\<not> is_fin NInf" "\<not> is_fin NaN"
  by (simp_all add: is_fin_def)

lemma is_fin_iff: "is_fin x \<longleftrightarrow> (\<exists>a. x = Fin a)"
  by (cases x) auto

lemma is_fin_plus [simp]: "is_fin a \<Longrightarrow> is_fin b \<Longrightarrow> is_fin (a + b)"
  by (auto simp: is_fin_iff)

lemma is_fin_times [simp]: "is_fin a \<Longrightarrow> is_fin b \<Longrightarrow> is_fin (a * b)"
  by (auto simp: is_fin_iff)

lemma is_fin_consts [simp]: "is_fin 0" "is_fin 1" "is_fin (numeral n)"
  by (simp_all add: jsnum_simps)

lemma is_fin_divide: "is_fin a \<Longrightarrow> is_fin b \<Longrightarrow> b \<noteq> 0 \<Longrightarrow> is_fin (a / b)"
  by (auto simp: is_fin_iff zero_Fin)

lemma or_num_simps [simp]:
  "or_num None d = d"
  "or_num (Some x) d = (if truthy x then x else d)"
  by (simp_all add: or_num_def)

text \<open>\<open>Math.ceil\<close>.\<close>

fun ceil_num :: "jsnum \<Rightarrow> jsnum" where
  "ceil_num (Fin a) = Fin (of_int \<lceil>a\<rceil>)"
| "ceil_num x = x"

text \<open>\<open>Math.max\<close>.\<close>

fun abs_num :: "jsnum \<Rightarrow> jsnum" where
  "abs_num (Fin x) = Fin \<bar>x\<bar>"
| "abs_num PInf = PInf"
| "abs_num NInf = PInf"
| "abs_num NaN = NaN"

definition max_num :: "jsnum \<Rightarrow> jsnum \<Rightarrow> jsnum" where
  "max_num a b = (if a = NaN \<or> b = NaN then NaN else if a < b then b else a)"

lemma sum_list_Fin: "sum_list (map (\<lambda>x. Fin (f x)) xs) = Fin (sum_list (map f xs))"
  by (induction xs) (simp_all add: zero_Fin)

lemma sum_list_is_fin: "(\<And>x. x \<in> set xs \<Longrightarrow> is_fin x) \<Longrightarrow> is_fin (sum_list xs)"
  by (induction xs) simp_all

end
