(* ===== verification/Js_String.thy ===== *)
theory Js_String
  imports Js_Number
begin

text \<open>
  The string functions of the standard library that the program calls: \<open>includes\<close>,
  \<open>startsWith\<close>, \<open>endsWith\<close>, \<open>split\<close> with a non-empty separator, \<open>join\<close>, the case
  conversions on ASCII letters, \<open>parseFloat\<close>, \<open>parseInt\<close>, and the search for a pattern
  between word boundaries that \<open>containsAny\<close> builds with \<open>new RegExp\<close>.
\<close>

section \<open>Substrings\<close>

fun startsWith :: "string \<Rightarrow> string \<Rightarrow> bool" where
  "startsWith s [] = True"
| "startsWith [] (c # cs) = False"
| "startsWith (x # xs) (c # cs) = (x = c \<and> startsWith xs cs)"

fun str_includes :: "string \<Rightarrow> string \<Rightarrow> bool" where
  "str_includes [] t = (t = [])"
| "str_includes (c # cs) t = (startsWith (c # cs) t \<or> str_includes cs t)"

definition endsWith :: "string \<Rightarrow> string \<Rightarrow> bool" where
  "endsWith s t = startsWith (rev s) (rev t)"

lemma startsWith_iff: "startsWith s t \<longleftrightarrow> (\<exists>v. s = t @ v)"
  by (induction s t rule: startsWith.induct) auto

lemma startsWith_self [simp]: "startsWith (t @ v) t"
  by (auto simp: startsWith_iff)

lemma str_includes_iff: "str_includes s t \<longleftrightarrow> (\<exists>u v. s = u @ t @ v)"
proof (induction s)
  case Nil
  then show ?case by auto
next
  case (Cons c cs)
  show ?case
  proof
    assume "str_includes (c # cs) t"
    then consider "startsWith (c # cs) t" | "str_includes cs t" by auto
    then show "\<exists>u v. c # cs = u @ t @ v"
    proof cases
      case 1
      then show ?thesis unfolding startsWith_iff by (metis append_Nil)
    next
      case 2
      then show ?thesis using Cons by (metis append_Cons)
    qed
  next
    assume "\<exists>u v. c # cs = u @ t @ v"
    then obtain u v where uv: "c # cs = u @ t @ v" by blast
    show "str_includes (c # cs) t"
    proof (cases u)
      case Nil
      then have "startsWith (c # cs) t" unfolding startsWith_iff using uv by auto
      then show ?thesis by simp
    next
      case (Cons a as)
      with uv have "cs = as @ t @ v" by simp
      then show ?thesis using Cons.IH by auto
    qed
  qed
qed

lemma endsWith_iff: "endsWith s t \<longleftrightarrow> (\<exists>u. s = u @ t)"
proof -
  have "endsWith s t \<longleftrightarrow> (\<exists>v. rev s = rev t @ v)"
    by (simp add: endsWith_def startsWith_iff)
  also have "\<dots> \<longleftrightarrow> (\<exists>u. s = u @ t)"
    by (metis rev_append rev_rev_ident)
  finally show ?thesis .
qed

lemma endsWith_includes: "endsWith s t \<Longrightarrow> str_includes s t"
  unfolding endsWith_iff str_includes_iff by (metis append_Nil2)

lemma endsWith_self [simp]: "endsWith (u @ t) t"
  by (auto simp: endsWith_iff)

section \<open>split and join\<close>

fun split_go :: "string \<Rightarrow> string \<Rightarrow> string \<Rightarrow> string list" where
  "split_go sep cur [] = [rev cur]"
| "split_go sep cur (c # cs) =
     (if sep \<noteq> [] \<and> startsWith (c # cs) sep
      then rev cur # split_go sep [] (drop (length sep) (c # cs))
      else split_go sep (c # cur) cs)"

definition split :: "string \<Rightarrow> string \<Rightarrow> string list" where
  "split s sep = split_go sep [] s"

fun join :: "string \<Rightarrow> string list \<Rightarrow> string" where
  "join sep [] = []"
| "join sep [x] = x"
| "join sep (x # y # ys) = x @ sep @ join sep (y # ys)"

lemma join_Cons: "join sep (x # xs) = (if xs = [] then x else x @ sep @ join sep xs)"
  by (cases xs) auto

lemma split_go_nonempty [simp]: "split_go sep cur s \<noteq> []"
  by (induction sep cur s rule: split_go.induct) auto

lemma split_nonempty [simp]: "split s sep \<noteq> []"
  by (simp add: split_def)

lemma join_split_go: "join sep (split_go sep cur s) = rev cur @ s"
proof (induction sep cur s rule: split_go.induct)
  case (1 sep cur)
  then show ?case by simp
next
  case (2 sep cur c cs)
  show ?case
  proof (cases "sep \<noteq> [] \<and> startsWith (c # cs) sep")
    case True
    then obtain v where v: "c # cs = sep @ v" by (auto simp: startsWith_iff)
    have "join sep (split_go sep cur (c # cs)) =
        rev cur @ sep @ join sep (split_go sep [] (drop (length sep) (c # cs)))"
      using True by (simp add: join_Cons del: drop_Cons')
    also have "\<dots> = rev cur @ sep @ drop (length sep) (c # cs)"
      using "2.IH"(1) True by simp
    also have "\<dots> = rev cur @ c # cs" by (simp add: v)
    finally show ?thesis .
  next
    case False
    then show ?thesis using "2.IH"(2) by (auto split: if_splits)
  qed
qed

lemma join_split: "join sep (split s sep) = s"
  by (simp add: split_def join_split_go)

lemma split_go_absent:
  "\<not> str_includes s sep \<Longrightarrow> sep \<noteq> [] \<Longrightarrow> split_go sep cur s = [rev cur @ s]"
  by (induction s arbitrary: cur) auto

lemma split_absent: "\<not> str_includes s sep \<Longrightarrow> sep \<noteq> [] \<Longrightarrow> split s sep = [s]"
  by (simp add: split_def split_go_absent)

text \<open>
  Joining and splitting again, for a separator of two different characters: an occurrence of it
  cannot straddle the end of a part.
\<close>

lemma split_go_part:
  assumes "a \<noteq> b" and "\<not> str_includes p [a, b]"
  shows "split_go [a, b] cur (p @ a # b # r) = (rev cur @ p) # split_go [a, b] [] r"
  using assms(2)
proof (induction p arbitrary: cur)
  case Nil
  then show ?case by simp
next
  case (Cons c p)
  then have "\<not> startsWith (c # p @ a # b # r) [a, b]"
    using assms(1) by (cases p) auto
  then show ?case using Cons by simp
qed

lemma split_join:
  assumes "a \<noteq> b" and "ps \<noteq> []" and "\<forall>p\<in>set ps. \<not> str_includes p [a, b]"
  shows "split (join [a, b] ps) [a, b] = ps"
  using assms(2,3)
proof (induction ps)
  case Nil
  then show ?case by simp
next
  case (Cons p ps)
  then show ?case
    using split_go_part [OF assms(1), of p "[]"] split_absent [of p "[a, b]"]
    by (cases "ps = []") (auto simp: split_def join_Cons)
qed

lemma last_split_suffix: "endsWith s (last (split s sep))"
proof -
  obtain us where "split s sep = us @ [last (split s sep)]"
    by (metis append_butlast_last_id split_nonempty)
  moreover have "\<exists>v. join sep (us @ [x]) = v @ x" for x us
  proof (induction us)
    case Nil
    then show ?case by simp
  next
    case (Cons a us)
    then obtain v where "join sep (us @ [x]) = v @ x" by blast
    then have "join sep ((a # us) @ [x]) = (a @ sep @ v) @ x"
      by (simp add: join_Cons)
    then show ?case by blast
  qed
  ultimately show ?thesis by (metis endsWith_iff join_split)
qed

section \<open>Characters\<close>

definition code :: "char \<Rightarrow> nat" where
  "code c = of_char c"

definition is_digit :: "char \<Rightarrow> bool" where
  "is_digit c \<longleftrightarrow> 48 \<le> code c \<and> code c \<le> 57"

definition is_upper_letter :: "char \<Rightarrow> bool" where
  "is_upper_letter c \<longleftrightarrow> 65 \<le> code c \<and> code c \<le> 90"

definition is_lower_letter :: "char \<Rightarrow> bool" where
  "is_lower_letter c \<longleftrightarrow> 97 \<le> code c \<and> code c \<le> 122"

definition is_space :: "char \<Rightarrow> bool" where
  "is_space c \<longleftrightarrow> code c = 32 \<or> (9 \<le> code c \<and> code c \<le> 13) \<or> code c = 160"

definition word_char :: "char \<Rightarrow> bool" where
  "word_char c \<longleftrightarrow> is_digit c \<or> is_upper_letter c \<or> is_lower_letter c \<or> c = CHR ''_''"

definition lower_char :: "char \<Rightarrow> char" where
  "lower_char c = (if is_upper_letter c then char_of (code c + 32) else c)"

definition upper_char :: "char \<Rightarrow> char" where
  "upper_char c = (if is_lower_letter c then char_of (code c - 32) else c)"

lemmas char_defs [js_eval] = code_def is_digit_def is_upper_letter_def is_lower_letter_def
  is_space_def word_char_def lower_char_def upper_char_def

definition toLowerCase :: "string \<Rightarrow> string" where
  "toLowerCase s = map lower_char s"

definition toUpperCase :: "string \<Rightarrow> string" where
  "toUpperCase s = map upper_char s"

lemma code_char_of: "n < 256 \<Longrightarrow> code (char_of n) = n"
  by (simp add: code_def)

lemma lower_char_not_upper [simp]: "\<not> is_upper_letter (lower_char c)"
  by (auto simp: lower_char_def is_upper_letter_def code_char_of)

lemma lower_char_idem [simp]: "lower_char (lower_char c) = lower_char c"
  by (simp add: lower_char_def [of "lower_char c"])

lemma toLowerCase_idem [simp]: "toLowerCase (toLowerCase s) = toLowerCase s"
  by (simp add: toLowerCase_def)

section \<open>A pattern between word boundaries\<close>

text \<open>
  \<open>new RegExp(`\b${p}\b`).test(s)\<close> for a pattern \<open>p\<close> made of ordinary characters and
  dots, which is what every caller passes. A dot stands for any character but a line
  terminator; the text before the position is read off the previous character only.
\<close>

definition line_terminator :: "char \<Rightarrow> bool" where
  "line_terminator c \<longleftrightarrow> code c = 10 \<or> code c = 13"

fun match_pattern :: "string \<Rightarrow> string \<Rightarrow> bool" where
  "match_pattern [] s = True"
| "match_pattern (p # ps) [] = False"
| "match_pattern (p # ps) (c # cs) =
     ((if p = CHR ''.'' then \<not> line_terminator c else p = c) \<and> match_pattern ps cs)"

definition next_is_word :: "string \<Rightarrow> bool" where
  "next_is_word s = (case s of [] \<Rightarrow> False | c # _ \<Rightarrow> word_char c)"

definition word_after :: "bool \<Rightarrow> nat \<Rightarrow> string \<Rightarrow> bool" where
  "word_after prev n s = (if n = 0 then prev else word_char (s ! (n - 1)))"

definition match_word_at :: "bool \<Rightarrow> string \<Rightarrow> string \<Rightarrow> bool" where
  "match_word_at prev p s \<longleftrightarrow>
     prev \<noteq> next_is_word s \<and> match_pattern p s \<and>
     word_after prev (length p) s \<noteq> next_is_word (drop (length p) s)"

fun search_word :: "bool \<Rightarrow> string \<Rightarrow> string \<Rightarrow> bool" where
  "search_word prev p [] = match_word_at prev p []"
| "search_word prev p (c # cs) =
     (match_word_at prev p (c # cs) \<or> search_word (word_char c) p cs)"

lemmas word_search_defs [js_eval] = line_terminator_def next_is_word_def word_after_def
  match_word_at_def

definition test_word :: "string \<Rightarrow> string \<Rightarrow> bool" where
  "test_word p s = search_word False p s"

lemma match_pattern_literal: "CHR ''.'' \<notin> set p \<Longrightarrow> match_pattern p s = startsWith s p"
  by (induction p s rule: match_pattern.induct) auto

text \<open>For a pattern without dots the search finds an occurrence of the pattern.\<close>

lemma search_word_includes:
  "search_word prev p s \<Longrightarrow> CHR ''.'' \<notin> set p \<Longrightarrow> str_includes s p"
proof (induction prev p s rule: search_word.induct)
  case (1 prev p)
  then show ?case
    by (cases p) (auto simp: match_word_at_def)
next
  case (2 prev p c cs)
  then show ?case
    by (auto simp: match_word_at_def match_pattern_literal)
qed

section \<open>Reading numbers\<close>

definition digit_val :: "char \<Rightarrow> int" where
  "digit_val c = int (code c) - 48"

definition digits_val :: "string \<Rightarrow> int" where
  "digits_val ds = foldl (\<lambda>a d. 10 * a + digit_val d) 0 ds"

definition read_sign :: "string \<Rightarrow> int \<times> string" where
  "read_sign s =
     (case s of
        [] \<Rightarrow> (1, [])
      | c # cs \<Rightarrow> if c = CHR ''-'' then (-1, cs) else if c = CHR ''+'' then (1, cs) else (1, s))"

definition read_digits :: "string \<Rightarrow> string \<times> string" where
  "read_digits s = (takeWhile is_digit s, dropWhile is_digit s)"

definition read_exponent :: "string \<Rightarrow> int" where
  "read_exponent s =
     (case s of
        [] \<Rightarrow> 0
      | c # cs \<Rightarrow>
          if c = CHR ''e'' \<or> c = CHR ''E'' then
            (let (sg, r) = read_sign cs in sg * digits_val (fst (read_digits r)))
          else 0)"

definition scale10 :: "rat \<Rightarrow> int \<Rightarrow> rat" where
  "scale10 m e = (if 0 \<le> e then m * 10 ^ nat e else m / 10 ^ nat (- e))"

definition parseFloat :: "string \<Rightarrow> jsnum" where
  "parseFloat s0 =
     (let (sg, s) = read_sign (dropWhile is_space s0) in
      if startsWith s ''Infinity'' then (if sg = 1 then PInf else NInf)
      else
        (let (ip, r1) = read_digits s;
             (fp, r2) = (case r1 of
                           [] \<Rightarrow> ([], [])
                         | c # cs \<Rightarrow> if c = CHR ''.'' then read_digits cs else ([], r1))
         in if ip = [] \<and> fp = [] then NaN
            else Fin (scale10 (of_int (sg * digits_val (ip @ fp)))
                        (read_exponent r2 - int (length fp)))))"

definition hex_digit :: "char \<Rightarrow> bool" where
  "hex_digit c \<longleftrightarrow> is_digit c \<or> (65 \<le> code c \<and> code c \<le> 70) \<or> (97 \<le> code c \<and> code c \<le> 102)"

definition hex_val :: "char \<Rightarrow> int" where
  "hex_val c = (if is_digit c then digit_val c
                else if code c \<le> 70 then int (code c) - 55 else int (code c) - 87)"

definition parseInt :: "string \<Rightarrow> jsnum" where
  "parseInt s0 =
     (let (sg, s) = read_sign (dropWhile is_space s0) in
      if startsWith s ''0x'' \<or> startsWith s ''0X'' then
        (let ds = takeWhile hex_digit (drop 2 s) in
         if ds = [] then NaN
         else Fin (of_int (sg * foldl (\<lambda>a d. 16 * a + hex_val d) 0 ds)))
      else
        (let ds = fst (read_digits s) in
         if ds = [] then NaN else Fin (of_int (sg * digits_val ds))))"

text \<open>A text that may be \<open>undefined\<close>, where a function or a template takes its text.\<close>

definition text_of :: "string option \<Rightarrow> string" where
  "text_of v = (case v of None \<Rightarrow> ''undefined'' | Some s \<Rightarrow> s)"

definition parseFloat_opt :: "string option \<Rightarrow> jsnum" where
  "parseFloat_opt v = parseFloat (text_of v)"

lemma text_of_simps [simp]: "text_of None = ''undefined''" "text_of (Some s) = s"
  by (simp_all add: text_of_def)

lemmas parse_defs [js_eval] = parseFloat_def parseInt_def read_sign_def read_digits_def
  read_exponent_def scale10_def digits_val_def digit_val_def hex_digit_def hex_val_def

lemma parseInt_not_inf: "parseInt s = NaN \<or> (\<exists>n. parseInt s = Fin (of_int n))"
proof -
  obtain sg r where r: "read_sign (dropWhile is_space s) = (sg, r)"
    by (cases "read_sign (dropWhile is_space s)")
  show ?thesis
    by (simp only: parseInt_def r prod.case Let_def) (metis (full_types))
qed

section \<open>Pieces of text\<close>

definition nl :: string where "nl = [CHR 0x0A]"

definition apos :: string where "apos = [CHR 0x27]"

definition indent :: "nat \<Rightarrow> string" where "indent n = replicate n CHR '' ''"

definition dquote :: string where "dquote = [CHR 0x22]"

definition bquote :: string where "bquote = [CHR 0x60]"

section \<open>replace and trim\<close>

text \<open>\<open>s.replace(pattern, r)\<close> with a string for the pattern replaces its first occurrence.\<close>

fun replace_first :: "string \<Rightarrow> string \<Rightarrow> string \<Rightarrow> string" where
  "replace_first [] pattern r = (if pattern = [] then r else [])"
| "replace_first (c # cs) pattern r =
     (if startsWith (c # cs) pattern then r @ drop (length pattern) (c # cs)
      else c # replace_first cs pattern r)"

definition trim :: "string \<Rightarrow> string" where
  "trim s = rev (dropWhile is_space (rev (dropWhile is_space s)))"

lemma replace_first_absent: "\<not> str_includes s pattern \<Longrightarrow> pattern \<noteq> [] \<Longrightarrow> replace_first s pattern r = s"
  by (induction s) auto

section \<open>indexOf and substring\<close>

fun index_of :: "string \<Rightarrow> string \<Rightarrow> int" where
  "index_of [] t = (if t = [] then 0 else - 1)"
| "index_of (c # cs) t =
     (if startsWith (c # cs) t then 0
      else let i = index_of cs t in if i < 0 then - 1 else i + 1)"

definition last_index_of :: "string \<Rightarrow> string \<Rightarrow> int" where
  "last_index_of s t =
     (let i = index_of (rev s) (rev t)
      in if i < 0 then - 1 else int (length s) - int (length t) - i)"

text \<open>A bound below 0 counts as 0, and the bounds are swapped when they are in the wrong order.\<close>

definition str_substring :: "string \<Rightarrow> int \<Rightarrow> int \<Rightarrow> string" where
  "str_substring s a b =
     (let lo = nat (min a b); hi = nat (max a b) in take (hi - lo) (drop lo s))"

lemma index_of_skip:
  "c \<notin> set w \<Longrightarrow> index_of (w @ (c # t) @ x) (c # t) = int (length w)"
  by (induction w) (auto simp: startsWith_iff)

lemma last_index_of_skip:
  assumes "c \<notin> set v"
  shows "last_index_of (u @ (t @ [c]) @ v) (t @ [c]) = int (length u)"
proof -
  have "index_of (rev (u @ (t @ [c]) @ v)) (rev (t @ [c])) = int (length v)"
    using index_of_skip [of c "rev v" "rev t" "rev u"] assms by simp
  then show ?thesis by (simp add: last_index_of_def)
qed

lemma str_substring_part: "str_substring (u @ v @ w) (int (length u)) (int (length u + length v)) = v"
  by (simp add: str_substring_def)

section \<open>split at a separator whose first character does not occur in it again\<close>

lemma split_go_first:
  assumes "c \<notin> set t" and "\<not> str_includes p (c # t)"
  shows "split_go (c # t) cur (p @ (c # t) @ r) = (rev cur @ p) # split_go (c # t) [] r"
  using assms(2)
proof (induction p arbitrary: cur)
  case Nil
  then show ?case by (simp add: startsWith_iff)
next
  case (Cons d p)
  have "\<not> startsWith (d # p @ (c # t) @ r) (c # t)"
  proof
    assume "startsWith (d # p @ (c # t) @ r) (c # t)"
    then obtain v where v: "d = c" "p @ c # t @ r = t @ v" by (auto simp: startsWith_iff)
    show False
    proof (cases "length p < length t")
      case True
      from v(2) have "(p @ c # t @ r) ! length p = (t @ v) ! length p" by simp
      with True have "t ! length p = c" by (simp add: nth_append)
      with True assms(1) show False by (auto simp: in_set_conv_nth)
    next
      case False
      with v(2) have "take (length t) p = t" by (metis append_eq_append_conv_if not_less)
      then have "p = t @ drop (length t) p" by (metis append_take_drop_id)
      with v(1) have "d # p = [] @ (c # t) @ drop (length t) p" by simp
      with Cons.prems show False by (metis str_includes_iff)
    qed
  qed
  then show ?case using Cons by simp
qed

lemma split_first:
  "c \<notin> set t \<Longrightarrow> \<not> str_includes p (c # t) \<Longrightarrow> split (p @ (c # t) @ r) (c # t) = p # split r (c # t)"
  using split_go_first [of c t p "[]" r] by (simp add: split_def)

lemma str_includes_char: "str_includes s [c] \<longleftrightarrow> c \<in> set s"
  by (induction s) auto

lemma trim_space: "trim (CHR '' '' # s) = trim s" "trim (s @ '' '') = trim s"
proof -
  have sp: "is_space CHR '' ''" by code_simp
  then show "trim (CHR '' '' # s) = trim s" by (simp add: trim_def)
  show "trim (s @ '' '') = trim s"
  proof (cases "\<forall>c\<in>set s. is_space c")
    case True
    have "dropWhile is_space s = []" "dropWhile is_space (s @ '' '') = []"
      using True sp by (simp_all add: dropWhile_eq_Nil_conv)
    then show ?thesis by (simp only: trim_def)
  next
    case False
    then have "dropWhile is_space (s @ '' '') = dropWhile is_space s @ '' ''"
      by (auto simp: dropWhile_append)
    with sp show ?thesis by (simp add: trim_def)
  qed
qed

end
