(* ===== verification/Js_Object.thy ===== *)
theory Js_Object
  imports Js_String
begin

text \<open>
  JavaScript objects used as dictionaries: association lists in insertion order, as
  \<open>Object.keys\<close> and \<open>Object.values\<close> enumerate them. Assigning to a key that exists
  replaces its value in place, assigning to a new key appends it.
  Keys that name a member of \<open>Object.prototype\<close> are outside the model, and so is the rule
  that integer-like keys are enumerated first.
\<close>

type_synonym 'v obj = "(string \<times> 'v) list"

abbreviation obj_get :: "('k \<times> 'v) list \<Rightarrow> 'k \<Rightarrow> 'v option" where
  "obj_get d k \<equiv> map_of d k"

abbreviation obj_set :: "('k \<times> 'v) list \<Rightarrow> 'k \<Rightarrow> 'v \<Rightarrow> ('k \<times> 'v) list" where
  "obj_set d k v \<equiv> AList.update k v d"

definition obj_keys :: "('k \<times> 'v) list \<Rightarrow> 'k list" where
  "obj_keys d = map fst d"

definition obj_values :: "('k \<times> 'v) list \<Rightarrow> 'v list" where
  "obj_values d = map snd d"

definition obj_wf :: "('k \<times> 'v) list \<Rightarrow> bool" where
  "obj_wf d \<longleftrightarrow> distinct (map fst d)"

lemma obj_wf_Nil [simp]: "obj_wf []"
  by (simp add: obj_wf_def)

lemma obj_wf_set [simp]: "obj_wf d \<Longrightarrow> obj_wf (obj_set d k v)"
  by (simp add: obj_wf_def distinct_update)

lemma obj_get_set: "obj_get (obj_set d k v) j = (if j = k then Some v else obj_get d j)"
  by (simp add: update_conv)

lemma obj_set_new: "obj_get d k = None \<Longrightarrow> obj_set d k v = d @ [(k, v)]"
  by (induction d) (auto split: if_splits)

lemma obj_set_split:
  "obj_get us k = None \<Longrightarrow> obj_set (us @ (k, w) # vs) k v = us @ (k, v) # vs"
  by (induction us) (auto split: if_splits)

lemma obj_get_split:
  assumes "obj_get d k = Some w"
  obtains us vs where "d = us @ (k, w) # vs" "obj_get us k = None"
  using assms
proof (induction d arbitrary: thesis)
  case Nil
  then show ?case by simp
next
  case (Cons p d)
  obtain j x where p: "p = (j, x)" by (cases p)
  show ?case
  proof (cases "j = k")
    case True
    with Cons.prems(2) p have "x = w" by simp
    then show ?thesis using Cons.prems(1) [of "[]" d] p True by simp
  next
    case False
    with Cons.prems(2) p have "obj_get d k = Some w" by simp
    then obtain us vs where "d = us @ (k, w) # vs" "obj_get us k = None"
      using Cons.IH by blast
    then show ?thesis using Cons.prems(1) [of "p # us" vs] p False by simp
  qed
qed

text \<open>
  What a total over the entries becomes after an assignment: the new value's share, less the
  share of the value it replaced. Stated without subtraction, for any commutative monoid.
\<close>

lemma sum_list_obj_set_new:
  "obj_get d k = None \<Longrightarrow>
   sum_list (map f (obj_set d k v)) = sum_list (map f d) + (f (k, v) :: 'a :: comm_monoid_add)"
  by (simp add: obj_set_new)

lemma sum_list_obj_set_same:
  assumes "obj_get d k = Some w" and "f (k, v) = f (k, w) + c"
  shows "sum_list (map f (obj_set d k v)) = sum_list (map f d) + (c :: 'a :: comm_monoid_add)"
proof -
  obtain us vs where d: "d = us @ (k, w) # vs" "obj_get us k = None"
    using assms(1) by (rule obj_get_split)
  show ?thesis
    by (simp add: d obj_set_split assms(2) ac_simps)
qed

section \<open>Grouping\<close>

text \<open>
  The accumulation pattern \<open>acc[key(x)] = g(x, acc[key(x)])\<close>, where the old value may be
  \<open>undefined\<close>. Each key ends up with the fold of its own elements, in their order, and the
  keys stand in the order of their first element.
\<close>

definition upsert :: "('k \<times> 'v) list \<Rightarrow> 'k \<Rightarrow> ('v option \<Rightarrow> 'v) \<Rightarrow> ('k \<times> 'v) list" where
  "upsert d k f = obj_set d k (f (obj_get d k))"

definition group_fold :: "('x \<Rightarrow> 'k) \<Rightarrow> ('x \<Rightarrow> 'v option \<Rightarrow> 'v) \<Rightarrow> ('k \<times> 'v) list \<Rightarrow> 'x list
    \<Rightarrow> ('k \<times> 'v) list" where
  "group_fold key g d xs = foldl (\<lambda>d x. upsert d (key x) (g x)) d xs"

fun first_occurrences :: "'k list \<Rightarrow> 'k list \<Rightarrow> 'k list" where
  "first_occurrences ks [] = ks"
| "first_occurrences ks (x # xs) =
     first_occurrences (if x \<in> set ks then ks else ks @ [x]) xs"

lemma map_of_group_fold:
  "obj_get (group_fold key g d xs) k =
     foldl (\<lambda>v x. Some (g x v)) (obj_get d k) (filter (\<lambda>x. key x = k) xs)"
proof (induction xs arbitrary: d)
  case Nil
  then show ?case by (simp add: group_fold_def)
next
  case (Cons x xs)
  have "obj_get (group_fold key g d (x # xs)) k =
      obj_get (group_fold key g (upsert d (key x) (g x)) xs) k"
    by (simp add: group_fold_def)
  also have "\<dots> = foldl (\<lambda>v x. Some (g x v)) (obj_get (upsert d (key x) (g x)) k)
      (filter (\<lambda>x. key x = k) xs)"
    by (rule Cons.IH)
  finally show ?case
    by (auto simp: upsert_def update_conv)
qed

lemma keys_upsert:
  "map fst (upsert d k f) = (if k \<in> set (map fst d) then map fst d else map fst d @ [k])"
  by (simp add: upsert_def update_keys)

lemma keys_group_fold:
  "map fst (group_fold key g d xs) = first_occurrences (map fst d) (map key xs)"
proof (induction xs arbitrary: d)
  case Nil
  then show ?case by (simp add: group_fold_def)
next
  case (Cons x xs)
  have "map fst (group_fold key g d (x # xs)) =
      map fst (group_fold key g (upsert d (key x) (g x)) xs)"
    by (simp add: group_fold_def)
  also have "\<dots> = first_occurrences (map fst (upsert d (key x) (g x))) (map key xs)"
    by (rule Cons.IH)
  finally show ?case by (simp add: keys_upsert)
qed

lemma set_first_occurrences: "set (first_occurrences ks xs) = set ks \<union> set xs"
  by (induction ks xs rule: first_occurrences.induct) auto

lemma distinct_first_occurrences: "distinct ks \<Longrightarrow> distinct (first_occurrences ks xs)"
  by (induction ks xs rule: first_occurrences.induct) auto

lemma obj_wf_group_fold: "obj_wf d \<Longrightarrow> obj_wf (group_fold key g d xs)"
  by (simp add: obj_wf_def keys_group_fold distinct_first_occurrences)

lemma group_fold_get_None:
  "obj_get (group_fold key g [] xs) k = None \<longleftrightarrow> k \<notin> key ` set xs"
proof -
  have "obj_get (group_fold key g [] xs) k = None \<longleftrightarrow>
      k \<notin> set (map fst (group_fold key g [] xs))"
    by (simp add: map_of_eq_None_iff)
  then show ?thesis by (simp add: keys_group_fold set_first_occurrences)
qed

text \<open>A field that a new entry takes from its element and an old entry adds adds up over the entries.\<close>

lemma sum_list_group_fold:
  assumes "\<And>x. f (g x None) = (h x :: 'a :: comm_monoid_add)" and "\<And>x v. f (g x (Some v)) = f v + h x"
  shows "sum_list (map f (obj_values (group_fold key g d xs)))
       = sum_list (map f (obj_values d)) + sum_list (map h xs)"
proof (induction xs arbitrary: d)
  case Nil
  then show ?case by (simp add: group_fold_def)
next
  case (Cons x xs)
  have "sum_list (map (\<lambda>e. f (snd e)) (upsert d (key x) (g x))) = sum_list (map (\<lambda>e. f (snd e)) d) + h x"
  proof (cases "obj_get d (key x)")
    case None
    then show ?thesis using sum_list_obj_set_new [OF None, of "\<lambda>e. f (snd e)" "g x None"]
      by (simp add: upsert_def assms(1))
  next
    case (Some v)
    then show ?thesis using sum_list_obj_set_same [OF Some, of "\<lambda>e. f (snd e)" "g x (Some v)" "h x"]
      by (simp add: upsert_def assms(2))
  qed
  then show ?case
    using Cons.IH [of "upsert d (key x) (g x)"]
    by (simp add: group_fold_def obj_values_def comp_def add.assoc)
qed

text \<open>Collecting the elements of a key: the lists of the keys, in the order of their first elements.\<close>

lemma map_of_pairs: "distinct (map fst d) \<Longrightarrow> d = map (\<lambda>k. (k, the (map_of d k))) (map fst d)"
  by (auto simp: comp_def intro!: map_idI [symmetric])

definition collect :: "'x \<Rightarrow> 'x list option \<Rightarrow> 'x list" where
  "collect x v = (case v of Some xs \<Rightarrow> xs @ [x] | None \<Rightarrow> [x])"

lemma foldl_collect:
  "foldl (\<lambda>v x. Some (collect x v)) v xs
     = (if xs = [] then v else Some ((case v of None \<Rightarrow> [] | Some ys \<Rightarrow> ys) @ xs))"
  by (induction xs arbitrary: v) (auto simp: collect_def split: option.splits)

lemma group_fold_collect:
  "group_fold key collect [] xs
     = map (\<lambda>k. (k, filter (\<lambda>x. key x = k) xs)) (first_occurrences [] (map key xs))"
proof -
  let ?d = "group_fold key collect [] xs"
  have keys: "map fst ?d = first_occurrences [] (map key xs)" by (simp add: keys_group_fold)
  have "?d = map (\<lambda>k. (k, the (map_of ?d k))) (map fst ?d)"
    by (rule map_of_pairs) (simp add: keys distinct_first_occurrences)
  also have "\<dots> = map (\<lambda>k. (k, filter (\<lambda>x. key x = k) xs)) (map fst ?d)"
  proof (rule map_cong)
    fix k
    assume "k \<in> set (map fst ?d)"
    then have "filter (\<lambda>x. key x = k) xs \<noteq> []"
      by (auto simp: keys set_first_occurrences filter_empty_conv)
    then show "(k, the (map_of ?d k)) = (k, filter (\<lambda>x. key x = k) xs)"
      by (simp add: map_of_group_fold foldl_collect)
  qed simp
  finally show ?thesis by (simp only: keys)
qed

text \<open>A folded option starting from nothing is the fold of the elements from the initial value.\<close>

lemma foldl_Some_default:
  "foldl (\<lambda>v x. Some (h x (case v of None \<Rightarrow> a | Some y \<Rightarrow> y))) v xs =
     (if xs = [] then v else Some (foldl (\<lambda>y x. h x y) (case v of None \<Rightarrow> a | Some y \<Rightarrow> y) xs))"
  by (induction xs arbitrary: v) auto

section \<open>Partitions by a key\<close>

lemma sum_list_pick:
  "distinct ks \<Longrightarrow> k \<in> set ks \<Longrightarrow>
   sum_list (map (\<lambda>j. if k = j then c + g j else g j) ks) = c + sum_list (map g ks)"
  for c :: "'a :: comm_monoid_add"
proof (induction ks)
  case Nil
  then show ?case by simp
next
  case (Cons a ks)
  show ?case
  proof (cases "k = a")
    case True
    with Cons.prems have "k \<notin> set ks" by simp
    then have "sum_list (map (\<lambda>j. if k = j then c + g j else g j) ks) = sum_list (map g ks)"
      by (intro arg_cong [where f = sum_list] map_cong) auto
    with True show ?thesis by (simp add: add.assoc)
  next
    case False
    with Cons show ?thesis by (simp add: add.left_commute)
  qed
qed

lemma sum_list_partition:
  fixes f :: "'x \<Rightarrow> 'a :: comm_monoid_add"
  assumes "distinct ks" and "key ` set xs \<subseteq> set ks"
  shows "sum_list (map (\<lambda>k. sum_list (map f (filter (\<lambda>x. key x = k) xs))) ks)
       = sum_list (map f xs)"
  using assms(2)
proof (induction xs)
  case Nil
  then show ?case by simp
next
  case (Cons x xs)
  let ?S = "\<lambda>k. sum_list (map f (filter (\<lambda>y. key y = k) xs))"
  have "sum_list (map (\<lambda>k. sum_list (map f (filter (\<lambda>y. key y = k) (x # xs)))) ks)
      = sum_list (map (\<lambda>k. if key x = k then f x + ?S k else ?S k) ks)"
    by (intro arg_cong [where f = sum_list] map_cong) auto
  also have "\<dots> = f x + sum_list (map ?S ks)"
    using Cons.prems by (intro sum_list_pick [OF assms(1)]) simp
  also have "sum_list (map ?S ks) = sum_list (map f xs)"
    using Cons by simp
  finally show ?case by simp
qed

lemma sum_list_first_occurrences:
  fixes f :: "'x \<Rightarrow> 'a :: comm_monoid_add"
  shows "sum_list (map (\<lambda>k. sum_list (map f (filter (\<lambda>x. key x = k) xs)))
           (first_occurrences [] (map key xs))) = sum_list (map f xs)"
  by (rule sum_list_partition) (simp_all add: distinct_first_occurrences set_first_occurrences)

section \<open>Lookups in the tables\<close>

text \<open>\<open>table[family]?.[size]?.[i]\<close>: \<open>undefined\<close> where any step is missing.\<close>

definition num_at :: "nat \<Rightarrow> rat list option \<Rightarrow> jsnum option" where
  "num_at i xs = (case xs of None \<Rightarrow> None | Some xs \<Rightarrow>
     if i < length xs then Some (Fin (xs ! i)) else None)"

definition instance_data :: "(rat list obj) obj \<Rightarrow> string option \<Rightarrow> string option \<Rightarrow> rat list option" where
  "instance_data table instanceFamily instanceSize =
     (case (instanceFamily, instanceSize) of
        (Some f, Some s) \<Rightarrow> (case obj_get table f of None \<Rightarrow> None | Some sizes \<Rightarrow> obj_get sizes s)
      | _ \<Rightarrow> None)"

definition elem_at :: "'a list \<Rightarrow> nat \<Rightarrow> 'a option" where
  "elem_at xs i = (if i < length xs then Some (xs ! i) else None)"

text \<open>\<open>a || b\<close> where either may be \<open>undefined\<close>.\<close>

definition or_opt :: "jsnum option \<Rightarrow> jsnum option \<Rightarrow> jsnum option" where
  "or_opt a b = (if truthy_opt a then a else b)"

end
