(* ===== verification/Js_Effects.thy ===== *)
theory Js_Effects
  imports Js_Object
begin

text \<open>
  Operations that read and write module-level state and may throw: a function from the state
  to an outcome and the state it leaves. An exception keeps the changes made before it, as a
  rejected promise does. \<open>await\<close> is sequencing.
\<close>

type_synonym ('s, 'a) eff = "'s \<Rightarrow> 'a result \<times> 's"

definition retE :: "'a \<Rightarrow> ('s, 'a) eff" where
  "retE x = (\<lambda>s. (Inr x, s))"

definition throwE :: "js_error \<Rightarrow> ('s, 'a) eff" where
  "throwE e = (\<lambda>s. (Inl e, s))"

definition liftE :: "'a result \<Rightarrow> ('s, 'a) eff" where
  "liftE r = (\<lambda>s. (r, s))"

definition bindE :: "('s, 'a) eff \<Rightarrow> ('a \<Rightarrow> ('s, 'b) eff) \<Rightarrow> ('s, 'b) eff" where
  "bindE m f = (\<lambda>s. case m s of (Inl e, s') \<Rightarrow> (Inl e, s') | (Inr x, s') \<Rightarrow> f x s')"

text \<open>\<open>for (const x of xs)\<close> with an accumulator.\<close>

fun foldE :: "('acc \<Rightarrow> 'a \<Rightarrow> ('s, 'acc) eff) \<Rightarrow> 'acc \<Rightarrow> 'a list \<Rightarrow> ('s, 'acc) eff" where
  "foldE f acc [] = retE acc"
| "foldE f acc (x # xs) = bindE (f acc x) (\<lambda>acc'. foldE f acc' xs)"

text \<open>\<open>Promise.all(xs.map(...))\<close>, in order.\<close>

fun mapE :: "('a \<Rightarrow> ('s, 'b) eff) \<Rightarrow> 'a list \<Rightarrow> ('s, 'b list) eff" where
  "mapE f [] = retE []"
| "mapE f (x # xs) = bindE (f x) (\<lambda>y. bindE (mapE f xs) (\<lambda>ys. retE (y # ys)))"

text \<open>\<open>try { return await m } catch { return x }\<close>.\<close>

definition attempt :: "'a \<Rightarrow> ('s, 'a) eff \<Rightarrow> ('s, 'a) eff" where
  "attempt x m = (\<lambda>s. case m s of (Inl _, s') \<Rightarrow> (Inr x, s') | (Inr y, s') \<Rightarrow> (Inr y, s'))"

lemma attempt_returns: "\<exists>y s'. attempt x m s = (Inr y, s')"
  by (auto simp: attempt_def split: prod.split sum.split)

text \<open>
  \<open>try { ... } catch (e) { throw new Error(prefix + e.message) }\<close>, with the text of the error as the
  source shows it; an error of the engine is told by its name.
\<close>

definition error_message :: "js_error \<Rightarrow> string" where
  "error_message e = (case e of Thrown m \<Rightarrow> m | TypeError \<Rightarrow> ''TypeError'' | RangeError \<Rightarrow> ''RangeError'')"

definition error_text :: "js_error \<Rightarrow> string" where
  "error_text e = (case e of Thrown m \<Rightarrow> ''Error: '' @ m | _ \<Rightarrow> error_message e)"

definition explained :: "(js_error \<Rightarrow> string) \<Rightarrow> ('s, 'a) eff \<Rightarrow> ('s, 'a) eff" where
  "explained message m = (\<lambda>s. case m s of
       (Inl e, s') \<Rightarrow> (Inl (Thrown (message e)), s')
     | (Inr x, s') \<Rightarrow> (Inr x, s'))"

lemma explained_Inr [simp]: "explained message m s = (Inr x, s') \<longleftrightarrow> m s = (Inr x, s')"
  by (auto simp: explained_def split: prod.splits sum.splits)

lemma eff_apply [simp]:
  "retE x s = (Inr x, s)" "throwE e s = (Inl e, s)" "liftE r s = (r, s)"
  by (simp_all add: retE_def throwE_def liftE_def)

lemma bindE_ret [simp]: "bindE (retE x) f = f x"
  by (simp add: bindE_def retE_def)

lemma bindE_liftE: "bindE (liftE r) f = (case r of Inl e \<Rightarrow> throwE e | Inr x \<Rightarrow> f x)"
  by (auto simp: bindE_def liftE_def throwE_def split: sum.splits)

lemma bindE_apply:
  "bindE m f s = (case m s of (Inl e, s') \<Rightarrow> (Inl e, s') | (Inr x, s') \<Rightarrow> f x s')"
  by (simp add: bindE_def)

lemma bindE_eq_Inr:
  "bindE m f s = (Inr y, s'') \<longleftrightarrow> (\<exists>x s'. m s = (Inr x, s') \<and> f x s' = (Inr y, s''))"
  by (auto simp: bindE_def split: prod.splits sum.splits)

lemma foldE_invariant:
  assumes "foldE f acc xs s = (Inr acc', s')" and "P [] acc s"
    and "\<And>ys x zs a t a' t'. xs = ys @ x # zs \<Longrightarrow> P ys a t \<Longrightarrow> f a x t = (Inr a', t') \<Longrightarrow>
      P (ys @ [x]) a' t'"
  shows "P xs acc' s'"
proof -
  have "P (us @ vs) acc' s'"
    if "xs = us @ vs" "P us a t" "foldE f a vs t = (Inr acc', s')" for us vs a t
    using that
  proof (induction vs arbitrary: us a t)
    case Nil
    then show ?case by simp
  next
    case (Cons v vs)
    then obtain a1 t1 where st: "f a v t = (Inr a1, t1)" "foldE f a1 vs t1 = (Inr acc', s')"
      by (auto simp: bindE_eq_Inr)
    have "P ((us @ [v]) @ vs) acc' s'"
      by (rule Cons.IH [OF _ assms(3) [OF Cons.prems(1,2) st(1)] st(2)]) (simp add: Cons.prems(1))
    then show ?case by simp
  qed
  from this [of "[]" xs] assms(1,2) show ?thesis by simp
qed

text \<open>A loop whose every step returns from the states that satisfy an invariant returns.\<close>

lemma foldE_total:
  assumes "Q acc s" and "\<And>a t x. x \<in> set xs \<Longrightarrow> Q a t \<Longrightarrow> \<exists>a' t'. f a x t = (Inr a', t') \<and> Q a' t'"
  shows "\<exists>acc' s'. foldE f acc xs s = (Inr acc', s') \<and> Q acc' s'"
  using assms
proof (induction xs arbitrary: acc s)
  case Nil
  then show ?case by simp
next
  case (Cons x xs)
  obtain a' t' where "f acc x s = (Inr a', t')" "Q a' t'"
    using Cons.prems(2) [OF _ Cons.prems(1), of x] by auto
  then show ?case using Cons.IH [of a' t'] Cons.prems(2) by (simp add: bindE_apply)
qed

text \<open>What every step keeps, whether it returns or throws, the loop keeps.\<close>

lemma foldE_keeps:
  assumes "\<And>a x t. Q t \<Longrightarrow> Q (snd (f a x t))" and "Q s"
  shows "Q (snd (foldE f acc xs s))"
  using assms(2)
proof (induction xs arbitrary: acc s)
  case Nil
  then show ?case by simp
next
  case (Cons x xs)
  obtain r t where r: "f acc x s = (r, t)" by (cases "f acc x s")
  with assms(1) [OF Cons.prems, of acc x] have "Q t" by simp
  then show ?case using Cons.IH [of t] r by (cases r) (simp_all add: bindE_apply)
qed

text \<open>A loop fails with any of its steps that always fails.\<close>

lemma foldE_fails:
  assumes "x \<in> set xs" and "\<And>a t. \<exists>e t'. f a x t = (Inl e, t')"
  shows "\<exists>e s'. foldE f acc xs s = (Inl e, s')"
  using assms(1)
proof (induction xs arbitrary: acc s)
  case Nil
  then show ?case by simp
next
  case (Cons y ys)
  obtain r t where r: "f acc y s = (r, t)" by (cases "f acc y s")
  show ?case
  proof (cases r)
    case (Inl e)
    then show ?thesis using r by (simp add: bindE_apply)
  next
    case (Inr a)
    with r assms(2) [of acc s] Cons.prems have "x \<in> set ys" by (cases "x = y") auto
    then show ?thesis using Cons.IH [of a t] r Inr by (simp add: bindE_apply)
  qed
qed

text \<open>A loop whose steps append what a function yields, and leave the state, is that function.\<close>

lemma foldE_appends:
  assumes "\<And>a x. x \<in> set xs \<Longrightarrow> f a x s = (case h x of Inl e \<Rightarrow> (Inl e, s) | Inr y \<Rightarrow> (Inr (a @ [y]), s))"
  shows "foldE f acc xs s = (case mapR h xs of Inl e \<Rightarrow> (Inl e, s) | Inr ys \<Rightarrow> (Inr (acc @ ys), s))"
  using assms
proof (induction xs arbitrary: acc)
  case Nil
  then show ?case by simp
next
  case (Cons x xs)
  have "foldE f a xs s = (case mapR h xs of Inl e \<Rightarrow> (Inl e, s) | Inr ys \<Rightarrow> (Inr (a @ ys), s))" for a
    by (rule Cons.IH) (simp add: Cons.prems)
  then show ?case by (simp add: Cons.prems bindE_apply bindR_def split: sum.splits)
qed

section \<open>Operations that may not return\<close>

text \<open>An operation that may run for ever as well: \<open>None\<close> where it does not return.\<close>

type_synonym ('s, 'a) act = "'s \<Rightarrow> ('a result \<times> 's) option"

definition retA :: "'a \<Rightarrow> ('s, 'a) act" where
  "retA x = (\<lambda>s. Some (Inr x, s))"

definition bindA :: "('s, 'a) act \<Rightarrow> ('a \<Rightarrow> ('s, 'b) act) \<Rightarrow> ('s, 'b) act" where
  "bindA m f = (\<lambda>s. case m s of
       None \<Rightarrow> None
     | Some (Inl e, s') \<Rightarrow> Some (Inl e, s')
     | Some (Inr x, s') \<Rightarrow> f x s')"

fun mapA :: "('a \<Rightarrow> ('s, 'b) act) \<Rightarrow> 'a list \<Rightarrow> ('s, 'b list) act" where
  "mapA f [] = retA []"
| "mapA f (x # xs) = bindA (f x) (\<lambda>y. bindA (mapA f xs) (\<lambda>ys. retA (y # ys)))"

lemma retA_apply [simp]: "retA x s = Some (Inr x, s)"
  by (simp add: retA_def)

lemma bindA_ret [simp]: "bindA (retA x) f = f x"
  by (simp add: bindA_def retA_def)

lemma bindA_assoc: "bindA (bindA m f) h = bindA m (\<lambda>x. bindA (f x) h)"
  by (rule ext) (auto simp: bindA_def split: option.splits prod.splits sum.splits)

lemma bindA_eq_Inr:
  "bindA m f s = Some (Inr y, s'') \<longleftrightarrow> (\<exists>x s'. m s = Some (Inr x, s') \<and> f x s' = Some (Inr y, s''))"
  by (auto simp: bindA_def split: option.splits prod.splits sum.splits)

section \<open>Promises\<close>

text \<open>
  Promises of clients that may not answer, and \<open>Promise.all\<close>.

  A promise of a client's answer: \<open>None\<close> never settles. \<open>Promise.all\<close> rejects as soon as one promise
  rejects, and the first of them in the list stands for whichever that is; it stays pending while one
  of its promises does.
\<close>

type_synonym 'a promise = "'a result option"

definition awaitP :: "'a promise \<Rightarrow> ('a \<Rightarrow> 'b promise) \<Rightarrow> 'b promise" where
  "awaitP p f = (case p of None \<Rightarrow> None | Some (Inl e) \<Rightarrow> Some (Inl e) | Some (Inr x) \<Rightarrow> f x)"

fun rejection :: "'a promise list \<Rightarrow> js_error option" where
  "rejection [] = None"
| "rejection (Some (Inl e) # ps) = Some e"
| "rejection (_ # ps) = rejection ps"

fun unsettled :: "'a promise list \<Rightarrow> bool" where
  "unsettled [] \<longleftrightarrow> False"
| "unsettled (None # ps) \<longleftrightarrow> True"
| "unsettled (_ # ps) \<longleftrightarrow> unsettled ps"

fun fulfilled :: "'a promise list \<Rightarrow> 'a list" where
  "fulfilled [] = []"
| "fulfilled (Some (Inr x) # ps) = x # fulfilled ps"
| "fulfilled (_ # ps) = fulfilled ps"

definition promise_all :: "'a promise list \<Rightarrow> 'a list promise" where
  "promise_all ps =
     (case rejection ps of
        Some e \<Rightarrow> Some (Inl e)
      | None \<Rightarrow> if unsettled ps then None else Some (Inr (fulfilled ps)))"

lemma awaitP_simps [simp]:
  "awaitP None f = None" "awaitP (Some (Inl e)) f = Some (Inl e)" "awaitP (Some (Inr x)) f = f x"
  by (simp_all add: awaitP_def)

lemma awaitP_Inr: "awaitP p f = Some (Inr y) \<longleftrightarrow> (\<exists>x. p = Some (Inr x) \<and> f x = Some (Inr y))"
  by (auto simp: awaitP_def split: option.splits sum.splits)

lemma promise_all_Inr:
  "promise_all ps = Some (Inr ys) \<longleftrightarrow> ps = map (\<lambda>y. Some (Inr y)) ys"
proof -
  have "rejection ps = None \<and> \<not> unsettled ps \<longleftrightarrow> ps = map (\<lambda>y. Some (Inr y)) (fulfilled ps)"
    by (induction ps rule: fulfilled.induct) auto
  moreover have "fulfilled (map (\<lambda>y. Some (Inr y)) ys) = ys" by (induction ys) auto
  ultimately show ?thesis by (auto simp: promise_all_def split: option.splits if_splits)
qed

lemma promise_all_pointwise:
  "promise_all (map f xs) = Some (Inr ys) \<longleftrightarrow> list_all2 (\<lambda>x y. f x = Some (Inr y)) xs ys"
  by (auto simp: promise_all_Inr list_all2_conv_all_nth list_eq_iff_nth_eq)

lemma promise_all_member: "promise_all (map f xs) = Some (Inr ys) \<Longrightarrow> x \<in> set xs \<Longrightarrow> \<exists>y. f x = Some (Inr y)"
  by (auto simp: promise_all_pointwise list_all2_conv_all_nth in_set_conv_nth)

lemma promise_all_settles:
  assumes "\<And>x. x \<in> set xs \<Longrightarrow> f x \<noteq> None"
  shows "promise_all (map f xs) \<noteq> None"
proof -
  have "unsettled ps \<longleftrightarrow> None \<in> set ps" for ps :: "'b promise list"
    by (induction ps rule: unsettled.induct) auto
  then have "\<not> unsettled (map f xs)" using assms by force
  then show ?thesis by (simp add: promise_all_def split: option.splits)
qed

text \<open>\<open>for (const x of xs) ys.push(await f(x))\<close>.\<close>

fun mapP :: "('a \<Rightarrow> 'b promise) \<Rightarrow> 'a list \<Rightarrow> 'b list promise" where
  "mapP f [] = Some (Inr [])"
| "mapP f (x # xs) = awaitP (f x) (\<lambda>y. awaitP (mapP f xs) (\<lambda>ys. Some (Inr (y # ys))))"

lemma mapP_pointwise: "mapP f xs = Some (Inr ys) \<longleftrightarrow> list_all2 (\<lambda>x y. f x = Some (Inr y)) xs ys"
  by (induction xs arbitrary: ys) (auto simp: awaitP_Inr list_all2_Cons1)

lemma awaitP_settles: "p \<noteq> None \<Longrightarrow> (\<And>x. f x \<noteq> None) \<Longrightarrow> awaitP p f \<noteq> None"
  by (auto simp: awaitP_def split: option.splits sum.splits)

lemma mapP_settles: "(\<And>x. x \<in> set xs \<Longrightarrow> f x \<noteq> None) \<Longrightarrow> mapP f xs \<noteq> None"
proof (induction xs)
  case Nil
  then show ?case by simp
next
  case (Cons x xs)
  then have "f x \<noteq> None" "mapP f xs \<noteq> None" by simp_all
  then show ?case by (auto simp: awaitP_def split: option.splits sum.splits)
qed

end
