(* ===== verification/Js_Date.thy ===== *)
theory Js_Date
  imports Js_Effects
begin

text \<open>
  \<open>Date\<close> values of ECMAScript: milliseconds since 1970-01-01 UTC, the proleptic Gregorian
  calendar on them, \<open>toISOString\<close>, and the reading of a date-only string \<open>YYYY-MM-DD\<close>.
  The main fact is that reading back the first ten characters of \<open>toISOString\<close> gives the
  start of the same day, so those ten characters identify the day.
\<close>

type_synonym date = int

definition ms_per_day :: int where "ms_per_day = 86400000"

definition day_number :: "date \<Rightarrow> int" where
  "day_number t = t div ms_per_day"

definition start_of_day :: "date \<Rightarrow> date" where
  "start_of_day t = ms_per_day * day_number t"

lemma day_number_start_of_day [simp]: "day_number (start_of_day t) = day_number t"
  by (simp add: day_number_def start_of_day_def ms_per_day_def)

lemma start_of_day_eq_iff: "start_of_day s = start_of_day t \<longleftrightarrow> day_number s = day_number t"
  by (simp add: start_of_day_def ms_per_day_def)

lemma start_of_day_idem [simp]: "start_of_day (start_of_day t) = start_of_day t"
  by (simp add: start_of_day_eq_iff)

lemma start_of_day_bounds: "start_of_day t \<le> t" "t < start_of_day t + ms_per_day"
  by (simp_all add: start_of_day_def day_number_def ms_per_day_def)

section \<open>The calendar\<close>

text \<open>
  A day number is split into 400-year cycles, centuries, 4-year cycles and years that begin
  on the first of March, so that the leap day is the last day of its year.
\<close>

definition march_year :: "int \<Rightarrow> int \<times> int" where
  "march_year z =
     (let n = z div 146097; r = z mod 146097;
          c = min 3 (r div 36524); r2 = r - 36524 * c;
          q = r2 div 1461; r3 = r2 - 1461 * q;
          y = min 3 (r3 div 365)
      in (400 * n + 100 * c + 4 * q + y, r3 - 365 * y))"

definition civil :: "int \<Rightarrow> int \<times> int \<times> int" where
  "civil dn =
     (let (yy, doy) = march_year (dn + 719468);
          mp = (5 * doy + 2) div 153;
          m = (if mp < 10 then mp + 3 else mp - 9)
      in (if m \<le> 2 then yy + 1 else yy, m, doy - (153 * mp + 2) div 5 + 1))"

definition days_of_civil :: "int \<Rightarrow> int \<Rightarrow> int \<Rightarrow> int" where
  "days_of_civil y m d =
     (let yy = (if m \<le> 2 then y - 1 else y);
          mp = (m + 9) mod 12
      in yy * 365 + yy div 4 - yy div 100 + yy div 400
         + (153 * mp + 2) div 5 + d - 1 - 719468)"

lemma div_pos_pos_quot:
  assumes "0 \<le> r" "r < b" "a = b * q + r"
  shows "a div b = (q :: int)"
  using assms by (simp add: div_add1_eq)

lemma march_year_spec:
  assumes "march_year z = (yy, doy)"
  shows "z = yy * 365 + yy div 4 - yy div 100 + yy div 400 + doy" "0 \<le> doy" "doy \<le> 365"
proof -
  define n where "n = z div 146097"
  define r where "r = z mod 146097"
  define c where "c = min 3 (r div 36524)"
  define r2 where "r2 = r - 36524 * c"
  define q where "q = r2 div 1461"
  define r3 where "r3 = r2 - 1461 * q"
  define y where "y = min 3 (r3 div 365)"
  have yy: "yy = 400 * n + 100 * c + 4 * q + y" and doy: "doy = r3 - 365 * y"
    using assms
    unfolding march_year_def Let_def n_def [symmetric] r_def [symmetric] c_def [symmetric]
      r2_def [symmetric] q_def [symmetric] r3_def [symmetric] y_def [symmetric]
    by simp_all
  have r: "0 \<le> r" "r \<le> 146096" by (simp_all add: r_def)
  have c: "0 \<le> c" "c \<le> 3" "0 \<le> r2" "r2 \<le> 36524"
  proof -
    have "36524 * (r div 36524) \<le> r" "r < 36524 * (r div 36524) + 36524" by simp_all
    then show "0 \<le> c" "c \<le> 3" "0 \<le> r2" "r2 \<le> 36524"
      using r unfolding r2_def c_def by linarith+
  qed
  have q: "0 \<le> q" "q \<le> 24" "0 \<le> r3" "r3 \<le> 1460"
  proof -
    have "1461 * q \<le> r2" "r2 < 1461 * q + 1461" by (simp_all add: q_def)
    then show "0 \<le> q" "q \<le> 24" "0 \<le> r3" "r3 \<le> 1460"
      using c unfolding r3_def by linarith+
  qed
  have y: "0 \<le> y" "y \<le> 3" "0 \<le> doy" "doy \<le> 365"
  proof -
    have "365 * (r3 div 365) \<le> r3" "r3 < 365 * (r3 div 365) + 365" by simp_all
    then show "0 \<le> y" "y \<le> 3" "0 \<le> doy" "doy \<le> 365"
      using q unfolding doy y_def by linarith+
  qed
  have z: "z = 146097 * n + r" by (simp add: n_def r_def)
  have d4: "yy div 4 = 100 * n + 25 * c + q"
  proof (rule div_pos_pos_quot [of y 4])
    show "0 \<le> y" "y < 4" using y by auto
    show "yy = 4 * (100 * n + 25 * c + q) + y" using yy by simp
  qed
  have d100: "yy div 100 = 4 * n + c"
  proof (rule div_pos_pos_quot [of "4 * q + y" 100])
    show "0 \<le> 4 * q + y" "4 * q + y < 100" using q y by linarith+
    show "yy = 100 * (4 * n + c) + (4 * q + y)" using yy by simp
  qed
  have d400: "yy div 400 = n"
  proof (rule div_pos_pos_quot [of "100 * c + 4 * q + y" 400])
    show "0 \<le> 100 * c + 4 * q + y" "100 * c + 4 * q + y < 400" using c q y by linarith+
    show "yy = 400 * n + (100 * c + 4 * q + y)" using yy by simp
  qed
  show "z = yy * 365 + yy div 4 - yy div 100 + yy div 400 + doy"
    unfolding d4 d100 d400 using z yy doy by (simp add: r2_def r3_def)
  show "0 \<le> doy" "doy \<le> 365" using y by auto
qed

lemma civil_spec:
  assumes "civil dn = (y, m, d)"
  shows "days_of_civil y m d = dn" "1 \<le> m" "m \<le> 12" "1 \<le> d" "d \<le> 31"
proof -
  obtain yy doy where md: "march_year (dn + 719468) = (yy, doy)"
    by (cases "march_year (dn + 719468)")
  define mp where "mp = (5 * doy + 2) div 153"
  note my = march_year_spec [OF md]
  have mp: "0 \<le> mp" "mp \<le> 11" using my by (auto simp: mp_def)
  have m: "m = (if mp < 10 then mp + 3 else mp - 9)"
    and y: "y = (if m \<le> 2 then yy + 1 else yy)"
    and d: "d = doy - (153 * mp + 2) div 5 + 1"
    using assms by (auto simp: civil_def md Let_def mp_def)
  show m12: "1 \<le> m" "m \<le> 12" using mp by (auto simp: m)
  have "(m + 9) mod 12 = mp" using mp by (auto simp: m)
  moreover have "(if m \<le> 2 then y - 1 else y) = yy" by (simp add: y)
  ultimately have eq: "days_of_civil y m d = yy * 365 + yy div 4 - yy div 100 + yy div 400
      + (153 * mp + 2) div 5 + d - 1 - 719468"
    by (simp only: days_of_civil_def Let_def)
  have gen: "x = dn" if "dn + 719468 = A + doy" "d = doy - B + 1"
      "x = A + B + d - 1 - 719468" for A B x :: int
    using that by linarith
  show "days_of_civil y m d = dn" by (rule gen [OF my(1) d eq])
  have "153 * mp \<le> 5 * doy + 2" "5 * doy + 2 < 153 * mp + 153"
    by (simp_all add: mp_def)
  moreover define B where "B = (153 * mp + 2) div 5"
  have "5 * B \<le> 153 * mp + 2" "153 * mp + 2 < 5 * B + 5"
    by (simp_all add: B_def)
  ultimately show "1 \<le> d" "d \<le> 31" unfolding d B_def [symmetric] by linarith+
qed

definition year_of :: "date \<Rightarrow> int" where
  "year_of t = fst (civil (day_number t))"

definition days_in_month :: "int \<Rightarrow> int \<Rightarrow> int" where
  "days_in_month y m =
     (if m = 12 then days_of_civil (y + 1) 1 1 else days_of_civil y (m + 1) 1)
     - days_of_civil y m 1"

section \<open>Decimal digits\<close>

definition digit_char :: "int \<Rightarrow> char" where
  "digit_char v = char_of (nat v + 48)"

fun padded :: "nat \<Rightarrow> int \<Rightarrow> string" where
  "padded 0 v = []"
| "padded (Suc k) v = padded k (v div 10) @ [digit_char (v mod 10)]"

lemma digit_char_val: "0 \<le> v \<Longrightarrow> v < 10 \<Longrightarrow> digit_val (digit_char v) = v"
  by (simp add: digit_val_def digit_char_def code_char_of)

lemma digit_char_is_digit: "0 \<le> v \<Longrightarrow> v < 10 \<Longrightarrow> is_digit (digit_char v)"
  by (simp add: is_digit_def digit_char_def code_char_of)

lemma length_padded [simp]: "length (padded k v) = k"
  by (induction k arbitrary: v) auto

lemma padded_digits: "\<forall>c\<in>set (padded k v). is_digit c"
  by (induction k arbitrary: v) (auto simp: digit_char_is_digit)

lemma digits_val_padded: "0 \<le> v \<Longrightarrow> v < 10 ^ k \<Longrightarrow> digits_val (padded k v) = v"
proof (induction k arbitrary: v)
  case 0
  then show ?case by (simp add: digits_val_def)
next
  case (Suc k)
  have "v div 10 < 10 ^ k" using Suc.prems by simp
  then have "digits_val (padded k (v div 10)) = v div 10"
    using Suc.IH [of "v div 10"] Suc.prems by simp
  moreover have "digits_val (xs @ [d]) = 10 * digits_val xs + digit_val d" for xs d
    by (simp add: digits_val_def)
  ultimately show ?case by (simp add: digit_char_val)
qed

section \<open>toISOString\<close>

definition iso_year :: "int \<Rightarrow> string" where
  "iso_year y = (if 0 \<le> y \<and> y \<le> 9999 then padded 4 y
                 else if y < 0 then CHR ''-'' # padded 6 (- y)
                 else CHR ''+'' # padded 6 y)"

definition iso_date :: "int \<Rightarrow> string" where
  "iso_date dn = (let (y, m, d) = civil dn
                  in iso_year y @ ''-'' @ padded 2 m @ ''-'' @ padded 2 d)"

definition iso_time :: "int \<Rightarrow> string" where
  "iso_time ms = padded 2 (ms div 3600000) @ '':'' @ padded 2 (ms div 60000 mod 60) @ '':''
     @ padded 2 (ms div 1000 mod 60) @ ''.'' @ padded 3 (ms mod 1000)"

definition toISOString :: "date \<Rightarrow> string" where
  "toISOString t = iso_date (day_number t) @ ''T'' @ iso_time (t mod ms_per_day) @ ''Z''"

text \<open>\<open>timestamp.toISOString().substr(0, 10)\<close>.\<close>

definition iso_day :: "date \<Rightarrow> string" where
  "iso_day t = take 10 (toISOString t)"

text \<open>\<open>new Date(s)\<close> for a date-only string.\<close>

definition parse_day :: "string \<Rightarrow> date option" where
  "parse_day s =
     (let y = take 4 s; m = take 2 (drop 5 s); d = take 2 (drop 8 s) in
      if length s = 10 \<and> list_all is_digit (y @ m @ d) \<and> s ! 4 = CHR ''-'' \<and> s ! 7 = CHR ''-''
         \<and> 1 \<le> digits_val m \<and> digits_val m \<le> 12 \<and> 1 \<le> digits_val d \<and> digits_val d \<le> 31
      then Some (ms_per_day * days_of_civil (digits_val y) (digits_val m) (digits_val d))
      else None)"

lemma iso_day_eq:
  assumes "civil (day_number t) = (y, m, d)" and "0 \<le> y" "y \<le> 9999"
  shows "iso_day t = padded 4 y @ ''-'' @ padded 2 m @ ''-'' @ padded 2 d"
  using assms by (simp add: iso_day_def toISOString_def iso_date_def iso_year_def)

lemma parse_iso_day:
  assumes "0 \<le> year_of t" "year_of t \<le> 9999"
  shows "parse_day (iso_day t) = Some (start_of_day t)"
proof -
  obtain y m d where c: "civil (day_number t) = (y, m, d)"
    by (cases "civil (day_number t)") auto
  have y: "0 \<le> y" "y \<le> 9999" using assms by (auto simp: year_of_def c)
  note s = iso_day_eq [OF c y] and sp = civil_spec [OF c]
  let ?s = "padded 4 y @ ''-'' @ padded 2 m @ ''-'' @ padded 2 d"
  have parts: "take 4 ?s = padded 4 y" "take 2 (drop 5 ?s) = padded 2 m"
      "take 2 (drop 8 ?s) = padded 2 d" "?s ! 4 = CHR ''-''" "?s ! 7 = CHR ''-''" "length ?s = 10"
    by (simp_all add: nth_append)
  have vals: "digits_val (padded 4 y) = y" "digits_val (padded 2 m) = m"
      "digits_val (padded 2 d) = d"
    using y sp by (auto intro!: digits_val_padded)
  have "list_all is_digit (padded 4 y @ padded 2 m @ padded 2 d)"
    using padded_digits by (auto simp: list_all_iff)
  then have "parse_day ?s = Some (ms_per_day * days_of_civil y m d)"
    using sp unfolding parse_day_def Let_def parts vals by simp
  then show ?thesis by (simp only: s sp(1) start_of_day_def)
qed

text \<open>Two dates of the years 0 to 9999 print the same ten characters when they are on one day.\<close>

lemma iso_day_inject:
  assumes "0 \<le> year_of s" "year_of s \<le> 9999" "0 \<le> year_of t" "year_of t \<le> 9999"
  shows "iso_day s = iso_day t \<longleftrightarrow> day_number s = day_number t"
proof
  assume "iso_day s = iso_day t"
  then have "Some (start_of_day s) = Some (start_of_day t)"
    using parse_iso_day assms by metis
  then show "day_number s = day_number t" by (simp add: start_of_day_eq_iff)
next
  assume "day_number s = day_number t"
  then have "civil (day_number s) = civil (day_number t)" by simp
  then show "iso_day s = iso_day t"
    using assms iso_day_eq [of s] iso_day_eq [of t]
    by (cases "civil (day_number t)") (auto simp: year_of_def)
qed

lemma iso_time_inject:
  assumes "0 \<le> a" "a < ms_per_day" "0 \<le> b" "b < ms_per_day" "iso_time a = iso_time b"
  shows "a = b"
proof -
  have ab: "a < 86400000" "b < 86400000" using assms by (auto simp: ms_per_day_def)
  have "padded 2 (a div 3600000) = padded 2 (b div 3600000)"
    "padded 2 (a div 60000 mod 60) = padded 2 (b div 60000 mod 60)"
    "padded 2 (a div 1000 mod 60) = padded 2 (b div 1000 mod 60)"
    "padded 3 (a mod 1000) = padded 3 (b mod 1000)"
    using assms(5) by (auto simp: iso_time_def)
  moreover have "digits_val (padded 2 (x div 3600000)) = x div 3600000"
    "digits_val (padded 2 (x div 60000 mod 60)) = x div 60000 mod 60"
    "digits_val (padded 2 (x div 1000 mod 60)) = x div 1000 mod 60"
    "digits_val (padded 3 (x mod 1000)) = x mod 1000"
    if "0 \<le> x" "x < 86400000" for x
    using that by (auto intro!: digits_val_padded)
  ultimately have "a div 3600000 = b div 3600000" "a div 60000 mod 60 = b div 60000 mod 60"
    "a div 1000 mod 60 = b div 1000 mod 60" "a mod 1000 = b mod 1000"
    using assms(1,3) ab by metis+
  moreover have "x = 3600000 * (x div 3600000) + 60000 * (x div 60000 mod 60)
      + 1000 * (x div 1000 mod 60) + x mod 1000" for x :: int
  proof -
    have "x div 1000 div 60 = x div 60000" "x div 60000 div 60 = x div 3600000"
      by (simp_all add: zdiv_zmult2_eq [symmetric])
    then have "x div 1000 = 60 * (x div 60000) + x div 1000 mod 60"
      "x div 60000 = 60 * (x div 3600000) + x div 60000 mod 60"
      by (metis mult_div_mod_eq)+
    moreover have "x = 1000 * (x div 1000) + x mod 1000" by simp
    ultimately show ?thesis by linarith
  qed
  ultimately show ?thesis by metis
qed

text \<open>\<open>toISOString\<close> identifies the instant.\<close>

lemma toISOString_inject:
  assumes "0 \<le> year_of s" "year_of s \<le> 9999" "0 \<le> year_of t" "year_of t \<le> 9999"
  shows "toISOString s = toISOString t \<longleftrightarrow> s = t"
proof
  assume eq: "toISOString s = toISOString t"
  then have "iso_day s = iso_day t" by (simp add: iso_day_def)
  then have dn: "day_number s = day_number t" using iso_day_inject assms by simp
  then have "iso_time (s mod ms_per_day) = iso_time (t mod ms_per_day)"
    using eq by (simp add: toISOString_def)
  then have "s mod ms_per_day = t mod ms_per_day"
    by (intro iso_time_inject) (simp_all add: ms_per_day_def)
  moreover have "s div ms_per_day = t div ms_per_day" using dn by (simp add: day_number_def)
  ultimately show "s = t" by (metis div_mult_mod_eq)
qed simp

lemmas date_eval [js_eval] = toISOString_def iso_date_def iso_time_def iso_year_def iso_day_def
  civil_def march_year_def day_number_def ms_per_day_def digit_char_def year_of_def

lemma toISOString_epoch: "toISOString 0 = ''1970-01-01T00:00:00.000Z''"
  by code_simp

section \<open>Reading a timestamp\<close>

text \<open>
  \<open>new Date(s)\<close> for the two ISO forms that the program writes and reads, a date or a date
  with a time in UTC; every other string is an invalid date here.
\<close>

definition parse_time :: "string \<Rightarrow> int option" where
  "parse_time s =
     (let hh = take 2 s; mm = take 2 (drop 3 s); ss = take 2 (drop 6 s); ms = take 3 (drop 9 s) in
      if length s = 12 \<and> list_all is_digit (hh @ mm @ ss @ ms)
         \<and> s ! 2 = CHR '':'' \<and> s ! 5 = CHR '':'' \<and> s ! 8 = CHR ''.''
         \<and> digits_val hh < 24 \<and> digits_val mm < 60 \<and> digits_val ss < 60
      then Some (3600000 * digits_val hh + 60000 * digits_val mm + 1000 * digits_val ss
                 + digits_val ms)
      else None)"

definition parse_date :: "string \<Rightarrow> date option" where
  "parse_date s =
     (if length s = 10 then parse_day s
      else if length s = 24 \<and> s ! 10 = CHR ''T'' \<and> s ! 23 = CHR ''Z'' then
        (case (parse_day (take 10 s), parse_time (take 12 (drop 11 s))) of
           (Some d, Some t) \<Rightarrow> Some (d + t)
         | _ \<Rightarrow> None)
      else None)"

lemma time_parts: "x = 3600000 * (x div 3600000) + 60000 * (x div 60000 mod 60)
      + 1000 * (x div 1000 mod 60) + x mod 1000" for x :: int
proof -
  have "x div 1000 div 60 = x div 60000" "x div 60000 div 60 = x div 3600000"
    by (simp_all add: zdiv_zmult2_eq [symmetric])
  then have "x div 1000 = 60 * (x div 60000) + x div 1000 mod 60"
    "x div 60000 = 60 * (x div 3600000) + x div 60000 mod 60"
    by (metis mult_div_mod_eq)+
  moreover have "x = 1000 * (x div 1000) + x mod 1000" by simp
  ultimately show ?thesis by linarith
qed

lemma parse_iso_time:
  assumes "0 \<le> x" "x < ms_per_day"
  shows "parse_time (iso_time x) = Some x"
proof -
  let ?h = "padded 2 (x div 3600000)" and ?m = "padded 2 (x div 60000 mod 60)"
    and ?s = "padded 2 (x div 1000 mod 60)" and ?f = "padded 3 (x mod 1000)"
  have x: "x < 86400000" using assms by (simp add: ms_per_day_def)
  have parts: "take 2 (iso_time x) = ?h" "take 2 (drop 3 (iso_time x)) = ?m"
      "take 2 (drop 6 (iso_time x)) = ?s" "take 3 (drop 9 (iso_time x)) = ?f"
      "iso_time x ! 2 = CHR '':''" "iso_time x ! 5 = CHR '':''" "iso_time x ! 8 = CHR ''.''"
      "length (iso_time x) = 12"
    by (simp_all add: iso_time_def nth_append)
  have vals: "digits_val ?h = x div 3600000" "digits_val ?m = x div 60000 mod 60"
      "digits_val ?s = x div 1000 mod 60" "digits_val ?f = x mod 1000"
    using assms(1) x by (auto intro!: digits_val_padded)
  have "list_all is_digit (?h @ ?m @ ?s @ ?f)"
    using padded_digits by (auto simp: list_all_iff)
  moreover have "x div 3600000 < 24" "x div 60000 mod 60 < 60" "x div 1000 mod 60 < 60"
    using x by simp_all
  ultimately show ?thesis
    unfolding parse_time_def Let_def parts vals time_parts [of x, symmetric]
    by (simp only: simp_thms if_True)
qed

lemma parse_toISOString:
  assumes "0 \<le> year_of t" "year_of t \<le> 9999"
  shows "parse_date (toISOString t) = Some t"
proof -
  obtain y m d where c: "civil (day_number t) = (y, m, d)"
    by (cases "civil (day_number t)") auto
  then have len: "length (iso_date (day_number t)) = 10"
    using assms by (simp add: iso_date_def iso_year_def year_of_def)
  let ?d = "iso_date (day_number t)" and ?x = "t mod ms_per_day"
  have x: "0 \<le> ?x" "?x < ms_per_day" by (simp_all add: ms_per_day_def)
  have lx: "length (iso_time ?x) = 12" by (simp add: iso_time_def)
  have parts: "take 10 (toISOString t) = iso_day t"
      "take 12 (drop 11 (toISOString t)) = iso_time ?x" "length (toISOString t) = 24"
      "toISOString t ! 10 = CHR ''T''" "toISOString t ! 23 = CHR ''Z''"
    using len lx by (simp_all add: toISOString_def iso_day_def nth_append)
  have "start_of_day t + ?x = t"
    by (simp add: start_of_day_def day_number_def)
  then show ?thesis
    by (simp add: parse_date_def parts parse_iso_day [OF assms] parse_iso_time [OF x])
qed

lemma parse_date_iso_day:
  assumes "0 \<le> year_of t" "year_of t \<le> 9999"
  shows "parse_date (iso_day t) = Some (start_of_day t)"
proof -
  obtain y m d where c: "civil (day_number t) = (y, m, d)"
    by (cases "civil (day_number t)") auto
  then have "length (iso_day t) = 10"
    using assms by (simp add: iso_day_eq [OF c] year_of_def)
  then show ?thesis using parse_iso_day [OF assms] by (simp add: parse_date_def)
qed

section \<open>Months\<close>

text \<open>The first day of the month with a running number; months have at least 28 days.\<close>

definition month_start :: "int \<Rightarrow> int" where
  "month_start k = days_of_civil (k div 12) (k mod 12 + 1) 1"

lemma days_of_civil_day: "days_of_civil y m d = days_of_civil y m 1 + d - 1"
  by (simp add: days_of_civil_def Let_def)

lemma month_start_civil:
  "1 \<le> m \<Longrightarrow> m \<le> 12 \<Longrightarrow> month_start (y * 12 + (m - 1)) = days_of_civil y m 1"
proof -
  assume "1 \<le> m" "m \<le> 12"
  then have "(y * 12 + (m - 1)) div 12 = y" "(y * 12 + (m - 1)) mod 12 = m - 1" by simp_all
  then show ?thesis by (simp add: month_start_def)
qed

lemma div_next: "0 < c \<Longrightarrow> (a + 1) div c = a div c \<or> (a + 1) div c = a div c + 1" for a c :: int
proof -
  assume c: "0 < c"
  have "a div c \<le> (a + 1) div c" "(a + 1) div c \<le> (a + c) div c"
    by (rule zdiv_mono1; use c in simp)+
  moreover have "(a + c) div c = a div c + 1" using c by simp
  ultimately show ?thesis by linarith
qed

lemma leap_step:
  "a div 4 - a div 100 + a div 400 \<le> (a + 1) div 4 - (a + 1) div 100 + (a + 1) div 400" for a :: int
proof -
  define p c where "p = a div 4" and "c = p div 25"
  have eqs: "a div 100 = c" "a div 400 = c div 4" "(a + 1) div 100 = (a + 1) div 4 div 25"
    "(a + 1) div 400 = (a + 1) div 4 div 25 div 4"
    by (simp_all add: p_def c_def zdiv_zmult2_eq [symmetric])
  consider "(a + 1) div 4 = p" | "(a + 1) div 4 = p + 1" "(p + 1) div 25 = c"
    | "(a + 1) div 4 = p + 1" "(p + 1) div 25 = c + 1"
    using div_next [of 4 a] div_next [of 25 p] by (auto simp: p_def c_def)
  then show ?thesis
  proof cases
    case 1
    then show ?thesis unfolding eqs by (simp add: p_def c_def)
  next
    case 2
    then show ?thesis unfolding eqs by (simp add: p_def [symmetric])
  next
    case 3
    have "c div 4 \<le> (c + 1) div 4" by (simp add: zdiv_mono1)
    with 3 show ?thesis unfolding eqs by (simp add: p_def [symmetric])
  qed
qed

definition year_days :: "int \<Rightarrow> int" where
  "year_days y = y * 365 + y div 4 - y div 100 + y div 400"

lemma year_days_step: "year_days (y - 1) + 365 \<le> year_days y"
  using leap_step [of "y - 1"] by (simp add: year_days_def left_diff_distrib)

lemma days_of_civil_year_days:
  "days_of_civil y m d = year_days (if m \<le> 2 then y - 1 else y)
     + (153 * ((m + 9) mod 12) + 2) div 5 + d - 1 - 719468"
  by (simp only: days_of_civil_def year_days_def Let_def)

lemma month_length:
  assumes "1 \<le> m" "m \<le> 12"
  shows "28 \<le> (if m = 12 then days_of_civil (y + 1) 1 1 else days_of_civil y (m + 1) 1)
              - days_of_civil y m 1"
proof -
  have "m = 1 \<or> m = 2 \<or> m = 3 \<or> m = 4 \<or> m = 5 \<or> m = 6 \<or> m = 7 \<or> m = 8 \<or> m = 9 \<or> m = 10
      \<or> m = 11 \<or> m = 12"
    using assms by presburger
  then show ?thesis
    unfolding days_of_civil_year_days using year_days_step [of y] by (elim disjE) simp_all
qed

lemma days_in_month_ge: "1 \<le> m \<Longrightarrow> m \<le> 12 \<Longrightarrow> 28 \<le> days_in_month y m"
  using month_length [of m y] by (simp add: days_in_month_def)

lemma month_start_step: "month_start k + 28 \<le> month_start (k + 1)"
proof -
  define y m where "y = k div 12" and "m = k mod 12 + 1"
  have m: "1 \<le> m" "m \<le> 12" by (simp_all add: m_def)
  have k: "k = y * 12 + (m - 1)" by (simp add: y_def m_def)
  have "month_start (k + 1) = (if m = 12 then days_of_civil (y + 1) 1 1 else days_of_civil y (m + 1) 1)"
  proof (cases "m = 12")
    case True
    then have "k + 1 = (y + 1) * 12 + (1 - 1)" using k by simp
    then show ?thesis using True month_start_civil [of 1 "y + 1"] by (simp only:) simp
  next
    case False
    then have "k + 1 = y * 12 + ((m + 1) - 1)" "m + 1 \<le> 12" using k m by simp_all
    then show ?thesis using False m month_start_civil [of "m + 1" y] by simp
  qed
  moreover have "month_start k = days_of_civil y m 1" using month_start_civil [OF m] k by simp
  ultimately show ?thesis using month_length [OF m, of y] by simp
qed

lemma month_start_add: "month_start k + 28 * int n \<le> month_start (k + int n)"
proof (induction n)
  case (Suc n)
  then show ?case using month_start_step [of "k + int n"] by (simp add: ac_simps)
qed simp

text \<open>The day that \<open>civil\<close> gives is one of its month.\<close>

lemma march_year_upper:
  assumes "march_year z = (yy, doy)"
  shows "z < year_days (yy + 1)"
proof -
  define n where "n = z div 146097"
  define r where "r = z mod 146097"
  define c where "c = min 3 (r div 36524)"
  define r2 where "r2 = r - 36524 * c"
  define q where "q = r2 div 1461"
  define r3 where "r3 = r2 - 1461 * q"
  define y where "y = min 3 (r3 div 365)"
  have yy: "yy = 400 * n + 100 * c + 4 * q + y" and doy: "doy = r3 - 365 * y"
    using assms
    unfolding march_year_def Let_def n_def [symmetric] r_def [symmetric] c_def [symmetric]
      r2_def [symmetric] q_def [symmetric] r3_def [symmetric] y_def [symmetric]
    by simp_all
  have r: "0 \<le> r" "r \<le> 146096" by (simp_all add: r_def)
  have rs: "36524 * (r div 36524) \<le> r" "r < 36524 * (r div 36524) + 36524" by simp_all
  have c: "0 \<le> c" "c \<le> 3" "0 \<le> r2" "r2 \<le> 36524" "c < 3 \<Longrightarrow> r2 < 36524"
    using r rs unfolding r2_def c_def by linarith+
  have qs: "1461 * q \<le> r2" "r2 < 1461 * q + 1461" by (simp_all add: q_def)
  have q: "0 \<le> q" "q \<le> 24" "0 \<le> r3" "r3 \<le> 1460"
    using c qs unfolding r3_def by linarith+
  have ys: "365 * (r3 div 365) \<le> r3" "r3 < 365 * (r3 div 365) + 365" by simp_all
  have y: "0 \<le> y" "y \<le> 3" "doy \<le> 365" "y < 3 \<Longrightarrow> doy < 365"
    using q ys unfolding doy y_def by linarith+
  have z: "z = year_days yy + doy" using march_year_spec(1) [OF assms] by (simp add: year_days_def)
  have step: "year_days yy + 365 \<le> year_days (yy + 1)" using year_days_step [of "yy + 1"] by simp
  consider "y < 3" | "y = 3" "q < 24" | "y = 3" "q = 24" "c < 3" | "y = 3" "q = 24" "c = 3"
    using y q c by linarith
  then show ?thesis
  proof cases
    case 1
    with z step y show ?thesis by linarith
  next
    case 2
    define p where "p = 100 * n + 25 * c + q"
    have p: "yy div 4 = p" "(yy + 1) div 4 = p + 1" using yy 2 by (simp_all add: p_def)
    have "p div 25 = 4 * n + c" "(p + 1) div 25 = 4 * n + c" using 2 q by (simp_all add: p_def)
    then have d: "yy div 100 = 4 * n + c" "(yy + 1) div 100 = 4 * n + c"
      using p zdiv_zmult2_eq [of 25 yy 4] zdiv_zmult2_eq [of 25 "yy + 1" 4] by simp_all
    have "yy div 400 = n" "(yy + 1) div 400 = n"
      using d c zdiv_zmult2_eq [of 4 yy 100] zdiv_zmult2_eq [of 4 "yy + 1" 100] by simp_all
    with p d have "year_days (yy + 1) = year_days yy + 366" by (simp add: year_days_def)
    with z y show ?thesis by linarith
  next
    case 3
    then have "doy < 365" using c unfolding doy r3_def by linarith
    with z step show ?thesis by linarith
  next
    case 4
    then have "yy = 400 * n + 399" using yy by simp
    then have "year_days (yy + 1) = year_days yy + 366" by (simp add: year_days_def)
    with z y show ?thesis by linarith
  qed
qed

lemma civil_upper:
  assumes "civil dn = (y, m, d)"
  shows "dn < month_start (y * 12 + m)"
proof -
  obtain yy doy where md: "march_year (dn + 719468) = (yy, doy)"
    by (cases "march_year (dn + 719468)")
  define mp where "mp = (5 * doy + 2) div 153"
  note my = march_year_spec [OF md] and up = march_year_upper [OF md]
  have mps: "153 * mp \<le> 5 * doy + 2" "5 * doy + 2 < 153 * mp + 153" by (simp_all add: mp_def)
  have mp: "0 \<le> mp" "mp \<le> 11" using my mps by linarith+
  have m: "m = (if mp < 10 then mp + 3 else mp - 9)" and y: "y = (if m \<le> 2 then yy + 1 else yy)"
    using assms by (auto simp: civil_def md Let_def mp_def)
  have dn: "dn = year_days yy + doy - 719468" using my(1) by (simp add: year_days_def)
  have next_month: "month_start (y * 12 + m)
      = (if m = 12 then days_of_civil (y + 1) 1 1 else days_of_civil y (m + 1) 1)"
  proof (cases "m = 12")
    case True
    then show ?thesis using month_start_civil [of 1 "y + 1"] by simp
  next
    case False
    then show ?thesis using month_start_civil [of "m + 1" y] civil_spec(2,3) [OF assms] by simp
  qed
  have "mp = 0 \<or> mp = 1 \<or> mp = 2 \<or> mp = 3 \<or> mp = 4 \<or> mp = 5 \<or> mp = 6 \<or> mp = 7 \<or> mp = 8 \<or> mp = 9
      \<or> mp = 10 \<or> mp = 11"
    using mp by presburger
  then show ?thesis
    unfolding next_month dn days_of_civil_year_days using m y mps up dn by (elim disjE) simp_all
qed

text \<open>The running number of the month of a date.\<close>

definition month_of :: "date \<Rightarrow> int" where
  "month_of t = (case civil (day_number t) of (y, m, d) \<Rightarrow> y * 12 + (m - 1))"

definition day_of_month :: "date \<Rightarrow> int" where
  "day_of_month t = (case civil (day_number t) of (y, m, d) \<Rightarrow> d)"

lemma month_of_bounds:
  "month_start (month_of t) \<le> day_number t" "day_number t < month_start (month_of t + 1)"
  "day_number t = month_start (month_of t) + day_of_month t - 1" "1 \<le> day_of_month t"
proof -
  obtain y m d where c: "civil (day_number t) = (y, m, d)" by (cases "civil (day_number t)")
  note spec = civil_spec [OF c]
  have "month_start (y * 12 + (m - 1)) + d - 1 = day_number t"
    using month_start_civil [OF spec(2,3), of y] spec(1) days_of_civil_day [of y m d] by simp
  then show "month_start (month_of t) \<le> day_number t" "day_number t < month_start (month_of t + 1)"
    "day_number t = month_start (month_of t) + day_of_month t - 1" "1 \<le> day_of_month t"
    using spec(4) civil_upper [OF c] by (simp_all add: month_of_def day_of_month_def c)
qed

lemma month_start_less: "j < k \<Longrightarrow> month_start j < month_start k"
  using month_start_add [of j "nat (k - j)"] by simp

lemma month_of_unique:
  assumes "month_start k \<le> day_number t" "day_number t < month_start (k + 1)"
  shows "month_of t = k"
proof (rule ccontr)
  assume "month_of t \<noteq> k"
  then consider "month_of t < k" | "k < month_of t" by linarith
  then show False
  proof cases
    case 1
    then have "month_start (month_of t + 1) \<le> month_start k"
      using month_start_less [of "month_of t + 1" k] by (cases "month_of t + 1 = k") auto
    with assms month_of_bounds(2) [of t] show False by linarith
  next
    case 2
    then have "month_start (k + 1) \<le> month_start (month_of t)"
      using month_start_less [of "k + 1" "month_of t"] by (cases "k + 1 = month_of t") auto
    with assms month_of_bounds(1) [of t] show False by linarith
  qed
qed

lemma day_of_month_unique: "month_of t = k \<Longrightarrow> day_number t = month_start k + d - 1 \<Longrightarrow> day_of_month t = d"
  using month_of_bounds(3) [of t] by simp

lemmas parse_eval [js_eval] = parse_day_def parse_time_def parse_date_def days_of_civil_def

end
