(* ===== verification/Third_Party.thy ===== *)
theory Third_Party
  imports Js_Date
begin

text \<open>
  The packages the repository calls without containing them. Each function of a package is a
  parameter of the definitions that use it; this theory states, as a locale per package
  function, the documented behaviour those definitions rely on, proves what follows from it
  once, and interprets each locale on an executable implementation of the documentation, so
  that the hypotheses of the properties can be met on concrete input.
\<close>

section \<open>ramda: reduceBy\<close>

type_synonym ('acc, 'a) reduce_by =
  "('acc \<Rightarrow> 'a \<Rightarrow> 'acc) \<Rightarrow> 'acc \<Rightarrow> ('a \<Rightarrow> string) \<Rightarrow> 'a list \<Rightarrow> 'acc obj"

definition reduceBy_documented :: "('acc, 'a) reduce_by" where
  "reduceBy_documented f a key xs =
     group_fold key (\<lambda>x v. f (case v of None \<Rightarrow> a | Some y \<Rightarrow> y) x) [] xs"

locale ramda_reduceBy =
  fixes reduceBy :: "('acc, 'a) reduce_by"
  assumes reduceBy_get:
    "obj_get (reduceBy f a key xs) k =
       (if k \<in> key ` set xs then Some (foldl f a (filter (\<lambda>x. key x = k) xs)) else None)"
  and reduceBy_keys: "map fst (reduceBy f a key xs) = first_occurrences [] (map key xs)"
begin

lemma reduceBy_wf: "obj_wf (reduceBy f a key xs)"
  by (simp add: obj_wf_def reduceBy_keys distinct_first_occurrences)

lemma reduceBy_Some:
  assumes "(k, v) \<in> set (reduceBy f a key xs)"
  shows "v = foldl f a (filter (\<lambda>x. key x = k) xs)" "k \<in> key ` set xs"
proof -
  have "obj_get (reduceBy f a key xs) k = Some v"
    using assms reduceBy_wf by (auto simp: obj_wf_def)
  then show "v = foldl f a (filter (\<lambda>x. key x = k) xs)" "k \<in> key ` set xs"
    by (auto simp: reduceBy_get split: if_splits)
qed

text \<open>The result is determined: a list of pairs with these keys and these values.\<close>

lemma reduceBy_eq:
  "reduceBy f a key xs =
     map (\<lambda>k. (k, foldl f a (filter (\<lambda>x. key x = k) xs))) (first_occurrences [] (map key xs))"
proof -
  have "reduceBy f a key xs = map (\<lambda>p. (fst p, snd p)) (reduceBy f a key xs)" by simp
  also have "\<dots> = map (\<lambda>p. (fst p, foldl f a (filter (\<lambda>x. key x = fst p) xs)))
      (reduceBy f a key xs)"
    using reduceBy_Some(1) by (intro map_cong refl) auto
  also have "\<dots> = map (\<lambda>k. (k, foldl f a (filter (\<lambda>x. key x = k) xs)))
      (map fst (reduceBy f a key xs))"
    by simp
  finally show ?thesis by (simp only: reduceBy_keys)
qed

end

lemma reduceBy_documented_get:
  "obj_get (reduceBy_documented f a key xs) k =
     (if k \<in> key ` set xs then Some (foldl f a (filter (\<lambda>x. key x = k) xs)) else None)"
proof -
  have "obj_get (reduceBy_documented f a key xs) k =
      foldl (\<lambda>v x. Some (f (case v of None \<Rightarrow> a | Some y \<Rightarrow> y) x)) None (filter (\<lambda>x. key x = k) xs)"
    by (simp add: reduceBy_documented_def map_of_group_fold)
  also have "\<dots> = (if filter (\<lambda>x. key x = k) xs = [] then None
      else Some (foldl f a (filter (\<lambda>x. key x = k) xs)))"
    using foldl_Some_default [of "\<lambda>x y. f y x" a None "filter (\<lambda>x. key x = k) xs"] by simp
  finally show ?thesis by (auto simp: filter_empty_conv)
qed

interpretation reduceBy_doc: ramda_reduceBy reduceBy_documented
  by unfold_locales
    (simp_all add: reduceBy_documented_get, simp add: reduceBy_documented_def keys_group_fold)

section \<open>ramda: median\<close>

definition middle_mean :: "rat list \<Rightarrow> rat" where
  "middle_mean s =
     (let n = length s in
      if odd n then s ! (n div 2) else (s ! (n div 2 - 1) + s ! (n div 2)) / 2)"

definition median_documented :: "jsnum option list \<Rightarrow> jsnum" where
  "median_documented xs =
     (if xs = [] \<or> \<not> list_all (\<lambda>x. is_fin (toNum x)) xs then NaN
      else Fin (middle_mean (sort (map (\<lambda>x. case toNum x of Fin a \<Rightarrow> a | _ \<Rightarrow> 0) xs))))"

locale ramda_median =
  fixes median :: "jsnum option list \<Rightarrow> jsnum"
  assumes median_numbers:
    "xs \<noteq> [] \<Longrightarrow> median (map (\<lambda>a. Some (Fin a)) xs) = Fin (middle_mean (sort xs))"
begin

lemma median_bounds:
  assumes "xs \<noteq> []" and "\<And>a. a \<in> set xs \<Longrightarrow> lo \<le> a \<and> a \<le> hi"
  shows "\<exists>m. median (map (\<lambda>a. Some (Fin a)) xs) = Fin m \<and> lo \<le> m \<and> m \<le> hi"
proof -
  let ?s = "sort xs"
  have nth: "lo \<le> ?s ! i \<and> ?s ! i \<le> hi" if "i < length xs" for i
  proof -
    have "?s ! i \<in> set xs" using that by (metis length_sort nth_mem set_sort)
    then show ?thesis by (rule assms(2))
  qed
  have "lo \<le> middle_mean ?s \<and> middle_mean ?s \<le> hi"
  proof (cases "odd (length xs)")
    case True
    then have "length xs div 2 < length xs" by presburger
    with True nth show ?thesis by (simp add: middle_mean_def)
  next
    case False
    have "0 < length xs" using assms(1) by simp
    then have "length xs div 2 < length xs" "length xs div 2 - 1 < length xs" by linarith+
    then have "lo + lo \<le> ?s ! (length xs div 2 - 1) + ?s ! (length xs div 2)"
      "?s ! (length xs div 2 - 1) + ?s ! (length xs div 2) \<le> hi + hi"
      using nth by (meson add_mono)+
    with False show ?thesis by (simp add: middle_mean_def Let_def)
  qed
  then show ?thesis using median_numbers assms(1) by blast
qed

end

interpretation median_doc: ramda_median median_documented
proof
  fix xs :: "rat list"
  assume "xs \<noteq> []"
  moreover have "list_all (\<lambda>x. is_fin (toNum x)) (map (\<lambda>a. Some (Fin a)) xs)"
    by (simp add: list_all_iff)
  moreover have "map (\<lambda>x. case toNum x of Fin a \<Rightarrow> a | _ \<Rightarrow> 0) (map (\<lambda>a. Some (Fin a)) xs) = xs"
    by (simp add: comp_def)
  ultimately show "median_documented (map (\<lambda>a. Some (Fin a)) xs) = Fin (middle_mean (sort xs))"
    by (simp add: median_documented_def)
qed

section \<open>ramda: union\<close>

definition union_documented :: "string list \<Rightarrow> string list \<Rightarrow> string list" where
  "union_documented xs ys = first_occurrences [] (xs @ ys)"

locale ramda_union =
  fixes union :: "string list \<Rightarrow> string list \<Rightarrow> string list"
  assumes union_set: "set (union xs ys) = set xs \<union> set ys"
  and union_distinct: "distinct (union xs ys)"

interpretation union_doc: ramda_union union_documented
  by unfold_locales
    (simp_all add: union_documented_def set_first_occurrences distinct_first_occurrences)

section \<open>moment\<close>

text \<open>
  The units of \<open>add\<close>, \<open>subtract\<close>, \<open>startOf\<close> and \<open>endOf\<close> that the program uses, and the
  operations on UTC moments as functions on dates.
\<close>

datatype munit = MSecond | MHour | MDay | MWeek | MIsoWeek | MMonth | MQuarter | MYear

record moment_ops =
  m_add :: "int \<Rightarrow> munit \<Rightarrow> date \<Rightarrow> date"
  m_startOf :: "munit \<Rightarrow> date \<Rightarrow> date"
  m_endOf :: "munit \<Rightarrow> date \<Rightarrow> date"
  m_daysInMonth :: "date \<Rightarrow> int"

fun fixed_length :: "munit \<Rightarrow> int option" where
  "fixed_length MSecond = Some 1000"
| "fixed_length MHour = Some 3600000"
| "fixed_length MDay = Some 86400000"
| "fixed_length MWeek = Some 604800000"
| "fixed_length MIsoWeek = Some 604800000"
| "fixed_length _ = None"

definition units_in_months :: "munit \<Rightarrow> int" where
  "units_in_months u = (case u of MQuarter \<Rightarrow> 3 | MYear \<Rightarrow> 12 | _ \<Rightarrow> 1)"

text \<open>Adding months keeps the time of day and clamps the day to the length of the month.\<close>

definition add_months :: "int \<Rightarrow> date \<Rightarrow> date" where
  "add_months n t =
     (let (y, m, d) = civil (day_number t);
          k = y * 12 + (m - 1) + n;
          y' = k div 12; m' = k mod 12 + 1
      in ms_per_day * days_of_civil y' m' (min d (days_in_month y' m')) + t mod ms_per_day)"

definition add_documented :: "int \<Rightarrow> munit \<Rightarrow> date \<Rightarrow> date" where
  "add_documented n u t =
     (case fixed_length u of
        Some l \<Rightarrow> t + n * l
      | None \<Rightarrow> add_months (n * units_in_months u) t)"

definition startOf_documented :: "munit \<Rightarrow> date \<Rightarrow> date" where
  "startOf_documented u t =
     (let dn = day_number t; (y, m, d) = civil dn in
      case u of
        MSecond \<Rightarrow> t - t mod 1000
      | MHour \<Rightarrow> t - t mod 3600000
      | MDay \<Rightarrow> ms_per_day * dn
      | MWeek \<Rightarrow> ms_per_day * (dn - (dn + 4) mod 7)
      | MIsoWeek \<Rightarrow> ms_per_day * (dn - (dn + 3) mod 7)
      | MMonth \<Rightarrow> ms_per_day * days_of_civil y m 1
      | MQuarter \<Rightarrow> ms_per_day * days_of_civil y (3 * ((m - 1) div 3) + 1) 1
      | MYear \<Rightarrow> ms_per_day * days_of_civil y 1 1)"

definition moment_documented :: moment_ops where
  "moment_documented =
     \<lparr>m_add = add_documented,
      m_startOf = startOf_documented,
      m_endOf = (\<lambda>u t. add_documented 1 u (startOf_documented u t) - 1),
      m_daysInMonth = (\<lambda>t. let (y, m, d) = civil (day_number t) in days_in_month y m)\<rparr>"

text \<open>Units of fixed length, as the documentation of \<open>add\<close> in UTC mode gives them.\<close>

locale moment_utc =
  fixes M :: moment_ops
  assumes add_fixed: "fixed_length u = Some l \<Longrightarrow> m_add M n u t = t + n * l"
  and endOf_eq: "m_endOf M u t = m_add M 1 u (m_startOf M u t) - 1"
begin

lemma add_day: "m_add M n MDay t = t + n * 86400000"
  by (rule add_fixed) simp

lemma add_week: "m_add M n MWeek t = t + n * 604800000"
  by (rule add_fixed) simp

lemma add_hour: "m_add M n MHour t = t + n * 3600000"
  by (rule add_fixed) simp

lemma add_second: "m_add M n MSecond t = t + n * 1000"
  by (rule add_fixed) simp

end

interpretation moment_doc: moment_utc moment_documented
  by unfold_locales (simp_all add: moment_documented_def add_documented_def)

text \<open>Adding months moves a date forward, whatever the lengths of the months.\<close>

lemma add_months_later:
  assumes "0 < n"
  shows "t < add_months n t"
proof -
  obtain y m d where c: "civil (day_number t) = (y, m, d)"
    by (cases "civil (day_number t)") auto
  note sp = civil_spec [OF c]
  define k where "k = y * 12 + (m - 1)"
  define y' m' where "y' = (k + n) div 12" and "m' = (k + n) mod 12 + 1"
  have m': "1 \<le> m'" "m' \<le> 12" by (simp_all add: m'_def)
  have am: "add_months n t = ms_per_day * days_of_civil y' m' (min d (days_in_month y' m'))
      + t mod ms_per_day"
    by (simp add: add_months_def c k_def y'_def m'_def Let_def)
  have len: "28 \<le> days_in_month y' m'" by (rule days_in_month_ge [OF m'])
  have start: "days_of_civil y' m' 1 = month_start (k + n)" by (simp add: month_start_def y'_def m'_def)
  have start0: "days_of_civil y m 1 = month_start k" using month_start_civil [OF sp(2,3)] by (simp add: k_def)
  have "month_start k + 28 * n \<le> month_start (k + n)"
    using month_start_add [of k "nat n"] assms by simp
  moreover have "day_number t = month_start k + d - 1"
    using sp(1) days_of_civil_day [of y m d] start0 by simp
  moreover have "days_of_civil y' m' (min d (days_in_month y' m'))
      = month_start (k + n) + min d (days_in_month y' m') - 1"
    using days_of_civil_day [of y' m' "min d (days_in_month y' m')"] start by simp
  ultimately have "day_number t < days_of_civil y' m' (min d (days_in_month y' m'))"
    using len sp(4,5) assms by (auto simp: min_def)
  then have "ms_per_day * (day_number t + 1) \<le> ms_per_day * days_of_civil y' m' (min d (days_in_month y' m'))"
    by (simp add: ms_per_day_def)
  moreover have "t < ms_per_day * (day_number t + 1)"
    using start_of_day_bounds(2) [of t] by (simp add: start_of_day_def algebra_simps)
  ultimately have "t < ms_per_day * days_of_civil y' m' (min d (days_in_month y' m'))" by simp
  moreover have "0 \<le> t mod ms_per_day" by (simp add: ms_per_day_def)
  ultimately show ?thesis unfolding am by linarith
qed

lemma add_documented_later: "0 < n \<Longrightarrow> t < add_documented n u t"
  using add_months_later [of "n * units_in_months u" t]
  by (cases u) (simp_all add: add_documented_def units_in_months_def add_months_later)

locale moment_calendar = moment_utc +
  assumes add_later: "0 < n \<Longrightarrow> t < m_add M n u t"

interpretation moment_cal_doc: moment_calendar moment_documented
  by unfold_locales (simp add: moment_documented_def add_documented_later)

section \<open>ramda: difference\<close>

definition difference_documented :: "'a list \<Rightarrow> 'a list \<Rightarrow> 'a list" where
  "difference_documented xs ys = first_occurrences [] (filter (\<lambda>x. x \<notin> set ys) xs)"

locale ramda_difference =
  fixes difference :: "'a list \<Rightarrow> 'a list \<Rightarrow> 'a list"
  assumes difference_set: "set (difference xs ys) = set xs - set ys"
  and difference_distinct: "distinct (difference xs ys)"

interpretation difference_doc: ramda_difference difference_documented
  by unfold_locales
    (auto simp: difference_documented_def set_first_occurrences intro: distinct_first_occurrences)

end
