(* ===== verification/Common_Types.thy ===== *)
theory Common_Types
  imports Third_Party
begin

text \<open>
  The data that the packages exchange (\<open>packages/common/src\<close>): groupings, estimation
  results, tags, account lists, the lookup-table rows and the recommendation results.
\<close>

datatype GroupBy = day | week | month | quarter | year

definition GroupBy_keys :: "string list" where
  "GroupBy_keys = [''day'', ''week'', ''month'', ''quarter'', ''year'']"

fun GroupBy_name :: "GroupBy \<Rightarrow> string" where
  "GroupBy_name day = ''day''"
| "GroupBy_name week = ''week''"
| "GroupBy_name month = ''month''"
| "GroupBy_name quarter = ''quarter''"
| "GroupBy_name year = ''year''"

text \<open>A tag collection: a value may be \<open>undefined\<close> even where the key is present.\<close>

type_synonym TagCollection = "string option obj"

definition tag_get :: "TagCollection \<Rightarrow> string \<Rightarrow> string option" where
  "tag_get tags name = (case obj_get tags name of None \<Rightarrow> None | Some v \<Rightarrow> v)"

record ServiceData =
  sd_cloudProvider :: string
  sd_accountId :: string
  sd_accountName :: string
  sd_serviceName :: string
  sd_kilowattHours :: jsnum
  sd_co2e :: jsnum
  sd_cost :: jsnum
  sd_region :: string
  sd_usesAverageCPUConstant :: bool
  sd_tags :: "TagCollection option"

record EstimationResult =
  er_timestamp :: date
  er_serviceEstimates :: "ServiceData list"
  er_periodStartDate :: "date option"
  er_periodEndDate :: "date option"
  er_groupBy :: GroupBy

text \<open>An account in a configured list: a bare id or an object with an optional name.\<close>

datatype account =
    AccountId string
  | AccountObj "string option" "string option"

datatype account_list = NotAnArray | Accounts "account list"

record LookupTableInput =
  li_serviceName :: string
  li_region :: string
  li_usageType :: string
  li_usageUnit :: string
  li_vCpus :: string
  li_machineType :: "string option"

record LookupTableOutput =
  lo_serviceName :: string
  lo_region :: string
  lo_usageType :: string
  lo_vCpus :: "jsnum option"
  lo_machineType :: "string option"
  lo_kilowattHours :: jsnum
  lo_co2e :: jsnum

section \<open>Totals\<close>

definition se_total :: "(ServiceData \<Rightarrow> jsnum) \<Rightarrow> ServiceData list \<Rightarrow> jsnum" where
  "se_total f es = sum_list (map f es)"

definition er_total :: "(ServiceData \<Rightarrow> jsnum) \<Rightarrow> EstimationResult list \<Rightarrow> jsnum" where
  "er_total f rs = sum_list (map (\<lambda>r. se_total f (er_serviceEstimates r)) rs)"

lemma se_total_simps [simp]:
  "se_total f [] = 0" "se_total f (e # es) = f e + se_total f es"
  "se_total f (es @ es') = se_total f es + se_total f es'"
  by (simp_all add: se_total_def)

lemma er_total_simps [simp]:
  "er_total f [] = 0" "er_total f (r # rs) = se_total f (er_serviceEstimates r) + er_total f rs"
  "er_total f (rs @ rs') = er_total f rs + er_total f rs'"
  by (simp_all add: er_total_def)

lemma er_total_concat: "er_total f rs = se_total f (concat (map er_serviceEstimates rs))"
  by (induction rs) (simp_all add: se_total_def)

text \<open>
  \<open>packages/common/src/RecommendationResult.ts\<close>, \<open>RecommendationTarget.ts\<close> and
  \<open>RecommendationsService.ts\<close>: what the providers recommend, and what AWS is asked for.
\<close>

text \<open>A field of an option is undefined where the recommendation lacks it.\<close>

datatype ComputeOptimizerRecommendationOption =
    EC2RecommendationOption (oi_instanceType: "string option") (o_costSavings: "string option")
      (oi_performanceRisk: "string option") (oi_vcpus: "string option")
  | EBSRecommendationOption (ob_volumeType: "string option") (ob_volumeSize: "string option")
      (o_costSavings: "string option") (ob_performanceRisk: "string option")
  | LambdaRecommendationOption (ol_memorySize: "string option") (o_costSavings: "string option")
      (ol_performanceRisk: "string option")

record RecommendationResult =
  rr_cloudProvider :: string
  rr_accountId :: "string option"
  rr_accountName :: "string option"
  rr_region :: "string option"
  rr_recommendationType :: string
  rr_recommendationDetail :: "string option"
  rr_resourceId :: "string option"
  rr_instanceName :: "string option"
  rr_kilowattHourSavings :: jsnum
  rr_costSavings :: "jsnum option"
  rr_co2eSavings :: jsnum
  rr_recommendationOptions :: "ComputeOptimizerRecommendationOption list option"

datatype AWS_RECOMMENDATIONS_TARGETS = SAME_INSTANCE_FAMILY | CROSS_INSTANCE_FAMILY

definition AWS_DEFAULT_RECOMMENDATION_TARGET :: AWS_RECOMMENDATIONS_TARGETS where
  "AWS_DEFAULT_RECOMMENDATION_TARGET = SAME_INSTANCE_FAMILY"

datatype AWS_RECOMMENDATIONS_SERVICES = ComputeOptimizer | RightSizing | All_Services

definition AWS_DEFAULT_RECOMMENDATIONS_SERVICE :: AWS_RECOMMENDATIONS_SERVICES where
  "AWS_DEFAULT_RECOMMENDATIONS_SERVICE = RightSizing"

end
