(* ===== verification/Common_Helpers.thy ===== *)
theory Common_Helpers
  imports Common_Types
begin

text \<open>
  \<open>packages/common/src/helpers\<close>: string tests, period ends, unit conversions and the
  account filter of the billing queries.
\<close>

section \<open>helpers.ts\<close>

definition containsAny :: "string list \<Rightarrow> string \<Rightarrow> bool" where
  "containsAny substrings stringToSearch =
     list_ex (\<lambda>substring. test_word substring stringToSearch) substrings"

definition endsWithAny :: "string list \<Rightarrow> string \<Rightarrow> bool" where
  "endsWithAny suffixes string = list_ex (\<lambda>suffix. endsWith string suffix) suffixes"

text \<open>\<open>now\<close> is the clock of \<open>moment()\<close>.\<close>

definition getHoursInMonth :: "moment_ops \<Rightarrow> date \<Rightarrow> jsnum" where
  "getHoursInMonth M now = Fin (of_int (m_daysInMonth M now * 24))"

definition getPeriodEndDate :: "moment_ops \<Rightarrow> date \<Rightarrow> GroupBy \<Rightarrow> date" where
  "getPeriodEndDate M startDate grouping =
     (case grouping of
        day \<Rightarrow> m_add M (-1) MSecond (m_add M 1 MDay startDate)
      | week \<Rightarrow> m_add M (-1) MSecond (m_add M 1 MWeek startDate)
      | month \<Rightarrow> m_add M (-1) MSecond (m_add M 1 MMonth startDate)
      | quarter \<Rightarrow>
          m_add M (-1) MSecond (m_add M 1 MHour (m_add M 1 MQuarter startDate))
      | year \<Rightarrow> m_add M (-1) MSecond (m_add M 1 MYear startDate))"

text \<open>The sign for ten thousand, as its three bytes of UTF-8.\<close>

definition mapToArabic :: "string \<Rightarrow> jsnum" where
  "mapToArabic unit =
     (if unit = [CHR 0xE4, CHR 0xB8, CHR 0x87] then 10000 else 100000000)"

lemma endsWithAny_iff: "endsWithAny ss s \<longleftrightarrow> (\<exists>t\<in>set ss. endsWith s t)"
  by (simp add: endsWithAny_def list_ex_iff)

context moment_utc
begin

lemma periodEnd_day: "getPeriodEndDate M t day = t + 86399000"
  by (simp add: getPeriodEndDate_def add_day add_second)

lemma periodEnd_week: "getPeriodEndDate M t week = t + 604799000"
  by (simp add: getPeriodEndDate_def add_week add_second)

lemma periodEnd_month: "getPeriodEndDate M t month = m_add M 1 MMonth t - 1000"
  by (simp add: getPeriodEndDate_def add_second)

lemma periodEnd_quarter: "getPeriodEndDate M t quarter = m_add M 1 MQuarter t + 3599000"
  by (simp add: getPeriodEndDate_def add_hour add_second)

lemma periodEnd_year: "getPeriodEndDate M t year = m_add M 1 MYear t - 1000"
  by (simp add: getPeriodEndDate_def add_second)

end

section \<open>unitConversion.ts\<close>

definition convertByteSecondsToTerabyteHours :: "jsnum \<Rightarrow> jsnum" where
  "convertByteSecondsToTerabyteHours usageAmount = usageAmount / 1099511627776 / 3600"

definition convertBytesToGigabytes :: "jsnum \<Rightarrow> jsnum" where
  "convertBytesToGigabytes usageAmount = usageAmount / 1073741824"

definition convertByteSecondsToGigabyteHours :: "jsnum \<Rightarrow> jsnum" where
  "convertByteSecondsToGigabyteHours usageAmount = usageAmount / 1073741824 / 3600"

definition convertBytesToTerabytes :: "jsnum \<Rightarrow> jsnum" where
  "convertBytesToTerabytes usageAmount = usageAmount / 1099511627776"

definition convertGigabyteHoursToTerabyteHours :: "jsnum \<Rightarrow> jsnum" where
  "convertGigabyteHoursToTerabyteHours usageAmount = usageAmount / 1000"

text \<open>A timestamp that is \<open>null\<close> or an invalid date has no month: the average is used.\<close>

definition convertGigabyteMonthsToTerabyteHours :: "moment_ops \<Rightarrow> jsnum \<Rightarrow> date option \<Rightarrow> jsnum" where
  "convertGigabyteMonthsToTerabyteHours M usageAmount timestamp =
     (let daysInMonth = (case timestamp of
                           Some t \<Rightarrow> Fin (of_int (m_daysInMonth M t))
                         | None \<Rightarrow> Fin 30.42)
      in (usageAmount / 1000) * (24 * daysInMonth))"

definition convertTerabytesToGigabytes :: "jsnum \<Rightarrow> jsnum" where
  "convertTerabytesToGigabytes usageAmount = usageAmount * 1000"

definition convertMegabytesToGigabytes :: "jsnum \<Rightarrow> jsnum" where
  "convertMegabytesToGigabytes usageAmount = usageAmount / 1024"

definition convertGigaBytesToTerabyteHours :: "jsnum \<Rightarrow> jsnum" where
  "convertGigaBytesToTerabyteHours usageAmount = (usageAmount / 1000) * 24"

definition convertGramsToMetricTons :: "jsnum \<Rightarrow> jsnum" where
  "convertGramsToMetricTons amount = amount / 1000000"

lemmas unit_conversions = convertByteSecondsToTerabyteHours_def convertBytesToGigabytes_def
  convertByteSecondsToGigabyteHours_def convertBytesToTerabytes_def
  convertGigabyteHoursToTerabyteHours_def convertGigabyteMonthsToTerabyteHours_def
  convertTerabytesToGigabytes_def convertMegabytesToGigabytes_def
  convertGigaBytesToTerabyteHours_def convertGramsToMetricTons_def

section \<open>filters.ts\<close>

definition getAccountIdsFromList :: "account_list \<Rightarrow> string list result" where
  "getAccountIdsFromList accounts =
     (case accounts of
        NotAnArray \<Rightarrow> Inl (Thrown ''List must be a valid array of IDs or objects containing account details'')
      | Accounts xs \<Rightarrow>
          Inr (foldl (\<lambda>accountIds account.
                 case account of
                   AccountId i \<Rightarrow> accountIds @ [i]
                 | AccountObj (Some i) _ \<Rightarrow> if i \<noteq> [] then accountIds @ [i] else accountIds
                 | AccountObj None _ \<Rightarrow> accountIds) [] xs))"

definition quoted :: "string \<Rightarrow> string" where
  "quoted accountId = [CHR 0x27] @ accountId @ [CHR 0x27]"

definition buildAccountFilter :: "account_list \<Rightarrow> string \<Rightarrow> string result" where
  "buildAccountFilter accounts columnName =
     bindR (getAccountIdsFromList accounts) (\<lambda>accountIds.
       if accountIds = [] then Inr []
       else Inr (''AND '' @ columnName @ '' IN ('' @ join '', '' (map quoted accountIds) @ '')''))"

fun account_id :: "account \<Rightarrow> string option" where
  "account_id (AccountId i) = Some i"
| "account_id (AccountObj (Some i) _) = (if i \<noteq> [] then Some i else None)"
| "account_id (AccountObj None _) = None"

lemma getAccountIdsFromList_Accounts:
  "getAccountIdsFromList (Accounts xs) = Inr (List.map_filter account_id xs)"
proof -
  have "foldl (\<lambda>accountIds account.
           case account of
             AccountId i \<Rightarrow> accountIds @ [i]
           | AccountObj (Some i) _ \<Rightarrow> if i \<noteq> [] then accountIds @ [i] else accountIds
           | AccountObj None _ \<Rightarrow> accountIds) acc xs = acc @ List.map_filter account_id xs" for acc
    by (induction xs arbitrary: acc)
      (auto simp: List.map_filter_simps split: account.splits option.splits)
  then show ?thesis by (simp add: getAccountIdsFromList_def)
qed

end
