(* ===== verification/Common_Estimation.thy ===== *)
theory Common_Estimation
  imports Common_Helpers "HOL-Library.Multiset"
begin

text \<open>
  \<open>packages/common/src/EstimationResult.ts\<close>: merging the estimation results of one instant.
  The accumulator that \<open>reduceBy\<close> starts from, whose fields are all \<open>undefined\<close> or empty,
  is \<open>None\<close>; after its first element every field is set.
\<close>

definition accumulate_result ::
    "moment_ops \<Rightarrow> EstimationResult option \<Rightarrow> EstimationResult \<Rightarrow> EstimationResult option" where
  "accumulate_result M acc value =
     (let timestamp = (case acc of Some a \<Rightarrow> er_timestamp a | None \<Rightarrow> er_timestamp value);
          serviceEstimates = (case acc of Some a \<Rightarrow> er_serviceEstimates a | None \<Rightarrow> [])
                             @ er_serviceEstimates value;
          groupBy = (case acc of Some a \<Rightarrow> er_groupBy a | None \<Rightarrow> er_groupBy value)
      in Some \<lparr>er_timestamp = timestamp,
               er_serviceEstimates = serviceEstimates,
               er_periodStartDate = Some timestamp,
               er_periodEndDate = Some (getPeriodEndDate M timestamp groupBy),
               er_groupBy = groupBy\<rparr>)"

definition reduceByTimestamp ::
    "moment_ops \<Rightarrow> (EstimationResult option, EstimationResult) reduce_by \<Rightarrow>
     EstimationResult list \<Rightarrow> EstimationResult list" where
  "reduceByTimestamp M reduceBy estimationResults =
     List.map_filter id
       (obj_values (reduceBy (accumulate_result M) None (\<lambda>r. toISOString (er_timestamp r))
          estimationResults))"

text \<open>The merge of a non-empty list: the first result's instant and grouping, all estimates.\<close>

definition merged :: "moment_ops \<Rightarrow> EstimationResult list \<Rightarrow> EstimationResult" where
  "merged M rs =
     \<lparr>er_timestamp = er_timestamp (hd rs),
      er_serviceEstimates = concat (map er_serviceEstimates rs),
      er_periodStartDate = Some (er_timestamp (hd rs)),
      er_periodEndDate = Some (getPeriodEndDate M (er_timestamp (hd rs)) (er_groupBy (hd rs))),
      er_groupBy = er_groupBy (hd rs)\<rparr>"

lemma foldl_accumulate_Some:
  "foldl (accumulate_result M) (Some a) rs =
     (if rs = [] then Some a
      else Some \<lparr>er_timestamp = er_timestamp a,
        er_serviceEstimates = er_serviceEstimates a @ concat (map er_serviceEstimates rs),
        er_periodStartDate = Some (er_timestamp a),
        er_periodEndDate = Some (getPeriodEndDate M (er_timestamp a) (er_groupBy a)),
        er_groupBy = er_groupBy a\<rparr>)"
  by (induction rs arbitrary: a) (simp_all add: accumulate_result_def Let_def)

lemma foldl_accumulate:
  "rs \<noteq> [] \<Longrightarrow> foldl (accumulate_result M) None rs = Some (merged M rs)"
proof (cases rs)
  case (Cons r rs')
  then show ?thesis
    by (simp add: accumulate_result_def [of M None] Let_def foldl_accumulate_Some merged_def)
qed simp

definition iso_key :: "EstimationResult \<Rightarrow> string" where
  "iso_key r = toISOString (er_timestamp r)"

definition merge_groups :: "moment_ops \<Rightarrow> EstimationResult list \<Rightarrow> EstimationResult list" where
  "merge_groups M rs =
     map (\<lambda>k. merged M (filter (\<lambda>r. iso_key r = k) rs)) (first_occurrences [] (map iso_key rs))"

text \<open>The reduction is the merge of the groups, in the order the instants first appear.\<close>

lemma reduceByTimestamp_groups:
  assumes "ramda_reduceBy reduceBy"
  shows "reduceByTimestamp M reduceBy rs = merge_groups M rs"
proof -
  have rb: "\<And>f a key xs. reduceBy f a key xs =
      map (\<lambda>k. (k, foldl f a (filter (\<lambda>x. key x = k) xs))) (first_occurrences [] (map key xs))"
    by (rule ramda_reduceBy.reduceBy_eq [OF assms])
  have "map (\<lambda>k. foldl (accumulate_result M) None (filter (\<lambda>r. iso_key r = k) rs))
          (first_occurrences [] (map iso_key rs))
      = map (\<lambda>k. Some (merged M (filter (\<lambda>r. iso_key r = k) rs)))
          (first_occurrences [] (map iso_key rs))"
  proof (rule map_cong [OF refl])
    fix k
    assume "k \<in> set (first_occurrences [] (map iso_key rs))"
    then have "filter (\<lambda>r. iso_key r = k) rs \<noteq> []"
      by (auto simp: set_first_occurrences filter_empty_conv)
    then show "foldl (accumulate_result M) None (filter (\<lambda>r. iso_key r = k) rs)
        = Some (merged M (filter (\<lambda>r. iso_key r = k) rs))"
      by (rule foldl_accumulate)
  qed
  then show ?thesis
    unfolding reduceByTimestamp_def iso_key_def [symmetric] rb
    by (simp add: obj_values_def merge_groups_def comp_def List.map_filter_def)
qed

lemma merged_group:
  assumes "k \<in> set (first_occurrences [] (map iso_key rs))"
  shows "iso_key (merged M (filter (\<lambda>r. iso_key r = k) rs)) = k"
    "er_timestamp (merged M (filter (\<lambda>r. iso_key r = k) rs)) \<in> er_timestamp ` set rs"
proof -
  have "filter (\<lambda>r. iso_key r = k) rs \<noteq> []"
    using assms by (auto simp: set_first_occurrences filter_empty_conv)
  then have "hd (filter (\<lambda>r. iso_key r = k) rs) \<in> set (filter (\<lambda>r. iso_key r = k) rs)"
    by (rule hd_in_set)
  then show "iso_key (merged M (filter (\<lambda>r. iso_key r = k) rs)) = k"
    "er_timestamp (merged M (filter (\<lambda>r. iso_key r = k) rs)) \<in> er_timestamp ` set rs"
    by (auto simp: iso_key_def merged_def)
qed

lemma merge_groups_keys: "map iso_key (merge_groups M rs) = first_occurrences [] (map iso_key rs)"
  unfolding merge_groups_def map_map comp_def
  by (rule map_idI) (simp add: merged_group)

lemma merge_groups_distinct: "distinct (map er_timestamp (merge_groups M rs))"
proof -
  have "map iso_key (merge_groups M rs) = map toISOString (map er_timestamp (merge_groups M rs))"
    by (simp add: iso_key_def comp_def)
  then have "distinct (map toISOString (map er_timestamp (merge_groups M rs)))"
    by (metis merge_groups_keys distinct_first_occurrences distinct.simps(1))
  then show ?thesis by (metis distinct_map)
qed

lemma merge_groups_estimates:
  "mset (concat (map er_serviceEstimates (merge_groups M rs)))
     = mset (concat (map er_serviceEstimates rs))"
proof -
  have mc: "mset (concat (map er_serviceEstimates xs))
      = sum_list (map (\<lambda>r. mset (er_serviceEstimates r)) xs)" for xs
    by (induction xs) simp_all
  have "map (\<lambda>r. mset (er_serviceEstimates r)) (merge_groups M rs)
      = map (\<lambda>k. sum_list (map (\<lambda>r. mset (er_serviceEstimates r))
              (filter (\<lambda>r. iso_key r = k) rs))) (first_occurrences [] (map iso_key rs))"
    by (simp add: merge_groups_def merged_def comp_def mc)
  then show ?thesis
    using sum_list_first_occurrences
      [where f = "\<lambda>r. mset (er_serviceEstimates r)" and key = iso_key and xs = rs]
    by (simp add: mc)
qed

lemma merge_groups_total: "er_total f (merge_groups M rs) = er_total f rs"
proof -
  have "sum_mset (image_mset f (mset (concat (map er_serviceEstimates (merge_groups M rs)))))
      = sum_mset (image_mset f (mset (concat (map er_serviceEstimates rs))))"
    by (simp only: merge_groups_estimates)
  then show ?thesis
    by (simp add: er_total_concat se_total_def sum_mset_sum_list flip: mset_map)
qed

end
