(* ===== verification/Common_Factors.thy ===== *)
theory Common_Factors
  imports Common_Helpers
begin

text \<open>
  \<open>packages/common/src/EmissionsFactors.ts\<close>: the emissions factors of a region at a time,
  from the Electricity Maps service or from the provider's own table, and the module-level
  cache \<open>zoneIntensityFactors\<close>. The service is a parameter: a request either fails with a
  message or yields the \<open>carbonIntensity\<close> of its response, which may be missing. The state
  records the requests made, so that theorems can speak of them. Log messages are left out.
\<close>

type_synonym emissions_factors = "jsnum obj"

type_synonym zone_map = "string option obj"

type_synonym http_service = "string \<Rightarrow> string + jsnum option"

record factor_state =
  zoneIntensityFactors :: "(jsnum obj) obj"
  requests :: "string list"

definition electricityMapsUrl :: "string \<Rightarrow> string \<Rightarrow> string" where
  "electricityMapsUrl electricityMapsZone dateTime =
     ''https://api.electricitymap.org/v3/carbon-intensity/past?zone='' @ electricityMapsZone
     @ ''&datetime='' @ dateTime"

definition getElectricityMapsData :: "http_service \<Rightarrow> string \<Rightarrow> string \<Rightarrow> factor_state \<Rightarrow>
    (string + jsnum option) \<times> factor_state" where
  "getElectricityMapsData http electricityMapsZone dateTime s =
     (let url = electricityMapsUrl electricityMapsZone dateTime;
          s' = s\<lparr>requests := requests s @ [url]\<rparr>
      in (case http url of
            Inl message \<Rightarrow> (Inl (''Electricity Maps request failed. Reason: '' @ message @ ''.''), s')
          | Inr res \<Rightarrow> (Inr res, s')))"

definition zone_of :: "zone_map \<Rightarrow> string \<Rightarrow> string option" where
  "zone_of zones region =
     (case obj_get zones region of
        Some (Some z) \<Rightarrow> if z = [] then None else Some z
      | _ \<Rightarrow> None)"

definition cached_intensity :: "factor_state \<Rightarrow> string \<Rightarrow> string \<Rightarrow> jsnum option" where
  "cached_intensity s dateTime zone =
     (case obj_get (zoneIntensityFactors s) dateTime of
        None \<Rightarrow> None
      | Some zones \<Rightarrow> obj_get zones zone)"

definition store_intensity :: "string \<Rightarrow> string \<Rightarrow> jsnum \<Rightarrow> factor_state \<Rightarrow> factor_state" where
  "store_intensity dateTime zone v s =
     (case obj_get (zoneIntensityFactors s) dateTime of
        Some zones \<Rightarrow>
          s\<lparr>zoneIntensityFactors := obj_set (zoneIntensityFactors s) dateTime (obj_set zones zone v)\<rparr>
      | None \<Rightarrow>
          s\<lparr>zoneIntensityFactors := obj_set (zoneIntensityFactors s) dateTime [(zone, v)]\<rparr>)"

definition getEmissionsFactors :: "string \<Rightarrow> http_service \<Rightarrow> string \<Rightarrow> string \<Rightarrow>
    emissions_factors \<Rightarrow> zone_map \<Rightarrow> factor_state \<Rightarrow> emissions_factors result \<times> factor_state" where
  "getEmissionsFactors electricityMapsToken http region dateTime emissionsFactors zones s =
     (case zone_of zones region of
        None \<Rightarrow> (Inr emissionsFactors, s)
      | Some zone \<Rightarrow>
          if electricityMapsToken = [] then (Inr emissionsFactors, s)
          else if truthy_opt (cached_intensity s dateTime zone) then
            (Inr [(region, toNum (cached_intensity s dateTime zone))], s)
          else
            (case getElectricityMapsData http zone dateTime s of
               (Inl message, s1) \<Rightarrow>
                 (Inl (Thrown (''Failed to get data from Electricity Maps. Reason '' @ message @ ''.'')), s1)
             | (Inr carbonIntensity, s1) \<Rightarrow>
                 if \<not> truthy_opt carbonIntensity then (Inr emissionsFactors, s1)
                 else
                   (let s2 = store_intensity dateTime zone
                               (convertGramsToMetricTons (toNum carbonIntensity)) s1
                    in (Inr [(region, toNum (cached_intensity s2 dateTime zone))], s2))))"

section \<open>The cache\<close>

lemma requests_store [simp]: "requests (store_intensity d z v s) = requests s"
  by (simp add: store_intensity_def split: option.splits)

lemma cached_store:
  "cached_intensity (store_intensity d z v s) d' z' =
     (if d' = d \<and> z' = z then Some v else cached_intensity s d' z')"
  by (auto simp: store_intensity_def cached_intensity_def obj_get_set split: option.splits)

lemma cached_requests [simp]:
  "cached_intensity (s\<lparr>requests := r\<rparr>) d z = cached_intensity s d z"
  by (simp add: cached_intensity_def)

lemma truthy_grams: "truthy x \<Longrightarrow> truthy (convertGramsToMetricTons x)"
  by (cases x) (auto simp: convertGramsToMetricTons_def jsnum_simps inf_of_sign_def)

text \<open>What one call does to the cache and the requests, in every case.\<close>

lemma getEmissionsFactors_cases:
  assumes "getEmissionsFactors token http region dateTime factors zones s = (r, s')"
  obtains
    (default) "zone_of zones region = None \<or> token = []" "r = Inr factors" "s' = s"
  | (hit) zone v where "zone_of zones region = Some zone" "token \<noteq> []"
      "cached_intensity s dateTime zone = Some v" "truthy v" "r = Inr [(region, v)]" "s' = s"
  | (failed) zone message where "zone_of zones region = Some zone" "token \<noteq> []"
      "\<not> truthy_opt (cached_intensity s dateTime zone)"
      "http (electricityMapsUrl zone dateTime) = Inl message"
      "r = Inl (Thrown (''Failed to get data from Electricity Maps. Reason ''
              @ (''Electricity Maps request failed. Reason: '' @ message @ ''.'') @ ''.''))"
      "s' = s\<lparr>requests := requests s @ [electricityMapsUrl zone dateTime]\<rparr>"
  | (missing) zone c where "zone_of zones region = Some zone" "token \<noteq> []"
      "\<not> truthy_opt (cached_intensity s dateTime zone)"
      "http (electricityMapsUrl zone dateTime) = Inr c" "\<not> truthy_opt c" "r = Inr factors"
      "s' = s\<lparr>requests := requests s @ [electricityMapsUrl zone dateTime]\<rparr>"
  | (fetched) zone c where "zone_of zones region = Some zone" "token \<noteq> []"
      "\<not> truthy_opt (cached_intensity s dateTime zone)"
      "http (electricityMapsUrl zone dateTime) = Inr (Some c)" "truthy c"
      "r = Inr [(region, convertGramsToMetricTons c)]"
      "s' = store_intensity dateTime zone (convertGramsToMetricTons c)
              (s\<lparr>requests := requests s @ [electricityMapsUrl zone dateTime]\<rparr>)"
proof (cases "zone_of zones region")
  case None
  with assms that(1) show ?thesis by (simp add: getEmissionsFactors_def)
next
  case (Some zone)
  show ?thesis
  proof (cases "token = [] \<or> truthy_opt (cached_intensity s dateTime zone)")
    case True
    with assms Some show ?thesis
      by (cases "cached_intensity s dateTime zone")
        (auto simp: getEmissionsFactors_def split: if_splits intro: that(1) that(2))
  next
    case False
    show ?thesis
    proof (cases "http (electricityMapsUrl zone dateTime)")
      case (Inl m)
      with assms Some False show ?thesis
        by (intro that(3) [of zone m])
          (auto simp: getEmissionsFactors_def getElectricityMapsData_def Let_def)
    next
      case (Inr c)
      show ?thesis
      proof (cases c)
        case None
        with assms Some False Inr show ?thesis
          by (intro that(4) [of zone c])
            (auto simp: getEmissionsFactors_def getElectricityMapsData_def Let_def)
      next
        case c': (Some x)
        show ?thesis
        proof (cases "truthy x")
          case True
          with assms Some False Inr c' show ?thesis
            by (intro that(5) [of zone x])
              (auto simp: getEmissionsFactors_def getElectricityMapsData_def Let_def cached_store)
        next
          case nt: False
          with assms Some False Inr c' show ?thesis
            by (intro that(4) [of zone c])
              (auto simp: getEmissionsFactors_def getElectricityMapsData_def Let_def)
        qed
      qed
    qed
  qed
qed

text \<open>Once cached, a truthy intensity stays: later calls never replace it.\<close>

lemma cached_intensity_stable:
  assumes "getEmissionsFactors token http region dateTime factors zones s = (r, s')"
    and "cached_intensity s d z = Some v" and "truthy v"
  shows "cached_intensity s' d z = Some v"
  using assms(1)
proof (cases rule: getEmissionsFactors_cases)
  case (fetched zone c)
  then have "\<not> (d = dateTime \<and> z = zone)" using assms(2,3) by auto
  then show ?thesis using fetched(7) assms(2) by (auto simp: cached_store)
qed (use assms(2) in auto)

lemma getEmissionsFactors_cached:
  assumes "cached_intensity s dateTime zone = Some v" "truthy v"
    and "zone_of zones region = Some zone" "token \<noteq> []"
  shows "getEmissionsFactors token http region dateTime factors zones s = (Inr [(region, v)], s)"
  using assms by (simp add: getEmissionsFactors_def)

end
