(* ===== verification/Core_Processors.thy ===== *)
theory Core_Processors
  imports Common_Types
begin

text \<open>
  \<open>packages/core/src/compute/ComputeProcessorTypes.ts\<close>: the processors that instance types run on,
  with the names under which they are reported, and the lists of processors that the tables of
  instance types share.
\<close>

datatype COMPUTE_PROCESSOR_TYPES =
    CASCADE_LAKE
  | SKYLAKE
  | HASWELL
  | BROADWELL
  | COFFEE_LAKE
  | SANDY_BRIDGE
  | IVY_BRIDGE
  | ICELAKE
  | AMD_EPYC_1ST_GEN
  | AMD_EPYC_2ND_GEN
  | AMD_EPYC_3RD_GEN
  | AWS_GRAVITON
  | AWS_GRAVITON_2
  | NVIDIA_K520
  | NVIDIA_A10G
  | NVIDIA_T4
  | NVIDIA_TESLA_M60
  | NVIDIA_TESLA_K80
  | NVIDIA_TESLA_V100
  | NVIDIA_TESLA_A100
  | NVIDIA_TESLA_P4
  | NVIDIA_TESLA_P40
  | NVIDIA_TESLA_P100
  | AMD_RADEON_PRO_V520
  | XILINX_ALVEO_U250
  | UNKNOWN_PROCESSOR

fun processor_name :: "COMPUTE_PROCESSOR_TYPES \<Rightarrow> string" where
  "processor_name CASCADE_LAKE = ''Cascade Lake''"
| "processor_name SKYLAKE = ''Skylake''"
| "processor_name HASWELL = ''Haswell''"
| "processor_name BROADWELL = ''Broadwell''"
| "processor_name COFFEE_LAKE = ''Coffee Lake''"
| "processor_name SANDY_BRIDGE = ''Sandy Bridge''"
| "processor_name IVY_BRIDGE = ''Ivy Bridge''"
| "processor_name ICELAKE = ''Ice Lake''"
| "processor_name AMD_EPYC_1ST_GEN = ''AMD EPYC 1st Gen''"
| "processor_name AMD_EPYC_2ND_GEN = ''AMD EPYC 2nd Gen''"
| "processor_name AMD_EPYC_3RD_GEN = ''AMD EPYC 3rd Gen''"
| "processor_name AWS_GRAVITON = ''AWS Graviton''"
| "processor_name AWS_GRAVITON_2 = ''AWS Graviton2''"
| "processor_name NVIDIA_K520 = ''Nvidia K520''"
| "processor_name NVIDIA_A10G = ''Nvidia A10G''"
| "processor_name NVIDIA_T4 = ''Nvidia T4''"
| "processor_name NVIDIA_TESLA_M60 = ''Nvidia Tesla M60''"
| "processor_name NVIDIA_TESLA_K80 = ''Nvidia Tesla K80''"
| "processor_name NVIDIA_TESLA_V100 = ''Nvidia Tesla V100''"
| "processor_name NVIDIA_TESLA_A100 = ''Nvidia Tesla A100''"
| "processor_name NVIDIA_TESLA_P4 = ''Nvidia Tesla P4''"
| "processor_name NVIDIA_TESLA_P40 = ''Nvidia Tesla P40''"
| "processor_name NVIDIA_TESLA_P100 = ''Nvidia Tesla P100''"
| "processor_name AMD_RADEON_PRO_V520 = ''AMD Radeon Pro V520''"
| "processor_name XILINX_ALVEO_U250 = ''Xilinx Alveo U250''"
| "processor_name UNKNOWN_PROCESSOR = ''Unknown''"

definition cascadeLakeSkylake :: "COMPUTE_PROCESSOR_TYPES list" where
  "cascadeLakeSkylake = [CASCADE_LAKE, SKYLAKE]"

definition broadwellHaswell :: "COMPUTE_PROCESSOR_TYPES list" where
  "broadwellHaswell = [HASWELL, BROADWELL]"

definition broadwellSkylake :: "COMPUTE_PROCESSOR_TYPES list" where
  "broadwellSkylake = [BROADWELL, SKYLAKE]"

definition broadwelCascadeLake :: "COMPUTE_PROCESSOR_TYPES list" where
  "broadwelCascadeLake = [BROADWELL, CASCADE_LAKE]"

definition cascadeLakeSkylakeBroadwellHaswell :: "COMPUTE_PROCESSOR_TYPES list" where
  "cascadeLakeSkylakeBroadwellHaswell = [CASCADE_LAKE, SKYLAKE, BROADWELL, HASWELL]"

definition cascadeLakeSkylakeBroadwell :: "COMPUTE_PROCESSOR_TYPES list" where
  "cascadeLakeSkylakeBroadwell = [CASCADE_LAKE, SKYLAKE, BROADWELL]"

definition cascadeLakeHaswell :: "COMPUTE_PROCESSOR_TYPES list" where
  "cascadeLakeHaswell = [HASWELL, CASCADE_LAKE]"

definition skyLakeBroadwellHaswellAMDRome :: "COMPUTE_PROCESSOR_TYPES list" where
  "skyLakeBroadwellHaswellAMDRome = [SKYLAKE, BROADWELL, HASWELL, AMD_EPYC_2ND_GEN]"

definition skyLakeBroadwellHaswellSandyBridgeIvyBridge :: "COMPUTE_PROCESSOR_TYPES list" where
  "skyLakeBroadwellHaswellSandyBridgeIvyBridge = [SKYLAKE, BROADWELL, HASWELL, SANDY_BRIDGE, IVY_BRIDGE]"

end
