(* ===== verification/Core_Types.thy ===== *)
theory Core_Types
  imports Common_Estimation Common_Factors Core_Processors
begin

text \<open>
  The data of \<open>packages/core/src\<close>: footprint estimates, usage records, cloud constants,
  billing rows, and the arithmetic on emissions factors that every estimator shares.
  A property that an object may lack is an option.
\<close>

record FootprintEstimate =
  fe_timestamp :: "date option"
  fe_kilowattHours :: jsnum
  fe_co2e :: jsnum
  fe_usesAverageCPUConstant :: "bool option"

record KilowattHourTotals =
  kt_usageAmount :: "jsnum option"
  kt_cost :: "jsnum option"
  kt_kilowattHours :: jsnum

type_synonym kwh_store = "(KilowattHourTotals obj) obj"

datatype AccumulateKilowattHoursBy = AK_COST | AK_USAGE_AMOUNT

datatype EstimateUnknownUsageBy = EU_COST | EU_USAGE_AMOUNT

record CloudConstants =
  cc_minWatts :: "jsnum option"
  cc_maxWatts :: "jsnum option"
  cc_powerUsageEffectiveness :: "jsnum option"
  cc_avgCpuUtilization :: "jsnum option"
  cc_replicationFactor :: "jsnum option"
  cc_kilowattHoursByServiceAndUsageUnit :: "kwh_store option"
  cc_averageWatts :: "jsnum option"

definition no_constants :: CloudConstants where
  "no_constants = \<lparr>cc_minWatts = None, cc_maxWatts = None, cc_powerUsageEffectiveness = None,
     cc_avgCpuUtilization = None, cc_replicationFactor = None,
     cc_kilowattHoursByServiceAndUsageUnit = None, cc_averageWatts = None\<rparr>"

record ComputeUsage =
  cu_timestamp :: "date option"
  cu_cpuUtilizationAverage :: jsnum
  cu_vCpuHours :: jsnum
  cu_usesAverageCPUConstant :: bool

record MemoryUsage =
  mu_timestamp :: "date option"
  mu_gigabyteHours :: jsnum

record StorageUsage =
  su_timestamp :: "date option"
  su_terabyteHours :: jsnum

record NetworkingUsage =
  nu_timestamp :: "date option"
  nu_gigabytes :: jsnum

record UnknownUsage =
  uu_timestamp :: "date option"
  uu_cost :: "jsnum option"
  uu_usageAmount :: "jsnum option"
  uu_usageUnit :: string
  uu_service :: "string option"

record EmbodiedEmissionsUsage =
  eu_timestamp :: "date option"
  eu_instancevCpu :: jsnum
  eu_largestInstancevCpu :: jsnum
  eu_usageTimePeriod :: jsnum
  eu_scopeThreeEmissions :: jsnum

record BillingDataRow =
  br_serviceName :: string
  br_accountId :: string
  br_accountName :: string
  br_usageAmount :: jsnum
  br_usageType :: string
  br_usageUnit :: string
  br_cost :: jsnum
  br_region :: string
  br_cloudProvider :: string
  br_timestamp :: "date option"
  br_vCpus :: "jsnum option"
  br_vCpuHours :: jsnum
  br_gpuHours :: jsnum
  br_instanceType :: string
  br_replicationFactor :: jsnum
  br_tags :: "TagCollection option"

section \<open>FootprintEstimate.ts: emissions factors and averages\<close>

text \<open>\<open>emissionsFactors[region] || emissionsFactors['Unknown']\<close>, as a number.\<close>

definition factor_for :: "string \<Rightarrow> emissions_factors \<Rightarrow> jsnum" where
  "factor_for region emissionsFactors =
     toNum (if truthy_opt (obj_get emissionsFactors region) then obj_get emissionsFactors region
            else obj_get emissionsFactors ''Unknown'')"

definition estimateCo2 :: "jsnum \<Rightarrow> string \<Rightarrow> emissions_factors \<Rightarrow> jsnum" where
  "estimateCo2 estimatedKilowattHours region emissionsFactors =
     estimatedKilowattHours * factor_for region emissionsFactors"

definition estimateKwh :: "jsnum \<Rightarrow> string \<Rightarrow> emissions_factors \<Rightarrow> jsnum \<Rightarrow> jsnum" where
  "estimateKwh estimatedCo2e region emissionsFactors replicationFactor =
     (estimatedCo2e / factor_for region emissionsFactors) * replicationFactor"

fun getAverage :: "jsnum option list \<Rightarrow> jsnum option" where
  "getAverage [] = Some 0"
| "getAverage [x] = x"
| "getAverage (x # y # xs) =
     Some (foldl (\<lambda>a b. a + toNum b) (toNum x) (y # xs) / Fin (of_nat (length (x # y # xs))))"

definition getWattsByAverageOrMedian ::
    "(jsnum option list \<Rightarrow> jsnum) \<Rightarrow> COMPUTE_PROCESSOR_TYPES list \<Rightarrow> jsnum option list \<Rightarrow> jsnum option" where
  "getWattsByAverageOrMedian median computeProcessors wattsForProcessors =
     (if SANDY_BRIDGE \<in> set computeProcessors \<or> IVY_BRIDGE \<in> set computeProcessors
      then Some (median wattsForProcessors)
      else getAverage wattsForProcessors)"

lemma estimateKwh_estimateCo2:
  assumes "factor_for region factors = Fin c" "c \<noteq> 0" "is_fin kwh"
  shows "estimateKwh (estimateCo2 kwh region factors) region factors 1 = kwh"
  using assms by (auto simp: estimateKwh_def estimateCo2_def is_fin_iff)

lemma foldl_plus_Fin:
  "foldl (\<lambda>a b. a + toNum b) (Fin x) (map (\<lambda>a. Some (Fin a)) xs) = Fin (x + sum_list xs)"
  by (induction xs arbitrary: x) (simp_all add: add.assoc)

lemma getAverage_numbers:
  assumes "xs \<noteq> []"
  shows "getAverage (map (\<lambda>a. Some (Fin a)) xs) = Some (Fin (sum_list xs / of_nat (length xs)))"
proof (cases xs)
  case (Cons x ys)
  show ?thesis
  proof (cases ys)
    case Nil
    with Cons show ?thesis by simp
  next
    case (Cons y zs)
    have "of_nat (length (x # y # zs)) \<noteq> (0 :: rat)" by (simp del: of_nat_Suc)
    moreover have "foldl (\<lambda>a b. a + toNum b) (Fin x) (map (\<lambda>a. Some (Fin a)) (y # zs))
        = Fin (x + sum_list (y # zs))"
      by (rule foldl_plus_Fin)
    ultimately show ?thesis using \<open>xs = x # ys\<close> Cons by (simp del: of_nat_Suc)
  qed
qed (use assms in simp)

lemma sum_list_bounds:
  fixes xs :: "rat list"
  assumes "\<And>a. a \<in> set xs \<Longrightarrow> lo \<le> a \<and> a \<le> hi"
  shows "of_nat (length xs) * lo \<le> sum_list xs \<and> sum_list xs \<le> of_nat (length xs) * hi"
  using assms
proof (induction xs)
  case (Cons x xs)
  then have "of_nat (length xs) * lo \<le> sum_list xs \<and> sum_list xs \<le> of_nat (length xs) * hi"
    by simp
  moreover have "lo \<le> x \<and> x \<le> hi" using Cons.prems by simp
  ultimately show ?case by (simp add: distrib_right)
qed simp

context ramda_median
begin

text \<open>Average or median, the result lies between the bounds of the processors' watts.\<close>

lemma watts_bounds:
  assumes "xs \<noteq> []" and "\<And>a. a \<in> set xs \<Longrightarrow> lo \<le> a \<and> a \<le> hi"
  shows "\<exists>w. getWattsByAverageOrMedian median procs (map (\<lambda>a. Some (Fin a)) xs) = Some (Fin w)
           \<and> lo \<le> w \<and> w \<le> hi"
proof (cases "SANDY_BRIDGE \<in> set procs \<or> IVY_BRIDGE \<in> set procs")
  case True
  with median_bounds [OF assms] show ?thesis by (simp add: getWattsByAverageOrMedian_def)
next
  case False
  have pos: "0 < (of_nat (length xs) :: rat)" using assms(1) by simp
  have "lo \<le> sum_list xs / of_nat (length xs)" "sum_list xs / of_nat (length xs) \<le> hi"
    using sum_list_bounds [OF assms(2)] pos by (simp_all add: field_simps)
  with False getAverage_numbers [OF assms(1)] show ?thesis
    by (simp add: getWattsByAverageOrMedian_def)
qed

end

section \<open>FootprintEstimationConstants.ts\<close>

text \<open>Metric tons per kilowatt hour of the NERC regions of the United States.\<close>

definition US_NERC_REGIONS_EMISSIONS_FACTORS :: "rat obj" where
  "US_NERC_REGIONS_EMISSIONS_FACTORS =
    [(''RFC'', 0.000410608), (''SERC'', 0.000379069), (''WECC'', 0.000322167), (''MRO'', 0.000426254), (''TRE'', 0.000373231)]"

definition nerc_factor :: "string \<Rightarrow> jsnum" where
  "nerc_factor region =
     toNum (map_option Fin (obj_get US_NERC_REGIONS_EMISSIONS_FACTORS region))"

end
