(* ===== verification/Core_Estimators.thy ===== *)
theory Core_Estimators
  imports Core_Types
begin

text \<open>
  The implementations of \<open>IFootprintEstimator\<close> in \<open>packages/core/src\<close>. The interface is a
  locale: an estimator maps its usage records one by one, keeps their timestamps, and, for the
  five operational estimators, multiplies the energy by the region's emissions factor.
\<close>

section \<open>The estimators\<close>

definition default_one :: "jsnum option \<Rightarrow> jsnum" where
  "default_one v = (case v of None \<Rightarrow> 1 | Some x \<Rightarrow> x)"

definition ENERGY_ESTIMATION_FORMULA ::
    "jsnum \<Rightarrow> jsnum \<Rightarrow> jsnum option \<Rightarrow> jsnum option \<Rightarrow> jsnum option \<Rightarrow> jsnum option \<Rightarrow> jsnum option
     \<Rightarrow> jsnum" where
  "ENERGY_ESTIMATION_FORMULA averageCPUUtilization virtualCPUHours minWatts maxWatts
       powerUsageEffectiveness replicationFactor averageWatts =
     (let calculatedAverageWatts =
            (if truthy_opt averageWatts then toNum averageWatts
             else toNum minWatts
                  + (averageCPUUtilization / 100) * (toNum maxWatts - toNum minWatts))
      in (calculatedAverageWatts * virtualCPUHours * toNum powerUsageEffectiveness
          * default_one replicationFactor) / 1000)"

definition compute_estimate_one ::
    "string \<Rightarrow> emissions_factors \<Rightarrow> CloudConstants \<Rightarrow> ComputeUsage \<Rightarrow> FootprintEstimate" where
  "compute_estimate_one region emissionsFactors constants usage =
     (let estimatedKilowattHours =
            ENERGY_ESTIMATION_FORMULA (cu_cpuUtilizationAverage usage) (cu_vCpuHours usage)
              (cc_minWatts constants) (cc_maxWatts constants)
              (cc_powerUsageEffectiveness constants) (cc_replicationFactor constants)
              (cc_averageWatts constants)
      in \<lparr>fe_timestamp = cu_timestamp usage,
          fe_kilowattHours = estimatedKilowattHours,
          fe_co2e = estimateCo2 estimatedKilowattHours region emissionsFactors,
          fe_usesAverageCPUConstant = Some (cu_usesAverageCPUConstant usage)\<rparr>)"

definition ComputeEstimator_estimate ::
    "ComputeUsage list \<Rightarrow> string \<Rightarrow> emissions_factors \<Rightarrow> CloudConstants \<Rightarrow> FootprintEstimate list" where
  "ComputeEstimator_estimate data region emissionsFactors constants =
     map (compute_estimate_one region emissionsFactors constants) data"

definition memory_estimateKilowattHours ::
    "jsnum \<Rightarrow> jsnum \<Rightarrow> jsnum option \<Rightarrow> jsnum option \<Rightarrow> jsnum" where
  "memory_estimateKilowattHours coefficient gigabyteHours powerUsageEffectiveness replicationFactor =
     gigabyteHours * coefficient * toNum powerUsageEffectiveness * default_one replicationFactor"

definition MemoryEstimator_estimate ::
    "jsnum \<Rightarrow> MemoryUsage list \<Rightarrow> string \<Rightarrow> emissions_factors \<Rightarrow> CloudConstants \<Rightarrow> FootprintEstimate list" where
  "MemoryEstimator_estimate coefficient data region emissionsFactors constants =
     map (\<lambda>d. let estimatedKilowattHours = memory_estimateKilowattHours coefficient
                    (mu_gigabyteHours d) (cc_powerUsageEffectiveness constants)
                    (cc_replicationFactor constants)
              in \<lparr>fe_timestamp = mu_timestamp d,
                  fe_kilowattHours = estimatedKilowattHours,
                  fe_co2e = estimateCo2 estimatedKilowattHours region emissionsFactors,
                  fe_usesAverageCPUConstant = None\<rparr>) data"

definition storage_estimateKilowattHours ::
    "jsnum \<Rightarrow> jsnum \<Rightarrow> jsnum option \<Rightarrow> jsnum option \<Rightarrow> jsnum" where
  "storage_estimateKilowattHours coefficient terabyteHours powerUsageEffectiveness replicationFactor =
     (terabyteHours * coefficient * toNum powerUsageEffectiveness * default_one replicationFactor)
     / 1000"

definition StorageEstimator_estimate ::
    "jsnum \<Rightarrow> StorageUsage list \<Rightarrow> string \<Rightarrow> emissions_factors \<Rightarrow> CloudConstants \<Rightarrow> FootprintEstimate list" where
  "StorageEstimator_estimate coefficient data region emissionsFactors constants =
     map (\<lambda>d. let estimatedKilowattHours = storage_estimateKilowattHours coefficient
                    (su_terabyteHours d) (cc_powerUsageEffectiveness constants)
                    (cc_replicationFactor constants)
              in \<lparr>fe_timestamp = su_timestamp d,
                  fe_kilowattHours = estimatedKilowattHours,
                  fe_co2e = estimateCo2 estimatedKilowattHours region emissionsFactors,
                  fe_usesAverageCPUConstant = None\<rparr>) data"

definition networking_estimateKilowattHours :: "jsnum \<Rightarrow> jsnum \<Rightarrow> jsnum option \<Rightarrow> jsnum" where
  "networking_estimateKilowattHours coefficient gigaBytes powerUsageEffectiveness =
     gigaBytes * coefficient * toNum powerUsageEffectiveness"

definition NetworkingEstimator_estimate ::
    "jsnum \<Rightarrow> NetworkingUsage list \<Rightarrow> string \<Rightarrow> emissions_factors \<Rightarrow> CloudConstants \<Rightarrow> FootprintEstimate list" where
  "NetworkingEstimator_estimate coefficient data region emissionsFactors constants =
     map (\<lambda>d. let estimatedKilowattHours = networking_estimateKilowattHours coefficient
                    (nu_gigabytes d) (cc_powerUsageEffectiveness constants)
              in \<lparr>fe_timestamp = nu_timestamp d,
                  fe_kilowattHours = estimatedKilowattHours,
                  fe_co2e = estimateCo2 estimatedKilowattHours region emissionsFactors,
                  fe_usesAverageCPUConstant = None\<rparr>) data"

definition embodied_estimateCo2e :: "jsnum \<Rightarrow> jsnum \<Rightarrow> jsnum \<Rightarrow> jsnum \<Rightarrow> jsnum \<Rightarrow> jsnum" where
  "embodied_estimateCo2e serverExpectedLifespan usageTimePeriod instancevCpu largestInstancevCpu
       scopeThreeEmissions =
     scopeThreeEmissions * (usageTimePeriod / serverExpectedLifespan)
     * (instancevCpu / largestInstancevCpu)"

definition EmbodiedEmissionsEstimator_estimate ::
    "jsnum \<Rightarrow> EmbodiedEmissionsUsage list \<Rightarrow> string \<Rightarrow> emissions_factors \<Rightarrow> FootprintEstimate list" where
  "EmbodiedEmissionsEstimator_estimate serverExpectedLifespan data region emissionsFactors =
     map (\<lambda>d. let estimatedCO2Emissions = embodied_estimateCo2e serverExpectedLifespan
                    (eu_usageTimePeriod d) (eu_instancevCpu d) (eu_largestInstancevCpu d)
                    (eu_scopeThreeEmissions d)
              in \<lparr>fe_timestamp = eu_timestamp d,
                  fe_kilowattHours = estimateKwh estimatedCO2Emissions region emissionsFactors 1,
                  fe_co2e = estimatedCO2Emissions,
                  fe_usesAverageCPUConstant = None\<rparr>) data"

section \<open>The unknown-usage estimator\<close>

fun unknown_field_total :: "EstimateUnknownUsageBy \<Rightarrow> KilowattHourTotals \<Rightarrow> jsnum option" where
  "unknown_field_total EU_COST t = kt_cost t"
| "unknown_field_total EU_USAGE_AMOUNT t = kt_usageAmount t"

fun unknown_field_usage :: "EstimateUnknownUsageBy \<Rightarrow> UnknownUsage \<Rightarrow> jsnum option" where
  "unknown_field_usage EU_COST u = uu_cost u"
| "unknown_field_usage EU_USAGE_AMOUNT u = uu_usageAmount u"

definition proportional :: "EstimateUnknownUsageBy \<Rightarrow> KilowattHourTotals \<Rightarrow> UnknownUsage \<Rightarrow> jsnum" where
  "proportional by t u =
     (kt_kilowattHours t / toNum (unknown_field_total by t)) * toNum (unknown_field_usage by u)"

text \<open>
  Indexing with a service that is \<open>undefined\<close> reads the key \<open>undefined\<close>, which no service
  has; a store without \<open>total\<close> makes the read of the unit throw.
\<close>

definition unknown_estimateKilowattHours ::
    "EstimateUnknownUsageBy \<Rightarrow> UnknownUsage \<Rightarrow> kwh_store \<Rightarrow> jsnum result" where
  "unknown_estimateKilowattHours by unknownUsage store =
     (let serviceAndUsageUnit =
            (case obj_get store (case uu_service unknownUsage of Some s \<Rightarrow> s | None \<Rightarrow> ''undefined'') of
               None \<Rightarrow> None
             | Some units \<Rightarrow> obj_get units (uu_usageUnit unknownUsage))
      in case serviceAndUsageUnit of
           Some t \<Rightarrow> Inr (proportional by t unknownUsage)
         | None \<Rightarrow>
             (case obj_get store ''total'' of
                None \<Rightarrow> Inl TypeError
              | Some units \<Rightarrow>
                  (case obj_get units (uu_usageUnit unknownUsage) of
                     Some t \<Rightarrow> Inr (proportional by t unknownUsage)
                   | None \<Rightarrow> Inr 0)))"

definition UnknownEstimator_estimate ::
    "EstimateUnknownUsageBy \<Rightarrow> UnknownUsage list \<Rightarrow> string \<Rightarrow> emissions_factors \<Rightarrow> CloudConstants
     \<Rightarrow> FootprintEstimate list result" where
  "UnknownEstimator_estimate by data region emissionsFactors constants =
     mapR (\<lambda>d. case cc_kilowattHoursByServiceAndUsageUnit constants of
                 None \<Rightarrow> Inl TypeError
               | Some store \<Rightarrow>
                   bindR (unknown_estimateKilowattHours by d store) (\<lambda>estimatedKilowattHours.
                     Inr \<lparr>fe_timestamp = uu_timestamp d,
                          fe_kilowattHours = estimatedKilowattHours,
                          fe_co2e = estimateCo2 estimatedKilowattHours region emissionsFactors,
                          fe_usesAverageCPUConstant = Some False\<rparr>)) data"

section \<open>The interface\<close>

locale footprint_estimator =
  fixes estimate :: "'u list \<Rightarrow> string \<Rightarrow> emissions_factors \<Rightarrow> CloudConstants \<Rightarrow> FootprintEstimate list"
    and usage_timestamp :: "'u \<Rightarrow> date option"
  assumes estimate_append:
    "estimate (us @ vs) r ef c = estimate us r ef c @ estimate vs r ef c"
  and estimate_timestamps: "map fe_timestamp (estimate us r ef c) = map usage_timestamp us"
begin

lemma estimate_length: "length (estimate us r ef c) = length us"
  using arg_cong [OF estimate_timestamps, of length] by simp

lemma estimate_Nil: "estimate [] r ef c = []"
  using estimate_length [of "[]"] by simp

text \<open>The callers read element 0 of the estimate of one record: it exists.\<close>

lemma estimate_single:
  obtains e where "estimate [u] r ef c = [e]" "fe_timestamp e = usage_timestamp u"
proof -
  have "map fe_timestamp (estimate [u] r ef c) = [usage_timestamp u]"
    using estimate_timestamps [of "[u]"] by simp
  then show thesis using that by (auto simp: map_eq_Cons_conv)
qed

lemma estimate_map: "estimate us r ef c = map (\<lambda>u. hd (estimate [u] r ef c)) us"
proof (induction us)
  case Nil
  show ?case by (simp add: estimate_Nil)
next
  case (Cons u us)
  obtain e where e: "estimate [u] r ef c = [e]" by (rule estimate_single)
  have "estimate (u # us) r ef c = estimate ([u] @ us) r ef c" by simp
  also have "\<dots> = e # map (\<lambda>u. hd (estimate [u] r ef c)) us"
    using Cons by (simp only: estimate_append e) simp
  finally show ?case by (simp add: e)
qed

end

locale operational_estimator = footprint_estimator +
  assumes estimate_co2:
    "e \<in> set (estimate us r ef c) \<Longrightarrow> fe_co2e e = fe_kilowattHours e * factor_for r ef"
begin

text \<open>The emissions of a batch are the energy of the batch times the region's factor.\<close>

lemma total_co2:
  assumes "factor_for r ef = Fin k" and "\<And>e. e \<in> set (estimate us r ef c) \<Longrightarrow> is_fin (fe_kilowattHours e)"
  shows "sum_list (map fe_co2e (estimate us r ef c))
       = sum_list (map fe_kilowattHours (estimate us r ef c)) * Fin k"
proof -
  have "sum_list (map fe_co2e es) = sum_list (map fe_kilowattHours es) * Fin k
      \<and> is_fin (sum_list (map fe_kilowattHours es))"
    if "set es \<subseteq> set (estimate us r ef c)" for es
    using that
  proof (induction es)
    case Nil
    show ?case by (simp add: zero_Fin)
  next
    case (Cons e es)
    then have e: "e \<in> set (estimate us r ef c)" by simp
    from Cons have IH: "sum_list (map fe_co2e es) = sum_list (map fe_kilowattHours es) * Fin k"
      and fin: "is_fin (sum_list (map fe_kilowattHours es))" by simp_all
    obtain a b where ab: "fe_kilowattHours e = Fin a" "sum_list (map fe_kilowattHours es) = Fin b"
      using assms(2) [OF e] fin by (auto simp: is_fin_iff)
    show ?case using IH estimate_co2 [OF e] assms(1) ab by (simp add: distrib_right)
  qed
  then show ?thesis by blast
qed

end

interpretation compute: operational_estimator ComputeEstimator_estimate cu_timestamp
  by unfold_locales (auto simp: ComputeEstimator_estimate_def compute_estimate_one_def Let_def
      estimateCo2_def)

interpretation memory: operational_estimator "MemoryEstimator_estimate coefficient" mu_timestamp
  for coefficient
  by unfold_locales (auto simp: MemoryEstimator_estimate_def Let_def estimateCo2_def)

interpretation storage: operational_estimator "StorageEstimator_estimate coefficient" su_timestamp
  for coefficient
  by unfold_locales (auto simp: StorageEstimator_estimate_def Let_def estimateCo2_def)

interpretation networking: operational_estimator "NetworkingEstimator_estimate coefficient" nu_timestamp
  for coefficient
  by unfold_locales (auto simp: NetworkingEstimator_estimate_def Let_def estimateCo2_def)

interpretation embodied: footprint_estimator
    "\<lambda>us r ef c. EmbodiedEmissionsEstimator_estimate lifespan us r ef" eu_timestamp
  for lifespan
  by unfold_locales (auto simp: EmbodiedEmissionsEstimator_estimate_def Let_def)

section \<open>Values\<close>

lemmas compute_one = ComputeEstimator_estimate_def compute_estimate_one_def Let_def
  ENERGY_ESTIMATION_FORMULA_def

lemma energy_formula_Fin:
  assumes "\<not> truthy_opt avgWatts"
  shows "ENERGY_ESTIMATION_FORMULA (Fin u) (Fin h) (Some (Fin lo)) (Some (Fin hi)) (Some (Fin p))
      (Some (Fin r)) avgWatts = Fin ((lo + u / 100 * (hi - lo)) * h * p * r / 1000)"
  using assms by (simp add: ENERGY_ESTIMATION_FORMULA_def Let_def default_one_def jsnum_simps)

text \<open>
  With the utilisation in percent, the energy lies between the idle and the full power of the
  processor over the same hours.
\<close>

lemma energy_formula_bounds:
  assumes "\<not> truthy_opt avgWatts" "0 \<le> u" "u \<le> 100" "lo \<le> hi" "0 \<le> h" "0 \<le> p" "0 \<le> r"
  shows "\<exists>e. ENERGY_ESTIMATION_FORMULA (Fin u) (Fin h) (Some (Fin lo)) (Some (Fin hi)) (Some (Fin p))
      (Some (Fin r)) avgWatts = Fin e \<and> lo * h * p * r / 1000 \<le> e \<and> e \<le> hi * h * p * r / 1000"
proof -
  let ?w = "lo + u / 100 * (hi - lo)"
  have "0 \<le> u / 100 * (hi - lo)" using assms by simp
  moreover have "u / 100 * (hi - lo) \<le> 1 * (hi - lo)"
    using assms by (intro mult_right_mono) simp_all
  ultimately have w: "lo \<le> ?w" "?w \<le> hi" by simp_all
  have hpr: "0 \<le> h * p * r" using assms by simp
  have "lo * h * p * r / 1000 \<le> ?w * h * p * r / 1000"
    "?w * h * p * r / 1000 \<le> hi * h * p * r / 1000"
    using mult_right_mono [OF w(1) hpr] mult_right_mono [OF w(2) hpr]
    by (simp_all add: mult.assoc divide_right_mono)
  then show ?thesis using energy_formula_Fin [OF assms(1)] by blast
qed

lemma unknown_estimate_single:
  assumes "UnknownEstimator_estimate by [u] r ef c = Inr es"
  obtains e store where "es = [e]" "cc_kilowattHoursByServiceAndUsageUnit c = Some store"
    "unknown_estimateKilowattHours by u store = Inr (fe_kilowattHours e)"
    "fe_timestamp e = uu_timestamp u" "fe_co2e e = fe_kilowattHours e * factor_for r ef"
    "fe_usesAverageCPUConstant e = Some False"
  using assms
  by (auto simp: UnknownEstimator_estimate_def bindR_eq_Inr_iff estimateCo2_def
      split: option.splits)

section \<open>memory/helpers.ts\<close>

definition getPhysicalChips :: "jsnum \<Rightarrow> jsnum" where
  "getPhysicalChips largestInstanceTypevCpus = ceil_num (largestInstanceTypevCpus / 96)"

definition calculateGigabyteHours :: "jsnum \<Rightarrow> jsnum \<Rightarrow> jsnum \<Rightarrow> jsnum \<Rightarrow> jsnum \<Rightarrow> jsnum" where
  "calculateGigabyteHours physicalChips largestInstanceTypeMemory processorMemory
       instanceTypeMemory usageAmount =
     (let instanceMemory = largestInstanceTypeMemory / physicalChips in
      if 0 < instanceMemory - processorMemory then
        (let largestInstanceGigabyteDelta = instanceMemory - processorMemory;
             instanceMemoryRatio = largestInstanceTypeMemory / instanceTypeMemory
         in (largestInstanceGigabyteDelta / instanceMemoryRatio) * usageAmount)
      else 0)"

lemma getPhysicalChips_Fin: "0 < n \<Longrightarrow> \<exists>k \<ge> 1. getPhysicalChips (Fin n) = Fin (of_int k)"
  by (intro exI [of _ "\<lceil>n / 96\<rceil>"]) (simp add: getPhysicalChips_def jsnum_simps)

lemma calculateGigabyteHours_Fin:
  assumes "0 < chips" "0 < big" "0 < inst"
  shows "calculateGigabyteHours (Fin chips) (Fin big) (Fin proc) (Fin inst) (Fin hours)
       = Fin (max 0 (big / chips - proc) * (inst / big) * hours)"
  using assms by (simp add: calculateGigabyteHours_def Let_def jsnum_simps max_def)

end
