(* ===== verification/Core_Accumulate.thy ===== *)
theory Core_Accumulate
  imports Core_Estimators
begin

text \<open>
  The shared store of kilowatt hours per service and usage unit
  (\<open>accumulateKilowattHours\<close> of \<open>FootprintEstimate.ts\<close>), which the billing readers fill from
  the rows they can estimate and from which the unknown rows are estimated afterwards.
  The entry \<open>total\<close> holds the sums over all services.
\<close>

section \<open>The operations\<close>

fun total_field :: "AccumulateKilowattHoursBy \<Rightarrow> KilowattHourTotals \<Rightarrow> jsnum option" where
  "total_field AK_COST t = kt_cost t"
| "total_field AK_USAGE_AMOUNT t = kt_usageAmount t"

fun set_total_field :: "AccumulateKilowattHoursBy \<Rightarrow> jsnum \<Rightarrow> KilowattHourTotals \<Rightarrow> KilowattHourTotals" where
  "set_total_field AK_COST v t = t\<lparr>kt_cost := Some v\<rparr>"
| "set_total_field AK_USAGE_AMOUNT v t = t\<lparr>kt_usageAmount := Some v\<rparr>"

fun row_field :: "AccumulateKilowattHoursBy \<Rightarrow> BillingDataRow \<Rightarrow> jsnum" where
  "row_field AK_COST row = br_cost row"
| "row_field AK_USAGE_AMOUNT row = br_usageAmount row"

definition new_totals :: "AccumulateKilowattHoursBy \<Rightarrow> jsnum \<Rightarrow> jsnum \<Rightarrow> KilowattHourTotals" where
  "new_totals by accumValue kwh =
     set_total_field by accumValue
       \<lparr>kt_usageAmount = None, kt_cost = None, kt_kilowattHours = kwh\<rparr>"

definition add_totals ::
    "AccumulateKilowattHoursBy \<Rightarrow> jsnum \<Rightarrow> jsnum \<Rightarrow> KilowattHourTotals \<Rightarrow> KilowattHourTotals" where
  "add_totals by accumValue kwh t =
     (let t1 = set_total_field by (or_num (total_field by t) 0 + accumValue) t
      in t1\<lparr>kt_kilowattHours := kt_kilowattHours t1 + kwh\<rparr>)"

definition setOrAccumulateByServiceAndUsageUnit ::
    "kwh_store \<Rightarrow> BillingDataRow \<Rightarrow> jsnum \<Rightarrow> AccumulateKilowattHoursBy \<Rightarrow> kwh_store" where
  "setOrAccumulateByServiceAndUsageUnit store row kwh by =
     (case obj_get store (br_serviceName row) of
        None \<Rightarrow> obj_set store (br_serviceName row)
                  [(br_usageUnit row, new_totals by (row_field by row) kwh)]
      | Some units \<Rightarrow>
          (case obj_get units (br_usageUnit row) of
             None \<Rightarrow> obj_set store (br_serviceName row)
                       (obj_set units (br_usageUnit row) (new_totals by (row_field by row) kwh))
           | Some t \<Rightarrow> obj_set store (br_serviceName row)
                       (obj_set units (br_usageUnit row) (add_totals by (row_field by row) kwh t))))"

definition setOrAccumulateUsageUnitTotals ::
    "kwh_store \<Rightarrow> BillingDataRow \<Rightarrow> jsnum \<Rightarrow> AccumulateKilowattHoursBy \<Rightarrow> kwh_store result" where
  "setOrAccumulateUsageUnitTotals store row kwh by =
     (case obj_get store ''total'' of
        None \<Rightarrow> Inl TypeError
      | Some units \<Rightarrow>
          Inr (obj_set store ''total''
            (case obj_get units (br_usageUnit row) of
               Some t \<Rightarrow> obj_set units (br_usageUnit row) (add_totals by (row_field by row) kwh t)
             | None \<Rightarrow> obj_set units (br_usageUnit row) (new_totals by (row_field by row) kwh))))"

definition accumulateKilowattHours ::
    "kwh_store \<Rightarrow> BillingDataRow \<Rightarrow> jsnum \<Rightarrow> AccumulateKilowattHoursBy \<Rightarrow> kwh_store result" where
  "accumulateKilowattHours store row kwh by =
     setOrAccumulateUsageUnitTotals
       (setOrAccumulateByServiceAndUsageUnit store row kwh by) row kwh by"

definition initial_store :: kwh_store where
  "initial_store = [(''total'', [])]"

section \<open>One entry of a unit table\<close>

text \<open>Both operations do the same to a table of units.\<close>

definition bump_unit :: "AccumulateKilowattHoursBy \<Rightarrow> string \<Rightarrow> jsnum \<Rightarrow> jsnum \<Rightarrow>
    KilowattHourTotals obj \<Rightarrow> KilowattHourTotals obj" where
  "bump_unit by unit v kwh units =
     obj_set units unit (case obj_get units unit of
                           None \<Rightarrow> new_totals by v kwh
                         | Some t \<Rightarrow> add_totals by v kwh t)"

definition units_of :: "kwh_store \<Rightarrow> string \<Rightarrow> KilowattHourTotals obj" where
  "units_of store service = (case obj_get store service of None \<Rightarrow> [] | Some units \<Rightarrow> units)"

lemma setOrAccumulateByServiceAndUsageUnit_eq:
  "setOrAccumulateByServiceAndUsageUnit store row kwh by =
     obj_set store (br_serviceName row)
       (bump_unit by (br_usageUnit row) (row_field by row) kwh (units_of store (br_serviceName row)))"
  by (simp add: setOrAccumulateByServiceAndUsageUnit_def bump_unit_def units_of_def
      split: option.splits)

lemma setOrAccumulateUsageUnitTotals_eq:
  assumes "obj_get store ''total'' \<noteq> None"
  shows "setOrAccumulateUsageUnitTotals store row kwh by =
     Inr (obj_set store ''total''
       (bump_unit by (br_usageUnit row) (row_field by row) kwh (units_of store ''total'')))"
  using assms
  by (auto simp: setOrAccumulateUsageUnitTotals_def bump_unit_def units_of_def
      split: option.splits)

lemma units_of_set [simp]:
  "units_of (obj_set store s u) s' = (if s' = s then u else units_of store s')"
  by (simp add: units_of_def obj_get_set)

text \<open>One accumulation bumps the table of the service and the table of the totals.\<close>

lemma accumulate_eq:
  assumes "obj_get store ''total'' \<noteq> None"
  shows "\<exists>store'. accumulateKilowattHours store row kwh by = Inr store'
    \<and> obj_get store' ''total'' \<noteq> None
    \<and> (obj_wf store \<longrightarrow> obj_wf store')
    \<and> (\<forall>s. units_of store' s =
         (let bump = bump_unit by (br_usageUnit row) (row_field by row) kwh;
              u1 = (if s = br_serviceName row then bump (units_of store s) else units_of store s)
          in if s = ''total'' then bump u1 else u1))"
proof -
  let ?s1 = "setOrAccumulateByServiceAndUsageUnit store row kwh by"
  have "obj_get ?s1 ''total'' \<noteq> None"
    using assms by (simp add: setOrAccumulateByServiceAndUsageUnit_eq obj_get_set)
  from setOrAccumulateUsageUnitTotals_eq [OF this, of row kwh "by"] show ?thesis
    unfolding accumulateKilowattHours_def
    by (auto simp: setOrAccumulateByServiceAndUsageUnit_eq obj_get_set Let_def)
qed

definition unit_kwh :: "KilowattHourTotals obj \<Rightarrow> string \<Rightarrow> jsnum" where
  "unit_kwh units unit =
     (case obj_get units unit of None \<Rightarrow> 0 | Some t \<Rightarrow> kt_kilowattHours t)"

definition unit_field :: "AccumulateKilowattHoursBy \<Rightarrow> KilowattHourTotals obj \<Rightarrow> string \<Rightarrow> jsnum" where
  "unit_field by units unit =
     (case obj_get units unit of None \<Rightarrow> 0 | Some t \<Rightarrow> or_num (total_field by t) 0)"

lemma kt_kilowattHours_set_field [simp]:
  "kt_kilowattHours (set_total_field by v t) = kt_kilowattHours t"
  by (cases "by") simp_all

lemma total_field_set_field [simp]: "total_field by (set_total_field by v t) = Some v"
  by (cases "by") simp_all

lemma total_field_kwh_update [simp]:
  "total_field by (t\<lparr>kt_kilowattHours := k\<rparr>) = total_field by t"
  by (cases "by") simp_all

lemma kt_kilowattHours_totals [simp]:
  "kt_kilowattHours (new_totals by v kwh) = kwh"
  "kt_kilowattHours (add_totals by v kwh t) = kt_kilowattHours t + kwh"
  by (simp_all add: new_totals_def add_totals_def Let_def)

lemma total_field_totals [simp]:
  "total_field by (new_totals by v kwh) = Some v"
  "total_field by (add_totals by v kwh t) = Some (or_num (total_field by t) 0 + v)"
  by (simp_all add: new_totals_def add_totals_def Let_def)

lemma unit_kwh_bump:
  "unit_kwh (bump_unit by unit v kwh units) u =
     (if u = unit then unit_kwh units u + kwh else unit_kwh units u)"
  by (auto simp: unit_kwh_def bump_unit_def obj_get_set split: option.splits)

lemma or_num_fin: "is_fin x \<Longrightarrow> or_num (Some x) 0 = x"
  by (auto simp: is_fin_iff zero_Fin)

lemma unit_field_bump:
  assumes "is_fin v" "is_fin (unit_field by units u)"
  shows "unit_field by (bump_unit by unit v kwh units) u =
     (if u = unit then unit_field by units u + v else unit_field by units u)"
  using assms or_num_fin [of "unit_field by units u + v"]
  by (auto simp: unit_field_def bump_unit_def obj_get_set or_num_fin
      simp del: or_num_simps split: option.splits)

section \<open>The totals are the sums over the services\<close>

definition services_kwh :: "kwh_store \<Rightarrow> string \<Rightarrow> jsnum" where
  "services_kwh store unit =
     sum_list (map (\<lambda>(s, units). if s = ''total'' then 0 else unit_kwh units unit) store)"

definition store_ok :: "kwh_store \<Rightarrow> bool" where
  "store_ok store \<longleftrightarrow>
     obj_wf store \<and> obj_get store ''total'' \<noteq> None
     \<and> (\<forall>unit. unit_kwh (units_of store ''total'') unit = services_kwh store unit)"

lemma store_ok_initial: "store_ok initial_store"
  by (simp add: store_ok_def initial_store_def obj_wf_def units_of_def unit_kwh_def
      services_kwh_def)

lemma services_kwh_set_total [simp]:
  assumes "obj_get store ''total'' = Some w"
  shows "services_kwh (obj_set store ''total'' u) unit = services_kwh store unit"
  using sum_list_obj_set_same [OF assms,
      where f = "\<lambda>(s, units). if s = ''total'' then 0 else unit_kwh units unit" and c = 0]
  by (simp add: services_kwh_def)

lemma services_kwh_bump:
  assumes "s \<noteq> ''total''"
  shows "services_kwh (obj_set store s (bump_unit by unit v kwh (units_of store s))) u
       = services_kwh store u + (if u = unit then kwh else 0)"
proof (cases "obj_get store s")
  case None
  have "unit_kwh (units_of store s) u = 0" using None by (simp add: units_of_def unit_kwh_def)
  then show ?thesis
    using sum_list_obj_set_new [OF None,
        where f = "\<lambda>(s, units). if s = ''total'' then 0 else unit_kwh units u"] assms
    by (auto simp: services_kwh_def unit_kwh_bump)
next
  case (Some w)
  then show ?thesis
    using sum_list_obj_set_same [OF Some,
        where f = "\<lambda>(s, units). if s = ''total'' then 0 else unit_kwh units u"
          and v = "bump_unit by unit v kwh w" and c = "if u = unit then kwh else 0"] assms
    by (simp add: services_kwh_def unit_kwh_bump units_of_def)
qed

lemma store_ok_accumulate:
  assumes "store_ok store" and "br_serviceName row \<noteq> ''total''"
  shows "\<exists>store'. accumulateKilowattHours store row kwh by = Inr store' \<and> store_ok store'"
proof -
  let ?s = "br_serviceName row"
  let ?bump = "bump_unit by (br_usageUnit row) (row_field by row) kwh"
  let ?s1 = "obj_set store ?s (?bump (units_of store ?s))"
  let ?s2 = "obj_set ?s1 ''total'' (?bump (units_of store ''total''))"
  have tot: "obj_get store ''total'' \<noteq> None" using assms by (simp add: store_ok_def)
  then have tot1: "obj_get ?s1 ''total'' \<noteq> None" by (simp add: obj_get_set)
  have u1: "units_of ?s1 ''total'' = units_of store ''total''" using assms(2) by simp
  have "accumulateKilowattHours store row kwh by = Inr ?s2"
    unfolding accumulateKilowattHours_def setOrAccumulateByServiceAndUsageUnit_eq
    by (simp only: setOrAccumulateUsageUnitTotals_eq [OF tot1] u1)
  moreover have "store_ok ?s2"
  proof -
    obtain w where w: "obj_get ?s1 ''total'' = Some w" using tot1 by blast
    have "unit_kwh (units_of ?s2 ''total'') u = services_kwh ?s2 u" for u
      using assms by (simp add: services_kwh_set_total [OF w] services_kwh_bump unit_kwh_bump
          store_ok_def)
    moreover have "obj_wf ?s2" using assms(1) by (simp add: store_ok_def)
    ultimately show ?thesis by (simp add: store_ok_def obj_get_set)
  qed
  ultimately show ?thesis by blast
qed

section \<open>A run of accumulations\<close>

text \<open>The rows estimated so far, each with its energy.\<close>

definition accumulate_all ::
    "AccumulateKilowattHoursBy \<Rightarrow> kwh_store \<Rightarrow> (BillingDataRow \<times> jsnum) list \<Rightarrow> kwh_store result" where
  "accumulate_all by store entries =
     foldR (\<lambda>st (row, kwh). accumulateKilowattHours st row kwh by) store entries"

definition in_table :: "string \<Rightarrow> string \<Rightarrow> BillingDataRow \<times> jsnum \<Rightarrow> bool" where
  "in_table s unit entry \<longleftrightarrow>
     br_usageUnit (fst entry) = unit \<and> (s = ''total'' \<or> br_serviceName (fst entry) = s)"

lemma accumulate_tables:
  assumes "obj_get store ''total'' \<noteq> None"
    and "accumulateKilowattHours store row kwh by = Inr store'"
    and "br_serviceName row \<noteq> ''total''"
  shows "obj_get store' ''total'' \<noteq> None"
    "units_of store' s = (if s = ''total'' \<or> s = br_serviceName row
       then bump_unit by (br_usageUnit row) (row_field by row) kwh (units_of store s)
       else units_of store s)"
  using accumulate_eq [OF assms(1), of row kwh "by"] assms(2,3) by (auto simp: Let_def)

lemma unit_kwh_accumulate_all:
  assumes "obj_get store ''total'' \<noteq> None" and "accumulate_all by store entries = Inr store'"
    and "\<forall>(row, kwh) \<in> set entries. br_serviceName row \<noteq> ''total''"
  shows "unit_kwh (units_of store' s) unit =
    unit_kwh (units_of store s) unit + sum_list (map snd (filter (in_table s unit) entries))"
  using assms
proof (induction entries arbitrary: store)
  case Nil
  then show ?case by (simp add: accumulate_all_def)
next
  case (Cons e entries)
  obtain row kwh where e: "e = (row, kwh)" by (cases e)
  from Cons.prems(2) obtain st where st: "accumulateKilowattHours store row kwh by = Inr st"
      "accumulate_all by st entries = Inr store'"
    by (auto simp: accumulate_all_def e bindR_eq_Inr_iff)
  have nt: "br_serviceName row \<noteq> ''total''" using Cons.prems(3) e by auto
  note tabs = accumulate_tables [OF Cons.prems(1) st(1) nt]
  have "unit_kwh (units_of store' s) unit =
      unit_kwh (units_of st s) unit + sum_list (map snd (filter (in_table s unit) entries))"
    using Cons.IH [OF tabs(1) st(2)] Cons.prems(3) by auto
  also have "unit_kwh (units_of st s) unit =
      unit_kwh (units_of store s) unit + (if in_table s unit e then kwh else 0)"
    by (auto simp: tabs(2) unit_kwh_bump in_table_def e)
  finally show ?case by (simp add: e add.assoc)
qed

lemma unit_field_accumulate_all:
  assumes "obj_get store ''total'' \<noteq> None" and "accumulate_all by store entries = Inr store'"
    and "\<forall>(row, kwh) \<in> set entries. br_serviceName row \<noteq> ''total'' \<and> is_fin (row_field by row)"
    and "is_fin (unit_field by (units_of store s) unit)"
  shows "unit_field by (units_of store' s) unit =
    unit_field by (units_of store s) unit
      + sum_list (map (\<lambda>e. row_field by (fst e)) (filter (in_table s unit) entries))"
  using assms
proof (induction entries arbitrary: store)
  case Nil
  then show ?case by (simp add: accumulate_all_def)
next
  case (Cons e entries)
  obtain row kwh where e: "e = (row, kwh)" by (cases e)
  from Cons.prems(2) obtain st where st: "accumulateKilowattHours store row kwh by = Inr st"
      "accumulate_all by st entries = Inr store'"
    by (auto simp: accumulate_all_def e bindR_eq_Inr_iff)
  have nt: "br_serviceName row \<noteq> ''total''" and fin: "is_fin (row_field by row)"
    using Cons.prems(3) e by auto
  note tabs = accumulate_tables [OF Cons.prems(1) st(1) nt]
  have step: "unit_field by (units_of st s) unit =
      unit_field by (units_of store s) unit + (if in_table s unit e then row_field by row else 0)"
    by (auto simp: tabs(2) unit_field_bump [OF fin Cons.prems(4)] in_table_def e)
  have "is_fin (unit_field by (units_of st s) unit)"
    using Cons.prems(4) fin by (simp add: step)
  then have "unit_field by (units_of store' s) unit = unit_field by (units_of st s) unit
      + sum_list (map (\<lambda>e. row_field by (fst e)) (filter (in_table s unit) entries))"
    using Cons.IH [OF tabs(1) st(2)] Cons.prems(3) by auto
  then show ?case by (simp add: step e add.assoc)
qed

lemma accumulate_all_total:
  assumes "obj_get store ''total'' \<noteq> None"
  shows "\<exists>store'. accumulate_all by store entries = Inr store' \<and> obj_get store' ''total'' \<noteq> None"
  using assms
proof (induction entries arbitrary: store)
  case Nil
  then show ?case by (simp add: accumulate_all_def)
next
  case (Cons e entries)
  obtain row kwh where e: "e = (row, kwh)" by (cases e)
  obtain st where "accumulateKilowattHours store row kwh by = Inr st" "obj_get st ''total'' \<noteq> None"
    using accumulate_eq [OF Cons.prems, of row kwh "by"] by blast
  with Cons.IH [of st] show ?case by (simp add: accumulate_all_def e)
qed

lemma accumulate_all_keeps_total:
  "accumulate_all by store entries = Inr store' \<Longrightarrow> obj_get store ''total'' \<noteq> None \<Longrightarrow>
   obj_get store' ''total'' \<noteq> None"
  using accumulate_all_total [of store "by" entries] by auto

end
