(* ===== verification/Core_Append.thy ===== *)
theory Core_Append
  imports Core_Accumulate
begin

text \<open>
  \<open>appendOrAccumulateEstimatesByDay\<close> of \<open>FootprintEstimate.ts\<close>: a row's estimate is added to
  the estimate of its day with the same region, service, account and tags, or opens a new one.
  The results array is mutated in place; here it is passed and returned.
\<close>

section \<open>The operation\<close>

fun sameTags :: "TagCollection option \<Rightarrow> TagCollection option \<Rightarrow> string list \<Rightarrow> bool result" where
  "sameTags t1 t2 [] = Inr True"
| "sameTags t1 t2 (tagName # tagNames) =
     (case (t1, t2) of
        (Some a, Some b) \<Rightarrow>
          if tag_get a tagName \<noteq> tag_get b tagName then Inr False else sameTags t1 t2 tagNames
      | _ \<Rightarrow> Inl TypeError)"

definition hasSameRegionAndServiceAndAccountAndTags ::
    "ServiceData \<Rightarrow> ServiceData \<Rightarrow> string list \<Rightarrow> bool result" where
  "hasSameRegionAndServiceAndAccountAndTags estimateOne estimateTwo tagNames =
     (if sd_region estimateOne \<noteq> sd_region estimateTwo
         \<or> sd_serviceName estimateOne \<noteq> sd_serviceName estimateTwo
         \<or> sd_accountId estimateOne \<noteq> sd_accountId estimateTwo
      then Inr False
      else sameTags (sd_tags estimateOne) (sd_tags estimateTwo) tagNames)"

definition service_estimate :: "BillingDataRow \<Rightarrow> FootprintEstimate \<Rightarrow> ServiceData" where
  "service_estimate rowData footprintEstimate =
     \<lparr>sd_cloudProvider = br_cloudProvider rowData,
      sd_accountId = br_accountId rowData,
      sd_accountName = br_accountName rowData,
      sd_serviceName = br_serviceName rowData,
      sd_kilowattHours = fe_kilowattHours footprintEstimate,
      sd_co2e = fe_co2e footprintEstimate,
      sd_cost = br_cost rowData,
      sd_region = br_region rowData,
      sd_usesAverageCPUConstant = (fe_usesAverageCPUConstant footprintEstimate = Some True),
      sd_tags = br_tags rowData\<rparr>"

definition add_estimate :: "ServiceData \<Rightarrow> ServiceData \<Rightarrow> ServiceData" where
  "add_estimate new e =
     e\<lparr>sd_kilowattHours := sd_kilowattHours e + sd_kilowattHours new,
       sd_co2e := sd_co2e e + sd_co2e new,
       sd_cost := sd_cost e + sd_cost new,
       sd_usesAverageCPUConstant :=
         (if sd_usesAverageCPUConstant new
          then sd_usesAverageCPUConstant e \<or> sd_usesAverageCPUConstant new
          else sd_usesAverageCPUConstant e)\<rparr>"

definition add_to_day :: "ServiceData \<Rightarrow> string list \<Rightarrow> ServiceData list \<Rightarrow> ServiceData list result" where
  "add_to_day new tagNames es =
     bindR (update_firstR (\<lambda>e. hasSameRegionAndServiceAndAccountAndTags e new tagNames)
              (add_estimate new) es)
       (\<lambda>found. Inr (case found of Some es' \<Rightarrow> es' | None \<Rightarrow> es @ [new]))"

text \<open>The day is found by \<open>find\<close>, the first result with the row's timestamp.\<close>

fun add_to_results :: "date \<Rightarrow> (ServiceData list \<Rightarrow> ServiceData list result) \<Rightarrow>
    EstimationResult list \<Rightarrow> EstimationResult list option result" where
  "add_to_results t f [] = Inr None"
| "add_to_results t f (r # rs) =
     (if er_timestamp r = t
      then bindR (f (er_serviceEstimates r)) (\<lambda>es. Inr (Some (r\<lparr>er_serviceEstimates := es\<rparr> # rs)))
      else bindR (add_to_results t f rs) (\<lambda>x. Inr (map_option ((#) r) x)))"

definition appendOrAccumulateEstimatesByDay ::
    "moment_ops \<Rightarrow> EstimationResult list \<Rightarrow> BillingDataRow \<Rightarrow> FootprintEstimate \<Rightarrow> GroupBy \<Rightarrow>
     string list \<Rightarrow> EstimationResult list result" where
  "appendOrAccumulateEstimatesByDay M results rowData footprintEstimate grouping tagNames =
     (let serviceEstimate = service_estimate rowData footprintEstimate in
      case br_timestamp rowData of
        None \<Rightarrow> Inl TypeError
      | Some t \<Rightarrow>
          bindR (add_to_results t (add_to_day serviceEstimate tagNames) results) (\<lambda>found.
            Inr (case found of
                   Some results' \<Rightarrow> results'
                 | None \<Rightarrow> results @ [\<lparr>er_timestamp = t,
                                       er_serviceEstimates = [serviceEstimate],
                                       er_periodStartDate = Some t,
                                       er_periodEndDate = Some (getPeriodEndDate M t grouping),
                                       er_groupBy = grouping\<rparr>])))"

section \<open>Which estimate a row goes to\<close>

type_synonym estimate_key = "string \<times> string \<times> string \<times> string option list"

definition tags_key :: "TagCollection option \<Rightarrow> string list \<Rightarrow> string option list" where
  "tags_key tags tagNames =
     map (\<lambda>n. case tags of None \<Rightarrow> None | Some t \<Rightarrow> tag_get t n) tagNames"

definition estimate_key :: "string list \<Rightarrow> ServiceData \<Rightarrow> estimate_key" where
  "estimate_key tagNames e =
     (sd_region e, sd_serviceName e, sd_accountId e, tags_key (sd_tags e) tagNames)"

lemma sameTags_Inr: "sameTags t1 t2 ns = Inr b \<Longrightarrow> b = (tags_key t1 ns = tags_key t2 ns)"
  by (induction t1 t2 ns rule: sameTags.induct)
    (auto simp: tags_key_def split: option.splits if_splits)

lemma sameTags_Some: "sameTags (Some a) (Some b) ns = Inr (tags_key (Some a) ns = tags_key (Some b) ns)"
  by (induction ns) (auto simp: tags_key_def)

lemma hasSame_Inr:
  "hasSameRegionAndServiceAndAccountAndTags e1 e2 ns = Inr b \<Longrightarrow>
   b = (estimate_key ns e1 = estimate_key ns e2)"
  by (auto simp: hasSameRegionAndServiceAndAccountAndTags_def estimate_key_def
      split: if_splits dest: sameTags_Inr)

lemma hasSame_tags:
  assumes "sd_tags e1 \<noteq> None" "sd_tags e2 \<noteq> None"
  shows "hasSameRegionAndServiceAndAccountAndTags e1 e2 ns
       = Inr (estimate_key ns e1 = estimate_key ns e2)"
  using assms
  by (auto simp: hasSameRegionAndServiceAndAccountAndTags_def estimate_key_def sameTags_Some)

lemma add_estimate_simps [simp]:
  "sd_kilowattHours (add_estimate new e) = sd_kilowattHours e + sd_kilowattHours new"
  "sd_co2e (add_estimate new e) = sd_co2e e + sd_co2e new"
  "sd_cost (add_estimate new e) = sd_cost e + sd_cost new"
  "sd_tags (add_estimate new e) = sd_tags e"
  "estimate_key ns (add_estimate new e) = estimate_key ns e"
  "sd_usesAverageCPUConstant (add_estimate new e) =
     (sd_usesAverageCPUConstant e \<or> sd_usesAverageCPUConstant new)"
  by (simp_all add: add_estimate_def estimate_key_def)

text \<open>Adding to a day either extends the entry with the row's key or appends the new entry.\<close>

lemma add_to_day_cases:
  assumes "add_to_day new ns es = Inr es'"
  obtains
    (found) us e vs where "es = us @ e # vs" "es' = us @ add_estimate new e # vs"
      "estimate_key ns e = estimate_key ns new"
      "\<forall>u\<in>set us. estimate_key ns u \<noteq> estimate_key ns new"
  | (fresh) "es' = es @ [new]" "\<forall>e\<in>set es. estimate_key ns e \<noteq> estimate_key ns new"
proof -
  let ?P = "\<lambda>e. hasSameRegionAndServiceAndAccountAndTags e new ns"
  from assms obtain r where r: "update_firstR ?P (add_estimate new) es = Inr r"
      "es' = (case r of Some es' \<Rightarrow> es' | None \<Rightarrow> es @ [new])"
    by (auto simp: add_to_day_def bindR_eq_Inr_iff)
  show thesis
  proof (cases r)
    case None
    then have "\<forall>e\<in>set es. ?P e = Inr False" using r(1) by (metis update_firstR_None)
    then have "\<forall>e\<in>set es. estimate_key ns e \<noteq> estimate_key ns new"
      using hasSame_Inr by blast
    with r(2) None show thesis using fresh by simp
  next
    case (Some ys)
    then obtain us e vs where "es = us @ e # vs" "ys = us @ add_estimate new e # vs"
        "?P e = Inr True" "\<forall>u\<in>set us. ?P u = Inr False"
      using r(1) by (auto elim!: update_firstR_Some)
    moreover from this have "estimate_key ns e = estimate_key ns new"
        "\<forall>u\<in>set us. estimate_key ns u \<noteq> estimate_key ns new"
      using hasSame_Inr by blast+
    ultimately show thesis using found r(2) Some by simp
  qed
qed

lemma add_to_results_cases:
  assumes "add_to_results t f rs = Inr x"
  obtains
    (found) us r vs es where "rs = us @ r # vs" "er_timestamp r = t"
      "\<forall>u\<in>set us. er_timestamp u \<noteq> t" "f (er_serviceEstimates r) = Inr es"
      "x = Some (us @ r\<lparr>er_serviceEstimates := es\<rparr> # vs)"
  | (fresh) "x = None" "\<forall>r\<in>set rs. er_timestamp r \<noteq> t"
  using assms
proof (induction rs arbitrary: x thesis)
  case Nil
  then show ?case by simp
next
  case (Cons r rs)
  show ?case
  proof (cases "er_timestamp r = t")
    case True
    with Cons.prems(3) show ?thesis
      by (auto simp: bindR_eq_Inr_iff intro: Cons.prems(1) [of "[]" r rs])
  next
    case False
    with Cons.prems(3) obtain y where y: "add_to_results t f rs = Inr y" "x = map_option ((#) r) y"
      by (auto simp: bindR_eq_Inr_iff)
    show ?thesis
    proof (rule Cons.IH [OF _ _ y(1)])
      fix us q vs es
      assume "rs = us @ q # vs" "er_timestamp q = t" "\<forall>u\<in>set us. er_timestamp u \<noteq> t"
        "f (er_serviceEstimates q) = Inr es" "y = Some (us @ q\<lparr>er_serviceEstimates := es\<rparr> # vs)"
      with y(2) False show ?thesis by (intro Cons.prems(1) [of "r # us" q vs es]) auto
    next
      assume "y = None" "\<forall>r\<in>set rs. er_timestamp r \<noteq> t"
      with y(2) False show ?thesis by (intro Cons.prems(2)) auto
    qed
  qed
qed

text \<open>The two outcomes of one append.\<close>

lemma append_cases:
  assumes "appendOrAccumulateEstimatesByDay M rs row fe g ns = Inr rs'"
  obtains
    (found) t us r vs es where "br_timestamp row = Some t" "rs = us @ r # vs" "er_timestamp r = t"
      "\<forall>u\<in>set us. er_timestamp u \<noteq> t"
      "add_to_day (service_estimate row fe) ns (er_serviceEstimates r) = Inr es"
      "rs' = us @ r\<lparr>er_serviceEstimates := es\<rparr> # vs"
  | (fresh) t where "br_timestamp row = Some t" "\<forall>r\<in>set rs. er_timestamp r \<noteq> t"
      "rs' = rs @ [\<lparr>er_timestamp = t, er_serviceEstimates = [service_estimate row fe],
                    er_periodStartDate = Some t, er_periodEndDate = Some (getPeriodEndDate M t g),
                    er_groupBy = g\<rparr>]"
proof (cases "br_timestamp row")
  case None
  with assms show thesis by (simp add: appendOrAccumulateEstimatesByDay_def Let_def)
next
  case (Some t)
  with assms obtain x where x: "add_to_results t (add_to_day (service_estimate row fe) ns) rs = Inr x"
      "rs' = (case x of Some r \<Rightarrow> r
              | None \<Rightarrow> rs @ [\<lparr>er_timestamp = t, er_serviceEstimates = [service_estimate row fe],
                    er_periodStartDate = Some t, er_periodEndDate = Some (getPeriodEndDate M t g),
                    er_groupBy = g\<rparr>])"
    by (auto simp: appendOrAccumulateEstimatesByDay_def Let_def bindR_eq_Inr_iff)
  from x(1) show thesis
  proof (cases rule: add_to_results_cases)
    case (found us r vs es)
    then show thesis using that(1) [OF Some] x(2) by simp
  next
    case fresh
    then show thesis using that(2) [OF Some] x(2) by simp
  qed
qed

section \<open>Nothing is lost\<close>

text \<open>A number of an estimate that \<open>add_estimate\<close> adds up.\<close>

definition additive :: "(ServiceData \<Rightarrow> jsnum) \<Rightarrow> bool" where
  "additive f \<longleftrightarrow> (\<forall>new e. f (add_estimate new e) = f e + f new)"

lemma additive_fields [simp]:
  "additive sd_kilowattHours" "additive sd_co2e" "additive sd_cost"
  by (simp_all add: additive_def)

lemma add_to_day_total:
  assumes "add_to_day new ns es = Inr es'" "additive f"
  shows "se_total f es' = se_total f es + f new"
  using assms(1)
proof (cases rule: add_to_day_cases)
  case (found us e vs)
  with assms(2) show ?thesis by (simp add: additive_def ac_simps)
next
  case fresh
  then show ?thesis by simp
qed

lemma append_total:
  assumes "appendOrAccumulateEstimatesByDay M rs row fe g ns = Inr rs'" "additive f"
  shows "er_total f rs' = er_total f rs + f (service_estimate row fe)"
  using assms(1)
proof (cases rule: append_cases)
  case (found t us r vs es)
  then show ?thesis using add_to_day_total [OF found(5) assms(2)] by (simp add: ac_simps)
next
  case (fresh t)
  then show ?thesis by simp
qed

section \<open>One entry per day and key\<close>

definition day_ok :: "string list \<Rightarrow> ServiceData list \<Rightarrow> bool" where
  "day_ok ns es \<longleftrightarrow> distinct (map (estimate_key ns) es)"

definition results_ok :: "string list \<Rightarrow> EstimationResult list \<Rightarrow> bool" where
  "results_ok ns rs \<longleftrightarrow>
     distinct (map er_timestamp rs) \<and> (\<forall>r\<in>set rs. day_ok ns (er_serviceEstimates r))"

lemma results_ok_Nil [simp]: "results_ok ns []"
  by (simp add: results_ok_def)

lemma add_to_day_ok:
  assumes "add_to_day new ns es = Inr es'" "day_ok ns es"
  shows "day_ok ns es'"
  using assms(1)
proof (cases rule: add_to_day_cases)
  case (found us e vs)
  then show ?thesis using assms(2) by (simp add: day_ok_def)
next
  case fresh
  then show ?thesis using assms(2) by (auto simp: day_ok_def)
qed

lemma append_ok:
  assumes "appendOrAccumulateEstimatesByDay M rs row fe g ns = Inr rs'" "results_ok ns rs"
  shows "results_ok ns rs'"
  using assms(1)
proof (cases rule: append_cases)
  case (found t us r vs es)
  have "day_ok ns es"
    using add_to_day_ok [OF found(5)] assms(2) found(2) by (simp add: results_ok_def)
  then show ?thesis using assms(2) found(2,6) by (simp add: results_ok_def)
next
  case (fresh t)
  then show ?thesis using assms(2) by (auto simp: results_ok_def day_ok_def)
qed

section \<open>Typed results\<close>

text \<open>A result is of the grouping of the request and its estimates are of the providers.\<close>

definition result_typed :: "GroupBy \<Rightarrow> string list \<Rightarrow> EstimationResult \<Rightarrow> bool" where
  "result_typed grouping providers r \<longleftrightarrow> er_groupBy r = grouping
     \<and> list_all (\<lambda>e. sd_cloudProvider e \<in> set providers) (er_serviceEstimates r)"

lemma append_typed:
  assumes "appendOrAccumulateEstimatesByDay M rs row fe g ns = Inr rs'"
    and "list_all (result_typed g providers) rs" and "br_cloudProvider row \<in> set providers"
  shows "list_all (result_typed g providers) rs'"
proof -
  have new: "sd_cloudProvider (service_estimate row fe) = br_cloudProvider row"
    "sd_cloudProvider (add_estimate e' e) = sd_cloudProvider e" for e e'
    by (simp_all add: service_estimate_def add_estimate_def)
  from assms(1) show ?thesis
  proof (cases rule: append_cases)
    case (found t us r vs es)
    from found(5) have "list_all (\<lambda>e. sd_cloudProvider e \<in> set providers) es"
      using assms(2,3) found(2)
      by (cases rule: add_to_day_cases) (simp_all add: result_typed_def new)
    then show ?thesis using assms(2) found(2,6) by (simp add: result_typed_def)
  next
    case (fresh t)
    then show ?thesis using assms(2,3) by (simp add: result_typed_def new)
  qed
qed

section \<open>The value at a day and key\<close>

definition value_at :: "(ServiceData \<Rightarrow> jsnum) \<Rightarrow> string list \<Rightarrow> EstimationResult list \<Rightarrow> date \<Rightarrow>
    estimate_key \<Rightarrow> jsnum" where
  "value_at f ns rs t k =
     er_total (\<lambda>e. if estimate_key ns e = k then f e else 0) (filter (\<lambda>r. er_timestamp r = t) rs)"

lemma add_to_day_value:
  assumes "add_to_day new ns es = Inr es'" "additive f"
  shows "se_total (\<lambda>e. if estimate_key ns e = k then f e else 0) es'
       = se_total (\<lambda>e. if estimate_key ns e = k then f e else 0) es
         + (if estimate_key ns new = k then f new else 0)"
  using assms(1)
proof (cases rule: add_to_day_cases)
  case (found us e vs)
  with assms(2) show ?thesis by (auto simp: additive_def ac_simps)
next
  case fresh
  then show ?thesis by simp
qed

text \<open>One append adds the row's number at the row's day and key and changes no other value.\<close>

lemma append_value_at:
  assumes "appendOrAccumulateEstimatesByDay M rs row fe g ns = Inr rs'" "additive f"
  shows "value_at f ns rs' t k = value_at f ns rs t k
     + (if br_timestamp row = Some t \<and> estimate_key ns (service_estimate row fe) = k
        then f (service_estimate row fe) else 0)"
  using assms(1)
proof (cases rule: append_cases)
  case (found t' us r vs es)
  then show ?thesis using add_to_day_value [OF found(5) assms(2), of k]
    by (auto simp: value_at_def ac_simps)
next
  case (fresh t')
  then show ?thesis by (auto simp: value_at_def)
qed

text \<open>With tags on every estimate, as the billing readers set them, an append never throws.\<close>

definition tags_present :: "EstimationResult list \<Rightarrow> bool" where
  "tags_present rs \<longleftrightarrow> (\<forall>r\<in>set rs. \<forall>e\<in>set (er_serviceEstimates r). sd_tags e \<noteq> None)"

lemma add_to_day_total_fun:
  assumes "\<forall>e\<in>set es. sd_tags e \<noteq> None" "sd_tags new \<noteq> None"
  shows "\<exists>es'. add_to_day new ns es = Inr es' \<and> (\<forall>e\<in>set es'. sd_tags e \<noteq> None)"
proof -
  have "\<forall>e\<in>set es. \<exists>b. hasSameRegionAndServiceAndAccountAndTags e new ns = Inr b"
    using assms hasSame_tags by blast
  then obtain es' where es': "add_to_day new ns es = Inr es'"
    using update_firstR_total [of es "\<lambda>e. hasSameRegionAndServiceAndAccountAndTags e new ns"
        "add_estimate new"]
    by (auto simp: add_to_day_def)
  from es' have "\<forall>e\<in>set es'. sd_tags e \<noteq> None"
    by (cases rule: add_to_day_cases) (use assms in auto)
  with es' show ?thesis by blast
qed

lemma append_total_fun:
  assumes "tags_present rs" "br_timestamp row = Some t" "br_tags row \<noteq> None"
  shows "\<exists>rs'. appendOrAccumulateEstimatesByDay M rs row fe g ns = Inr rs' \<and> tags_present rs'"
proof -
  let ?new = "service_estimate row fe"
  have new: "sd_tags ?new \<noteq> None" using assms(3) by (simp add: service_estimate_def)
  have "\<exists>x. add_to_results t (add_to_day ?new ns) rs = Inr x"
    using assms(1)
  proof (induction rs)
    case Nil
    then show ?case by simp
  next
    case (Cons r rs)
    then show ?case
      using add_to_day_total_fun [OF _ new, of "er_serviceEstimates r" ns]
      by (auto simp: tags_present_def)
  qed
  then obtain rs' where rs': "appendOrAccumulateEstimatesByDay M rs row fe g ns = Inr rs'"
    using assms(2) by (auto simp: appendOrAccumulateEstimatesByDay_def Let_def)
  from rs' have "tags_present rs'"
  proof (cases rule: append_cases)
    case (found t' us r vs es)
    have "\<forall>e\<in>set (er_serviceEstimates r). sd_tags e \<noteq> None"
      using assms(1) found(2) by (simp add: tags_present_def)
    then have "\<forall>e\<in>set es. sd_tags e \<noteq> None"
      using add_to_day_total_fun [OF _ new, of "er_serviceEstimates r" ns] found(5) by auto
    then show ?thesis using assms(1) found(2,6) by (auto simp: tags_present_def)
  next
    case (fresh t')
    then show ?thesis using assms(1) new by (auto simp: tags_present_def)
  qed
  with rs' show ?thesis by blast
qed

end
