(* ===== verification/Core_Compute_Usage.thy ===== *)
theory Core_Compute_Usage
  imports Core_Append
begin

text \<open>
  \<open>compute/ComputeUsage.ts\<close>: the utilisation and vCPU series of a metrics service are grouped
  by timestamp in builders, one per instant, and turned into usage records.
\<close>

section \<open>The builder\<close>

record ComputeUsageBuilder =
  cb_timestamp :: string
  cb_cpuUtilizations :: "jsnum list"
  cb_vCpuHours :: jsnum

definition new_builder :: "string \<Rightarrow> ComputeUsageBuilder" where
  "new_builder timestamp = \<lparr>cb_timestamp = timestamp, cb_cpuUtilizations = [], cb_vCpuHours = 0\<rparr>"

definition addCpuUtilization :: "jsnum option \<Rightarrow> ComputeUsageBuilder \<Rightarrow> ComputeUsageBuilder" where
  "addCpuUtilization cpuUtilization b =
     (if truthy_opt cpuUtilization
      then b\<lparr>cb_cpuUtilizations := cb_cpuUtilizations b @ [toNum cpuUtilization]\<rparr> else b)"

definition setVCpuHours :: "jsnum option \<Rightarrow> ComputeUsageBuilder \<Rightarrow> ComputeUsageBuilder" where
  "setVCpuHours vCpuHours b = b\<lparr>cb_vCpuHours := toNum vCpuHours\<rparr>"

text \<open>The average of a non-empty list, as \<open>reduce\<close> without an initial value computes it.\<close>

definition js_mean :: "jsnum list \<Rightarrow> jsnum" where
  "js_mean xs = foldl (+) (hd xs) (tl xs) / Fin (of_nat (length xs))"

definition build :: "CloudConstants \<Rightarrow> ComputeUsageBuilder \<Rightarrow> ComputeUsage" where
  "build constants b =
     (let hasMeasurements = 0 < length (cb_cpuUtilizations b);
          cpuUtilizationAverage = (if hasMeasurements then js_mean (cb_cpuUtilizations b)
                                   else toNum (cc_avgCpuUtilization constants))
      in \<lparr>cu_timestamp = parse_date (cb_timestamp b),
          cu_cpuUtilizationAverage = cpuUtilizationAverage,
          cu_vCpuHours = cb_vCpuHours b,
          cu_usesAverageCPUConstant = (\<not> hasMeasurements)\<rparr>)"

section \<open>Raw usages\<close>

record RawComputeUsage =
  ru_id :: string
  ru_timestamp :: string
  ru_value :: "jsnum option"

record MetricDataResult =
  md_Id :: string
  md_Timestamps :: "date list"
  md_Values :: "jsnum list"

definition extractRawComputeUsages :: "MetricDataResult \<Rightarrow> RawComputeUsage list" where
  "extractRawComputeUsages metricData =
     map (\<lambda>(i, timestamp).
            \<lparr>ru_id = md_Id metricData,
             ru_timestamp = toISOString timestamp,
             ru_value = (if i < length (md_Values metricData) then Some (md_Values metricData ! i)
                         else None)\<rparr>)
       (enumerate 0 (md_Timestamps metricData))"

definition mergeUsageByTimestamp ::
    "ComputeUsageBuilder obj \<Rightarrow> RawComputeUsage \<Rightarrow> ComputeUsageBuilder obj" where
  "mergeUsageByTimestamp acc data =
     (let usageToUpdate = (case obj_get acc (ru_timestamp data) of
                             Some b \<Rightarrow> b | None \<Rightarrow> new_builder (ru_timestamp data))
      in if ru_id data = ''cpuUtilization''
         then obj_set acc (ru_timestamp data) (addCpuUtilization (ru_value data) usageToUpdate)
         else if ru_id data = ''vCPUs''
         then obj_set acc (ru_timestamp data) (setVCpuHours (ru_value data) usageToUpdate)
         else acc)"

definition buildComputeUsages :: "RawComputeUsage list \<Rightarrow> CloudConstants \<Rightarrow> ComputeUsage list" where
  "buildComputeUsages rawComputeUsages constants =
     filter (\<lambda>usage. 0 < cu_vCpuHours usage)
       (map (build constants) (obj_values (foldl mergeUsageByTimestamp [] rawComputeUsages)))"

section \<open>What the grouping computes\<close>

text \<open>The measurements of one instant, and the vCPU hours the last one sets.\<close>

definition relevant :: "RawComputeUsage \<Rightarrow> bool" where
  "relevant d \<longleftrightarrow> ru_id d = ''cpuUtilization'' \<or> ru_id d = ''vCPUs''"

definition utilizations_at :: "RawComputeUsage list \<Rightarrow> string \<Rightarrow> jsnum list" where
  "utilizations_at raws ts =
     map (\<lambda>d. toNum (ru_value d))
       (filter (\<lambda>d. ru_timestamp d = ts \<and> ru_id d = ''cpuUtilization'' \<and> truthy_opt (ru_value d)) raws)"

definition vCpuHours_at :: "RawComputeUsage list \<Rightarrow> string \<Rightarrow> jsnum" where
  "vCpuHours_at raws ts =
     (let vs = filter (\<lambda>d. ru_timestamp d = ts \<and> ru_id d = ''vCPUs'') raws
      in if vs = [] then 0 else toNum (ru_value (last vs)))"

definition usage_at :: "CloudConstants \<Rightarrow> RawComputeUsage list \<Rightarrow> string \<Rightarrow> ComputeUsage" where
  "usage_at constants raws ts =
     \<lparr>cu_timestamp = parse_date ts,
      cu_cpuUtilizationAverage =
        (if utilizations_at raws ts = [] then toNum (cc_avgCpuUtilization constants)
         else sum_list (utilizations_at raws ts) / Fin (of_nat (length (utilizations_at raws ts)))),
      cu_vCpuHours = vCpuHours_at raws ts,
      cu_usesAverageCPUConstant = (utilizations_at raws ts = [])\<rparr>"

definition apply_raw :: "RawComputeUsage \<Rightarrow> ComputeUsageBuilder option \<Rightarrow> ComputeUsageBuilder" where
  "apply_raw d v =
     (let b = (case v of Some b \<Rightarrow> b | None \<Rightarrow> new_builder (ru_timestamp d))
      in if ru_id d = ''cpuUtilization'' then addCpuUtilization (ru_value d) b
         else setVCpuHours (ru_value d) b)"

lemma foldl_merge:
  "foldl mergeUsageByTimestamp acc raws =
     group_fold ru_timestamp apply_raw acc (filter relevant raws)"
proof (induction raws arbitrary: acc)
  case Nil
  then show ?case by (simp add: group_fold_def)
next
  case (Cons d raws)
  have "mergeUsageByTimestamp acc d =
      (if relevant d then upsert acc (ru_timestamp d) (apply_raw d) else acc)"
    by (auto simp: mergeUsageByTimestamp_def relevant_def upsert_def apply_raw_def Let_def)
  then show ?case using Cons by (simp add: group_fold_def)
qed

lemma mean_sum: "xs \<noteq> [] \<Longrightarrow> foldl (+) (hd xs) (tl xs) = sum_list (xs :: jsnum list)"
proof -
  have "foldl (+) a ys = a + sum_list (ys :: jsnum list)" for a ys
    by (induction ys arbitrary: a) (simp_all add: add.assoc)
  then show "xs \<noteq> [] \<Longrightarrow> ?thesis" by (cases xs) auto
qed

text \<open>The builder that the measurements of one instant leave.\<close>

lemma foldl_apply_raw:
  assumes "\<forall>d\<in>set ds. relevant d \<and> ru_timestamp d = ts" and "ds \<noteq> []"
  shows "foldl (\<lambda>v d. Some (apply_raw d v)) None ds =
    Some \<lparr>cb_timestamp = ts, cb_cpuUtilizations = utilizations_at ds ts,
          cb_vCpuHours = vCpuHours_at ds ts\<rparr>"
  using assms
proof (induction ds rule: rev_induct)
  case Nil
  then show ?case by simp
next
  case (snoc d ds)
  have d: "relevant d" "ru_timestamp d = ts" using snoc.prems by auto
  show ?case
  proof (cases "ds = []")
    case True
    with d show ?thesis
      by (auto simp: apply_raw_def new_builder_def addCpuUtilization_def setVCpuHours_def
          utilizations_at_def vCpuHours_at_def relevant_def)
  next
    case False
    with snoc d show ?thesis
      by (auto simp: apply_raw_def addCpuUtilization_def setVCpuHours_def
          utilizations_at_def vCpuHours_at_def relevant_def Let_def)
  qed
qed

lemma at_filter:
  "utilizations_at (filter (\<lambda>d. ru_timestamp d = ts) (filter relevant raws)) ts = utilizations_at raws ts"
  "vCpuHours_at (filter (\<lambda>d. ru_timestamp d = ts) (filter relevant raws)) ts = vCpuHours_at raws ts"
proof -
  have "(\<lambda>d. ((ru_timestamp d = ts \<and> ru_id d = ''cpuUtilization'' \<and> truthy_opt (ru_value d))
          \<and> ru_timestamp d = ts) \<and> relevant d) =
      (\<lambda>d. ru_timestamp d = ts \<and> ru_id d = ''cpuUtilization'' \<and> truthy_opt (ru_value d))"
    "(\<lambda>d. ((ru_timestamp d = ts \<and> ru_id d = ''vCPUs'') \<and> ru_timestamp d = ts) \<and> relevant d) =
      (\<lambda>d. ru_timestamp d = ts \<and> ru_id d = ''vCPUs'')"
    by (auto simp: relevant_def)
  then show
    "utilizations_at (filter (\<lambda>d. ru_timestamp d = ts) (filter relevant raws)) ts = utilizations_at raws ts"
    "vCpuHours_at (filter (\<lambda>d. ru_timestamp d = ts) (filter relevant raws)) ts = vCpuHours_at raws ts"
    by (simp_all add: utilizations_at_def vCpuHours_at_def conj_assoc)
       (simp_all add: conj_commute conj_left_commute)
qed

lemma grouped_builders:
  "obj_values (foldl mergeUsageByTimestamp [] raws) =
     map (\<lambda>ts. \<lparr>cb_timestamp = ts, cb_cpuUtilizations = utilizations_at raws ts,
                cb_vCpuHours = vCpuHours_at raws ts\<rparr>)
       (first_occurrences [] (map ru_timestamp (filter relevant raws)))"
  (is "_ = map ?b ?keys")
proof -
  let ?g = "group_fold ru_timestamp apply_raw [] (filter relevant raws)"
  have keys: "map fst ?g = ?keys" by (simp add: keys_group_fold)
  have wf: "obj_wf ?g" by (simp add: obj_wf_group_fold)
  have val: "v = ?b ts" if "(ts, v) \<in> set ?g" for ts v
  proof -
    let ?ds = "filter (\<lambda>d. ru_timestamp d = ts) (filter relevant raws)"
    have get: "obj_get ?g ts = Some v" using that wf by (simp add: obj_wf_def)
    then have "?ds \<noteq> []"
      by (auto simp: map_of_group_fold)
    then have "obj_get ?g ts = Some (?b ts)"
      using foldl_apply_raw [of ?ds ts]
      by (simp add: map_of_group_fold at_filter del: filter_filter)
    with get show ?thesis by simp
  qed
  have "map snd ?g = map (\<lambda>p. ?b (fst p)) ?g"
    using val by (intro map_cong refl) auto
  then show ?thesis
    unfolding foldl_merge keys [symmetric] by (simp add: obj_values_def)
qed

lemma build_at:
  "build constants \<lparr>cb_timestamp = ts, cb_cpuUtilizations = utilizations_at raws ts,
     cb_vCpuHours = vCpuHours_at raws ts\<rparr> = usage_at constants raws ts"
  by (simp add: build_def usage_at_def js_mean_def mean_sum)

lemma buildComputeUsages_eq:
  "buildComputeUsages raws constants =
     filter (\<lambda>u. 0 < cu_vCpuHours u)
       (map (usage_at constants raws)
         (first_occurrences [] (map ru_timestamp (filter relevant raws))))"
  by (simp add: buildComputeUsages_def grouped_builders build_at comp_def)

lemma extract_values:
  assumes "length (md_Values m) = length (md_Timestamps m)"
  shows "extractRawComputeUsages m =
    map2 (\<lambda>t v. \<lparr>ru_id = md_Id m, ru_timestamp = toISOString t, ru_value = Some v\<rparr>)
      (md_Timestamps m) (md_Values m)"
  using assms
  by (intro nth_equalityI) (auto simp: extractRawComputeUsages_def nth_enumerate_eq)

end
