(* ===== verification/Core_Account.thy ===== *)
theory Core_Account
  imports Core_Compute_Usage
begin

text \<open>
  Estimates and costs by day (\<open>FootprintEstimate.ts\<close>, \<open>cost/Cost.ts\<close>), the services of a
  region (\<open>Region.ts\<close>) and the results of an account (\<open>CloudProviderAccount.ts\<close>).
  A cloud service is its name and its two operations, which may throw.
\<close>

section \<open>Estimates and costs by day\<close>

record Cost =
  co_timestamp :: "date option"
  co_amount :: jsnum
  co_currency :: string

text \<open>
  \<open>timestamp.toISOString()\<close> of an estimate without a date throws, before anything is returned.
\<close>

definition dated :: "('a \<Rightarrow> date option) \<Rightarrow> 'a list \<Rightarrow> (date \<times> 'a) list result" where
  "dated timestamp xs =
     mapR (\<lambda>x. case timestamp x of None \<Rightarrow> Inl TypeError | Some t \<Rightarrow> Inr (t, x)) xs"

definition getDayOfEstimate :: "date \<times> 'a \<Rightarrow> string" where
  "getDayOfEstimate x = iso_day (fst x)"

definition accumulate_estimate ::
    "FootprintEstimate \<Rightarrow> date \<times> FootprintEstimate \<Rightarrow> FootprintEstimate" where
  "accumulate_estimate acc tv =
     (let value = snd tv;
          acc1 = (if fe_timestamp acc = Some 0
                  then acc\<lparr>fe_timestamp := parse_date (getDayOfEstimate tv)\<rparr> else acc);
          acc2 = acc1\<lparr>fe_kilowattHours := fe_kilowattHours acc1 + fe_kilowattHours value,
                      fe_co2e := fe_co2e acc1 + fe_co2e value\<rparr>
      in if fe_usesAverageCPUConstant value = Some True
         then acc2\<lparr>fe_usesAverageCPUConstant := Some True\<rparr>
         else acc2)"

definition zero_estimate :: FootprintEstimate where
  "zero_estimate = \<lparr>fe_timestamp = Some 0, fe_kilowattHours = 0, fe_co2e = 0,
     fe_usesAverageCPUConstant = Some False\<rparr>"

definition aggregateEstimatesByDay ::
    "(FootprintEstimate, date \<times> FootprintEstimate) reduce_by \<Rightarrow> FootprintEstimate list \<Rightarrow>
     FootprintEstimate obj result" where
  "aggregateEstimatesByDay reduceBy estimates =
     bindR (dated fe_timestamp estimates) (\<lambda>es.
       Inr (reduceBy accumulate_estimate zero_estimate getDayOfEstimate es))"

definition accumulate_cost :: "Cost \<Rightarrow> date \<times> Cost \<Rightarrow> Cost" where
  "accumulate_cost acc tv =
     (let value = snd tv;
          acc1 = (if co_timestamp acc = Some 0
                  then acc\<lparr>co_timestamp := parse_date (getDayOfEstimate tv)\<rparr> else acc);
          acc2 = acc1\<lparr>co_amount := co_amount acc1 + co_amount value\<rparr>
      in if co_currency acc2 = [] then acc2\<lparr>co_currency := co_currency value\<rparr> else acc2)"

definition zero_cost :: Cost where
  "zero_cost = \<lparr>co_timestamp = Some 0, co_amount = 0, co_currency = []\<rparr>"

definition aggregateCostsByDay ::
    "(Cost, date \<times> Cost) reduce_by \<Rightarrow> Cost list \<Rightarrow> Cost obj result" where
  "aggregateCostsByDay reduceBy costs =
     bindR (dated co_timestamp costs) (\<lambda>cs.
       Inr (reduceBy accumulate_cost zero_cost getDayOfEstimate cs))"

section \<open>Region.ts\<close>

record ICloudService =
  cs_serviceName :: string
  cs_getEstimates :: "date \<Rightarrow> date \<Rightarrow> string \<Rightarrow> emissions_factors \<Rightarrow> CloudConstants \<Rightarrow>
     FootprintEstimate list result"
  cs_getCosts :: "date \<Rightarrow> date \<Rightarrow> string \<Rightarrow> Cost list result"

record Region =
  rg_id :: string
  rg_services :: "ICloudService list"
  rg_emissionsFactors :: emissions_factors
  rg_constants :: CloudConstants

definition keyed_by_service :: "ICloudService list \<Rightarrow> 'a list \<Rightarrow> 'a obj" where
  "keyed_by_service services results =
     foldl (\<lambda>m (service, r). obj_set m (cs_serviceName service) r) [] (zip services results)"

definition region_getEstimates :: "Region \<Rightarrow> date \<Rightarrow> date \<Rightarrow> FootprintEstimate list obj result" where
  "region_getEstimates region startDate endDate =
     bindR (mapR (\<lambda>s. cs_getEstimates s startDate endDate (rg_id region)
                    (rg_emissionsFactors region) (rg_constants region)) (rg_services region))
       (\<lambda>estimates. Inr (keyed_by_service (rg_services region) estimates))"

definition region_getCosts :: "Region \<Rightarrow> date \<Rightarrow> date \<Rightarrow> Cost list obj result" where
  "region_getCosts region startDate endDate =
     bindR (mapR (\<lambda>s. cs_getCosts s startDate endDate (rg_id region)) (rg_services region))
       (\<lambda>costs. Inr (keyed_by_service (rg_services region) costs))"

section \<open>CloudProviderAccount.ts\<close>

record CloudProviderAccount =
  ac_id :: string
  ac_name :: string

text \<open>The packages' functions that an account uses.\<close>

record account_packages =
  ap_moment :: moment_ops
  ap_reduceEstimates :: "(FootprintEstimate, date \<times> FootprintEstimate) reduce_by"
  ap_reduceCosts :: "(Cost, date \<times> Cost) reduce_by"
  ap_reduceResults :: "(EstimationResult option, EstimationResult) reduce_by"
  ap_union :: "string list \<Rightarrow> string list \<Rightarrow> string list"

definition day_service_data ::
    "CloudProviderAccount \<Rightarrow> string \<Rightarrow> string \<Rightarrow> string \<Rightarrow> FootprintEstimate option \<Rightarrow> Cost option \<Rightarrow>
     ServiceData" where
  "day_service_data account cloudProvider serviceName region estimate cost =
     \<lparr>sd_cloudProvider = cloudProvider,
      sd_accountId = ac_id account,
      sd_accountName = ac_name account,
      sd_serviceName = serviceName,
      sd_kilowattHours = or_num (map_option fe_kilowattHours estimate) 0,
      sd_co2e = or_num (map_option fe_co2e estimate) 0,
      sd_cost = or_num (map_option co_amount cost) 0,
      sd_region = region,
      sd_usesAverageCPUConstant =
        (case estimate of Some e \<Rightarrow> fe_usesAverageCPUConstant e = Some True | None \<Rightarrow> False),
      sd_tags = None\<rparr>"

text \<open>An unreadable date makes \<open>toISOString\<close> throw in the reduction that follows.\<close>

definition service_results ::
    "account_packages \<Rightarrow> CloudProviderAccount \<Rightarrow> string \<Rightarrow> string \<Rightarrow> date \<Rightarrow> date \<Rightarrow> GroupBy \<Rightarrow> string \<Rightarrow>
     FootprintEstimate list \<Rightarrow> Cost list \<Rightarrow> EstimationResult list result" where
  "service_results P account cloudProvider region startDate endDate grouping serviceName
       estimates costs =
     bindR (aggregateEstimatesByDay (ap_reduceEstimates P) estimates) (\<lambda>estimatesByDay.
     bindR (aggregateCostsByDay (ap_reduceCosts P) costs) (\<lambda>costsByDay.
     mapR (\<lambda>date.
         case parse_date date of
           None \<Rightarrow> Inl RangeError
         | Some t \<Rightarrow>
             Inr \<lparr>er_timestamp = t,
                  er_serviceEstimates =
                    [day_service_data account cloudProvider serviceName region
                       (obj_get estimatesByDay date) (obj_get costsByDay date)],
                  er_periodStartDate = Some startDate,
                  er_periodEndDate = Some endDate,
                  er_groupBy = grouping\<rparr>)
       (ap_union P (obj_keys estimatesByDay) (obj_keys costsByDay))))"

definition service_entry :: "'a list obj \<Rightarrow> string \<Rightarrow> 'a list result" where
  "service_entry d name = (case obj_get d name of None \<Rightarrow> Inl TypeError | Some xs \<Rightarrow> Inr xs)"

definition getRegionData ::
    "account_packages \<Rightarrow> CloudProviderAccount \<Rightarrow> string \<Rightarrow> Region \<Rightarrow> date \<Rightarrow> date \<Rightarrow> GroupBy \<Rightarrow>
     EstimationResult list result" where
  "getRegionData P account cloudProvider region startDate endDate grouping =
     bindR (region_getEstimates region startDate endDate) (\<lambda>regionEstimates.
     bindR (region_getCosts region startDate endDate) (\<lambda>regionCosts.
     bindR (mapR (\<lambda>service.
              bindR (service_entry regionEstimates (cs_serviceName service)) (\<lambda>estimates.
              bindR (service_entry regionCosts (cs_serviceName service)) (\<lambda>costs.
                service_results P account cloudProvider (rg_id region) startDate endDate grouping
                  (cs_serviceName service) estimates costs)))
             (rg_services region)) (\<lambda>estimatesGroupByService.
       Inr (sort_key er_timestamp
              (reduceByTimestamp (ap_moment P) (ap_reduceResults P)
                 (concat estimatesGroupByService))))))"

section \<open>The days add up\<close>

lemma dated_eq:
  assumes "dated ts xs = Inr ys"
  shows "map snd ys = xs" "\<forall>(t, x) \<in> set ys. ts x = Some t"
proof -
  have "list_all2 (\<lambda>x y. (case ts x of None \<Rightarrow> Inl TypeError | Some t \<Rightarrow> Inr (t, x)) = Inr y) xs ys"
    using assms by (simp add: dated_def mapR_pointwise)
  then have "list_all2 (\<lambda>x y. y = (the (ts x), x) \<and> ts x \<noteq> None) xs ys"
    by (rule list_all2_mono) (auto split: option.splits)
  then show "map snd ys = xs" "\<forall>(t, x) \<in> set ys. ts x = Some t"
    by (induction rule: list_all2_induct) auto
qed

text \<open>A field that both accumulations add up.\<close>

lemma foldl_accumulate_estimate:
  "fe_kilowattHours (foldl accumulate_estimate a tvs)
     = fe_kilowattHours a + sum_list (map (fe_kilowattHours \<circ> snd) tvs)"
  "fe_co2e (foldl accumulate_estimate a tvs)
     = fe_co2e a + sum_list (map (fe_co2e \<circ> snd) tvs)"
  by (induction tvs arbitrary: a) (simp_all add: accumulate_estimate_def Let_def add.assoc)

lemma foldl_accumulate_cost:
  "co_amount (foldl accumulate_cost a tvs) = co_amount a + sum_list (map (co_amount \<circ> snd) tvs)"
  by (induction tvs arbitrary: a) (simp_all add: accumulate_cost_def Let_def add.assoc)

text \<open>The timestamp of a day is the first instant of the day.\<close>

lemma foldl_accumulate_estimate_timestamp:
  assumes "\<forall>(t, v) \<in> set tvs. iso_day t = k" "parse_date k = Some d" "tvs \<noteq> []"
  shows "fe_timestamp (foldl accumulate_estimate zero_estimate tvs) = Some d"
proof -
  have "fe_timestamp (foldl accumulate_estimate a tvs) = Some d"
    if "fe_timestamp a = Some 0 \<and> tvs \<noteq> [] \<or> fe_timestamp a = Some d" for a
    using that assms(1)
  proof (induction tvs arbitrary: a)
    case Nil
    then show ?case by simp
  next
    case (Cons tv tvs)
    obtain t v where tv: "tv = (t, v)" by (cases tv)
    have "fe_timestamp (accumulate_estimate a tv) = Some d"
      using Cons.prems assms(2)
      by (auto simp: accumulate_estimate_def Let_def getDayOfEstimate_def tv)
    then show ?case using Cons.IH Cons.prems(2) by simp
  qed
  then show ?thesis using assms(3) by (simp add: zero_estimate_def)
qed

lemma or_num_not_NaN: "x \<noteq> NaN \<Longrightarrow> or_num (Some x) 0 = x"
  by (cases x) (auto simp: zero_Fin)

lemma sum_list_fin_map: "(\<And>x. x \<in> set xs \<Longrightarrow> is_fin (f x)) \<Longrightarrow> is_fin (sum_list (map f xs))"
  by (rule sum_list_is_fin) auto

context ramda_reduceBy
begin

text \<open>Reading an additive field of one group, zero where there is no group.\<close>

lemma reduceBy_field:
  assumes "\<And>xs. f (foldl h a xs) = f a + sum_list (map g xs)" and "f a = 0"
    and "\<And>x. x \<in> set xs \<Longrightarrow> is_fin (g x)"
  shows "or_num (map_option f (obj_get (reduceBy h a key xs) k)) 0
       = sum_list (map g (filter (\<lambda>x. key x = k) xs))"
proof (cases "k \<in> key ` set xs")
  case True
  have "is_fin (sum_list (map g (filter (\<lambda>x. key x = k) xs)))"
    using assms(3) by (intro sum_list_fin_map) auto
  then show ?thesis using True
    by (auto simp: reduceBy_get assms(1,2) is_fin_iff zero_Fin)
next
  case False
  then have "filter (\<lambda>x. key x = k) xs = []" by (auto simp: filter_empty_conv)
  then have "sum_list (map g (filter (\<lambda>x. key x = k) xs)) = 0" by simp
  with False show ?thesis by (simp only: reduceBy_get) simp
qed

end

lemma keyed_by_service_get:
  assumes "distinct (map cs_serviceName services)" "length services = length rs"
    and "i < length services"
  shows "obj_get (keyed_by_service services rs) (cs_serviceName (services ! i)) = Some (rs ! i)"
proof -
  have "obj_get (foldl (\<lambda>m (s, r). obj_set m (cs_serviceName s) r) m (zip services rs)) k =
      (case map_of (rev (zip (map cs_serviceName services) rs)) k of
         Some r \<Rightarrow> Some r | None \<Rightarrow> obj_get m k)" for m k
    using assms(2)
  proof (induction services rs arbitrary: m rule: list_induct2)
    case Nil
    then show ?case by simp
  next
    case (Cons s ss r rs)
    then show ?case by (auto simp: obj_get_set map_add_def split: option.splits)
  qed
  moreover have "distinct (map fst (rev (zip (map cs_serviceName services) rs)))"
    using assms(1,2) by (simp add: rev_map [symmetric])
  moreover have "(cs_serviceName (services ! i), rs ! i) \<in> set (zip (map cs_serviceName services) rs)"
    using assms(2,3) by (auto simp: in_set_zip intro!: exI [of _ i])
  ultimately show ?thesis by (simp add: keyed_by_service_def)
qed

section \<open>The results of a region\<close>

text \<open>The functions of the packages behave as documented.\<close>

definition packages_ok :: "account_packages \<Rightarrow> bool" where
  "packages_ok P \<longleftrightarrow> ramda_reduceBy (ap_reduceEstimates P) \<and> ramda_reduceBy (ap_reduceCosts P)
     \<and> ramda_reduceBy (ap_reduceResults P) \<and> ramda_union (ap_union P)"

definition packages_documented :: account_packages where
  "packages_documented = \<lparr>ap_moment = moment_documented, ap_reduceEstimates = reduceBy_documented,
     ap_reduceCosts = reduceBy_documented, ap_reduceResults = reduceBy_documented,
     ap_union = union_documented\<rparr>"

lemma packages_documented_ok: "packages_ok packages_documented"
  by (simp add: packages_ok_def packages_documented_def reduceBy_doc.ramda_reduceBy_axioms
      union_doc.ramda_union_axioms)

lemma service_results_cases:
  assumes "service_results P account cp region s e g name estimates costs = Inr rs"
    and "packages_ok P"
  obtains es cs ks where "dated fe_timestamp estimates = Inr es" "dated co_timestamp costs = Inr cs"
    "distinct ks" "set ks = getDayOfEstimate ` set es \<union> getDayOfEstimate ` set cs"
    "list_all2 (\<lambda>k r. er_serviceEstimates r = [day_service_data account cp name region
         (obj_get (ap_reduceEstimates P accumulate_estimate zero_estimate getDayOfEstimate es) k)
         (obj_get (ap_reduceCosts P accumulate_cost zero_cost getDayOfEstimate cs) k)]) ks rs"
proof -
  have rbs: "ramda_reduceBy (ap_reduceEstimates P)" "ramda_reduceBy (ap_reduceCosts P)"
    and un: "ramda_union (ap_union P)"
    using assms(2) by (simp_all add: packages_ok_def)
  from assms(1) obtain es cs where es: "dated fe_timestamp estimates = Inr es"
      "dated co_timestamp costs = Inr cs"
    by (auto simp: service_results_def aggregateEstimatesByDay_def aggregateCostsByDay_def
        bindR_eq_Inr_iff)
  let ?e = "ap_reduceEstimates P accumulate_estimate zero_estimate getDayOfEstimate es"
  let ?c = "ap_reduceCosts P accumulate_cost zero_cost getDayOfEstimate cs"
  let ?ks = "ap_union P (obj_keys ?e) (obj_keys ?c)"
  have all: "list_all2 (\<lambda>k r. er_serviceEstimates r = [day_service_data account cp name region
         (obj_get ?e k) (obj_get ?c k)]) ?ks rs"
    using assms(1) es
    by (auto simp: service_results_def aggregateEstimatesByDay_def aggregateCostsByDay_def
        mapR_pointwise elim!: list_all2_mono split: option.splits)
  have "set ?ks = getDayOfEstimate ` set es \<union> getDayOfEstimate ` set cs"
    by (simp add: ramda_union.union_set [OF un] obj_keys_def ramda_reduceBy.reduceBy_keys [OF rbs(1)]
        ramda_reduceBy.reduceBy_keys [OF rbs(2)] set_first_occurrences)
  then show thesis using that [OF es ramda_union.union_distinct [OF un] _ all] by blast
qed

lemma er_total_singletons:
  "list_all2 (\<lambda>k r. er_serviceEstimates r = [h k]) ks rs \<Longrightarrow>
   er_total f rs = sum_list (map (\<lambda>k. f (h k)) ks)"
  unfolding er_total_def by (rule sum_list_pointwise) (auto elim: list_all2_mono)

lemma service_results_total:
  assumes "service_results P account cp region s e g name estimates costs = Inr rs"
    and "packages_ok P"
  shows "\<forall>x\<in>set estimates. is_fin (fe_kilowattHours x) \<Longrightarrow>
      er_total sd_kilowattHours rs = sum_list (map fe_kilowattHours estimates)"
    and "\<forall>x\<in>set estimates. is_fin (fe_co2e x) \<Longrightarrow>
      er_total sd_co2e rs = sum_list (map fe_co2e estimates)"
    and "\<forall>x\<in>set costs. is_fin (co_amount x) \<Longrightarrow>
      er_total sd_cost rs = sum_list (map co_amount costs)"
proof -
  from assms obtain es cs ks where es: "dated fe_timestamp estimates = Inr es"
    and cs: "dated co_timestamp costs = Inr cs" and ks: "distinct ks"
      "set ks = getDayOfEstimate ` set es \<union> getDayOfEstimate ` set cs"
    and all: "list_all2 (\<lambda>k r. er_serviceEstimates r = [day_service_data account cp name region
         (obj_get (ap_reduceEstimates P accumulate_estimate zero_estimate getDayOfEstimate es) k)
         (obj_get (ap_reduceCosts P accumulate_cost zero_cost getDayOfEstimate cs) k)]) ks rs"
    by (rule service_results_cases)
  note total = er_total_singletons [OF all]
  note snds = dated_eq(1) [OF es] dated_eq(1) [OF cs]
  have rbs: "ramda_reduceBy (ap_reduceEstimates P)" "ramda_reduceBy (ap_reduceCosts P)"
    using assms(2) by (simp_all add: packages_ok_def)
  note field = ramda_reduceBy.reduceBy_field [OF rbs(1)] ramda_reduceBy.reduceBy_field [OF rbs(2)]
  have part: "sum_list (map (\<lambda>k. sum_list (map (f \<circ> snd) (filter (\<lambda>x. getDayOfEstimate x = k) xs))) ks)
      = sum_list (map f (map snd xs))"
    if "getDayOfEstimate ` set xs \<subseteq> set ks" for f :: "'a \<Rightarrow> jsnum" and xs :: "(date \<times> 'a) list"
    using sum_list_partition [OF ks(1) that, of "f \<circ> snd"] by simp
  show "er_total sd_kilowattHours rs = sum_list (map fe_kilowattHours estimates)"
    if fin: "\<forall>x\<in>set estimates. is_fin (fe_kilowattHours x)"
  proof -
    have "is_fin ((fe_kilowattHours \<circ> snd) x)" if "x \<in> set es" for x using that fin snds(1) by auto
    then have "or_num (map_option fe_kilowattHours (obj_get
          (ap_reduceEstimates P accumulate_estimate zero_estimate getDayOfEstimate es) k)) 0
        = sum_list (map (fe_kilowattHours \<circ> snd) (filter (\<lambda>x. getDayOfEstimate x = k) es))" for k
      by (intro field(1)) (simp_all add: foldl_accumulate_estimate zero_estimate_def)
    then have "er_total sd_kilowattHours rs = sum_list (map (\<lambda>k. sum_list
        (map (fe_kilowattHours \<circ> snd) (filter (\<lambda>x. getDayOfEstimate x = k) es))) ks)"
      by (simp add: total day_service_data_def)
    then show ?thesis using part [of es fe_kilowattHours] ks(2) snds(1) by simp
  qed
  show "er_total sd_co2e rs = sum_list (map fe_co2e estimates)"
    if fin: "\<forall>x\<in>set estimates. is_fin (fe_co2e x)"
  proof -
    have "is_fin ((fe_co2e \<circ> snd) x)" if "x \<in> set es" for x using that fin snds(1) by auto
    then have "or_num (map_option fe_co2e (obj_get
          (ap_reduceEstimates P accumulate_estimate zero_estimate getDayOfEstimate es) k)) 0
        = sum_list (map (fe_co2e \<circ> snd) (filter (\<lambda>x. getDayOfEstimate x = k) es))" for k
      by (intro field(1)) (simp_all add: foldl_accumulate_estimate zero_estimate_def)
    then have "er_total sd_co2e rs = sum_list (map (\<lambda>k. sum_list
        (map (fe_co2e \<circ> snd) (filter (\<lambda>x. getDayOfEstimate x = k) es))) ks)"
      by (simp add: total day_service_data_def)
    then show ?thesis using part [of es fe_co2e] ks(2) snds(1) by simp
  qed
  show "er_total sd_cost rs = sum_list (map co_amount costs)"
    if fin: "\<forall>x\<in>set costs. is_fin (co_amount x)"
  proof -
    have "is_fin ((co_amount \<circ> snd) x)" if "x \<in> set cs" for x using that fin snds(2) by auto
    then have "or_num (map_option co_amount (obj_get
          (ap_reduceCosts P accumulate_cost zero_cost getDayOfEstimate cs) k)) 0
        = sum_list (map (co_amount \<circ> snd) (filter (\<lambda>x. getDayOfEstimate x = k) cs))" for k
      by (intro field(2)) (simp_all add: foldl_accumulate_cost zero_cost_def)
    then have "er_total sd_cost rs = sum_list (map (\<lambda>k. sum_list
        (map (co_amount \<circ> snd) (filter (\<lambda>x. getDayOfEstimate x = k) cs))) ks)"
      by (simp add: total day_service_data_def)
    then show ?thesis using part [of cs co_amount] ks(2) snds(2) by simp
  qed
qed

definition region_estimates_of :: "Region \<Rightarrow> date \<Rightarrow> date \<Rightarrow> ICloudService \<Rightarrow> FootprintEstimate list result" where
  "region_estimates_of region s e sv = cs_getEstimates sv s e (rg_id region)
     (rg_emissionsFactors region) (rg_constants region)"

definition region_costs_of :: "Region \<Rightarrow> date \<Rightarrow> date \<Rightarrow> ICloudService \<Rightarrow> Cost list result" where
  "region_costs_of region s e sv = cs_getCosts sv s e (rg_id region)"

lemma getRegionData_cases:
  assumes "getRegionData P account cp region s e g = Inr rs" and "packages_ok P"
    and "distinct (map cs_serviceName (rg_services region))"
  obtains ess css gs where
    "list_all2 (\<lambda>sv x. region_estimates_of region s e sv = Inr x) (rg_services region) ess"
    "list_all2 (\<lambda>sv x. region_costs_of region s e sv = Inr x) (rg_services region) css"
    "length gs = length (rg_services region)"
    "\<forall>i < length (rg_services region). service_results P account cp (rg_id region) s e g
        (cs_serviceName (rg_services region ! i)) (ess ! i) (css ! i) = Inr (gs ! i)"
    "rs = sort_key er_timestamp (merge_groups (ap_moment P) (concat gs))"
proof -
  let ?sv = "rg_services region"
  from assms(1) obtain ess css gs where
    ess: "mapR (\<lambda>sv. cs_getEstimates sv s e (rg_id region) (rg_emissionsFactors region)
        (rg_constants region)) ?sv = Inr ess" and
    css: "mapR (\<lambda>sv. cs_getCosts sv s e (rg_id region)) ?sv = Inr css" and
    gs: "mapR (\<lambda>sv.
              bindR (service_entry (keyed_by_service ?sv ess) (cs_serviceName sv)) (\<lambda>estimates.
              bindR (service_entry (keyed_by_service ?sv css) (cs_serviceName sv)) (\<lambda>costs.
                service_results P account cp (rg_id region) s e g
                  (cs_serviceName sv) estimates costs))) ?sv = Inr gs" and
    rs: "rs = sort_key er_timestamp (reduceByTimestamp (ap_moment P) (ap_reduceResults P) (concat gs))"
    by (auto simp: getRegionData_def region_getEstimates_def region_getCosts_def bindR_eq_Inr_iff)
  note len = mapR_Inr_length [OF ess] mapR_Inr_length [OF css] mapR_Inr_length [OF gs]
  have step: "service_results P account cp (rg_id region) s e g
        (cs_serviceName (?sv ! i)) (ess ! i) (css ! i) = Inr (gs ! i)" if i: "i < length ?sv" for i
    using gs i keyed_by_service_get [OF assms(3) len(1) [symmetric] i]
      keyed_by_service_get [OF assms(3) len(2) [symmetric] i]
    by (auto simp: mapR_pointwise list_all2_conv_all_nth service_entry_def)
  have "rs = sort_key er_timestamp (merge_groups (ap_moment P) (concat gs))"
    using rs assms(2) by (simp add: packages_ok_def reduceByTimestamp_groups)
  then show thesis
    using that [OF _ _ len(3)] step ess css
    by (simp add: mapR_pointwise region_estimates_of_def region_costs_of_def)
qed

text \<open>The results are one per instant, in the order of time.\<close>

lemma getRegionData_sorted:
  assumes "getRegionData P account cp region s e g = Inr rs" and "packages_ok P"
  shows "sorted (map er_timestamp rs) \<and> distinct (map er_timestamp rs)"
proof -
  from assms obtain rs0 where "rs = sort_key er_timestamp (merge_groups (ap_moment P) rs0)"
    by (auto simp: getRegionData_def bindR_eq_Inr_iff packages_ok_def reduceByTimestamp_groups)
  moreover have "distinct (map er_timestamp (sort_key er_timestamp xs))"
    if "distinct (map er_timestamp xs)" for xs :: "EstimationResult list"
    using that by (metis mset_map mset_sort mset_eq_imp_distinct_iff)
  ultimately show ?thesis using merge_groups_distinct by simp
qed

lemma er_total_sort: "er_total f (sort_key k rs) = er_total f rs"
proof -
  have eq: "er_total f xs = sum_mset (image_mset (\<lambda>r. se_total f (er_serviceEstimates r)) (mset xs))"
    for xs
    by (simp add: er_total_def sum_mset_sum_list flip: mset_map)
  show ?thesis by (simp only: eq mset_sort)
qed

lemma er_total_concat_list: "er_total f (concat gs) = sum_list (map (er_total f) gs)"
  by (induction gs) simp_all

text \<open>
  The totals of the services: what each service returned for the period, added up over the
  services of the region.
\<close>

definition service_total ::
    "('a \<Rightarrow> jsnum) \<Rightarrow> (ICloudService \<Rightarrow> 'a list result) \<Rightarrow> ICloudService list \<Rightarrow> jsnum" where
  "service_total f get services =
     sum_list (map (\<lambda>s. case get s of Inr xs \<Rightarrow> sum_list (map f xs) | Inl _ \<Rightarrow> 0) services)"

definition all_results :: "('a \<Rightarrow> bool) \<Rightarrow> (ICloudService \<Rightarrow> 'a list result) \<Rightarrow> ICloudService list \<Rightarrow> bool" where
  "all_results p get services \<longleftrightarrow>
     list_all (\<lambda>s. case get s of Inr xs \<Rightarrow> list_all p xs | Inl _ \<Rightarrow> True) services"

lemma service_total_pointwise:
  assumes "list_all2 (\<lambda>sv x. get sv = Inr x) svs xss" and "length gs = length svs"
    and "\<And>i. i < length svs \<Longrightarrow> t (gs ! i) = sum_list (map f (xss ! i))"
  shows "sum_list (map t gs) = service_total f get svs"
proof -
  have "map t gs = map (\<lambda>s. case get s of Inr xs \<Rightarrow> sum_list (map f xs) | Inl _ \<Rightarrow> 0) svs"
    using assms by (intro nth_equalityI) (auto simp: list_all2_conv_all_nth)
  then show ?thesis by (simp add: service_total_def)
qed

lemma all_results_nth:
  assumes "list_all2 (\<lambda>sv x. get sv = Inr x) svs xss" and "all_results p get svs" "i < length svs"
  shows "\<forall>x\<in>set (xss ! i). p x"
  using assms by (auto simp: all_results_def list_all_iff list_all2_conv_all_nth all_set_conv_all_nth
      split: sum.splits)

lemma getRegionData_totals:
  assumes "getRegionData P account cp region s e g = Inr rs" and "packages_ok P"
    and "distinct (map cs_serviceName (rg_services region))"
    and "all_results (\<lambda>x. is_fin (fe_kilowattHours x) \<and> is_fin (fe_co2e x))
           (region_estimates_of region s e) (rg_services region)"
    and "all_results (\<lambda>x. is_fin (co_amount x)) (region_costs_of region s e) (rg_services region)"
  shows
    "er_total sd_kilowattHours rs =
       service_total fe_kilowattHours (region_estimates_of region s e) (rg_services region)"
    "er_total sd_co2e rs =
       service_total fe_co2e (region_estimates_of region s e) (rg_services region)"
    "er_total sd_cost rs =
       service_total co_amount (region_costs_of region s e) (rg_services region)"
proof -
  from assms(1-3) obtain ess css gs where
    ess: "list_all2 (\<lambda>sv x. region_estimates_of region s e sv = Inr x) (rg_services region) ess" and
    css: "list_all2 (\<lambda>sv x. region_costs_of region s e sv = Inr x) (rg_services region) css" and
    len: "length gs = length (rg_services region)" and
    step: "\<forall>i < length (rg_services region). service_results P account cp (rg_id region) s e g
        (cs_serviceName (rg_services region ! i)) (ess ! i) (css ! i) = Inr (gs ! i)" and
    rs: "rs = sort_key er_timestamp (merge_groups (ap_moment P) (concat gs))"
    by (rule getRegionData_cases)
  have total: "er_total f rs = sum_list (map (er_total f) gs)" for f
    by (simp add: rs er_total_sort merge_groups_total er_total_concat_list)
  note svc = service_results_total [OF step [rule_format] assms(2)]
  note fin = all_results_nth [OF ess assms(4)] all_results_nth [OF css assms(5)]
  show "er_total sd_kilowattHours rs =
       service_total fe_kilowattHours (region_estimates_of region s e) (rg_services region)"
    unfolding total by (rule service_total_pointwise [OF ess len]) (use svc(1) fin in blast)
  show "er_total sd_co2e rs =
       service_total fe_co2e (region_estimates_of region s e) (rg_services region)"
    unfolding total by (rule service_total_pointwise [OF ess len]) (use svc(2) fin in blast)
  show "er_total sd_cost rs =
       service_total co_amount (region_costs_of region s e) (rg_services region)"
    unfolding total by (rule service_total_pointwise [OF css len]) (use svc(3) fin in blast)
qed

section \<open>A region's data is returned\<close>

text \<open>A date that \<open>toISOString\<close> writes with a year of four digits, so that its day reads back.\<close>

definition dated_ok :: "('a \<Rightarrow> date option) \<Rightarrow> 'a \<Rightarrow> bool" where
  "dated_ok timestamp x \<longleftrightarrow>
     (case timestamp x of Some t \<Rightarrow> 0 \<le> year_of t \<and> year_of t \<le> 9999 | None \<Rightarrow> False)"

lemma dated_returns:
  assumes "list_all (dated_ok timestamp) xs"
  shows "\<exists>ys. dated timestamp xs = Inr ys \<and> (\<forall>y\<in>set ys. \<exists>t. parse_date (getDayOfEstimate y) = Some t)"
  using assms
proof (induction xs)
  case Nil
  then show ?case by (simp add: dated_def)
next
  case (Cons x xs)
  then obtain t ys where "timestamp x = Some t" "0 \<le> year_of t" "year_of t \<le> 9999"
    "dated timestamp xs = Inr ys" "\<forall>y\<in>set ys. \<exists>t. parse_date (getDayOfEstimate y) = Some t"
    by (auto simp: dated_ok_def split: option.splits)
  then show ?case
    using parse_date_iso_day [of t] by (simp add: dated_def getDayOfEstimate_def)
qed

lemma service_results_returns:
  assumes "packages_ok P" and "list_all (dated_ok fe_timestamp) estimates"
    and "list_all (dated_ok co_timestamp) costs"
  shows "\<exists>rs. service_results P account cp region s e g name estimates costs = Inr rs"
proof -
  from dated_returns [OF assms(2)] obtain es where es: "dated fe_timestamp estimates = Inr es"
    "\<forall>y\<in>set es. \<exists>t. parse_date (getDayOfEstimate y) = Some t" by blast
  from dated_returns [OF assms(3)] obtain cs where cs: "dated co_timestamp costs = Inr cs"
    "\<forall>y\<in>set cs. \<exists>t. parse_date (getDayOfEstimate y) = Some t" by blast
  let ?e = "ap_reduceEstimates P accumulate_estimate zero_estimate getDayOfEstimate es"
  let ?c = "ap_reduceCosts P accumulate_cost zero_cost getDayOfEstimate cs"
  have "set (ap_union P (obj_keys ?e) (obj_keys ?c)) = getDayOfEstimate ` set es \<union> getDayOfEstimate ` set cs"
    using assms(1)
    by (simp add: packages_ok_def ramda_union.union_set obj_keys_def ramda_reduceBy.reduceBy_keys
        set_first_occurrences)
  then have "\<forall>k\<in>set (ap_union P (obj_keys ?e) (obj_keys ?c)). \<exists>t. parse_date k = Some t"
    using es(2) cs(2) by auto
  then show ?thesis
    using es(1) cs(1)
    by (auto simp: service_results_def aggregateEstimatesByDay_def aggregateCostsByDay_def
        intro!: mapR_returns split: option.splits)
qed

lemma getRegionData_returns:
  assumes "packages_ok P" and "distinct (map cs_serviceName (rg_services region))"
    and "\<forall>sv\<in>set (rg_services region). \<exists>es cs.
      region_estimates_of region s e sv = Inr es \<and> region_costs_of region s e sv = Inr cs
      \<and> list_all (dated_ok fe_timestamp) es \<and> list_all (dated_ok co_timestamp) cs"
  shows "\<exists>rs. getRegionData P account cp region s e g = Inr rs"
proof -
  let ?sv = "rg_services region"
  have "\<forall>sv\<in>set ?sv. \<exists>x. cs_getEstimates sv s e (rg_id region) (rg_emissionsFactors region)
        (rg_constants region) = Inr x" "\<forall>sv\<in>set ?sv. \<exists>x. cs_getCosts sv s e (rg_id region) = Inr x"
    using assms(3) by (fastforce simp: region_estimates_of_def region_costs_of_def)+
  then obtain ess css where
    ess: "mapR (\<lambda>sv. cs_getEstimates sv s e (rg_id region) (rg_emissionsFactors region)
        (rg_constants region)) ?sv = Inr ess" and
    css: "mapR (\<lambda>sv. cs_getCosts sv s e (rg_id region)) ?sv = Inr css"
    using mapR_returns by meson
  note len = mapR_Inr_length [OF ess] mapR_Inr_length [OF css]
  have "\<exists>x. bindR (service_entry (keyed_by_service ?sv ess) (cs_serviceName (?sv ! i))) (\<lambda>estimates.
          bindR (service_entry (keyed_by_service ?sv css) (cs_serviceName (?sv ! i))) (\<lambda>costs.
            service_results P account cp (rg_id region) s e g (cs_serviceName (?sv ! i)) estimates costs))
        = Inr x" if i: "i < length ?sv" for i
  proof -
    have "cs_getEstimates (?sv ! i) s e (rg_id region) (rg_emissionsFactors region)
        (rg_constants region) = Inr (ess ! i)" "cs_getCosts (?sv ! i) s e (rg_id region) = Inr (css ! i)"
      using ess css i by (simp_all add: mapR_pointwise list_all2_conv_all_nth)
    then have "list_all (dated_ok fe_timestamp) (ess ! i)" "list_all (dated_ok co_timestamp) (css ! i)"
      using assms(3) nth_mem [OF i] by (fastforce simp: region_estimates_of_def region_costs_of_def)+
    then show ?thesis
      using service_results_returns [OF assms(1)] keyed_by_service_get [OF assms(2) len(1) [symmetric] i]
        keyed_by_service_get [OF assms(2) len(2) [symmetric] i]
      by (simp add: service_entry_def)
  qed
  then have "\<exists>gs. mapR (\<lambda>sv.
              bindR (service_entry (keyed_by_service ?sv ess) (cs_serviceName sv)) (\<lambda>estimates.
              bindR (service_entry (keyed_by_service ?sv css) (cs_serviceName sv)) (\<lambda>costs.
                service_results P account cp (rg_id region) s e g
                  (cs_serviceName sv) estimates costs))) ?sv = Inr gs"
    by (intro mapR_returns) (metis in_set_conv_nth)
  then show ?thesis
    using ess css
    by (auto simp: getRegionData_def region_getEstimates_def region_getCosts_def)
qed

end
