(* ===== verification/Core_Properties.thy ===== *)
theory Core_Properties
  imports Core_Account Core_Compute_Usage
begin

text \<open>
  The properties of the packages \<open>common\<close> and \<open>core\<close>, each with a witness at a concrete input.
  The lemmas they rest on are in the theories of the components.
\<close>

section \<open>Inputs of the witnesses\<close>

definition sample_row :: "string \<Rightarrow> string \<Rightarrow> jsnum \<Rightarrow> BillingDataRow" where
  "sample_row service unit cost =
     \<lparr>br_serviceName = service, br_accountId = ''a1'', br_accountName = ''a1'',
      br_usageAmount = 3, br_usageType = ''type'', br_usageUnit = unit, br_cost = cost,
      br_region = ''us-east-1'', br_cloudProvider = ''AWS'', br_timestamp = Some 86400000,
      br_vCpus = None, br_vCpuHours = 0, br_gpuHours = 0, br_instanceType = ''type'',
      br_replicationFactor = 1, br_tags = Some [(''team'', Some ''red'')]\<rparr>"

definition sample_estimate :: "jsnum \<Rightarrow> FootprintEstimate" where
  "sample_estimate kwh = \<lparr>fe_timestamp = Some 86400000, fe_kilowattHours = kwh, fe_co2e = kwh,
     fe_usesAverageCPUConstant = Some False\<rparr>"

definition sample_result :: "date \<Rightarrow> ServiceData list \<Rightarrow> EstimationResult" where
  "sample_result t services = \<lparr>er_timestamp = t, er_serviceEstimates = services,
     er_periodStartDate = Some t, er_periodEndDate = Some t, er_groupBy = day\<rparr>"

section \<open>The ledger of kilowatt hours\<close>

text \<open>C26. Accumulating the energy of a row, by cost or by usage amount, keeps the ledger of
  kilowatt hours by service and usage unit well formed: it succeeds, and for every usage unit the
  entry \<open>total\<close> remains the sum over the services.\<close>

theorem ledger_total_is_sum_of_services:
  assumes "store_ok store" and "br_serviceName row \<noteq> ''total''"
  shows "\<exists>store'. accumulateKilowattHours store row kwh by = Inr store' \<and> store_ok store'"
  using assms by (rule store_ok_accumulate)

theorem ledger_total_is_sum_of_services_witness:
  "\<exists>store'. accumulateKilowattHours initial_store (sample_row ''AWSGlue'' ''Hrs'' 4) 7 AK_COST = Inr store'
     \<and> store_ok store'"
  by (rule ledger_total_is_sum_of_services) (simp_all add: store_ok_initial sample_row_def)

text \<open>After any sequence of rows the energy recorded for a service (or for \<open>total\<close>) and a usage
  unit is the energy recorded before plus the energies of exactly the rows of that service and
  unit, and the recorded cost or usage amount likewise, whatever the order of the rows.\<close>

theorem ledger_records_every_row:
  assumes "obj_get store ''total'' \<noteq> None"
    and "\<forall>(row, kwh) \<in> set entries. br_serviceName row \<noteq> ''total'' \<and> is_fin (row_field by row)"
    and "is_fin (unit_field by (units_of store s) unit)"
  shows "\<exists>store'. accumulate_all by store entries = Inr store'
    \<and> unit_kwh (units_of store' s) unit =
        unit_kwh (units_of store s) unit + sum_list (map snd (filter (in_table s unit) entries))
    \<and> unit_field by (units_of store' s) unit =
        unit_field by (units_of store s) unit
          + sum_list (map (\<lambda>e. row_field by (fst e)) (filter (in_table s unit) entries))"
proof -
  obtain store' where st: "accumulate_all by store entries = Inr store'"
    using accumulate_all_total [OF assms(1)] by blast
  have "\<forall>(row, kwh) \<in> set entries. br_serviceName row \<noteq> ''total''" using assms(2) by auto
  then show ?thesis
    using st unit_kwh_accumulate_all [OF assms(1) st] unit_field_accumulate_all [OF assms(1) st assms(2,3)]
    by blast
qed

theorem ledger_records_every_row_witness:
  "\<exists>store'. accumulate_all AK_COST initial_store
       [(sample_row ''AWSGlue'' ''Hrs'' 4, 7), (sample_row ''AmazonEC2'' ''Hrs'' 5, 1)] = Inr store'
     \<and> unit_kwh (units_of store' ''total'') ''Hrs'' = Fin 8
     \<and> unit_field AK_COST (units_of store' ''total'') ''Hrs'' = Fin 9"
  using ledger_records_every_row [of initial_store
      "[(sample_row ''AWSGlue'' ''Hrs'' 4, 7), (sample_row ''AmazonEC2'' ''Hrs'' 5, 1)]"
      AK_COST "''total''" "''Hrs''"]
  by (simp add: initial_store_def sample_row_def units_of_def unit_kwh_def unit_field_def
      in_table_def jsnum_simps)

section \<open>Appending estimates\<close>

text \<open>Appending the estimate of a row to the results changes exactly the group of the row: the
  kilowatt hours, the emissions and the costs of its day, region, service, account and tags grow by
  the row's, every other group of every day keeps its value, and no two entries of a day ever
  describe the same group.\<close>

theorem append_adds_to_one_group:
  assumes "appendOrAccumulateEstimatesByDay M rs row fe g ns = Inr rs'"
    and "results_ok ns rs" and "f \<in> {sd_kilowattHours, sd_co2e, sd_cost}"
  shows "value_at f ns rs' t k = value_at f ns rs t k
      + (if br_timestamp row = Some t \<and> estimate_key ns (service_estimate row fe) = k
         then f (service_estimate row fe) else 0)
    \<and> results_ok ns rs'"
proof -
  have "additive f" using assms(3) by auto
  then show ?thesis using append_value_at [OF assms(1)] append_ok [OF assms(1,2)] by simp
qed

theorem append_adds_to_one_group_witness:
  "\<exists>rs'. appendOrAccumulateEstimatesByDay moment_documented
       [sample_result 86400000 [service_estimate (sample_row ''AmazonEC2'' ''Hrs'' 5) (sample_estimate 2)]]
       (sample_row ''AmazonEC2'' ''Hrs'' 4) (sample_estimate 7) day [''team''] = Inr rs'
     \<and> value_at sd_kilowattHours [''team''] rs' 86400000
          (''us-east-1'', ''AmazonEC2'', ''a1'', [Some ''red'']) = Fin 9
     \<and> results_ok [''team''] rs'"
proof -
  let ?rs = "[sample_result 86400000 [service_estimate (sample_row ''AmazonEC2'' ''Hrs'' 5) (sample_estimate 2)]]"
  obtain rs' where rs': "appendOrAccumulateEstimatesByDay moment_documented ?rs
       (sample_row ''AmazonEC2'' ''Hrs'' 4) (sample_estimate 7) day [''team''] = Inr rs'"
    using append_total_fun [of ?rs "sample_row ''AmazonEC2'' ''Hrs'' 4" 86400000]
    by (fastforce simp: sample_row_def sample_result_def tags_present_def service_estimate_def)
  have ok: "results_ok [''team''] ?rs"
    by (simp add: results_ok_def day_ok_def sample_result_def)
  show ?thesis
    using rs' append_adds_to_one_group [OF rs' ok, of sd_kilowattHours 86400000
        "(''us-east-1'', ''AmazonEC2'', ''a1'', [Some ''red''])"]
    by (simp add: value_at_def sample_result_def service_estimate_def sample_row_def
        sample_estimate_def estimate_key_def tags_key_def tag_get_def jsnum_simps)
qed

text \<open>Merging the results of several sources by instant loses no estimate and repeats none: the
  merged results have different instants, all of them instants of the input, and together exactly
  the service estimates of the input, so that every total is unchanged.\<close>

theorem reduceByTimestamp_conserves:
  assumes "ramda_reduceBy reduceBy"
  shows "distinct (map er_timestamp (reduceByTimestamp M reduceBy rs))
    \<and> er_timestamp ` set (reduceByTimestamp M reduceBy rs) \<subseteq> er_timestamp ` set rs
    \<and> mset (concat (map er_serviceEstimates (reduceByTimestamp M reduceBy rs)))
        = mset (concat (map er_serviceEstimates rs))
    \<and> er_total f (reduceByTimestamp M reduceBy rs) = er_total f rs"
proof -
  have "er_timestamp ` set (merge_groups M rs) \<subseteq> er_timestamp ` set rs"
    using merged_group(2) by (auto simp: merge_groups_def)
  then show ?thesis
    by (simp add: reduceByTimestamp_groups [OF assms] merge_groups_distinct merge_groups_estimates
        merge_groups_total)
qed

theorem reduceByTimestamp_conserves_witness:
  "\<forall>a b c. distinct (map er_timestamp (reduceByTimestamp moment_documented reduceBy_documented
       [sample_result 0 [a], sample_result 86400000 [b], sample_result 0 [c]]))
   \<and> mset (concat (map er_serviceEstimates (reduceByTimestamp moment_documented reduceBy_documented
       [sample_result 0 [a], sample_result 86400000 [b], sample_result 0 [c]]))) = {#a, b, c#}"
proof (intro allI)
  fix a b c
  show "distinct (map er_timestamp (reduceByTimestamp moment_documented reduceBy_documented
       [sample_result 0 [a], sample_result 86400000 [b], sample_result 0 [c]]))
   \<and> mset (concat (map er_serviceEstimates (reduceByTimestamp moment_documented reduceBy_documented
       [sample_result 0 [a], sample_result 86400000 [b], sample_result 0 [c]]))) = {#a, b, c#}"
    using reduceByTimestamp_conserves [OF reduceBy_doc.ramda_reduceBy_axioms, of moment_documented
        "[sample_result 0 [a], sample_result 86400000 [b], sample_result 0 [c]]"]
    by (simp add: sample_result_def)
qed

section \<open>Regions and accounts\<close>





section \<open>Estimators\<close>

text \<open>Whatever estimator made them, the emissions of a batch of operational estimates are its
  energy times the emissions factor of the region, or the factor of \<open>Unknown\<close> where the region has
  none.\<close>

theorem operational_emissions_follow_energy:
  assumes "es = ComputeEstimator_estimate cus r ef c \<or> es = MemoryEstimator_estimate m mus r ef c
      \<or> es = StorageEstimator_estimate st sus r ef c \<or> es = NetworkingEstimator_estimate n nus r ef c"
    and "factor_for r ef = Fin k" and "\<And>e. e \<in> set es \<Longrightarrow> is_fin (fe_kilowattHours e)"
  shows "sum_list (map fe_co2e es) = sum_list (map fe_kilowattHours es) * Fin k"
  using assms compute.total_co2 [of r ef k cus c] memory.total_co2 [of r ef k m mus c]
    storage.total_co2 [of r ef k st sus c] networking.total_co2 [of r ef k n nus c]
  by blast

theorem operational_emissions_follow_energy_witness:
  "sum_list (map fe_co2e (NetworkingEstimator_estimate (Fin (1 / 1000))
      [\<lparr>nu_timestamp = None, nu_gigabytes = 40\<rparr>, \<lparr>nu_timestamp = None, nu_gigabytes = 60\<rparr>]
      ''eu-west-1'' [(''eu-west-1'', Fin (3 / 10))]
      (no_constants\<lparr>cc_powerUsageEffectiveness := Some 2\<rparr>))) = Fin (6 / 100)"
proof -
  let ?es = "NetworkingEstimator_estimate (Fin (1 / 1000))
      [\<lparr>nu_timestamp = None, nu_gigabytes = 40\<rparr>, \<lparr>nu_timestamp = None, nu_gigabytes = 60\<rparr>]
      ''eu-west-1'' [(''eu-west-1'', Fin (3 / 10))]
      (no_constants\<lparr>cc_powerUsageEffectiveness := Some 2\<rparr>)"
  have kwh: "map fe_kilowattHours ?es = [Fin (2 / 25), Fin (3 / 25)]"
    by (simp add: NetworkingEstimator_estimate_def networking_estimateKilowattHours_def
        no_constants_def Let_def jsnum_simps)
  then have "\<And>e. e \<in> set ?es \<Longrightarrow> is_fin (fe_kilowattHours e)"
    by (auto simp: is_fin_iff dest: arg_cong [of _ _ set])
  then have "sum_list (map fe_co2e ?es) = sum_list (map fe_kilowattHours ?es) * Fin (3 / 10)"
    by (intro operational_emissions_follow_energy) (auto simp: factor_for_def jsnum_simps)
  then show ?thesis unfolding kwh by (simp add: jsnum_simps)
qed

text \<open>With the utilisation in percent, the energy of a compute usage lies between the energy of
  the idle processor and that of the processor at full load over the same hours.\<close>

theorem compute_energy_between_idle_and_full:
  assumes "\<not> truthy_opt avgWatts" "0 \<le> u" "u \<le> 100" "lo \<le> hi" "0 \<le> h" "0 \<le> p" "0 \<le> r"
  shows "\<exists>e. ENERGY_ESTIMATION_FORMULA (Fin u) (Fin h) (Some (Fin lo)) (Some (Fin hi)) (Some (Fin p))
      (Some (Fin r)) avgWatts = Fin e \<and> lo * h * p * r / 1000 \<le> e \<and> e \<le> hi * h * p * r / 1000"
  using assms by (rule energy_formula_bounds)

theorem compute_energy_between_idle_and_full_witness:
  "\<exists>e. ENERGY_ESTIMATION_FORMULA (Fin 50) (Fin 24) (Some (Fin 1)) (Some (Fin 3)) (Some (Fin 2))
      (Some (Fin 1)) None = Fin e \<and> 48 / 1000 \<le> e \<and> e \<le> 144 / 1000"
  using compute_energy_between_idle_and_full [of None 50 1 3 24 2 1] by (simp add: truthy_opt_def)

text \<open>The usages without an estimate of their own get the share of the ledger's energy that
  their costs (or amounts) have in the recorded costs (or amounts) of their usage unit: the
  estimator succeeds and the batch's energy is proportional to its costs.\<close>

theorem unknown_usage_gets_its_share:
  assumes "cc_kilowattHoursByServiceAndUsageUnit C = Some store"
    and "obj_get (units_of store ''total'') unit = Some t" and "obj_get store ''total'' \<noteq> None"
    and "unknown_field_total by t = Some (Fin c)" and "kt_kilowattHours t = Fin e" and "c \<noteq> 0"
    and "\<forall>u\<in>set us. uu_usageUnit u = unit \<and> is_fin (toNum (unknown_field_usage by u))
      \<and> obj_get (units_of store (case uu_service u of Some s \<Rightarrow> s | None \<Rightarrow> ''undefined'')) unit = None"
  shows "\<exists>es. UnknownEstimator_estimate by us r ef C = Inr es
    \<and> sum_list (map fe_kilowattHours es)
        = Fin (e / c) * sum_list (map (\<lambda>u. toNum (unknown_field_usage by u)) us)"
  using assms(7)
proof (induction us)
  case Nil
  then show ?case by (simp add: UnknownEstimator_estimate_def zero_Fin)
next
  case (Cons u us)
  then obtain es where es: "UnknownEstimator_estimate by us r ef C = Inr es"
    "sum_list (map fe_kilowattHours es)
        = Fin (e / c) * sum_list (map (\<lambda>u. toNum (unknown_field_usage by u)) us)" by auto
  have u: "uu_usageUnit u = unit" "is_fin (toNum (unknown_field_usage by u))"
    "obj_get (units_of store (case uu_service u of Some s \<Rightarrow> s | None \<Rightarrow> ''undefined'')) unit = None"
    using Cons.prems by auto
  obtain x where x: "toNum (unknown_field_usage by u) = Fin x" using u(2) by (auto simp: is_fin_iff)
  have "is_fin (sum_list (map (\<lambda>u. toNum (unknown_field_usage by u)) us))"
    using Cons.prems by (intro sum_list_fin_map) auto
  then obtain y where y: "sum_list (map (\<lambda>u. toNum (unknown_field_usage by u)) us) = Fin y"
    by (auto simp: is_fin_iff)
  have "unknown_estimateKilowattHours by u store = Inr (Fin (e / c * x))"
    using u assms(2-6) x
    by (auto simp: unknown_estimateKilowattHours_def units_of_def proportional_def jsnum_simps
        split: option.splits)
  then show ?case
    using es assms(1) x y by (simp add: UnknownEstimator_estimate_def jsnum_simps distrib_left)
qed

definition sample_store :: kwh_store where
  "sample_store = [(''total'', [(''Hrs'', \<lparr>kt_usageAmount = None, kt_cost = Some 5, kt_kilowattHours = 20\<rparr>)])]"

definition sample_unknown :: "jsnum \<Rightarrow> UnknownUsage" where
  "sample_unknown cost = \<lparr>uu_timestamp = None, uu_cost = Some cost, uu_usageAmount = Some 1,
     uu_usageUnit = ''Hrs'', uu_service = None\<rparr>"

theorem unknown_usage_gets_its_share_witness:
  "\<exists>es. UnknownEstimator_estimate EU_COST [sample_unknown 2, sample_unknown 1] ''us-east-1'' []
       (no_constants\<lparr>cc_kilowattHoursByServiceAndUsageUnit := Some sample_store\<rparr>) = Inr es
     \<and> sum_list (map fe_kilowattHours es) = Fin 12"
  using unknown_usage_gets_its_share
    [of "no_constants\<lparr>cc_kilowattHoursByServiceAndUsageUnit := Some sample_store\<rparr>" sample_store
      "''Hrs''" "\<lparr>kt_usageAmount = None, kt_cost = Some 5, kt_kilowattHours = 20\<rparr>" EU_COST 5 20
      "[sample_unknown 2, sample_unknown 1]" "''us-east-1''" "[]"]
  by (auto simp: sample_store_def sample_unknown_def units_of_def jsnum_simps)

text \<open>Converting energy to emissions and back with the same factors gives the energy back, for
  every region, also one that has only the default factor.\<close>

theorem energy_emissions_roundtrip:
  assumes "factor_for region factors = Fin c" "c \<noteq> 0" "is_fin kwh"
  shows "estimateKwh (estimateCo2 kwh region factors) region factors 1 = kwh"
  using assms by (rule estimateKwh_estimateCo2)

theorem energy_emissions_roundtrip_witness:
  "estimateKwh (estimateCo2 (Fin 7) ''mars'' [(''Unknown'', Fin (1 / 2))]) ''mars''
     [(''Unknown'', Fin (1 / 2))] 1 = Fin 7"
  by (rule energy_emissions_roundtrip [of _ _ "1 / 2"]) (simp_all add: factor_for_def jsnum_simps is_fin_iff)

text \<open>The watts of a group of processors, an average or, with Sandy Bridge or Ivy Bridge among
  them, a median, lie between the least and the greatest watts of the group.\<close>

theorem watts_between_bounds:
  assumes "ramda_median median" and "xs \<noteq> []" and "\<And>a. a \<in> set xs \<Longrightarrow> lo \<le> a \<and> a \<le> hi"
  shows "\<exists>w. getWattsByAverageOrMedian median procs (map (\<lambda>a. Some (Fin a)) xs) = Some (Fin w)
           \<and> lo \<le> w \<and> w \<le> hi"
  using assms by (rule ramda_median.watts_bounds)

theorem watts_between_bounds_witness:
  "\<exists>w. getWattsByAverageOrMedian median_documented [SANDY_BRIDGE, HASWELL]
      (map (\<lambda>a. Some (Fin a)) [217 / 100, 1]) = Some (Fin w) \<and> 1 \<le> w \<and> w \<le> 3"
  by (rule watts_between_bounds [OF median_doc.ramda_median_axioms]) auto

text \<open>Building compute usages from raw measurements is the reference that groups by instant: for
  every instant, in the order of its first relevant measurement, the mean of the utilisations
  measured (or the constant, flagged, where there is none) and the last vCPU hours, and only the
  usages with a positive number of hours.\<close>

theorem buildComputeUsages_is_grouping:
  "buildComputeUsages raws constants =
     filter (\<lambda>u. 0 < cu_vCpuHours u)
       (map (usage_at constants raws)
         (first_occurrences [] (map ru_timestamp (filter relevant raws))))"
  by (rule buildComputeUsages_eq)

section \<open>Electricity Maps\<close>

text \<open>Once the intensity of a zone at an instant has been fetched it never changes, and asking for
  the factors of a region of the zone at that instant answers with it and sends no request.\<close>

theorem intensity_is_fetched_once:
  assumes "getEmissionsFactors token http region dateTime factors zones s = (r, s')"
    and "cached_intensity s d zone = Some v" and "truthy v"
    and "zone_of zones region2 = Some zone" and "token \<noteq> []"
  shows "getEmissionsFactors token http2 region2 d factors zones s' = (Inr [(region2, v)], s')"
  using assms cached_intensity_stable [OF assms(1-3)] by (intro getEmissionsFactors_cached)

theorem intensity_is_fetched_once_witness:
  "getEmissionsFactors ''t'' (\<lambda>_. Inl ''offline'') ''eu-west-1'' ''2023-01-05'' []
     [(''eu-west-1'', Some ''IE''), (''us-east-1'', Some ''US'')]
     (snd (getEmissionsFactors ''t'' (\<lambda>_. Inr (Some 400)) ''us-east-1'' ''2023-01-05'' []
       [(''eu-west-1'', Some ''IE''), (''us-east-1'', Some ''US'')]
       \<lparr>zoneIntensityFactors = [(''2023-01-05'', [(''IE'', Fin (3 / 10))])], requests = []\<rparr>))
   = (Inr [(''eu-west-1'', Fin (3 / 10))],
      snd (getEmissionsFactors ''t'' (\<lambda>_. Inr (Some 400)) ''us-east-1'' ''2023-01-05'' []
       [(''eu-west-1'', Some ''IE''), (''us-east-1'', Some ''US'')]
       \<lparr>zoneIntensityFactors = [(''2023-01-05'', [(''IE'', Fin (3 / 10))])], requests = []\<rparr>))"
  by (rule intensity_is_fetched_once [OF prod.collapse [symmetric]])
    (simp_all add: cached_intensity_def zone_of_def truthy_def jsnum_simps)

section \<open>Dates\<close>

text \<open>Every instant of the years 0 to 9999 reads back from its ISO text.\<close>

theorem iso_text_roundtrip:
  assumes "0 \<le> year_of t" "year_of t \<le> 9999"
  shows "parse_date (toISOString t) = Some t"
  using assms by (rule parse_toISOString)

theorem iso_text_roundtrip_witness: "parse_date (toISOString 1672876800123) = Some 1672876800123"
  by (rule iso_text_roundtrip) code_simp+

text \<open>The end of a period lies one second before the start of the next one for days, weeks,
  months and years, but an hour less a second after it for quarters.\<close>

theorem period_end_offsets:
  assumes "moment_utc M"
  shows "getPeriodEndDate M t g = m_add M 1 (case g of day \<Rightarrow> MDay | week \<Rightarrow> MWeek | month \<Rightarrow> MMonth
      | quarter \<Rightarrow> MQuarter | year \<Rightarrow> MYear) t + (if g = quarter then 3599000 else - 1000)"
  by (cases g) (simp_all add: getPeriodEndDate_def moment_utc.add_second [OF assms]
      moment_utc.add_hour [OF assms])

theorem period_end_offsets_witness:
  "getPeriodEndDate moment_documented 0 quarter = 90 * 86400000 + 3599000"
  unfolding period_end_offsets [OF moment_doc.moment_utc_axioms] by code_simp

end
