(* ===== verification/On_Premise_Machines.thy ===== *)
theory On_Premise_Machines
  imports Core_Types Js_Object
begin

text \<open>
  The tables of the on-premise package: the families of the processors
  (\<open>packages/on-premise/src/lib/MachineTypes.ts\<close>) and the constants
  (\<open>domain/OnPremiseFootprintEstimationConstants.ts\<close>), in the order of the source.
\<close>

section \<open>Machines\<close>

definition machine_SERVER :: string where
  "machine_SERVER = ''server''"

definition machine_DESKTOP :: string where
  "machine_DESKTOP = ''desktop''"

definition machine_LAPTOP :: string where
  "machine_LAPTOP = ''laptop''"

definition intel_families_1 :: "COMPUTE_PROCESSOR_TYPES list obj" where
  "intel_families_1 =
    [(''7262'', [AMD_EPYC_2ND_GEN]),
     (''E3-1230'', [SANDY_BRIDGE]),
     (''E3-1235'', [SANDY_BRIDGE]),
     (''E3-1240'', [SANDY_BRIDGE]),
     (''E3-1245'', [SANDY_BRIDGE]),
     (''E3-1260L'', [SANDY_BRIDGE]),
     (''E3-1270'', [SANDY_BRIDGE]),
     (''E3-1275'', [SANDY_BRIDGE]),
     (''E3-1220'', [SANDY_BRIDGE]),
     (''E3-1280'', [SANDY_BRIDGE]),
     (''E3-1225'', [SANDY_BRIDGE]),
     (''E3-1220L'', [SANDY_BRIDGE]),
     (''E3-1290'', [SANDY_BRIDGE]),
     (''E5-2650'', [SANDY_BRIDGE]),
     (''E5-2650 0'', [SANDY_BRIDGE]),
     (''E5-2687W'', [SANDY_BRIDGE]),
     (''E5-2687W 0'', [SANDY_BRIDGE]),
     (''E5-1660'', [SANDY_BRIDGE]),
     (''E5-1660 0'', [SANDY_BRIDGE]),
     (''E5-1650'', [SANDY_BRIDGE]),
     (''E5-2640'', [SANDY_BRIDGE]),
     (''E5-2640 0'', [SANDY_BRIDGE]),
     (''E5-2680'', [SANDY_BRIDGE]),
     (''E5-2680 0'', [SANDY_BRIDGE]),
     (''E5-1620'', [SANDY_BRIDGE]),
     (''E5-1620 0'', [SANDY_BRIDGE]),
     (''E5-4610'', [SANDY_BRIDGE]),
     (''E5-2603'', [SANDY_BRIDGE]),
     (''E5-4650'', [SANDY_BRIDGE]),
     (''E5-2660'', [SANDY_BRIDGE]),
     (''E5-4640'', [SANDY_BRIDGE]),
     (''E5-2630'', [SANDY_BRIDGE]),
     (''E5-2650L'', [SANDY_BRIDGE]),
     (''E5-4607'', [SANDY_BRIDGE]),
     (''E5-2620'', [SANDY_BRIDGE]),
     (''E5-2620 0'', [SANDY_BRIDGE]),
     (''E5-2630L'', [SANDY_BRIDGE]),
     (''E5-2670'', [SANDY_BRIDGE]),
     (''E5-2670 0'', [SANDY_BRIDGE]),
     (''E5-2643'', [SANDY_BRIDGE]),
     (''E5-4650L'', [SANDY_BRIDGE]),
     (''E5-2690'', [SANDY_BRIDGE]),
     (''E5-2690 0'', [SANDY_BRIDGE]),
     (''E5-2609'', [SANDY_BRIDGE]),
     (''E5-2609 0'', [SANDY_BRIDGE]),
     (''E5-4620'', [SANDY_BRIDGE]),
     (''E5-2665'', [SANDY_BRIDGE]),
     (''E5-2665 0'', [SANDY_BRIDGE]),
     (''E5-2667'', [SANDY_BRIDGE]),
     (''E5-2667 0'', [SANDY_BRIDGE]),
     (''E5-4617'', [SANDY_BRIDGE]),
     (''E5-2637'', [SANDY_BRIDGE]),
     (''E5-4603'', [SANDY_BRIDGE]),
     (''E5-2450L'', [SANDY_BRIDGE]),
     (''E5-2450'', [SANDY_BRIDGE]),
     (''E5-2440'', [SANDY_BRIDGE]),
     (''E5-2470'', [SANDY_BRIDGE]),
     (''E5-2430L'', [SANDY_BRIDGE]),
     (''E5-2407'', [SANDY_BRIDGE]),
     (''E5-2403'', [SANDY_BRIDGE]),
     (''E5-2430'', [SANDY_BRIDGE]),
     (''E5-2430 0'', [SANDY_BRIDGE]),
     (''E5-2420'', [SANDY_BRIDGE]),
     (''E5-1428L'', [SANDY_BRIDGE]),
     (''1405'', [SANDY_BRIDGE]),
     (''i5-2550K'', [SANDY_BRIDGE]),
     (''i5-2380P'', [SANDY_BRIDGE]),
     (''i5-2450P'', [SANDY_BRIDGE]),
     (''i7-2700K'', [SANDY_BRIDGE]),
     (''i3-2125'', [SANDY_BRIDGE]),
     (''i3-2130'', [SANDY_BRIDGE]),
     (''i3-2120T'', [SANDY_BRIDGE]),
     (''i5-2320'', [SANDY_BRIDGE]),
     (''i5-2310'', [SANDY_BRIDGE]),
     (''i5-2405S'', [SANDY_BRIDGE]),
     (''i3-2105'', [SANDY_BRIDGE]),
     (''i3-2102'', [SANDY_BRIDGE]),
     (''i3-2120'', [SANDY_BRIDGE]),
     (''i5-2390T'', [SANDY_BRIDGE]),
     (''i3-2100T'', [SANDY_BRIDGE]),
     (''i3-2100'', [SANDY_BRIDGE]),
     (''i5-2300'', [SANDY_BRIDGE]),
     (''i5-2400'', [SANDY_BRIDGE]),
     (''i5-2400S'', [SANDY_BRIDGE]),
     (''i5-2500'', [SANDY_BRIDGE]),
     (''i5-2500K'', [SANDY_BRIDGE]),
     (''i5-2500S'', [SANDY_BRIDGE]),
     (''i5-2500T'', [SANDY_BRIDGE]),
     (''i7-2600'', [SANDY_BRIDGE]),
     (''i7-2600K'', [SANDY_BRIDGE]),
     (''i7-2600S'', [SANDY_BRIDGE]),
     (''G645T'', [SANDY_BRIDGE]),
     (''G645'', [SANDY_BRIDGE]),
     (''G860T'', [SANDY_BRIDGE]),
     (''G870'', [SANDY_BRIDGE]),
     (''G640T'', [SANDY_BRIDGE]),
     (''G640'', [SANDY_BRIDGE]),
     (''G632'', [SANDY_BRIDGE]),
     (''G630T'', [SANDY_BRIDGE]),
     (''G630'', [SANDY_BRIDGE]),
     (''G860'', [SANDY_BRIDGE]),
     (''G850'', [SANDY_BRIDGE]),
     (''G840'', [SANDY_BRIDGE]),
     (''G622'', [SANDY_BRIDGE]),
     (''G620T'', [SANDY_BRIDGE]),
     (''G620'', [SANDY_BRIDGE]),
     (''G470'', [SANDY_BRIDGE]),
     (''G550T'', [SANDY_BRIDGE]),
     (''G465'', [SANDY_BRIDGE]),
     (''G555'', [SANDY_BRIDGE]),
     (''G550'', [SANDY_BRIDGE]),
     (''G540T'', [SANDY_BRIDGE]),
     (''G460'', [SANDY_BRIDGE]),
     (''G440'', [SANDY_BRIDGE]),
     (''G540'', [SANDY_BRIDGE]),
     (''G530T'', [SANDY_BRIDGE]),
     (''G530'', [SANDY_BRIDGE]),
     (''i3-2348M'', [SANDY_BRIDGE]),
     (''i3-2375M'', [SANDY_BRIDGE]),
     (''i3-2328M'', [SANDY_BRIDGE]),
     (''i3-2365M'', [SANDY_BRIDGE]),
     (''i3-2377M'', [SANDY_BRIDGE]),
     (''i3-2370M'', [SANDY_BRIDGE]),
     (''i5-2450M'', [SANDY_BRIDGE]),
     (''i3-2367M'', [SANDY_BRIDGE]),
     (''i7-2675QM'', [SANDY_BRIDGE]),
     (''i7-2670QM'', [SANDY_BRIDGE]),
     (''i5-2430M'', [SANDY_BRIDGE]),
     (''i3-2350M'', [SANDY_BRIDGE]),
     (''i5-2435M'', [SANDY_BRIDGE]),
     (''i7-2960XM'', [SANDY_BRIDGE]),
     (''i7-2860QM'', [SANDY_BRIDGE]),
     (''i7-2760QM'', [SANDY_BRIDGE]),
     (''i7-2640M'', [SANDY_BRIDGE]),
     (''i3-2357M'', [SANDY_BRIDGE]),
     (''i5-2557M'', [SANDY_BRIDGE]),
     (''i5-2467M'', [SANDY_BRIDGE]),
     (''i7-2637M'', [SANDY_BRIDGE]),
     (''i7-2677M'', [SANDY_BRIDGE]),
     (''i3-2330M'', [SANDY_BRIDGE]),
     (''i3-2330E'', [SANDY_BRIDGE]),
     (''i3-2312M'', [SANDY_BRIDGE]),
     (''i5-2540M'', [SANDY_BRIDGE]),
     (''i5-2537M'', [SANDY_BRIDGE]),
     (''i3-2310M'', [SANDY_BRIDGE]),
     (''i5-2410M'', [SANDY_BRIDGE]),
     (''i5-2520M'', [SANDY_BRIDGE]),
     (''i7-2620M'', [SANDY_BRIDGE])]"

definition intel_families_2 :: "COMPUTE_PROCESSOR_TYPES list obj" where
  "intel_families_2 =
    [(''i5-2510E'', [SANDY_BRIDGE]),
     (''i7-2617M'', [SANDY_BRIDGE]),
     (''i7-2657M'', [SANDY_BRIDGE]),
     (''i7-2649M'', [SANDY_BRIDGE]),
     (''i7-2629M'', [SANDY_BRIDGE]),
     (''i7-2720QM'', [SANDY_BRIDGE]),
     (''i7-2630QM'', [SANDY_BRIDGE]),
     (''i7-2635QM'', [SANDY_BRIDGE]),
     (''i7-2820QM'', [SANDY_BRIDGE]),
     (''i7-2920XM'', [SANDY_BRIDGE]),
     (''i7-2710QE'', [SANDY_BRIDGE]),
     (''997'', [SANDY_BRIDGE]),
     (''987'', [SANDY_BRIDGE]),
     (''B980'', [SANDY_BRIDGE]),
     (''977'', [SANDY_BRIDGE]),
     (''B970'', [SANDY_BRIDGE]),
     (''B960'', [SANDY_BRIDGE]),
     (''967'', [SANDY_BRIDGE]),
     (''B940'', [SANDY_BRIDGE]),
     (''B950'', [SANDY_BRIDGE]),
     (''957'', [SANDY_BRIDGE]),
     (''B830'', [SANDY_BRIDGE]),
     (''887'', [SANDY_BRIDGE]),
     (''877'', [SANDY_BRIDGE]),
     (''807'', [SANDY_BRIDGE]),
     (''B820'', [SANDY_BRIDGE]),
     (''797'', [SANDY_BRIDGE]),
     (''867'', [SANDY_BRIDGE]),
     (''B815'', [SANDY_BRIDGE]),
     (''B720'', [SANDY_BRIDGE]),
     (''B840'', [SANDY_BRIDGE]),
     (''787'', [SANDY_BRIDGE]),
     (''B710'', [SANDY_BRIDGE]),
     (''857'', [SANDY_BRIDGE]),
     (''847'', [SANDY_BRIDGE]),
     (''B800'', [SANDY_BRIDGE]),
     (''B810'', [SANDY_BRIDGE]),
     (''E7-4809 v2'', [IVY_BRIDGE]),
     (''E7-8880L v2'', [IVY_BRIDGE]),
     (''E7-8880 v2'', [IVY_BRIDGE]),
     (''E7-4820 v2'', [IVY_BRIDGE]),
     (''E7-8890 v2'', [IVY_BRIDGE]),
     (''E7-8891 v2'', [IVY_BRIDGE]),
     (''E7-2850 v2'', [IVY_BRIDGE]),
     (''E7-4830 v2'', [IVY_BRIDGE]),
     (''E7-8893 v2'', [IVY_BRIDGE]),
     (''E7-2870 v2'', [IVY_BRIDGE]),
     (''E7-4850 v2'', [IVY_BRIDGE]),
     (''E7-2880 v2'', [IVY_BRIDGE]),
     (''E7-2890 v2'', [IVY_BRIDGE]),
     (''E7-4860 v2'', [IVY_BRIDGE]),
     (''E7-4870 v2'', [IVY_BRIDGE]),
     (''E7-4890 v2'', [IVY_BRIDGE]),
     (''E7-8850 v2'', [IVY_BRIDGE]),
     (''E7-8857 v2'', [IVY_BRIDGE]),
     (''E7-8870 v2'', [IVY_BRIDGE]),
     (''E7-4880 v2'', [IVY_BRIDGE]),
     (''E3-1290 v2'', [IVY_BRIDGE]),
     (''E3-1230 v2'', [IVY_BRIDGE]),
     (''E3-1225 v2'', [IVY_BRIDGE]),
     (''E3-1280 v2'', [IVY_BRIDGE]),
     (''E3-1220 v2'', [IVY_BRIDGE]),
     (''E3-1275 v2'', [IVY_BRIDGE]),
     (''E3-1220L v2'', [IVY_BRIDGE]),
     (''E3-1270 v2'', [IVY_BRIDGE]),
     (''E3-1265L v2'', [IVY_BRIDGE]),
     (''E3-1245 v2'', [IVY_BRIDGE]),
     (''E3-1240 v2'', [IVY_BRIDGE]),
     (''E5-2640 v2'', [IVY_BRIDGE]),
     (''E5-2680 v2'', [IVY_BRIDGE]),
     (''E5-4640 v2'', [IVY_BRIDGE]),
     (''E5-4650 v2'', [IVY_BRIDGE]),
     (''E5-4657L v2'', [IVY_BRIDGE]),
     (''E5-2690 v2'', [IVY_BRIDGE]),
     (''E5-2643 v2'', [IVY_BRIDGE]),
     (''E5-2650 v2'', [IVY_BRIDGE]),
     (''E5-2650L v2'', [IVY_BRIDGE]),
     (''E5-2695 v2'', [IVY_BRIDGE]),
     (''E5-2660 v2'', [IVY_BRIDGE]),
     (''E5-4607 v2'', [IVY_BRIDGE]),
     (''E5-2667 v2'', [IVY_BRIDGE]),
     (''E5-2697 v2'', [IVY_BRIDGE]),
     (''E5-4610 v2'', [IVY_BRIDGE]),
     (''E5-2603 v2'', [IVY_BRIDGE]),
     (''E5-2670 v2'', [IVY_BRIDGE]),
     (''E5-4620 v2'', [IVY_BRIDGE]),
     (''E5-4627 v2'', [IVY_BRIDGE]),
     (''E5-2609 v2'', [IVY_BRIDGE]),
     (''E5-1620 v2'', [IVY_BRIDGE]),
     (''E5-2687W v2'', [IVY_BRIDGE]),
     (''E5-1650 v2'', [IVY_BRIDGE]),
     (''E5-2620 v2'', [IVY_BRIDGE]),
     (''E5-1660 v2'', [IVY_BRIDGE]),
     (''E5-2630 v2'', [IVY_BRIDGE]),
     (''E5-2630L v2'', [IVY_BRIDGE]),
     (''E5-2637 v2'', [IVY_BRIDGE]),
     (''E5-4603 v2'', [IVY_BRIDGE]),
     (''E5-2420 v2'', [IVY_BRIDGE]),
     (''E5-2440 v2'', [IVY_BRIDGE]),
     (''E5-2403 v2'', [IVY_BRIDGE]),
     (''E5-2430 v2'', [IVY_BRIDGE]),
     (''E5-2450 v2'', [IVY_BRIDGE]),
     (''E5-2430L v2'', [IVY_BRIDGE]),
     (''E5-2450L v2'', [IVY_BRIDGE]),
     (''E5-2470 v2'', [IVY_BRIDGE]),
     (''E5-2407 v2'', [IVY_BRIDGE]),
     (''3245'', [IVY_BRIDGE]),
     (''i5-3340'', [IVY_BRIDGE]),
     (''i5-3340S'', [IVY_BRIDGE]),
     (''i3-3250'', [IVY_BRIDGE]),
     (''i3-3250T'', [IVY_BRIDGE]),
     (''i3-3245'', [IVY_BRIDGE]),
     (''i3-3210'', [IVY_BRIDGE]),
     (''i3-3225'', [IVY_BRIDGE]),
     (''i5-3350P'', [IVY_BRIDGE]),
     (''i5-3330S'', [IVY_BRIDGE]),
     (''i5-3330'', [IVY_BRIDGE]),
     (''i3-3240T'', [IVY_BRIDGE]),
     (''i3-3240'', [IVY_BRIDGE]),
     (''i3-3220T'', [IVY_BRIDGE]),
     (''i3-3220'', [IVY_BRIDGE]),
     (''i5-3475S'', [IVY_BRIDGE]),
     (''i5-3570S'', [IVY_BRIDGE]),
     (''i5-3570'', [IVY_BRIDGE]),
     (''i5-3470T'', [IVY_BRIDGE]),
     (''i5-3470'', [IVY_BRIDGE]),
     (''i5-3470S'', [IVY_BRIDGE]),
     (''i5-3450'', [IVY_BRIDGE]),
     (''i5-3450S'', [IVY_BRIDGE]),
     (''i5-3550'', [IVY_BRIDGE]),
     (''i5-3550S'', [IVY_BRIDGE]),
     (''i5-3570K'', [IVY_BRIDGE]),
     (''i5-3570T'', [IVY_BRIDGE]),
     (''i7-3770K'', [IVY_BRIDGE]),
     (''i7-3770S'', [IVY_BRIDGE]),
     (''i7-3770T'', [IVY_BRIDGE]),
     (''i7-3770'', [IVY_BRIDGE]),
     (''G2030T'', [IVY_BRIDGE]),
     (''G2120T'', [IVY_BRIDGE]),
     (''G2140'', [IVY_BRIDGE]),
     (''G2030'', [IVY_BRIDGE]),
     (''G2130'', [IVY_BRIDGE]),
     (''G2010'', [IVY_BRIDGE]),
     (''G2020'', [IVY_BRIDGE]),
     (''G2020T'', [IVY_BRIDGE]),
     (''G2120'', [IVY_BRIDGE]),
     (''G2100T'', [IVY_BRIDGE]),
     (''G1630'', [IVY_BRIDGE])]"

definition intel_families_3 :: "COMPUTE_PROCESSOR_TYPES list obj" where
  "intel_families_3 =
    [(''G1620T'', [IVY_BRIDGE]),
     (''G1610T'', [IVY_BRIDGE]),
     (''G1610'', [IVY_BRIDGE]),
     (''G1620'', [IVY_BRIDGE]),
     (''i7-3940XM'', [IVY_BRIDGE]),
     (''i7-3920XM'', [IVY_BRIDGE]),
     (''i5-3437U'', [IVY_BRIDGE]),
     (''i7-3687U'', [IVY_BRIDGE]),
     (''i5-3340M'', [IVY_BRIDGE]),
     (''i5-3380M'', [IVY_BRIDGE]),
     (''i7-3540M'', [IVY_BRIDGE]),
     (''i7-3537U'', [IVY_BRIDGE]),
     (''i5-3337U'', [IVY_BRIDGE]),
     (''i5-3230M'', [IVY_BRIDGE]),
     (''i3-3227U'', [IVY_BRIDGE]),
     (''i3-3130M'', [IVY_BRIDGE]),
     (''i7-3689Y'', [IVY_BRIDGE]),
     (''i5-3439Y'', [IVY_BRIDGE]),
     (''i5-3339Y'', [IVY_BRIDGE]),
     (''i3-3229Y'', [IVY_BRIDGE]),
     (''i7-3840QM'', [IVY_BRIDGE]),
     (''i7-3632QM'', [IVY_BRIDGE]),
     (''i3-3120M'', [IVY_BRIDGE]),
     (''i7-3635QM'', [IVY_BRIDGE]),
     (''i7-3630QM'', [IVY_BRIDGE]),
     (''i7-3740QM'', [IVY_BRIDGE]),
     (''i3-3110M'', [IVY_BRIDGE]),
     (''i3-3217U'', [IVY_BRIDGE]),
     (''i5-3427U'', [IVY_BRIDGE]),
     (''i5-3317U'', [IVY_BRIDGE]),
     (''i5-3210M'', [IVY_BRIDGE]),
     (''i7-3667U'', [IVY_BRIDGE]),
     (''i5-3360M'', [IVY_BRIDGE]),
     (''i7-3517U'', [IVY_BRIDGE]),
     (''i7-3520M'', [IVY_BRIDGE]),
     (''i5-3320M'', [IVY_BRIDGE]),
     (''i7-3720QM'', [IVY_BRIDGE]),
     (''i7-3610QM'', [IVY_BRIDGE]),
     (''i7-3615QM'', [IVY_BRIDGE]),
     (''i7-3612QM'', [IVY_BRIDGE]),
     (''i7-3820QM'', [IVY_BRIDGE]),
     (''2127U'', [IVY_BRIDGE]),
     (''2030M'', [IVY_BRIDGE]),
     (''2129Y'', [IVY_BRIDGE]),
     (''2117U'', [IVY_BRIDGE]),
     (''2020M'', [IVY_BRIDGE]),
     (''A1018'', [IVY_BRIDGE]),
     (''1017U'', [IVY_BRIDGE]),
     (''1005M'', [IVY_BRIDGE]),
     (''1019Y'', [IVY_BRIDGE]),
     (''1020M'', [IVY_BRIDGE]),
     (''1037U'', [IVY_BRIDGE]),
     (''1000M'', [IVY_BRIDGE]),
     (''1007U'', [IVY_BRIDGE]),
     (''E7-8860 v3'', [HASWELL]),
     (''E7-8867 v3'', [HASWELL]),
     (''E7-8870 v3'', [HASWELL]),
     (''E7-8880 v3'', [HASWELL]),
     (''E7-8880L v3'', [HASWELL]),
     (''E7-4809 v3'', [HASWELL]),
     (''E7-8890 v3'', [HASWELL]),
     (''E7-4820 v3'', [HASWELL]),
     (''E7-8891 v3'', [HASWELL]),
     (''E7-4830 v3'', [HASWELL]),
     (''E7-4850 v3'', [HASWELL]),
     (''E7-8893 v3'', [HASWELL]),
     (''E5-2695 v3'', [HASWELL]),
     (''E5-2697 v3'', [HASWELL]),
     (''E5-2698 v3'', [HASWELL]),
     (''E5-2699 v3'', [HASWELL]),
     (''E5-2683 v3'', [HASWELL]),
     (''E5-2690 v3'', [HASWELL]),
     (''E5-2650 v3'', [HASWELL]),
     (''E5-2660 v3'', [HASWELL]),
     (''E5-2609 v3'', [HASWELL]),
     (''E5-2680 v3'', [HASWELL]),
     (''E5-2670 v3'', [HASWELL]),
     (''E5-1630 v3'', [HASWELL]),
     (''E5-1650 v3'', [HASWELL]),
     (''E5-2687W v3'', [HASWELL]),
     (''E5-2643 v3'', [HASWELL]),
     (''E5-1660 v3'', [HASWELL]),
     (''E5-1680 v3'', [HASWELL]),
     (''E5-2650L v3'', [HASWELL]),
     (''E5-2620 v3'', [HASWELL]),
     (''E5-2623 v3'', [HASWELL]),
     (''E5-1620 v3'', [HASWELL]),
     (''E5-2630 v3'', [HASWELL]),
     (''E5-2630L v3'', [HASWELL]),
     (''E5-2637 v3'', [HASWELL]),
     (''E5-2640 v3'', [HASWELL]),
     (''E5-2603 v3'', [HASWELL]),
     (''E5-2667 v3'', [HASWELL]),
     (''E5-4640 v3'', [HASWELL]),
     (''E5-4650 v3'', [HASWELL]),
     (''E5-4655 v3'', [HASWELL]),
     (''E5-4660 v3'', [HASWELL]),
     (''E5-4667 v3'', [HASWELL]),
     (''E5-4669 v3'', [HASWELL]),
     (''E5-4610 v3'', [HASWELL]),
     (''E5-4620 v3'', [HASWELL]),
     (''E5-4627 v3'', [HASWELL]),
     (''E3-1220 v3'', [HASWELL]),
     (''E3-1230L v3'', [HASWELL]),
     (''E3-1230 v3'', [HASWELL]),
     (''E3-1240 v3'', [HASWELL]),
     (''E3-1270 v3'', [HASWELL]),
     (''E3-1280 v3'', [HASWELL]),
     (''E3-1225 v3'', [HASWELL]),
     (''E3-1220L v3'', [HASWELL]),
     (''E3-1245 v3'', [HASWELL]),
     (''E3-1265L v3'', [HASWELL]),
     (''E3-1275 v3'', [HASWELL]),
     (''E3-1285 v3'', [HASWELL]),
     (''E3-1285L v3'', [HASWELL]),
     (''E3-1275L v3'', [HASWELL]),
     (''E3-1241 v3'', [HASWELL]),
     (''E3-1231 v3'', [HASWELL]),
     (''E3-1240L v3'', [HASWELL]),
     (''E3-1286 v3'', [HASWELL]),
     (''E3-1286L v3'', [HASWELL]),
     (''E3-1276 v3'', [HASWELL]),
     (''E3-1281 v3'', [HASWELL]),
     (''E3-1246 v3'', [HASWELL]),
     (''E3-1271 v3'', [HASWELL]),
     (''E3-1226 v3'', [HASWELL]),
     (''i7-4785T'', [HASWELL]),
     (''i7-4790'', [HASWELL]),
     (''i7-4790S'', [HASWELL]),
     (''i7-4790T'', [HASWELL]),
     (''i7-4771'', [HASWELL]),
     (''i7-4770K'', [HASWELL]),
     (''i7-4770T'', [HASWELL]),
     (''i7-4770S'', [HASWELL]),
     (''i7-4770'', [HASWELL]),
     (''i7-4765T'', [HASWELL]),
     (''i5-4460S'', [HASWELL]),
     (''i5-4460'', [HASWELL]),
     (''i5-4590T'', [HASWELL]),
     (''i5-4460T'', [HASWELL]),
     (''i5-4590S'', [HASWELL]),
     (''i5-4590'', [HASWELL]),
     (''i5-4690'', [HASWELL]),
     (''i5-4690S'', [HASWELL]),
     (''i5-4690T'', [HASWELL]),
     (''i5-4440'', [HASWELL]),
     (''i5-4440S'', [HASWELL]),
     (''i5-4670T'', [HASWELL])]"

definition intel_families_4 :: "COMPUTE_PROCESSOR_TYPES list obj" where
  "intel_families_4 =
    [(''i5-4670S'', [HASWELL]),
     (''i5-4670K'', [HASWELL]),
     (''i5-4670'', [HASWELL]),
     (''i5-4570T'', [HASWELL]),
     (''i5-4570S'', [HASWELL]),
     (''i5-4570'', [HASWELL]),
     (''i5-4430S'', [HASWELL]),
     (''i5-4430'', [HASWELL]),
     (''i3-4170'', [HASWELL]),
     (''i3-4370T'', [HASWELL]),
     (''i3-4170T'', [HASWELL]),
     (''i3-4360T'', [HASWELL]),
     (''i3-4370'', [HASWELL]),
     (''i3-4160T'', [HASWELL]),
     (''i3-4160'', [HASWELL]),
     (''i3-4150'', [HASWELL]),
     (''i3-4150T'', [HASWELL]),
     (''i3-4350'', [HASWELL]),
     (''i3-4350T'', [HASWELL]),
     (''i3-4360'', [HASWELL]),
     (''i3-4340'', [HASWELL]),
     (''i3-4330T'', [HASWELL]),
     (''i3-4330'', [HASWELL]),
     (''i3-4130T'', [HASWELL]),
     (''i3-4130'', [HASWELL]),
     (''G3460T'', [HASWELL]),
     (''G3470'', [HASWELL]),
     (''G3260'', [HASWELL]),
     (''G3260T'', [HASWELL]),
     (''G3250'', [HASWELL]),
     (''G3460'', [HASWELL]),
     (''G3250T'', [HASWELL]),
     (''G3450T'', [HASWELL]),
     (''G3258'', [HASWELL]),
     (''G3450'', [HASWELL]),
     (''G3440'', [HASWELL]),
     (''G3440T'', [HASWELL]),
     (''G3240'', [HASWELL]),
     (''G3240T'', [HASWELL]),
     (''G3430'', [HASWELL]),
     (''G3420T'', [HASWELL]),
     (''G3420'', [HASWELL]),
     (''G3220T'', [HASWELL]),
     (''G3220'', [HASWELL]),
     (''G1850'', [HASWELL]),
     (''G1840'', [HASWELL]),
     (''G1840T'', [HASWELL]),
     (''G1820T'', [HASWELL]),
     (''G1820'', [HASWELL]),
     (''G1830'', [HASWELL]),
     (''i7-4940MX'', [HASWELL]),
     (''i7-4930MX'', [HASWELL]),
     (''i7-4720HQ'', [HASWELL]),
     (''i7-4722HQ'', [HASWELL]),
     (''i7-4578U'', [HASWELL]),
     (''i7-4510U'', [HASWELL]),
     (''i7-4712MQ'', [HASWELL]),
     (''i7-4712HQ'', [HASWELL]),
     (''i7-4710MQ'', [HASWELL]),
     (''i7-4710HQ'', [HASWELL]),
     (''i7-4610M'', [HASWELL]),
     (''i7-4910MQ'', [HASWELL]),
     (''i7-4810MQ'', [HASWELL]),
     (''i7-4600M'', [HASWELL]),
     (''i7-4610Y'', [HASWELL]),
     (''i7-4600U'', [HASWELL]),
     (''i7-4550U'', [HASWELL]),
     (''i7-4650U'', [HASWELL]),
     (''i7-4500U'', [HASWELL]),
     (''i7-4558U'', [HASWELL]),
     (''i7-4900MQ'', [HASWELL]),
     (''i7-4800MQ'', [HASWELL]),
     (''i7-4702MQ'', [HASWELL]),
     (''i7-4702HQ'', [HASWELL]),
     (''i7-4700HQ'', [HASWELL]),
     (''i7-4700MQ'', [HASWELL]),
     (''i5-4210H'', [HASWELL]),
     (''i5-4278U'', [HASWELL]),
     (''i5-4308U'', [HASWELL]),
     (''i5-4210U'', [HASWELL]),
     (''i5-4220Y'', [HASWELL]),
     (''i5-4260U'', [HASWELL]),
     (''i5-4210M'', [HASWELL]),
     (''i5-4310M'', [HASWELL]),
     (''i5-4340M'', [HASWELL]),
     (''i5-4310U'', [HASWELL]),
     (''i5-4360U'', [HASWELL]),
     (''i5-4302Y'', [HASWELL]),
     (''i5-4300Y'', [HASWELL]),
     (''i5-4210Y'', [HASWELL]),
     (''i5-4202Y'', [HASWELL]),
     (''i5-4200M'', [HASWELL]),
     (''i5-4300M'', [HASWELL]),
     (''i5-4300U'', [HASWELL]),
     (''i5-4200H'', [HASWELL]),
     (''i5-4330M'', [HASWELL]),
     (''i5-4350U'', [HASWELL]),
     (''i5-4250U'', [HASWELL]),
     (''i5-4200U'', [HASWELL]),
     (''i5-4200Y'', [HASWELL]),
     (''i5-4258U'', [HASWELL]),
     (''i5-4288U'', [HASWELL]),
     (''i3-4025U'', [HASWELL]),
     (''i3-4030U'', [HASWELL]),
     (''i3-4110M'', [HASWELL]),
     (''i3-4120U'', [HASWELL]),
     (''i3-4030Y'', [HASWELL]),
     (''i3-4020Y'', [HASWELL]),
     (''i3-4012Y'', [HASWELL]),
     (''i3-4100M'', [HASWELL]),
     (''i3-4000M'', [HASWELL]),
     (''i3-4005U'', [HASWELL]),
     (''i3-4010U'', [HASWELL]),
     (''i3-4100U'', [HASWELL]),
     (''i3-4010Y'', [HASWELL]),
     (''i3-4158U'', [HASWELL]),
     (''3560M'', [HASWELL]),
     (''3558U'', [HASWELL]),
     (''3561Y'', [HASWELL]),
     (''3556U'', [HASWELL]),
     (''3560Y'', [HASWELL]),
     (''3550M'', [HASWELL]),
     (''2970M'', [HASWELL]),
     (''2981U'', [HASWELL]),
     (''2961Y'', [HASWELL]),
     (''2957U'', [HASWELL]),
     (''2955U'', [HASWELL]),
     (''2980U'', [HASWELL]),
     (''2950M'', [HASWELL]),
     (''D-1533N'', [BROADWELL]),
     (''D-1513N'', [BROADWELL]),
     (''D-1543N'', [BROADWELL]),
     (''D-1523N'', [BROADWELL]),
     (''D-1553N'', [BROADWELL]),
     (''D-1520'', [BROADWELL]),
     (''D-1540'', [BROADWELL]),
     (''D-1528'', [BROADWELL]),
     (''D-1541'', [BROADWELL]),
     (''D-1539'', [BROADWELL]),
     (''D-1518'', [BROADWELL]),
     (''D-1521'', [BROADWELL]),
     (''D-1531'', [BROADWELL]),
     (''D-1529'', [BROADWELL]),
     (''D-1548'', [BROADWELL]),
     (''D-1527'', [BROADWELL]),
     (''D-1537'', [BROADWELL]),
     (''D-1559'', [BROADWELL]),
     (''D-1577'', [BROADWELL])]"

definition intel_families_5 :: "COMPUTE_PROCESSOR_TYPES list obj" where
  "intel_families_5 =
    [(''D-1571'', [BROADWELL]),
     (''D-1557'', [BROADWELL]),
     (''D-1567'', [BROADWELL]),
     (''E7-8890 v4'', [BROADWELL]),
     (''E7-8893 v4'', [BROADWELL]),
     (''E7-8880 v4'', [BROADWELL]),
     (''E7-4830 v4'', [BROADWELL]),
     (''E7-8860 v4'', [BROADWELL]),
     (''E7-4809 v4'', [BROADWELL]),
     (''E7-8870 v4'', [BROADWELL]),
     (''E7-4820 v4'', [BROADWELL]),
     (''E7-8891 v4'', [BROADWELL]),
     (''E7-8867 v4'', [BROADWELL]),
     (''E7-4850 v4'', [BROADWELL]),
     (''E7-8894 v4'', [BROADWELL]),
     (''E5-2687W v4'', [BROADWELL]),
     (''E5-2695 v4'', [BROADWELL]),
     (''E5-2690 v4'', [BROADWELL]),
     (''E5-2699 v4'', [BROADWELL]),
     (''E5-2650L v4'', [BROADWELL]),
     (''E5-2698 v4'', [BROADWELL]),
     (''E5-2660 v4'', [BROADWELL]),
     (''E5-2680 v4'', [BROADWELL]),
     (''E5-2697 v4'', [BROADWELL]),
     (''E5-2683 v4'', [BROADWELL]),
     (''E5-2650 v4'', [BROADWELL]),
     (''E5-2697A v4'', [BROADWELL]),
     (''E5-1660 v4'', [BROADWELL]),
     (''E5-2620 v4'', [BROADWELL]),
     (''E5-1630 v4'', [BROADWELL]),
     (''E5-2630L v4'', [BROADWELL]),
     (''E5-2667 v4'', [BROADWELL]),
     (''E5-2643 v4'', [BROADWELL]),
     (''E5-2623 v4'', [BROADWELL]),
     (''E5-2609 v4'', [BROADWELL]),
     (''E5-2630 v4'', [BROADWELL]),
     (''E5-1620 v4'', [BROADWELL]),
     (''E5-1680 v4'', [BROADWELL]),
     (''E5-2637 v4'', [BROADWELL]),
     (''E5-2603 v4'', [BROADWELL]),
     (''E5-2640 v4'', [BROADWELL]),
     (''E5-1650 v4'', [BROADWELL]),
     (''E5-4627 v4'', [BROADWELL]),
     (''E5-4610 v4'', [BROADWELL]),
     (''E5-4620 v4'', [BROADWELL]),
     (''E5-4660 v4'', [BROADWELL]),
     (''E5-4640 v4'', [BROADWELL]),
     (''E5-4669 v4'', [BROADWELL]),
     (''E5-4667 v4'', [BROADWELL]),
     (''E5-4655 v4'', [BROADWELL]),
     (''E5-4650 v4'', [BROADWELL]),
     (''E5-2699A v4'', [BROADWELL]),
     (''E3-1265L v4'', [BROADWELL]),
     (''E3-1285L v4'', [BROADWELL]),
     (''E3-1285 v4'', [BROADWELL]),
     (''D1517'', [BROADWELL]),
     (''D1508'', [BROADWELL]),
     (''D1519'', [BROADWELL]),
     (''D1509'', [BROADWELL]),
     (''D1507'', [BROADWELL]),
     (''i7-5775R'', [BROADWELL]),
     (''i7-5775C'', [BROADWELL]),
     (''i5-5575R'', [BROADWELL]),
     (''i5-5675R'', [BROADWELL]),
     (''i5-5675C'', [BROADWELL]),
     (''i7-5700HQ'', [BROADWELL]),
     (''i7-5750HQ'', [BROADWELL]),
     (''i7-5850HQ'', [BROADWELL]),
     (''i7-5950HQ'', [BROADWELL]),
     (''i7-5650U'', [BROADWELL]),
     (''i7-5600U'', [BROADWELL]),
     (''i7-5500U'', [BROADWELL]),
     (''i7-5550U'', [BROADWELL]),
     (''i7-5557U'', [BROADWELL]),
     (''i5-5350H'', [BROADWELL]),
     (''i5-5300U'', [BROADWELL]),
     (''i5-5250U'', [BROADWELL]),
     (''i5-5257U'', [BROADWELL]),
     (''i5-5287U'', [BROADWELL]),
     (''i5-5350U'', [BROADWELL]),
     (''i5-5200U'', [BROADWELL]),
     (''i3-5015U'', [BROADWELL]),
     (''i3-5020U'', [BROADWELL]),
     (''i3-5005U'', [BROADWELL]),
     (''i3-5010U'', [BROADWELL]),
     (''i3-5157U'', [BROADWELL]),
     (''M-5Y51'', [BROADWELL]),
     (''M-5Y10c'', [BROADWELL]),
     (''M-5Y71'', [BROADWELL]),
     (''M-5Y31'', [BROADWELL]),
     (''M-5Y10'', [BROADWELL]),
     (''M-5Y70'', [BROADWELL]),
     (''M-5Y10a'', [BROADWELL]),
     (''3825U'', [BROADWELL]),
     (''3805U'', [BROADWELL]),
     (''3765U'', [BROADWELL]),
     (''3215U'', [BROADWELL]),
     (''3205U'', [BROADWELL]),
     (''3755U'', [BROADWELL]),
     (''Gold 5122'', [SKYLAKE]),
     (''Gold 6142'', [SKYLAKE]),
     (''Platinum 8153'', [SKYLAKE]),
     (''Gold 6138'', [SKYLAKE]),
     (''Platinum 8156'', [SKYLAKE]),
     (''Gold 6148'', [SKYLAKE]),
     (''Gold 5120T'', [SKYLAKE]),
     (''Platinum 8158'', [SKYLAKE]),
     (''Platinum 8176'', [SKYLAKE]),
     (''Gold 6136'', [SKYLAKE]),
     (''Gold 6150'', [SKYLAKE]),
     (''Platinum 8160'', [SKYLAKE]),
     (''Silver 4116'', [SKYLAKE]),
     (''Gold 6152'', [SKYLAKE]),
     (''Gold 6130'', [SKYLAKE]),
     (''Gold 6128'', [SKYLAKE]),
     (''Gold 5118'', [SKYLAKE]),
     (''Platinum 8164'', [SKYLAKE]),
     (''Gold 6134'', [SKYLAKE]),
     (''Gold 6126'', [SKYLAKE]),
     (''Gold 5120'', [SKYLAKE]),
     (''Platinum 8168'', [SKYLAKE]),
     (''Gold 5115'', [SKYLAKE]),
     (''Gold 6154'', [SKYLAKE]),
     (''Gold 6140'', [SKYLAKE]),
     (''Platinum 8170'', [SKYLAKE]),
     (''Platinum 8180'', [SKYLAKE]),
     (''Silver 4109T'', [SKYLAKE]),
     (''Bronze 3106'', [SKYLAKE]),
     (''Silver 4114'', [SKYLAKE]),
     (''Gold 6132'', [SKYLAKE]),
     (''Silver 4112'', [SKYLAKE]),
     (''Gold 6138T'', [SKYLAKE]),
     (''Platinum 8160T'', [SKYLAKE]),
     (''Silver 4108'', [SKYLAKE]),
     (''Gold 6142F'', [SKYLAKE]),
     (''Gold 6130T'', [SKYLAKE]),
     (''Gold 6138F'', [SKYLAKE]),
     (''Bronze 3104'', [SKYLAKE]),
     (''Platinum 8160F'', [SKYLAKE]),
     (''Silver 4110'', [SKYLAKE]),
     (''Gold 6130F'', [SKYLAKE]),
     (''Gold 6126T'', [SKYLAKE]),
     (''Gold 6126F'', [SKYLAKE]),
     (''Gold 6148F'', [SKYLAKE]),
     (''Gold 6146'', [SKYLAKE]),
     (''Gold 6144'', [SKYLAKE]),
     (''Platinum 8176F'', [SKYLAKE]),
     (''Silver 4116T'', [SKYLAKE])]"

definition intel_families_6 :: "COMPUTE_PROCESSOR_TYPES list obj" where
  "intel_families_6 =
    [(''Silver 4114T'', [SKYLAKE]),
     (''Gold 5119T'', [SKYLAKE]),
     (''Gold 6138P'', [SKYLAKE]),
     (''W-2133'', [SKYLAKE]),
     (''W-2155'', [SKYLAKE]),
     (''W-2123'', [SKYLAKE]),
     (''W-2145'', [SKYLAKE]),
     (''W-2125'', [SKYLAKE]),
     (''W-2135'', [SKYLAKE]),
     (''W-2195'', [SKYLAKE]),
     (''W-2175'', [SKYLAKE]),
     (''D-2141I'', [SKYLAKE]),
     (''D-2177NT'', [SKYLAKE]),
     (''D-2161I'', [SKYLAKE]),
     (''D-2143IT'', [SKYLAKE]),
     (''D-2146NT'', [SKYLAKE]),
     (''D-2145NT'', [SKYLAKE]),
     (''D-2123IT'', [SKYLAKE]),
     (''D-2173IT'', [SKYLAKE]),
     (''D-2187NT'', [SKYLAKE]),
     (''D-2142IT'', [SKYLAKE]),
     (''D-2163IT'', [SKYLAKE]),
     (''D-2183IT'', [SKYLAKE]),
     (''D-2166NT'', [SKYLAKE]),
     (''E3-1240L v5'', [SKYLAKE]),
     (''E3-1235L v5'', [SKYLAKE]),
     (''E3-1280 v5'', [SKYLAKE]),
     (''E3-1220 v5'', [SKYLAKE]),
     (''E3-1230 v5'', [SKYLAKE]),
     (''E3-1245 v5'', [SKYLAKE]),
     (''E3-1270 v5'', [SKYLAKE]),
     (''E3-1225 v5'', [SKYLAKE]),
     (''E3-1260L v5'', [SKYLAKE]),
     (''E3-1240 v5'', [SKYLAKE]),
     (''E3-1275 v5'', [SKYLAKE]),
     (''E3-1565L v5'', [SKYLAKE]),
     (''E3-1585L v5'', [SKYLAKE]),
     (''E3-1585 v5'', [SKYLAKE]),
     (''C232'', [SKYLAKE]),
     (''C236'', [SKYLAKE]),
     (''2191B'', [SKYLAKE]),
     (''W-3175X'', [SKYLAKE]),
     (''i9-9920X'', [SKYLAKE]),
     (''i9-9980XE'', [SKYLAKE]),
     (''i9-9940X'', [SKYLAKE]),
     (''i9-9900X'', [SKYLAKE]),
     (''i9-9960X'', [SKYLAKE]),
     (''i7-9800X'', [SKYLAKE]),
     (''i9-9820X'', [SKYLAKE]),
     (''i9-7940X'', [SKYLAKE]),
     (''i9-7980XE'', [SKYLAKE]),
     (''i9-7960X'', [SKYLAKE]),
     (''i9-7920X'', [SKYLAKE]),
     (''i7-7800X'', [SKYLAKE]),
     (''i9-7900X'', [SKYLAKE]),
     (''i7-7820X'', [SKYLAKE]),
     (''i7-6785R'', [SKYLAKE]),
     (''i7-6700'', [SKYLAKE]),
     (''i7-6700T'', [SKYLAKE]),
     (''i7-6700K'', [SKYLAKE]),
     (''i5-6685R'', [SKYLAKE]),
     (''i5-6585R'', [SKYLAKE]),
     (''i5-6402P'', [SKYLAKE]),
     (''i5-6500T'', [SKYLAKE]),
     (''i5-6500'', [SKYLAKE]),
     (''i5-6400'', [SKYLAKE]),
     (''i5-6400T'', [SKYLAKE]),
     (''i5-6600'', [SKYLAKE]),
     (''i5-6600T'', [SKYLAKE]),
     (''i5-6600K'', [SKYLAKE]),
     (''i3-6098P'', [SKYLAKE]),
     (''i3-6300'', [SKYLAKE]),
     (''i3-6320'', [SKYLAKE]),
     (''i3-6100T'', [SKYLAKE]),
     (''i3-6100'', [SKYLAKE]),
     (''i3-6300T'', [SKYLAKE]),
     (''E3-1545M'', [SKYLAKE]),
     (''E3-1515M'', [SKYLAKE]),
     (''E3-1575M'', [SKYLAKE]),
     (''E3-1535M'', [SKYLAKE]),
     (''E3-1505M'', [SKYLAKE]),
     (''i7-6660U'', [SKYLAKE]),
     (''i7-6970HQ'', [SKYLAKE]),
     (''i7-6770HQ'', [SKYLAKE]),
     (''i7-6870HQ'', [SKYLAKE]),
     (''i7-6820HQ'', [SKYLAKE]),
     (''i7-6560U'', [SKYLAKE]),
     (''i7-6650U'', [SKYLAKE]),
     (''i7-6500U'', [SKYLAKE]),
     (''i7-6600U'', [SKYLAKE]),
     (''i7-6820HK'', [SKYLAKE]),
     (''i7-6700HQ'', [SKYLAKE]),
     (''i7-6920HQ'', [SKYLAKE]),
     (''i7-6567U'', [SKYLAKE]),
     (''i5-6350HQ'', [SKYLAKE]),
     (''i5-6360U'', [SKYLAKE]),
     (''i5-6260U'', [SKYLAKE]),
     (''i5-6287U'', [SKYLAKE]),
     (''i5-6267U'', [SKYLAKE]),
     (''i5-6200U'', [SKYLAKE]),
     (''i5-6300U'', [SKYLAKE]),
     (''i5-6440HQ'', [SKYLAKE]),
     (''i5-6300HQ'', [SKYLAKE]),
     (''i3-6006U'', [SKYLAKE]),
     (''i3-6157U'', [SKYLAKE]),
     (''i3-6167U'', [SKYLAKE]),
     (''i3-6100U'', [SKYLAKE]),
     (''i3-6100H'', [SKYLAKE]),
     (''m3-6Y30'', [SKYLAKE]),
     (''m5-6Y57'', [SKYLAKE]),
     (''m7-6Y75'', [SKYLAKE]),
     (''m5-6Y54'', [SKYLAKE]),
     (''4405Y'', [SKYLAKE]),
     (''4405U'', [SKYLAKE]),
     (''3955U'', [SKYLAKE]),
     (''3855U'', [SKYLAKE]),
     (''2170B'', [SKYLAKE]),
     (''8171M'', [SKYLAKE]),
     (''Gold 6244'', [CASCADE_LAKE]),
     (''Gold 6212U'', [CASCADE_LAKE]),
     (''Gold 6240'', [CASCADE_LAKE]),
     (''Gold 5218'', [CASCADE_LAKE]),
     (''Platinum 8253'', [CASCADE_LAKE]),
     (''Gold 6230'', [CASCADE_LAKE]),
     (''Gold 5222'', [CASCADE_LAKE]),
     (''Gold 6238T'', [CASCADE_LAKE]),
     (''Gold 6248'', [CASCADE_LAKE]),
     (''Platinum 8256'', [CASCADE_LAKE]),
     (''Gold 6252'', [CASCADE_LAKE]),
     (''Platinum 8260'', [CASCADE_LAKE]),
     (''Gold 6242'', [CASCADE_LAKE]),
     (''Platinum 8276'', [CASCADE_LAKE]),
     (''Gold 6240Y'', [CASCADE_LAKE]),
     (''Platinum 8276L'', [CASCADE_LAKE]),
     (''Silver 4209T'', [CASCADE_LAKE]),
     (''Platinum 8280L'', [CASCADE_LAKE]),
     (''Gold 5217'', [CASCADE_LAKE]),
     (''Silver 4210'', [CASCADE_LAKE]),
     (''Platinum 8260L'', [CASCADE_LAKE]),
     (''Gold 5218N'', [CASCADE_LAKE]),
     (''Gold 6230N'', [CASCADE_LAKE]),
     (''Silver 4214'', [CASCADE_LAKE]),
     (''Gold 6226'', [CASCADE_LAKE]),
     (''Gold 6254'', [CASCADE_LAKE]),
     (''Silver 4214Y'', [CASCADE_LAKE]),
     (''Gold 5220'', [CASCADE_LAKE]),
     (''Platinum 8280'', [CASCADE_LAKE]),
     (''Gold 6238L'', [CASCADE_LAKE])]"

definition intel_families_7 :: "COMPUTE_PROCESSOR_TYPES list obj" where
  "intel_families_7 =
    [(''Platinum 8260Y'', [CASCADE_LAKE]),
     (''Gold 5218B'', [CASCADE_LAKE]),
     (''Silver 4215'', [CASCADE_LAKE]),
     (''Gold 6240L'', [CASCADE_LAKE]),
     (''Gold 6238'', [CASCADE_LAKE]),
     (''Platinum 8268'', [CASCADE_LAKE]),
     (''Silver 4208'', [CASCADE_LAKE]),
     (''Gold 5220S'', [CASCADE_LAKE]),
     (''Platinum 8270'', [CASCADE_LAKE]),
     (''Gold 5215'', [CASCADE_LAKE]),
     (''Gold 6222V'', [CASCADE_LAKE]),
     (''Gold 6252N'', [CASCADE_LAKE]),
     (''Gold 6230T'', [CASCADE_LAKE]),
     (''Gold 6246'', [CASCADE_LAKE]),
     (''Gold 5215L'', [CASCADE_LAKE]),
     (''Bronze 3204'', [CASCADE_LAKE]),
     (''Gold 5218T'', [CASCADE_LAKE]),
     (''Gold 5220T'', [CASCADE_LAKE]),
     (''Silver 4216'', [CASCADE_LAKE]),
     (''Gold 6234'', [CASCADE_LAKE]),
     (''Gold 6209U'', [CASCADE_LAKE]),
     (''Gold 6262V'', [CASCADE_LAKE]),
     (''Platinum 9242'', [CASCADE_LAKE]),
     (''Platinum 9282'', [CASCADE_LAKE]),
     (''Platinum 9221'', [CASCADE_LAKE]),
     (''Platinum 9222'', [CASCADE_LAKE]),
     (''Silver 4210R'', [CASCADE_LAKE]),
     (''Silver 4214R'', [CASCADE_LAKE]),
     (''Bronze 3206R'', [CASCADE_LAKE]),
     (''Gold 6246R'', [CASCADE_LAKE]),
     (''Gold 6240R'', [CASCADE_LAKE]),
     (''Gold 5220R'', [CASCADE_LAKE]),
     (''Silver 4210T'', [CASCADE_LAKE]),
     (''Gold 6238R'', [CASCADE_LAKE]),
     (''Gold 6230R'', [CASCADE_LAKE]),
     (''Gold 6226R'', [CASCADE_LAKE]),
     (''Gold 6250'', [CASCADE_LAKE]),
     (''Gold 6208U'', [CASCADE_LAKE]),
     (''Gold 6256'', [CASCADE_LAKE]),
     (''Silver 4215R'', [CASCADE_LAKE]),
     (''Gold 5218R'', [CASCADE_LAKE]),
     (''Gold 6258R'', [CASCADE_LAKE]),
     (''Gold 6248R'', [CASCADE_LAKE]),
     (''Gold 6242R'', [CASCADE_LAKE]),
     (''8259CL'', [CASCADE_LAKE]),
     (''Gold 6250L'', [CASCADE_LAKE]),
     (''i9-10920X'', [CASCADE_LAKE]),
     (''i9-10940X'', [CASCADE_LAKE]),
     (''i9-10980XE'', [CASCADE_LAKE]),
     (''i9-10900X'', [CASCADE_LAKE]),
     (''3235'', [CASCADE_LAKE]),
     (''W-2275'', [CASCADE_LAKE]),
     (''W-2295'', [CASCADE_LAKE]),
     (''W-2265'', [CASCADE_LAKE]),
     (''W-2255'', [CASCADE_LAKE]),
     (''W-2223'', [CASCADE_LAKE]),
     (''W-2235'', [CASCADE_LAKE]),
     (''W-2245'', [CASCADE_LAKE]),
     (''W-2225'', [CASCADE_LAKE]),
     (''W-3245'', [CASCADE_LAKE]),
     (''W-3275'', [CASCADE_LAKE]),
     (''W-3245M'', [CASCADE_LAKE]),
     (''W-3265M'', [CASCADE_LAKE]),
     (''W-3235'', [CASCADE_LAKE]),
     (''W-3225'', [CASCADE_LAKE]),
     (''W-3265'', [CASCADE_LAKE]),
     (''W-3223'', [CASCADE_LAKE]),
     (''W-3275M'', [CASCADE_LAKE]),
     (''8275CL'', [CASCADE_LAKE]),
     (''8370C'', [CASCADE_LAKE]),
     (''E-2124G'', [COFFEE_LAKE]),
     (''E-2146G'', [COFFEE_LAKE]),
     (''E-2176G'', [COFFEE_LAKE]),
     (''E-2136'', [COFFEE_LAKE]),
     (''E-2134'', [COFFEE_LAKE]),
     (''E-2144G'', [COFFEE_LAKE]),
     (''E-2174G'', [COFFEE_LAKE]),
     (''E-2186G'', [COFFEE_LAKE]),
     (''E-2126G'', [COFFEE_LAKE]),
     (''E-2124'', [COFFEE_LAKE]),
     (''E-2226G'', [COFFEE_LAKE]),
     (''E-2234'', [COFFEE_LAKE]),
     (''E-2236'', [COFFEE_LAKE]),
     (''E-2244G'', [COFFEE_LAKE]),
     (''E-2274G'', [COFFEE_LAKE]),
     (''E-2246G'', [COFFEE_LAKE]),
     (''E-2224'', [COFFEE_LAKE]),
     (''E-2224G'', [COFFEE_LAKE]),
     (''E-2288G'', [COFFEE_LAKE]),
     (''E-2278G'', [COFFEE_LAKE]),
     (''E-2286G'', [COFFEE_LAKE]),
     (''E-2276G'', [COFFEE_LAKE]),
     (''i9-9900KS'', [COFFEE_LAKE]),
     (''i9-9900T'', [COFFEE_LAKE]),
     (''i9-9900'', [COFFEE_LAKE]),
     (''i9-9900KF'', [COFFEE_LAKE]),
     (''i9-9900K'', [COFFEE_LAKE]),
     (''i7-9700T'', [COFFEE_LAKE]),
     (''i7-9700F'', [COFFEE_LAKE]),
     (''i7-9700'', [COFFEE_LAKE]),
     (''i7-9700KF'', [COFFEE_LAKE]),
     (''i7-9700K'', [COFFEE_LAKE]),
     (''i7-8086K'', [COFFEE_LAKE]),
     (''i7-8700T'', [COFFEE_LAKE]),
     (''i7+8700'', [COFFEE_LAKE]),
     (''i7-8700K'', [COFFEE_LAKE]),
     (''i7-8700'', [COFFEE_LAKE]),
     (''i5-9500T'', [COFFEE_LAKE]),
     (''i5-9600T'', [COFFEE_LAKE]),
     (''i5-9500F'', [COFFEE_LAKE]),
     (''i5-9600'', [COFFEE_LAKE]),
     (''i5-9500'', [COFFEE_LAKE]),
     (''i5-9400T'', [COFFEE_LAKE]),
     (''i5-9400'', [COFFEE_LAKE]),
     (''i5-9400F'', [COFFEE_LAKE]),
     (''i5-9600KF'', [COFFEE_LAKE]),
     (''i5-9600K'', [COFFEE_LAKE]),
     (''i5+8500'', [COFFEE_LAKE]),
     (''i5+8400'', [COFFEE_LAKE]),
     (''i5-8500T'', [COFFEE_LAKE]),
     (''i5-8400T'', [COFFEE_LAKE]),
     (''i5-8500'', [COFFEE_LAKE]),
     (''i5-8600T'', [COFFEE_LAKE]),
     (''i5-8600'', [COFFEE_LAKE]),
     (''i5-8600K'', [COFFEE_LAKE]),
     (''i5-8400'', [COFFEE_LAKE]),
     (''i3-9350K'', [COFFEE_LAKE]),
     (''i3-9100F'', [COFFEE_LAKE]),
     (''i3-9100'', [COFFEE_LAKE]),
     (''i3-9100T'', [COFFEE_LAKE]),
     (''i3-9300T'', [COFFEE_LAKE]),
     (''i3-9300'', [COFFEE_LAKE]),
     (''i3-9320'', [COFFEE_LAKE]),
     (''i3-9350KF'', [COFFEE_LAKE]),
     (''i3-8100T'', [COFFEE_LAKE]),
     (''i3-8300T'', [COFFEE_LAKE]),
     (''i3-8300'', [COFFEE_LAKE]),
     (''i3-8100'', [COFFEE_LAKE]),
     (''i3-8350K'', [COFFEE_LAKE]),
     (''G5600T'', [COFFEE_LAKE]),
     (''G5420T'', [COFFEE_LAKE]),
     (''G5420'', [COFFEE_LAKE]),
     (''G5620'', [COFFEE_LAKE]),
     (''G5600'', [COFFEE_LAKE]),
     (''G5400'', [COFFEE_LAKE]),
     (''G5400T'', [COFFEE_LAKE]),
     (''G5500T'', [COFFEE_LAKE]),
     (''G5500'', [COFFEE_LAKE])]"

definition intel_families_8 :: "COMPUTE_PROCESSOR_TYPES list obj" where
  "intel_families_8 =
    [(''G4930T'', [COFFEE_LAKE]),
     (''G4950'', [COFFEE_LAKE]),
     (''G4930'', [COFFEE_LAKE]),
     (''G4900T'', [COFFEE_LAKE]),
     (''G4920'', [COFFEE_LAKE]),
     (''G4900'', [COFFEE_LAKE]),
     (''E-2286M'', [COFFEE_LAKE]),
     (''E-2276M'', [COFFEE_LAKE]),
     (''E-2186M'', [COFFEE_LAKE]),
     (''E-2176M'', [COFFEE_LAKE]),
     (''i9-9880H'', [COFFEE_LAKE]),
     (''i9-9980HK'', [COFFEE_LAKE]),
     (''i9-8950HK'', [COFFEE_LAKE]),
     (''i7-9850H'', [COFFEE_LAKE]),
     (''i7-9750HF'', [COFFEE_LAKE]),
     (''i7-9750H'', [COFFEE_LAKE]),
     (''i7-8557U'', [COFFEE_LAKE]),
     (''i7-8569U'', [COFFEE_LAKE]),
     (''i7-8559U'', [COFFEE_LAKE]),
     (''i7-8750H'', [COFFEE_LAKE]),
     (''i7-8700B'', [COFFEE_LAKE]),
     (''i7-8850H'', [COFFEE_LAKE]),
     (''i5-9400H'', [COFFEE_LAKE]),
     (''i5-9300H'', [COFFEE_LAKE]),
     (''i5-9300HF'', [COFFEE_LAKE]),
     (''i5-8260U'', [COFFEE_LAKE]),
     (''i5-8257U'', [COFFEE_LAKE]),
     (''i5-8279U'', [COFFEE_LAKE]),
     (''i5-8269U'', [COFFEE_LAKE]),
     (''i5-8259U'', [COFFEE_LAKE]),
     (''i5-8500B'', [COFFEE_LAKE]),
     (''i5-8400B'', [COFFEE_LAKE]),
     (''i5-8400H'', [COFFEE_LAKE]),
     (''i5-8300H'', [COFFEE_LAKE]),
     (''i3-8140U'', [COFFEE_LAKE]),
     (''i3-8100B'', [COFFEE_LAKE]),
     (''i3-8100H'', [COFFEE_LAKE]),
     (''i3-8109U'', [COFFEE_LAKE]),
     (''QM370'', [COFFEE_LAKE]),
     (''HM370'', [COFFEE_LAKE]),
     (''CM246'', [COFFEE_LAKE])]"

definition INTEL_COMPUTE_PROCESSOR_FAMILY_MAPPING :: "COMPUTE_PROCESSOR_TYPES list obj" where
  "INTEL_COMPUTE_PROCESSOR_FAMILY_MAPPING =
     intel_families_1 @
     intel_families_2 @
     intel_families_3 @
     intel_families_4 @
     intel_families_5 @
     intel_families_6 @
     intel_families_7 @
     intel_families_8"

definition AMD_COMPUTE_PROCESSOR_FAMILY_MAPPING :: "COMPUTE_PROCESSOR_TYPES list obj" where
  "AMD_COMPUTE_PROCESSOR_FAMILY_MAPPING =
    [(''7601'', [AMD_EPYC_1ST_GEN]),
     (''7551P'', [AMD_EPYC_1ST_GEN]),
     (''7551'', [AMD_EPYC_1ST_GEN]),
     (''7501'', [AMD_EPYC_1ST_GEN]),
     (''7451'', [AMD_EPYC_1ST_GEN]),
     (''7401P'', [AMD_EPYC_1ST_GEN]),
     (''7401'', [AMD_EPYC_1ST_GEN]),
     (''7371'', [AMD_EPYC_1ST_GEN]),
     (''7351P'', [AMD_EPYC_1ST_GEN]),
     (''7351'', [AMD_EPYC_1ST_GEN]),
     (''7301'', [AMD_EPYC_1ST_GEN]),
     (''7281'', [AMD_EPYC_1ST_GEN]),
     (''7261'', [AMD_EPYC_1ST_GEN]),
     (''7251'', [AMD_EPYC_1ST_GEN]),
     (''7F72'', [AMD_EPYC_2ND_GEN]),
     (''7F52'', [AMD_EPYC_2ND_GEN]),
     (''7F32'', [AMD_EPYC_2ND_GEN]),
     (''7H12'', [AMD_EPYC_2ND_GEN]),
     (''7742'', [AMD_EPYC_2ND_GEN]),
     (''7702'', [AMD_EPYC_2ND_GEN]),
     (''7702P'', [AMD_EPYC_2ND_GEN]),
     (''7662'', [AMD_EPYC_2ND_GEN]),
     (''7642'', [AMD_EPYC_2ND_GEN]),
     (''7552'', [AMD_EPYC_2ND_GEN]),
     (''7542'', [AMD_EPYC_2ND_GEN]),
     (''7532'', [AMD_EPYC_2ND_GEN]),
     (''7502'', [AMD_EPYC_2ND_GEN]),
     (''7502P'', [AMD_EPYC_2ND_GEN]),
     (''7452'', [AMD_EPYC_2ND_GEN]),
     (''7402'', [AMD_EPYC_2ND_GEN]),
     (''7402P'', [AMD_EPYC_2ND_GEN]),
     (''7352'', [AMD_EPYC_2ND_GEN]),
     (''7302'', [AMD_EPYC_2ND_GEN]),
     (''7302P'', [AMD_EPYC_2ND_GEN]),
     (''7282'', [AMD_EPYC_2ND_GEN]),
     (''7272'', [AMD_EPYC_2ND_GEN]),
     (''7262'', [AMD_EPYC_2ND_GEN]),
     (''7252'', [AMD_EPYC_2ND_GEN]),
     (''7232P'', [AMD_EPYC_2ND_GEN]),
     (''7763'', [AMD_EPYC_3RD_GEN]),
     (''7713P'', [AMD_EPYC_3RD_GEN]),
     (''7713'', [AMD_EPYC_3RD_GEN]),
     (''7663'', [AMD_EPYC_3RD_GEN]),
     (''7643'', [AMD_EPYC_3RD_GEN]),
     (''75F3'', [AMD_EPYC_3RD_GEN]),
     (''7543P'', [AMD_EPYC_3RD_GEN]),
     (''7543'', [AMD_EPYC_3RD_GEN]),
     (''7513'', [AMD_EPYC_3RD_GEN]),
     (''7453'', [AMD_EPYC_3RD_GEN]),
     (''74F3'', [AMD_EPYC_3RD_GEN]),
     (''7443P'', [AMD_EPYC_3RD_GEN]),
     (''7443'', [AMD_EPYC_3RD_GEN]),
     (''7413'', [AMD_EPYC_3RD_GEN]),
     (''73F3'', [AMD_EPYC_3RD_GEN]),
     (''7343'', [AMD_EPYC_3RD_GEN]),
     (''7313P'', [AMD_EPYC_3RD_GEN]),
     (''7313'', [AMD_EPYC_3RD_GEN]),
     (''72F3'', [AMD_EPYC_3RD_GEN])]"

section \<open>Constants\<close>

definition on_premise_MEMORY_AVG :: jsnum where
  "on_premise_MEMORY_AVG = Fin 331.7121348"

definition on_premise_MIN_WATTS_AVG :: jsnum where
  "on_premise_MIN_WATTS_AVG = Fin 65.81111111"

definition on_premise_MAX_WATTS_AVG :: jsnum where
  "on_premise_MAX_WATTS_AVG = Fin 367.1444444"

definition on_premise_MEMORY_COEFFICIENT :: jsnum where
  "on_premise_MEMORY_COEFFICIENT = Fin 0.000392"

definition on_premise_PUE_AVG :: jsnum where
  "on_premise_PUE_AVG = Fin 1.58"

definition on_premise_AVG_CPU_UTILIZATION_2020 :: jsnum where
  "on_premise_AVG_CPU_UTILIZATION_2020 = Fin 50"

definition on_premise_memory_by_processor :: "COMPUTE_PROCESSOR_TYPES \<Rightarrow> jsnum option" where
  "on_premise_memory_by_processor p =
    map_option Fin (map_of
    [(CASCADE_LAKE, 797.971831),
     (SKYLAKE, 745.1358025),
     (BROADWELL, 764.2352941),
     (HASWELL, 80.38095238),
     (COFFEE_LAKE, 19.55555556),
     (SANDY_BRIDGE, 65.952),
     (IVY_BRIDGE, 45.33333333),
     (AMD_EPYC_1ST_GEN, 166.4),
     (AMD_EPYC_2ND_GEN, 300.4444444)] p)"

definition on_premise_min_watts_by_processor :: "COMPUTE_PROCESSOR_TYPES \<Rightarrow> jsnum option" where
  "on_premise_min_watts_by_processor p =
    map_option Fin (map_of
    [(CASCADE_LAKE, 120),
     (SKYLAKE, 88.9),
     (BROADWELL, 46.6),
     (HASWELL, 46.9),
     (COFFEE_LAKE, 15.9),
     (SANDY_BRIDGE, 57.5),
     (IVY_BRIDGE, 41.5),
     (AMD_EPYC_1ST_GEN, 91.6),
     (AMD_EPYC_2ND_GEN, 83.4)] p)"

definition on_premise_max_watts_by_processor :: "COMPUTE_PROCESSOR_TYPES \<Rightarrow> jsnum option" where
  "on_premise_max_watts_by_processor p =
    map_option Fin (map_of
    [(CASCADE_LAKE, 919),
     (SKYLAKE, 733),
     (BROADWELL, 272),
     (HASWELL, 272),
     (COFFEE_LAKE, 71.7),
     (SANDY_BRIDGE, 257),
     (IVY_BRIDGE, 89.6),
     (AMD_EPYC_1ST_GEN, 295.5),
     (AMD_EPYC_2ND_GEN, 394.5)] p)"

text \<open>\<open>x ? x : d\<close> on a number that may be \<open>undefined\<close> is \<open>or_num x d\<close>.\<close>

definition on_premise_getMemory :: "COMPUTE_PROCESSOR_TYPES list \<Rightarrow> jsnum" where
  "on_premise_getMemory computeProcessors =
     or_num (getAverage (map on_premise_memory_by_processor computeProcessors)) on_premise_MEMORY_AVG"

definition on_premise_getMinWatts ::
    "(jsnum option list \<Rightarrow> jsnum) \<Rightarrow> COMPUTE_PROCESSOR_TYPES list \<Rightarrow> jsnum" where
  "on_premise_getMinWatts median computeProcessors =
     or_num (getWattsByAverageOrMedian median computeProcessors
               (map on_premise_min_watts_by_processor computeProcessors)) on_premise_MIN_WATTS_AVG"

definition on_premise_getMaxWatts ::
    "(jsnum option list \<Rightarrow> jsnum) \<Rightarrow> COMPUTE_PROCESSOR_TYPES list \<Rightarrow> jsnum" where
  "on_premise_getMaxWatts median computeProcessors =
     or_num (getWattsByAverageOrMedian median computeProcessors
               (map on_premise_max_watts_by_processor computeProcessors)) on_premise_MAX_WATTS_AVG"

definition on_premise_getPUE :: jsnum where
  "on_premise_getPUE = on_premise_PUE_AVG"

definition ON_PREMISE_EMISSIONS_FACTORS_METRIC_TON_PER_KWH :: emissions_factors where
  "ON_PREMISE_EMISSIONS_FACTORS_METRIC_TON_PER_KWH =
    [(''Australia'', Fin 0.00096),
     (''Canada'', Fin 0.0000186),
     (''Finland'', Fin 0.00009532),
     (''France'', Fin 0.00005128),
     (''Germany'', Fin 0.00033866),
     (''India'', Fin 0.0007082),
     (''Ireland'', Fin 0.00033599),
     (''Israel'', Fin 0.00046095),
     (''Italy'', Fin 0.00032384),
     (''Malaysia'', Fin 0.000408),
     (''Poland'', Fin 0.00075962),
     (''Romania'', Fin 0.00026184),
     (''South Korea'', Fin 0.0004156),
     (''Spain'', Fin 0.00017103),
     (''Sweden'', Fin 0.00000567),
     (''Switzerland'', Fin 0.00001152),
     (''United Kingdom'', Fin 0.00021233),
     (''United States'', Fin 0.00042394),
     (''United States-California'', Fin 0.00017562),
     (''United States-Virginia'', Fin 0.00028842),
     (''United States-Louisiana'', Fin 0.00037481),
     (''United States-Florida'', Fin 0.00039793),
     (''United States-Illinois'', Fin 0.00032921),
     (''United States-Texas'', Fin 0.00041432),
     (''United States-Washington'', Fin 0.00013567),
     (''United States-Ohio'', Fin 0.00056357),
     (''United States-Oregon'', Fin 0.00017562),
     (''Unknown'', Fin 0.0003228315385)]"

end
