(* ===== verification/On_Premise_Report.thy ===== *)
theory On_Premise_Report
  imports On_Premise_Machines Core_Estimators Js_Effects
begin

text \<open>
  The on-premise package (\<open>packages/on-premise/src\<close>): a row of input data with the family of its
  processor (\<open>lib/OnPremiseDataReportRow.ts\<close>) and the estimates of the four periods of a row
  (\<open>lib/OnPremiseDataReport.ts\<close>). Every field of the input may be missing.
\<close>

record OnPremiseDataInput =
  oi_startTime :: "date option"
  oi_endTime :: "date option"
  oi_cpuDescription :: "string option"
  oi_machineName :: "string option"
  oi_memory :: "jsnum option"
  oi_machineType :: "string option"
  oi_country :: "string option"
  oi_region :: "string option"
  oi_cpuUtilization :: "jsnum option"
  oi_powerUsageEffectiveness :: "jsnum option"
  oi_cost :: "jsnum option"
  oi_dailyUptime :: "jsnum option"
  oi_weeklyUptime :: "jsnum option"
  oi_monthlyUptime :: "jsnum option"
  oi_annualUptime :: "jsnum option"

record OnPremiseDataOutput = OnPremiseDataInput +
  oo_dailyKilowattHours :: jsnum
  oo_dailyCo2e :: jsnum
  oo_weeklyKilowattHours :: jsnum
  oo_weeklyCo2e :: jsnum
  oo_monthlyKilowattHours :: jsnum
  oo_monthlyCo2e :: jsnum
  oo_annualKilowattHours :: jsnum
  oo_annualCo2e :: jsnum

section \<open>The row\<close>

record OnPremiseDataReportRow =
  or_memory :: "jsnum option"
  or_machineType :: "string option"
  or_processorFamilies :: "COMPUTE_PROCESSOR_TYPES list"
  or_region :: "string option"
  or_cpuUtilization :: "jsnum option"
  or_powerUsageEffectiveness :: "jsnum option"
  or_upTime :: "jsnum option obj"

text \<open>The name of the processor in a description, \<open>undefined\<close> when it is of neither maker.\<close>

definition processor_of_description :: "string \<Rightarrow> string option" where
  "processor_of_description cpuDescription =
     (if str_includes cpuDescription ''Intel'' then
        (let replaced = replace_first cpuDescription ''Intel(R) '' [];
             part = str_substring replaced (index_of replaced '')'' + 2) (last_index_of replaced '' @'')
         in Some (trim (join [] (split part ''CPU''))))
      else if str_includes cpuDescription ''AMD'' then elem_at (split cpuDescription '' '') 2
      else None)"

definition getProcessorFamilyFromCpuDescription :: "string \<Rightarrow> COMPUTE_PROCESSOR_TYPES list" where
  "getProcessorFamilyFromCpuDescription cpuDescription =
     (case Option.bind (processor_of_description cpuDescription)
             (obj_get INTEL_COMPUTE_PROCESSOR_FAMILY_MAPPING) of
        Some families \<Rightarrow> families
      | None \<Rightarrow>
          (case Option.bind (processor_of_description cpuDescription)
                  (obj_get AMD_COMPUTE_PROCESSOR_FAMILY_MAPPING) of
             Some families \<Rightarrow> families
           | None \<Rightarrow> []))"

definition on_premise_getRegionData :: "string option \<Rightarrow> string option \<Rightarrow> string option" where
  "on_premise_getRegionData country region =
     (case region of
        None \<Rightarrow> country
      | Some r \<Rightarrow>
          if r \<noteq> [] \<and> country = Some ''United States'' then Some (the country @ ''-'' @ r) else country)"

definition new_OnPremiseDataReportRow :: "OnPremiseDataInput \<Rightarrow> OnPremiseDataReportRow result" where
  "new_OnPremiseDataReportRow usageData =
     (case oi_cpuDescription usageData of
        None \<Rightarrow> Inl TypeError
      | Some cpuDescription \<Rightarrow>
          Inr \<lparr>or_memory = oi_memory usageData,
               or_machineType = oi_machineType usageData,
               or_processorFamilies = getProcessorFamilyFromCpuDescription cpuDescription,
               or_region = on_premise_getRegionData (oi_country usageData) (oi_region usageData),
               or_cpuUtilization = oi_cpuUtilization usageData,
               or_powerUsageEffectiveness = oi_powerUsageEffectiveness usageData,
               or_upTime = [(''daily'', oi_dailyUptime usageData), (''weekly'', oi_weeklyUptime usageData),
                            (''monthly'', oi_monthlyUptime usageData), (''annual'', oi_annualUptime usageData)]\<rparr>)"

section \<open>The estimates\<close>

text \<open>The coefficients of the configuration for servers, laptops and desktops.\<close>

record machine_coefficients =
  mc_cpuUtilization :: "jsnum option"
  mc_averageWatts :: "jsnum option"

record on_premise_env =
  oe_server :: machine_coefficients
  oe_laptop :: machine_coefficients
  oe_desktop :: machine_coefficients
  oe_median :: "jsnum option list \<Rightarrow> jsnum"

definition truthy_or :: "jsnum option \<Rightarrow> jsnum option \<Rightarrow> jsnum option" where
  "truthy_or v d = (if truthy_opt v then v else d)"

definition getConfigurableCoefficients ::
    "on_premise_env \<Rightarrow> string option \<Rightarrow> jsnum option \<Rightarrow> jsnum \<times> jsnum option" where
  "getConfigurableCoefficients E machineType cpuUtilization =
     (let configured = or_num cpuUtilization on_premise_AVG_CPU_UTILIZATION_2020;
          by_type = (\<lambda>c. (or_num (mc_cpuUtilization c) configured, truthy_or (mc_averageWatts c) None))
      in if machineType = Some machine_SERVER then by_type (oe_server E)
         else if machineType = Some machine_LAPTOP then by_type (oe_laptop E)
         else if machineType = Some machine_DESKTOP then by_type (oe_desktop E)
         else (configured, None))"

definition getGigabyteHours ::
    "jsnum option \<Rightarrow> jsnum option \<Rightarrow> COMPUTE_PROCESSOR_TYPES list \<Rightarrow> jsnum" where
  "getGigabyteHours upTime calculatedMemory processorFamilies =
     max_num 0 (toNum calculatedMemory - on_premise_getMemory processorFamilies) * toNum upTime"

text \<open>Indexing the factors with a region that is \<open>undefined\<close> reads the key \<open>undefined\<close>.\<close>

definition region_key :: "string option \<Rightarrow> string" where
  "region_key region = (case region of Some r \<Rightarrow> r | None \<Rightarrow> ''undefined'')"

definition on_premise_getComputeFootprintEstimate ::
    "on_premise_env \<Rightarrow> OnPremiseDataReportRow \<Rightarrow> jsnum \<Rightarrow> emissions_factors \<Rightarrow> jsnum option \<Rightarrow> FootprintEstimate" where
  "on_premise_getComputeFootprintEstimate E row powerUsageEffectiveness emissionsFactors upTime =
     (let (configuredCpuUtilization, averageWatts) =
            getConfigurableCoefficients E (or_machineType row) (or_cpuUtilization row)
      in hd (ComputeEstimator_estimate
               [\<lparr>cu_timestamp = None, cu_cpuUtilizationAverage = configuredCpuUtilization,
                 cu_vCpuHours = toNum upTime, cu_usesAverageCPUConstant = True\<rparr>]
               (region_key (or_region row)) emissionsFactors
               (no_constants
                  \<lparr>cc_minWatts := Some (on_premise_getMinWatts (oe_median E) (or_processorFamilies row)),
                   cc_maxWatts := Some (on_premise_getMaxWatts (oe_median E) (or_processorFamilies row)),
                   cc_averageWatts := averageWatts,
                   cc_powerUsageEffectiveness := Some powerUsageEffectiveness\<rparr>)))"

definition on_premise_getMemoryFootprintEstimate ::
    "OnPremiseDataReportRow \<Rightarrow> jsnum \<Rightarrow> emissions_factors \<Rightarrow> jsnum option \<Rightarrow> FootprintEstimate" where
  "on_premise_getMemoryFootprintEstimate row powerUsageEffectiveness emissionsFactors upTime =
     hd (MemoryEstimator_estimate on_premise_MEMORY_COEFFICIENT
           [\<lparr>mu_timestamp = None,
             mu_gigabyteHours = getGigabyteHours upTime (or_memory row) (or_processorFamilies row)\<rparr>]
           (region_key (or_region row)) emissionsFactors
           (no_constants\<lparr>cc_powerUsageEffectiveness := Some powerUsageEffectiveness\<rparr>))"

text \<open>The kilowatt hours and the emissions.\<close>

definition on_premise_getFootprintEstimate ::
    "on_premise_env \<Rightarrow> OnPremiseDataReportRow \<Rightarrow> jsnum option \<Rightarrow> jsnum \<times> jsnum" where
  "on_premise_getFootprintEstimate E row upTime =
     (let emissionsFactors = ON_PREMISE_EMISSIONS_FACTORS_METRIC_TON_PER_KWH;
          powerUsageEffectiveness = or_num (or_powerUsageEffectiveness row) on_premise_getPUE;
          computeFootprint = on_premise_getComputeFootprintEstimate E row powerUsageEffectiveness
                               emissionsFactors upTime;
          memoryFootprint = on_premise_getMemoryFootprintEstimate row powerUsageEffectiveness
                              emissionsFactors upTime
      in if truthy (fe_kilowattHours memoryFootprint) then
           (fe_kilowattHours computeFootprint + fe_kilowattHours memoryFootprint,
            fe_co2e computeFootprint + fe_co2e memoryFootprint)
         else (fe_kilowattHours computeFootprint, fe_co2e computeFootprint))"

definition period_of :: "(jsnum \<times> jsnum) obj \<Rightarrow> string \<Rightarrow> (jsnum \<times> jsnum) result" where
  "period_of upTimeEstimates key =
     (case obj_get upTimeEstimates key of None \<Rightarrow> Inl TypeError | Some e \<Rightarrow> Inr e)"

definition on_premise_row_output ::
    "on_premise_env \<Rightarrow> OnPremiseDataInput \<Rightarrow> OnPremiseDataOutput result" where
  "on_premise_row_output E input =
     bindR (new_OnPremiseDataReportRow input) (\<lambda>row.
     let upTimeEstimates = map (\<lambda>(key, upTime). (key, on_premise_getFootprintEstimate E row upTime)) (or_upTime row)
     in bindR (period_of upTimeEstimates ''daily'') (\<lambda>daily.
        bindR (period_of upTimeEstimates ''weekly'') (\<lambda>weekly.
        bindR (period_of upTimeEstimates ''monthly'') (\<lambda>monthly.
        bindR (period_of upTimeEstimates ''annual'') (\<lambda>annual.
          Inr (OnPremiseDataInput.extend input
                 \<lparr>oo_dailyKilowattHours = fst daily, oo_dailyCo2e = snd daily,
                  oo_weeklyKilowattHours = fst weekly, oo_weeklyCo2e = snd weekly,
                  oo_monthlyKilowattHours = fst monthly, oo_monthlyCo2e = snd monthly,
                  oo_annualKilowattHours = fst annual, oo_annualCo2e = snd annual\<rparr>))))))"

definition OnPremiseDataReport_getEstimates ::
    "on_premise_env \<Rightarrow> OnPremiseDataInput list \<Rightarrow> OnPremiseDataOutput list result" where
  "OnPremiseDataReport_getEstimates E usageRows = mapR (on_premise_row_output E) usageRows"

definition getOnPremiseDataFromInputData ::
    "on_premise_env \<Rightarrow> OnPremiseDataInput list \<Rightarrow> OnPremiseDataOutput list result" where
  "getOnPremiseDataFromInputData E inputData = OnPremiseDataReport_getEstimates E inputData"

end
