(* ===== verification/On_Premise_Properties.thy ===== *)
theory On_Premise_Properties
  imports On_Premise_Report
begin

text \<open>
  The properties of the on-premise package: the outputs of the inputs, the proportion between the
  periods of a machine and the processor that a description names.
\<close>

section \<open>Arithmetic\<close>

text \<open>A positive factor distributes over every sum and is no matter to a test for zero.\<close>

lemma scale_plus: "0 < c \<Longrightarrow> Fin c * (a + b) = Fin c * a + Fin c * b"
  by (cases a; cases b) (simp_all add: distrib_left inf_of_sign_def)

lemma scale_divide: "0 < c \<Longrightarrow> 0 < d \<Longrightarrow> (Fin c * a) / Fin d = Fin c * (a / Fin d)"
  by (cases a) (simp_all add: inf_of_sign_def)

lemma scale_truthy: "0 < c \<Longrightarrow> truthy (Fin c * a) = truthy a"
  by (cases a) (simp_all add: inf_of_sign_def)

section \<open>Outputs\<close>

lemma on_premise_row_output_eq:
  "on_premise_row_output E input =
     (case oi_cpuDescription input of
        None \<Rightarrow> Inl TypeError
      | Some description \<Rightarrow>
          (let row = projr (new_OnPremiseDataReportRow input);
               f = on_premise_getFootprintEstimate E row
           in Inr (OnPremiseDataInput.extend input
                \<lparr>oo_dailyKilowattHours = fst (f (oi_dailyUptime input)),
                 oo_dailyCo2e = snd (f (oi_dailyUptime input)),
                 oo_weeklyKilowattHours = fst (f (oi_weeklyUptime input)),
                 oo_weeklyCo2e = snd (f (oi_weeklyUptime input)),
                 oo_monthlyKilowattHours = fst (f (oi_monthlyUptime input)),
                 oo_monthlyCo2e = snd (f (oi_monthlyUptime input)),
                 oo_annualKilowattHours = fst (f (oi_annualUptime input)),
                 oo_annualCo2e = snd (f (oi_annualUptime input))\<rparr>)))"
  by (simp add: on_premise_row_output_def new_OnPremiseDataReportRow_def period_of_def Let_def
      split: option.split)

lemma on_premise_output_truncate:
  "on_premise_row_output E input = Inr out \<Longrightarrow>
     oi_cpuDescription input \<noteq> None \<and> OnPremiseDataInput.truncate out = input"
  by (auto simp: on_premise_row_output_eq Let_def OnPremiseDataInput.defs split: option.splits)



section \<open>Periods\<close>

lemma on_premise_compute_scales:
  assumes "0 < c"
  shows "fe_kilowattHours (on_premise_getComputeFootprintEstimate E row pue ef (Some (Fin c * u)))
      = Fin c * fe_kilowattHours (on_premise_getComputeFootprintEstimate E row pue ef (Some u))"
    and "fe_co2e (on_premise_getComputeFootprintEstimate E row pue ef (Some (Fin c * u)))
      = Fin c * fe_co2e (on_premise_getComputeFootprintEstimate E row pue ef (Some u))"
proof -
  have thousand: "(1000 :: jsnum) = Fin 1000" by (simp add: numeral_Fin)
  have swap: "w * (Fin c * h) * p * r = Fin c * (w * h * p * r)" for w h p r :: jsnum
    by (simp only: mult.commute mult.left_commute)
  have formula: "ENERGY_ESTIMATION_FORMULA a (Fin c * h) mn mx p r w = Fin c * ENERGY_ESTIMATION_FORMULA a h mn mx p r w"
    for a h mn mx p r w
    using assms by (simp only: ENERGY_ESTIMATION_FORMULA_def Let_def swap thousand scale_divide zero_less_numeral)
  show "fe_kilowattHours (on_premise_getComputeFootprintEstimate E row pue ef (Some (Fin c * u)))
      = Fin c * fe_kilowattHours (on_premise_getComputeFootprintEstimate E row pue ef (Some u))"
    and "fe_co2e (on_premise_getComputeFootprintEstimate E row pue ef (Some (Fin c * u)))
      = Fin c * fe_co2e (on_premise_getComputeFootprintEstimate E row pue ef (Some u))"
    by (simp_all add: on_premise_getComputeFootprintEstimate_def ComputeEstimator_estimate_def
        compute_estimate_one_def formula estimateCo2_def mult.assoc Let_def split: prod.split)
qed

lemma on_premise_memory_scales:
  assumes "0 < c"
  shows "fe_kilowattHours (on_premise_getMemoryFootprintEstimate row pue ef (Some (Fin c * u)))
      = Fin c * fe_kilowattHours (on_premise_getMemoryFootprintEstimate row pue ef (Some u))"
    and "fe_co2e (on_premise_getMemoryFootprintEstimate row pue ef (Some (Fin c * u)))
      = Fin c * fe_co2e (on_premise_getMemoryFootprintEstimate row pue ef (Some u))"
  by (simp_all add: on_premise_getMemoryFootprintEstimate_def MemoryEstimator_estimate_def
      memory_estimateKilowattHours_def getGigabyteHours_def estimateCo2_def mult.assoc mult.left_commute)

lemma on_premise_estimate_scales:
  assumes "0 < c"
  shows "on_premise_getFootprintEstimate E row (Some (Fin c * u)) =
    (Fin c * fst (on_premise_getFootprintEstimate E row (Some u)),
     Fin c * snd (on_premise_getFootprintEstimate E row (Some u)))"
  using assms
  by (simp add: on_premise_getFootprintEstimate_def Let_def on_premise_compute_scales on_premise_memory_scales
      scale_truthy scale_plus)

text \<open>The estimates of two periods of a machine are in the proportion of its uptimes: a machine that is
  up a factor longer in a year than on a day has that factor of the energy and the emissions,
  whatever its memory, its processor and the configured watts are.\<close>

theorem on_premise_periods_are_proportional:
  assumes "getOnPremiseDataFromInputData E inputs = Inr outs" and "i < length inputs" and "0 < c"
    and "oi_dailyUptime (inputs ! i) = Some u" and "oi_annualUptime (inputs ! i) = Some (Fin c * u)"
  shows "oo_annualKilowattHours (outs ! i) = Fin c * oo_dailyKilowattHours (outs ! i)
    \<and> oo_annualCo2e (outs ! i) = Fin c * oo_dailyCo2e (outs ! i)"
proof -
  have out: "on_premise_row_output E (inputs ! i) = Inr (outs ! i)"
    using assms(1,2) list_all2_nthD
    unfolding getOnPremiseDataFromInputData_def OnPremiseDataReport_getEstimates_def mapR_pointwise
    by fastforce
  then have "outs ! i = projr (on_premise_row_output E (inputs ! i))" by simp
  moreover from on_premise_output_truncate [OF out] obtain d where
    "oi_cpuDescription (inputs ! i) = Some d" by blast
  ultimately show ?thesis
    using assms(3-5)
    by (simp add: on_premise_row_output_eq Let_def on_premise_estimate_scales OnPremiseDataInput.defs)
qed

definition desk_env :: on_premise_env where
  "desk_env =
     (let none = \<lparr>mc_cpuUtilization = None, mc_averageWatts = None\<rparr>
      in \<lparr>oe_server = none\<lparr>mc_averageWatts := Some 200\<rparr>, oe_laptop = none, oe_desktop = none,
          oe_median = median_documented\<rparr>)"

definition desk_input :: OnPremiseDataInput where
  "desk_input =
     \<lparr>oi_startTime = None, oi_endTime = None,
      oi_cpuDescription = Some ''Intel(R) Xeon(R) CPU E5-2650 0 @ 2.00GHz'', oi_machineName = Some ''m'',
      oi_memory = Some 500, oi_machineType = Some ''server'', oi_country = Some ''Canada'', oi_region = None,
      oi_cpuUtilization = None, oi_powerUsageEffectiveness = None, oi_cost = None,
      oi_dailyUptime = Some 5, oi_weeklyUptime = Some 25, oi_monthlyUptime = Some 100,
      oi_annualUptime = Some (Fin 200 * 5)\<rparr>"

theorem on_premise_periods_are_proportional_witness:
  "\<exists>out. getOnPremiseDataFromInputData desk_env [desk_input] = Inr [out]
     \<and> oo_annualKilowattHours out = Fin 200 * oo_dailyKilowattHours out"
proof -
  obtain out where out: "getOnPremiseDataFromInputData desk_env [desk_input] = Inr [out]"
    by (simp add: getOnPremiseDataFromInputData_def OnPremiseDataReport_getEstimates_def
        on_premise_row_output_eq desk_input_def Let_def)
  have "oo_annualKilowattHours ([out] ! 0) = Fin 200 * oo_dailyKilowattHours ([out] ! 0)
      \<and> oo_annualCo2e ([out] ! 0) = Fin 200 * oo_dailyCo2e ([out] ! 0)"
    by (rule on_premise_periods_are_proportional [OF out, where u = 5]) (simp_all add: desk_input_def)
  then show ?thesis using out by simp
qed

section \<open>Processors\<close>

text \<open>The descriptions that name a processor: Intel with the word CPU before or after the name, and AMD.\<close>

datatype processor_brand = Intel_CPU_first | Intel_CPU_last | AMD_brand

fun describe :: "processor_brand \<Rightarrow> string \<Rightarrow> string \<Rightarrow> string \<Rightarrow> string" where
  "describe Intel_CPU_first brand name speed =
     ''Intel(R) '' @ brand @ '') CPU '' @ name @ '' @'' @ speed"
| "describe Intel_CPU_last brand name speed =
     ''Intel(R) '' @ brand @ '') '' @ name @ '' CPU @'' @ speed"
| "describe AMD_brand brand name speed = ''AMD EPYC '' @ name @ '' '' @ speed"

definition names_processor :: "processor_brand \<Rightarrow> string \<Rightarrow> string \<Rightarrow> string \<Rightarrow> bool" where
  "names_processor kind brand name speed \<longleftrightarrow>
     CHR '')'' \<notin> set brand \<and> CHR ''@'' \<notin> set speed \<and> \<not> str_includes name ''CPU'' \<and> trim name = name
     \<and> (kind = AMD_brand \<longrightarrow> \<not> str_includes (describe kind brand name speed) ''Intel''
                        \<and> CHR '' '' \<notin> set name)"

lemma no_CPU_at_end: "\<not> str_includes name ''CPU'' \<Longrightarrow> \<not> str_includes (name @ '' '') ''CPU''"
proof
  assume no: "\<not> str_includes name ''CPU''" and "str_includes (name @ '' '') ''CPU''"
  then obtain u v where uv: "name @ '' '' = u @ ''CPU'' @ v" by (auto simp: str_includes_iff)
  show False
  proof (cases v rule: rev_cases)
    case Nil
    with uv have "last (name @ '' '') = last (u @ ''CPU'')" by simp
    then show False by simp
  next
    case (snoc w c)
    with uv have "name = u @ ''CPU'' @ w" by simp
    with no show False by (metis str_includes_iff)
  qed
qed

lemma no_CPU_at_start: "\<not> str_includes name ''CPU'' \<Longrightarrow> \<not> str_includes (CHR '' '' # name) ''CPU''"
  by simp

text \<open>What is between the brand and the clock rate.\<close>

lemma intel_part:
  assumes "CHR '')'' \<notin> set brand" and "CHR ''@'' \<notin> set speed"
  shows "processor_of_description (''Intel(R) '' @ brand @ '') '' @ part @ '' @'' @ speed)
    = Some (trim (join [] (split part ''CPU'')))"
proof -
  let ?s = "brand @ '') '' @ part @ '' @'' @ speed"
  have "index_of ?s '')'' = int (length brand)"
    using index_of_skip [of "CHR '')''" brand "[]"] assms(1) by simp
  moreover have "last_index_of ?s '' @'' = int (length brand + 2 + length part)"
    using last_index_of_skip [of "CHR ''@''" speed "brand @ '') '' @ part" "'' ''"] assms(2) by simp
  moreover have "str_substring ?s (int (length brand) + 2) (int (length brand + 2 + length part)) = part"
    using str_substring_part [of "brand @ '') ''" part "'' @'' @ speed"] by (simp add: ac_simps)
  moreover have "replace_first (''Intel(R) '' @ ?s) ''Intel(R) '' [] = ?s" by simp
  moreover have "str_includes (''Intel(R) '' @ ?s) ''Intel''" by simp
  ultimately show ?thesis unfolding processor_of_description_def Let_def by simp
qed

text \<open>The processor that a description names is found again, so the families of the machine are those
  of the table: for Intel with CPU before or after the name, for AMD as the third word.\<close>

theorem described_processor_is_found:
  assumes "names_processor kind brand name speed"
  shows "processor_of_description (describe kind brand name speed) = Some name"
proof (cases kind)
  case Intel_CPU_first
  have "split (''CPU '' @ name) ''CPU'' = [[], CHR '' '' # name]"
    using split_first [of "CHR ''C''" "''PU''" "[]" "CHR '' '' # name"] assms
      split_absent [of "CHR '' '' # name" "''CPU''"] by (simp add: names_processor_def)
  with intel_part [of brand speed "''CPU '' @ name"] assms Intel_CPU_first show ?thesis
    by (simp add: names_processor_def trim_space)
next
  case Intel_CPU_last
  have "split (name @ '' CPU'') ''CPU'' = [name @ '' '', []]"
    using split_first [of "CHR ''C''" "''PU''" "name @ '' ''" "[]"] assms no_CPU_at_end [of name]
    by (simp add: names_processor_def split_def)
  with intel_part [of brand speed "name @ '' CPU''"] assms Intel_CPU_last show ?thesis
    by (simp add: names_processor_def trim_space)
next
  case AMD_brand
  have "split (''AMD EPYC '' @ name @ '' '' @ speed) '' '' = ''AMD'' # ''EPYC'' # name # split speed '' ''"
    using assms AMD_brand split_first [of "CHR '' ''" "[]" "''AMD''"] split_first [of "CHR '' ''" "[]" "''EPYC''"]
      split_first [of "CHR '' ''" "[]" name speed]
    by (simp add: names_processor_def str_includes_char)
  then show ?thesis using assms AMD_brand by (simp add: names_processor_def processor_of_description_def elem_at_def)
qed

theorem described_processor_is_found_witness:
  "processor_of_description ''Intel(R) Xeon(R) CPU E5-2650 0 @ 2.00GHz'' = Some ''E5-2650 0''"
proof -
  have "names_processor Intel_CPU_first ''Xeon(R'' ''E5-2650 0'' '' 2.00GHz''" by code_simp
  from described_processor_is_found [OF this] show ?thesis by simp
qed

end
