(* ===== verification/App_Request.thy ===== *)
theory App_Request
  imports Core_Account
begin

text \<open>
  \<open>packages/app/src/CreateValidRequest.ts\<close>: the raw parameters of a footprint request are
  checked and turned into an estimation request. \<open>parseMoment\<close> is \<open>moment.utc\<close> on a text,
  \<open>None\<close> where the moment is invalid, and \<open>now\<close> is the clock. Empty texts are falsy, so the
  code treats them as absent.
\<close>

section \<open>Raw and valid requests\<close>

text \<open>
  A filter parameter is one text or an array, whose elements may be other values than texts
  (\<open>None\<close>); so may the provider to seed. The tags are an object, whose values are texts or not,
  or another value.
\<close>

datatype filter_param = Single string | Several "string option list"

datatype seed_param = SeedText string | SeedOther

datatype tags_param = TagsObject "(string option) obj" | TagsOther

record FootprintEstimatesRawRequest =
  rr_startDate :: "string option"
  rr_endDate :: "string option"
  rr_cloudProviderToSeed :: "seed_param option"
  rr_ignoreCache :: "string option"
  rr_groupBy :: "string option"
  rr_limit :: "string option"
  rr_skip :: "string option"
  rr_cloudProviders :: "filter_param option"
  rr_accounts :: "filter_param option"
  rr_services :: "filter_param option"
  rr_regions :: "filter_param option"
  rr_tags :: "tags_param option"
  rr_tenantId :: "string option"
  rr_accessToken :: "string option"

record EstimationRequest =
  rq_startDate :: date
  rq_endDate :: date
  rq_cloudProviderToSeed :: "seed_param option"
  rq_ignoreCache :: bool
  rq_groupBy :: "string option"
  rq_limit :: "jsnum option"
  rq_skip :: "jsnum option"
  rq_cloudProviders :: "string option list option"
  rq_accounts :: "string option list option"
  rq_services :: "string option list option"
  rq_regions :: "string option list option"
  rq_tags :: "tags_param option"
  rq_tenantId :: "string option"
  rq_accessToken :: "string option"

definition nonempty :: "string option \<Rightarrow> string option" where
  "nonempty s = (case s of Some [] \<Rightarrow> None | _ \<Rightarrow> s)"

section \<open>Checks\<close>

definition validateDatesPresent :: "string option \<Rightarrow> string option \<Rightarrow> unit result" where
  "validateDatesPresent startDate endDate =
     (let errors = (if nonempty startDate = None then [''Start date must be provided''] else [])
                   @ (if nonempty endDate = None then [''End date must be provided''] else [])
      in if errors \<noteq> [] then Inl (Thrown (join '', '' errors)) else Inr ())"

text \<open>A comparison with an invalid moment is false.\<close>

definition isAfter :: "date option \<Rightarrow> date option \<Rightarrow> bool" where
  "isAfter a b = (case (a, b) of (Some s, Some t) \<Rightarrow> t < s | _ \<Rightarrow> False)"

definition date_errors :: "date \<Rightarrow> date option \<Rightarrow> date option \<Rightarrow> string list" where
  "date_errors now startDate endDate =
     (if startDate = None then [''Start date is not in a recognized RFC2822 or ISO format''] else [])
     @ (if endDate = None then [''End date is not in a recognized RFC2822 or ISO format''] else [])
     @ (if isAfter startDate endDate then [''Start date is after end date''] else [])
     @ (if isAfter startDate (Some now) then [''Start date is in the future''] else [])
     @ (if isAfter endDate (Some now) then [''End date is in the future''] else [])"

definition groupBy_errors :: "string option \<Rightarrow> string list" where
  "groupBy_errors groupBy =
     (case nonempty groupBy of
        Some g \<Rightarrow> if g \<notin> set GroupBy_keys then [''Please specify a valid groupBy period''] else []
      | None \<Rightarrow> [])"

definition limit_errors :: "string option \<Rightarrow> string list" where
  "limit_errors limit =
     (case nonempty limit of
        Some l \<Rightarrow>
          if isNaN (parseInt l) \<or> parseInt l < 0 then [''Not a valid limit number'']
          else if 50000 < parseInt l then [''Page limit must not exceed 50000'']
          else []
      | None \<Rightarrow> [])"

definition skip_errors :: "string option \<Rightarrow> string list" where
  "skip_errors skip =
     (case nonempty skip of
        Some s \<Rightarrow> if isNaN (parseInt s) \<or> parseInt s < 0 then [''Not a valid skip number''] else []
      | None \<Rightarrow> [])"

definition supportedCloudProviders :: "string list" where
  "supportedCloudProviders = [''AWS'', ''GCP'', ''AZURE'']"

definition seed_errors :: "seed_param option \<Rightarrow> string list" where
  "seed_errors seed =
     (case seed of
        None \<Rightarrow> []
      | Some SeedOther \<Rightarrow> [''Not a valid cloud provider to seed'']
      | Some (SeedText s) \<Rightarrow>
          if s = [] then []
          else if toUpperCase s \<notin> set supportedCloudProviders
          then [''Not a valid cloud provider to seed''] else [])"

definition is_letter :: "char \<Rightarrow> bool" where
  "is_letter c \<longleftrightarrow> is_upper_letter c \<or> is_lower_letter c"

text \<open>The regular expressions of the filters.\<close>

definition provider_ok :: "string \<Rightarrow> bool" where
  "provider_ok s \<longleftrightarrow> s \<noteq> [] \<and> list_all is_upper_letter s"

definition account_ok :: "string \<Rightarrow> bool" where
  "account_ok s \<longleftrightarrow> list_all (\<lambda>c. is_letter c \<or> is_digit c \<or> c = CHR ''_'' \<or> c = CHR ''-'') s"

definition service_ok :: "string \<Rightarrow> bool" where
  "service_ok s \<longleftrightarrow> list_all (\<lambda>c. is_letter c \<or> is_digit c \<or> is_space c) s"

definition region_ok :: "string \<Rightarrow> bool" where
  "region_ok s \<longleftrightarrow> list_all (\<lambda>c. is_letter c \<or> is_digit c \<or> c = CHR ''-'') s"

text \<open>
  The elements are checked in order up to the first that fails; an element that is no text makes
  \<open>match\<close> throw, except among the providers, where it has become \<open>undefined\<close>.
\<close>

fun filter_check :: "bool \<Rightarrow> (string \<Rightarrow> bool) \<Rightarrow> string option list \<Rightarrow> bool result" where
  "filter_check undefinedElements ok [] = Inr True"
| "filter_check undefinedElements ok (None # vs) =
     (if undefinedElements then Inr False else Inl TypeError)"
| "filter_check undefinedElements ok (Some v # vs) =
     (if ok v then filter_check undefinedElements ok vs else Inr False)"

definition filter_errors ::
    "string \<Rightarrow> bool \<Rightarrow> (string \<Rightarrow> bool) \<Rightarrow> string option list option \<Rightarrow> string list result" where
  "filter_errors name undefinedElements ok values =
     (let errorMsg = ''Filter for '' @ name @ '' must be an array with appropriate values'' in
      case values of
        None \<Rightarrow> Inr []
      | Some vs \<Rightarrow>
          if vs = [] then Inr [errorMsg]
          else bindR (filter_check undefinedElements ok vs) (\<lambda>b. Inr (if b then [] else [errorMsg])))"

definition tag_errors :: "tags_param option \<Rightarrow> string list" where
  "tag_errors tags =
     (case tags of
        None \<Rightarrow> []
      | Some TagsOther \<Rightarrow> [''Tags must be formatted correctly into key/value pairs'']
      | Some (TagsObject ts) \<Rightarrow>
          if list_ex (\<lambda>v. v = None) (obj_values ts)
          then [''Tags must be formatted correctly into key/value pairs''] else [])"

text \<open>\<open>formatFilterParams\<close> makes an array of a single text and capitalises the providers.\<close>

definition format_filter :: "(string \<Rightarrow> string) \<Rightarrow> filter_param option \<Rightarrow> string option list option" where
  "format_filter f p =
     (case p of
        None \<Rightarrow> None
      | Some (Single s) \<Rightarrow> if s = [] then None else Some [Some (f s)]
      | Some (Several vs) \<Rightarrow> Some (map (map_option f) vs))"

definition validate :: "date \<Rightarrow> date option \<Rightarrow> date option \<Rightarrow> FootprintEstimatesRawRequest \<Rightarrow>
    string list result" where
  "validate now startDate endDate request =
     bindR (filter_errors ''cloud providers'' True provider_ok
              (format_filter toUpperCase (rr_cloudProviders request))) (\<lambda>e1.
     bindR (filter_errors ''accounts'' False account_ok
              (format_filter id (rr_accounts request))) (\<lambda>e2.
     bindR (filter_errors ''services'' False service_ok
              (format_filter id (rr_services request))) (\<lambda>e3.
     bindR (filter_errors ''regions'' False region_ok
              (format_filter id (rr_regions request))) (\<lambda>e4.
       Inr (date_errors now startDate endDate
            @ groupBy_errors (rr_groupBy request)
            @ limit_errors (rr_limit request)
            @ skip_errors (rr_skip request)
            @ seed_errors (rr_cloudProviderToSeed request)
            @ e1 @ e2 @ e3 @ e4
            @ tag_errors (rr_tags request))))))"

definition createValidFootprintRequest ::
    "(string \<Rightarrow> date option) \<Rightarrow> date \<Rightarrow> FootprintEstimatesRawRequest \<Rightarrow> EstimationRequest result" where
  "createValidFootprintRequest parseMoment now request =
     bindR (validateDatesPresent (rr_startDate request) (rr_endDate request)) (\<lambda>_.
       let startDate = parseMoment (case rr_startDate request of Some s \<Rightarrow> s | None \<Rightarrow> []);
           endDate = parseMoment (case rr_endDate request of Some s \<Rightarrow> s | None \<Rightarrow> []);
           limit = map_option parseInt (nonempty (rr_limit request));
           skip = map_option parseInt (nonempty (rr_skip request))
       in bindR (validate now startDate endDate request) (\<lambda>errors.
            if errors \<noteq> [] then Inl (Thrown (join '', '' errors))
            else
              (case (startDate, endDate) of
                 (Some s, Some e) \<Rightarrow>
                   Inr \<lparr>rq_startDate = s,
                        rq_endDate = e,
                        rq_cloudProviderToSeed = rr_cloudProviderToSeed request,
                        rq_ignoreCache = (rr_ignoreCache request = Some ''true''),
                        rq_groupBy = rr_groupBy request,
                        rq_limit = limit,
                        rq_skip = skip,
                        rq_cloudProviders = format_filter toUpperCase (rr_cloudProviders request),
                        rq_accounts = format_filter id (rr_accounts request),
                        rq_services = format_filter id (rr_services request),
                        rq_regions = format_filter id (rr_regions request),
                        rq_tags = rr_tags request,
                        rq_tenantId = rr_tenantId request,
                        rq_accessToken = rr_accessToken request\<rparr>
               | _ \<Rightarrow> Inl TypeError)))"

section \<open>Recommendation requests\<close>

record RecommendationRequest =
  rc_awsRecommendationTarget :: string
  rc_accounts :: "string list option"
  rc_tenantId :: "string option"
  rc_accessToken :: "string option"

definition AWS_RECOMMENDATIONS_TARGETS :: "string list" where
  "AWS_RECOMMENDATIONS_TARGETS = [''SAME_INSTANCE_FAMILY'', ''CROSS_INSTANCE_FAMILY'']"

definition AWS_DEFAULT_RECOMMENDATION_TARGET :: string where
  "AWS_DEFAULT_RECOMMENDATION_TARGET = ''SAME_INSTANCE_FAMILY''"

definition createValidRecommendationsRequest ::
    "string option \<Rightarrow> string option \<Rightarrow> string option \<Rightarrow> RecommendationRequest result" where
  "createValidRecommendationsRequest awsRecommendationTarget tenantId accessToken =
     (case nonempty awsRecommendationTarget of
        Some t \<Rightarrow>
          if t \<notin> set AWS_RECOMMENDATIONS_TARGETS
          then Inl (Thrown ''AWS Recommendation Target is not valid'')
          else Inr \<lparr>rc_awsRecommendationTarget = t, rc_accounts = None,
                    rc_tenantId = tenantId, rc_accessToken = accessToken\<rparr>
      | None \<Rightarrow> Inr \<lparr>rc_awsRecommendationTarget = AWS_DEFAULT_RECOMMENDATION_TARGET,
                     rc_accounts = None, rc_tenantId = tenantId, rc_accessToken = accessToken\<rparr>)"

section \<open>Facts\<close>

lemma nonempty_Some: "nonempty v = Some s \<longleftrightarrow> v = Some s \<and> s \<noteq> []"
  by (auto simp: nonempty_def split: option.splits list.splits)

lemma filter_check_True: "filter_check u ok vs = Inr True \<longleftrightarrow> (\<forall>v\<in>set vs. \<exists>s. v = Some s \<and> ok s)"
  by (induction u ok vs rule: filter_check.induct) auto

lemma filter_errors_Nil:
  "filter_errors n u ok vs = Inr [] \<longleftrightarrow>
     (case vs of None \<Rightarrow> True | Some xs \<Rightarrow> xs \<noteq> [] \<and> (\<forall>v\<in>set xs. \<exists>s. v = Some s \<and> ok s))"
proof (cases vs)
  case None
  then show ?thesis by (simp add: filter_errors_def)
next
  case (Some xs)
  have "filter_errors n u ok vs = Inr [] \<longleftrightarrow> xs \<noteq> [] \<and> filter_check u ok xs = Inr True"
    by (cases "filter_check u ok xs") (simp_all add: filter_errors_def Let_def Some)
  then show ?thesis by (simp add: filter_check_True Some)
qed

definition filter_accepts :: "(string \<Rightarrow> bool) \<Rightarrow> string option list option \<Rightarrow> bool" where
  "filter_accepts ok vs \<longleftrightarrow>
     (case vs of None \<Rightarrow> True
      | Some xs \<Rightarrow> xs \<noteq> [] \<and> list_all (\<lambda>v. case v of Some s \<Rightarrow> ok s | None \<Rightarrow> False) xs)"

lemma filter_accepts_iff: "filter_errors n u ok vs = Inr [] \<longleftrightarrow> filter_accepts ok vs"
  by (cases vs) (auto simp: filter_errors_Nil filter_accepts_def list_all_iff
      split: option.splits)

lemma validate_Nil:
  "validate now s e r = Inr [] \<longleftrightarrow>
     filter_accepts provider_ok (format_filter toUpperCase (rr_cloudProviders r))
     \<and> filter_accepts account_ok (format_filter id (rr_accounts r))
     \<and> filter_accepts service_ok (format_filter id (rr_services r))
     \<and> filter_accepts region_ok (format_filter id (rr_regions r))
     \<and> date_errors now s e = [] \<and> groupBy_errors (rr_groupBy r) = []
     \<and> limit_errors (rr_limit r) = [] \<and> skip_errors (rr_skip r) = []
     \<and> seed_errors (rr_cloudProviderToSeed r) = [] \<and> tag_errors (rr_tags r) = []"
  by (auto simp: validate_def bindR_eq_Inr_iff
      filter_accepts_iff [where n = "''cloud providers''" and u = True and ok = provider_ok, symmetric]
      filter_accepts_iff [where n = "''accounts''" and u = False and ok = account_ok, symmetric]
      filter_accepts_iff [where n = "''services''" and u = False and ok = service_ok, symmetric]
      filter_accepts_iff [where n = "''regions''" and u = False and ok = region_ok, symmetric])

lemma date_errors_Nil:
  "date_errors now s e = [] \<longleftrightarrow> (\<exists>a b. s = Some a \<and> e = Some b \<and> a \<le> b \<and> b \<le> now)"
  by (cases s; cases e) (auto simp: date_errors_def isAfter_def)

lemma limit_errors_Nil:
  "limit_errors limit = [] \<longleftrightarrow>
     (case nonempty limit of None \<Rightarrow> True
      | Some l \<Rightarrow> (\<exists>n. parseInt l = Fin (of_int n) \<and> 0 \<le> n \<and> n \<le> 50000))"
proof (cases "nonempty limit")
  case (Some l)
  then show ?thesis
    using parseInt_not_inf [of l]
    by (auto simp: limit_errors_def isNaN_def jsnum_simps not_less)
qed (simp add: limit_errors_def)

text \<open>What an accepted request satisfies.\<close>

lemma createValid_Inr:
  assumes "createValidFootprintRequest parseMoment now r = Inr q"
  shows "\<exists>s e. rr_startDate r = Some s \<and> rr_endDate r = Some e
     \<and> parseMoment s = Some (rq_startDate q) \<and> parseMoment e = Some (rq_endDate q)
     \<and> rq_startDate q \<le> rq_endDate q \<and> rq_endDate q \<le> now"
    and "filter_accepts provider_ok (rq_cloudProviders q)"
    and "filter_accepts account_ok (rq_accounts q)"
    and "filter_accepts service_ok (rq_services q)"
    and "filter_accepts region_ok (rq_regions q)"
    and "groupBy_errors (rq_groupBy q) = []"
    and "case rq_limit q of None \<Rightarrow> True
         | Some l \<Rightarrow> \<exists>n. l = Fin (of_int n) \<and> 0 \<le> n \<and> n \<le> 50000"
proof -
  from assms obtain s e where se: "rr_startDate r = Some s" "rr_endDate r = Some e"
    by (cases "rr_startDate r"; cases "rr_endDate r")
      (auto simp: createValidFootprintRequest_def validateDatesPresent_def nonempty_def)
  from assms have v: "validate now (parseMoment s) (parseMoment e) r = Inr []"
    by (auto simp: createValidFootprintRequest_def Let_def bindR_eq_Inr_iff se split: if_splits)
  then obtain a b where ab: "parseMoment s = Some a" "parseMoment e = Some b" "a \<le> b" "b \<le> now"
    by (auto simp: validate_Nil date_errors_Nil)
  have q: "rq_startDate q = a" "rq_endDate q = b" "rq_groupBy q = rr_groupBy r"
    "rq_cloudProviders q = format_filter toUpperCase (rr_cloudProviders r)"
    "rq_accounts q = format_filter id (rr_accounts r)"
    "rq_services q = format_filter id (rr_services r)"
    "rq_regions q = format_filter id (rr_regions r)"
    "rq_limit q = map_option parseInt (nonempty (rr_limit r))"
    using assms by (auto simp: createValidFootprintRequest_def Let_def bindR_eq_Inr_iff se ab
        split: if_splits)
  show "\<exists>s e. rr_startDate r = Some s \<and> rr_endDate r = Some e
     \<and> parseMoment s = Some (rq_startDate q) \<and> parseMoment e = Some (rq_endDate q)
     \<and> rq_startDate q \<le> rq_endDate q \<and> rq_endDate q \<le> now"
    using se ab q by simp
  show "filter_accepts provider_ok (rq_cloudProviders q)"
    "filter_accepts account_ok (rq_accounts q)"
    "filter_accepts service_ok (rq_services q)"
    "filter_accepts region_ok (rq_regions q)"
    "groupBy_errors (rq_groupBy q) = []"
    using v q by (simp_all add: validate_Nil)
  show "case rq_limit q of None \<Rightarrow> True
         | Some l \<Rightarrow> \<exists>n. l = Fin (of_int n) \<and> 0 \<le> n \<and> n \<le> 50000"
    using v q by (auto simp: validate_Nil limit_errors_Nil split: option.splits)
qed

end
