(* ===== verification/App_Helpers.thy ===== *)
theory App_Helpers
  imports App_Request
begin

text \<open>
  \<open>packages/app/src/common/helpers.ts\<close>: the text of the cache file, the dates of a request, the
  dates missing from a cache, and the merging of estimates.
\<close>

section \<open>The cache file\<close>

definition newline :: string where "newline = [CHR 0x0A]"

definition DATA_WINDOW_SIZE :: nat where "DATA_WINDOW_SIZE = 100"

text \<open>
  The loop of \<open>writeToFile\<close> writes the data in windows; the pieces it writes are one text.
  \<open>els\<close> are the elements in JSON.
\<close>

function write_windows :: "string list \<Rightarrow> nat \<Rightarrow> string" where
  "write_windows els i =
     (if i < length els then
        join (newline @ '','' @ newline) (take DATA_WINDOW_SIZE (drop i els))
        @ (if i + DATA_WINDOW_SIZE < length els then newline @ '','' @ newline else [])
        @ write_windows els (i + DATA_WINDOW_SIZE)
      else [])"
  by auto
termination
  by (relation "measure (\<lambda>(els, i). length els - i)") (auto simp: DATA_WINDOW_SIZE_def)

declare write_windows.simps [simp del]

definition written_file :: "('e \<Rightarrow> string) \<Rightarrow> 'e list \<Rightarrow> string" where
  "written_file stringify mergedData =
     (''['' @ newline) @ write_windows (map stringify mergedData) 0 @ (newline @ '']'')"

definition isNotADataDelimiter :: "string \<Rightarrow> bool" where
  "isNotADataDelimiter l \<longleftrightarrow> \<not> (length l = 1 \<and> hd l \<in> {CHR ''['', CHR '']'', CHR '','', CHR 0x0A})"

text \<open>
  The lines of the stream, those that are not delimiters parsed in order; the first that does
  not parse rejects the promise.
\<close>

definition getCachedData :: "(string \<Rightarrow> 'e result) \<Rightarrow> string \<Rightarrow> 'e list result" where
  "getCachedData parse text = mapR parse (filter isNotADataDelimiter (split text newline))"

definition getCacheFileName :: "string option \<Rightarrow> string \<Rightarrow> string" where
  "getCacheFileName cachePath grouping =
     (let cachePrefix = (case nonempty cachePath of Some p \<Rightarrow> p | None \<Rightarrow> ''estimates.cache'');
          parts = split cachePrefix ''.json'';
          prefix = (if length parts = 1 then cachePrefix else join ''.json'' (butlast parts))
      in prefix @ ''.'' @ grouping @ ''.json'')"

section \<open>Dates\<close>

fun munit_of :: "GroupBy \<Rightarrow> munit" where
  "munit_of day = MDay"
| "munit_of week = MWeek"
| "munit_of month = MMonth"
| "munit_of quarter = MQuarter"
| "munit_of year = MYear"

text \<open>The loop of \<open>getDatesWithinRequestTimeFrame\<close>; it returns when \<open>add\<close> moves the date on.\<close>

partial_function (option) dates_loop ::
    "moment_ops \<Rightarrow> munit \<Rightarrow> date \<Rightarrow> date list \<Rightarrow> date \<Rightarrow> date list option" where
  "dates_loop M u end dates current =
     (if current \<le> end then dates_loop M u end (dates @ [current]) (m_add M 1 u current)
      else Some dates)"

definition getDatesWithinRequestTimeFrame ::
    "moment_ops \<Rightarrow> GroupBy \<Rightarrow> date \<Rightarrow> date \<Rightarrow> date list option" where
  "getDatesWithinRequestTimeFrame M grouping startDate endDate =
     (let unitOfTime = (if grouping = week then MIsoWeek else munit_of grouping)
      in dates_loop M (munit_of grouping) endDate [] (m_startOf M unitOfTime startDate))"

definition getMissingDates ::
    "moment_ops \<Rightarrow> EstimationResult list \<Rightarrow> date \<Rightarrow> date \<Rightarrow> GroupBy \<Rightarrow> date list option" where
  "getMissingDates M cachedEstimates startDate endDate grouping =
     (let cachedDates = sort (map er_timestamp cachedEstimates) in
      case getDatesWithinRequestTimeFrame M grouping startDate endDate of
        None \<Rightarrow> None
      | Some dates \<Rightarrow>
          Some (filter (\<lambda>date. find (\<lambda>cachedDate. cachedDate = date) cachedDates = None) dates))"

definition empty_estimate :: "moment_ops \<Rightarrow> GroupBy \<Rightarrow> date \<Rightarrow> EstimationResult" where
  "empty_estimate M grouping timestamp =
     \<lparr>er_timestamp = timestamp, er_serviceEstimates = [], er_periodStartDate = Some timestamp,
      er_periodEndDate = Some (getPeriodEndDate M timestamp grouping), er_groupBy = grouping\<rparr>"

definition fillDates ::
    "moment_ops \<Rightarrow> (date list \<Rightarrow> date list \<Rightarrow> date list) \<Rightarrow> date list \<Rightarrow> EstimationResult list \<Rightarrow>
     GroupBy \<Rightarrow> EstimationResult list" where
  "fillDates M difference missingDates estimates grouping =
     (let dates = map er_timestamp estimates;
          emptyEstimates = map (empty_estimate M grouping) (difference missingDates dates)
      in sort_key er_timestamp (emptyEstimates @ estimates))"

definition concat_estimates :: "EstimationResult list \<Rightarrow> EstimationResult list \<Rightarrow> EstimationResult list" where
  "concat_estimates cachedEstimates estimates = sort_key er_timestamp (cachedEstimates @ estimates)"

definition filterCachedEstimates :: "EstimationResult list \<Rightarrow> EstimationResult list" where
  "filterCachedEstimates cachedEstimates =
     filter (\<lambda>r. length (er_serviceEstimates r) \<noteq> 0) cachedEstimates"

section \<open>Merging\<close>

fun mergeEstimates :: "EstimationResult list \<Rightarrow> EstimationResult list \<Rightarrow> EstimationResult list" where
  "mergeEstimates (a # as) (b # bs) =
     (if er_timestamp a < er_timestamp b then a # mergeEstimates as (b # bs)
      else if er_timestamp b < er_timestamp a then b # mergeEstimates (a # as) bs
      else a # mergeEstimates as bs)"
| "mergeEstimates as [] = as"
| "mergeEstimates [] bs = bs"

section \<open>Seeding one provider\<close>

text \<open>\<open>includeCloudProviders\<close> on the flags of the configuration; a seed that is no text throws.\<close>

record include_flags =
  inc_AWS :: bool
  inc_GCP :: bool
  inc_AZURE :: bool
  inc_ALI :: bool

definition includeCloudProviders :: "seed_param option \<Rightarrow> include_flags \<Rightarrow> include_flags result" where
  "includeCloudProviders seed config =
     (case seed of
        None \<Rightarrow> Inr config
      | Some SeedOther \<Rightarrow> Inl TypeError
      | Some (SeedText s) \<Rightarrow>
          Inr (if s = [] then config
               else config\<lparr>inc_AWS := (''AWS'' = toUpperCase s),
                           inc_GCP := (''GCP'' = toUpperCase s),
                           inc_AZURE := (''AZURE'' = toUpperCase s)\<rparr>))"

section \<open>The file reads back\<close>

lemma join_append:
  "xs \<noteq> [] \<Longrightarrow> ys \<noteq> [] \<Longrightarrow> join sep (xs @ ys) = join sep xs @ sep @ join sep ys"
  by (induction xs) (auto simp: join_Cons)

text \<open>The windows make no difference to the text.\<close>

lemma write_windows_join: "write_windows els i = join (newline @ '','' @ newline) (drop i els)"
proof (induction els i rule: write_windows.induct)
  case (1 els i)
  show ?case
  proof (cases "i < length els")
    case True
    let ?d = "drop i els" and ?n = DATA_WINDOW_SIZE
    have IH: "write_windows els (i + ?n) = join (newline @ '','' @ newline) (drop ?n ?d)"
      using "1.IH" [OF True] by (simp add: add.commute)
    show ?thesis
    proof (cases "i + ?n < length els")
      case more: True
      have "take ?n ?d \<noteq> []" "drop ?n ?d \<noteq> []"
        using True more by (auto simp: DATA_WINDOW_SIZE_def)
      from join_append [OF this, of "newline @ '','' @ newline"]
      have "join (newline @ '','' @ newline) ?d = join (newline @ '','' @ newline) (take ?n ?d)
          @ (newline @ '','' @ newline) @ join (newline @ '','' @ newline) (drop ?n ?d)"
        unfolding append_take_drop_id .
      then show ?thesis
        using True more IH by (subst write_windows.simps) (simp del: drop_drop)
    next
      case False
      then have "drop ?n ?d = []" "take ?n ?d = ?d" by simp_all
      then show ?thesis using True False IH by (subst write_windows.simps) simp
    qed
  next
    case False
    then show ?thesis by (subst write_windows.simps) simp
  qed
qed

lemma written_file_lines:
  "written_file stringify xs =
     ''['' @ newline @ join (newline @ '','' @ newline) (map stringify xs) @ newline @ '']''"
  by (simp add: written_file_def write_windows_join)

lemma split_go_piece:
  assumes "CHR 0x0A \<notin> set s"
  shows "split_go newline cur (s @ newline @ rest) = (rev cur @ s) # split_go newline [] rest"
  using assms by (induction s arbitrary: cur) (auto simp: newline_def)

lemma split_go_last:
  assumes "CHR 0x0A \<notin> set s"
  shows "split_go newline cur s = [rev cur @ s]"
  using assms by (induction s arbitrary: cur) (auto simp: newline_def)

fun interleave :: "string list \<Rightarrow> string list" where
  "interleave [] = []"
| "interleave [x] = [x]"
| "interleave (x # y # ys) = x # '','' # interleave (y # ys)"

lemma split_joined:
  assumes "xs \<noteq> []" "\<forall>x\<in>set xs. CHR 0x0A \<notin> set x"
  shows "split_go newline [] (join (newline @ '','' @ newline) xs @ newline @ rest)
       = interleave xs @ split_go newline [] rest"
  using assms
proof (induction xs rule: interleave.induct)
  case 1
  then show ?case by simp
next
  case (2 x)
  then show ?case using split_go_piece [of x "[]" rest] by simp
next
  case (3 x y ys)
  have comma: "CHR 0x0A \<notin> set '',''" by simp
  have "split_go newline [] (join (newline @ '','' @ newline) (x # y # ys) @ newline @ rest)
      = x # split_go newline [] ('','' @ newline @
          (join (newline @ '','' @ newline) (y # ys) @ newline @ rest))"
    using split_go_piece [of x "[]"] "3.prems" by simp
  also have "\<dots> = x # '','' # split_go newline []
          (join (newline @ '','' @ newline) (y # ys) @ newline @ rest)"
    by (subst split_go_piece [OF comma]) simp
  finally show ?case using "3.IH" "3.prems" by simp
qed

lemma filter_interleave:
  assumes "\<forall>x\<in>set xs. 2 \<le> length x"
  shows "filter isNotADataDelimiter (interleave xs) = xs"
  using assms by (induction xs rule: interleave.induct) (auto simp: isNotADataDelimiter_def)

lemma cache_file_roundtrip:
  assumes "xs \<noteq> []" and "\<And>x. x \<in> set xs \<Longrightarrow> parse (stringify x) = Inr x"
    and "\<And>x. x \<in> set xs \<Longrightarrow> CHR 0x0A \<notin> set (stringify x) \<and> 2 \<le> length (stringify x)"
  shows "getCachedData parse (written_file stringify xs) = Inr xs"
proof -
  let ?els = "map stringify xs"
  have els: "?els \<noteq> []" "\<forall>x\<in>set ?els. CHR 0x0A \<notin> set x" "\<forall>x\<in>set ?els. 2 \<le> length x"
    using assms(1,3) by auto
  have "split (written_file stringify xs) newline
      = ''['' # split_go newline [] (join (newline @ '','' @ newline) ?els @ newline @ '']'')"
    using split_go_piece [of "''[''" "[]"] by (simp add: split_def written_file_lines)
  also have "\<dots> = ''['' # interleave ?els @ ['']'']"
    unfolding split_joined [OF els(1,2)] by (subst split_go_last) simp_all
  finally have "filter isNotADataDelimiter (split (written_file stringify xs) newline) = ?els"
    using filter_interleave [OF els(3)] by (simp add: isNotADataDelimiter_def)
  moreover have "mapR parse ?els = Inr xs"
    using assms(2) by (simp add: mapR_pointwise list_all2_map1 list_all2_same)
  ultimately show ?thesis by (simp add: getCachedData_def)
qed

section \<open>The dates of a request\<close>

fun period_start :: "moment_ops \<Rightarrow> munit \<Rightarrow> date \<Rightarrow> nat \<Rightarrow> date" where
  "period_start M u t 0 = t"
| "period_start M u t (Suc n) = period_start M u (m_add M 1 u t) n"

context moment_calendar
begin

text \<open>The loop returns the starts of the periods up to the end of the request.\<close>

lemma dates_loop_returns:
  "\<exists>n. dates_loop M u end dates current = Some (dates @ map (period_start M u current) [0..<n])
     \<and> (\<forall>k<n. period_start M u current k \<le> end) \<and> end < period_start M u current n"
proof (induction "nat (end + 1 - current)" arbitrary: dates current rule: less_induct)
  case less
  show ?case
  proof (cases "current \<le> end")
    case True
    have later: "current < m_add M 1 u current" by (rule add_later) simp
    with True have "nat (end + 1 - m_add M 1 u current) < nat (end + 1 - current)" by simp
    from less [OF this, of "dates @ [current]"] obtain n where n:
      "dates_loop M u end (dates @ [current]) (m_add M 1 u current)
         = Some ((dates @ [current]) @ map (period_start M u (m_add M 1 u current)) [0..<n])"
      "\<forall>k<n. period_start M u (m_add M 1 u current) k \<le> end"
      "end < period_start M u (m_add M 1 u current) n" by blast
    have "map (period_start M u current) [0..<Suc n]
        = current # map (period_start M u (m_add M 1 u current)) [0..<n]"
      by (simp add: map_upt_Suc del: upt_Suc)
    moreover have "\<forall>k<Suc n. period_start M u current k \<le> end"
      using n(2) True by (auto simp: less_Suc_eq_0_disj)
    ultimately show ?thesis using n True
      by (intro exI [of _ "Suc n"]) (subst dates_loop.simps, simp del: upt_Suc)
  next
    case False
    then show ?thesis by (intro exI [of _ 0]) (subst dates_loop.simps, simp)
  qed
qed

lemma period_start_less: "period_start M u t k < period_start M u t (Suc k)"
  by (induction k arbitrary: t) (simp_all add: add_later)

lemma period_start_strict: "j < k \<Longrightarrow> period_start M u t j < period_start M u t k"
proof (induction k)
  case (Suc k)
  then show ?case using period_start_less [of u t k] by (cases "j = k") auto
qed simp

lemma request_dates:
  "\<exists>n. getDatesWithinRequestTimeFrame M grouping startDate endDate =
      Some (map (period_start M (munit_of grouping)
        (m_startOf M (if grouping = week then MIsoWeek else munit_of grouping) startDate)) [0..<n])
    \<and> (\<forall>k<n. period_start M (munit_of grouping)
        (m_startOf M (if grouping = week then MIsoWeek else munit_of grouping) startDate) k \<le> endDate)
    \<and> endDate < period_start M (munit_of grouping)
        (m_startOf M (if grouping = week then MIsoWeek else munit_of grouping) startDate) n"
  using dates_loop_returns [of "munit_of grouping" endDate "[]"]
  by (simp add: getDatesWithinRequestTimeFrame_def)

lemma dates_strict:
  assumes "getDatesWithinRequestTimeFrame M grouping startDate endDate = Some dates"
  shows "sorted_wrt (<) dates" "\<forall>d\<in>set dates. d \<le> endDate"
proof -
  from request_dates [of grouping startDate endDate] assms obtain n t where
    n: "dates = map (period_start M (munit_of grouping) t) [0..<n]"
    "\<forall>k<n. period_start M (munit_of grouping) t k \<le> endDate" by auto
  show "\<forall>d\<in>set dates. d \<le> endDate" using n by auto
  show "sorted_wrt (<) dates"
    unfolding n(1) sorted_wrt_map
    by (rule sorted_wrt_mono_rel [OF _ sorted_wrt_upt]) (auto intro: period_start_strict)
qed

text \<open>The missing dates are those of the request that no cached estimate has.\<close>

lemma missing_dates:
  "\<exists>dates missing. getDatesWithinRequestTimeFrame M grouping startDate endDate = Some dates
     \<and> getMissingDates M cached startDate endDate grouping = Some missing
     \<and> sorted_wrt (<) missing
     \<and> set missing = set dates - er_timestamp ` set cached"
proof -
  obtain dates where d: "getDatesWithinRequestTimeFrame M grouping startDate endDate = Some dates"
    using request_dates [of grouping startDate endDate] by blast
  let ?m = "filter (\<lambda>date. find (\<lambda>c. c = date) (sort (map er_timestamp cached)) = None) dates"
  have "getMissingDates M cached startDate endDate grouping = Some ?m"
    by (simp add: getMissingDates_def d)
  moreover have "set ?m = set dates - er_timestamp ` set cached"
    by (auto simp: find_None_iff)
  moreover have "sorted_wrt (<) ?m"
    using dates_strict(1) [OF d] by (rule sorted_wrt_filter)
  ultimately show ?thesis using d by blast
qed

end

section \<open>Merged estimates\<close>

definition by_time :: "EstimationResult list \<Rightarrow> bool" where
  "by_time rs \<longleftrightarrow> sorted_wrt (<) (map er_timestamp rs)"

lemma set_mergeEstimates_times:
  "er_timestamp ` set (mergeEstimates as bs) = er_timestamp ` set as \<union> er_timestamp ` set bs"
  by (induction as bs rule: mergeEstimates.induct) auto

lemma mergeEstimates_sorted:
  "by_time as \<Longrightarrow> by_time bs \<Longrightarrow> by_time (mergeEstimates as bs)"
proof (induction as bs rule: mergeEstimates.induct)
  case (1 a as b bs)
  have sa: "\<forall>x\<in>set as. er_timestamp a < er_timestamp x" "by_time as"
    and sb: "\<forall>x\<in>set bs. er_timestamp b < er_timestamp x" "by_time bs"
    using "1.prems" by (auto simp: by_time_def)
  have after: "\<forall>x\<in>set (mergeEstimates us vs). t < er_timestamp x"
    if "\<forall>x\<in>set us. t < er_timestamp x" "\<forall>x\<in>set vs. t < er_timestamp x" for us vs t
  proof
    fix x assume "x \<in> set (mergeEstimates us vs)"
    then have "er_timestamp x \<in> er_timestamp ` set us \<union> er_timestamp ` set vs"
      using set_mergeEstimates_times [of us vs] by blast
    then show "t < er_timestamp x" using that by auto
  qed
  consider "er_timestamp a < er_timestamp b" | "er_timestamp b < er_timestamp a"
    | "er_timestamp a = er_timestamp b" by linarith
  then show ?case
  proof cases
    case 1
    have "\<forall>x\<in>set (mergeEstimates as (b # bs)). er_timestamp a < er_timestamp x"
      by (rule after) (use sa sb 1 in auto)
    then show ?thesis using "1.IH"(1) "1.prems" sa 1 by (auto simp: by_time_def)
  next
    case 2
    have "\<forall>x\<in>set (mergeEstimates (a # as) bs). er_timestamp b < er_timestamp x"
      by (rule after) (use sa sb 2 in auto)
    then show ?thesis using "1.IH"(2) "1.prems" sb 2 by (auto simp: by_time_def)
  next
    case 3
    have "\<forall>x\<in>set (mergeEstimates as bs). er_timestamp a < er_timestamp x"
      by (rule after) (use sa sb 3 in auto)
    then show ?thesis using "1.IH"(3) sa sb 3 by (auto simp: by_time_def)
  qed
qed auto

text \<open>The first list wins: the merge is it, and of the second what has another date.\<close>

lemma mergeEstimates_set:
  "by_time as \<Longrightarrow> by_time bs \<Longrightarrow>
   set (mergeEstimates as bs) = set as \<union> {b \<in> set bs. er_timestamp b \<notin> er_timestamp ` set as}"
proof (induction as bs rule: mergeEstimates.induct)
  case (1 a as b bs)
  have sa: "\<forall>x\<in>set as. er_timestamp a < er_timestamp x" "by_time as"
    and sb: "\<forall>x\<in>set bs. er_timestamp b < er_timestamp x" "by_time bs"
    using "1.prems" by (auto simp: by_time_def)
  consider "er_timestamp a < er_timestamp b" | "er_timestamp b < er_timestamp a"
    | "er_timestamp a = er_timestamp b" by linarith
  then show ?case
  proof cases
    case 1
    then show ?thesis using "1.IH"(1) "1.prems" sa sb by force
  next
    case 2
    then show ?thesis using "1.IH"(2) "1.prems" sa sb by force
  next
    case 3
    then show ?thesis using "1.IH"(3) sa sb by force
  qed
qed auto

end
