(* ===== verification/App_Cache.thy ===== *)
theory App_Cache
  imports App_Helpers
begin

text \<open>
  \<open>packages/app/src/Cache.ts\<close>, the decorator that answers a request from the cache and fetches
  what is missing, with the local cache of \<open>LocalCacheManager.ts\<close>. A cache file is the list of
  its estimates (\<open>App_Helpers\<close> has its text), or unreadable; the manager is one object for the
  life of the program, so its two lists are state. The grouping of the request is a period, the
  decorated function is a parameter that may throw, and \<open>None\<close> is a loop that does not return.
\<close>

section \<open>The local cache manager\<close>

datatype cache_file = Estimates "EstimationResult list" | Unreadable

record local_cache =
  lc_files :: "cache_file obj"
  lc_cachedEstimates :: "EstimationResult list"
  lc_fetchedEstimates :: "EstimationResult list"

definition new_cache :: "cache_file obj \<Rightarrow> local_cache" where
  "new_cache files = \<lparr>lc_files = files, lc_cachedEstimates = [], lc_fetchedEstimates = []\<rparr>"

text \<open>A missing file is created with an empty array; an unreadable one counts as empty.\<close>

definition loadEstimates :: "string \<Rightarrow> local_cache \<Rightarrow> EstimationResult list \<times> local_cache" where
  "loadEstimates file s =
     (case obj_get (lc_files s) file of
        None \<Rightarrow> ([], s\<lparr>lc_files := obj_set (lc_files s) file (Estimates [])\<rparr>)
      | Some (Estimates es) \<Rightarrow> (es, s)
      | Some Unreadable \<Rightarrow> ([], s))"

definition filterEstimatesForRequest :: "date \<Rightarrow> date \<Rightarrow> EstimationResult list \<Rightarrow> EstimationResult list" where
  "filterEstimatesForRequest startDate endDate estimates =
     filter (\<lambda>e. startDate \<le> er_timestamp e \<and> er_timestamp e \<le> endDate) estimates"

definition local_getMissingDates ::
    "moment_ops \<Rightarrow> string \<Rightarrow> date \<Rightarrow> date \<Rightarrow> GroupBy \<Rightarrow> local_cache \<Rightarrow> (date list \<times> local_cache) option" where
  "local_getMissingDates M file startDate endDate grouping s =
     (let (estimates, s1) = loadEstimates file s;
          filteredEstimates = filterEstimatesForRequest startDate endDate estimates;
          s2 = s1\<lparr>lc_cachedEstimates := filteredEstimates\<rparr>
      in case getMissingDates M filteredEstimates startDate endDate grouping of
           None \<Rightarrow> None
         | Some missing \<Rightarrow> Some (missing, s2))"

text \<open>
  \<open>fileHandle\<close> opens a file that exists; errors are logged and leave the file as it is.
\<close>

definition fileHandle :: "string \<Rightarrow> EstimationResult list \<Rightarrow> local_cache \<Rightarrow> local_cache" where
  "fileHandle file estimates s =
     (case obj_get (lc_files s) file of
        None \<Rightarrow> s
      | Some _ \<Rightarrow>
          (let (cachedData, s1) = loadEstimates file s
           in s1\<lparr>lc_files := obj_set (lc_files s1) file
                   (Estimates (mergeEstimates estimates cachedData))\<rparr>))"

definition local_setEstimates :: "string \<Rightarrow> EstimationResult list \<Rightarrow> local_cache \<Rightarrow> local_cache" where
  "local_setEstimates file estimates s =
     (let s1 = s\<lparr>lc_fetchedEstimates := estimates\<rparr>
      in fileHandle file (mergeEstimates estimates (lc_cachedEstimates s1)) s1)"

definition local_getEstimates :: "local_cache \<Rightarrow> EstimationResult list" where
  "local_getEstimates s = lc_cachedEstimates s @ lc_fetchedEstimates s"

section \<open>Requests for the missing dates\<close>

definition group_date :: "moment_ops \<Rightarrow> munit \<Rightarrow> date list list \<Rightarrow> date \<Rightarrow> date list list" where
  "group_date M u acc date =
     (if acc = [] \<or> m_add M (-1) u date \<noteq> last (last acc) then acc @ [[date]]
      else butlast acc @ [last acc @ [date]])"

definition getMissingDataRequests :: "moment_ops \<Rightarrow> GroupBy \<Rightarrow> date list \<Rightarrow> (date \<times> date) list" where
  "getMissingDataRequests M grouping missingDates =
     (let u = munit_of grouping;
          groupMissingDates = foldl (group_date M u) [] missingDates
      in map (\<lambda>g. (hd g, m_endOf M u (last g))) groupMissingDates)"

text \<open>The function that the decorator wraps, on the dates of a request.\<close>

type_synonym get_estimates = "date \<Rightarrow> date \<Rightarrow> EstimationResult list result"

definition getEstimatesForMissingDates ::
    "moment_ops \<Rightarrow> get_estimates \<Rightarrow> GroupBy \<Rightarrow> date list \<Rightarrow> EstimationResult list result" where
  "getEstimatesForMissingDates M getCostAndEstimates grouping missingDates =
     bindR (mapR (\<lambda>(s, e). getCostAndEstimates s e) (getMissingDataRequests M grouping missingDates))
       (\<lambda>rs. Inr (concat rs))"

section \<open>The decorator\<close>

record cache_env =
  ce_moment :: moment_ops
  ce_difference :: "date list \<Rightarrow> date list \<Rightarrow> date list"
  ce_getCostAndEstimates :: get_estimates
  ce_cachePath :: "string option"

record cache_request =
  cq_startDate :: date
  cq_endDate :: date
  cq_grouping :: GroupBy
  cq_ignoreCache :: bool

definition cached_call ::
    "cache_env \<Rightarrow> cache_request \<Rightarrow> local_cache \<Rightarrow> (EstimationResult list result \<times> local_cache) option" where
  "cached_call E q s =
     (let grouping = cq_grouping q;
          file = getCacheFileName (ce_cachePath E) (GroupBy_name grouping);
          fetch = getEstimatesForMissingDates (ce_moment E) (ce_getCostAndEstimates E) grouping
      in case local_getMissingDates (ce_moment E) file (cq_startDate q) (cq_endDate q) grouping s of
           None \<Rightarrow> None
         | Some (missingDates, s1) \<Rightarrow>
             Some
               (if cq_ignoreCache q then (fetch missingDates, s1)
                else if 0 < length missingDates then
                  (case fetch missingDates of
                     Inl e \<Rightarrow> (Inl e, s1)
                   | Inr newEstimates \<Rightarrow>
                       (let s2 =
                              (if 0 < length newEstimates then
                                 (let estimatesToPersist =
                                        fillDates (ce_moment E) (ce_difference E) missingDates
                                          newEstimates grouping
                                  in if 0 < length estimatesToPersist
                                     then local_setEstimates file estimatesToPersist s1 else s1)
                               else s1)
                        in (Inr (concat_estimates (filterCachedEstimates (local_getEstimates s2)) []),
                            s2)))
                else (Inr (concat_estimates (filterCachedEstimates (local_getEstimates s1)) []), s1)))"

section \<open>Facts\<close>

text \<open>The groups are runs of consecutive periods, and together they are the missing dates.\<close>

definition run_of :: "moment_ops \<Rightarrow> munit \<Rightarrow> date list \<Rightarrow> bool" where
  "run_of M u g \<longleftrightarrow> g \<noteq> [] \<and> (\<forall>i. Suc i < length g \<longrightarrow> m_add M (-1) u (g ! Suc i) = g ! i)"

lemma group_date_concat:
  "[] \<notin> set acc \<Longrightarrow> concat (group_date M u acc d) = concat acc @ [d] \<and> [] \<notin> set (group_date M u acc d)"
  by (cases acc rule: rev_cases) (auto simp: group_date_def)

lemma group_date_runs:
  assumes "\<forall>g\<in>set acc. run_of M u g"
  shows "\<forall>g\<in>set (group_date M u acc d). run_of M u g"
proof (cases "acc = [] \<or> m_add M (-1) u d \<noteq> last (last acc)")
  case True
  then show ?thesis using assms by (auto simp: group_date_def run_of_def)
next
  case False
  then obtain us g where acc: "acc = us @ [g]" by (metis rev_exhaust)
  then have g: "run_of M u g" "m_add M (-1) u d = last g" using assms False by auto
  have "run_of M u (g @ [d])"
    unfolding run_of_def
  proof (intro conjI allI impI)
    fix i assume i: "Suc i < length (g @ [d])"
    show "m_add M (-1) u ((g @ [d]) ! Suc i) = (g @ [d]) ! i"
    proof (cases "Suc i < length g")
      case True
      then show ?thesis using g(1) by (simp add: run_of_def nth_append)
    next
      case False
      then have "Suc i = length g" using i by simp
      moreover from this have "length g - Suc 0 = i" by simp
      ultimately show ?thesis using g by (auto simp: nth_append run_of_def last_conv_nth)
    qed
  qed simp
  then show ?thesis using assms False acc by (auto simp: group_date_def)
qed

lemma missing_groups:
  "concat (foldl (group_date M u) [] ds) = ds
   \<and> (\<forall>g\<in>set (foldl (group_date M u) [] ds). run_of M u g)"
proof -
  have "concat (foldl (group_date M u) acc ds) = concat acc @ ds
      \<and> (\<forall>g\<in>set (foldl (group_date M u) acc ds). run_of M u g)"
    if "\<forall>g\<in>set acc. run_of M u g" for acc
    using that
  proof (induction ds arbitrary: acc)
    case Nil
    then show ?case by simp
  next
    case (Cons d ds)
    have "[] \<notin> set acc" using Cons.prems by (auto simp: run_of_def)
    then show ?case
      using Cons.IH [OF group_date_runs [OF Cons.prems]] group_date_concat [of acc M u d] by simp
  qed
  from this [of "[]"] show ?thesis by simp
qed

lemma getMissingDataRequests_Nil: "getMissingDataRequests M grouping [] = []"
  by (simp add: getMissingDataRequests_def)

lemma fetch_nothing: "getEstimatesForMissingDates M f grouping [] = Inr []"
  by (simp add: getEstimatesForMissingDates_def getMissingDataRequests_Nil)

text \<open>What is left out of the answer has no estimates, so the totals do not change.\<close>

lemma filterCached_total: "er_total f (filterCachedEstimates rs) = er_total f rs"
  by (induction rs) (auto simp: filterCachedEstimates_def se_total_def)

lemma concat_estimates_total: "er_total f (concat_estimates as bs) = er_total f as + er_total f bs"
  by (simp add: concat_estimates_def er_total_sort)

lemma answer_total:
  "er_total f (concat_estimates (filterCachedEstimates (local_getEstimates s)) [])
     = er_total f (lc_cachedEstimates s) + er_total f (lc_fetchedEstimates s)"
  by (simp add: concat_estimates_total filterCached_total local_getEstimates_def)

text \<open>The estimates filled in for the dates without data are empty.\<close>

lemma fillDates_total:
  "er_total f (fillDates M difference missing estimates grouping) = er_total f estimates"
proof -
  have "er_total f (map (empty_estimate M grouping) ds) = 0" for ds
    by (induction ds) (simp_all add: empty_estimate_def)
  then show ?thesis by (simp add: fillDates_def er_total_sort Let_def)
qed

lemma fillDates_length: "length estimates \<le> length (fillDates M difference missing estimates grouping)"
  by (simp add: fillDates_def Let_def)

lemma fillDates_times:
  assumes "ramda_difference difference"
  shows "er_timestamp ` set (fillDates M difference missing estimates grouping)
       = set missing \<union> er_timestamp ` set estimates"
proof -
  have "set (difference missing (map er_timestamp estimates))
      = set missing - er_timestamp ` set estimates"
    using ramda_difference.difference_set [OF assms] by simp
  then show ?thesis by (auto simp: fillDates_def Let_def empty_estimate_def image_Un image_image)
qed

lemma fillDates_by_time:
  assumes "ramda_difference difference" and "distinct (map er_timestamp estimates)"
  shows "by_time (fillDates M difference missing estimates grouping)"
proof -
  let ?d = "difference missing (map er_timestamp estimates)"
  let ?es = "map (empty_estimate M grouping) ?d @ estimates"
  have "set ?d \<inter> er_timestamp ` set estimates = {}" "distinct ?d"
    using ramda_difference.difference_set [OF assms(1)]
      ramda_difference.difference_distinct [OF assms(1)] by auto
  then have "distinct (map er_timestamp ?es)"
    using assms(2) by (auto simp: empty_estimate_def comp_def)
  moreover have "mset (map er_timestamp (sort_key er_timestamp ?es)) = mset (map er_timestamp ?es)"
    by (simp only: mset_map mset_sort)
  ultimately have "distinct (map er_timestamp (sort_key er_timestamp ?es))"
    by (metis mset_eq_imp_distinct_iff)
  then show ?thesis
    by (simp add: by_time_def fillDates_def Let_def strict_sorted_iff)
qed

section \<open>What a call answers and keeps\<close>

lemma loadEstimates_fields:
  "loadEstimates file s = (es, s') \<Longrightarrow>
   lc_fetchedEstimates s' = lc_fetchedEstimates s \<and> obj_get (lc_files s') file \<noteq> None"
  by (auto simp: loadEstimates_def obj_get_set split: option.splits cache_file.splits)

lemma local_getMissingDates_cases:
  assumes "local_getMissingDates M file s e grouping c = Some (missing, c1)"
  obtains es c0 where "loadEstimates file c = (es, c0)"
    "c1 = c0\<lparr>lc_cachedEstimates := filterEstimatesForRequest s e es\<rparr>"
    "getMissingDates M (filterEstimatesForRequest s e es) s e grouping = Some missing"
  using assms
  by (auto simp: local_getMissingDates_def Let_def split: prod.splits option.splits)

lemma fileHandle_fetched [simp]: "lc_fetchedEstimates (fileHandle file es c) = lc_fetchedEstimates c"
  "lc_cachedEstimates (fileHandle file es c) = lc_cachedEstimates c"
  by (auto simp: fileHandle_def Let_def loadEstimates_def split: option.splits cache_file.splits)

text \<open>
  The answer to a request adds up what the cache had for its dates and what was fetched last,
  by this request when it fetched something and by an earlier one otherwise.
\<close>

lemma cached_call_answer:
  assumes "cached_call E q c = Some (Inr rs, c')" and "\<not> cq_ignoreCache q"
  obtains missing c1 new where
    "local_getMissingDates (ce_moment E) (getCacheFileName (ce_cachePath E) (GroupBy_name (cq_grouping q)))
       (cq_startDate q) (cq_endDate q) (cq_grouping q) c = Some (missing, c1)"
    "getEstimatesForMissingDates (ce_moment E) (ce_getCostAndEstimates E) (cq_grouping q) missing = Inr new"
    "c' = (if new = [] then c1
           else local_setEstimates (getCacheFileName (ce_cachePath E) (GroupBy_name (cq_grouping q)))
                  (fillDates (ce_moment E) (ce_difference E) missing new (cq_grouping q)) c1)"
    "rs = concat_estimates (filterCachedEstimates (local_getEstimates c')) []"
proof -
  let ?file = "getCacheFileName (ce_cachePath E) (GroupBy_name (cq_grouping q))"
  let ?fetch = "getEstimatesForMissingDates (ce_moment E) (ce_getCostAndEstimates E) (cq_grouping q)"
  from assms(1) obtain missing c1 where m: "local_getMissingDates (ce_moment E) ?file
       (cq_startDate q) (cq_endDate q) (cq_grouping q) c = Some (missing, c1)"
    by (auto simp: cached_call_def Let_def split: option.splits)
  show thesis
  proof (cases "missing = []")
    case True
    with assms m have "c' = c1 \<and> rs = concat_estimates (filterCachedEstimates (local_getEstimates c1)) []"
      by (auto simp: cached_call_def Let_def)
    with True m show thesis using that [of missing c1 "[]"] fetch_nothing by simp
  next
    case False
    with assms m obtain new where new: "?fetch missing = Inr new"
      by (cases "?fetch missing") (auto simp: cached_call_def Let_def)
    have len: "fillDates (ce_moment E) (ce_difference E) missing new (cq_grouping q) \<noteq> []" if "new \<noteq> []"
      using that fillDates_length [of new "ce_moment E" "ce_difference E" missing "cq_grouping q"] by auto
    show thesis
      by (rule that [OF m new]) (use assms m new False len in \<open>auto simp: cached_call_def Let_def\<close>)
  qed
qed

lemma local_getMissingDates_fetched:
  assumes "local_getMissingDates M file s e grouping c = Some (missing, c1)"
  shows "lc_fetchedEstimates c1 = lc_fetchedEstimates c"
  using assms by (rule local_getMissingDates_cases) (use loadEstimates_fields in auto)

lemma cached_call_total:
  assumes "cached_call E q c = Some (Inr rs, c')" and "\<not> cq_ignoreCache q"
  shows "er_total f rs = er_total f (lc_cachedEstimates c') + er_total f (lc_fetchedEstimates c')"
  using assms by (rule cached_call_answer) (simp add: answer_total)

text \<open>With nothing to fetch the answer counts the earlier request's estimates again.\<close>

lemma cached_call_stale:
  assumes "cached_call E q c = Some (Inr rs, c')" and "\<not> cq_ignoreCache q"
    and "local_getMissingDates (ce_moment E) (getCacheFileName (ce_cachePath E)
           (GroupBy_name (cq_grouping q))) (cq_startDate q) (cq_endDate q) (cq_grouping q) c
         = Some ([], c1)"
  shows "er_total f rs = er_total f (lc_cachedEstimates c1) + er_total f (lc_fetchedEstimates c)"
proof -
  from assms(1,2) have "c' = c1"
    by (rule cached_call_answer) (use assms(3) fetch_nothing in auto)
  with cached_call_total [OF assms(1,2)] local_getMissingDates_fetched [OF assms(3)]
  show ?thesis by simp
qed

context moment_calendar
begin

lemma period_start_from: "t \<le> period_start M u t k"
  using period_start_strict [of 0 k u t] by (cases k) auto

lemma aligned_dates:
  assumes "getDatesWithinRequestTimeFrame M grouping s e = Some dates"
    and "m_startOf M (if grouping = week then MIsoWeek else munit_of grouping) s = s"
  shows "\<forall>d\<in>set dates. s \<le> d \<and> d \<le> e"
proof -
  from request_dates [of grouping s e] assms obtain n where
    "dates = map (period_start M (munit_of grouping) s) [0..<n]" by auto
  then have "\<forall>d\<in>set dates. s \<le> d" using period_start_from by auto
  then show ?thesis using dates_strict(2) [OF assms(1)] by blast
qed

text \<open>
  Once a request that starts with a period has fetched and stored its missing dates, the same
  request misses nothing.
\<close>

lemma stored_dates_found:
  assumes "ramda_difference diff"
    and "local_getMissingDates M file s e grouping c = Some (missing, c1)"
    and "m_startOf M (if grouping = week then MIsoWeek else munit_of grouping) s = s"
  shows "\<exists>c2. local_getMissingDates M file s e grouping
      (local_setEstimates file (fillDates M diff missing new grouping) c1) = Some ([], c2)"
proof -
  from assms(2) obtain es c0 where c0: "loadEstimates file c = (es, c0)"
    "c1 = c0\<lparr>lc_cachedEstimates := filterEstimatesForRequest s e es\<rparr>"
    "getMissingDates M (filterEstimatesForRequest s e es) s e grouping = Some missing"
    by (rule local_getMissingDates_cases)
  let ?cached = "filterEstimatesForRequest s e es"
  let ?filled = "fillDates M diff missing new grouping"
  let ?c2 = "local_setEstimates file ?filled c1"
  from missing_dates [of grouping s e ?cached] c0(3) obtain dates where
    dates: "getDatesWithinRequestTimeFrame M grouping s e = Some dates"
    "set missing = set dates - er_timestamp ` set ?cached" by auto
  obtain old c3 where old: "loadEstimates file (c1\<lparr>lc_fetchedEstimates := ?filled\<rparr>) = (old, c3)"
    by (cases "loadEstimates file (c1\<lparr>lc_fetchedEstimates := ?filled\<rparr>)")
  have "obj_get (lc_files c1) file \<noteq> None"
    using loadEstimates_fields [OF c0(1)] c0(2) by simp
  then have kept: "obj_get (lc_files ?c2) file
      = Some (Estimates (mergeEstimates (mergeEstimates ?filled ?cached) old))"
    using old c0(2) by (auto simp: local_setEstimates_def fileHandle_def obj_get_set)
  let ?new = "mergeEstimates (mergeEstimates ?filled ?cached) old"
  have times: "er_timestamp ` set ?new \<supseteq> set missing \<union> er_timestamp ` set ?cached"
    using fillDates_times [OF assms(1), of M missing new grouping]
    by (auto simp: set_mergeEstimates_times)
  have "set dates \<subseteq> er_timestamp ` set ?new" using times dates(2) by blast
  then have "set dates \<subseteq> er_timestamp ` set (filterEstimatesForRequest s e ?new)"
    using aligned_dates [OF dates(1) assms(3)] by (fastforce simp: filterEstimatesForRequest_def)
  moreover obtain missing' where
    "getMissingDates M (filterEstimatesForRequest s e ?new) s e grouping = Some missing'"
    "set missing' = set dates - er_timestamp ` set (filterEstimatesForRequest s e ?new)"
    using missing_dates [of grouping s e "filterEstimatesForRequest s e ?new"] dates(1) by auto
  ultimately have "getMissingDates M (filterEstimatesForRequest s e ?new) s e grouping = Some []"
    by (metis Diff_eq_empty_iff set_empty)
  then show ?thesis using kept
    by (simp add: local_getMissingDates_def loadEstimates_def)
qed

end

end
