(* ===== verification/Aws_Usage_Types.thy ===== *)
theory Aws_Usage_Types
  imports Aws_Instances
begin

text \<open>
  The tables of \<open>packages/aws/src/lib/CostAndUsageTypes.ts\<close> that classify the rows of a cost and
  usage report, in the order of the source.
\<close>

definition SSD_SERVICES :: "string list" where
  "SSD_SERVICES =
    [''AmazonDocDB'',
     ''AmazonDynamoDB'',
     ''AmazonEFS'',
     ''AmazonES'',
     ''AmazonSimpleDB'',
     ''AmazonSageMaker'',
     ''AWSIoTAnalytics'',
     ''AmazonKinesisAnalytics'',
     ''AmazonMQ'',
     ''AmazonECS'',
     ''AmazonLightsail'',
     ''AmazonNeptune'',
     ''AmazonFSx'',
     ''AmazonKinesis'']"

definition SSD_USAGE_TYPES :: "string list" where
  "SSD_USAGE_TYPES =
    [''VolumeUsage.gp2'',
     ''VolumeUsage.io2'',
     ''VolumeUsage.io1'',
     ''VolumeUsage.gp3'',
     ''VolumeUsage.piops'',
     ''GP2-Storage'',
     ''PIOPS-Storage'',
     ''Aurora:StorageUsage'',
     ''Kafka.Storage.GP2'',
     ''ES:Magnetic-Storage'',
     ''TimedPITRStorage-ByteHrs'',
     ''ECS-EC2-GB-Hours'',
     ''Lambda-GB-Second'',
     ''Lambda-Edge-GB-Second'',
     ''RDS:Multi-AZ-StorageUsage'',
     ''Fargate-GB-Hours'',
     ''dc2.large'',
     ''dc2.8xlarge'',
     ''ra3.xlplus'',
     ''ra3.4xlarge'',
     ''ra3.16xlarge'',
     ''Storage.SSD.50'',
     ''Storage.MultiAZ:SSD'',
     ''RDS:GP3-Storage'']"

definition HDD_USAGE_TYPES :: "string list" where
  "HDD_USAGE_TYPES =
    [''VolumeUsage.st1'',
     ''VolumeUsage.sc1'',
     ''VolumeUsage'',
     ''SnapshotUsage'',
     ''TimedStorage-ByteHrs'',
     ''RDS:StorageUsage'',
     ''GlacierByteHrs'',
     ''Aurora:BackupUsage'',
     ''RDS:ChargedBackupUsage'',
     ''TimedStorage-RRS-ByteHrs'',
     ''ElastiCache:BackupUsage'',
     ''BackupUsage'',
     ''Redshift:PaidSnapshots'',
     ''TimedStorage-SIA-ByteHrs'',
     ''EarlyDelete-SIA'',
     ''TimedStorage-GlacierStaging'',
     ''TimedStorage-SIA-SmObjects'',
     ''TimedStorage-GDA-ByteHrs'',
     ''TimedStorage-GDA-Staging'',
     ''TimedStorage-ZIA-ByteHrs'',
     ''TimedStorage-INT-FA-ByteHrs'',
     ''EarlyDelete-GDA'',
     ''ProcessedStorage-ByteHrs'',
     ''EarlyDelete-ZIA'',
     ''EarlyDelete-ByteHrs'',
     ''TimedStorage-ZIA-SmObjects'',
     ''TimedStorage-INT-IA-ByteHrs'',
     ''EarlyDelete-SIA-SmObjects'',
     ''EarlyDelete-ZIA-SmObjects'',
     ''QS-Enterprise-SPICE'',
     ''TimedBackupStorage-ByteHrs'',
     ''DurableApplicationBackups'',
     ''dc1.large'',
     ''dc1.8xlarge'',
     ''ds2.xlarge'',
     ''ds2.8xlarge'',
     ''EU-TimedStorage-GDA-Staging'',
     ''BytesDeleted-STANDARD'',
     ''BytesDeleted-SIA'',
     ''BytesDeleted-INT'',
     ''BytesDeleted-GDA'',
     ''OverwriteBytes-Put-GLACIER'',
     ''OverwriteBytes-Put-RRS'',
     ''BackupUsage.MultiAZ'',
     ''ColdStorage-ByteHrs-EFS'',
     ''WarmStorage-ByteHrs-EFS'',
     ''WarmStorage-ByteHrs-DynamoDB'',
     ''MagneticStore-ByteHrs'',
     ''ColdStorage-ByteHrs-DynamoDB'',
     ''WarmStorage-ByteHrs-S3'',
     ''AMP:MetricStorageByteHrs'',
     ''TimedStorage-INT-AIA-ByteHrs'',
     ''TimedStorage-GIR-ByteHrs'']"

definition NETWORKING_USAGE_TYPES :: "string list" where
  "NETWORKING_USAGE_TYPES =
    [''AWS-Out-Bytes'',
     ''DataTransfer-Out-Bytes'',
     ''DataTransfer-Regional-Bytes'',
     ''TotalDataXfer-Out-Bytes'',
     ''Egress-Bytes'',
     ''UploadBytes'',
     ''UPLOAD'',
     ''ExportDataSize-Bytes'',
     ''DOWNLOAD'',
     ''Data-Bytes-Out'',
     ''VpcEndpoint-Bytes'',
     ''TransitGateway-Bytes'',
     ''Retrieval'',
     ''BilledBytes'']"

definition BYTE_HOURS_USAGE_TYPES :: "string list" where
  "BYTE_HOURS_USAGE_TYPES =
    [''ByteHrs'',
     ''SmObjects'',
     ''EarlyDelete-GDA'',
     ''EarlyDelete-SIA'',
     ''EarlyDelete-ZIA'',
     ''GlacierByteHrs'',
     ''ByteHrs-EFS'',
     ''ByteHrs-DynamoDB'']"

definition UNKNOWN_USAGE_TYPES :: "string list" where
  "UNKNOWN_USAGE_TYPES =
    [''AmazonEKS-Hours:perCluster'',
     ''SoftwareUsage'',
     ''BundleUsage'',
     ''Small-Directory-Usage'',
     ''Std-MicrosoftAD-DC-Usage'',
     ''InactivePipelines'',
     ''Lambda-Provisioned'',
     ''ets-hd-success'',
     ''ets-sd-success'',
     ''BuildDuration'',
     ''Build-Min'',
     ''AW-HW-User-Usage'',
     ''TransitGateway-Hours'',
     ''VpcEndpoint-Hours'',
     ''VPN-Usage-Hours'',
     ''NatGateway-Hours'',
     ''NatGateway-Bytes'',
     ''LoadBalancerUsage'',
     ''IdleAddress'',
     ''UnusedStaticIP'',
     ''AdditionalAddress'',
     ''ResolverNetworkInterface'',
     ''DataScanned'',
     ''FastSnapshotRestore'',
     ''GMD-Metrics'',
     ''Dollar'',
     ''Airflow-SmallEnvironment'',
     ''MemoryStore-ByteHrs'',
     ''Output-SD-Hours'',
     ''Output-HD-Hours'',
     ''Output-FullHD-Hours'',
     ''Input-Standard-Hours'',
     ''Airflow-SmallWorker'',
     ''AppRunner-Provisioned-GB-hours'',
     ''ApiGatewayCacheUsage'',
     ''PortUsage'',
     ''SharedMsftAD-Usage'',
     ''Kafka.mcu.general'',
     ''SnapshotArchiveStorage'',
     ''PaidPrivateCA'',
     ''Firehose-VpcDelivery-Hours'',
     ''Airflow-MediumEnvironment'',
     ''IPAddressManager-IP-Hours'',
     ''Gateway:VTL-Storage'',
     ''Aurora:ServerlessV2Usage'']"

definition UNSUPPORTED_USAGE_TYPES :: "string list" where
  "UNSUPPORTED_USAGE_TYPES =
    [''EMR-EKS-EC2-GBHours'',
     ''APS3-EMR-EKS-EC2-vCPUHours'',
     ''ECS-EC2-GB-Hours'',
     ''ECS-EC2-vCPU-Hours'',
     ''Dollar'',
     ''HostBoxUsage'']"

definition LINE_ITEM_TYPES :: "string list" where
  "LINE_ITEM_TYPES =
    [''Usage'',
     ''DiscountedUsage'',
     ''SavingsPlanCoveredUsage'']"

datatype KNOWN_USAGE_UNITS =
    HOURS_1
  | HOURS_2
  | HOURS_3
  | VCPU_HOURS
  | DPU_HOUR
  | ACU_HOUR
  | GB_HOURS
  | GB_MONTH_1
  | GB_MONTH_2
  | GB_MONTH_3
  | GB_MONTH_4
  | GB_1
  | GB_2
  | SECONDS_1
  | SECONDS_2
  | LAMBDA_SECONDS

fun usage_unit_name :: "KNOWN_USAGE_UNITS \<Rightarrow> string" where
  "usage_unit_name HOURS_1 = ''Hrs''"
| "usage_unit_name HOURS_2 = ''Hours''"
| "usage_unit_name HOURS_3 = ''hours''"
| "usage_unit_name VCPU_HOURS = ''vCPU-Hours''"
| "usage_unit_name DPU_HOUR = ''DPU-Hour''"
| "usage_unit_name ACU_HOUR = ''ACU-Hr''"
| "usage_unit_name GB_HOURS = ''GB-Hours''"
| "usage_unit_name GB_MONTH_1 = ''GB-Mo''"
| "usage_unit_name GB_MONTH_2 = ''GB-Month''"
| "usage_unit_name GB_MONTH_3 = ''GB-Mp''"
| "usage_unit_name GB_MONTH_4 = ''GB-month''"
| "usage_unit_name GB_1 = ''GB''"
| "usage_unit_name GB_2 = ''GigaBytes''"
| "usage_unit_name SECONDS_1 = ''seconds''"
| "usage_unit_name SECONDS_2 = ''Second''"
| "usage_unit_name LAMBDA_SECONDS = ''Lambda-GB-Second''"

definition all_usage_units :: "KNOWN_USAGE_UNITS list" where
  "all_usage_units = [HOURS_1,
     HOURS_2,
     HOURS_3,
     VCPU_HOURS,
     DPU_HOUR,
     ACU_HOUR,
     GB_HOURS,
     GB_MONTH_1,
     GB_MONTH_2,
     GB_MONTH_3,
     GB_MONTH_4,
     GB_1,
     GB_2,
     SECONDS_1,
     SECONDS_2,
     LAMBDA_SECONDS]"

definition AWS_QUERY_GROUP_BY :: "GroupBy \<Rightarrow> string" where
  "AWS_QUERY_GROUP_BY grouping =
     (case grouping of day \<Rightarrow> ''day'' | week \<Rightarrow> ''week'' | month \<Rightarrow> ''month''
      | quarter \<Rightarrow> ''quarter'' | year \<Rightarrow> ''year'')"

end
