(* ===== verification/Aws_Constants.thy ===== *)
theory Aws_Constants
  imports Aws_Usage_Types
begin

text \<open>
  \<open>packages/aws/src/domain/AwsFootprintEstimationConstants.ts\<close> and the regions of
  \<open>packages/aws/src/lib/AWSRegions.ts\<close>. The store of kilowatt hours that the
  source keeps in \<open>AWS_CLOUD_CONSTANTS\<close> is state and starts as \<open>initial_store\<close>.
\<close>

section \<open>Regions\<close>

datatype AWS_REGIONS =
    US_EAST_1
  | US_EAST_2
  | US_WEST_1
  | US_WEST_2
  | AF_SOUTH_1
  | AP_EAST_1
  | AP_SOUTH_1
  | AP_NORTHEAST_3
  | AP_NORTHEAST_2
  | AP_SOUTHEAST_1
  | AP_SOUTHEAST_2
  | AP_NORTHEAST_1
  | AP_SOUTHEAST_3
  | CA_CENTRAL_1
  | CN_NORTH_1
  | CN_NORTHWEST_1
  | EU_CENTRAL_1
  | EU_WEST_1
  | EU_WEST_2
  | EU_SOUTH_1
  | EU_WEST_3
  | EU_NORTH_1
  | ME_SOUTH_1
  | ME_CENTRAL_1
  | SA_EAST_1
  | US_GOV_EAST_1
  | US_GOV_WEST_1
  | AWS_UNKNOWN

fun aws_region :: "AWS_REGIONS \<Rightarrow> string" where
  "aws_region US_EAST_1 = ''us-east-1''"
| "aws_region US_EAST_2 = ''us-east-2''"
| "aws_region US_WEST_1 = ''us-west-1''"
| "aws_region US_WEST_2 = ''us-west-2''"
| "aws_region AF_SOUTH_1 = ''af-south-1''"
| "aws_region AP_EAST_1 = ''ap-east-1''"
| "aws_region AP_SOUTH_1 = ''ap-south-1''"
| "aws_region AP_NORTHEAST_3 = ''ap-northeast-3''"
| "aws_region AP_NORTHEAST_2 = ''ap-northeast-2''"
| "aws_region AP_SOUTHEAST_1 = ''ap-southeast-1''"
| "aws_region AP_SOUTHEAST_2 = ''ap-southeast-2''"
| "aws_region AP_NORTHEAST_1 = ''ap-northeast-1''"
| "aws_region AP_SOUTHEAST_3 = ''ap-southeast-3''"
| "aws_region CA_CENTRAL_1 = ''ca-central-1''"
| "aws_region CN_NORTH_1 = ''cn-north-1''"
| "aws_region CN_NORTHWEST_1 = ''cn-northwest-1''"
| "aws_region EU_CENTRAL_1 = ''eu-central-1''"
| "aws_region EU_WEST_1 = ''eu-west-1''"
| "aws_region EU_WEST_2 = ''eu-west-2''"
| "aws_region EU_SOUTH_1 = ''eu-south-1''"
| "aws_region EU_WEST_3 = ''eu-west-3''"
| "aws_region EU_NORTH_1 = ''eu-north-1''"
| "aws_region ME_SOUTH_1 = ''me-south-1''"
| "aws_region ME_CENTRAL_1 = ''me-central-1''"
| "aws_region SA_EAST_1 = ''sa-east-1''"
| "aws_region US_GOV_EAST_1 = ''us-gov-east-1''"
| "aws_region US_GOV_WEST_1 = ''us-gov-west-1''"
| "aws_region AWS_UNKNOWN = ''Unknown''"

definition AWS_MAPPED_REGION_NAMES_TO_CODES :: "string obj" where
  "AWS_MAPPED_REGION_NAMES_TO_CODES =
    [(''US East (Ohio)'', aws_region US_EAST_2),
     (''US East (N. Virginia)'', aws_region US_EAST_1),
     (''US West (N. California)'', aws_region US_WEST_1),
     (''US West (Oregon)'', aws_region US_WEST_2),
     (''Africa (Cape Town)'', aws_region AF_SOUTH_1),
     (''Asia Pacific (Hong Kong)'', aws_region AP_EAST_1),
     (''Asia Pacific (Mumbai)'', aws_region AP_SOUTH_1),
     (''Asia Pacific (Osaka)'', aws_region AP_NORTHEAST_3),
     (''Asia Pacific (Seoul)'', aws_region AP_NORTHEAST_2),
     (''Asia Pacific (Singapore)'', aws_region AP_SOUTHEAST_1),
     (''Asia Pacific (Sydney)'', aws_region AP_SOUTHEAST_2),
     (''Asia Pacific (Tokyo)'', aws_region AP_NORTHEAST_1),
     (''Asia Pacific (Jakarta)'', aws_region AP_SOUTHEAST_3),
     (''Canada (Central)'', aws_region CA_CENTRAL_1),
     (''EU (Frankfurt)'', aws_region EU_CENTRAL_1),
     (''EU (Ireland)'', aws_region EU_WEST_1),
     (''EU (London)'', aws_region EU_WEST_2),
     (''EU (Milan)'', aws_region EU_SOUTH_1),
     (''EU (Paris)'', aws_region EU_WEST_3),
     (''EU (Stockholm)'', aws_region EU_NORTH_1),
     (''Middle East (Bahrain)'', aws_region ME_SOUTH_1),
     (''Middle East (UAE)'', aws_region ME_CENTRAL_1),
     (''South America (Sao Paulo)'', aws_region SA_EAST_1),
     (''AWS GovCloud (US-East)'', aws_region US_GOV_EAST_1),
     (''AWS GovCloud (US-West)'', aws_region US_GOV_WEST_1),
     (''China (Beijing)'', aws_region CN_NORTH_1),
     (''China (Ningxia)'', aws_region CN_NORTHWEST_1)]"

definition AWS_MAPPED_REGIONS_TO_ELECTRICITY_MAPS_ZONES :: zone_map where
  "AWS_MAPPED_REGIONS_TO_ELECTRICITY_MAPS_ZONES =
    [(aws_region US_EAST_1, Some ''US-MIDA-PJM''),
     (aws_region US_EAST_2, Some ''US-MIDA-PJM''),
     (aws_region US_WEST_1, Some ''US-CAL-CISO''),
     (aws_region US_WEST_2, Some ''US-NW-PACW''),
     (aws_region AF_SOUTH_1, Some ''ZA''),
     (aws_region AP_EAST_1, None),
     (aws_region AP_SOUTH_1, Some ''IN-WE''),
     (aws_region AP_NORTHEAST_3, Some ''JP-KN''),
     (aws_region AP_NORTHEAST_2, Some ''KR''),
     (aws_region AP_SOUTHEAST_1, Some ''SG''),
     (aws_region AP_SOUTHEAST_2, Some ''AU-NSW''),
     (aws_region AP_NORTHEAST_1, Some ''JP-TK''),
     (aws_region AP_SOUTHEAST_3, Some ''ID''),
     (aws_region CA_CENTRAL_1, Some ''CA-QC''),
     (aws_region CN_NORTH_1, None),
     (aws_region CN_NORTHWEST_1, None),
     (aws_region EU_CENTRAL_1, Some ''DE''),
     (aws_region EU_WEST_1, Some ''IE''),
     (aws_region EU_WEST_2, Some ''GB''),
     (aws_region EU_SOUTH_1, Some ''IT-NO''),
     (aws_region EU_WEST_3, Some ''FR''),
     (aws_region EU_NORTH_1, Some ''SE-SE3''),
     (aws_region ME_SOUTH_1, None),
     (aws_region ME_CENTRAL_1, None),
     (aws_region SA_EAST_1, Some ''BR-CS''),
     (aws_region US_GOV_EAST_1, Some ''US-MIDA-PJM''),
     (aws_region US_GOV_WEST_1, Some ''US-NW-PACW''),
     (aws_region AWS_UNKNOWN, None)]"

section \<open>Emissions factors\<close>

definition AWS_EMISSIONS_FACTORS_METRIC_TON_PER_KWH :: emissions_factors where
  "AWS_EMISSIONS_FACTORS_METRIC_TON_PER_KWH =
    [(aws_region US_EAST_1, nerc_factor ''SERC''),
     (aws_region US_EAST_2, nerc_factor ''RFC''),
     (aws_region US_WEST_1, nerc_factor ''WECC''),
     (aws_region US_WEST_2, nerc_factor ''WECC''),
     (aws_region US_GOV_EAST_1, nerc_factor ''SERC''),
     (aws_region US_GOV_WEST_1, nerc_factor ''WECC''),
     (aws_region AF_SOUTH_1, Fin 0.0009006),
     (aws_region AP_EAST_1, Fin 0.00071),
     (aws_region AP_SOUTH_1, Fin 0.0007082),
     (aws_region AP_NORTHEAST_3, Fin 0.0004658),
     (aws_region AP_NORTHEAST_2, Fin 0.0004156),
     (aws_region AP_SOUTHEAST_1, Fin 0.000408),
     (aws_region AP_SOUTHEAST_2, Fin 0.00076),
     (aws_region AP_SOUTHEAST_3, Fin 0.0007177),
     (aws_region AP_NORTHEAST_1, Fin 0.0004658),
     (aws_region CA_CENTRAL_1, Fin 0.00012),
     (aws_region CN_NORTH_1, Fin 0.0005374),
     (aws_region CN_NORTHWEST_1, Fin 0.0005374),
     (aws_region EU_CENTRAL_1, Fin 0.000311),
     (aws_region EU_WEST_1, Fin 0.0002786),
     (aws_region EU_WEST_2, Fin 0.000225),
     (aws_region EU_SOUTH_1, Fin 0.0002134),
     (aws_region EU_WEST_3, Fin 0.0000511),
     (aws_region EU_NORTH_1, Fin 0.0000088),
     (aws_region ME_SOUTH_1, Fin 0.0005059),
     (aws_region ME_CENTRAL_1, Fin 0.0004041),
     (aws_region SA_EAST_1, Fin 0.0000617),
     (aws_region AWS_UNKNOWN, Fin 0.00039278188)]"

section \<open>Constants\<close>

definition aws_SSDCOEFFICIENT :: jsnum where
  "aws_SSDCOEFFICIENT = Fin 1.2"

definition aws_HDDCOEFFICIENT :: jsnum where
  "aws_HDDCOEFFICIENT = Fin 0.65"

definition aws_MEMORY_AVG :: jsnum where
  "aws_MEMORY_AVG = Fin 80.69"

definition aws_MIN_WATTS_AVG :: jsnum where
  "aws_MIN_WATTS_AVG = Fin 0.74"

definition aws_MAX_WATTS_AVG :: jsnum where
  "aws_MAX_WATTS_AVG = Fin 3.5"

definition aws_NETWORKING_COEFFICIENT :: jsnum where
  "aws_NETWORKING_COEFFICIENT = Fin 0.001"

definition aws_MEMORY_COEFFICIENT :: jsnum where
  "aws_MEMORY_COEFFICIENT = Fin 0.000392"

definition aws_PUE_AVG :: jsnum where
  "aws_PUE_AVG = Fin 1.135"

definition aws_AVG_CPU_UTILIZATION_2020 :: jsnum where
  "aws_AVG_CPU_UTILIZATION_2020 = Fin 50"

definition aws_SERVER_EXPECTED_LIFESPAN :: jsnum where
  "aws_SERVER_EXPECTED_LIFESPAN = Fin 35040"

definition aws_ESTIMATE_UNKNOWN_USAGE_BY :: EstimateUnknownUsageBy where
  "aws_ESTIMATE_UNKNOWN_USAGE_BY = EU_COST"

definition aws_memory_by_processor :: "COMPUTE_PROCESSOR_TYPES \<Rightarrow> jsnum option" where
  "aws_memory_by_processor p =
    map_option Fin (map_of
    [(CASCADE_LAKE, 98.12),
     (SKYLAKE, 81.32),
     (BROADWELL, 69.65),
     (HASWELL, 27.71),
     (COFFEE_LAKE, 19.56),
     (SANDY_BRIDGE, 16.7),
     (IVY_BRIDGE, 9.67),
     (AMD_EPYC_1ST_GEN, 89.6),
     (AMD_EPYC_2ND_GEN, 129.78),
     (AWS_GRAVITON_2, 129.78)] p)"

definition aws_min_watts_by_processor :: "COMPUTE_PROCESSOR_TYPES \<Rightarrow> jsnum option" where
  "aws_min_watts_by_processor p =
    map_option Fin (map_of
    [(CASCADE_LAKE, 0.64),
     (SKYLAKE, 0.65),
     (BROADWELL, 0.71),
     (HASWELL, 1),
     (COFFEE_LAKE, 1.14),
     (SANDY_BRIDGE, 2.17),
     (IVY_BRIDGE, 3.04),
     (AMD_EPYC_1ST_GEN, 0.82),
     (AMD_EPYC_2ND_GEN, 0.47),
     (AWS_GRAVITON_2, 0.47),
     (NVIDIA_K520, 26),
     (NVIDIA_A10G, 18),
     (NVIDIA_T4, 8),
     (NVIDIA_TESLA_M60, 35),
     (NVIDIA_TESLA_K80, 35),
     (NVIDIA_TESLA_V100, 35),
     (NVIDIA_TESLA_A100, 46),
     (NVIDIA_TESLA_P4, 9),
     (NVIDIA_TESLA_P100, 36),
     (AMD_RADEON_PRO_V520, 26)] p)"

definition aws_max_watts_by_processor :: "COMPUTE_PROCESSOR_TYPES \<Rightarrow> jsnum option" where
  "aws_max_watts_by_processor p =
    map_option Fin (map_of
    [(CASCADE_LAKE, 3.97),
     (SKYLAKE, 4.26),
     (BROADWELL, 3.69),
     (HASWELL, 4.74),
     (COFFEE_LAKE, 5.42),
     (SANDY_BRIDGE, 8.58),
     (IVY_BRIDGE, 8.25),
     (AMD_EPYC_1ST_GEN, 2.55),
     (AMD_EPYC_2ND_GEN, 1.69),
     (AWS_GRAVITON_2, 1.69),
     (NVIDIA_K520, 229),
     (NVIDIA_A10G, 153),
     (NVIDIA_T4, 71),
     (NVIDIA_TESLA_M60, 306),
     (NVIDIA_TESLA_K80, 306),
     (NVIDIA_TESLA_V100, 306),
     (NVIDIA_TESLA_A100, 407),
     (NVIDIA_TESLA_P4, 76.5),
     (NVIDIA_TESLA_P100, 306),
     (AMD_RADEON_PRO_V520, 229)] p)"

record aws_replication_factors =
  rf_S3 :: jsnum
  rf_S3_ONE_ZONE_REDUCED_REDUNDANCY :: jsnum
  rf_EC2_EBS_VOLUME :: jsnum
  rf_EC2_EBS_SNAPSHOT :: jsnum
  rf_EFS :: jsnum
  rf_EFS_ONE_ZONE :: jsnum
  rf_RDS_BACKUP :: jsnum
  rf_RDS_AURORA :: jsnum
  rf_RDS_MULTI_AZ :: jsnum
  rf_DOCUMENT_DB_BACKUP :: jsnum
  rf_DOCUMENT_DB_STORAGE :: jsnum
  rf_DYNAMO_DB :: jsnum
  rf_ECR_STORAGE :: jsnum
  rf_DOCUMENT_ELASTICACHE_BACKUP :: jsnum
  rf_SIMPLE_DB :: jsnum
  rf_DEFAULT :: jsnum

definition REPLICATION_FACTORS :: aws_replication_factors where
  "REPLICATION_FACTORS =
    \<lparr>rf_S3 = Fin 6,
     rf_S3_ONE_ZONE_REDUCED_REDUNDANCY = Fin 2,
     rf_EC2_EBS_VOLUME = Fin 2,
     rf_EC2_EBS_SNAPSHOT = Fin 3,
     rf_EFS = Fin 3,
     rf_EFS_ONE_ZONE = Fin 2,
     rf_RDS_BACKUP = Fin 3,
     rf_RDS_AURORA = Fin 6,
     rf_RDS_MULTI_AZ = Fin 2,
     rf_DOCUMENT_DB_BACKUP = Fin 3,
     rf_DOCUMENT_DB_STORAGE = Fin 2,
     rf_DYNAMO_DB = Fin 2,
     rf_ECR_STORAGE = Fin 3,
     rf_DOCUMENT_ELASTICACHE_BACKUP = Fin 3,
     rf_SIMPLE_DB = Fin 2,
     rf_DEFAULT = Fin 1\<rparr>"

text \<open>\<open>x ? x : d\<close> on a number that may be \<open>undefined\<close> is \<open>or_num x d\<close>.\<close>

definition aws_getMemory :: "COMPUTE_PROCESSOR_TYPES list \<Rightarrow> jsnum" where
  "aws_getMemory computeProcessors =
     or_num (getAverage (map aws_memory_by_processor computeProcessors)) aws_MEMORY_AVG"

definition aws_getMinWatts ::
    "(jsnum option list \<Rightarrow> jsnum) \<Rightarrow> COMPUTE_PROCESSOR_TYPES list \<Rightarrow> jsnum" where
  "aws_getMinWatts median computeProcessors =
     or_num (getWattsByAverageOrMedian median computeProcessors
               (map aws_min_watts_by_processor computeProcessors)) aws_MIN_WATTS_AVG"

definition aws_getMaxWatts ::
    "(jsnum option list \<Rightarrow> jsnum) \<Rightarrow> COMPUTE_PROCESSOR_TYPES list \<Rightarrow> jsnum" where
  "aws_getMaxWatts median computeProcessors =
     or_num (getWattsByAverageOrMedian median computeProcessors
               (map aws_max_watts_by_processor computeProcessors)) aws_MAX_WATTS_AVG"

definition aws_getPUE :: "string \<Rightarrow> jsnum" where
  "aws_getPUE region = aws_PUE_AVG"

lemmas aws_number_defs = aws_SSDCOEFFICIENT_def aws_HDDCOEFFICIENT_def aws_MEMORY_AVG_def
  aws_MIN_WATTS_AVG_def aws_MAX_WATTS_AVG_def aws_NETWORKING_COEFFICIENT_def
  aws_MEMORY_COEFFICIENT_def aws_PUE_AVG_def aws_AVG_CPU_UTILIZATION_2020_def
  aws_SERVER_EXPECTED_LIFESPAN_def aws_getPUE_def

end
