(* ===== verification/App_Main.thy ===== *)
theory App_Main
  imports App_Cache Aws_Constants
begin

text \<open>
  \<open>packages/app/src/App.ts\<close>: the estimates of every provider that the configuration includes,
  joined by period, and the emissions factors of all regions. What an account of a provider
  returns is a parameter: it may throw, may not return and may change the state \<open>'g\<close> of the
  provider modules. The flags \<open>INCLUDE_ESTIMATES\<close> are state too, because \<open>configLoader\<close> returns
  the one configuration object that \<open>includeCloudProviders\<close> writes to.
\<close>

section \<open>The accounts and the configuration\<close>

type_synonym 'g dated_estimates = "date \<Rightarrow> date \<Rightarrow> GroupBy \<Rightarrow> ('g, EstimationResult list) act"

record 'g account_services =
  as_awsBilling :: "'g dated_estimates"
  as_awsAccount :: "account \<Rightarrow> 'g dated_estimates"
  as_gcpBilling :: "'g dated_estimates"
  as_gcpProject :: "account \<Rightarrow> 'g dated_estimates"
  as_azureInit :: "(string \<times> string option) option \<Rightarrow> ('g, unit) act"
  as_azureConsumption :: "string list option \<Rightarrow> string option \<Rightarrow> 'g dated_estimates"
  as_ali :: "'g dated_estimates"

text \<open>What the configuration has besides the flags; an \<open>accessKeyId\<close> may be missing or empty.\<close>

record app_config =
  cf_testMode :: bool
  cf_awsBilling :: bool
  cf_awsAccounts :: "account list"
  cf_gcpBilling :: bool
  cf_gcpProjects :: "account list"
  cf_azureBilling :: bool
  cf_aliAccessKeyId :: "string option"

record app_request =
  ar_startDate :: date
  ar_endDate :: date
  ar_groupBy :: GroupBy
  ar_accounts :: "string list option"
  ar_cloudProviderToSeed :: "seed_param option"
  ar_tenantId :: "string option"
  ar_accessToken :: "string option"

section \<open>getCostAndEstimates\<close>

definition aws_estimates ::
    "'g account_services \<Rightarrow> app_config \<Rightarrow> include_flags \<Rightarrow> app_request \<Rightarrow>
     ('g, EstimationResult list list) act" where
  "aws_estimates S C fl q =
     (if inc_AWS fl then
        if cf_awsBilling C then
          bindA (as_awsBilling S (ar_startDate q) (ar_endDate q) (ar_groupBy q)) (\<lambda>es. retA [es])
        else
          mapA (\<lambda>a. as_awsAccount S a (ar_startDate q) (ar_endDate q) (ar_groupBy q)) (cf_awsAccounts C)
      else retA [])"

definition gcp_estimates ::
    "'g account_services \<Rightarrow> app_config \<Rightarrow> include_flags \<Rightarrow> app_request \<Rightarrow>
     ('g, EstimationResult list list) act" where
  "gcp_estimates S C fl q =
     (if inc_GCP fl then
        if cf_gcpBilling C then
          bindA (as_gcpBilling S (ar_startDate q) (ar_endDate q) (ar_groupBy q)) (\<lambda>es. retA [es])
        else
          mapA (\<lambda>a. as_gcpProject S a (ar_startDate q) (ar_endDate q) (ar_groupBy q)) (cf_gcpProjects C)
      else retA [])"

definition azure_estimates ::
    "'g account_services \<Rightarrow> app_config \<Rightarrow> include_flags \<Rightarrow> app_request \<Rightarrow>
     ('g, EstimationResult list list) act" where
  "azure_estimates S C fl q =
     (if inc_AZURE fl \<and> cf_azureBilling C then
        bindA (as_azureInit S
                 (case ar_tenantId q of
                    Some t \<Rightarrow> if t = [] then None else Some (t, ar_accessToken q)
                  | None \<Rightarrow> None)) (\<lambda>_.
        bindA (as_azureConsumption S (ar_accounts q) (ar_tenantId q)
                 (ar_startDate q) (ar_endDate q) (ar_groupBy q)) (\<lambda>es.
          retA [es]))
      else retA [])"

definition ali_estimates ::
    "'g account_services \<Rightarrow> app_config \<Rightarrow> include_flags \<Rightarrow> app_request \<Rightarrow>
     ('g, EstimationResult list list) act" where
  "ali_estimates S C fl q =
     (if inc_ALI fl \<and> nonempty (cf_aliAccessKeyId C) \<noteq> None then
        bindA (as_ali S (ar_startDate q) (ar_endDate q) (ar_groupBy q)) (\<lambda>es. retA [es])
      else retA [])"

definition provider_estimates ::
    "'g account_services \<Rightarrow> app_config \<Rightarrow> include_flags \<Rightarrow> app_request \<Rightarrow>
     ('g, EstimationResult list) act" where
  "provider_estimates S C fl q =
     bindA (aws_estimates S C fl q) (\<lambda>aws.
     bindA (gcp_estimates S C fl q) (\<lambda>gcp.
     bindA (azure_estimates S C fl q) (\<lambda>azure.
     bindA (ali_estimates S C fl q) (\<lambda>ali.
       retA (concat aws @ concat gcp @ concat azure @ concat ali)))))"

definition App_getCostAndEstimates ::
    "moment_ops \<Rightarrow> (EstimationResult option, EstimationResult) reduce_by \<Rightarrow> 'g account_services \<Rightarrow>
     app_config \<Rightarrow> app_request \<Rightarrow> (include_flags \<times> 'g, EstimationResult list) act" where
  "App_getCostAndEstimates M reduceBy S C q =
     (\<lambda>(flags, g).
        case includeCloudProviders (ar_cloudProviderToSeed q) flags of
          Inl e \<Rightarrow> Some (Inl e, (flags, g))
        | Inr fl \<Rightarrow>
            if cf_testMode C then Some (Inr [], (fl, g))
            else
              (case provider_estimates S C fl q g of
                 None \<Rightarrow> None
               | Some (Inl e, g') \<Rightarrow> Some (Inl e, (fl, g'))
               | Some (Inr es, g') \<Rightarrow> Some (Inr (reduceByTimestamp M reduceBy es), (fl, g'))))"

section \<open>getEmissionsFactors\<close>

record EmissionRatioResult =
  em_cloudProvider :: string
  em_region :: string
  em_mtPerKwHour :: jsnum

definition provider_factors ::
    "emissions_factors \<Rightarrow> emissions_factors \<Rightarrow> emissions_factors \<Rightarrow> emissions_factors obj" where
  "provider_factors gcp azure ali =
     [(''AWS'', AWS_EMISSIONS_FACTORS_METRIC_TON_PER_KWH), (''GCP'', gcp), (''AZURE'', azure),
      (''ALI'', ali)]"

definition App_getEmissionsFactors :: "emissions_factors obj \<Rightarrow> EmissionRatioResult list" where
  "App_getEmissionsFactors providers =
     foldl (\<lambda>emissionDataResult (cloudProvider, emissionsFactors).
         foldl (\<lambda>acc region.
             acc @ [\<lparr>em_cloudProvider = cloudProvider, em_region = region,
                     em_mtPerKwHour = toNum (obj_get emissionsFactors region)\<rparr>])
           emissionDataResult (obj_keys emissionsFactors))
       [] providers"

section \<open>Facts\<close>

text \<open>A provider whose flag is off is not asked, and nothing changes.\<close>

lemma excluded [simp]:
  "\<not> inc_AWS fl \<Longrightarrow> aws_estimates S C fl q = retA []"
  "\<not> inc_GCP fl \<Longrightarrow> gcp_estimates S C fl q = retA []"
  "\<not> inc_AZURE fl \<Longrightarrow> azure_estimates S C fl q = retA []"
  "\<not> inc_ALI fl \<Longrightarrow> ali_estimates S C fl q = retA []"
  by (simp_all add: aws_estimates_def gcp_estimates_def azure_estimates_def ali_estimates_def)

lemma provider_estimates_parts:
  assumes "provider_estimates S C fl q g = Some (Inr es, g')"
  obtains aws gcp azure ali g1 g2 g3 where
    "aws_estimates S C fl q g = Some (Inr aws, g1)"
    "gcp_estimates S C fl q g1 = Some (Inr gcp, g2)"
    "azure_estimates S C fl q g2 = Some (Inr azure, g3)"
    "ali_estimates S C fl q g3 = Some (Inr ali, g')"
    "es = concat aws @ concat gcp @ concat azure @ concat ali"
  using assms by (auto simp: provider_estimates_def bindA_eq_Inr)

text \<open>After a seeded request only the seeded provider, and Ali, are included.\<close>

lemma seeded_flags:
  assumes "s \<noteq> []"
  shows "includeCloudProviders (Some (SeedText s)) fl
       = Inr (fl\<lparr>inc_AWS := (''AWS'' = toUpperCase s), inc_GCP := (''GCP'' = toUpperCase s),
                 inc_AZURE := (''AZURE'' = toUpperCase s)\<rparr>)"
  using assms by (simp add: includeCloudProviders_def)

lemma unseeded_flags: "includeCloudProviders None fl = Inr fl"
  by (simp add: includeCloudProviders_def)

lemma App_getCostAndEstimates_flags:
  assumes "App_getCostAndEstimates M reduceBy S C q (flags, g) = Some (r, (flags', g'))"
    and "includeCloudProviders (ar_cloudProviderToSeed q) flags = Inr fl"
  shows "flags' = fl"
  using assms
  by (auto simp: App_getCostAndEstimates_def split: if_splits option.splits prod.splits sum.splits)

lemma App_getCostAndEstimates_Inr:
  assumes "App_getCostAndEstimates M reduceBy S C q (flags, g) = Some (Inr rs, (flags', g'))"
    and "\<not> cf_testMode C"
  obtains es where "includeCloudProviders (ar_cloudProviderToSeed q) flags = Inr flags'"
    "provider_estimates S C flags' q g = Some (Inr es, g')" "rs = reduceByTimestamp M reduceBy es"
  using assms
  by (auto simp: App_getCostAndEstimates_def split: option.splits prod.splits sum.splits)

lemma App_getEmissionsFactors_eq:
  "App_getEmissionsFactors providers
     = concat (map (\<lambda>(p, fs). map (\<lambda>r. \<lparr>em_cloudProvider = p, em_region = r,
                                         em_mtPerKwHour = toNum (obj_get fs r)\<rparr>) (obj_keys fs)) providers)"
proof -
  have inner: "foldl (\<lambda>acc r. acc @ [f r]) acc rs = acc @ map f rs"
    for f :: "string \<Rightarrow> EmissionRatioResult" and acc rs
    by (induction rs arbitrary: acc) simp_all
  have "foldl (\<lambda>out (p, fs). out @ map (h p fs) (obj_keys fs)) out ps
      = out @ concat (map (\<lambda>(p, fs). map (h p fs) (obj_keys fs)) ps)"
    for h :: "string \<Rightarrow> emissions_factors \<Rightarrow> string \<Rightarrow> EmissionRatioResult" and out ps
    by (induction ps arbitrary: out) auto
  from this [of "\<lambda>p fs r. \<lparr>em_cloudProvider = p, em_region = r,
        em_mtPerKwHour = toNum (obj_get fs r)\<rparr>" "[]" providers]
  show ?thesis by (simp add: App_getEmissionsFactors_def inner)
qed

end
