(* ===== verification/Aws_Row.thy ===== *)
theory Aws_Row
  imports Aws_Constants
begin

text \<open>
  \<open>packages/aws/src/lib/CostAndUsageReportsRow.ts\<close> and \<open>ReplicationFactors.ts\<close>: a row of the
  cost and usage report with what its constructor derives from the usage type.
\<close>

text \<open>The part of a text behind the last separator.\<close>

definition after_last :: "string \<Rightarrow> string \<Rightarrow> string" where
  "after_last s sep = last (split s sep)"

section \<open>ReplicationFactors.ts\<close>

definition rf_S3_of :: "string \<Rightarrow> jsnum" where
  "rf_S3_of usageType =
     (if containsAny [''TimedStorage-ZIA'', ''EarlyDelete-ZIA'', ''TimedStorage-RRS''] usageType
      then rf_S3_ONE_ZONE_REDUCED_REDUNDANCY REPLICATION_FACTORS
      else if containsAny [''TimedStorage'', ''EarlyDelete''] usageType
      then rf_S3 REPLICATION_FACTORS
      else rf_DEFAULT REPLICATION_FACTORS)"

definition rf_EC2_of :: "string \<Rightarrow> jsnum" where
  "rf_EC2_of usageType =
     (if str_includes usageType ''VolumeUsage'' then rf_EC2_EBS_VOLUME REPLICATION_FACTORS
      else if str_includes usageType ''SnapshotUsage'' then rf_EC2_EBS_SNAPSHOT REPLICATION_FACTORS
      else rf_DEFAULT REPLICATION_FACTORS)"

definition rf_EFS_of :: "string \<Rightarrow> jsnum" where
  "rf_EFS_of usageType =
     (if str_includes usageType ''ZIA'' then rf_EFS_ONE_ZONE REPLICATION_FACTORS
      else rf_EFS REPLICATION_FACTORS)"

definition rf_RDS_of :: "string \<Rightarrow> jsnum" where
  "rf_RDS_of usageType =
     (if str_includes usageType ''BackupUsage'' then rf_RDS_BACKUP REPLICATION_FACTORS
      else if str_includes usageType ''Aurora'' then rf_RDS_AURORA REPLICATION_FACTORS
      else if str_includes usageType ''Multi-AZ'' then rf_RDS_MULTI_AZ REPLICATION_FACTORS
      else rf_DEFAULT REPLICATION_FACTORS)"

definition rf_DOC_DB_of :: "string \<Rightarrow> jsnum" where
  "rf_DOC_DB_of usageType =
     (if str_includes usageType ''BackupUsage'' then rf_DOCUMENT_DB_BACKUP REPLICATION_FACTORS
      else rf_DOCUMENT_DB_STORAGE REPLICATION_FACTORS)"

definition rf_ECR_of :: "string \<Rightarrow> jsnum" where
  "rf_ECR_of usageType =
     (if str_includes usageType ''TimedStorage'' then rf_ECR_STORAGE REPLICATION_FACTORS
      else rf_DEFAULT REPLICATION_FACTORS)"

definition rf_ELASTICACHE_of :: "string \<Rightarrow> jsnum" where
  "rf_ELASTICACHE_of usageType =
     (if str_includes usageType ''BackupUsage''
      then rf_DOCUMENT_ELASTICACHE_BACKUP REPLICATION_FACTORS
      else rf_DEFAULT REPLICATION_FACTORS)"

definition rf_SIMPLE_DB_of :: "string \<Rightarrow> jsnum" where
  "rf_SIMPLE_DB_of usageType =
     (if str_includes usageType ''TimedStorage'' then rf_SIMPLE_DB REPLICATION_FACTORS
      else rf_DEFAULT REPLICATION_FACTORS)"

definition AWS_REPLICATION_FACTORS_FOR_SERVICES :: "(string \<Rightarrow> jsnum) obj" where
  "AWS_REPLICATION_FACTORS_FOR_SERVICES =
     [(''AmazonS3'', rf_S3_of),
      (''AmazonEC2'', rf_EC2_of),
      (''AmazonEFS'', rf_EFS_of),
      (''AmazonRDS'', rf_RDS_of),
      (''AmazonDocDB'', rf_DOC_DB_of),
      (''AmazonDynamoDB'', \<lambda>_. rf_DYNAMO_DB REPLICATION_FACTORS),
      (''AmazonECR'', rf_ECR_of),
      (''AmazonElastiCache'', rf_ELASTICACHE_of),
      (''AmazonSimpleDB'', rf_SIMPLE_DB_of),
      (''DEFAULT'', \<lambda>_. rf_DEFAULT REPLICATION_FACTORS)]"

definition getReplicationFactor :: "string \<Rightarrow> string \<Rightarrow> jsnum" where
  "getReplicationFactor serviceName usageType =
     or_num (map_option (\<lambda>f. f usageType)
               (obj_get AWS_REPLICATION_FACTORS_FOR_SERVICES serviceName))
       (rf_DEFAULT REPLICATION_FACTORS)"

section \<open>Cleaning the unit and the amount\<close>

definition isRedshiftComputeUsage :: "string \<Rightarrow> string \<Rightarrow> bool" where
  "isRedshiftComputeUsage serviceName usageUnit \<longleftrightarrow>
     serviceName = ''AmazonRedshift'' \<and> usageUnit = usage_unit_name SECONDS_1"

definition cleanUsageUnit :: "string \<Rightarrow> string \<Rightarrow> string \<Rightarrow> string" where
  "cleanUsageUnit rawUsageUnit serviceName usageType =
     (if str_includes usageType ''Fargate-GB-Hours'' then usage_unit_name GB_HOURS
      else if isRedshiftComputeUsage serviceName rawUsageUnit then usage_unit_name HOURS_1
      else rawUsageUnit)"

definition cleanUsageAmount :: "jsnum \<Rightarrow> string \<Rightarrow> string \<Rightarrow> jsnum" where
  "cleanUsageAmount rawUsageAmount rawUsageUnit serviceName =
     (if isRedshiftComputeUsage serviceName rawUsageUnit then rawUsageAmount / 3600
      else rawUsageAmount)"

section \<open>The instance type in the usage type\<close>

text \<open>
  The regular expression \<open>^((db|cache|dax|dms|ml|mq|KernelGateway-ml|.+Kafka)\.)\<close>: the first
  literal alternative that the string starts with, or else everything up to the last
  \<open>Kafka.\<close> that has a character before it.
\<close>

definition instance_prefixes :: "string list" where
  "instance_prefixes = [''db.'', ''cache.'', ''dax.'', ''dms.'', ''ml.'', ''mq.'', ''KernelGateway-ml.'']"

definition strip_kafka :: "string \<Rightarrow> string" where
  "strip_kafka s =
     (let parts = split s ''Kafka.'' in
      if length parts = 1 \<or> (length parts = 2 \<and> hd parts = []) then s else last parts)"

definition strip_instance_prefix :: "string \<Rightarrow> string" where
  "strip_instance_prefix s =
     (case find (startsWith s) instance_prefixes of
        Some p \<Rightarrow> drop (length p) s
      | None \<Rightarrow> strip_kafka s)"

definition extractInstanceTypeFromUsageType :: "string \<Rightarrow> string" where
  "extractInstanceTypeFromUsageType usageType = strip_instance_prefix (after_last usageType '':'')"

definition extractVCpuFromInstanceType :: "string \<Rightarrow> string \<Rightarrow> string \<Rightarrow> jsnum option" where
  "extractVCpuFromInstanceType serviceName usageType instanceType =
     (let parts = split instanceType ''.'';
          instanceFamily = elem_at parts 0; instanceSize = elem_at parts 1
      in if str_includes usageType ''Kafka''
         then map_option Fin (obj_get MSK_INSTANCE_TYPES (''Kafka'' @ after_last usageType ''Kafka''))
         else if serviceName = ''AmazonRedshift''
         then Some (toNum (num_at 0 (instance_data REDSHIFT_INSTANCE_TYPES instanceFamily instanceSize))
                    / 3600)
         else num_at 0 (instance_data EC2_INSTANCE_TYPES instanceFamily instanceSize))"

definition getBurstableInstanceVCPu :: "string \<Rightarrow> string \<Rightarrow> string \<Rightarrow> jsnum" where
  "getBurstableInstanceVCPu serviceName usageType instanceType =
     toNum (extractVCpuFromInstanceType serviceName usageType instanceType)
     * (toNum (map_option Fin (obj_get BURSTABLE_INSTANCE_BASELINE_UTILIZATION instanceType))
        / aws_AVG_CPU_UTILIZATION_2020)"

definition GLUE_VCPUS_PER_USAGE :: jsnum where "GLUE_VCPUS_PER_USAGE = 4"

definition SIMPLE_DB_VCPUS_PER_USAGE :: jsnum where "SIMPLE_DB_VCPUS_PER_USAGE = 1"

definition getVCpuHours :: "string \<Rightarrow> string \<Rightarrow> jsnum \<Rightarrow> jsnum option \<Rightarrow> jsnum" where
  "getVCpuHours serviceName usageType usageAmount vCpuFromReport =
     (let instanceType = extractInstanceTypeFromUsageType usageType in
      if serviceName = ''AWSGlue'' then GLUE_VCPUS_PER_USAGE * usageAmount
      else if serviceName = ''AmazonSimpleDB'' then SIMPLE_DB_VCPUS_PER_USAGE * usageAmount
      else if str_includes usageType ''Aurora:ServerlessUsage'' then usageAmount / 4
      else if containsAny [''Fargate-vCPU-Hours'', ''CPUCredits''] usageType then usageAmount
      else if containsAny (obj_keys BURSTABLE_INSTANCE_BASELINE_UTILIZATION) usageType
      then getBurstableInstanceVCPu serviceName usageType
             (join ''.'' (take 2 (split instanceType ''.''))) * usageAmount
      else if \<not> truthy_opt vCpuFromReport
      then toNum (extractVCpuFromInstanceType serviceName usageType instanceType) * usageAmount
      else toNum vCpuFromReport * usageAmount)"

definition getGpuHours :: "string \<Rightarrow> jsnum \<Rightarrow> jsnum" where
  "getGpuHours usageType usageAmount =
     or_num (Some (toNum (map_option Fin
       (obj_get GPU_INSTANCES_TYPES (extractInstanceTypeFromUsageType usageType))) * usageAmount)) 0"

text \<open>
  \<open>parseInstanceTypeFromUsageType\<close> completes a usage type that ends in \<open>xl\<close> before it reads
  the instance type from it, so it yields both.
\<close>

definition complete_usage_type :: "string \<Rightarrow> string" where
  "complete_usage_type usageType =
     (if endsWith usageType ''xl'' then usageType @ ''arge'' else usageType)"

definition parseInstanceTypeFromUsageType :: "string \<Rightarrow> string \<times> string" where
  "parseInstanceTypeFromUsageType rawUsageType =
     (let usageType = complete_usage_type rawUsageType in
      case find (str_includes usageType) [''db'', ''cache'', ''Kafka''] of
        Some prefix \<Rightarrow> (usageType, after_last usageType (prefix @ ''.''))
      | None \<Rightarrow> (usageType, after_last usageType '':''))"

section \<open>The row\<close>

text \<open>The constructor, statement by statement; \<open>vCpus\<close> is \<open>null\<close> or a number.\<close>

definition CostAndUsageReportsRow ::
    "date option \<Rightarrow> string \<Rightarrow> string \<Rightarrow> string \<Rightarrow> string \<Rightarrow> string \<Rightarrow> string \<Rightarrow> jsnum option \<Rightarrow> jsnum \<Rightarrow>
     jsnum \<Rightarrow> TagCollection \<Rightarrow> BillingDataRow" where
  "CostAndUsageReportsRow timestamp accountId accountName region serviceName usageType usageUnit
       vCpus usageAmount cost tags =
     (let cleanAmount = cleanUsageAmount usageAmount usageUnit serviceName;
          vCpuHours = getVCpuHours serviceName usageType cleanAmount vCpus;
          gpuHours = getGpuHours usageType cleanAmount;
          (fullUsageType, instanceType) = parseInstanceTypeFromUsageType usageType
      in \<lparr>br_serviceName = serviceName,
          br_accountId = accountId,
          br_accountName = accountName,
          br_usageAmount = cleanAmount,
          br_usageType = fullUsageType,
          br_usageUnit = cleanUsageUnit usageUnit serviceName usageType,
          br_cost = cost,
          br_region = region,
          br_cloudProvider = ''AWS'',
          br_timestamp = timestamp,
          br_vCpus = vCpus,
          br_vCpuHours = vCpuHours,
          br_gpuHours = gpuHours,
          br_instanceType = instanceType,
          br_replicationFactor = getReplicationFactor serviceName fullUsageType,
          br_tags = Some tags\<rparr>)"

definition aws_getComputeProcessors :: "BillingDataRow \<Rightarrow> COMPUTE_PROCESSOR_TYPES list" where
  "aws_getComputeProcessors row =
     (if br_serviceName row = ''AWSLambda'' then
        (if endsWith (br_usageType row) ''-ARM'' then [AWS_GRAVITON_2] else [UNKNOWN_PROCESSOR])
      else case obj_get INSTANCE_TYPE_COMPUTE_PROCESSOR_MAPPING (br_instanceType row) of
             Some ps \<Rightarrow> ps
           | None \<Rightarrow> [UNKNOWN_PROCESSOR])"

definition aws_getGPUComputeProcessors :: "BillingDataRow \<Rightarrow> COMPUTE_PROCESSOR_TYPES list" where
  "aws_getGPUComputeProcessors row =
     (if br_serviceName row = ''AWSLambda'' then [UNKNOWN_PROCESSOR]
      else case obj_get INSTANCE_TYPE_GPU_PROCESSOR_MAPPING (br_instanceType row) of
             Some ps \<Rightarrow> ps
           | None \<Rightarrow> [UNKNOWN_PROCESSOR])"

section \<open>Facts\<close>

lemma row_fields [simp]:
  "br_cloudProvider (CostAndUsageReportsRow t ai an r s ut uu v ua c tg) = ''AWS''"
  "br_serviceName (CostAndUsageReportsRow t ai an r s ut uu v ua c tg) = s"
  "br_accountId (CostAndUsageReportsRow t ai an r s ut uu v ua c tg) = ai"
  "br_cost (CostAndUsageReportsRow t ai an r s ut uu v ua c tg) = c"
  "br_region (CostAndUsageReportsRow t ai an r s ut uu v ua c tg) = r"
  "br_timestamp (CostAndUsageReportsRow t ai an r s ut uu v ua c tg) = t"
  "br_tags (CostAndUsageReportsRow t ai an r s ut uu v ua c tg) = Some tg"
  "br_vCpuHours (CostAndUsageReportsRow t ai an r s ut uu v ua c tg)
     = getVCpuHours s ut (cleanUsageAmount ua uu s) v"
  "br_usageUnit (CostAndUsageReportsRow t ai an r s ut uu v ua c tg) = cleanUsageUnit uu s ut"
  "br_usageAmount (CostAndUsageReportsRow t ai an r s ut uu v ua c tg) = cleanUsageAmount ua uu s"
  by (simp_all add: CostAndUsageReportsRow_def Let_def split: prod.split)

text \<open>Every replication factor is a whole number between one and six.\<close>

lemma replication_factor_values:
  "getReplicationFactor serviceName usageType \<in> {Fin 1, Fin 2, Fin 3, Fin 6}"
proof -
  have "f usageType \<in> {Fin 1, Fin 2, Fin 3, Fin 6}"
    if "obj_get AWS_REPLICATION_FACTORS_FOR_SERVICES serviceName = Some f" for f
    using that
    by (auto simp: AWS_REPLICATION_FACTORS_FOR_SERVICES_def REPLICATION_FACTORS_def rf_S3_of_def
        rf_EC2_of_def rf_EFS_of_def rf_RDS_of_def rf_DOC_DB_of_def rf_ECR_of_def
        rf_ELASTICACHE_of_def rf_SIMPLE_DB_of_def split: if_splits)
  then show ?thesis
    by (cases "obj_get AWS_REPLICATION_FACTORS_FOR_SERVICES serviceName")
      (auto simp: getReplicationFactor_def or_num_def REPLICATION_FACTORS_def)
qed

end
