(* ===== verification/Aws_Builders.thy ===== *)
theory Aws_Builders
  imports Aws_Row
begin

text \<open>
  The builders of \<open>packages/aws/src/lib\<close> (\<open>AWSComputeEstimatesBuilder.ts\<close>,
  \<open>AWSMemoryEstimatesBuilder.ts\<close>, \<open>AWSStorageEstimatesBuilder.ts\<close>) and the embodied emissions of
  \<open>CostAndUsageReports.ts\<close>. The fields of \<open>FootprintEstimatesDataBuilder.ts\<close> that a builder
  takes from a billing row or from a recommendation are the record \<open>estimates_data\<close>.
  \<open>median\<close> is the package function that the watts of some processors are computed with.
\<close>

record estimates_data =
  ed_usageAmount :: jsnum
  ed_instanceType :: string
  ed_usageType :: string
  ed_vCpuHours :: jsnum
  ed_gpuHours :: jsnum
  ed_region :: string
  ed_replicationFactor :: "jsnum option"
  ed_computeProcessors :: "COMPUTE_PROCESSOR_TYPES list"
  ed_gpuComputeProcessors :: "COMPUTE_PROCESSOR_TYPES list"

definition row_data :: "BillingDataRow \<Rightarrow> estimates_data" where
  "row_data row =
     \<lparr>ed_usageAmount = br_usageAmount row,
      ed_instanceType = br_instanceType row,
      ed_usageType = br_usageType row,
      ed_vCpuHours = br_vCpuHours row,
      ed_gpuHours = br_gpuHours row,
      ed_region = br_region row,
      ed_replicationFactor = Some (br_replicationFactor row),
      ed_computeProcessors = aws_getComputeProcessors row,
      ed_gpuComputeProcessors = aws_getGPUComputeProcessors row\<rparr>"

section \<open>AWSComputeEstimatesBuilder.ts\<close>

definition aws_getComputeUsage :: "jsnum \<Rightarrow> ComputeUsage" where
  "aws_getComputeUsage hours =
     \<lparr>cu_timestamp = None,
      cu_cpuUtilizationAverage = aws_AVG_CPU_UTILIZATION_2020,
      cu_vCpuHours = hours,
      cu_usesAverageCPUConstant = True\<rparr>"

definition aws_getComputeConstants ::
    "(jsnum option list \<Rightarrow> jsnum) \<Rightarrow> estimates_data \<Rightarrow> COMPUTE_PROCESSOR_TYPES list \<Rightarrow>
     CloudConstants" where
  "aws_getComputeConstants median d processors =
     no_constants\<lparr>cc_minWatts := Some (aws_getMinWatts median processors),
                  cc_maxWatts := Some (aws_getMaxWatts median processors),
                  cc_powerUsageEffectiveness := Some (aws_getPUE (ed_region d)),
                  cc_replicationFactor := ed_replicationFactor d\<rparr>"

definition isGpuInstance :: "estimates_data \<Rightarrow> bool" where
  "isGpuInstance d = containsAny (obj_keys GPU_INSTANCES_TYPES) (ed_usageType d)"

definition aws_computeFootprint ::
    "(jsnum option list \<Rightarrow> jsnum) \<Rightarrow> estimates_data \<Rightarrow> emissions_factors \<Rightarrow> FootprintEstimate" where
  "aws_computeFootprint median d emissionsFactors =
     (let computeEstimate = hd (ComputeEstimator_estimate [aws_getComputeUsage (ed_vCpuHours d)]
            (ed_region d) emissionsFactors
            (aws_getComputeConstants median d (ed_computeProcessors d)))
      in if isGpuInstance d then
           (let gpuComputeEstimate = hd (ComputeEstimator_estimate [aws_getComputeUsage (ed_gpuHours d)]
                  (ed_region d) emissionsFactors
                  (aws_getComputeConstants median d (ed_gpuComputeProcessors d)))
            in computeEstimate
                 \<lparr>fe_kilowattHours := fe_kilowattHours computeEstimate + fe_kilowattHours gpuComputeEstimate,
                  fe_co2e := fe_co2e computeEstimate + fe_co2e gpuComputeEstimate\<rparr>)
         else computeEstimate)"

section \<open>AWSMemoryEstimatesBuilder.ts\<close>

definition checkInstanceTypes :: "string \<Rightarrow> string \<Rightarrow> bool \<times> bool" where
  "checkInstanceTypes instanceType instanceFamily =
     (let isValidInstanceType =
            instanceFamily \<in> set (obj_keys EC2_INSTANCE_TYPES)
            \<or> instanceFamily \<in> set (obj_keys REDSHIFT_INSTANCE_TYPES);
          isBurstableInstance =
            instanceType \<in> set (obj_keys BURSTABLE_INSTANCE_BASELINE_UTILIZATION)
      in (isValidInstanceType, isBurstableInstance))"

definition sizes_of_family :: "string \<Rightarrow> (rat list obj) obj \<Rightarrow> (rat list obj) obj \<Rightarrow> rat list list" where
  "sizes_of_family instanceFamily table otherTable =
     obj_values (case obj_get table instanceFamily of
                   Some sizes \<Rightarrow> sizes
                 | None \<Rightarrow> (case obj_get otherTable instanceFamily of Some sizes \<Rightarrow> sizes | None \<Rightarrow> []))"

text \<open>
  A family in one of the tables has at least one size, so the last size that the source
  destructures exists; the lookup of a family in neither table is behind the validity check.
\<close>

definition getGigabytesFromInstanceTypeAndProcessors :: "estimates_data \<Rightarrow> jsnum" where
  "getGigabytesFromInstanceTypeAndProcessors d =
     (if ed_instanceType d = [] then 0
      else
        (let parts = split (ed_instanceType d) ''.'';
             instanceFamily = hd parts; instanceSize = elem_at parts 1;
             (isValidInstanceType, isBurstableInstance) =
               checkInstanceTypes (ed_instanceType d) instanceFamily
         in if \<not> isValidInstanceType \<or> isBurstableInstance then 0
            else
              (let processors =
                     (case obj_get INSTANCE_TYPE_COMPUTE_PROCESSOR_MAPPING (ed_instanceType d) of
                        Some ps \<Rightarrow> ps | None \<Rightarrow> [UNKNOWN_PROCESSOR]);
                   processorMemoryGigabytesPerPhysicalChip = aws_getMemory processors;
                   instanceTypeMemory =
                     or_opt (num_at 1 (instance_data EC2_INSTANCE_TYPES (Some instanceFamily) instanceSize))
                            (num_at 1 (instance_data REDSHIFT_INSTANCE_TYPES (Some instanceFamily) instanceSize));
                   largest = last (sizes_of_family instanceFamily EC2_INSTANCE_TYPES REDSHIFT_INSTANCE_TYPES);
                   physicalChips =
                     (if instanceFamily \<in> {''m5zn'', ''z1d''} then 2
                      else getPhysicalChips (toNum (num_at 0 (Some largest))))
               in calculateGigabyteHours physicalChips (toNum (num_at 1 (Some largest)))
                    processorMemoryGigabytesPerPhysicalChip (toNum instanceTypeMemory)
                    (ed_usageAmount d))))"

definition aws_memoryFootprint ::
    "(jsnum option list \<Rightarrow> jsnum) \<Rightarrow> jsnum \<Rightarrow> estimates_data \<Rightarrow> emissions_factors \<Rightarrow>
     FootprintEstimate" where
  "aws_memoryFootprint median coefficient d emissionsFactors =
     hd (MemoryEstimator_estimate coefficient
           [\<lparr>mu_timestamp = None, mu_gigabyteHours = getGigabytesFromInstanceTypeAndProcessors d\<rparr>]
           (ed_region d) emissionsFactors
           (aws_getComputeConstants median d (ed_computeProcessors d)))"

section \<open>AWSStorageEstimatesBuilder.ts\<close>

text \<open>
  The volume size is copied from the recommendation by the base constructor; the estimate uses
  the provider's own table of emissions factors and the replication factor of EBS.
\<close>

definition aws_storageFootprint :: "jsnum \<Rightarrow> string \<Rightarrow> jsnum \<Rightarrow> FootprintEstimate" where
  "aws_storageFootprint coefficient region volumeSize =
     hd (StorageEstimator_estimate coefficient
           [\<lparr>su_timestamp = None, su_terabyteHours = convertGigaBytesToTerabyteHours volumeSize\<rparr>]
           region AWS_EMISSIONS_FACTORS_METRIC_TON_PER_KWH
           (no_constants\<lparr>cc_powerUsageEffectiveness := Some (aws_getPUE region),
                         cc_replicationFactor := Some 2\<rparr>))"

section \<open>Embodied emissions of a row\<close>

text \<open>
  The scope 3 emissions of a family outside the EC2 table are read from index 1 of its entry.
\<close>

definition getDataFromInstanceType :: "string \<Rightarrow> jsnum option \<times> jsnum option \<times> jsnum option" where
  "getDataFromInstanceType instanceType =
     (let details = split instanceType ''.'';
          instanceSize = last details;
          instanceFamily = (if 2 \<le> length details then details ! (length details - 2) else [])
      in if instanceSize = [] \<or> instanceFamily = [] then (Some 0, Some 0, Some 0)
         else
           (let ec2 = instance_data EC2_INSTANCE_TYPES (Some instanceFamily) (Some instanceSize);
                other = instance_data INSTANCE_FAMILY_TO_INSTANCE_TYPE_MAPPING
                          (Some instanceFamily) (Some instanceSize);
                instancevCpu = or_opt (num_at 0 ec2) (num_at 0 other);
                scopeThreeEmissions = or_opt (num_at 2 ec2) (num_at 1 other);
                familyInstanceTypes = sizes_of_family instanceFamily EC2_INSTANCE_TYPES
                                        INSTANCE_FAMILY_TO_INSTANCE_TYPE_MAPPING;
                largestInstancevCpu =
                  (if familyInstanceTypes = [] then None
                   else num_at 0 (Some (last familyInstanceTypes)))
            in (instancevCpu, scopeThreeEmissions, largestInstancevCpu)))"

definition getEmbodiedEmissions :: "BillingDataRow \<Rightarrow> emissions_factors \<Rightarrow> FootprintEstimate" where
  "getEmbodiedEmissions row emissionsFactors =
     (let (instancevCpu, scopeThreeEmissions, largestInstancevCpu) =
            getDataFromInstanceType (br_instanceType row)
      in if \<not> truthy_opt instancevCpu \<or> \<not> truthy_opt scopeThreeEmissions
            \<or> \<not> truthy_opt largestInstancevCpu
         then \<lparr>fe_timestamp = None, fe_kilowattHours = 0, fe_co2e = 0,
               fe_usesAverageCPUConstant = None\<rparr>
         else hd (EmbodiedEmissionsEstimator_estimate aws_SERVER_EXPECTED_LIFESPAN
                [\<lparr>eu_timestamp = None,
                  eu_instancevCpu = toNum instancevCpu,
                  eu_largestInstancevCpu = toNum largestInstancevCpu,
                  eu_usageTimePeriod = br_usageAmount row / toNum instancevCpu,
                  eu_scopeThreeEmissions = toNum scopeThreeEmissions\<rparr>]
                (br_region row) emissionsFactors))"

section \<open>Facts\<close>

text \<open>The estimate of one record, in closed form.\<close>

lemma aws_computeFootprint_fields:
  "fe_timestamp (aws_computeFootprint median d ef) = None"
  "fe_usesAverageCPUConstant (aws_computeFootprint median d ef) = Some True"
  by (simp_all add: aws_computeFootprint_def compute_one aws_getComputeUsage_def)

lemma compute_estimate_hd:
  "hd (ComputeEstimator_estimate [u] r ef c) = compute_estimate_one r ef c u"
  by (simp add: ComputeEstimator_estimate_def)

text \<open>A row whose vCPU hours are not a number has no energy estimate.\<close>

lemma ENERGY_NaN_hours: "ENERGY_ESTIMATION_FORMULA u NaN lo hi p r w = NaN"
  by (simp add: ENERGY_ESTIMATION_FORMULA_def Let_def)

lemma aws_computeFootprint_NaN:
  assumes "ed_vCpuHours d = NaN"
  shows "fe_kilowattHours (aws_computeFootprint median d ef) = NaN"
    "fe_co2e (aws_computeFootprint median d ef) = NaN"
  using assms
  by (simp_all add: aws_computeFootprint_def compute_estimate_hd compute_estimate_one_def
      aws_getComputeUsage_def Let_def estimateCo2_def ENERGY_NaN_hours)

end
