(* ===== verification/Aws_Reports.thy ===== *)
theory Aws_Reports
  imports Aws_Builders
begin

text \<open>
  \<open>packages/aws/src/lib/CostAndUsageReports.ts\<close>: the estimates of the rows of a cost and usage
  report. The kilowatt hours by service and usage unit, which the source keeps in the module's
  constants, and the cache of emissions factors are the state; the rows come from Athena.
\<close>

record aws_globals =
  ag_store :: kwh_store
  ag_factors :: factor_state

text \<open>The packages, the configuration and the services that the report uses.\<close>

record aws_env =
  aw_moment :: moment_ops
  aw_median :: "jsnum option list \<Rightarrow> jsnum"
  aw_token :: string
  aw_http :: http_service
  aw_tagNames :: "string list"
  aw_accounts :: account_list
  aw_now :: date

section \<open>Classification of a row\<close>

definition usageTypeIsSSD :: "BillingDataRow \<Rightarrow> bool" where
  "usageTypeIsSSD row \<longleftrightarrow>
     endsWithAny SSD_USAGE_TYPES (br_usageType row)
     \<or> (endsWithAny SSD_SERVICES (br_serviceName row) \<and> \<not> str_includes (br_usageType row) ''Backup'')"

definition usageTypeIsHDD :: "string \<Rightarrow> bool" where
  "usageTypeIsHDD usageType \<longleftrightarrow> endsWithAny HDD_USAGE_TYPES usageType"

definition usageTypeisByteHours :: "string \<Rightarrow> bool" where
  "usageTypeisByteHours usageType \<longleftrightarrow> endsWithAny BYTE_HOURS_USAGE_TYPES usageType"

definition usageTypeIsNetworking :: "BillingDataRow \<Rightarrow> bool" where
  "usageTypeIsNetworking row \<longleftrightarrow>
     endsWithAny NETWORKING_USAGE_TYPES (br_usageType row)
     \<and> br_serviceName row \<noteq> ''AmazonCloudFront''"

definition usageTypeIsUnsupported :: "string \<Rightarrow> bool" where
  "usageTypeIsUnsupported usageType \<longleftrightarrow>
     endsWithAny UNSUPPORTED_USAGE_TYPES usageType
     \<or> list_ex (str_includes usageType) UNSUPPORTED_USAGE_TYPES"

definition usageTypeIsUnknown :: "string \<Rightarrow> bool" where
  "usageTypeIsUnknown usageType \<longleftrightarrow>
     endsWithAny UNKNOWN_USAGE_TYPES usageType
     \<or> list_ex (str_includes usageType) UNKNOWN_USAGE_TYPES"

definition usageUnitIsUnknown :: "string \<Rightarrow> bool" where
  "usageUnitIsUnknown usageUnit \<longleftrightarrow>
     \<not> list_ex (\<lambda>knownUsageUnit. knownUsageUnit = usageUnit) (map usage_unit_name all_usage_units)"

text \<open>The \<open>switch\<close> on the usage unit compares with the names of the enumeration.\<close>

definition known_unit :: "string \<Rightarrow> KNOWN_USAGE_UNITS option" where
  "known_unit usageUnit = find (\<lambda>u. usage_unit_name u = usageUnit) all_usage_units"

section \<open>Accumulating the energy of a row\<close>

definition accumulateE :: "BillingDataRow \<Rightarrow> jsnum \<Rightarrow> (aws_globals, unit) eff" where
  "accumulateE row kilowattHours =
     (\<lambda>g. case accumulateKilowattHours (ag_store g) row kilowattHours AK_COST of
            Inl e \<Rightarrow> (Inl e, g)
          | Inr store \<Rightarrow> (Inr (), g\<lparr>ag_store := store\<rparr>))"

section \<open>Networking and storage\<close>

definition getNetworkingFootprintEstimate ::
    "BillingDataRow \<Rightarrow> jsnum \<Rightarrow> emissions_factors \<Rightarrow> (aws_globals, FootprintEstimate option) eff" where
  "getNetworkingFootprintEstimate row powerUsageEffectiveness emissionsFactors =
     (if usageTypeIsNetworking row then
        (let estimate = (hd (NetworkingEstimator_estimate aws_NETWORKING_COEFFICIENT
               [\<lparr>nu_timestamp = br_timestamp row, nu_gigabytes = br_usageAmount row\<rparr>]
               (br_region row) emissionsFactors
               (no_constants\<lparr>cc_powerUsageEffectiveness := Some powerUsageEffectiveness\<rparr>)))
                 \<lparr>fe_usesAverageCPUConstant := Some False\<rparr>
         in bindE (accumulateE row (fe_kilowattHours estimate)) (\<lambda>_. retE (Some estimate)))
      else retE None)"

definition getUsageAmountInTerabyteHours :: "moment_ops \<Rightarrow> BillingDataRow \<Rightarrow> jsnum" where
  "getUsageAmountInTerabyteHours M row =
     (if usageTypeisByteHours (br_usageType row) then convertBytesToTerabytes (br_usageAmount row)
      else if br_usageUnit row = usage_unit_name GB_HOURS
      then convertGigabyteHoursToTerabyteHours (br_usageAmount row)
      else convertGigabyteMonthsToTerabyteHours M (br_usageAmount row) (br_timestamp row))"

definition storage_coefficient :: "BillingDataRow \<Rightarrow> jsnum option" where
  "storage_coefficient row =
     (if usageTypeIsSSD row then Some aws_SSDCOEFFICIENT
      else if usageTypeIsHDD (br_usageType row) then Some aws_HDDCOEFFICIENT
      else None)"

definition getStorageFootprintEstimate ::
    "moment_ops \<Rightarrow> BillingDataRow \<Rightarrow> jsnum \<Rightarrow> emissions_factors \<Rightarrow>
     (aws_globals, FootprintEstimate option) eff" where
  "getStorageFootprintEstimate M row powerUsageEffectiveness emissionsFactors =
     (let storageUsage = \<lparr>su_timestamp = br_timestamp row,
                          su_terabyteHours = getUsageAmountInTerabyteHours M row\<rparr>;
          storageConstants = no_constants\<lparr>cc_powerUsageEffectiveness := Some powerUsageEffectiveness,
                                          cc_replicationFactor := Some (br_replicationFactor row)\<rparr>
      in case storage_coefficient row of
           Some coefficient \<Rightarrow>
             (let estimate = (hd (StorageEstimator_estimate coefficient [storageUsage]
                    (br_region row) emissionsFactors storageConstants))
                      \<lparr>fe_usesAverageCPUConstant := Some False\<rparr>
              in bindE (accumulateE row (fe_kilowattHours estimate)) (\<lambda>_. retE (Some estimate)))
         | None \<Rightarrow> retE None)"

section \<open>Compute, memory and embodied emissions\<close>

definition getComputeAndMemoryEstimate ::
    "aws_env \<Rightarrow> BillingDataRow \<Rightarrow> emissions_factors \<Rightarrow> (aws_globals, FootprintEstimate option) eff" where
  "getComputeAndMemoryEstimate E row emissionsFactors =
     (let computeFootprint = aws_computeFootprint (aw_median E) (row_data row) emissionsFactors;
          memoryFootprint = aws_memoryFootprint (aw_median E) aws_MEMORY_COEFFICIENT (row_data row)
                              emissionsFactors;
          embodiedEmissions = getEmbodiedEmissions row emissionsFactors
      in if isNaN (fe_kilowattHours computeFootprint) then
           retE (Some \<lparr>fe_timestamp = fe_timestamp computeFootprint,
                       fe_kilowattHours = 0,
                       fe_co2e = fe_co2e computeFootprint,
                       fe_usesAverageCPUConstant = fe_usesAverageCPUConstant computeFootprint\<rparr>)
         else if truthy (fe_co2e memoryFootprint) \<or> truthy (fe_co2e embodiedEmissions) then
           (let kilowattHours = fe_kilowattHours computeFootprint + fe_kilowattHours memoryFootprint
                                + fe_kilowattHours embodiedEmissions
            in bindE (accumulateE row kilowattHours) (\<lambda>_.
                 retE (Some \<lparr>fe_timestamp = fe_timestamp computeFootprint,
                             fe_kilowattHours = kilowattHours,
                             fe_co2e = fe_co2e computeFootprint + fe_co2e memoryFootprint
                                       + fe_co2e embodiedEmissions,
                             fe_usesAverageCPUConstant =
                               fe_usesAverageCPUConstant computeFootprint\<rparr>)))
         else
           bindE (accumulateE row (fe_kilowattHours computeFootprint)) (\<lambda>_.
             retE (Some computeFootprint)))"

definition getEstimateByUsageUnit ::
    "aws_env \<Rightarrow> BillingDataRow \<Rightarrow> emissions_factors \<Rightarrow> (aws_globals, FootprintEstimate option) eff" where
  "getEstimateByUsageUnit E row emissionsFactors =
     (let powerUsageEffectiveness = aws_getPUE (br_region row) in
      case known_unit (br_usageUnit row) of
        Some u \<Rightarrow>
          (if u \<in> {HOURS_1, HOURS_2, HOURS_3, VCPU_HOURS, DPU_HOUR, ACU_HOUR} then
             getComputeAndMemoryEstimate E row emissionsFactors
           else if u \<in> {GB_MONTH_1, GB_MONTH_2, GB_MONTH_3, GB_MONTH_4, GB_HOURS} then
             getStorageFootprintEstimate (aw_moment E) row powerUsageEffectiveness emissionsFactors
           else if u \<in> {SECONDS_1, SECONDS_2, LAMBDA_SECONDS} then
             retE (Some (aws_computeFootprint (aw_median E)
                     (row_data (row\<lparr>br_vCpuHours := br_usageAmount row / 3600\<rparr>)) emissionsFactors))
           else
             getNetworkingFootprintEstimate row powerUsageEffectiveness emissionsFactors)
      | None \<Rightarrow> retE (Some \<lparr>fe_timestamp = Some (aw_now E), fe_kilowattHours = 0, fe_co2e = 0,
                            fe_usesAverageCPUConstant = Some False\<rparr>))"

text \<open>The estimate of the row, if any, and the rows whose estimate is put off.\<close>

definition getFootprintEstimateFromUsageRow ::
    "aws_env \<Rightarrow> BillingDataRow \<Rightarrow> BillingDataRow list \<Rightarrow> emissions_factors \<Rightarrow>
     (aws_globals, FootprintEstimate option \<times> BillingDataRow list) eff" where
  "getFootprintEstimateFromUsageRow E row unknownRows emissionsFactors =
     (if usageTypeIsUnsupported (br_usageType row) then retE (None, unknownRows)
      else if usageTypeIsUnknown (br_usageType row) \<or> usageUnitIsUnknown (br_usageUnit row)
      then retE (None, unknownRows @ [row])
      else bindE (getEstimateByUsageUnit E row emissionsFactors) (\<lambda>e. retE (e, unknownRows)))"

text \<open>The usage of an unknown row names no service, so the totals of its unit are used.\<close>

definition getEstimateForUnknownUsage ::
    "BillingDataRow \<Rightarrow> (aws_globals, FootprintEstimate) eff" where
  "getEstimateForUnknownUsage row =
     (\<lambda>g. (bindR (UnknownEstimator_estimate aws_ESTIMATE_UNKNOWN_USAGE_BY
              [\<lparr>uu_timestamp = br_timestamp row, uu_cost = Some (br_cost row), uu_usageAmount = None,
                uu_usageUnit = br_usageUnit row, uu_service = None\<rparr>]
              (br_region row) AWS_EMISSIONS_FACTORS_METRIC_TON_PER_KWH
              (no_constants\<lparr>cc_kilowattHoursByServiceAndUsageUnit := Some (ag_store g)\<rparr>))
            (\<lambda>es. Inr (hd es)), g))"

section \<open>Athena rows\<close>

text \<open>
  A row of the result set is the list of its cells, where a cell without a value is \<open>None\<close>.
  A missing text is kept as the string \<open>undefined\<close>, the key that the code's look-ups use for it;
  a missing usage type makes the constructor of the row throw.
\<close>

type_synonym athena_row = "string option list"

definition cell :: "athena_row \<Rightarrow> nat \<Rightarrow> string option result" where
  "cell rowData i = (if i < length rowData then Inr (rowData ! i) else Inl TypeError)"

definition number_of_cell :: "string option \<Rightarrow> jsnum" where
  "number_of_cell v = (case v of None \<Rightarrow> NaN | Some s \<Rightarrow> parseFloat s)"

definition fromEntries :: "(string \<times> 'v) list \<Rightarrow> 'v obj" where
  "fromEntries xs = foldl (\<lambda>d (k, v). obj_set d k v) [] xs"

definition account_names :: "account_list \<Rightarrow> string obj" where
  "account_names accounts =
     (case accounts of
        NotAnArray \<Rightarrow> []
      | Accounts xs \<Rightarrow>
          foldl (\<lambda>d account.
            case account of
              AccountObj i (Some n) \<Rightarrow> if n \<noteq> [] then obj_set d (text_of i) n else d
            | _ \<Rightarrow> d) [] xs)"

definition convertAthenaRowToCostAndUsageReportsRow ::
    "athena_row \<Rightarrow> string list \<Rightarrow> string obj \<Rightarrow> BillingDataRow result" where
  "convertAthenaRowToCostAndUsageReportsRow rowData tagNames accounts =
     bindR (cell rowData 0) (\<lambda>c0.
     bindR (cell rowData 1) (\<lambda>c1.
     bindR (cell rowData 2) (\<lambda>c2.
     bindR (cell rowData 3) (\<lambda>c3.
     bindR (cell rowData 4) (\<lambda>c4.
     bindR (cell rowData 5) (\<lambda>c5.
     bindR (cell rowData 6) (\<lambda>c6.
     bindR (cell rowData 7) (\<lambda>c7.
     bindR (cell rowData 8) (\<lambda>c8.
     bindR (mapR (\<lambda>(i, name). bindR (cell rowData (i + 9)) (\<lambda>v. Inr (name, v)))
             (enumerate 0 tagNames)) (\<lambda>tags.
       let timestamp = (case c0 of None \<Rightarrow> None | Some s \<Rightarrow> parse_date s);
           accountId = text_of c1;
           accountName = (case obj_get accounts accountId of Some n \<Rightarrow> n | None \<Rightarrow> accountId);
           vCpus = (if c6 \<noteq> Some [] then Some (number_of_cell c6) else None)
       in case c4 of
            None \<Rightarrow> Inl TypeError
          | Some usageType \<Rightarrow>
              Inr (CostAndUsageReportsRow timestamp accountId accountName (text_of c2) (text_of c3)
                     usageType (text_of c5) vCpus (number_of_cell c7) (number_of_cell c8)
                     (fromEntries tags))))))))))))"

section \<open>The loop over the rows\<close>

definition factorsE :: "aws_env \<Rightarrow> string \<Rightarrow> string \<Rightarrow> (aws_globals, emissions_factors) eff" where
  "factorsE E region dateTime =
     (\<lambda>g. let (r, f) = getEmissionsFactors (aw_token E) (aw_http E) region dateTime
                          AWS_EMISSIONS_FACTORS_METRIC_TON_PER_KWH
                          AWS_MAPPED_REGIONS_TO_ELECTRICITY_MAPS_ZONES (ag_factors g)
          in (r, g\<lparr>ag_factors := f\<rparr>))"

definition report_step ::
    "aws_env \<Rightarrow> GroupBy \<Rightarrow> EstimationResult list \<times> BillingDataRow list \<Rightarrow> athena_row \<Rightarrow>
     (aws_globals, EstimationResult list \<times> BillingDataRow list) eff" where
  "report_step E grouping acc rowData =
     bindE (liftE (convertAthenaRowToCostAndUsageReportsRow rowData (aw_tagNames E)
              (account_names (aw_accounts E)))) (\<lambda>row.
     case br_timestamp row of
       None \<Rightarrow> throwE RangeError
     | Some t \<Rightarrow>
         bindE (factorsE E (br_region row) (toISOString t)) (\<lambda>emissionsFactors.
         bindE (getFootprintEstimateFromUsageRow E row (snd acc) emissionsFactors)
           (\<lambda>(footprintEstimate, unknownRows).
              case footprintEstimate of
                None \<Rightarrow> retE (fst acc, unknownRows)
              | Some e \<Rightarrow>
                  bindE (liftE (appendOrAccumulateEstimatesByDay (aw_moment E) (fst acc) row e
                                  grouping (aw_tagNames E))) (\<lambda>results.
                    retE (results, unknownRows)))))"

definition unknown_step ::
    "aws_env \<Rightarrow> GroupBy \<Rightarrow> EstimationResult list \<Rightarrow> BillingDataRow \<Rightarrow>
     (aws_globals, EstimationResult list) eff" where
  "unknown_step E grouping results row =
     bindE (getEstimateForUnknownUsage row) (\<lambda>e.
       liftE (appendOrAccumulateEstimatesByDay (aw_moment E) results row e grouping (aw_tagNames E)))"

text \<open>\<open>getEstimates\<close> on the rows that \<open>getUsage\<close> returned, the header first.\<close>

definition estimates_of_rows ::
    "aws_env \<Rightarrow> GroupBy \<Rightarrow> athena_row list \<Rightarrow> (aws_globals, EstimationResult list) eff" where
  "estimates_of_rows E grouping usageRows =
     bindE (foldE (report_step E grouping) ([], []) (drop 1 usageRows)) (\<lambda>(results, unknownRows).
       if 0 < length results then foldE (unknown_step E grouping) results unknownRows
       else retE results)"

section \<open>Estimates from input data\<close>

text \<open>
  \<open>vCpus\<close> of a result is the input's text for a known row and the row's number for an unknown
  one, as in the source.
\<close>

datatype lookup_vCpus = VText string | VNumber "jsnum option"

record aws_lookup_output =
  al_serviceName :: string
  al_region :: string
  al_usageType :: string
  al_vCpus :: lookup_vCpus
  al_kilowattHours :: jsnum
  al_co2e :: jsnum

definition input_row :: "LookupTableInput \<Rightarrow> BillingDataRow" where
  "input_row i =
     CostAndUsageReportsRow None [] [] (li_region i) (li_serviceName i) (li_usageType i)
       (li_usageUnit i) (if li_vCpus i \<noteq> [] then Some (parseFloat (li_vCpus i)) else None) 1 1 []"

definition input_step ::
    "aws_env \<Rightarrow> aws_lookup_output list \<times> BillingDataRow list \<Rightarrow> LookupTableInput \<Rightarrow>
     (aws_globals, aws_lookup_output list \<times> BillingDataRow list) eff" where
  "input_step E acc i =
     (let row = input_row i in
      bindE (factorsE E (br_region row) (toISOString (aw_now E))) (\<lambda>emissionsFactors.
      bindE (getFootprintEstimateFromUsageRow E row (snd acc) emissionsFactors)
        (\<lambda>(footprintEstimate, unknownRows).
           retE (fst acc @ (case footprintEstimate of
                              None \<Rightarrow> []
                            | Some e \<Rightarrow> [\<lparr>al_serviceName = li_serviceName i,
                                          al_region = li_region i,
                                          al_usageType = li_usageType i,
                                          al_vCpus = VText (li_vCpus i),
                                          al_kilowattHours = fe_kilowattHours e,
                                          al_co2e = fe_co2e e\<rparr>]),
                 unknownRows))))"

definition getEstimatesFromInputData ::
    "aws_env \<Rightarrow> LookupTableInput list \<Rightarrow> (aws_globals, aws_lookup_output list) eff" where
  "getEstimatesFromInputData E inputData =
     bindE (foldE (input_step E) ([], []) inputData) (\<lambda>(result, unknownRows).
       if 0 < length result then
         foldE (\<lambda>acc row. bindE (getEstimateForUnknownUsage row) (\<lambda>e.
                  retE (acc @ [\<lparr>al_serviceName = br_serviceName row,
                                al_region = br_region row,
                                al_usageType = br_usageType row,
                                al_vCpus = VNumber (br_vCpus row),
                                al_kilowattHours = fe_kilowattHours e,
                                al_co2e = fe_co2e e\<rparr>]))) result unknownRows
       else retE result)"

end
