(* ===== verification/Core_Billing.thy ===== *)
theory Core_Billing
  imports Core_Append
begin

text \<open>
  The contract that the readers of billing data share: \<open>CostAndUsageReports.ts\<close>,
  \<open>BillingExportTable.ts\<close>, \<open>ConsumptionManagement.ts\<close> and \<open>AliCostAndUsageService.ts\<close> go through
  their items in order, read a row, accumulate its energy in the ledger and append its estimate to
  the results, put the rows of unknown usage aside, and append their estimates in the end if there
  is any result. The locale states what one turn of such a loop promises; its lemmas say what the
  whole run computes.
\<close>

section \<open>Appending many estimates\<close>

definition append_all ::
    "moment_ops \<Rightarrow> GroupBy \<Rightarrow> string list \<Rightarrow> EstimationResult list \<Rightarrow>
     (BillingDataRow \<times> FootprintEstimate) list \<Rightarrow> EstimationResult list result" where
  "append_all M grouping ns rs entries =
     foldR (\<lambda>rs (row, fe). appendOrAccumulateEstimatesByDay M rs row fe grouping ns) rs entries"

definition entry_of :: "BillingDataRow \<Rightarrow> 'a option \<Rightarrow> (BillingDataRow \<times> 'a) list" where
  "entry_of row x = (case x of None \<Rightarrow> [] | Some v \<Rightarrow> [(row, v)])"

lemma entry_of_simps [simp]: "entry_of row None = []" "entry_of row (Some v) = [(row, v)]"
  by (simp_all add: entry_of_def)

lemma append_all_simps [simp]:
  "append_all M grouping ns rs [] = Inr rs"
  "append_all M grouping ns rs ((row, fe) # es) =
     bindR (appendOrAccumulateEstimatesByDay M rs row fe grouping ns)
       (\<lambda>rs'. append_all M grouping ns rs' es)"
  by (simp_all add: append_all_def)

lemma append_all_append:
  "append_all M grouping ns rs (es @ fs)
     = bindR (append_all M grouping ns rs es) (\<lambda>rs'. append_all M grouping ns rs' fs)"
  by (simp add: append_all_def foldR_append)

lemma accumulate_all_append:
  "accumulate_all by store (es @ fs)
     = bindR (accumulate_all by store es) (\<lambda>store'. accumulate_all by store' fs)"
  by (simp add: accumulate_all_def foldR_append)

lemma append_nonempty:
  "appendOrAccumulateEstimatesByDay M rs row fe g ns = Inr rs' \<Longrightarrow> rs' \<noteq> []"
  by (erule append_cases) auto

lemma append_all_induct:
  assumes "append_all M g ns rs es = Inr rs'" and "P [] rs"
    and "\<And>us row fe r r'. P us r \<Longrightarrow> appendOrAccumulateEstimatesByDay M r row fe g ns = Inr r' \<Longrightarrow>
      (row, fe) \<in> set es \<Longrightarrow> P (us @ [(row, fe)]) r'"
  shows "P es rs'"
  using assms(1,3)
proof (induction es arbitrary: rs' rule: rev_induct)
  case Nil
  then show ?case using assms(2) by simp
next
  case (snoc e es)
  obtain row fe where e: "e = (row, fe)" by (cases e)
  from snoc.prems(1) obtain r where "append_all M g ns rs es = Inr r"
    "appendOrAccumulateEstimatesByDay M r row fe g ns = Inr rs'"
    by (auto simp: append_all_append e bindR_eq_Inr_iff)
  with snoc.IH snoc.prems(2) show ?case by (simp add: e)
qed

lemma append_all_Nil:
  assumes "append_all M g ns rs es = Inr rs'"
  shows "rs' = [] \<longleftrightarrow> rs = [] \<and> es = []"
  using assms by (rule append_all_induct) (auto dest: append_nonempty)

lemma append_all_total:
  assumes "append_all M g ns rs es = Inr rs'" "additive f"
  shows "er_total f rs' = er_total f rs + sum_list (map (\<lambda>(row, fe). f (service_estimate row fe)) es)"
  using assms(1) by (rule append_all_induct) (simp_all add: append_total [OF _ assms(2)] add.assoc)

lemma append_all_ok:
  assumes "append_all M g ns rs es = Inr rs'" "results_ok ns rs"
  shows "results_ok ns rs'"
  using assms(1) by (rule append_all_induct) (use assms(2) append_ok in blast)+

lemma append_all_typed:
  assumes "append_all M g ns rs es = Inr rs'" "list_all (result_typed g providers) rs"
    and "\<forall>(row, fe)\<in>set es. br_cloudProvider row \<in> set providers"
  shows "list_all (result_typed g providers) rs'"
  using assms(1) by (rule append_all_induct) (use assms(2,3) append_typed in blast)+

lemma append_all_value_at:
  assumes "append_all M g ns rs es = Inr rs'" "additive f"
  shows "value_at f ns rs' t k = value_at f ns rs t k
    + sum_list (map (\<lambda>(row, fe). if br_timestamp row = Some t \<and> estimate_key ns (service_estimate row fe) = k
        then f (service_estimate row fe) else 0) es)"
  using assms(1)
  by (rule append_all_induct) (simp_all add: append_value_at [OF _ assms(2)] add.assoc)

definition dated_rows :: "(BillingDataRow \<times> 'a) list \<Rightarrow> bool" where
  "dated_rows es \<longleftrightarrow> (\<forall>(row, _)\<in>set es. br_timestamp row \<noteq> None \<and> br_tags row \<noteq> None)"

lemma append_all_returns:
  assumes "tags_present rs" and "dated_rows es"
  shows "\<exists>rs'. append_all M g ns rs es = Inr rs' \<and> tags_present rs'"
  using assms
proof (induction es arbitrary: rs)
  case Nil
  then show ?case by simp
next
  case (Cons e es)
  obtain row fe where e: "e = (row, fe)" by (cases e)
  from Cons.prems(2) obtain t where "br_timestamp row = Some t" "br_tags row \<noteq> None"
    by (auto simp: dated_rows_def e)
  from append_total_fun [OF Cons.prems(1) this] obtain r where
    "appendOrAccumulateEstimatesByDay M rs row fe g ns = Inr r" "tags_present r" by blast
  with Cons.IH [of r] Cons.prems(2) show ?case
    by (simp add: append_all_def e dated_rows_def)
qed

section \<open>The totals of a unit\<close>

text \<open>
  The entry of the ledger that the estimate of unknown usage reads: the usage names no service, so
  the key is \<open>undefined\<close>, and the totals of the unit come after a service of that name.
\<close>

definition unit_totals :: "kwh_store \<Rightarrow> string \<Rightarrow> KilowattHourTotals option" where
  "unit_totals store unit =
     (case obj_get (units_of store ''undefined'') unit of
        Some t \<Rightarrow> Some t
      | None \<Rightarrow> obj_get (units_of store ''total'') unit)"

section \<open>A run over the items\<close>

definition run_report ::
    "(EstimationResult list \<times> 'row list \<Rightarrow> 'item \<Rightarrow> ('g, EstimationResult list \<times> 'row list) eff) \<Rightarrow>
     (EstimationResult list \<Rightarrow> 'row \<Rightarrow> ('g, EstimationResult list) eff) \<Rightarrow>
     'item list \<Rightarrow> ('g, EstimationResult list) eff" where
  "run_report step unknown_step items =
     bindE (foldE step ([], []) items) (\<lambda>(results, unknownRows).
       if 0 < length results then foldE unknown_step results unknownRows else retE results)"

text \<open>What the run appends and accumulates, from the rows with their emissions factors.\<close>

type_synonym 'row outcome = "'row \<Rightarrow> emissions_factors \<Rightarrow> FootprintEstimate option \<times> jsnum option"

definition report_estimates ::
    "('row \<Rightarrow> BillingDataRow) \<Rightarrow> 'row outcome \<Rightarrow> ('row \<times> emissions_factors) list \<Rightarrow>
     (BillingDataRow \<times> FootprintEstimate) list" where
  "report_estimates data outcome L =
     concat (map (\<lambda>(row, ef). entry_of (data row) (fst (outcome row ef))) L)"

definition report_energies ::
    "('row \<Rightarrow> BillingDataRow) \<Rightarrow> 'row outcome \<Rightarrow> ('row \<times> emissions_factors) list \<Rightarrow>
     (BillingDataRow \<times> jsnum) list" where
  "report_energies data outcome L =
     concat (map (\<lambda>(row, ef). entry_of (data row) (snd (outcome row ef))) L)"

definition report_entries ::
    "('row \<Rightarrow> BillingDataRow) \<Rightarrow> 'row outcome \<Rightarrow> ('row \<Rightarrow> bool) \<Rightarrow> (kwh_store \<Rightarrow> 'row \<Rightarrow> FootprintEstimate) \<Rightarrow>
     kwh_store \<Rightarrow> ('row \<times> emissions_factors) list \<Rightarrow> (BillingDataRow \<times> FootprintEstimate) list" where
  "report_entries data outcome deferred unknown store L =
     (let known = report_estimates data outcome L in
      if known = [] then []
      else known @ map (\<lambda>row. (data row, unknown store row)) (filter deferred (map fst L)))"

definition rows_counted :: "('row \<Rightarrow> bool) \<Rightarrow> ('row \<Rightarrow> bool) \<Rightarrow> 'row list \<Rightarrow> 'row list" where
  "rows_counted estimated deferred rows =
     (if filter estimated rows = [] then [] else filter estimated rows @ filter deferred rows)"

lemma service_estimate_cost [simp]: "sd_cost (service_estimate row fe) = br_cost row"
  by (simp add: service_estimate_def)

section \<open>The contract\<close>

locale billing_report =
  fixes M :: moment_ops and grouping :: GroupBy and ns :: "string list"
    and accumulateBy :: AccumulateKilowattHoursBy
    and store :: "'g \<Rightarrow> kwh_store"
    and read :: "'item \<Rightarrow> 'row result"
    and data :: "'row \<Rightarrow> BillingDataRow"
    and estimated :: "'row \<Rightarrow> bool"
    and deferred :: "'row \<Rightarrow> bool"
    and outcome :: "'row outcome"
    and unknown :: "kwh_store \<Rightarrow> 'row \<Rightarrow> FootprintEstimate"
    and step :: "EstimationResult list \<times> 'row list \<Rightarrow> 'item \<Rightarrow>
      ('g, EstimationResult list \<times> 'row list) eff"
    and unknown_step :: "EstimationResult list \<Rightarrow> 'row \<Rightarrow> ('g, EstimationResult list) eff"
  assumes step_reads:
      "step (rs, us) x g = (Inr (rs', us'), g') \<Longrightarrow> obj_get (store g) ''total'' \<noteq> None \<Longrightarrow>
       \<exists>row ef. read x = Inr row
         \<and> us' = (if deferred row then us @ [row] else us)
         \<and> accumulate_all accumulateBy (store g) (entry_of (data row) (snd (outcome row ef)))
             = Inr (store g')
         \<and> append_all M grouping ns rs (entry_of (data row) (fst (outcome row ef))) = Inr rs'"
    and unknown_appends:
      "unknown_step rs row g = (Inr rs', g') \<Longrightarrow> obj_get (store g) ''total'' \<noteq> None \<Longrightarrow>
       g' = g \<and> append_all M grouping ns rs [(data row, unknown (store g) row)] = Inr rs'"
    and outcome_estimated: "fst (outcome row ef) \<noteq> None \<longleftrightarrow> estimated row"
begin

lemma loop_reads:
  assumes "foldE step ([], []) items g = (Inr (rs, us), g')" and "obj_get (store g) ''total'' \<noteq> None"
  shows "\<exists>L. mapR read items = Inr (map fst L)
    \<and> us = filter deferred (map fst L)
    \<and> append_all M grouping ns [] (report_estimates data outcome L) = Inr rs
    \<and> accumulate_all accumulateBy (store g) (report_energies data outcome L) = Inr (store g')
    \<and> obj_get (store g') ''total'' \<noteq> None"
proof -
  define P where "P ys acc h \<longleftrightarrow> (\<exists>L. mapR read ys = Inr (map fst L)
    \<and> snd acc = filter deferred (map fst L)
    \<and> append_all M grouping ns [] (report_estimates data outcome L) = Inr (fst acc)
    \<and> accumulate_all accumulateBy (store g) (report_energies data outcome L) = Inr (store h))"
    for ys and acc :: "EstimationResult list \<times> 'row list" and h
  have tot: "obj_get (store h) ''total'' \<noteq> None" if "P ys acc h" for ys acc h
    using that accumulate_all_keeps_total [OF _ assms(2)] by (auto simp: P_def)
  have "P items (rs, us) g'"
    using assms(1)
  proof (rule foldE_invariant)
    show "P [] ([], []) g"
      unfolding P_def
      by (intro exI [of _ "[]"]) (simp add: report_estimates_def report_energies_def accumulate_all_def)
  next
    fix ys x zs a h a' h'
    assume P: "P ys a h" and st: "step a x h = (Inr a', h')"
    then obtain L where L: "mapR read ys = Inr (map fst L)"
      "snd a = filter deferred (map fst L)"
      "append_all M grouping ns [] (report_estimates data outcome L) = Inr (fst a)"
      "accumulate_all accumulateBy (store g) (report_energies data outcome L) = Inr (store h)"
      unfolding P_def by blast
    obtain r u r' u' where a: "a = (r, u)" "a' = (r', u')" by (cases a, cases a')
    from step_reads [OF st [unfolded a] tot [OF P]] obtain row ef where s: "read x = Inr row"
      "u' = (if deferred row then u @ [row] else u)"
      "accumulate_all accumulateBy (store h) (entry_of (data row) (snd (outcome row ef))) = Inr (store h')"
      "append_all M grouping ns r (entry_of (data row) (fst (outcome row ef))) = Inr r'" by blast
    show "P (ys @ [x]) a' h'"
      unfolding P_def
      by (intro exI [of _ "L @ [(row, ef)]"])
        (use L s a in \<open>simp add: report_estimates_def report_energies_def mapR_append
          append_all_append accumulate_all_append\<close>)
  qed
  then show ?thesis using tot [of items "(rs, us)" g'] by (simp add: P_def)
qed

lemma unknown_loop:
  assumes "foldE unknown_step rs us g = (Inr rs', g')" and "obj_get (store g) ''total'' \<noteq> None"
  shows "g' = g \<and>
    append_all M grouping ns rs (map (\<lambda>row. (data row, unknown (store g) row)) us) = Inr rs'"
  using assms(1)
proof (induction us arbitrary: rs)
  case Nil
  then show ?case by simp
next
  case (Cons row us)
  then obtain r h where r: "unknown_step rs row g = (Inr r, h)" "foldE unknown_step r us h = (Inr rs', g')"
    by (auto simp: bindE_eq_Inr)
  from unknown_appends [OF r(1) assms(2)] Cons.IH r(2) show ?case
    by (auto simp: bindR_eq_Inr_iff)
qed

text \<open>
  The run is a pure computation: from the rows with their factors follow the ledger and, with the
  final ledger, the entries that are appended.
\<close>

lemma pipeline:
  assumes "run_report step unknown_step items g = (Inr rs, g')" and "obj_get (store g) ''total'' \<noteq> None"
  obtains L where "mapR read items = Inr (map fst L)"
    "accumulate_all accumulateBy (store g) (report_energies data outcome L) = Inr (store g')"
    "append_all M grouping ns [] (report_entries data outcome deferred unknown (store g') L) = Inr rs"
proof -
  from assms(1) obtain rs1 us g1 where
    loop: "foldE step ([], []) items g = (Inr (rs1, us), g1)" and
    rest: "(if 0 < length rs1 then foldE unknown_step rs1 us else retE rs1) g1 = (Inr rs, g')"
    by (auto simp: run_report_def bindE_eq_Inr split: prod.splits)
  from loop_reads [OF loop assms(2)] obtain L where L: "mapR read items = Inr (map fst L)"
    "us = filter deferred (map fst L)"
    "append_all M grouping ns [] (report_estimates data outcome L) = Inr rs1"
    "accumulate_all accumulateBy (store g) (report_energies data outcome L) = Inr (store g1)"
    "obj_get (store g1) ''total'' \<noteq> None"
    by blast
  show thesis
  proof (cases "report_estimates data outcome L = []")
    case True
    then have "rs1 = []" using append_all_Nil [OF L(3)] by simp
    with rest have "g' = g1" "rs = []" by simp_all
    then show thesis using that L True by (simp add: report_entries_def)
  next
    case False
    then have "rs1 \<noteq> []" using append_all_Nil [OF L(3)] by simp
    with rest have "foldE unknown_step rs1 us g1 = (Inr rs, g')" by simp
    from unknown_loop [OF this L(5)] have "g' = g1"
      "append_all M grouping ns rs1 (map (\<lambda>row. (data row, unknown (store g1) row)) us) = Inr rs"
      by simp_all
    then show thesis using that L False by (simp add: report_entries_def append_all_append)
  qed
qed

lemma estimates_rows:
  "map fst (report_estimates data outcome L) = map data (filter estimated (map fst L))"
proof (induction L)
  case Nil
  then show ?case by (simp add: report_estimates_def)
next
  case (Cons e L)
  obtain row ef where e: "e = (row, ef)" by (cases e)
  show ?case
    using Cons outcome_estimated [of row ef]
    by (cases "fst (outcome row ef)") (auto simp: report_estimates_def e)
qed

lemma entries_rows:
  "map fst (report_entries data outcome deferred unknown st L)
     = map data (rows_counted estimated deferred (map fst L))"
proof -
  have "report_estimates data outcome L = [] \<longleftrightarrow> filter estimated (map fst L) = []"
    by (metis estimates_rows map_is_Nil_conv)
  then show ?thesis
    using estimates_rows [of L] by (simp add: report_entries_def rows_counted_def Let_def comp_def)
qed

text \<open>Every counted row contributes its cost once, and the other rows nothing.\<close>

lemma cost_of_counted:
  assumes "run_report step unknown_step items g = (Inr rs, g')" and "obj_get (store g) ''total'' \<noteq> None"
  shows "\<exists>rows. mapR read items = Inr rows
    \<and> er_total sd_cost rs = sum_list (map (\<lambda>row. br_cost (data row)) (rows_counted estimated deferred rows))"
proof -
  from assms obtain L where L: "mapR read items = Inr (map fst L)"
    "append_all M grouping ns [] (report_entries data outcome deferred unknown (store g') L) = Inr rs"
    by (rule pipeline)
  have costs: "map (\<lambda>(row, fe). sd_cost (service_estimate row fe)) es = map br_cost (map fst es)" for es
    by (induction es) auto
  have "er_total sd_cost rs = sum_list (map br_cost
      (map fst (report_entries data outcome deferred unknown (store g') L)))"
    using append_all_total [OF L(2), of sd_cost] unfolding costs by simp
  then show ?thesis unfolding entries_rows using L(1) by (simp add: comp_def)
qed

lemma groups_unique:
  assumes "run_report step unknown_step items g = (Inr rs, g')" and "obj_get (store g) ''total'' \<noteq> None"
  shows "results_ok ns rs"
  using assms by (rule pipeline) (erule append_all_ok, simp)

lemma run_typed:
  assumes "run_report step unknown_step items g = (Inr rs, g')" and "obj_get (store g) ''total'' \<noteq> None"
    and "\<And>x row. read x = Inr row \<Longrightarrow> br_cloudProvider (data row) \<in> set providers"
  shows "list_all (result_typed grouping providers) rs"
proof -
  from assms(1,2) obtain L where L: "mapR read items = Inr (map fst L)"
    "append_all M grouping ns [] (report_entries data outcome deferred unknown (store g') L) = Inr rs"
    by (rule pipeline)
  let ?es = "report_entries data outcome deferred unknown (store g') L"
  have "br_cloudProvider (data row) \<in> set providers" if "row \<in> set (map fst L)" for row
    using L(1) that assms(3) by (fastforce simp: mapR_pointwise list_all2_conv_all_nth in_set_conv_nth)
  then have "\<forall>row\<in>set (map fst ?es). br_cloudProvider row \<in> set providers"
    unfolding entries_rows by (auto simp: rows_counted_def)
  then have "\<forall>(row, fe)\<in>set ?es. br_cloudProvider row \<in> set providers" by auto
  from append_all_typed [OF L(2) _ this] show ?thesis by simp
qed

end

text \<open>
  A reader that throws on no row it can read: its runs return.
\<close>

locale total_billing_report = billing_report +
  fixes readable :: "'b \<Rightarrow> bool" and running :: "'a \<Rightarrow> bool"
  assumes readable_row: "readable x \<Longrightarrow> read x = Inr row \<Longrightarrow>
      br_timestamp (data row) \<noteq> None \<and> br_tags (data row) \<noteq> None"
    and step_returns: "readable x \<Longrightarrow> tags_present rs \<Longrightarrow> obj_get (store g) ''total'' \<noteq> None \<Longrightarrow>
      running g \<Longrightarrow> \<exists>a g'. step (rs, us) x g = (Inr a, g') \<and> running g'"
    and unknown_returns: "br_timestamp (data row) \<noteq> None \<Longrightarrow> br_tags (data row) \<noteq> None \<Longrightarrow>
      tags_present rs \<Longrightarrow> obj_get (store g) ''total'' \<noteq> None \<Longrightarrow>
      \<exists>rs' g'. unknown_step rs row g = (Inr rs', g')"
begin

lemma run_returns:
  assumes "\<forall>x\<in>set items. readable x" and "obj_get (store g) ''total'' \<noteq> None" and "running g"
  shows "\<exists>rs g'. run_report step unknown_step items g = (Inr rs, g')"
proof -
  define Q where "Q acc h \<longleftrightarrow> tags_present (fst acc) \<and> obj_get (store h) ''total'' \<noteq> None
    \<and> running h \<and> (\<forall>row\<in>set (snd acc). br_timestamp (data row) \<noteq> None \<and> br_tags (data row) \<noteq> None)"
    for acc h
  have "\<exists>acc g1. foldE step ([], []) items g = (Inr acc, g1) \<and> Q acc g1"
  proof (rule foldE_total)
    show "Q ([], []) g" using assms(2,3) by (simp add: Q_def tags_present_def)
  next
    fix a h x
    assume x: "x \<in> set items" and Q: "Q a h"
    obtain rs us where a: "a = (rs, us)" by (cases a)
    have pre: "readable x" "tags_present rs" "obj_get (store h) ''total'' \<noteq> None" "running h"
      using assms(1) x Q by (auto simp: Q_def a)
    from step_returns [OF pre] obtain rs' us' h' where st: "step (rs, us) x h = (Inr (rs', us'), h')"
      "running h'" by (metis surj_pair)
    from step_reads [OF st(1) pre(3)] obtain row ef where s: "read x = Inr row"
      "us' = (if deferred row then us @ [row] else us)"
      "accumulate_all accumulateBy (store h) (entry_of (data row) (snd (outcome row ef))) = Inr (store h')"
      "append_all M grouping ns rs (entry_of (data row) (fst (outcome row ef))) = Inr rs'" by blast
    note row = readable_row [OF pre(1) s(1)]
    have "dated_rows (entry_of (data row) (fst (outcome row ef)))"
      using row by (cases "fst (outcome row ef)") (simp_all add: dated_rows_def)
    from append_all_returns [OF pre(2) this, of M grouping ns] s(4) have "tags_present rs'" by auto
    moreover have "obj_get (store h') ''total'' \<noteq> None"
      using accumulate_all_keeps_total [OF s(3) pre(3)] .
    ultimately show "\<exists>a' h'. step a x h = (Inr a', h') \<and> Q a' h'"
      using st s(2) row Q by (auto simp: Q_def a)
  qed
  then obtain rs us g1 where loop: "foldE step ([], []) items g = (Inr (rs, us), g1)" and Q: "Q (rs, us) g1"
    by auto
  have "\<exists>rs' g'. foldE unknown_step rs us g1 = (Inr rs', g')
    \<and> (tags_present rs' \<and> obj_get (store g') ''total'' \<noteq> None)"
  proof (rule foldE_total)
    show "tags_present rs \<and> obj_get (store g1) ''total'' \<noteq> None" using Q by (simp add: Q_def)
  next
    fix a h row
    assume "row \<in> set us" and inv: "tags_present a \<and> obj_get (store h) ''total'' \<noteq> None"
    then have row: "br_timestamp (data row) \<noteq> None" "br_tags (data row) \<noteq> None"
      using Q by (auto simp: Q_def)
    from unknown_returns [OF row, of a h] inv obtain a' h' where st: "unknown_step a row h = (Inr a', h')"
      by blast
    from unknown_appends [OF st] inv have app: "h' = h"
      "append_all M grouping ns a [(data row, unknown (store h) row)] = Inr a'" by simp_all
    have "dated_rows [(data row, unknown (store h) row)]" using row by (simp add: dated_rows_def)
    from append_all_returns [OF _ this, of a M grouping ns] inv app(2) have "tags_present a'" by auto
    with st inv app(1) show "\<exists>a' h'. unknown_step a row h = (Inr a', h')
        \<and> (tags_present a' \<and> obj_get (store h') ''total'' \<noteq> None)" by blast
  qed
  then show ?thesis using loop by (auto simp: run_report_def bindE_apply)
qed

end

end
