(* ===== verification/Core_Reader.thy ===== *)
theory Core_Reader
  imports Core_Billing Common_Factors
begin

text \<open>
  The turn of the loop over the rows of billing data as \<open>BillingExportTable.ts\<close>,
  \<open>ConsumptionManagement.ts\<close> and \<open>AliCostAndUsageService.ts\<close> share it: read the row, get the
  emissions factors of its region and day, estimate it and append the estimate. A reader that
  keeps the contract of \<open>billing_reader\<close> keeps the one of \<open>billing_report\<close>.
\<close>

definition turn ::
    "moment_ops \<Rightarrow> GroupBy \<Rightarrow> string list \<Rightarrow> ('item \<Rightarrow> 'row result) \<Rightarrow> ('row \<Rightarrow> BillingDataRow) \<Rightarrow>
     (string \<Rightarrow> string \<Rightarrow> ('g, emissions_factors) eff) \<Rightarrow>
     ('row \<Rightarrow> 'row list \<Rightarrow> emissions_factors \<Rightarrow> ('g, FootprintEstimate option \<times> 'row list) eff) \<Rightarrow>
     EstimationResult list \<times> 'row list \<Rightarrow> 'item \<Rightarrow> ('g, EstimationResult list \<times> 'row list) eff" where
  "turn M grouping ns read data factors estimate acc x =
     bindE (liftE (read x)) (\<lambda>row.
     case br_timestamp (data row) of
       None \<Rightarrow> throwE RangeError
     | Some t \<Rightarrow>
         bindE (factors (br_region (data row)) (toISOString t)) (\<lambda>emissionsFactors.
         bindE (estimate row (snd acc) emissionsFactors) (\<lambda>(footprintEstimate, unknownRows).
           case footprintEstimate of
             None \<Rightarrow> retE (fst acc, unknownRows)
           | Some e \<Rightarrow>
               bindE (liftE (appendOrAccumulateEstimatesByDay M (fst acc) (data row) e grouping ns))
                 (\<lambda>results. retE (results, unknownRows)))))"

definition unknown_turn ::
    "moment_ops \<Rightarrow> GroupBy \<Rightarrow> string list \<Rightarrow> ('row \<Rightarrow> BillingDataRow) \<Rightarrow>
     ('row \<Rightarrow> ('g, FootprintEstimate) eff) \<Rightarrow>
     EstimationResult list \<Rightarrow> 'row \<Rightarrow> ('g, EstimationResult list) eff" where
  "unknown_turn M grouping ns data estimate results row =
     bindE (estimate row) (\<lambda>e.
       liftE (appendOrAccumulateEstimatesByDay M results (data row) e grouping ns))"

text \<open>The ledger after the energies of a row, of which there is one at most.\<close>

definition charges ::
    "AccumulateKilowattHoursBy \<Rightarrow> ('g \<Rightarrow> kwh_store) \<Rightarrow> BillingDataRow \<Rightarrow> ('g, 'a) eff \<Rightarrow>
     'a \<Rightarrow> jsnum option \<Rightarrow> bool" where
  "charges by store row m x k \<longleftrightarrow>
     (\<forall>g. obj_get (store g) ''total'' \<noteq> None \<longrightarrow>
        (\<exists>g'. m g = (Inr x, g') \<and> accumulate_all by (store g) (entry_of row k) = Inr (store g')))"

lemma chargesD:
  assumes "charges by store row m x k" and "obj_get (store g) ''total'' \<noteq> None"
  obtains g' where "m g = (Inr x, g')" "accumulate_all by (store g) (entry_of row k) = Inr (store g')"
  using assms by (auto simp: charges_def)

lemma charges_ret [intro]: "charges by store row (retE x) x None"
  by (simp add: charges_def accumulate_all_def)

lemma charges_map:
  assumes "charges by store row m x k"
  shows "charges by store row (bindE m (\<lambda>y. retE (f y))) (f x) k"
  using assms by (force simp: charges_def bindE_apply)

text \<open>An operation that accumulates an energy and returns.\<close>

lemma charges_accumulate:
  assumes "\<And>g. acc g = (case accumulateKilowattHours (store g) row kwh by of
                          Inl e \<Rightarrow> (Inl e, g) | Inr st \<Rightarrow> (Inr (), upd st g))"
    and "\<And>st g. store (upd st g) = st"
  shows "charges by store row (bindE acc (\<lambda>_. retE x)) x (Some kwh)"
  unfolding charges_def
proof (intro allI impI)
  fix g :: 'a
  assume "obj_get (store g) ''total'' \<noteq> None"
  from accumulate_eq [OF this, of row kwh "by"] obtain st where
    "accumulateKilowattHours (store g) row kwh by = Inr st" by blast
  then show "\<exists>g'. bindE acc (\<lambda>_. retE x) g = (Inr x, g')
      \<and> accumulate_all by (store g) (entry_of row (Some kwh)) = Inr (store g')"
    using assms(2) by (simp add: bindE_apply assms(1) accumulate_all_def)
qed

section \<open>The contract\<close>

locale billing_reader =
  fixes M :: moment_ops and grouping :: GroupBy and ns :: "string list"
    and accumulateBy :: AccumulateKilowattHoursBy
    and store :: "'g \<Rightarrow> kwh_store"
    and read :: "'item \<Rightarrow> 'row result"
    and data :: "'row \<Rightarrow> BillingDataRow"
    and estimated :: "'row \<Rightarrow> bool"
    and deferred :: "'row \<Rightarrow> bool"
    and outcome :: "'row outcome"
    and unknown :: "kwh_store \<Rightarrow> 'row \<Rightarrow> FootprintEstimate"
    and factors :: "string \<Rightarrow> string \<Rightarrow> ('g, emissions_factors) eff"
    and estimate :: "'row \<Rightarrow> 'row list \<Rightarrow> emissions_factors \<Rightarrow>
      ('g, FootprintEstimate option \<times> 'row list) eff"
    and estimate_unknown :: "'row \<Rightarrow> ('g, FootprintEstimate) eff"
  assumes factors_keep: "factors region d g = (Inr ef, g') \<Longrightarrow> store g' = store g"
    and estimate_charges:
      "charges accumulateBy store (data row) (estimate row us ef)
         (fst (outcome row ef), if deferred row then us @ [row] else us) (snd (outcome row ef))"
    and row_estimated: "fst (outcome row ef) \<noteq> None \<longleftrightarrow> estimated row"
    and unknown_estimates: "obj_get (store g) ''total'' \<noteq> None \<Longrightarrow>
      estimate_unknown row g = (Inr (unknown (store g) row), g)"
begin

abbreviation "reader_turn \<equiv> turn M grouping ns read data factors estimate"
abbreviation "reader_unknown \<equiv> unknown_turn M grouping ns data estimate_unknown"

lemma turn_reads:
  assumes "reader_turn (rs, us) x g = (Inr (rs', us'), g')" and "obj_get (store g) ''total'' \<noteq> None"
  shows "\<exists>row ef. read x = Inr row
    \<and> us' = (if deferred row then us @ [row] else us)
    \<and> accumulate_all accumulateBy (store g) (entry_of (data row) (snd (outcome row ef))) = Inr (store g')
    \<and> append_all M grouping ns rs (entry_of (data row) (fst (outcome row ef))) = Inr rs'"
proof -
  from assms(1) obtain row where row: "read x = Inr row"
    by (cases "read x") (auto simp: turn_def bindE_liftE)
  with assms(1) obtain t where t: "br_timestamp (data row) = Some t"
    by (cases "br_timestamp (data row)") (auto simp: turn_def bindE_liftE)
  from assms(1) row t obtain ef g1 where ef: "factors (br_region (data row)) (toISOString t) g = (Inr ef, g1)"
    by (auto simp: turn_def bindE_liftE bindE_eq_Inr)
  have g1: "store g1 = store g" using factors_keep [OF ef] .
  with assms(2) have "obj_get (store g1) ''total'' \<noteq> None" by simp
  from chargesD [OF estimate_charges this, of row us ef] obtain g2 where
    est: "estimate row us ef g1
      = (Inr (fst (outcome row ef), if deferred row then us @ [row] else us), g2)"
    "accumulate_all accumulateBy (store g1) (entry_of (data row) (snd (outcome row ef))) = Inr (store g2)"
    by blast
  show ?thesis
  proof (cases "fst (outcome row ef)")
    case None
    then show ?thesis
      using assms(1) row t ef est g1 by (intro exI [of _ row] exI [of _ ef])
        (auto simp: turn_def bindE_liftE bindE_apply)
  next
    case (Some e)
    then show ?thesis
      using assms(1) row t ef est g1 by (intro exI [of _ row] exI [of _ ef])
        (auto simp: turn_def bindE_liftE bindE_apply append_all_def split: sum.splits)
  qed
qed

lemma unknown_turn_eq:
  assumes "obj_get (store g) ''total'' \<noteq> None"
  shows "reader_unknown rs row g =
    (append_all M grouping ns rs [(data row, unknown (store g) row)], g)"
proof -
  have "append_all M grouping ns rs [(data row, e)] = appendOrAccumulateEstimatesByDay M rs (data row) e grouping ns"
    for e by (cases "appendOrAccumulateEstimatesByDay M rs (data row) e grouping ns")
      (simp_all add: append_all_def)
  then show ?thesis
    using unknown_estimates [OF assms, of row] by (simp add: unknown_turn_def bindE_apply)
qed

end

sublocale billing_reader \<subseteq> billing_report M grouping ns accumulateBy store read data estimated
  deferred outcome unknown "turn M grouping ns read data factors estimate"
  "unknown_turn M grouping ns data estimate_unknown"
proof unfold_locales
  fix rs us x g rs' us' g'
  assume "reader_turn (rs, us) x g = (Inr (rs', us'), g')" "obj_get (store g) ''total'' \<noteq> None"
  then show "\<exists>row ef. read x = Inr row
    \<and> us' = (if deferred row then us @ [row] else us)
    \<and> accumulate_all accumulateBy (store g) (entry_of (data row) (snd (outcome row ef))) = Inr (store g')
    \<and> append_all M grouping ns rs (entry_of (data row) (fst (outcome row ef))) = Inr rs'"
    by (rule turn_reads)
next
  fix rs row g rs' g'
  assume "reader_unknown rs row g = (Inr rs', g')" "obj_get (store g) ''total'' \<noteq> None"
  then show "g' = g \<and> append_all M grouping ns rs [(data row, unknown (store g) row)] = Inr rs'"
    using unknown_turn_eq [of g rs row] by auto
qed (rule row_estimated)

text \<open>A reader whose emissions factors always arrive and whose rows are dated and have tags.\<close>

locale total_billing_reader = billing_reader +
  fixes readable :: "'b \<Rightarrow> bool" and settled :: bool
  assumes readable_reads: "readable x \<Longrightarrow>
      \<exists>row. read x = Inr row \<and> br_timestamp (data row) \<noteq> None \<and> br_tags (data row) \<noteq> None"
    and factors_arrive: "settled \<Longrightarrow> \<exists>ef g'. factors region d g = (Inr ef, g')"

sublocale total_billing_reader \<subseteq> total_billing_report M grouping ns accumulateBy store read data
  estimated deferred outcome unknown "turn M grouping ns read data factors estimate"
  "unknown_turn M grouping ns data estimate_unknown" readable "\<lambda>_. settled"
proof unfold_locales
  fix x row
  assume "readable x" "read x = Inr row"
  then show "br_timestamp (data row) \<noteq> None \<and> br_tags (data row) \<noteq> None"
    using readable_reads [of x] by auto
next
  fix x rs us and g
  assume x: "readable x" and rs: "tags_present rs" and tot: "obj_get (store g) ''total'' \<noteq> None"
    and settled: settled
  from readable_reads [OF x] obtain row t where row: "read x = Inr row"
    "br_timestamp (data row) = Some t" "br_tags (data row) \<noteq> None" by auto
  obtain ef g1 where ef: "factors (br_region (data row)) (toISOString t) g = (Inr ef, g1)"
    using factors_arrive [OF settled] by blast
  with tot factors_keep [OF ef] have "obj_get (store g1) ''total'' \<noteq> None" by simp
  from chargesD [OF estimate_charges this, of row us ef] obtain g2 where
    est: "estimate row us ef g1
      = (Inr (fst (outcome row ef), if deferred row then us @ [row] else us), g2)" by blast
  show "\<exists>a g'. reader_turn (rs, us) x g = (Inr a, g') \<and> settled"
  proof (cases "fst (outcome row ef)")
    case None
    then show ?thesis using row ef est settled by (simp add: turn_def bindE_liftE bindE_apply)
  next
    case (Some e)
    obtain rs' where "appendOrAccumulateEstimatesByDay M rs (data row) e grouping ns = Inr rs'"
      using append_total_fun [OF rs row(2,3)] by blast
    with Some show ?thesis using row ef est settled by (simp add: turn_def bindE_liftE bindE_apply)
  qed
next
  fix row rs and g
  assume row: "br_timestamp (data row) \<noteq> None" "br_tags (data row) \<noteq> None" "tags_present rs"
    and tot: "obj_get (store g) ''total'' \<noteq> None"
  then have "dated_rows [(data row, unknown (store g) row)]" by (simp add: dated_rows_def)
  from append_all_returns [OF row(3) this] show "\<exists>rs' g'. reader_unknown rs row g = (Inr rs', g')"
    unfolding unknown_turn_eq [OF tot] by blast
qed

text \<open>The totals of the ledger are there after any run, one that throws included.\<close>

context total_billing_reader
begin

lemma turn_keeps_total:
  assumes settled and "obj_get (store g) ''total'' \<noteq> None"
  shows "obj_get (store (snd (reader_turn acc x g))) ''total'' \<noteq> None"
proof (cases "read x")
  case (Inl e)
  then show ?thesis using assms(2) by (simp add: turn_def bindE_apply)
next
  case (Inr row)
  show ?thesis
  proof (cases "br_timestamp (data row)")
    case None
    then show ?thesis using Inr assms(2) by (simp add: turn_def bindE_apply)
  next
    case (Some t)
    obtain ef g1 where ef: "factors (br_region (data row)) (toISOString t) g = (Inr ef, g1)"
      using factors_arrive [OF assms(1)] by blast
    with assms(2) factors_keep [OF ef] have "obj_get (store g1) ''total'' \<noteq> None" by simp
    from chargesD [OF estimate_charges this, of row "snd acc" ef] obtain g2 where
      est: "estimate row (snd acc) ef g1
        = (Inr (fst (outcome row ef), if deferred row then snd acc @ [row] else snd acc), g2)"
      "accumulate_all accumulateBy (store g1) (entry_of (data row) (snd (outcome row ef))) = Inr (store g2)" .
    have "obj_get (store g2) ''total'' \<noteq> None"
      using accumulate_all_keeps_total [OF est(2)] \<open>obj_get (store g1) ''total'' \<noteq> None\<close> by blast
    then show ?thesis
      using Inr Some ef est by (auto simp: turn_def bindE_apply split: option.split sum.split)
  qed
qed

lemma run_keeps_total:
  assumes settled and "obj_get (store g) ''total'' \<noteq> None"
  shows "obj_get (store (snd (run_report reader_turn reader_unknown items g))) ''total'' \<noteq> None"
proof -
  obtain r h where loop: "foldE reader_turn ([], []) items g = (r, h)"
    by (cases "foldE reader_turn ([], []) items g")
  have h: "obj_get (store h) ''total'' \<noteq> None"
    using foldE_keeps [where Q = "\<lambda>g. obj_get (store g) ''total'' \<noteq> None" and f = reader_turn,
        OF turn_keeps_total [OF assms(1)] assms(2), of "([], [])" items]
    by (simp add: loop)
  have "obj_get (store (snd (foldE reader_unknown rs us h))) ''total'' \<noteq> None" for rs us
    using foldE_keeps [where Q = "\<lambda>g. obj_get (store g) ''total'' \<noteq> None" and f = reader_unknown,
        OF _ h, of rs us]
    by (simp add: unknown_turn_eq)
  with h show ?thesis by (cases r) (auto simp: run_report_def bindE_apply loop split: prod.split)
qed

end

end
