(* ===== verification/Aws_Totals.thy ===== *)
theory Aws_Totals
  imports Aws_Reports Core_Reader
begin

text \<open>
  What the loop of \<open>CostAndUsageReports.getEstimates\<close> computes: the reading of the rows is a pure
  function of each row and its emissions factors, the store is the accumulation of the rows'
  energies, and the results are the appended estimates, the deferred rows last.
\<close>

section \<open>The estimate of a known row, without the store\<close>

definition deferred :: "BillingDataRow \<Rightarrow> bool" where
  "deferred row \<longleftrightarrow>
     \<not> usageTypeIsUnsupported (br_usageType row)
     \<and> (usageTypeIsUnknown (br_usageType row) \<or> usageUnitIsUnknown (br_usageUnit row))"

definition estimable :: "BillingDataRow \<Rightarrow> bool" where
  "estimable row \<longleftrightarrow>
     \<not> usageTypeIsUnsupported (br_usageType row)
     \<and> \<not> usageTypeIsUnknown (br_usageType row) \<and> \<not> usageUnitIsUnknown (br_usageUnit row)"

datatype unit_kind = ComputeUnit | StorageUnit | FunctionUnit | NetworkUnit

fun kind_of :: "KNOWN_USAGE_UNITS \<Rightarrow> unit_kind" where
  "kind_of HOURS_1 = ComputeUnit"
| "kind_of HOURS_2 = ComputeUnit"
| "kind_of HOURS_3 = ComputeUnit"
| "kind_of VCPU_HOURS = ComputeUnit"
| "kind_of DPU_HOUR = ComputeUnit"
| "kind_of ACU_HOUR = ComputeUnit"
| "kind_of GB_MONTH_1 = StorageUnit"
| "kind_of GB_MONTH_2 = StorageUnit"
| "kind_of GB_MONTH_3 = StorageUnit"
| "kind_of GB_MONTH_4 = StorageUnit"
| "kind_of GB_HOURS = StorageUnit"
| "kind_of SECONDS_1 = FunctionUnit"
| "kind_of SECONDS_2 = FunctionUnit"
| "kind_of LAMBDA_SECONDS = FunctionUnit"
| "kind_of GB_1 = NetworkUnit"
| "kind_of GB_2 = NetworkUnit"

lemma known_unit_Some: "\<not> usageUnitIsUnknown s \<longleftrightarrow> (\<exists>u. known_unit s = Some u)"
proof -
  have "known_unit s = None \<longleftrightarrow> (\<forall>u\<in>set all_usage_units. usage_unit_name u \<noteq> s)"
    by (auto simp: known_unit_def find_None_iff)
  then show ?thesis
    by (auto simp: usageUnitIsUnknown_def list_ex_iff)
qed

text \<open>A row has an estimate depending on its unit and type alone.\<close>

definition yields_estimate :: "BillingDataRow \<Rightarrow> bool" where
  "yields_estimate row \<longleftrightarrow>
     estimable row \<and>
     (case known_unit (br_usageUnit row) of
        None \<Rightarrow> True
      | Some u \<Rightarrow> (case kind_of u of
                    ComputeUnit \<Rightarrow> True
                  | StorageUnit \<Rightarrow> storage_coefficient row \<noteq> None
                  | FunctionUnit \<Rightarrow> True
                  | NetworkUnit \<Rightarrow> usageTypeIsNetworking row))"

text \<open>
  An operation that returns a value which does not depend on the store and accumulates at most
  one energy for its row.
\<close>

definition store_after :: "BillingDataRow \<Rightarrow> jsnum option \<Rightarrow> aws_globals \<Rightarrow> aws_globals" where
  "store_after row k g =
     (case k of
        None \<Rightarrow> g
      | Some kwh \<Rightarrow>
          (case accumulateKilowattHours (ag_store g) row kwh AK_COST of
             Inr st \<Rightarrow> g\<lparr>ag_store := st\<rparr> | Inl _ \<Rightarrow> g))"

definition accumulates_one ::
    "BillingDataRow \<Rightarrow> (aws_globals, 'a) eff \<Rightarrow> 'a \<Rightarrow> jsnum option \<Rightarrow> bool" where
  "accumulates_one row m x k \<longleftrightarrow>
     (\<forall>g. obj_get (ag_store g) ''total'' \<noteq> None \<longrightarrow> m g = (Inr x, store_after row k g))"

lemma accumulates_ret [intro]: "accumulates_one row (retE x) x None"
  by (simp add: accumulates_one_def store_after_def)

lemma accumulates_bind [intro]: "accumulates_one row (bindE (accumulateE row k) (\<lambda>_. retE x)) x (Some k)"
  unfolding accumulates_one_def
proof (intro allI impI)
  fix g :: aws_globals
  assume "obj_get (ag_store g) ''total'' \<noteq> None"
  from accumulate_eq [OF this, of row k AK_COST]
  show "bindE (accumulateE row k) (\<lambda>_. retE x) g = (Inr x, store_after row (Some k) g)"
    by (auto simp: bindE_apply accumulateE_def store_after_def)
qed

text \<open>The value and the energy of every branch.\<close>

definition compute_outcome ::
    "aws_env \<Rightarrow> BillingDataRow \<Rightarrow> emissions_factors \<Rightarrow> FootprintEstimate option \<times> jsnum option" where
  "compute_outcome E row ef =
     (let c = aws_computeFootprint (aw_median E) (row_data row) ef;
          m = aws_memoryFootprint (aw_median E) aws_MEMORY_COEFFICIENT (row_data row) ef;
          e = getEmbodiedEmissions row ef;
          kwh = fe_kilowattHours c + fe_kilowattHours m + fe_kilowattHours e
      in if isNaN (fe_kilowattHours c) then 
           (Some \<lparr>fe_timestamp = fe_timestamp c, fe_kilowattHours = 0, fe_co2e = fe_co2e c,
                  fe_usesAverageCPUConstant = fe_usesAverageCPUConstant c\<rparr>, None)
         else if truthy (fe_co2e m) \<or> truthy (fe_co2e e) then
           (Some \<lparr>fe_timestamp = fe_timestamp c, fe_kilowattHours = kwh,
                  fe_co2e = fe_co2e c + fe_co2e m + fe_co2e e,
                  fe_usesAverageCPUConstant = fe_usesAverageCPUConstant c\<rparr>, Some kwh)
         else (Some c, Some (fe_kilowattHours c)))"

definition storage_outcome ::
    "moment_ops \<Rightarrow> BillingDataRow \<Rightarrow> emissions_factors \<Rightarrow> FootprintEstimate option \<times> jsnum option" where
  "storage_outcome M row ef =
     (case storage_coefficient row of
        None \<Rightarrow> (None, None)
      | Some c \<Rightarrow>
          (let kwh = storage_estimateKilowattHours c (getUsageAmountInTerabyteHours M row)
                 (Some (aws_getPUE (br_region row))) (Some (br_replicationFactor row))
           in (Some \<lparr>fe_timestamp = br_timestamp row, fe_kilowattHours = kwh,
                     fe_co2e = estimateCo2 kwh (br_region row) ef,
                     fe_usesAverageCPUConstant = Some False\<rparr>, Some kwh)))"

definition network_outcome ::
    "BillingDataRow \<Rightarrow> emissions_factors \<Rightarrow> FootprintEstimate option \<times> jsnum option" where
  "network_outcome row ef =
     (if usageTypeIsNetworking row then
        (let kwh = networking_estimateKilowattHours aws_NETWORKING_COEFFICIENT (br_usageAmount row)
               (Some (aws_getPUE (br_region row)))
         in (Some \<lparr>fe_timestamp = br_timestamp row, fe_kilowattHours = kwh,
                   fe_co2e = estimateCo2 kwh (br_region row) ef,
                   fe_usesAverageCPUConstant = Some False\<rparr>, Some kwh))
      else (None, None))"

definition row_outcome ::
    "aws_env \<Rightarrow> BillingDataRow \<Rightarrow> emissions_factors \<Rightarrow> FootprintEstimate option \<times> jsnum option" where
  "row_outcome E row ef =
     (if \<not> estimable row then (None, None)
      else case known_unit (br_usageUnit row) of
             None \<Rightarrow> (None, None)
           | Some u \<Rightarrow>
               (case kind_of u of
                  ComputeUnit \<Rightarrow> compute_outcome E row ef
                | StorageUnit \<Rightarrow> storage_outcome (aw_moment E) row ef
                | FunctionUnit \<Rightarrow>
                    (Some (aws_computeFootprint (aw_median E)
                       (row_data (row\<lparr>br_vCpuHours := br_usageAmount row / 3600\<rparr>)) ef), None)
                | NetworkUnit \<Rightarrow> network_outcome row ef))"

lemma compute_accumulates:
  "accumulates_one row (getComputeAndMemoryEstimate E row ef)
     (fst (compute_outcome E row ef)) (snd (compute_outcome E row ef))"
  by (auto simp: getComputeAndMemoryEstimate_def compute_outcome_def Let_def
      intro!: accumulates_ret accumulates_bind)

lemma storage_accumulates:
  "accumulates_one row (getStorageFootprintEstimate M row (aws_getPUE (br_region row)) ef)
     (fst (storage_outcome M row ef)) (snd (storage_outcome M row ef))"
  by (cases "storage_coefficient row")
    (auto simp: getStorageFootprintEstimate_def storage_outcome_def Let_def
      StorageEstimator_estimate_def no_constants_def intro: accumulates_ret accumulates_bind)

lemma network_accumulates:
  "accumulates_one row (getNetworkingFootprintEstimate row (aws_getPUE (br_region row)) ef)
     (fst (network_outcome row ef)) (snd (network_outcome row ef))"
  by (auto simp: getNetworkingFootprintEstimate_def network_outcome_def Let_def
      NetworkingEstimator_estimate_def no_constants_def intro: accumulates_ret accumulates_bind)

lemma row_accumulates:
  assumes "estimable row"
  shows "accumulates_one row (getEstimateByUsageUnit E row ef)
    (fst (row_outcome E row ef)) (snd (row_outcome E row ef))"
proof -
  obtain u where u: "known_unit (br_usageUnit row) = Some u"
    using assms by (auto simp: estimable_def known_unit_Some)
  show ?thesis
    using assms
    by (cases u) (simp_all add: getEstimateByUsageUnit_def row_outcome_def Let_def u
        compute_accumulates storage_accumulates network_accumulates accumulates_ret)
qed

text \<open>What one row does: the deferred rows wait, and the others have their outcome.\<close>

lemma getFootprintEstimateFromUsageRow_eq:
  assumes "obj_get (ag_store g) ''total'' \<noteq> None"
  shows "getFootprintEstimateFromUsageRow E row us ef g =
    (Inr (fst (row_outcome E row ef), if deferred row then us @ [row] else us),
     store_after row (snd (row_outcome E row ef)) g)"
proof (cases "estimable row")
  case True
  with row_accumulates [OF True, of E ef] assms show ?thesis
    by (auto simp: getFootprintEstimateFromUsageRow_def estimable_def deferred_def bindE_apply
        accumulates_one_def)
next
  case False
  then show ?thesis
    by (auto simp: getFootprintEstimateFromUsageRow_def estimable_def deferred_def row_outcome_def
        store_after_def)
qed

lemma row_outcome_Some: "(fst (row_outcome E row ef) \<noteq> None) = yields_estimate row"
proof (cases "estimable row")
  case True
  then obtain u where u: "known_unit (br_usageUnit row) = Some u"
    by (auto simp: estimable_def known_unit_Some)
  with True show ?thesis
    by (auto simp: row_outcome_def yields_estimate_def compute_outcome_def storage_outcome_def
        network_outcome_def Let_def split: unit_kind.splits option.splits)
qed (simp add: row_outcome_def yields_estimate_def)

section \<open>The deferred rows\<close>

text \<open>
  The energy of a deferred row is its cost's share of the unit's total. The service of the usage
  is \<open>undefined\<close>, so a service of that name would come before the totals.
\<close>

definition unknown_energy :: "kwh_store \<Rightarrow> BillingDataRow \<Rightarrow> jsnum" where
  "unknown_energy store row =
     (case unit_totals store (br_usageUnit row) of
        None \<Rightarrow> 0
      | Some t \<Rightarrow> (kt_kilowattHours t / toNum (kt_cost t)) * br_cost row)"

definition unknown_estimate :: "kwh_store \<Rightarrow> BillingDataRow \<Rightarrow> FootprintEstimate" where
  "unknown_estimate store row =
     \<lparr>fe_timestamp = br_timestamp row,
      fe_kilowattHours = unknown_energy store row,
      fe_co2e = estimateCo2 (unknown_energy store row) (br_region row)
                  AWS_EMISSIONS_FACTORS_METRIC_TON_PER_KWH,
      fe_usesAverageCPUConstant = Some False\<rparr>"

lemma getEstimateForUnknownUsage_eq:
  assumes "obj_get (ag_store g) ''total'' \<noteq> None"
  shows "getEstimateForUnknownUsage row g = (Inr (unknown_estimate (ag_store g) row), g)"
  using assms
  by (auto simp: getEstimateForUnknownUsage_def UnknownEstimator_estimate_def no_constants_def
      unknown_estimateKilowattHours_def unknown_estimate_def unknown_energy_def unit_totals_def
      units_of_def proportional_def aws_ESTIMATE_UNKNOWN_USAGE_BY_def split: option.splits)

section \<open>The contract of billing data\<close>

lemma convert_tags:
  "convertAthenaRowToCostAndUsageReportsRow c ns names = Inr row \<Longrightarrow> br_tags row \<noteq> None"
  by (auto simp: convertAthenaRowToCostAndUsageReportsRow_def bindR_eq_Inr_iff Let_def
      split: option.splits)

lemma factorsE_no_token:
  "aw_token E = [] \<Longrightarrow>
   factorsE E region dateTime g = (Inr AWS_EMISSIONS_FACTORS_METRIC_TON_PER_KWH, g)"
  by (simp add: factorsE_def getEmissionsFactors_def split: option.splits)

definition readable :: "aws_env \<Rightarrow> athena_row \<Rightarrow> bool" where
  "readable E c \<longleftrightarrow>
     (case convertAthenaRowToCostAndUsageReportsRow c (aw_tagNames E)
             (account_names (aw_accounts E)) of
        Inr row \<Rightarrow> br_timestamp row \<noteq> None
      | Inl _ \<Rightarrow> False)"

lemma store_after_accumulates:
  assumes "obj_get (ag_store g) ''total'' \<noteq> None"
  shows "accumulate_all AK_COST (ag_store g) (entry_of row k) = Inr (ag_store (store_after row k g))"
  using accumulate_eq [OF assms, of row "the k" AK_COST]
  by (cases k) (auto simp: store_after_def accumulate_all_def split: sum.splits)

lemma aws_usage_row_charges:
  "charges AK_COST ag_store row (getFootprintEstimateFromUsageRow E row us ef)
     (fst (row_outcome E row ef), if deferred row then us @ [row] else us) (snd (row_outcome E row ef))"
  unfolding charges_def using getFootprintEstimateFromUsageRow_eq store_after_accumulates by blast

interpretation aws_report: total_billing_reader "aw_moment E" grouping "aw_tagNames E" AK_COST ag_store
  "\<lambda>c. convertAthenaRowToCostAndUsageReportsRow c (aw_tagNames E) (account_names (aw_accounts E))"
  id yields_estimate deferred "row_outcome E" unknown_estimate "factorsE E"
  "getFootprintEstimateFromUsageRow E" getEstimateForUnknownUsage "readable E" "aw_token E = []"
  for E grouping
proof unfold_locales
  fix region d ef and g g' :: aws_globals
  assume "factorsE E region d g = (Inr ef, g')"
  then show "ag_store g' = ag_store g" by (auto simp: factorsE_def Let_def split: prod.splits)
next
  fix row us ef
  show "charges AK_COST ag_store (id row) (getFootprintEstimateFromUsageRow E row us ef)
    (fst (row_outcome E row ef), if deferred row then us @ [row] else us) (snd (row_outcome E row ef))"
    using aws_usage_row_charges by simp
next
  fix row ef
  show "(fst (row_outcome E row ef) \<noteq> None) = yields_estimate row" by (rule row_outcome_Some)
next
  fix row and g :: aws_globals
  assume "obj_get (ag_store g) ''total'' \<noteq> None"
  then show "getEstimateForUnknownUsage row g = (Inr (unknown_estimate (ag_store g) row), g)"
    by (rule getEstimateForUnknownUsage_eq)
next
  fix x
  assume "readable E x"
  then show "\<exists>row. convertAthenaRowToCostAndUsageReportsRow x (aw_tagNames E) (account_names (aw_accounts E))
      = Inr row \<and> br_timestamp (id row) \<noteq> None \<and> br_tags (id row) \<noteq> None"
    by (auto simp: readable_def dest: convert_tags split: sum.splits)
next
  fix region d and g :: aws_globals
  assume "aw_token E = []"
  then show "\<exists>ef g'. factorsE E region d g = (Inr ef, g')" using factorsE_no_token by blast
qed

lemma report_step_turn:
  "report_step E grouping = turn (aw_moment E) grouping (aw_tagNames E)
     (\<lambda>c. convertAthenaRowToCostAndUsageReportsRow c (aw_tagNames E) (account_names (aw_accounts E)))
     id (factorsE E) (getFootprintEstimateFromUsageRow E)"
  by (intro ext) (simp add: report_step_def turn_def cong: option.case_cong)

lemma unknown_step_turn:
  "unknown_step E grouping =
     unknown_turn (aw_moment E) grouping (aw_tagNames E) id getEstimateForUnknownUsage"
  by (intro ext) (simp add: unknown_step_def unknown_turn_def)

section \<open>What a report computes\<close>

type_synonym read_row = "BillingDataRow \<times> emissions_factors"

definition row_energies :: "aws_env \<Rightarrow> read_row list \<Rightarrow> (BillingDataRow \<times> jsnum) list" where
  "row_energies E L = report_energies id (row_outcome E) L"

definition all_entries ::
    "aws_env \<Rightarrow> kwh_store \<Rightarrow> read_row list \<Rightarrow> (BillingDataRow \<times> FootprintEstimate) list" where
  "all_entries E store L = report_entries id (row_outcome E) deferred unknown_estimate store L"

definition read_cells :: "aws_env \<Rightarrow> athena_row list \<Rightarrow> BillingDataRow list result" where
  "read_cells E cells =
     mapR (\<lambda>c. convertAthenaRowToCostAndUsageReportsRow c (aw_tagNames E)
              (account_names (aw_accounts E))) cells"

definition counted_rows :: "BillingDataRow list \<Rightarrow> BillingDataRow list" where
  "counted_rows rows = rows_counted yields_estimate deferred rows"

lemma estimates_run:
  "estimates_of_rows E grouping usageRows
     = run_report
         (turn (aw_moment E) grouping (aw_tagNames E)
           (\<lambda>c. convertAthenaRowToCostAndUsageReportsRow c (aw_tagNames E) (account_names (aw_accounts E)))
           id (factorsE E) (getFootprintEstimateFromUsageRow E))
         (unknown_turn (aw_moment E) grouping (aw_tagNames E) id getEstimateForUnknownUsage)
         (drop 1 usageRows)"
  unfolding estimates_of_rows_def run_report_def report_step_turn unknown_step_turn ..

lemma estimates_pipeline:
  assumes "estimates_of_rows E grouping usageRows g = (Inr rs, g')"
    and "obj_get (ag_store g) ''total'' \<noteq> None"
  obtains L where "read_cells E (drop 1 usageRows) = Inr (map fst L)"
    "accumulate_all AK_COST (ag_store g) (row_energies E L) = Inr (ag_store g')"
    "append_all (aw_moment E) grouping (aw_tagNames E) [] (all_entries E (ag_store g') L) = Inr rs"
  using assms(1)[unfolded estimates_run] assms(2) unfolding read_cells_def row_energies_def all_entries_def
  by (rule aws_report.pipeline)

lemma report_cost:
  assumes "estimates_of_rows E grouping usageRows g = (Inr rs, g')"
    and "obj_get (ag_store g) ''total'' \<noteq> None"
  shows "\<exists>rows. read_cells E (drop 1 usageRows) = Inr rows
    \<and> er_total sd_cost rs = sum_list (map br_cost (counted_rows rows))"
  using aws_report.cost_of_counted [OF assms [unfolded estimates_run]]
  by (simp add: read_cells_def counted_rows_def)

lemma report_results_ok:
  assumes "estimates_of_rows E grouping usageRows g = (Inr rs, g')"
    and "obj_get (ag_store g) ''total'' \<noteq> None"
  shows "results_ok (aw_tagNames E) rs"
  using assms [unfolded estimates_run] by (rule aws_report.groups_unique)

lemma report_returns:
  assumes "aw_token E = []" and "\<forall>c\<in>set (drop 1 usageRows). readable E c"
    and "obj_get (ag_store g) ''total'' \<noteq> None"
  shows "\<exists>rs g'. estimates_of_rows E grouping usageRows g = (Inr rs, g')"
  unfolding estimates_run using assms(2,3,1) by (rule aws_report.run_returns)

lemma report_typed:
  assumes "estimates_of_rows E grouping usageRows g = (Inr rs, g')"
    and "obj_get (ag_store g) ''total'' \<noteq> None"
  shows "list_all (result_typed grouping [''AWS'']) rs"
  using assms [unfolded estimates_run]
  by (rule aws_report.run_typed)
    (auto simp: convertAthenaRowToCostAndUsageReportsRow_def bindR_eq_Inr_iff Let_def
      split: option.splits)

end
