(* ===== verification/Aws_Athena.thy ===== *)
theory Aws_Athena
  imports Aws_Totals Core_Account
begin

text \<open>
  How \<open>CostAndUsageReports.ts\<close> gets its rows: the names of the tag columns, the text of the
  query, the start of the query, the polling of its state and the pages of its result sets, with
  the paging decorator of \<open>ServiceWrapper.ts\<close>. The AWS services are parameters: an operation
  fails with a message or yields its response. A loop that may run forever is a partial
  function, whose value \<open>None\<close> means that it does not return.
\<close>

section \<open>Tag columns\<close>

definition isUpperCase :: "char \<Rightarrow> bool" where
  "isUpperCase c \<longleftrightarrow> toUpperCase [c] = [c]"

definition lastCharacterIs :: "string \<Rightarrow> char \<Rightarrow> bool" where
  "lastCharacterIs s c \<longleftrightarrow> s \<noteq> [] \<and> last s = c"

definition tag_char :: "string \<Rightarrow> char \<Rightarrow> string" where
  "tag_char columnName c =
     (if c = CHR '':'' then columnName @ ''_''
      else (if isUpperCase c \<and> \<not> lastCharacterIs columnName CHR ''_''
            then columnName @ ''_'' else columnName) @ toLowerCase [c])"

definition tagNameToAthenaColumn :: "string \<Rightarrow> string" where
  "tagNameToAthenaColumn tagName = foldl tag_char ''resource_tags_'' tagName"

section \<open>The services\<close>

record query_status =
  qs_State :: string
  qs_StateChangeReason :: string

record athena_query =
  aq_QueryString :: string
  aq_Database :: string
  aq_OutputLocation :: string

record athena_services =
  as_table :: "string \<Rightarrow> string \<Rightarrow> string + string list option"
  as_start :: "athena_query \<Rightarrow> string + string"
  as_status :: "string \<Rightarrow> nat \<Rightarrow> string + query_status"
  as_results :: "string \<Rightarrow> string option \<Rightarrow> string + (athena_row list \<times> string option)"

record athena_config =
  at_dataBaseName :: string
  at_tableName :: string
  at_queryResultsLocation :: string

section \<open>The query\<close>

definition checkIfColumnExists :: "athena_services \<Rightarrow> athena_config \<Rightarrow> string \<Rightarrow> bool" where
  "checkIfColumnExists S C columnName =
     (case as_table S (at_dataBaseName C) (at_tableName C) of
        Inl _ \<Rightarrow> False
      | Inr None \<Rightarrow> False
      | Inr (Some columns) \<Rightarrow> list_ex (\<lambda>column. column = columnName) columns)"

definition athena_account_filter :: "account_list \<Rightarrow> string" where
  "athena_account_filter accounts =
     (case buildAccountFilter accounts ''line_item_usage_account_id'' of
        Inl _ \<Rightarrow> []
      | Inr accountFilter \<Rightarrow> accountFilter)"

definition query_text ::
    "moment_ops \<Rightarrow> athena_config \<Rightarrow> bool \<Rightarrow> date \<Rightarrow> date \<Rightarrow> GroupBy \<Rightarrow> string list \<Rightarrow> account_list \<Rightarrow> string" where
  "query_text M C hasCpuColumn start end grouping tagNames accounts =
     (let dateExpression = ''DATE(DATE_TRUNC('' @ apos @ AWS_QUERY_GROUP_BY grouping @ apos
            @ '', line_item_usage_start_date))'';
          lineItemTypes = join (apos @ '', '' @ apos) LINE_ITEM_TYPES;
          startDate = m_startOf M MDay start;
          endDate = m_endOf M MDay end;
          optionalColumns = (if hasCpuColumn then [''product_vcpu''] else []);
          optionalColumnSelects = (if hasCpuColumn then ''product_vcpu as vCpus,'' @ nl else []);
          tagColumnNames = map tagNameToAthenaColumn tagNames;
          tagSelectionExpression =
            join nl (map (\<lambda>column. '', '' @ column @ '' as '' @ column) tagColumnNames);
          groupByColumnNames = join '', '' ([dateExpression, ''line_item_usage_account_id'',
            ''product_region'', ''line_item_product_code'', ''line_item_usage_type'',
            ''pricing_unit''] @ optionalColumns @ tagColumnNames)
      in ''SELECT '' @ dateExpression @ '' AS timestamp,'' @ nl
         @ indent 24 @ ''line_item_usage_account_id as accountName,'' @ nl
         @ indent 24 @ ''product_region as region,'' @ nl
         @ indent 24 @ ''line_item_product_code as serviceName,'' @ nl
         @ indent 24 @ ''line_item_usage_type as usageType,'' @ nl
         @ indent 24 @ ''pricing_unit as usageUnit,'' @ nl
         @ indent 24 @ optionalColumnSelects @ nl
         @ indent 24 @ ''SUM(line_item_usage_amount) as usageAmount,'' @ nl
         @ indent 24 @ ''SUM(line_item_blended_cost) as cost'' @ nl
         @ indent 24 @ tagSelectionExpression @ nl
         @ indent 20 @ ''FROM '' @ at_tableName C @ nl
         @ indent 20 @ ''WHERE line_item_line_item_type IN ('' @ apos @ lineItemTypes @ apos @ '')'' @ nl
         @ indent 22 @ ''AND line_item_usage_start_date BETWEEN from_iso8601_timestamp('' @ apos
         @ toISOString startDate @ apos @ '') AND from_iso8601_timestamp('' @ apos
         @ toISOString endDate @ apos @ '')'' @ nl
         @ indent 22 @ athena_account_filter accounts @ nl
         @ indent 20 @ ''GROUP BY '' @ groupByColumnNames)"

definition startQuery :: "athena_services \<Rightarrow> athena_query \<Rightarrow> string result" where
  "startQuery S params =
     (case as_start S params of
        Inl message \<Rightarrow> Inl (Thrown (''Athena start query failed. Reason '' @ message @ ''.''))
      | Inr queryExecutionId \<Rightarrow> Inr queryExecutionId)"

section \<open>Polling and paging\<close>

text \<open>
  The condition \<open>State === ('FAILED' || 'CANCELLED')\<close> compares with \<open>FAILED\<close>. The value is the
  number of the poll that ended the loop.
\<close>

partial_function (option) pollQuery ::
    "(nat \<Rightarrow> string + query_status) \<Rightarrow> string \<Rightarrow> nat \<Rightarrow> nat result option" where
  "pollQuery status queryExecutionId n =
     (case status n of
        Inl message \<Rightarrow> Some (Inl (Thrown message))
      | Inr queryStatus \<Rightarrow>
          if qs_State queryStatus = ''FAILED'' then
            Some (Inl (Thrown (''Athena query failed. Reason '' @ qs_StateChangeReason queryStatus
                               @ ''. Query ID: '' @ queryExecutionId)))
          else if qs_State queryStatus = ''SUCCEEDED'' then Some (Inr n)
          else pollQuery status queryExecutionId (n + 1))"

text \<open>The paging loop of \<open>enablePagination\<close>: a page, its token, and so on while there is one.\<close>

partial_function (option) paginate ::
    "(string option \<Rightarrow> string + ('p \<times> string option)) \<Rightarrow> 'p list \<Rightarrow> string option \<Rightarrow>
     'p list result option" where
  "paginate fetch responses token =
     (case fetch token of
        Inl message \<Rightarrow> Some (Inl (Thrown message))
      | Inr (page, nextToken) \<Rightarrow>
          (case nextToken of
             None \<Rightarrow> Some (Inr (responses @ [page]))
           | Some t \<Rightarrow> if t = [] then Some (Inr (responses @ [page]))
                       else paginate fetch (responses @ [page]) nextToken))"

definition getQueryResultSetRows ::
    "athena_services \<Rightarrow> string \<Rightarrow> athena_row list result option" where
  "getQueryResultSetRows S queryExecutionId =
     (case pollQuery (as_status S queryExecutionId) queryExecutionId 0 of
        None \<Rightarrow> None
      | Some (Inl e) \<Rightarrow> Some (Inl e)
      | Some (Inr _) \<Rightarrow>
          (case paginate (as_results S queryExecutionId) [] None of
             None \<Rightarrow> None
           | Some (Inl e) \<Rightarrow> Some (Inl e)
           | Some (Inr pages) \<Rightarrow> Some (Inr (concat pages))))"

definition getUsage ::
    "aws_env \<Rightarrow> athena_services \<Rightarrow> athena_config \<Rightarrow> date \<Rightarrow> date \<Rightarrow> GroupBy \<Rightarrow>
     athena_row list result option" where
  "getUsage E S C start end grouping =
     (let hasCpuColumn = checkIfColumnExists S C ''product_vcpu'';
          params = \<lparr>aq_QueryString = query_text (aw_moment E) C hasCpuColumn start end grouping
                      (aw_tagNames E) (aw_accounts E),
                    aq_Database = at_dataBaseName C,
                    aq_OutputLocation = at_queryResultsLocation C\<rparr>
      in case startQuery S params of
           Inl e \<Rightarrow> Some (Inl e)
         | Inr queryExecutionId \<Rightarrow> getQueryResultSetRows S queryExecutionId)"

definition CostAndUsageReports_getEstimates ::
    "aws_env \<Rightarrow> athena_services \<Rightarrow> athena_config \<Rightarrow> date \<Rightarrow> date \<Rightarrow> GroupBy \<Rightarrow> aws_globals \<Rightarrow>
     (EstimationResult list result \<times> aws_globals) option" where
  "CostAndUsageReports_getEstimates E S C start end grouping g =
     (case getUsage E S C start end grouping of
        None \<Rightarrow> None
      | Some r \<Rightarrow> Some (bindE (liftE r) (estimates_of_rows E grouping) g))"

section \<open>What the loops return\<close>

definition poll_outcome :: "(nat \<Rightarrow> string + query_status) \<Rightarrow> string \<Rightarrow> nat \<Rightarrow> nat result option" where
  "poll_outcome status queryExecutionId n =
     (case status n of
        Inl message \<Rightarrow> Some (Inl (Thrown message))
      | Inr q \<Rightarrow>
          if qs_State q = ''FAILED'' then
            Some (Inl (Thrown (''Athena query failed. Reason '' @ qs_StateChangeReason q
                               @ ''. Query ID: '' @ queryExecutionId)))
          else if qs_State q = ''SUCCEEDED'' then Some (Inr n) else None)"

lemma pollQuery_step:
  "pollQuery status i n =
     (case poll_outcome status i n of Some r \<Rightarrow> Some r | None \<Rightarrow> pollQuery status i (n + 1))"
  by (subst pollQuery.simps) (auto simp: poll_outcome_def split: sum.splits)

lemma pollQuery_sound:
  assumes "pollQuery status i n = Some r"
  shows "\<exists>k\<ge>n. poll_outcome status i k = Some r \<and> (\<forall>j. n \<le> j \<and> j < k \<longrightarrow> poll_outcome status i j = None)"
proof (rule pollQuery.raw_induct [OF _ assms])
  fix poll status i n r
  assume IH: "\<And>status i n r. poll status i n = Some r \<Longrightarrow>
      \<exists>k\<ge>n. poll_outcome status i k = Some r \<and> (\<forall>j. n \<le> j \<and> j < k \<longrightarrow> poll_outcome status i j = None)"
    and eq: "(case status n of
        Inl message \<Rightarrow> Some (Inl (Thrown message))
      | Inr queryStatus \<Rightarrow>
          if qs_State queryStatus = ''FAILED'' then
            Some (Inl (Thrown (''Athena query failed. Reason '' @ qs_StateChangeReason queryStatus
                               @ ''. Query ID: '' @ i)))
          else if qs_State queryStatus = ''SUCCEEDED'' then Some (Inr n)
          else poll status i (n + 1)) = Some r"
  show "\<exists>k\<ge>n. poll_outcome status i k = Some r \<and> (\<forall>j. n \<le> j \<and> j < k \<longrightarrow> poll_outcome status i j = None)"
  proof (cases "poll_outcome status i n")
    case (Some r')
    with eq have "r' = r" by (auto simp: poll_outcome_def split: sum.splits if_splits)
    with Some show ?thesis by (intro exI [of _ n]) auto
  next
    case None
    with eq have "poll status i (n + 1) = Some r"
      by (auto simp: poll_outcome_def split: sum.splits if_splits)
    from IH [OF this] show ?thesis
    proof (elim exE conjE)
      fix k
      assume k: "n + 1 \<le> k" "poll_outcome status i k = Some r"
        and before: "\<forall>j. n + 1 \<le> j \<and> j < k \<longrightarrow> poll_outcome status i j = None"
      have "poll_outcome status i j = None" if "n \<le> j" "j < k" for j
        using before [rule_format, of j] None that by (cases "j = n") simp_all
      with k show ?thesis by (intro exI [of _ k]) simp
    qed
  qed
qed

lemma pollQuery_complete:
  assumes "poll_outcome status i (n + d) = Some r" "\<forall>j<d. poll_outcome status i (n + j) = None"
  shows "pollQuery status i n = Some r"
  using assms
proof (induction d arbitrary: n)
  case 0
  then show ?case by (simp add: pollQuery_step)
next
  case (Suc d)
  have "poll_outcome status i n = None" using Suc.prems(2) [rule_format, of 0] by simp
  moreover have "pollQuery status i (n + 1) = Some r"
  proof (rule Suc.IH)
    show "poll_outcome status i (n + 1 + d) = Some r" using Suc.prems(1) by simp
    show "\<forall>j<d. poll_outcome status i (n + 1 + j) = None"
    proof (intro allI impI)
      fix j assume "j < d"
      then show "poll_outcome status i (n + 1 + j) = None"
        using Suc.prems(2) [rule_format, of "Suc j"] by simp
    qed
  qed
  ultimately show ?case by (subst pollQuery_step) simp
qed

lemma pollQuery_diverges:
  assumes "\<forall>k. poll_outcome status i k = None"
  shows "pollQuery status i n = None"
  using pollQuery_sound [of status i n] assms by (cases "pollQuery status i n") auto

text \<open>The pages of a service whose tokens end are its chain of pages.\<close>

inductive page_chain ::
    "(string option \<Rightarrow> string + ('p \<times> string option)) \<Rightarrow> string option \<Rightarrow> 'p list \<Rightarrow> bool"
  for fetch where
  last_page: "fetch token = Inr (page, nextToken) \<Longrightarrow> nextToken = None \<or> nextToken = Some [] \<Longrightarrow>
    page_chain fetch token [page]"
| more_pages: "fetch token = Inr (page, Some t) \<Longrightarrow> t \<noteq> [] \<Longrightarrow> page_chain fetch (Some t) pages \<Longrightarrow>
    page_chain fetch token (page # pages)"

lemma paginate_chain:
  assumes "page_chain fetch token pages"
  shows "paginate fetch responses token = Some (Inr (responses @ pages))"
  using assms
proof (induction arbitrary: responses rule: page_chain.induct)
  case (last_page token page nextToken)
  then show ?case by (subst paginate.simps) auto
next
  case (more_pages token page t pages)
  then show ?case by (subst paginate.simps) simp
qed

section \<open>The names of the tag columns\<close>

text \<open>Apart from underscores, the column is the prefix and the tag in lower case, without colons.\<close>

lemma tag_column_letters:
  "filter (\<lambda>c. c \<noteq> CHR ''_'') (foldl tag_char col tagName)
     = filter (\<lambda>c. c \<noteq> CHR ''_'') col
       @ filter (\<lambda>c. c \<noteq> CHR ''_'') (toLowerCase (filter (\<lambda>c. c \<noteq> CHR '':'') tagName))"
proof (induction tagName arbitrary: col)
  case Nil
  then show ?case by (simp add: toLowerCase_def)
next
  case (Cons c cs)
  show ?case unfolding foldl_Cons Cons by (simp add: tag_char_def toLowerCase_def)
qed

lemma tag_column_lower:
  assumes "\<forall>c\<in>set col. \<not> is_upper_letter c"
  shows "\<forall>c\<in>set (foldl tag_char col tagName). \<not> is_upper_letter c"
  using assms
proof (induction tagName arbitrary: col)
  case Nil
  then show ?case by simp
next
  case (Cons c cs)
  have under: "\<not> is_upper_letter CHR ''_''" by code_simp
  have "\<forall>d\<in>set (tag_char col c). \<not> is_upper_letter d"
    using Cons.prems under by (auto simp: tag_char_def toLowerCase_def)
  then show ?case using Cons.IH [of "tag_char col c"] by simp
qed

lemma tag_column_length:
  "length (foldl tag_char col tagName) \<le> length col + 2 * length tagName"
proof (induction tagName arbitrary: col)
  case (Cons c cs)
  have "length (tag_char col c) \<le> length col + 2" by (simp add: tag_char_def toLowerCase_def)
  then show ?case using Cons [of "tag_char col c"] by simp
qed simp

section \<open>The account\<close>

text \<open>
  \<open>packages/aws/src/application/AWSAccount.ts\<close>: the regions of an account, one after the other,
  with the services of the configuration, or the cost and usage reports. The constructors of the
  service classes are the fields of \<open>aws_services\<close>; their estimates and costs are parameters.
\<close>

record aws_services =
  ws_EBS :: "string \<Rightarrow> ICloudService"
  ws_S3 :: "string \<Rightarrow> ICloudService"
  ws_EC2 :: "string \<Rightarrow> ICloudService"
  ws_ElastiCache :: "string \<Rightarrow> ICloudService"
  ws_RDS :: "string \<Rightarrow> ICloudService"
  ws_Lambda :: "string \<Rightarrow> ICloudService"

definition aws_service_table :: "aws_services \<Rightarrow> (string \<Rightarrow> ICloudService) obj" where
  "aws_service_table W =
     [(''ebs'', ws_EBS W), (''s3'', ws_S3 W), (''ec2'', ws_EC2 W),
      (''elasticache'', ws_ElastiCache W), (''rds'', ws_RDS W), (''lambda'', ws_Lambda W)]"

text \<open>\<open>AWS.NAME\<close>, \<open>AWS.CURRENT_SERVICES\<close> (their keys) and the functions of the packages.\<close>

record aws_account_env =
  we_name :: string
  we_currentServices :: "string list"
  we_services :: aws_services
  we_packages :: account_packages

definition aws_getService :: "aws_services \<Rightarrow> string \<Rightarrow> string \<Rightarrow> ICloudService result" where
  "aws_getService W key region =
     (case obj_get (aws_service_table W) key of
        None \<Rightarrow> Inl (Thrown (''Unsupported service: '' @ key))
      | Some newService \<Rightarrow> Inr (newService region))"

definition aws_getServices :: "aws_account_env \<Rightarrow> string \<Rightarrow> ICloudService list result" where
  "aws_getServices A regionId =
     mapR (\<lambda>key. aws_getService (we_services A) key regionId) (we_currentServices A)"

definition aws_region_constants :: CloudConstants where
  "aws_region_constants = no_constants
     \<lparr>cc_minWatts := Some aws_MIN_WATTS_AVG,
      cc_maxWatts := Some aws_MAX_WATTS_AVG,
      cc_powerUsageEffectiveness := Some (aws_getPUE [])\<rparr>"

definition getDataForRegion ::
    "aws_account_env \<Rightarrow> CloudProviderAccount \<Rightarrow> string \<Rightarrow> date \<Rightarrow> date \<Rightarrow> GroupBy \<Rightarrow>
     EstimationResult list result" where
  "getDataForRegion A account regionId startDate endDate grouping =
     bindR (aws_getServices A regionId) (\<lambda>services.
       getRegionData (we_packages A) account (we_name A)
         \<lparr>rg_id = regionId, rg_services = services,
          rg_emissionsFactors = AWS_EMISSIONS_FACTORS_METRIC_TON_PER_KWH,
          rg_constants = aws_region_constants\<rparr>
         startDate endDate grouping)"

definition getDataForRegions ::
    "aws_account_env \<Rightarrow> CloudProviderAccount \<Rightarrow> string list \<Rightarrow> date \<Rightarrow> date \<Rightarrow> GroupBy \<Rightarrow>
     EstimationResult list result" where
  "getDataForRegions A account regions startDate endDate grouping =
     bindR (foldR (\<lambda>results regionId.
              bindR (getDataForRegion A account regionId startDate endDate grouping)
                (\<lambda>regionEstimates. Inr (results @ [regionEstimates]))) [] regions)
       (\<lambda>results. Inr (concat results))"

definition getDataFromCostAndUsageReports ::
    "aws_env \<Rightarrow> athena_services \<Rightarrow> athena_config \<Rightarrow> date \<Rightarrow> date \<Rightarrow> GroupBy \<Rightarrow> aws_globals \<Rightarrow>
     (EstimationResult list result \<times> aws_globals) option" where
  "getDataFromCostAndUsageReports E S C startDate endDate grouping =
     CostAndUsageReports_getEstimates E S C startDate endDate grouping"

definition getCostAndUsageReportsDataFromInputData ::
    "aws_env \<Rightarrow> LookupTableInput list \<Rightarrow> (aws_globals, aws_lookup_output list) eff" where
  "getCostAndUsageReportsDataFromInputData E inputData = getEstimatesFromInputData E inputData"

section \<open>Facts\<close>

text \<open>Only the six services are known, and their constructors get the region.\<close>

lemma aws_getService_Inr:
  "(\<exists>s. aws_getService W key region = Inr s)
     \<longleftrightarrow> key \<in> {''ebs'', ''s3'', ''ec2'', ''elasticache'', ''rds'', ''lambda''}"
  by (auto simp: aws_getService_def aws_service_table_def)

lemma getDataForRegions_eq:
  "getDataForRegions A account regions s e g
     = bindR (mapR (\<lambda>r. getDataForRegion A account r s e g) regions) (\<lambda>rss. Inr (concat rss))"
proof -
  have "foldR (\<lambda>results r. bindR (f r) (\<lambda>x. Inr (results @ [x]))) acc rs
      = bindR (mapR f rs) (\<lambda>xs. Inr (acc @ xs))"
    for f :: "string \<Rightarrow> EstimationResult list result" and acc rs
    by (induction rs arbitrary: acc) (auto simp: bindR_def split: sum.splits)
  from this [of "\<lambda>r. getDataForRegion A account r s e g" "[]" regions] show ?thesis
    by (auto simp: getDataForRegions_def bindR_def split: sum.splits)
qed

text \<open>Each region's results are in order and have one result for each day.\<close>

lemma getDataForRegions_parts:
  assumes "getDataForRegions A account regions s e g = Inr rs" and "packages_ok (we_packages A)"
  obtains rss where "rs = concat rss" "length rss = length regions"
    "\<forall>i < length regions. getDataForRegion A account (regions ! i) s e g = Inr (rss ! i)
       \<and> sorted (map er_timestamp (rss ! i)) \<and> distinct (map er_timestamp (rss ! i))"
proof -
  from assms(1) obtain rss where rss: "mapR (\<lambda>r. getDataForRegion A account r s e g) regions = Inr rss"
    "rs = concat rss"
    by (auto simp: getDataForRegions_eq bindR_eq_Inr_iff)
  then have all: "list_all2 (\<lambda>r x. getDataForRegion A account r s e g = Inr x) regions rss"
    by (simp add: mapR_pointwise)
  have sorted: "sorted (map er_timestamp x) \<and> distinct (map er_timestamp x)"
    if "getDataForRegion A account r s e g = Inr x" for r x
    using that getRegionData_sorted [OF _ assms(2)] by (auto simp: getDataForRegion_def bindR_eq_Inr_iff)
  show thesis
    by (rule that [of rss]) (use rss(2) all sorted in \<open>auto simp: list_all2_conv_all_nth\<close>)
qed

end
