(* ===== verification/Gcp_Constants.thy ===== *)
theory Gcp_Constants
  imports Core_Accumulate
begin

text \<open>
  The tables of the GCP package: the regions (\<open>lib/GCPRegions.ts\<close>), the machine types
  (\<open>lib/MachineTypes.ts\<close>), the usage types of the billing export (\<open>lib/BillingExportTypes.ts\<close>) and
  the constants (\<open>domain/GcpFootprintEstimationConstants.ts\<close>), in the order of the source. The
  ledger of kilowatt hours is state and starts as \<open>initial_store\<close>;
  \<open>USE_CARBON_FREE_ENERGY_PERCENTAGE\<close> of the configuration is an argument.
\<close>

section \<open>Regions\<close>

datatype GCP_REGIONS =
    GCP_ASIA_EAST1
  | GCP_ASIA_EAST2
  | GCP_ASIA_NORTHEAST1
  | GCP_ASIA_NORTHEAST2
  | GCP_ASIA_NORTHEAST3
  | GCP_ASIA_SOUTH1
  | GCP_ASIA_SOUTH2
  | GCP_ASIA_SOUTHEAST1
  | GCP_ASIA_SOUTHEAST2
  | GCP_AUSTRALIA_SOUTHEAST1
  | GCP_AUSTRALIA_SOUTHEAST2
  | GCP_EUROPE_CENTRAL2
  | GCP_EUROPE_NORTH1
  | GCP_EUROPE_SOUTHWEST1
  | GCP_EUROPE_WEST1
  | GCP_EUROPE_WEST2
  | GCP_EUROPE_WEST3
  | GCP_EUROPE_WEST4
  | GCP_EUROPE_WEST6
  | GCP_EUROPE_WEST8
  | GCP_EUROPE_WEST9
  | GCP_EUROPE_WEST10
  | GCP_EUROPE_WEST12
  | GCP_NORTHAMERICA_NORTHEAST1
  | GCP_NORTHAMERICA_NORTHEAST2
  | GCP_SOUTHAMERICA_EAST1
  | GCP_SOUTHAMERICA_WEST1
  | GCP_US_CENTRAL1
  | GCP_US_CENTRAL2
  | GCP_US_EAST1
  | GCP_US_EAST4
  | GCP_US_EAST5
  | GCP_US_SOUTH1
  | GCP_US_WEST1
  | GCP_US_WEST2
  | GCP_US_WEST3
  | GCP_US_WEST4
  | GCP_UNKNOWN

fun gcp_region :: "GCP_REGIONS \<Rightarrow> string" where
  "gcp_region GCP_ASIA_EAST1 = ''asia-east1''"
| "gcp_region GCP_ASIA_EAST2 = ''asia-east2''"
| "gcp_region GCP_ASIA_NORTHEAST1 = ''asia-northeast1''"
| "gcp_region GCP_ASIA_NORTHEAST2 = ''asia-northeast2''"
| "gcp_region GCP_ASIA_NORTHEAST3 = ''asia-northeast3''"
| "gcp_region GCP_ASIA_SOUTH1 = ''asia-south1''"
| "gcp_region GCP_ASIA_SOUTH2 = ''asia-south2''"
| "gcp_region GCP_ASIA_SOUTHEAST1 = ''asia-southeast1''"
| "gcp_region GCP_ASIA_SOUTHEAST2 = ''asia-southeast2''"
| "gcp_region GCP_AUSTRALIA_SOUTHEAST1 = ''australia-southeast1''"
| "gcp_region GCP_AUSTRALIA_SOUTHEAST2 = ''australia-southeast2''"
| "gcp_region GCP_EUROPE_CENTRAL2 = ''europe-central2''"
| "gcp_region GCP_EUROPE_NORTH1 = ''europe-north1''"
| "gcp_region GCP_EUROPE_SOUTHWEST1 = ''europe-southwest1''"
| "gcp_region GCP_EUROPE_WEST1 = ''europe-west1''"
| "gcp_region GCP_EUROPE_WEST2 = ''europe-west2''"
| "gcp_region GCP_EUROPE_WEST3 = ''europe-west3''"
| "gcp_region GCP_EUROPE_WEST4 = ''europe-west4''"
| "gcp_region GCP_EUROPE_WEST6 = ''europe-west6''"
| "gcp_region GCP_EUROPE_WEST8 = ''europe-west8''"
| "gcp_region GCP_EUROPE_WEST9 = ''europe-west9''"
| "gcp_region GCP_EUROPE_WEST10 = ''europe-west10''"
| "gcp_region GCP_EUROPE_WEST12 = ''europe-west12''"
| "gcp_region GCP_NORTHAMERICA_NORTHEAST1 = ''northamerica-northeast1''"
| "gcp_region GCP_NORTHAMERICA_NORTHEAST2 = ''northamerica-northeast2''"
| "gcp_region GCP_SOUTHAMERICA_EAST1 = ''southamerica-east1''"
| "gcp_region GCP_SOUTHAMERICA_WEST1 = ''southamerica-west1''"
| "gcp_region GCP_US_CENTRAL1 = ''us-central1''"
| "gcp_region GCP_US_CENTRAL2 = ''us-central2''"
| "gcp_region GCP_US_EAST1 = ''us-east1''"
| "gcp_region GCP_US_EAST4 = ''us-east4''"
| "gcp_region GCP_US_EAST5 = ''us-east5''"
| "gcp_region GCP_US_SOUTH1 = ''us-south1''"
| "gcp_region GCP_US_WEST1 = ''us-west1''"
| "gcp_region GCP_US_WEST2 = ''us-west2''"
| "gcp_region GCP_US_WEST3 = ''us-west3''"
| "gcp_region GCP_US_WEST4 = ''us-west4''"
| "gcp_region GCP_UNKNOWN = ''Unknown''"

datatype GCP_DUAL_REGIONS =
    GCP_DUAL_ASIA1
  | GCP_DUAL_EUR4
  | GCP_DUAL_NAM4

fun gcp_dual_region :: "GCP_DUAL_REGIONS \<Rightarrow> string" where
  "gcp_dual_region GCP_DUAL_ASIA1 = ''asia1''"
| "gcp_dual_region GCP_DUAL_EUR4 = ''eur4''"
| "gcp_dual_region GCP_DUAL_NAM4 = ''nam4''"

datatype GCP_MULTI_REGIONS =
    GCP_MULTI_ASIA
  | GCP_MULTI_EU
  | GCP_MULTI_US

fun gcp_multi_region :: "GCP_MULTI_REGIONS \<Rightarrow> string" where
  "gcp_multi_region GCP_MULTI_ASIA = ''asia''"
| "gcp_multi_region GCP_MULTI_EU = ''europe''"
| "gcp_multi_region GCP_MULTI_US = ''us''"

definition gcp_dual_regions_values :: "string list" where
  "gcp_dual_regions_values = map gcp_dual_region [GCP_DUAL_ASIA1, GCP_DUAL_EUR4, GCP_DUAL_NAM4]"

definition gcp_multi_regions_values :: "string list" where
  "gcp_multi_regions_values = map gcp_multi_region [GCP_MULTI_ASIA, GCP_MULTI_EU, GCP_MULTI_US]"

definition GCP_MAPPED_REGIONS_TO_ELECTRICITY_MAPS_ZONES :: zone_map where
  "GCP_MAPPED_REGIONS_TO_ELECTRICITY_MAPS_ZONES =
    [(gcp_region GCP_ASIA_EAST1, Some ''TW''),
     (gcp_region GCP_ASIA_EAST2, None),
     (gcp_region GCP_ASIA_NORTHEAST1, Some ''JP-TK''),
     (gcp_region GCP_ASIA_NORTHEAST2, Some ''JP-KN''),
     (gcp_region GCP_ASIA_NORTHEAST3, Some ''KR''),
     (gcp_region GCP_ASIA_SOUTH1, Some ''IN-WE''),
     (gcp_region GCP_ASIA_SOUTH2, Some ''IN-NO''),
     (gcp_region GCP_ASIA_SOUTHEAST1, Some ''SG''),
     (gcp_region GCP_ASIA_SOUTHEAST2, Some ''ID''),
     (gcp_region GCP_AUSTRALIA_SOUTHEAST1, Some ''AU-NSW''),
     (gcp_region GCP_AUSTRALIA_SOUTHEAST2, Some ''AU-VIC''),
     (gcp_region GCP_EUROPE_CENTRAL2, Some ''PL''),
     (gcp_region GCP_EUROPE_NORTH1, Some ''FI''),
     (gcp_region GCP_EUROPE_SOUTHWEST1, Some ''ES''),
     (gcp_region GCP_EUROPE_WEST1, Some ''BE''),
     (gcp_region GCP_EUROPE_WEST2, Some ''GB''),
     (gcp_region GCP_EUROPE_WEST3, Some ''DE''),
     (gcp_region GCP_EUROPE_WEST4, Some ''NL''),
     (gcp_region GCP_EUROPE_WEST6, Some ''CH''),
     (gcp_region GCP_EUROPE_WEST8, Some ''IT-NO''),
     (gcp_region GCP_EUROPE_WEST9, Some ''FR''),
     (gcp_region GCP_EUROPE_WEST10, Some ''DE''),
     (gcp_region GCP_EUROPE_WEST12, Some ''IT-NO''),
     (gcp_region GCP_NORTHAMERICA_NORTHEAST1, Some ''CA-QC''),
     (gcp_region GCP_NORTHAMERICA_NORTHEAST2, Some ''CA-ON''),
     (gcp_region GCP_SOUTHAMERICA_EAST1, Some ''BR-CS''),
     (gcp_region GCP_SOUTHAMERICA_WEST1, Some ''CL-SEN''),
     (gcp_region GCP_US_CENTRAL1, Some ''US-MIDW-MISO''),
     (gcp_region GCP_US_CENTRAL2, Some ''US-MIDW-MISO''),
     (gcp_region GCP_US_EAST1, Some ''US-CAR-SCEG''),
     (gcp_region GCP_US_EAST4, Some ''US-MIDA-PJM''),
     (gcp_region GCP_US_EAST5, Some ''US-MIDA-PJM''),
     (gcp_region GCP_US_SOUTH1, Some ''US-TEX-ERCO''),
     (gcp_region GCP_US_WEST1, Some ''US-NW-PACW''),
     (gcp_region GCP_US_WEST2, Some ''US-CAL-CISO''),
     (gcp_region GCP_US_WEST3, Some ''US-NW-PACE''),
     (gcp_region GCP_US_WEST4, Some ''US-NW-NEVP''),
     (gcp_region GCP_UNKNOWN, None)]"

section \<open>Machine types\<close>

datatype SHARED_CORE_PROCESSORS =
    E2_MICRO
  | E2_SMALL
  | E2_MEDIUM
  | F1_MICRO
  | G1_SMALL

fun shared_core :: "SHARED_CORE_PROCESSORS \<Rightarrow> string" where
  "shared_core E2_MICRO = ''e2-micro''"
| "shared_core E2_SMALL = ''e2-small''"
| "shared_core E2_MEDIUM = ''e2-medium''"
| "shared_core F1_MICRO = ''f1-micro''"
| "shared_core G1_SMALL = ''g1-small''"

definition shared_core_values :: "string list" where
  "shared_core_values = map shared_core [E2_MICRO, E2_SMALL, E2_MEDIUM, F1_MICRO, G1_SMALL]"

definition SHARED_CORE_PROCESSORS_BASELINE_UTILIZATION :: "rat obj" where
  "SHARED_CORE_PROCESSORS_BASELINE_UTILIZATION =
    [(shared_core E2_MICRO, 25),
     (shared_core E2_SMALL, 50),
     (shared_core E2_MEDIUM, 100),
     (shared_core F1_MICRO, 10),
     (shared_core G1_SMALL, 25)]"

definition gcp_INSTANCE_TYPE_COMPUTE_PROCESSOR_MAPPING :: "COMPUTE_PROCESSOR_TYPES list obj" where
  "gcp_INSTANCE_TYPE_COMPUTE_PROCESSOR_MAPPING =
    [(''e2'', skyLakeBroadwellHaswellAMDRome),
     (''n2'', [CASCADE_LAKE]),
     (''n2d'', [AMD_EPYC_2ND_GEN]),
     (''t2d'', [AMD_EPYC_3RD_GEN]),
     (''n1'', skyLakeBroadwellHaswellSandyBridgeIvyBridge),
     (''c2'', [CASCADE_LAKE]),
     (''c2d'', [AMD_EPYC_3RD_GEN]),
     (''m2'', broadwelCascadeLake),
     (''m1'', broadwellSkylake),
     (''a2'', [CASCADE_LAKE]),
     (shared_core E2_MICRO, [UNKNOWN_PROCESSOR]),
     (shared_core E2_SMALL, [UNKNOWN_PROCESSOR]),
     (shared_core E2_MEDIUM, [UNKNOWN_PROCESSOR]),
     (shared_core F1_MICRO, [UNKNOWN_PROCESSOR]),
     (shared_core G1_SMALL, [UNKNOWN_PROCESSOR])]"

definition GPU_MACHINE_TYPES :: "COMPUTE_PROCESSOR_TYPES list" where
  "GPU_MACHINE_TYPES = [NVIDIA_T4, NVIDIA_TESLA_K80, NVIDIA_TESLA_V100, NVIDIA_TESLA_A100, NVIDIA_TESLA_P4, NVIDIA_TESLA_P100]"

definition MACHINE_FAMILY_TO_MACHINE_TYPE_MAPPING :: "rat list obj obj" where
  "MACHINE_FAMILY_TO_MACHINE_TYPE_MAPPING =
    [(''e2-standard'',
        [(''e2-standard-2'', [2, 1.2303]),
         (''e2-standard-4'', [4, 1.2303]),
         (''e2-standard-8'', [8, 1.2303]),
         (''e2-standard-16'', [16, 1.2303]),
         (''e2-standard-32'', [32, 1.2303])]),
     (''e2-highmem'',
        [(''e2-highmem-2'', [2, 1.2303]),
         (''e2-highmem-4'', [4, 1.2303]),
         (''e2-highmem-8'', [8, 1.2303]),
         (''e2-highmem-16'', [16, 1.2303])]),
     (''e2-highcpu'',
        [(''e2-highcpu-2'', [2, 1.0972]),
         (''e2-highcpu-4'', [4, 1.0972]),
         (''e2-highcpu-8'', [8, 1.0972]),
         (''e2-highcpu-16'', [16, 1.0972]),
         (''e2-highcpu-32'', [32, 1.0972])]),
     (''n2-standard'',
        [(''n2-standard-2'', [2, 1.8879]),
         (''n2-standard-4'', [4, 1.8879]),
         (''n2-standard-8'', [8, 1.8879]),
         (''n2-standard-16'', [16, 1.8879]),
         (''n2-standard-32'', [32, 1.8879]),
         (''n2-standard-48'', [48, 1.8879]),
         (''n2-standard-64'', [64, 1.8879]),
         (''n2-standard-80'', [80, 1.8879]),
         (''n2-standard-96'', [96, 1.8879]),
         (''n2-standard-128'', [128, 1.8879])]),
     (''n2-highmem'',
        [(''n2-highmem-2'', [2, 2.3761]),
         (''n2-highmem-4'', [4, 2.3761]),
         (''n2-highmem-8'', [8, 2.3761]),
         (''n2-highmem-16'', [16, 2.3761]),
         (''n2-highmem-32'', [32, 2.3761]),
         (''n2-highmem-48'', [48, 2.3761]),
         (''n2-highmem-64'', [64, 2.3761]),
         (''n2-highmem-80'', [80, 2.3761]),
         (''n2-highmem-96'', [96, 2.3761]),
         (''n2-highmem-128'', [128, 2.3761])]),
     (''n2-highcpu'',
        [(''n2-highcpu-2'', [2, 1.311]),
         (''n2-highcpu-4'', [4, 1.311]),
         (''n2-highcpu-8'', [8, 1.311]),
         (''n2-highcpu-16'', [16, 1.311]),
         (''n2-highcpu-32'', [32, 1.311]),
         (''n2-highcpu-48'', [48, 1.311]),
         (''n2-highcpu-64'', [64, 1.311]),
         (''n2-highcpu-80'', [80, 1.311]),
         (''n2-highcpu-96'', [96, 1.311])]),
     (''n2d-standard'',
        [(''n2d-standard-2'', [2, 2.3205]),
         (''n2d-standard-4'', [4, 2.3205]),
         (''n2d-standard-8'', [8, 2.3205]),
         (''n2d-standard-16'', [16, 2.3205]),
         (''n2d-standard-32'', [32, 2.3205]),
         (''n2d-standard-48'', [48, 2.3205]),
         (''n2d-standard-64'', [64, 2.3205]),
         (''n2d-standard-80'', [80, 2.3205]),
         (''n2d-standard-96'', [96, 2.3205]),
         (''n2d-standard-128'', [128, 2.3205]),
         (''n2d-standard-224'', [224, 2.3205])]),
     (''n2d-highmem'',
        [(''n2d-highmem-2'', [2, 2.1429]),
         (''n2d-highmem-4'', [4, 2.1429]),
         (''n2d-highmem-8'', [8, 2.1429]),
         (''n2d-highmem-16'', [16, 2.1429]),
         (''n2d-highmem-32'', [32, 2.1429]),
         (''n2d-highmem-48'', [48, 2.1429]),
         (''n2d-highmem-64'', [64, 2.1429]),
         (''n2d-highmem-80'', [80, 2.1429]),
         (''n2d-highmem-96'', [96, 2.1429])]),
     (''n2d-highcpu'',
        [(''n2d-highcpu-2'', [2, 1.3885]),
         (''n2d-highcpu-4'', [4, 1.3885]),
         (''n2d-highcpu-8'', [8, 1.3885]),
         (''n2d-highcpu-16'', [16, 1.3885]),
         (''n2d-highcpu-32'', [32, 1.3885]),
         (''n2d-highcpu-48'', [48, 1.3885]),
         (''n2d-highcpu-64'', [64, 1.3885]),
         (''n2d-highcpu-80'', [80, 1.3885]),
         (''n2d-highcpu-96'', [96, 1.3885]),
         (''n2d-highcpu-128'', [128, 1.3885]),
         (''n2d-highcpu-224'', [224, 1.3885])]),
     (''t2d-standard'',
        [(''t2d-standard-1'', [1, 1.3107]),
         (''t2d-standard-2'', [2, 1.3107]),
         (''t2d-standard-4'', [4, 1.3107]),
         (''t2d-standard-8'', [8, 1.3107]),
         (''t2d-standard-16'', [16, 1.3107]),
         (''t2d-standard-32'', [32, 1.3107]),
         (''t2d-standard-48'', [48, 1.3107]),
         (''t2d-standard-60'', [60, 1.3107])]),
     (''n1-standard'',
        [(''n1-standard-1'', [1, 1.6771]),
         (''n1-standard-2'', [2, 1.6771]),
         (''n1-standard-4'', [4, 1.6771]),
         (''n1-standard-8'', [8, 1.6771]),
         (''n1-standard-16'', [16, 1.6771]),
         (''n1-standard-32'', [32, 1.6771]),
         (''n1-standard-64'', [64, 1.6771]),
         (''n1-standard-96'', [96, 1.6771])]),
     (''n1-highmem'',
        [(''n1-highmem-2'', [2, 2.0432]),
         (''n1-highmem-4'', [4, 2.0432]),
         (''n1-highmem-8'', [8, 2.0432]),
         (''n1-highmem-16'', [16, 2.0432]),
         (''n1-highmem-32'', [32, 2.0432]),
         (''n1-highmem-64'', [64, 2.0432]),
         (''n1-highmem-96'', [96, 2.0432])]),
     (''n1-highcpu'',
        [(''n1-highcpu-2'', [2, 1.2976]),
         (''n1-highcpu-4'', [4, 1.2976]),
         (''n1-highcpu-8'', [8, 1.2976]),
         (''n1-highcpu-16'', [16, 1.2976]),
         (''n1-highcpu-32'', [32, 1.2976]),
         (''n1-highcpu-64'', [64, 1.2976]),
         (''n1-highcpu-96'', [96, 1.2976])]),
     (''c2-standard'',
        [(''c2-standard-4'', [4, 1.5107]),
         (''c2-standard-8'', [8, 1.5107]),
         (''c2-standard-16'', [16, 1.5107]),
         (''c2-standard-30'', [30, 1.5107]),
         (''c2-standard-60'', [60, 1.5107])]),
     (''c2d-standard'',
        [(''c2d-standard-2'', [2, 1.6991]),
         (''c2d-standard-4'', [4, 1.6991]),
         (''c2d-standard-8'', [8, 1.6991]),
         (''c2d-standard-16'', [16, 1.6991]),
         (''c2d-standard-32'', [32, 1.6991]),
         (''c2d-standard-56'', [56, 1.6991]),
         (''c2d-standard-112'', [112, 1.6991])]),
     (''m1-ultramem'',
        [(''m1-ultramem-40'', [40, 1.1]),
         (''m1-ultramem-80'', [80, 1.1]),
         (''m1-ultramem-160'', [160, 1.1])]),
     (''m1-megamem'',
        [(''m1-megamem-96'', [96, 1.2])]),
     (''m2-ultramem'',
        [(''m2-ultramem-208'', [208, 1.1]),
         (''m2-ultramem-416'', [416, 1.1])]),
     (''m2-megamem'',
        [(''m2-megamem-416'', [416, 1.1])]),
     (''a2-highgpu'',
        [(''a2-highgpu-1g'', [12, 5.464]),
         (''a2-highgpu-2g'', [24, 5.464]),
         (''a2-highgpu-4g'', [48, 5.464]),
         (''a2-highgpu-8g'', [96, 5.464])]),
     (''a2-megagpu'',
        [(''a2-megagpu-16g'', [96, 5.464])])]"

definition MACHINE_FAMILY_SHARED_CORE_TO_MACHINE_TYPE_MAPPING :: "rat list obj obj" where
  "MACHINE_FAMILY_SHARED_CORE_TO_MACHINE_TYPE_MAPPING =
    [(''e2'',
        [(''e2-micro'', [2, 1.2303]),
         (''e2-small'', [2, 1.2303]),
         (''e2-medium'', [2, 1.2303]),
         (''e2-standard-32'', [32, 1.2303])])]"

definition N1_SHARED_CORE_MACHINE_FAMILY_TO_MACHINE_TYPE_MAPPING :: "rat list obj" where
  "N1_SHARED_CORE_MACHINE_FAMILY_TO_MACHINE_TYPE_MAPPING =
    [(''f1-micro'', [1, 1.5771]),
     (''g1-small'', [1, 1.5771]),
     (''n1-standard-96'', [96, 1.6771])]"

section \<open>Usage types\<close>

definition gcp_MEMORY_USAGE_TYPES :: "string list" where
  "gcp_MEMORY_USAGE_TYPES =
    [''RAM'',
     ''Ram'',
     ''Memory'']"

definition gcp_UNKNOWN_USAGE_UNITS :: "string list" where
  "gcp_UNKNOWN_USAGE_UNITS =
    [''requests'']"

definition gcp_UNKNOWN_USAGE_TYPES :: "string list" where
  "gcp_UNKNOWN_USAGE_TYPES =
    [''Dedicated Memcache'',
     ''BigQuery BI Engine'',
     ''AutoML Tables Deployment'',
     ''Local Disk Time Dataprep'',
     ''Shuffle Time'',
     ''Snapshots message backlog'',
     ''Subscriptions message backlog'',
     ''Subscriptions retained acknowledged messages'',
     ''Cloud SQL: Backups'',
     ''Publisher Throughput Capacity'',
     ''Subscriber Throughput Capacity'',
     ''Server node'',
     ''Backend Instances'',
     ''Frontend Instances'',
     ''Server Node'',
     ''Analysis Slots Attribution'',
     ''Build time'',
     ''Dataprep Unit'',
     ''IP address'',
     ''usage - hour'',
     ''D2'',
     ''D4'',
     ''Policy Charge'',
     ''Endpoint Charge'',
     ''NAT Gateway'',
     ''Action Time'',
     ''Billing Adjustment'',
     ''Filestore Capacity Premium'',
     ''Filestore Capacity Standard'',
     ''Pod mCPU Requests'',
     ''Pod Memory Requests'',
     ''Pod Ephemeral Storage Requests'']"

definition gcp_UNSUPPORTED_USAGE_TYPES :: "string list" where
  "gcp_UNSUPPORTED_USAGE_TYPES =
    [''Fee'',
     ''fee'',
     ''Billing'',
     ''Reattribution'',
     ''Cache Fill'',
     ''External IP Charge'',
     ''Static Ip'',
     ''Vpn Tunnel'',
     ''Service Charge'']"

definition gcp_UNKNOWN_SERVICE_TYPES :: "string list" where
  "gcp_UNKNOWN_SERVICE_TYPES =
    [''Cloud DNS'',
     ''Cloud Key Management Service'',
     ''Cloud Machine Learning Engine'',
     ''Cloud Spanner'',
     ''Cloud Speech API'',
     ''SendGrid'',
     ''Support'',
     ''Secret Manager'',
     ''Cloud Build'',
     ''Cloud Run'',
     ''Cloud Data Fusion'',
     ''Cloud Dialogflow API'',
     ''Cloud Natural Language'',
     ''BigQuery Data Transfer Service'',
     ''BigQuery Reservation API'',
     ''Cloud AutoML'',
     ''Cloud Test Lab'',
     ''Cloud TPU'',
     ''Cloud Video Intelligence API'',
     ''Cloud Vision API'',
     ''Container Builder'',
     ''Firebase Test Lab'',
     ''Security Command Center'',
     ''Stackdriver'']"

definition gcp_SERVICES_TO_OVERRIDE_USAGE_UNIT_AS_UNKNOWN :: "string list" where
  "gcp_SERVICES_TO_OVERRIDE_USAGE_UNIT_AS_UNKNOWN =
    [''Secret Manager'',
     ''Cloud Key Management Service'']"

definition gcp_COMPUTE_STRING_FORMATS :: "string list" where
  "gcp_COMPUTE_STRING_FORMATS =
    [''Core'',
     ''CORE'',
     ''VCPU'',
     ''vCPU'',
     ''CPU'',
     ''CPUs'',
     ''Kubernetes Clusters'',
     ''GPU'',
     ''DCU'']"

definition gcp_NETWORKING_STRING_FORMATS :: "string list" where
  "gcp_NETWORKING_STRING_FORMATS =
    [''Egress'',
     ''egress'',
     ''data delivery'',
     ''network traffic'',
     ''Download'']"

definition GCP_QUERY_GROUP_BY :: "GroupBy \<Rightarrow> string" where
  "GCP_QUERY_GROUP_BY grouping =
     (case grouping of day \<Rightarrow> ''DAY''
      | week \<Rightarrow> ''ISOWEEK''
      | month \<Rightarrow> ''MONTH''
      | quarter \<Rightarrow> ''QUARTER''
      | year \<Rightarrow> ''YEAR'')"

section \<open>Constants\<close>

definition gcp_SSDCOEFFICIENT :: jsnum where
  "gcp_SSDCOEFFICIENT = Fin 1.2"

definition gcp_HDDCOEFFICIENT :: jsnum where
  "gcp_HDDCOEFFICIENT = Fin 0.65"

definition gcp_MIN_WATTS_MEDIAN :: jsnum where
  "gcp_MIN_WATTS_MEDIAN = Fin 0.68"

definition gcp_MAX_WATTS_MEDIAN :: jsnum where
  "gcp_MAX_WATTS_MEDIAN = Fin 4.11"

definition gcp_NETWORKING_COEFFICIENT :: jsnum where
  "gcp_NETWORKING_COEFFICIENT = Fin 0.001"

definition gcp_MEMORY_COEFFICIENT :: jsnum where
  "gcp_MEMORY_COEFFICIENT = Fin 0.000392"

definition gcp_PUE_AVG :: jsnum where
  "gcp_PUE_AVG = Fin 1.1"

definition gcp_AVG_CPU_UTILIZATION_2020 :: jsnum where
  "gcp_AVG_CPU_UTILIZATION_2020 = Fin 50"

definition gcp_SERVER_EXPECTED_LIFESPAN :: jsnum where
  "gcp_SERVER_EXPECTED_LIFESPAN = Fin 35040"

definition gcp_ESTIMATE_UNKNOWN_USAGE_BY :: EstimateUnknownUsageBy where
  "gcp_ESTIMATE_UNKNOWN_USAGE_BY = EU_USAGE_AMOUNT"

definition gcp_min_watts_by_processor :: "COMPUTE_PROCESSOR_TYPES \<Rightarrow> jsnum option" where
  "gcp_min_watts_by_processor p =
    map_option Fin (map_of
    [(CASCADE_LAKE, 0.64),
     (SKYLAKE, 0.65),
     (BROADWELL, 0.71),
     (HASWELL, 1),
     (COFFEE_LAKE, 1.14),
     (SANDY_BRIDGE, 2.17),
     (IVY_BRIDGE, 3.04),
     (AMD_EPYC_1ST_GEN, 0.82),
     (AMD_EPYC_2ND_GEN, 0.47),
     (AMD_EPYC_3RD_GEN, 0.45),
     (NVIDIA_K520, 26),
     (NVIDIA_A10G, 18),
     (NVIDIA_T4, 8),
     (NVIDIA_TESLA_M60, 35),
     (NVIDIA_TESLA_K80, 35),
     (NVIDIA_TESLA_V100, 35),
     (NVIDIA_TESLA_A100, 46),
     (NVIDIA_TESLA_P4, 9),
     (NVIDIA_TESLA_P100, 36),
     (AMD_RADEON_PRO_V520, 26)] p)"

definition gcp_max_watts_by_processor :: "COMPUTE_PROCESSOR_TYPES \<Rightarrow> jsnum option" where
  "gcp_max_watts_by_processor p =
    map_option Fin (map_of
    [(CASCADE_LAKE, 3.97),
     (SKYLAKE, 4.26),
     (BROADWELL, 3.69),
     (HASWELL, 4.74),
     (COFFEE_LAKE, 5.42),
     (SANDY_BRIDGE, 8.58),
     (IVY_BRIDGE, 8.25),
     (AMD_EPYC_1ST_GEN, 2.55),
     (AMD_EPYC_2ND_GEN, 1.69),
     (AMD_EPYC_3RD_GEN, 2.02),
     (NVIDIA_K520, 229),
     (NVIDIA_A10G, 153),
     (NVIDIA_T4, 71),
     (NVIDIA_TESLA_M60, 306),
     (NVIDIA_TESLA_K80, 306),
     (NVIDIA_TESLA_V100, 306),
     (NVIDIA_TESLA_A100, 407),
     (NVIDIA_TESLA_P4, 76.5),
     (NVIDIA_TESLA_P100, 306),
     (AMD_RADEON_PRO_V520, 229)] p)"

record gcp_replication_factors =
  gf_CLOUD_STORAGE_SINGLE_REGION :: jsnum
  gf_CLOUD_STORAGE_DUAL_REGION :: jsnum
  gf_CLOUD_STORAGE_MULTI_REGION :: jsnum
  gf_COMPUTE_ENGINE_REGIONAL_DISKS :: jsnum
  gf_CLOUD_FILESTORE :: jsnum
  gf_CLOUD_SQL_HIGH_AVAILABILITY :: jsnum
  gf_CLOUD_MEMORY_STORE_REDIS :: jsnum
  gf_CLOUD_SPANNER_SINGLE_REGION :: jsnum
  gf_CLOUD_SPANNER_MULTI_REGION :: jsnum
  gf_KUBERNETES_ENGINE :: jsnum
  gf_DEFAULT :: jsnum

definition gcp_REPLICATION_FACTORS :: gcp_replication_factors where
  "gcp_REPLICATION_FACTORS =
    \<lparr>gf_CLOUD_STORAGE_SINGLE_REGION = Fin 2,
     gf_CLOUD_STORAGE_DUAL_REGION = Fin 2,
     gf_CLOUD_STORAGE_MULTI_REGION = Fin 2,
     gf_COMPUTE_ENGINE_REGIONAL_DISKS = Fin 2,
     gf_CLOUD_FILESTORE = Fin 2,
     gf_CLOUD_SQL_HIGH_AVAILABILITY = Fin 2,
     gf_CLOUD_MEMORY_STORE_REDIS = Fin 2,
     gf_CLOUD_SPANNER_SINGLE_REGION = Fin 2,
     gf_CLOUD_SPANNER_MULTI_REGION = Fin 2,
     gf_KUBERNETES_ENGINE = Fin 3,
     gf_DEFAULT = Fin 1\<rparr>"

definition gcp_PUE_TRAILING_TWELVE_MONTH :: "jsnum obj" where
  "gcp_PUE_TRAILING_TWELVE_MONTH =
    [(gcp_region GCP_US_EAST4, Fin 1.08),
     (gcp_region GCP_US_CENTRAL1, Fin 1.11),
     (gcp_region GCP_US_CENTRAL2, Fin 1.11),
     (gcp_region GCP_EUROPE_WEST1, Fin 1.09),
     (gcp_region GCP_EUROPE_WEST4, Fin 1.07),
     (gcp_region GCP_EUROPE_NORTH1, Fin 1.09),
     (gcp_region GCP_ASIA_EAST1, Fin 1.12),
     (gcp_region GCP_ASIA_SOUTHEAST1, Fin 1.13)]"

text \<open>\<open>x ? x : d\<close> on a number that may be \<open>undefined\<close> is \<open>or_num x d\<close>.\<close>

definition gcp_getMinWatts ::
    "(jsnum option list \<Rightarrow> jsnum) \<Rightarrow> COMPUTE_PROCESSOR_TYPES list \<Rightarrow> jsnum" where
  "gcp_getMinWatts median computeProcessors =
     or_num (getWattsByAverageOrMedian median computeProcessors
               (map gcp_min_watts_by_processor computeProcessors)) gcp_MIN_WATTS_MEDIAN"

definition gcp_getMaxWatts ::
    "(jsnum option list \<Rightarrow> jsnum) \<Rightarrow> COMPUTE_PROCESSOR_TYPES list \<Rightarrow> jsnum" where
  "gcp_getMaxWatts median computeProcessors =
     or_num (getWattsByAverageOrMedian median computeProcessors
               (map gcp_max_watts_by_processor computeProcessors)) gcp_MAX_WATTS_MEDIAN"

definition gcp_getPUE :: "string \<Rightarrow> jsnum" where
  "gcp_getPUE region = or_num (obj_get gcp_PUE_TRAILING_TWELVE_MONTH region) gcp_PUE_AVG"

section \<open>Emissions factors\<close>

definition gcp_carbon_free_factors :: emissions_factors where
  "gcp_carbon_free_factors =
    [(gcp_region GCP_US_CENTRAL1, Fin 0.0002152373529),
     (gcp_region GCP_US_CENTRAL2, Fin 0.0002152373529),
     (gcp_region GCP_US_EAST1, Fin 0.0003255),
     (gcp_region GCP_US_EAST4, Fin 0.00011124),
     (gcp_region GCP_US_EAST5, Fin 0.00011124),
     (gcp_region GCP_US_WEST1, Fin 0.0000072),
     (gcp_region GCP_US_WEST2, Fin 0.0000893),
     (gcp_region GCP_US_WEST3, Fin 0.00030912),
     (gcp_region GCP_US_WEST4, Fin 0.00028835),
     (gcp_region GCP_US_SOUTH1, Fin 0.0001776),
     (gcp_region GCP_ASIA_EAST1, Fin 0.00037848),
     (gcp_region GCP_ASIA_EAST2, Fin 0.0002592),
     (gcp_region GCP_ASIA_NORTHEAST1, Fin 0.00038976),
     (gcp_region GCP_ASIA_NORTHEAST2, Fin 0.00026496),
     (gcp_region GCP_ASIA_NORTHEAST3, Fin 0.00029325),
     (gcp_region GCP_ASIA_SOUTH1, Fin 0.000603),
     (gcp_region GCP_ASIA_SOUTH2, Fin 0.00061732),
     (gcp_region GCP_ASIA_SOUTHEAST1, Fin 0.00035712),
     (gcp_region GCP_ASIA_SOUTHEAST2, Fin 0.0005046),
     (gcp_region GCP_AUSTRALIA_SOUTHEAST1, Fin 0.00047242),
     (gcp_region GCP_AUSTRALIA_SOUTHEAST2, Fin 0.00035949),
     (gcp_region GCP_EUROPE_CENTRAL2, Fin 0.0004608),
     (gcp_region GCP_EUROPE_NORTH1, Fin 0.00001143),
     (gcp_region GCP_EUROPE_SOUTHWEST1, Fin 0.000121),
     (gcp_region GCP_EUROPE_WEST1, Fin 0.0000198),
     (gcp_region GCP_EUROPE_WEST2, Fin 0.00007396),
     (gcp_region GCP_EUROPE_WEST3, Fin 0.0001076),
     (gcp_region GCP_EUROPE_WEST4, Fin 0.00013301),
     (gcp_region GCP_EUROPE_WEST6, Fin 0.0000129),
     (gcp_region GCP_EUROPE_WEST8, Fin 0.000298),
     (gcp_region GCP_EUROPE_WEST9, Fin 0.000059),
     (gcp_region GCP_NORTHAMERICA_NORTHEAST1, Fin 0),
     (gcp_region GCP_NORTHAMERICA_NORTHEAST2, Fin 0.00000232),
     (gcp_region GCP_SOUTHAMERICA_EAST1, Fin 0.00002838),
     (gcp_region GCP_SOUTHAMERICA_WEST1, Fin 0.0000589),
     (gcp_dual_region GCP_DUAL_ASIA1, Fin 0.00065472),
     (gcp_dual_region GCP_DUAL_EUR4, Fin 0.00014444),
     (gcp_dual_region GCP_DUAL_NAM4, Fin 0.00033732),
     (gcp_multi_region GCP_MULTI_ASIA, Fin 0.00139032),
     (gcp_multi_region GCP_MULTI_EU, Fin 0.00121064),
     (gcp_multi_region GCP_MULTI_US, Fin 0.00143137),
     (gcp_region GCP_UNKNOWN, Fin 0.0002152373529)]"

definition gcp_grid_factors :: emissions_factors where
  "gcp_grid_factors =
    [(gcp_region GCP_US_CENTRAL1, Fin 0.000456),
     (gcp_region GCP_US_CENTRAL2, Fin 0.000456),
     (gcp_region GCP_US_EAST1, Fin 0.000434),
     (gcp_region GCP_US_EAST4, Fin 0.000309),
     (gcp_region GCP_US_EAST5, Fin 0.000309),
     (gcp_region GCP_US_WEST1, Fin 0.00006),
     (gcp_region GCP_US_WEST2, Fin 0.00019),
     (gcp_region GCP_US_WEST3, Fin 0.000448),
     (gcp_region GCP_US_WEST4, Fin 0.000365),
     (gcp_region GCP_US_SOUTH1, Fin 0.000296),
     (gcp_region GCP_ASIA_EAST1, Fin 0.000456),
     (gcp_region GCP_ASIA_EAST2, Fin 0.00036),
     (gcp_region GCP_ASIA_NORTHEAST1, Fin 0.000464),
     (gcp_region GCP_ASIA_NORTHEAST2, Fin 0.000384),
     (gcp_region GCP_ASIA_NORTHEAST3, Fin 0.000425),
     (gcp_region GCP_ASIA_SOUTH1, Fin 0.00067),
     (gcp_region GCP_ASIA_SOUTH2, Fin 0.000671),
     (gcp_region GCP_ASIA_SOUTHEAST1, Fin 0.000372),
     (gcp_region GCP_ASIA_SOUTHEAST2, Fin 0.00058),
     (gcp_region GCP_AUSTRALIA_SOUTHEAST1, Fin 0.000598),
     (gcp_region GCP_AUSTRALIA_SOUTHEAST2, Fin 0.000521),
     (gcp_region GCP_EUROPE_CENTRAL2, Fin 0.000576),
     (gcp_region GCP_EUROPE_NORTH1, Fin 0.000127),
     (gcp_region GCP_EUROPE_SOUTHWEST1, Fin 0.000121),
     (gcp_region GCP_EUROPE_WEST1, Fin 0.00011),
     (gcp_region GCP_EUROPE_WEST2, Fin 0.000172),
     (gcp_region GCP_EUROPE_WEST3, Fin 0.000269),
     (gcp_region GCP_EUROPE_WEST4, Fin 0.000283),
     (gcp_region GCP_EUROPE_WEST6, Fin 0.000086),
     (gcp_region GCP_EUROPE_WEST8, Fin 0.000298),
     (gcp_region GCP_EUROPE_WEST9, Fin 0.000059),
     (gcp_region GCP_NORTHAMERICA_NORTHEAST1, Fin 0.000028),
     (gcp_region GCP_NORTHAMERICA_NORTHEAST2, Fin 0.000029),
     (gcp_region GCP_SOUTHAMERICA_EAST1, Fin 0.000129),
     (gcp_region GCP_SOUTHAMERICA_WEST1, Fin 0.00019),
     (gcp_dual_region GCP_DUAL_ASIA1, Fin 0.000848),
     (gcp_dual_region GCP_DUAL_EUR4, Fin 0.00041),
     (gcp_dual_region GCP_DUAL_NAM4, Fin 0.000828),
     (gcp_multi_region GCP_MULTI_ASIA, Fin 0.001676),
     (gcp_multi_region GCP_MULTI_EU, Fin 0.001843),
     (gcp_multi_region GCP_MULTI_US, Fin 0.002805),
     (gcp_region GCP_UNKNOWN, Fin 0.0003171470588)]"

definition getGCPEmissionsFactors :: "bool \<Rightarrow> emissions_factors" where
  "getGCPEmissionsFactors useCarbonFreeEnergyPercentage =
     (if useCarbonFreeEnergyPercentage then gcp_carbon_free_factors else gcp_grid_factors)"

end
