(* ===== verification/Gcp_Billing.thy ===== *)
theory Gcp_Billing
  imports Core_Reader Gcp_Constants
begin

text \<open>
  \<open>packages/gcp/src/lib/BillingExportTable.ts\<close>: the estimates of the rows of the billing export.
  The ledger of kilowatt hours, which the source keeps in the module's constants, and the cache of
  emissions factors are the state; BigQuery is a parameter, whose operations fail with an error or
  yield their response.
\<close>

text \<open>
  \<open>packages/gcp/src/lib/BillingExportRow.ts\<close> and \<open>ReplicationFactors.ts\<close>: a row of the billing
  export, with what its constructor derives from the usage type, and the replication factor of a
  service. The machine type of a row may be missing. The fields \<open>br_vCpus\<close>, \<open>br_instanceType\<close> and
  \<open>br_replicationFactor\<close> are not set and never read.
\<close>

section \<open>ReplicationFactors.ts\<close>

definition gf_CLOUD_STORAGE_of :: "string \<Rightarrow> string \<Rightarrow> jsnum" where
  "gf_CLOUD_STORAGE_of usageType region =
     (if str_includes usageType ''Dual-region''
      then gf_CLOUD_STORAGE_DUAL_REGION gcp_REPLICATION_FACTORS
      else if str_includes usageType ''Multi-region''
      then gf_CLOUD_STORAGE_MULTI_REGION gcp_REPLICATION_FACTORS
      else gf_CLOUD_STORAGE_SINGLE_REGION gcp_REPLICATION_FACTORS)"

definition gf_COMPUTE_ENGINE_of :: "string \<Rightarrow> string \<Rightarrow> jsnum" where
  "gf_COMPUTE_ENGINE_of usageType region =
     (if str_includes usageType ''Regional''
      then gf_COMPUTE_ENGINE_REGIONAL_DISKS gcp_REPLICATION_FACTORS
      else if containsAny [''Snapshot'', ''Image''] usageType then
        (if region \<in> set gcp_multi_regions_values
         then gf_CLOUD_STORAGE_MULTI_REGION gcp_REPLICATION_FACTORS
         else if region \<in> set gcp_dual_regions_values
         then gf_CLOUD_STORAGE_DUAL_REGION gcp_REPLICATION_FACTORS
         else gf_CLOUD_STORAGE_SINGLE_REGION gcp_REPLICATION_FACTORS)
      else gf_DEFAULT gcp_REPLICATION_FACTORS)"

definition gf_CLOUD_SQL_of :: "string \<Rightarrow> string \<Rightarrow> jsnum" where
  "gf_CLOUD_SQL_of usageType region =
     (if str_includes usageType ''Regional - Standard storage'' \<or> str_includes usageType ''HA''
      then gf_CLOUD_SQL_HIGH_AVAILABILITY gcp_REPLICATION_FACTORS
      else gf_DEFAULT gcp_REPLICATION_FACTORS)"

definition gf_MEMORYSTORE_of :: "string \<Rightarrow> string \<Rightarrow> jsnum" where
  "gf_MEMORYSTORE_of usageType region =
     (if str_includes usageType ''Standard''
      then gf_CLOUD_MEMORY_STORE_REDIS gcp_REPLICATION_FACTORS
      else gf_DEFAULT gcp_REPLICATION_FACTORS)"

definition gf_CLOUD_SPANNER_of :: "string \<Rightarrow> string \<Rightarrow> jsnum" where
  "gf_CLOUD_SPANNER_of usageType region =
     (if str_includes usageType ''Regional''
      then gf_CLOUD_SPANNER_SINGLE_REGION gcp_REPLICATION_FACTORS
      else if str_includes usageType ''Multi-Region''
      then gf_CLOUD_SPANNER_MULTI_REGION gcp_REPLICATION_FACTORS
      else gf_DEFAULT gcp_REPLICATION_FACTORS)"

definition gf_KUBERNETES_of :: "string \<Rightarrow> string \<Rightarrow> jsnum" where
  "gf_KUBERNETES_of usageType region =
     (if str_includes usageType ''Clusters''
         \<and> (str_includes usageType ''Regional'' \<or> str_includes usageType ''Autopilot'')
      then gf_KUBERNETES_ENGINE gcp_REPLICATION_FACTORS
      else gf_DEFAULT gcp_REPLICATION_FACTORS)"

definition gf_COMPOSER_of :: "string \<Rightarrow> string \<Rightarrow> jsnum" where
  "gf_COMPOSER_of usageType region =
     (if str_includes usageType ''Storage'' \<or> str_includes usageType ''storage''
      then gf_CLOUD_STORAGE_SINGLE_REGION gcp_REPLICATION_FACTORS
      else gf_DEFAULT gcp_REPLICATION_FACTORS)"

definition GCP_REPLICATION_FACTORS_FOR_SERVICES :: "(string \<Rightarrow> string \<Rightarrow> jsnum) obj" where
  "GCP_REPLICATION_FACTORS_FOR_SERVICES =
     [(''Cloud Storage'', gf_CLOUD_STORAGE_of),
      (''Compute Engine'', gf_COMPUTE_ENGINE_of),
      (''Cloud Filestore'', \<lambda>_ _. gf_CLOUD_FILESTORE gcp_REPLICATION_FACTORS),
      (''Cloud SQL'', gf_CLOUD_SQL_of),
      (''Cloud Memorystore for Redis'', gf_MEMORYSTORE_of),
      (''Cloud Spanner'', gf_CLOUD_SPANNER_of),
      (''Kubernetes Engine'', gf_KUBERNETES_of),
      (''Cloud Composer'', gf_COMPOSER_of)]"

section \<open>BillingExportRow.ts\<close>

record BillingExportRow = BillingDataRow +
  gx_machineType :: "string option"

text \<open>The part of a row that the shared packages read.\<close>

definition gx_data :: "BillingExportRow \<Rightarrow> BillingDataRow" where
  "gx_data row = BillingDataRow.truncate row"

text \<open>
  A row of the query's result: the text of the BigQuery date, and \<open>None\<close> for a column that is
  null. The tags are those that \<open>rawTagsToTagCollection\<close> has put on the row.
\<close>

record gcp_usage_row =
  gu_timestamp :: "string option"
  gu_accountId :: string
  gu_accountName :: string
  gu_region :: "string option"
  gu_serviceName :: string
  gu_usageType :: "string option"
  gu_usageUnit :: string
  gu_machineType :: "string option"
  gu_usageAmount :: jsnum
  gu_cost :: jsnum

text \<open>The numbers of vCPUs that the configuration gives for Cloud Composer and GKE.\<close>

record gcp_vcpus =
  gv_composer :: jsnum
  gv_gke :: jsnum

definition isCloudComposerCompute :: "string \<Rightarrow> bool" where
  "isCloudComposerCompute usageType \<longleftrightarrow>
     str_includes usageType ''Cloud Composer Compute CPUs''
     \<or> str_includes usageType ''Cloud Composer vCPU''
     \<or> str_includes usageType ''Cloud Composer SQL vCPU''"

definition isKubernetesCompute :: "string \<Rightarrow> bool" where
  "isKubernetesCompute usageType \<longleftrightarrow> str_includes usageType ''Kubernetes Clusters''"

definition gcp_getVCpuHours :: "gcp_vcpus \<Rightarrow> string \<Rightarrow> jsnum \<Rightarrow> jsnum" where
  "gcp_getVCpuHours V usageType usageAmount =
     (if isCloudComposerCompute usageType then (usageAmount / 3600) * gv_composer V
      else if isKubernetesCompute usageType then (usageAmount / 3600) * gv_gke V
      else usageAmount / 3600)"

text \<open>The hours are taken before the amount of a pod is divided; a null usage type throws.\<close>

definition new_BillingExportRow ::
    "gcp_vcpus \<Rightarrow> gcp_usage_row \<Rightarrow> TagCollection option \<Rightarrow> BillingExportRow result" where
  "new_BillingExportRow V u tags =
     (case gu_usageType u of
        None \<Rightarrow> Inl TypeError
      | Some usageType \<Rightarrow>
          Inr \<lparr>br_serviceName = gu_serviceName u,
               br_accountId = gu_accountId u,
               br_accountName = gu_accountName u,
               br_usageAmount = (if str_includes usageType ''Pod mCPU Requests''
                                 then gu_usageAmount u / 1000 else gu_usageAmount u),
               br_usageType = usageType,
               br_usageUnit = (if containsAny gcp_SERVICES_TO_OVERRIDE_USAGE_UNIT_AS_UNKNOWN (gu_serviceName u)
                               then ''Unknown'' else gu_usageUnit u),
               br_cost = gu_cost u,
               br_region = (case gu_region u of
                              Some r \<Rightarrow> if r \<noteq> [] then r else gcp_region GCP_UNKNOWN
                            | None \<Rightarrow> gcp_region GCP_UNKNOWN),
               br_cloudProvider = ''GCP'',
               br_timestamp = (case gu_timestamp u of None \<Rightarrow> None | Some d \<Rightarrow> parse_date d),
               br_vCpus = None,
               br_vCpuHours = gcp_getVCpuHours V usageType (gu_usageAmount u),
               br_gpuHours = gu_usageAmount u / 3600,
               br_instanceType = [],
               br_replicationFactor = 0,
               br_tags = tags,
               gx_machineType = (if isCloudComposerCompute usageType \<or> isKubernetesCompute usageType
                                 then Some (shared_core E2_MEDIUM) else gu_machineType u)\<rparr>)"

section \<open>Facts\<close>

lemma gx_data_fields [simp]:
  "br_serviceName (gx_data row) = br_serviceName row"
  "br_accountId (gx_data row) = br_accountId row"
  "br_usageAmount (gx_data row) = br_usageAmount row"
  "br_usageType (gx_data row) = br_usageType row"
  "br_usageUnit (gx_data row) = br_usageUnit row"
  "br_cost (gx_data row) = br_cost row"
  "br_region (gx_data row) = br_region row"
  "br_timestamp (gx_data row) = br_timestamp row"
  "br_tags (gx_data row) = br_tags row"
  by (simp_all add: gx_data_def BillingDataRow.truncate_def)

lemma new_row_fields:
  assumes "new_BillingExportRow V u tags = Inr row"
  shows "br_tags row = tags" "br_cost row = gu_cost u"
    "br_timestamp row = (case gu_timestamp u of None \<Rightarrow> None | Some d \<Rightarrow> parse_date d)"
  using assms by (auto simp: new_BillingExportRow_def split: option.splits)

record gcp_globals =
  gg_store :: kwh_store
  gg_factors :: factor_state

text \<open>The packages and the configuration that the reader uses.\<close>

record gcp_env =
  ge_moment :: moment_ops
  ge_median :: "jsnum option list \<Rightarrow> jsnum"
  ge_token :: string
  ge_http :: http_service
  ge_tagNames :: "string list"
  ge_projects :: account_list
  ge_carbonFree :: bool
  ge_vcpus :: gcp_vcpus
  ge_tableName :: string
  ge_now :: date

section \<open>Classification of a row\<close>

definition gcp_isUnknownUsage :: "BillingExportRow \<Rightarrow> bool" where
  "gcp_isUnknownUsage usageRow \<longleftrightarrow>
     containsAny gcp_UNKNOWN_USAGE_TYPES (br_usageType usageRow)
     \<or> containsAny gcp_UNKNOWN_SERVICE_TYPES (br_serviceName usageRow)
     \<or> containsAny gcp_UNKNOWN_USAGE_UNITS (br_usageUnit usageRow)
     \<or> br_usageType usageRow = []"

definition gcp_isMemoryUsage :: "string \<Rightarrow> bool" where
  "gcp_isMemoryUsage usageType \<longleftrightarrow>
     containsAny gcp_MEMORY_USAGE_TYPES usageType \<and> \<not> containsAny gcp_COMPUTE_STRING_FORMATS usageType"

definition gcp_isUnsupportedUsage :: "string \<Rightarrow> bool" where
  "gcp_isUnsupportedUsage usageType \<longleftrightarrow> containsAny gcp_UNSUPPORTED_USAGE_TYPES usageType"

definition gcp_isComputeUsage :: "string \<Rightarrow> bool" where
  "gcp_isComputeUsage usageType \<longleftrightarrow> containsAny gcp_COMPUTE_STRING_FORMATS usageType"

definition gcp_isNetworkingUsage :: "string \<Rightarrow> bool" where
  "gcp_isNetworkingUsage usageType \<longleftrightarrow> containsAny gcp_NETWORKING_STRING_FORMATS usageType"

definition gcp_getReplicationFactor :: "BillingExportRow \<Rightarrow> jsnum option" where
  "gcp_getReplicationFactor usageRow =
     map_option (\<lambda>f. f (br_usageType usageRow) (br_region usageRow))
       (obj_get GCP_REPLICATION_FACTORS_FOR_SERVICES (br_serviceName usageRow))"

section \<open>Accumulating the energy of a row\<close>

definition gcp_accumulateE :: "BillingExportRow \<Rightarrow> jsnum \<Rightarrow> (gcp_globals, unit) eff" where
  "gcp_accumulateE row kilowattHours =
     (\<lambda>g. case accumulateKilowattHours (gg_store g) (gx_data row) kilowattHours AK_USAGE_AMOUNT of
            Inl e \<Rightarrow> (Inl e, g)
          | Inr store \<Rightarrow> (Inr (), g\<lparr>gg_store := store\<rparr>))"

section \<open>Compute\<close>

definition getComputeProcessorsFromMachineType :: "string option \<Rightarrow> COMPUTE_PROCESSOR_TYPES list" where
  "getComputeProcessorsFromMachineType machineType =
     (let sharedCoreMatch =
            (case machineType of
               None \<Rightarrow> None
             | Some m \<Rightarrow> if m = [] then None else find (str_includes m) shared_core_values);
          includesPrefix = map_option (\<lambda>m. toLowerCase (take 2 m)) machineType;
          processor = (case sharedCoreMatch of Some c \<Rightarrow> Some c | None \<Rightarrow> includesPrefix)
      in case processor of
           None \<Rightarrow> [UNKNOWN_PROCESSOR]
         | Some p \<Rightarrow>
             (case obj_get gcp_INSTANCE_TYPE_COMPUTE_PROCESSOR_MAPPING p of
                Some ps \<Rightarrow> ps
              | None \<Rightarrow> [UNKNOWN_PROCESSOR]))"

definition gcp_getGpuComputeProcessorsFromUsageType :: "string \<Rightarrow> COMPUTE_PROCESSOR_TYPES list" where
  "gcp_getGpuComputeProcessorsFromUsageType usageType =
     (let gpuComputeProcessors = filter (\<lambda>p. startsWith usageType (processor_name p)) GPU_MACHINE_TYPES
      in if length gpuComputeProcessors \<noteq> 0 then gpuComputeProcessors else GPU_MACHINE_TYPES)"

definition gcp_compute_estimate ::
    "gcp_env \<Rightarrow> BillingExportRow \<Rightarrow> jsnum \<Rightarrow> emissions_factors \<Rightarrow> FootprintEstimate" where
  "gcp_compute_estimate E usageRow powerUsageEffectiveness emissionsFactors =
     (let isGPUComputeUsage = str_includes (br_usageType usageRow) ''GPU'';
          computeUsage = \<lparr>cu_timestamp = br_timestamp usageRow,
                          cu_cpuUtilizationAverage = gcp_AVG_CPU_UTILIZATION_2020,
                          cu_vCpuHours = (if isGPUComputeUsage then br_gpuHours usageRow
                                          else br_vCpuHours usageRow),
                          cu_usesAverageCPUConstant = True\<rparr>;
          computeProcessors =
            (if isGPUComputeUsage then gcp_getGpuComputeProcessorsFromUsageType (br_usageType usageRow)
             else getComputeProcessorsFromMachineType (gx_machineType usageRow));
          computeConstants = no_constants
            \<lparr>cc_minWatts := Some (gcp_getMinWatts (ge_median E) computeProcessors),
             cc_maxWatts := Some (gcp_getMaxWatts (ge_median E) computeProcessors),
             cc_powerUsageEffectiveness := Some powerUsageEffectiveness,
             cc_replicationFactor := gcp_getReplicationFactor usageRow\<rparr>
      in hd (ComputeEstimator_estimate [computeUsage] (br_region usageRow) emissionsFactors computeConstants))"

definition gcp_getComputeFootprintEstimate ::
    "gcp_env \<Rightarrow> BillingExportRow \<Rightarrow> jsnum \<Rightarrow> emissions_factors \<Rightarrow> (gcp_globals, FootprintEstimate) eff" where
  "gcp_getComputeFootprintEstimate E usageRow powerUsageEffectiveness emissionsFactors =
     (let computeFootprint = gcp_compute_estimate E usageRow powerUsageEffectiveness emissionsFactors
      in bindE (gcp_accumulateE usageRow (fe_kilowattHours computeFootprint)) (\<lambda>_. retE computeFootprint))"

text \<open>
  The vCPUs, the scope 3 emissions and the largest vCPUs of the family of a machine type. The
  table of N1 is not empty, so a family is never without a largest machine.
\<close>

definition getDataFromMachineType :: "string option \<Rightarrow> jsnum option \<times> jsnum option \<times> jsnum option" where
  "getDataFromMachineType machineType =
     (case machineType of
        None \<Rightarrow> (Some 0, Some 0, Some 0)
      | Some m \<Rightarrow>
          if m = [] then (Some 0, Some 0, Some 0)
          else
            (let parts = split m ''-'';
                 machineFamily = join ''-'' (take 2 parts);
                 machineFamilySharedCore = hd parts;
                 family = instance_data MACHINE_FAMILY_TO_MACHINE_TYPE_MAPPING (Some machineFamily) (Some m);
                 shared = instance_data MACHINE_FAMILY_SHARED_CORE_TO_MACHINE_TYPE_MAPPING
                            (Some machineFamilySharedCore) (Some m);
                 n1 = obj_get N1_SHARED_CORE_MACHINE_FAMILY_TO_MACHINE_TYPE_MAPPING m;
                 instancevCpu = or_opt (or_opt (num_at 0 family) (num_at 0 shared)) (num_at 0 n1);
                 scopeThreeEmissions = or_opt (or_opt (num_at 1 family) (num_at 1 shared)) (num_at 1 n1);
                 familyMachineTypes = obj_values
                   (case obj_get MACHINE_FAMILY_TO_MACHINE_TYPE_MAPPING machineFamily of
                      Some types \<Rightarrow> types
                    | None \<Rightarrow>
                        (case obj_get MACHINE_FAMILY_SHARED_CORE_TO_MACHINE_TYPE_MAPPING
                                machineFamilySharedCore of
                           Some types \<Rightarrow> types
                         | None \<Rightarrow> N1_SHARED_CORE_MACHINE_FAMILY_TO_MACHINE_TYPE_MAPPING))
             in (instancevCpu, scopeThreeEmissions, num_at 0 (Some (last familyMachineTypes)))))"

definition gcp_getEmbodiedEmissions :: "BillingExportRow \<Rightarrow> emissions_factors \<Rightarrow> FootprintEstimate" where
  "gcp_getEmbodiedEmissions usageRow emissionsFactors =
     (let (instancevCpu, scopeThreeEmissions, largestInstancevCpu) =
            getDataFromMachineType (gx_machineType usageRow)
      in hd (EmbodiedEmissionsEstimator_estimate gcp_SERVER_EXPECTED_LIFESPAN
               [\<lparr>eu_timestamp = None,
                 eu_instancevCpu = toNum instancevCpu,
                 eu_largestInstancevCpu = toNum largestInstancevCpu,
                 eu_usageTimePeriod = br_usageAmount usageRow / toNum instancevCpu / 3600,
                 eu_scopeThreeEmissions = toNum scopeThreeEmissions\<rparr>]
               (br_region usageRow) emissionsFactors))"

section \<open>Storage, memory and networking\<close>

definition gcp_storage_estimate ::
    "BillingExportRow \<Rightarrow> jsnum \<Rightarrow> emissions_factors \<Rightarrow> FootprintEstimate" where
  "gcp_storage_estimate usageRow powerUsageEffectiveness emissionsFactors =
     (let coefficient = (if str_includes (br_usageType usageRow) ''SSD'' then gcp_SSDCOEFFICIENT
                         else gcp_HDDCOEFFICIENT)
      in (hd (StorageEstimator_estimate coefficient
                [\<lparr>su_timestamp = br_timestamp usageRow,
                  su_terabyteHours = convertByteSecondsToTerabyteHours (br_usageAmount usageRow)\<rparr>]
                (br_region usageRow) emissionsFactors
                (no_constants\<lparr>cc_powerUsageEffectiveness := Some powerUsageEffectiveness,
                              cc_replicationFactor := gcp_getReplicationFactor usageRow\<rparr>)))
           \<lparr>fe_usesAverageCPUConstant := Some False\<rparr>)"

definition gcp_memory_estimate ::
    "BillingExportRow \<Rightarrow> jsnum \<Rightarrow> emissions_factors \<Rightarrow> FootprintEstimate" where
  "gcp_memory_estimate usageRow powerUsageEffectiveness emissionsFactors =
     (hd (MemoryEstimator_estimate gcp_MEMORY_COEFFICIENT
            [\<lparr>mu_timestamp = br_timestamp usageRow,
              mu_gigabyteHours = convertByteSecondsToGigabyteHours (br_usageAmount usageRow)\<rparr>]
            (br_region usageRow) emissionsFactors
            (no_constants\<lparr>cc_powerUsageEffectiveness := Some powerUsageEffectiveness\<rparr>)))
       \<lparr>fe_usesAverageCPUConstant := Some False\<rparr>"

definition gcp_networking_estimate ::
    "BillingExportRow \<Rightarrow> jsnum \<Rightarrow> emissions_factors \<Rightarrow> FootprintEstimate" where
  "gcp_networking_estimate usageRow powerUsageEffectiveness emissionsFactors =
     (hd (NetworkingEstimator_estimate gcp_NETWORKING_COEFFICIENT
            [\<lparr>nu_timestamp = br_timestamp usageRow,
              nu_gigabytes = convertBytesToGigabytes (br_usageAmount usageRow)\<rparr>]
            (br_region usageRow) emissionsFactors
            (no_constants\<lparr>cc_powerUsageEffectiveness := Some powerUsageEffectiveness\<rparr>)))
       \<lparr>fe_usesAverageCPUConstant := Some False\<rparr>"

text \<open>The three operations put the estimate's energy into the ledger and return it.\<close>

definition accumulated :: "BillingExportRow \<Rightarrow> FootprintEstimate \<Rightarrow> (gcp_globals, FootprintEstimate) eff" where
  "accumulated usageRow footprint =
     bindE (gcp_accumulateE usageRow (fe_kilowattHours footprint)) (\<lambda>_. retE footprint)"

definition gcp_getStorageFootprintEstimate ::
    "BillingExportRow \<Rightarrow> jsnum \<Rightarrow> emissions_factors \<Rightarrow> (gcp_globals, FootprintEstimate) eff" where
  "gcp_getStorageFootprintEstimate usageRow pue ef = accumulated usageRow (gcp_storage_estimate usageRow pue ef)"

definition gcp_getMemoryFootprintEstimate ::
    "BillingExportRow \<Rightarrow> jsnum \<Rightarrow> emissions_factors \<Rightarrow> (gcp_globals, FootprintEstimate) eff" where
  "gcp_getMemoryFootprintEstimate usageRow pue ef = accumulated usageRow (gcp_memory_estimate usageRow pue ef)"

definition gcp_getNetworkingFootprintEstimate ::
    "BillingExportRow \<Rightarrow> jsnum \<Rightarrow> emissions_factors \<Rightarrow> (gcp_globals, FootprintEstimate) eff" where
  "gcp_getNetworkingFootprintEstimate usageRow pue ef =
     accumulated usageRow (gcp_networking_estimate usageRow pue ef)"

section \<open>The estimate of a row\<close>

text \<open>The second component is the rows of unknown usage.\<close>

definition gcp_getEstimateByUsageUnit ::
    "gcp_env \<Rightarrow> BillingExportRow \<Rightarrow> BillingExportRow list \<Rightarrow> emissions_factors \<Rightarrow>
     (gcp_globals, FootprintEstimate option \<times> BillingExportRow list) eff" where
  "gcp_getEstimateByUsageUnit E row unknownRows emissionsFactors =
     (let powerUsageEffectiveness = gcp_getPUE (br_region row) in
      if br_usageUnit row = ''seconds'' then
        (if gcp_isComputeUsage (br_usageType row) then
           bindE (gcp_getComputeFootprintEstimate E row powerUsageEffectiveness emissionsFactors)
             (\<lambda>computeFootprint.
                let embodiedEmissions = gcp_getEmbodiedEmissions row emissionsFactors in
                retE (Some (if truthy (fe_co2e embodiedEmissions) then
                              \<lparr>fe_timestamp = fe_timestamp computeFootprint,
                               fe_kilowattHours = fe_kilowattHours computeFootprint
                                                  + fe_kilowattHours embodiedEmissions,
                               fe_co2e = fe_co2e computeFootprint + fe_co2e embodiedEmissions,
                               fe_usesAverageCPUConstant =
                                 fe_usesAverageCPUConstant computeFootprint\<rparr>
                            else computeFootprint), unknownRows))
         else retE (None, unknownRows @ [row]))
      else if br_usageUnit row = ''byte-seconds'' then
        bindE (if gcp_isMemoryUsage (br_usageType row)
               then gcp_getMemoryFootprintEstimate row powerUsageEffectiveness emissionsFactors
               else gcp_getStorageFootprintEstimate row powerUsageEffectiveness emissionsFactors)
          (\<lambda>e. retE (Some e, unknownRows))
      else if br_usageUnit row = ''bytes'' then
        (if gcp_isNetworkingUsage (br_usageType row) then
           bindE (gcp_getNetworkingFootprintEstimate row powerUsageEffectiveness emissionsFactors)
             (\<lambda>e. retE (Some e, unknownRows))
         else retE (None, unknownRows @ [row]))
      else retE (None, unknownRows))"

definition gcp_getFootprintEstimateFromUsageRow ::
    "gcp_env \<Rightarrow> BillingExportRow \<Rightarrow> BillingExportRow list \<Rightarrow> emissions_factors \<Rightarrow>
     (gcp_globals, FootprintEstimate option \<times> BillingExportRow list) eff" where
  "gcp_getFootprintEstimateFromUsageRow E row unknownRows emissionsFactors =
     (if gcp_isUnsupportedUsage (br_usageType row) then retE (None, unknownRows)
      else if gcp_isUnknownUsage row then retE (None, unknownRows @ [row])
      else gcp_getEstimateByUsageUnit E row unknownRows emissionsFactors)"

definition gcp_getEstimateForUnknownUsage ::
    "gcp_env \<Rightarrow> BillingExportRow \<Rightarrow> (gcp_globals, FootprintEstimate) eff" where
  "gcp_getEstimateForUnknownUsage E rowData =
     (\<lambda>g. (bindR (UnknownEstimator_estimate gcp_ESTIMATE_UNKNOWN_USAGE_BY
              [\<lparr>uu_timestamp = br_timestamp rowData, uu_cost = None,
                uu_usageAmount = Some (br_usageAmount rowData),
                uu_usageUnit = br_usageUnit rowData, uu_service = None\<rparr>]
              (br_region rowData) (getGCPEmissionsFactors (ge_carbonFree E))
              (no_constants\<lparr>cc_kilowattHoursByServiceAndUsageUnit := Some (gg_store g)\<rparr>))
            (\<lambda>es. Inr (hd es)), g))"

section \<open>Tags\<close>

text \<open>The columns of the query's result that hold tags.\<close>

record gcp_tag_columns =
  gt_tags :: "string option"
  gt_projectLabels :: "string option"
  gt_labels :: "string option"

definition add_raw_tag :: "TagCollection \<Rightarrow> string \<Rightarrow> TagCollection" where
  "add_raw_tag parsedTags tag =
     (let parts = split tag '': '' in obj_set parsedTags (hd parts) (elem_at parts 1))"

definition rawTagsToTagCollection :: "gcp_tag_columns \<Rightarrow> TagCollection" where
  "rawTagsToTagCollection columns =
     foldl (\<lambda>parsedTags option.
         case option of
           None \<Rightarrow> parsedTags
         | Some tags \<Rightarrow>
             if tags = [] then parsedTags else foldl add_raw_tag parsedTags (split tags '', ''))
       [] [gt_tags columns, gt_projectLabels columns, gt_labels columns]"

text \<open>
  The columns of the configured names, by the prefix in front of the colon: tags, project labels
  and labels. A name without a colon has the key \<open>undefined\<close>.
\<close>

definition tagNamesToQueryColumns :: "string list option \<Rightarrow> string option list list" where
  "tagNamesToQueryColumns tagNames =
     obj_values
       (case tagNames of
          None \<Rightarrow> [(''tag'', []), (''project'', []), (''label'', [])]
        | Some names \<Rightarrow>
            foldl (\<lambda>tagColumns tag.
                let parts = split tag '':'' in
                case obj_get tagColumns (hd parts) of
                  Some column \<Rightarrow> obj_set tagColumns (hd parts) (column @ [elem_at parts 1])
                | None \<Rightarrow> tagColumns)
              [(''tag'', []), (''project'', []), (''label'', [])] names)"

definition key_text :: "string option \<Rightarrow> string" where
  "key_text key = (case key of None \<Rightarrow> ''undefined'' | Some k \<Rightarrow> k)"

definition buildTagQuery :: "string \<Rightarrow> string option list \<Rightarrow> string \<times> string" where
  "buildTagQuery columnName keys =
     (if 0 < length keys then
        ('', STRING_AGG(DISTINCT CONCAT('' @ columnName @ ''.key, '' @ dquote @ '': '' @ dquote @ '', ''
           @ columnName @ ''.value), '' @ dquote @ '', '' @ dquote @ '') AS '' @ columnName,
         nl @ ''LEFT JOIN'' @ nl @ '' UNNEST(''
           @ (if columnName = ''projectLabels'' then ''project.labels'' else columnName)
           @ '') AS '' @ columnName @ nl @ ''ON ''
           @ join '' OR '' (map (\<lambda>tag. columnName @ ''.key = '' @ dquote @ key_text tag @ dquote) keys))
      else ([], []))"

section \<open>The query\<close>

definition buildProjectFilter :: "account_list \<Rightarrow> string" where
  "buildProjectFilter projects =
     (case buildAccountFilter projects ''project.id'' of
        Inl _ \<Rightarrow> []
      | Inr projectFilter \<Rightarrow> projectFilter)"

text \<open>\<open>format('YYYY-MM-DDTHH:mm:ssZ')\<close> of a moment in UTC, for the years with four digits.\<close>

definition format_seconds :: "date \<Rightarrow> string" where
  "format_seconds t = take 19 (toISOString t) @ ''+00:00''"

definition gcp_query_text :: "gcp_env \<Rightarrow> date \<Rightarrow> date \<Rightarrow> GroupBy \<Rightarrow> string" where
  "gcp_query_text E start end grouping =
     (let startDate = m_startOf (ge_moment E) MDay start;
          endDate = m_endOf (ge_moment E) MDay end;
          columns = tagNamesToQueryColumns (Some (ge_tagNames E));
          (tagPropertySelections, tagPropertyJoins) = buildTagQuery ''tags'' (columns ! 0);
          (labelPropertySelections, labelPropertyJoins) = buildTagQuery ''labels'' (columns ! 2);
          (projectLabelPropertySelections, projectLabelPropertyJoins) =
            buildTagQuery ''projectLabels'' (columns ! 1);
          projectFilter = buildProjectFilter (ge_projects E)
      in ''SELECT DATE_TRUNC(DATE(usage_start_time), '' @ GCP_QUERY_GROUP_BY grouping
         @ '') as timestamp,'' @ nl
         @ indent 20 @ ''project.id as accountId,'' @ nl
         @ indent 20 @ ''project.name as accountName,'' @ nl
         @ indent 20 @ ''ifnull(location.region, location.location) as region,'' @ nl
         @ indent 20 @ ''service.description as serviceName,'' @ nl
         @ indent 20 @ ''sku.description as usageType,'' @ nl
         @ indent 20 @ ''usage.unit as usageUnit,'' @ nl
         @ indent 20 @ ''system_labels.value AS machineType,'' @ nl
         @ indent 20 @ ''SUM(usage.amount) AS usageAmount,'' @ nl
         @ indent 20 @ ''SUM(cost) AS cost '' @ tagPropertySelections @ '' '' @ labelPropertySelections
         @ '' '' @ projectLabelPropertySelections @ nl
         @ indent 19 @ ''FROM'' @ nl
         @ indent 27 @ bquote @ ge_tableName E @ bquote @ nl
         @ indent 23 @ ''LEFT JOIN'' @ nl
         @ indent 23 @ ''UNNEST(system_labels) AS system_labels'' @ nl
         @ indent 19 @ ''ON system_labels.key = '' @ dquote @ ''compute.googleapis.com/machine_spec'' @ dquote @ nl
         @ indent 23 @ tagPropertyJoins @ nl
         @ indent 23 @ labelPropertyJoins @ nl
         @ indent 23 @ projectLabelPropertyJoins @ nl
         @ indent 19 @ ''WHERE'' @ nl
         @ indent 23 @ ''cost_type != '' @ apos @ ''rounding_error'' @ apos @ nl
         @ indent 21 @ ''AND usage.unit IN ('' @ apos @ ''byte-seconds'' @ apos @ nl
         @ indent 23 @ '', '' @ apos @ ''seconds'' @ apos @ nl
         @ indent 23 @ '', '' @ apos @ ''bytes'' @ apos @ nl
         @ indent 23 @ '', '' @ apos @ ''requests'' @ apos @ '')'' @ nl
         @ indent 21 @ ''AND usage_start_time BETWEEN TIMESTAMP ('' @ apos @ format_seconds startDate
         @ apos @ '')'' @ nl
         @ indent 21 @ ''AND TIMESTAMP ('' @ apos @ format_seconds endDate @ apos @ '') '' @ nl
         @ indent 21 @ projectFilter @ nl
         @ indent 19 @ ''GROUP BY'' @ nl
         @ indent 23 @ ''timestamp,'' @ nl
         @ indent 23 @ ''accountId,'' @ nl
         @ indent 23 @ ''accountName,'' @ nl
         @ indent 23 @ ''region,'' @ nl
         @ indent 23 @ ''serviceName,'' @ nl
         @ indent 23 @ ''usageType,'' @ nl
         @ indent 23 @ ''usageUnit,'' @ nl
         @ indent 23 @ ''machineType'')"

text \<open>
  An error of BigQuery has a list of errors, of which the first is reported, or it is another
  error with a text; \<open>getQueryResults\<close> reads the list of every error.
\<close>

record bq_detail =
  bd_reason :: string
  bd_domain :: string
  bd_location :: string
  bd_message :: string

datatype bq_error = BqErrors bq_detail | BqOther string

record bigquery =
  bq_createQueryJob :: "string \<Rightarrow> bq_error + string"
  bq_getQueryResults :: "string \<Rightarrow> bq_error + (gcp_usage_row \<times> gcp_tag_columns) list"

definition createQueryJob :: "bigquery \<Rightarrow> string \<Rightarrow> string result" where
  "createQueryJob B query =
     (case bq_createQueryJob B query of
        Inr job \<Rightarrow> Inr job
      | Inl e \<Rightarrow>
          Inl (Thrown (''BigQuery create Query Job failed. Reason: ''
            @ (case e of
                 BqErrors d \<Rightarrow> bd_reason d @ '', Location: '' @ bd_location d @ '', Message: '' @ bd_message d
               | BqOther message \<Rightarrow> message))))"

definition getQueryResults :: "bigquery \<Rightarrow> string \<Rightarrow> (gcp_usage_row \<times> gcp_tag_columns) list result" where
  "getQueryResults B job =
     (case bq_getQueryResults B job of
        Inr rows \<Rightarrow> Inr rows
      | Inl (BqErrors d) \<Rightarrow>
          Inl (Thrown (''BigQuery get Query Results failed. Reason: '' @ bd_reason d @ '', Domain: ''
                       @ bd_domain d @ '', Message: '' @ bd_message d))
      | Inl (BqOther _) \<Rightarrow> Inl TypeError)"

definition gcp_getUsage ::
    "gcp_env \<Rightarrow> bigquery \<Rightarrow> date \<Rightarrow> date \<Rightarrow> GroupBy \<Rightarrow> (gcp_usage_row \<times> gcp_tag_columns) list result" where
  "gcp_getUsage E B start end grouping =
     bindR (createQueryJob B (gcp_query_text E start end grouping)) (getQueryResults B)"

section \<open>The loop over the rows\<close>

definition gcp_factorsE :: "gcp_env \<Rightarrow> string \<Rightarrow> string \<Rightarrow> (gcp_globals, emissions_factors) eff" where
  "gcp_factorsE E region dateTime =
     (\<lambda>g. let (r, f) = getEmissionsFactors (ge_token E) (ge_http E) region dateTime
                          (getGCPEmissionsFactors (ge_carbonFree E))
                          GCP_MAPPED_REGIONS_TO_ELECTRICITY_MAPS_ZONES (gg_factors g)
          in (r, g\<lparr>gg_factors := f\<rparr>))"

definition gcp_read :: "gcp_env \<Rightarrow> gcp_usage_row \<times> gcp_tag_columns \<Rightarrow> BillingExportRow result" where
  "gcp_read E = (\<lambda>(usageRow, columns).
     new_BillingExportRow (ge_vcpus E) usageRow (Some (rawTagsToTagCollection columns)))"

definition gcp_step ::
    "gcp_env \<Rightarrow> GroupBy \<Rightarrow> EstimationResult list \<times> BillingExportRow list \<Rightarrow>
     gcp_usage_row \<times> gcp_tag_columns \<Rightarrow>
     (gcp_globals, EstimationResult list \<times> BillingExportRow list) eff" where
  "gcp_step E grouping acc usageRow =
     bindE (liftE (gcp_read E usageRow)) (\<lambda>row.
     case br_timestamp row of
       None \<Rightarrow> throwE RangeError
     | Some t \<Rightarrow>
         bindE (gcp_factorsE E (br_region row) (toISOString t)) (\<lambda>emissionsFactors.
         bindE (gcp_getFootprintEstimateFromUsageRow E row (snd acc) emissionsFactors)
           (\<lambda>(footprintEstimate, unknownRows).
              case footprintEstimate of
                None \<Rightarrow> retE (fst acc, unknownRows)
              | Some e \<Rightarrow>
                  bindE (liftE (appendOrAccumulateEstimatesByDay (ge_moment E) (fst acc) (gx_data row) e
                                  grouping (ge_tagNames E))) (\<lambda>results.
                    retE (results, unknownRows)))))"

definition gcp_unknown_step ::
    "gcp_env \<Rightarrow> GroupBy \<Rightarrow> EstimationResult list \<Rightarrow> BillingExportRow \<Rightarrow>
     (gcp_globals, EstimationResult list) eff" where
  "gcp_unknown_step E grouping results row =
     bindE (gcp_getEstimateForUnknownUsage E row) (\<lambda>e.
       liftE (appendOrAccumulateEstimatesByDay (ge_moment E) results (gx_data row) e grouping
                (ge_tagNames E)))"

definition gcp_estimates_of_rows ::
    "gcp_env \<Rightarrow> GroupBy \<Rightarrow> (gcp_usage_row \<times> gcp_tag_columns) list \<Rightarrow>
     (gcp_globals, EstimationResult list) eff" where
  "gcp_estimates_of_rows E grouping usageRows =
     bindE (foldE (gcp_step E grouping) ([], []) usageRows) (\<lambda>(results, unknownRows).
       if 0 < length results then foldE (gcp_unknown_step E grouping) results unknownRows
       else retE results)"

definition BillingExportTable_getEstimates ::
    "gcp_env \<Rightarrow> bigquery \<Rightarrow> date \<Rightarrow> date \<Rightarrow> GroupBy \<Rightarrow> (gcp_globals, EstimationResult list) eff" where
  "BillingExportTable_getEstimates E B start end grouping =
     bindE (liftE (gcp_getUsage E B start end grouping)) (gcp_estimates_of_rows E grouping)"

section \<open>Estimates from input data\<close>

definition gcp_input_row :: "gcp_env \<Rightarrow> LookupTableInput \<Rightarrow> BillingExportRow result" where
  "gcp_input_row E i =
     bindR (new_BillingExportRow (ge_vcpus E)
              \<lparr>gu_timestamp = None, gu_accountId = [], gu_accountName = [],
               gu_region = Some (li_region i), gu_serviceName = li_serviceName i,
               gu_usageType = Some (li_usageType i), gu_usageUnit = li_usageUnit i,
               gu_machineType = li_machineType i, gu_usageAmount = 3600, gu_cost = 1\<rparr> None) (\<lambda>row.
       Inr (case gx_machineType row of
              None \<Rightarrow> row
            | Some m \<Rightarrow>
                if m = [] then row
                else row\<lparr>br_vCpuHours := toNum (fst (getDataFromMachineType (Some m))) * br_vCpuHours row\<rparr>))"

definition gcp_output :: "BillingExportRow \<Rightarrow> FootprintEstimate \<Rightarrow> LookupTableOutput" where
  "gcp_output row e =
     \<lparr>lo_serviceName = br_serviceName row, lo_region = br_region row, lo_usageType = br_usageType row,
      lo_vCpus = None, lo_machineType = gx_machineType row,
      lo_kilowattHours = fe_kilowattHours e, lo_co2e = fe_co2e e\<rparr>"

definition gcp_input_step ::
    "gcp_env \<Rightarrow> LookupTableOutput list \<times> BillingExportRow list \<Rightarrow> LookupTableInput \<Rightarrow>
     (gcp_globals, LookupTableOutput list \<times> BillingExportRow list) eff" where
  "gcp_input_step E acc i =
     bindE (liftE (gcp_input_row E i)) (\<lambda>row.
     bindE (gcp_factorsE E (br_region row) (toISOString (ge_now E))) (\<lambda>emissionsFactors.
     bindE (gcp_getFootprintEstimateFromUsageRow E row (snd acc) emissionsFactors)
       (\<lambda>(footprintEstimate, unknownRows).
          retE (fst acc @ (case footprintEstimate of None \<Rightarrow> [] | Some e \<Rightarrow> [gcp_output row e]),
                unknownRows))))"

definition gcp_getEstimatesFromInputData ::
    "gcp_env \<Rightarrow> LookupTableInput list \<Rightarrow> (gcp_globals, LookupTableOutput list) eff" where
  "gcp_getEstimatesFromInputData E inputData =
     bindE (foldE (gcp_input_step E) ([], []) inputData) (\<lambda>(results, unknownRows).
       if 0 < length results then
         foldE (\<lambda>acc row. bindE (gcp_getEstimateForUnknownUsage E row) (\<lambda>e.
                  retE (acc @ [gcp_output row e]))) results unknownRows
       else retE results)"

end
