(* ===== verification/Gcp_Totals.thy ===== *)
theory Gcp_Totals
  imports Gcp_Billing
begin

text \<open>
  What the loop over the rows of the billing export computes: the estimate and the energy of a row
  as a function of the row and its emissions factors, the rows that wait, and the contract of the
  readers of billing data.
\<close>

section \<open>The outcome of a row\<close>

definition gcp_deferred :: "BillingExportRow \<Rightarrow> bool" where
  "gcp_deferred row \<longleftrightarrow>
     \<not> gcp_isUnsupportedUsage (br_usageType row)
     \<and> (gcp_isUnknownUsage row
        \<or> br_usageUnit row = ''seconds'' \<and> \<not> gcp_isComputeUsage (br_usageType row)
        \<or> br_usageUnit row = ''bytes'' \<and> \<not> gcp_isNetworkingUsage (br_usageType row))"

definition gcp_estimated :: "BillingExportRow \<Rightarrow> bool" where
  "gcp_estimated row \<longleftrightarrow>
     \<not> gcp_isUnsupportedUsage (br_usageType row) \<and> \<not> gcp_isUnknownUsage row
     \<and> (br_usageUnit row = ''seconds'' \<and> gcp_isComputeUsage (br_usageType row)
        \<or> br_usageUnit row = ''byte-seconds''
        \<or> br_usageUnit row = ''bytes'' \<and> gcp_isNetworkingUsage (br_usageType row))"

definition with_embodied :: "FootprintEstimate \<Rightarrow> FootprintEstimate \<Rightarrow> FootprintEstimate" where
  "with_embodied compute embodied =
     (if truthy (fe_co2e embodied) then
        \<lparr>fe_timestamp = fe_timestamp compute,
         fe_kilowattHours = fe_kilowattHours compute + fe_kilowattHours embodied,
         fe_co2e = fe_co2e compute + fe_co2e embodied,
         fe_usesAverageCPUConstant = fe_usesAverageCPUConstant compute\<rparr>
      else compute)"

text \<open>The operational estimate of a row, whose energy goes into the ledger.\<close>

definition gcp_operational :: "gcp_env \<Rightarrow> BillingExportRow \<Rightarrow> emissions_factors \<Rightarrow> FootprintEstimate" where
  "gcp_operational E row ef =
     (let pue = gcp_getPUE (br_region row) in
      if br_usageUnit row = ''seconds'' then gcp_compute_estimate E row pue ef
      else if br_usageUnit row = ''byte-seconds'' then
        (if gcp_isMemoryUsage (br_usageType row) then gcp_memory_estimate row pue ef
         else gcp_storage_estimate row pue ef)
      else gcp_networking_estimate row pue ef)"

definition gcp_outcome :: "gcp_env \<Rightarrow> BillingExportRow outcome" where
  "gcp_outcome E row ef =
     (if gcp_estimated row then
        (let e = gcp_operational E row ef in
         (Some (if br_usageUnit row = ''seconds'' then with_embodied e (gcp_getEmbodiedEmissions row ef)
                else e),
          Some (fe_kilowattHours e)))
      else (None, None))"

text \<open>
  A row of unknown usage has the share of its amount in the total of its unit. The service of the
  usage is \<open>undefined\<close>, so a service of that name would come before the totals.
\<close>

definition gcp_unknown_energy :: "kwh_store \<Rightarrow> BillingExportRow \<Rightarrow> jsnum" where
  "gcp_unknown_energy store row =
     (case unit_totals store (br_usageUnit row) of
        None \<Rightarrow> 0
      | Some t \<Rightarrow> (kt_kilowattHours t / toNum (kt_usageAmount t)) * br_usageAmount row)"

definition gcp_unknown_estimate :: "gcp_env \<Rightarrow> kwh_store \<Rightarrow> BillingExportRow \<Rightarrow> FootprintEstimate" where
  "gcp_unknown_estimate E store row =
     \<lparr>fe_timestamp = br_timestamp row,
      fe_kilowattHours = gcp_unknown_energy store row,
      fe_co2e = estimateCo2 (gcp_unknown_energy store row) (br_region row)
                  (getGCPEmissionsFactors (ge_carbonFree E)),
      fe_usesAverageCPUConstant = Some False\<rparr>"

section \<open>The contract\<close>

lemma accumulated_charges:
  "charges AK_USAGE_AMOUNT gg_store (gx_data row) (accumulated row e) e (Some (fe_kilowattHours e))"
  unfolding accumulated_def
  by (rule charges_accumulate [where upd = "\<lambda>st g. g\<lparr>gg_store := st\<rparr>"])
    (simp_all add: gcp_accumulateE_def)

lemma compute_charges:
  "charges AK_USAGE_AMOUNT gg_store (gx_data row) (gcp_getComputeFootprintEstimate E row pue ef)
     (gcp_compute_estimate E row pue ef) (Some (fe_kilowattHours (gcp_compute_estimate E row pue ef)))"
  using accumulated_charges by (simp add: gcp_getComputeFootprintEstimate_def accumulated_def Let_def)

lemma usage_unit_charges:
  assumes "\<not> gcp_isUnsupportedUsage (br_usageType row)" and "\<not> gcp_isUnknownUsage row"
  shows "charges AK_USAGE_AMOUNT gg_store (gx_data row) (gcp_getEstimateByUsageUnit E row us ef)
    (fst (gcp_outcome E row ef), if gcp_deferred row then us @ [row] else us) (snd (gcp_outcome E row ef))"
proof -
  note unit = gcp_getEstimateByUsageUnit_def gcp_outcome_def gcp_deferred_def gcp_estimated_def
    gcp_operational_def Let_def assms
  consider "br_usageUnit row = ''seconds''" | "br_usageUnit row = ''byte-seconds''"
    | "br_usageUnit row = ''bytes''"
    | "br_usageUnit row \<noteq> ''seconds''" "br_usageUnit row \<noteq> ''byte-seconds''"
      "br_usageUnit row \<noteq> ''bytes''" by blast
  then show ?thesis
  proof cases
    case 1
    then show ?thesis
      using charges_map [OF compute_charges,
          where f = "\<lambda>e. (Some (with_embodied e (gcp_getEmbodiedEmissions row ef)), us)", of row E "gcp_getPUE (br_region row)" ef]
      by (auto simp: unit with_embodied_def intro!: charges_ret)
  next
    case 2
    then show ?thesis
      by (auto simp: unit gcp_getMemoryFootprintEstimate_def gcp_getStorageFootprintEstimate_def
          intro!: charges_map [OF accumulated_charges, where f = "\<lambda>e. (Some e, us)"])
  next
    case 3
    then show ?thesis
      by (auto simp: unit gcp_getNetworkingFootprintEstimate_def
          intro!: charges_ret charges_map [OF accumulated_charges, where f = "\<lambda>e. (Some e, us)"])
  next
    case 4
    then show ?thesis by (auto simp: unit intro!: charges_ret)
  qed
qed

lemma gcp_usage_row_charges:
  "charges AK_USAGE_AMOUNT gg_store (gx_data row) (gcp_getFootprintEstimateFromUsageRow E row us ef)
    (fst (gcp_outcome E row ef), if gcp_deferred row then us @ [row] else us) (snd (gcp_outcome E row ef))"
proof (cases "gcp_isUnsupportedUsage (br_usageType row) \<or> gcp_isUnknownUsage row")
  case True
  then show ?thesis
    by (auto simp: gcp_getFootprintEstimateFromUsageRow_def gcp_outcome_def gcp_deferred_def
        gcp_estimated_def intro!: charges_ret)
next
  case False
  then show ?thesis
    using usage_unit_charges [of row] by (simp add: gcp_getFootprintEstimateFromUsageRow_def)
qed

lemma gcp_unknown_eq:
  assumes "obj_get (gg_store g) ''total'' \<noteq> None"
  shows "gcp_getEstimateForUnknownUsage E row g = (Inr (gcp_unknown_estimate E (gg_store g) row), g)"
  using assms
  by (auto simp: gcp_getEstimateForUnknownUsage_def UnknownEstimator_estimate_def no_constants_def
      unknown_estimateKilowattHours_def gcp_unknown_estimate_def gcp_unknown_energy_def unit_totals_def
      units_of_def proportional_def gcp_ESTIMATE_UNKNOWN_USAGE_BY_def split: option.splits)

definition gcp_readable :: "gcp_env \<Rightarrow> gcp_usage_row \<times> gcp_tag_columns \<Rightarrow> bool" where
  "gcp_readable E x \<longleftrightarrow>
     (case gcp_read E x of Inr row \<Rightarrow> br_timestamp row \<noteq> None | Inl _ \<Rightarrow> False)"

interpretation gcp_report: total_billing_reader "ge_moment E" grouping "ge_tagNames E" AK_USAGE_AMOUNT
  gg_store "gcp_read E" gx_data gcp_estimated gcp_deferred "gcp_outcome E" "gcp_unknown_estimate E"
  "gcp_factorsE E" "gcp_getFootprintEstimateFromUsageRow E" "gcp_getEstimateForUnknownUsage E"
  "gcp_readable E" "ge_token E = []"
  for E grouping
proof unfold_locales
  fix region d ef and g g' :: gcp_globals
  assume "gcp_factorsE E region d g = (Inr ef, g')"
  then show "gg_store g' = gg_store g" by (auto simp: gcp_factorsE_def Let_def split: prod.splits)
next
  fix row us ef
  show "charges AK_USAGE_AMOUNT gg_store (gx_data row) (gcp_getFootprintEstimateFromUsageRow E row us ef)
    (fst (gcp_outcome E row ef), if gcp_deferred row then us @ [row] else us) (snd (gcp_outcome E row ef))"
    by (rule gcp_usage_row_charges)
next
  fix row ef
  show "(fst (gcp_outcome E row ef) \<noteq> None) = gcp_estimated row"
    by (simp add: gcp_outcome_def Let_def)
next
  fix row and g :: gcp_globals
  assume "obj_get (gg_store g) ''total'' \<noteq> None"
  then show "gcp_getEstimateForUnknownUsage E row g = (Inr (gcp_unknown_estimate E (gg_store g) row), g)"
    by (rule gcp_unknown_eq)
next
  fix x
  assume "gcp_readable E x"
  then show "\<exists>row. gcp_read E x = Inr row \<and> br_timestamp (gx_data row) \<noteq> None \<and> br_tags (gx_data row) \<noteq> None"
    by (auto simp: gcp_readable_def gcp_read_def dest: new_row_fields split: sum.splits prod.splits)
next
  fix region d and g :: gcp_globals
  assume "ge_token E = []"
  then show "\<exists>ef g'. gcp_factorsE E region d g = (Inr ef, g')"
    by (simp add: gcp_factorsE_def getEmissionsFactors_def split: option.splits)
qed

section \<open>What a run computes\<close>

lemma gcp_step_turn:
  "gcp_step E grouping = turn (ge_moment E) grouping (ge_tagNames E) (gcp_read E) gx_data
     (gcp_factorsE E) (gcp_getFootprintEstimateFromUsageRow E)"
  by (intro ext) (simp add: gcp_step_def turn_def cong: option.case_cong)

lemma gcp_unknown_step_turn:
  "gcp_unknown_step E grouping =
     unknown_turn (ge_moment E) grouping (ge_tagNames E) gx_data (gcp_getEstimateForUnknownUsage E)"
  by (intro ext) (simp add: gcp_unknown_step_def unknown_turn_def)

lemma gcp_estimates_run:
  "gcp_estimates_of_rows E grouping usageRows =
     run_report (turn (ge_moment E) grouping (ge_tagNames E) (gcp_read E) gx_data
       (gcp_factorsE E) (gcp_getFootprintEstimateFromUsageRow E))
       (unknown_turn (ge_moment E) grouping (ge_tagNames E) gx_data (gcp_getEstimateForUnknownUsage E))
       usageRows"
  unfolding gcp_estimates_of_rows_def run_report_def gcp_step_turn gcp_unknown_step_turn ..

definition gcp_counted_rows :: "BillingExportRow list \<Rightarrow> BillingExportRow list" where
  "gcp_counted_rows rows = rows_counted gcp_estimated gcp_deferred rows"

lemma gcp_report_cost:
  assumes "gcp_estimates_of_rows E grouping usageRows g = (Inr rs, g')"
    and "obj_get (gg_store g) ''total'' \<noteq> None"
  shows "\<exists>rows. mapR (gcp_read E) usageRows = Inr rows
    \<and> er_total sd_cost rs = sum_list (map br_cost (gcp_counted_rows rows))"
  using gcp_report.cost_of_counted [OF assms [unfolded gcp_estimates_run]]
  by (simp add: gcp_counted_rows_def)

lemma gcp_report_returns:
  assumes "ge_token E = []" and "\<forall>x\<in>set usageRows. gcp_readable E x"
    and "obj_get (gg_store g) ''total'' \<noteq> None"
  shows "\<exists>rs g'. gcp_estimates_of_rows E grouping usageRows g = (Inr rs, g')"
  unfolding gcp_estimates_run using assms(2,3,1) by (rule gcp_report.run_returns)

lemma gcp_report_typed:
  assumes "gcp_estimates_of_rows E grouping usageRows g = (Inr rs, g')"
    and "obj_get (gg_store g) ''total'' \<noteq> None"
  shows "list_all (result_typed grouping [''GCP'']) rs"
  using assms [unfolded gcp_estimates_run]
  by (rule gcp_report.run_typed)
    (auto simp: gcp_read_def new_BillingExportRow_def gx_data_def BillingDataRow.defs
      split: option.splits prod.splits)

end
