(* ===== verification/Gcp_Account.thy ===== *)
theory Gcp_Account
  imports Core_Account Gcp_Totals
begin

text \<open>
  \<open>packages/gcp/src/lib/ComputeEngine.ts\<close>, the service that reads the utilisation and the reserved
  cores from Cloud Monitoring, and \<open>application/GCPAccount.ts\<close>: the regions of an account with the
  services of the configuration, and its billing export. The client of Cloud Monitoring is a
  parameter.
\<close>

section \<open>ComputeEngine.ts\<close>

datatype reducer = REDUCE_MEAN | REDUCE_SUM

record time_series_request =
  tr_name :: string
  tr_filter :: string
  tr_reducer :: reducer
  tr_startSeconds :: rat
  tr_endSeconds :: rat

text \<open>A point of a series: its value and the second of its interval's start.\<close>

record series_point =
  sp_doubleValue :: jsnum
  sp_startSeconds :: int

record monitoring_client =
  mc_getProjectId :: "string result"
  mc_projectPath :: "string \<Rightarrow> string"
  mc_listTimeSeries :: "time_series_request \<Rightarrow> series_point list list result"

definition buildTimeSeriesRequest ::
    "date \<Rightarrow> date \<Rightarrow> string \<Rightarrow> string \<Rightarrow> reducer \<Rightarrow> string \<Rightarrow> time_series_request" where
  "buildTimeSeriesRequest startDate endDate projectName metricType crossSeriesReducer region =
     \<lparr>tr_name = projectName,
      tr_filter = ''resource.type = '' @ dquote @ ''gce_instance'' @ dquote @ '' AND metric.type=''
        @ dquote @ ''compute.googleapis.com/instance/cpu/'' @ metricType @ dquote
        @ '' AND metadata.system_labels.region='' @ region,
      tr_reducer = crossSeriesReducer,
      tr_startSeconds = of_int startDate / 1000,
      tr_endSeconds = of_int endDate / 1000\<rparr>"

definition getCpuUtilization :: "jsnum option \<Rightarrow> jsnum" where
  "getCpuUtilization measuredCpuUtilization =
     (if truthy_opt measuredCpuUtilization then toNum measuredCpuUtilization
      else gcp_AVG_CPU_UTILIZATION_2020 / 100)"

definition ComputeEngine_getUsage ::
    "monitoring_client \<Rightarrow> date \<Rightarrow> date \<Rightarrow> string \<Rightarrow> ComputeUsage list result" where
  "ComputeEngine_getUsage client start end region =
     bindR (mc_getProjectId client) (\<lambda>projectId.
     let name = mc_projectPath client projectId;
         CPURequest = buildTimeSeriesRequest start end name ''utilization'' REDUCE_MEAN region;
         vCPURequest = buildTimeSeriesRequest start end name ''reserved_cores'' REDUCE_SUM region
     in bindR (mc_listTimeSeries client CPURequest) (\<lambda>cpuUtilizationTimeSeries.
        bindR (mc_listTimeSeries client vCPURequest) (\<lambda>vCPUTimeSeries.
        if length cpuUtilizationTimeSeries = 0 \<or> length vCPUTimeSeries = 0 then Inr []
        else Inr (map (\<lambda>(index, point).
               let measuredCpuUtilization =
                     map_option sp_doubleValue (elem_at (hd cpuUtilizationTimeSeries) index)
               in \<lparr>cu_timestamp = Some (sp_startSeconds point * 1000),
                   cu_cpuUtilizationAverage = getCpuUtilization measuredCpuUtilization,
                   cu_vCpuHours = sp_doubleValue point,
                   cu_usesAverageCPUConstant = \<not> truthy_opt measuredCpuUtilization\<rparr>)
             (enumerate 0 (hd vCPUTimeSeries))))))"

definition ComputeEngine_getCosts :: "date \<Rightarrow> date \<Rightarrow> string \<Rightarrow> Cost list result" where
  "ComputeEngine_getCosts start end region = Inr []"

text \<open>\<open>ServiceWithCPUUtilization.ts\<close>: the usage goes to the estimator of compute.\<close>

definition service_with_cpu_utilization ::
    "(date \<Rightarrow> date \<Rightarrow> string \<Rightarrow> ComputeUsage list result) \<Rightarrow> date \<Rightarrow> date \<Rightarrow> string \<Rightarrow>
     emissions_factors \<Rightarrow> CloudConstants \<Rightarrow> FootprintEstimate list result" where
  "service_with_cpu_utilization getUsage start end region emissionsFactors constants =
     bindR (getUsage start end region) (\<lambda>usage.
       Inr (ComputeEstimator_estimate usage region emissionsFactors constants))"

definition new_ComputeEngine :: "monitoring_client \<Rightarrow> ICloudService" where
  "new_ComputeEngine client =
     \<lparr>cs_serviceName = ''ComputeEngine'',
      cs_getEstimates = service_with_cpu_utilization (ComputeEngine_getUsage client),
      cs_getCosts = ComputeEngine_getCosts\<rparr>"

section \<open>GCPAccount.ts\<close>

text \<open>
  The keys of \<open>GCP.CURRENT_SERVICES\<close>, the clients of Cloud Monitoring by project and the packages'
  functions.
\<close>

record gcp_account_env =
  ga_currentServices :: "string list"
  ga_monitoring :: "string \<Rightarrow> monitoring_client"
  ga_carbonFree :: bool
  ga_packages :: account_packages

definition gcp_service_table :: "gcp_account_env \<Rightarrow> (string \<Rightarrow> ICloudService) obj" where
  "gcp_service_table A =
     [(''computeEngine'', \<lambda>projectId. new_ComputeEngine (ga_monitoring A projectId))]"

definition gcp_getService :: "gcp_account_env \<Rightarrow> CloudProviderAccount \<Rightarrow> string \<Rightarrow> ICloudService result" where
  "gcp_getService A account key =
     (case obj_get (gcp_service_table A) key of
        None \<Rightarrow> Inl (Thrown (''Unsupported service: '' @ key))
      | Some newService \<Rightarrow> Inr (newService (ac_id account)))"

definition gcp_getServices :: "gcp_account_env \<Rightarrow> CloudProviderAccount \<Rightarrow> ICloudService list result" where
  "gcp_getServices A account = mapR (gcp_getService A account) (ga_currentServices A)"

definition gcp_region_constants :: CloudConstants where
  "gcp_region_constants = no_constants
     \<lparr>cc_minWatts := Some gcp_MIN_WATTS_MEDIAN,
      cc_maxWatts := Some gcp_MAX_WATTS_MEDIAN,
      cc_powerUsageEffectiveness := Some (gcp_getPUE ''undefined'')\<rparr>"

definition gcp_getDataForRegion ::
    "gcp_account_env \<Rightarrow> CloudProviderAccount \<Rightarrow> string \<Rightarrow> date \<Rightarrow> date \<Rightarrow> GroupBy \<Rightarrow>
     EstimationResult list result" where
  "gcp_getDataForRegion A account regionId startDate endDate grouping =
     bindR (gcp_getServices A account) (\<lambda>gcpServices.
       getRegionData (ga_packages A) account ''GCP''
         \<lparr>rg_id = regionId, rg_services = gcpServices,
          rg_emissionsFactors = getGCPEmissionsFactors (ga_carbonFree A),
          rg_constants = gcp_region_constants\<rparr>
         startDate endDate grouping)"

definition gcp_getDataForRegions ::
    "gcp_account_env \<Rightarrow> CloudProviderAccount \<Rightarrow> string list \<Rightarrow> date \<Rightarrow> date \<Rightarrow> GroupBy \<Rightarrow>
     EstimationResult list result" where
  "gcp_getDataForRegions A account regions startDate endDate grouping =
     bindR (mapR (\<lambda>regionId. gcp_getDataForRegion A account regionId startDate endDate grouping) regions)
       (\<lambda>estimationResults. Inr (concat estimationResults))"

text \<open>\<open>new BigQuery({ projectId })\<close> is a function of the account's id.\<close>

definition getDataFromBillingExportTable ::
    "gcp_env \<Rightarrow> (string \<Rightarrow> bigquery) \<Rightarrow> CloudProviderAccount \<Rightarrow> date \<Rightarrow> date \<Rightarrow> GroupBy \<Rightarrow>
     (gcp_globals, EstimationResult list) eff" where
  "getDataFromBillingExportTable E newBigQuery account startDate endDate grouping =
     BillingExportTable_getEstimates E (newBigQuery (ac_id account)) startDate endDate grouping"

definition getBillingExportDataFromInputData ::
    "gcp_env \<Rightarrow> LookupTableInput list \<Rightarrow> (gcp_globals, LookupTableOutput list) eff" where
  "getBillingExportDataFromInputData E inputData = gcp_getEstimatesFromInputData E inputData"

section \<open>Facts\<close>

lemma gcp_getService_Inr: "(\<exists>s. gcp_getService A account key = Inr s) \<longleftrightarrow> key = ''computeEngine''"
  by (auto simp: gcp_getService_def gcp_service_table_def)

text \<open>
  A measured utilisation between 0 and 1 reaches the formula as a percentage, so the average power
  is within a hundredth of the range above the idle power.
\<close>

lemma utilisation_of_getUsage:
  assumes "ComputeEngine_getUsage client start end region = Inr us" and "u \<in> set us"
    and "\<And>r series s p. mc_listTimeSeries client r = Inr series \<Longrightarrow> tr_reducer r = REDUCE_MEAN \<Longrightarrow>
      s \<in> set series \<Longrightarrow> p \<in> set s \<Longrightarrow> \<exists>x. sp_doubleValue p = Fin x \<and> 0 \<le> x \<and> x \<le> 1"
  shows "\<exists>x. cu_cpuUtilizationAverage u = Fin x \<and> 0 \<le> x \<and> x \<le> 1"
proof -
  from assms(1,2) obtain series name index where
    s: "mc_listTimeSeries client (buildTimeSeriesRequest start end name ''utilization'' REDUCE_MEAN region)
          = Inr series" "series \<noteq> []"
    "cu_cpuUtilizationAverage u = getCpuUtilization (map_option sp_doubleValue (elem_at (hd series) index))"
    by (auto simp: ComputeEngine_getUsage_def bindR_eq_Inr_iff Let_def split_def split: if_splits)
  show ?thesis
  proof (cases "truthy_opt (map_option sp_doubleValue (elem_at (hd series) index))")
    case True
    then obtain p where p: "elem_at (hd series) index = Some p"
      by (cases "elem_at (hd series) index") (auto simp: truthy_opt_def)
    then have "p \<in> set (hd series)" by (auto simp: elem_at_def split: if_splits)
    then obtain x where "sp_doubleValue p = Fin x" "0 \<le> x" "x \<le> 1"
      using assms(3) [OF s(1), of "hd series" p] s(2) by (auto simp: buildTimeSeriesRequest_def)
    then show ?thesis using True by (simp add: s(3) p getCpuUtilization_def)
  next
    case False
    then have "cu_cpuUtilizationAverage u = Fin (1 / 2)"
      by (simp add: s(3) getCpuUtilization_def gcp_AVG_CPU_UTILIZATION_2020_def numeral_Fin divide_Fin)
    then show ?thesis by (intro exI [of _ "1 / 2"]) simp
  qed
qed

end
