(* ===== verification/Azure_Constants.thy ===== *)
theory Azure_Constants
  imports Core_Accumulate Third_Party
begin

text \<open>
  The tables of the Azure package: the regions (\<open>lib/AzureRegions.ts\<close>), the usage types and units of
  the consumption details (\<open>lib/ConsumptionTypes.ts\<close>) and the constants
  (\<open>domain/AzureFootprintEstimationConstants.ts\<close>), in the order of the source. The ledger of
  kilowatt hours is state and starts as \<open>initial_store\<close>.
\<close>

section \<open>Regions\<close>

record azure_region =
  zr_name :: string
  zr_options :: "string list"

definition AZURE_REGIONS :: "azure_region obj" where
  "AZURE_REGIONS =
    [(''AF_SOUTH_AFRICA'', \<lparr>zr_name = ''southafrica'', zr_options = [''southafrica'']\<rparr>),
     (''AF_SOUTH_AFRICA_NORTH'', \<lparr>zr_name = ''southafricanorth'', zr_options = [''southafricanorth'']\<rparr>),
     (''AF_SOUTH_AFRICA_WEST'', \<lparr>zr_name = ''southafricawest'', zr_options = [''southafricawest'']\<rparr>),
     (''AP_AUSTRALIA'', \<lparr>zr_name = ''australia'', zr_options = [''australia'']\<rparr>),
     (''AP_AUSTRALIA_CENTRAL'', \<lparr>zr_name = ''australiacentral'', zr_options = [''australiacentral'']\<rparr>),
     (''AP_AUSTRALIA_CENTRAL2'', \<lparr>zr_name = ''australiacentral2'', zr_options = [''australiacentral2'']\<rparr>),
     (''AP_AUSTRALIA_EAST'', \<lparr>zr_name = ''australiaeast'', zr_options = [''australiaeast'', ''AustraliaEast'', ''AUSTRALIAEAST'']\<rparr>),
     (''AP_AUSTRALIA_SOUTH_EAST'', \<lparr>zr_name = ''australiasoutheast'', zr_options = [''australiasoutheast'', ''AustraliaSouthEast'', ''AUSTRALIASOUTHEAST'']\<rparr>),
     (''AP_EAST'', \<lparr>zr_name = ''apeast'', zr_options = [''apeast'', ''AP East'']\<rparr>),
     (''AP_SOUTH_EAST'', \<lparr>zr_name = ''apsoutheast'', zr_options = [''apsoutheast'', ''AP Southeast'']\<rparr>),
     (''AP_JAPAN_EAST'', \<lparr>zr_name = ''japaneast'', zr_options = [''japaneast'', ''JA East'']\<rparr>),
     (''AP_JAPAN_WEST'', \<lparr>zr_name = ''japanwest'', zr_options = [''japanwest'', ''JA West'']\<rparr>),
     (''AP_JAPAN'', \<lparr>zr_name = ''japan'', zr_options = [''japan'']\<rparr>),
     (''AP_KOREA'', \<lparr>zr_name = ''korea'', zr_options = [''korea'']\<rparr>),
     (''AP_KOREA_EAST'', \<lparr>zr_name = ''koreacentral'', zr_options = [''koreacentral'', ''KR Central'']\<rparr>),
     (''AP_KOREA_SOUTH'', \<lparr>zr_name = ''koreasouth'', zr_options = [''koreasouth'']\<rparr>),
     (''ASIA'', \<lparr>zr_name = ''asia'', zr_options = [''asia'', ''Asia'']\<rparr>),
     (''ASIA_PACIFIC'', \<lparr>zr_name = ''asiapacific'', zr_options = [''asiapacific'']\<rparr>),
     (''ASIA_EAST'', \<lparr>zr_name = ''eastasia'', zr_options = [''eastasia'', ''asiaeast'']\<rparr>),
     (''ASIA_EAST_STAGE'', \<lparr>zr_name = ''eastasiastage'', zr_options = [''eastasiastage'']\<rparr>),
     (''ASIA_SOUTH_EAST'', \<lparr>zr_name = ''southeastasia'', zr_options = [''southeastasia'', ''AsiaSouthEast'', ''asiasoutheast'', ''SOUTHEASTASIA'']\<rparr>),
     (''ASIA_SOUTH_EAST_STAGE'', \<lparr>zr_name = ''southeastasiastage'', zr_options = [''southeastasiastage'']\<rparr>),
     (''INDIA'', \<lparr>zr_name = ''india'', zr_options = [''india'']\<rparr>),
     (''IN_CENTRAL'', \<lparr>zr_name = ''centralindia'', zr_options = [''centralindia'', ''IndiaCentral'', ''IN Central'']\<rparr>),
     (''IN_JIO_CENTRAL'', \<lparr>zr_name = ''jioindiacentral'', zr_options = [''jioindiacentral'']\<rparr>),
     (''IN_JIO_WEST'', \<lparr>zr_name = ''jioindiawest'', zr_options = [''jioindiawest'']\<rparr>),
     (''IN_SOUTH'', \<lparr>zr_name = ''southindia'', zr_options = [''southindia'', ''IN South'']\<rparr>),
     (''IN_WEST'', \<lparr>zr_name = ''westindia'', zr_options = [''westindia'']\<rparr>),
     (''EU_NORTH'', \<lparr>zr_name = ''northeurope'', zr_options = [''northeurope'', ''europenorth'', ''NORTHEUROPE'', ''EU North'']\<rparr>),
     (''EU_WEST'', \<lparr>zr_name = ''westeurope'', zr_options = [''westeurope'', ''WESTEUROPE'', ''EU West'', ''EuropeWest'']\<rparr>),
     (''EU_FRANCE_CENTRAL'', \<lparr>zr_name = ''francecentral'', zr_options = [''francecentral'']\<rparr>),
     (''EU_FRANCE_SOUTH'', \<lparr>zr_name = ''francesouth'', zr_options = [''francesouth'']\<rparr>),
     (''EU_FRANCE'', \<lparr>zr_name = ''france'', zr_options = [''france'']\<rparr>),
     (''EU_SWEDEN_CENTRAL'', \<lparr>zr_name = ''swedencentral'', zr_options = [''swedencentral'']\<rparr>),
     (''EU_SWITZERLAND'', \<lparr>zr_name = ''switzerland'', zr_options = [''switzerland'']\<rparr>),
     (''EU_SWITZERLAND_NORTH'', \<lparr>zr_name = ''switzerlandnorth'', zr_options = [''switzerlandnorth'']\<rparr>),
     (''EU_SWITZERLAND_WEST'', \<lparr>zr_name = ''switzerlandwest'', zr_options = [''switzerlandwest'']\<rparr>),
     (''UK_SOUTH'', \<lparr>zr_name = ''uksouth'', zr_options = [''uksouth'', ''UKSOUTH'', ''UK South'']\<rparr>),
     (''UK_WEST'', \<lparr>zr_name = ''ukwest'', zr_options = [''ukwest'']\<rparr>),
     (''EU_GERMANY'', \<lparr>zr_name = ''germany'', zr_options = [''germany'']\<rparr>),
     (''EU_GERMANY_NORTH'', \<lparr>zr_name = ''germanynorth'', zr_options = [''germanynorth'']\<rparr>),
     (''EU_GERMANY_WESTCENTRAL'', \<lparr>zr_name = ''germanywestcentral'', zr_options = [''germanywestcentral'', ''GERMANYWESTCENTRAL'', ''DE West Central'']\<rparr>),
     (''EU_NORWAY'', \<lparr>zr_name = ''norway'', zr_options = [''norway'']\<rparr>),
     (''EU_NORWAY_EAST'', \<lparr>zr_name = ''norwayeast'', zr_options = [''norwayeast'']\<rparr>),
     (''EU_NORWAY_WEST'', \<lparr>zr_name = ''norwaywest'', zr_options = [''norwaywest'']\<rparr>),
     (''EU_UK'', \<lparr>zr_name = ''uk'', zr_options = [''uk'']\<rparr>),
     (''ME_UAE'', \<lparr>zr_name = ''uae'', zr_options = [''uae'']\<rparr>),
     (''ME_UAE_CENTRAL'', \<lparr>zr_name = ''uaecentral'', zr_options = [''uaecentral'']\<rparr>),
     (''ME_UAE_NORTH'', \<lparr>zr_name = ''uaenorth'', zr_options = [''uaenorth'', ''uaen'']\<rparr>),
     (''ME_QATAR_CENTRAL'', \<lparr>zr_name = ''qatarcentral'', zr_options = [''qatarcentral'']\<rparr>),
     (''US_CANADA'', \<lparr>zr_name = ''canada'', zr_options = [''canada'']\<rparr>),
     (''US_CANADA_CENTRAL'', \<lparr>zr_name = ''canadacentral'', zr_options = [''canadacentral'']\<rparr>),
     (''US_CANADA_EAST'', \<lparr>zr_name = ''canadaeast'', zr_options = [''canadaeast'']\<rparr>),
     (''US_CENTRAL'', \<lparr>zr_name = ''CentralUS'', zr_options = [''CentralUS'', ''US Central'', ''centralus'', ''CENTRALUS'']\<rparr>),
     (''US_CENTRAL_EUAP'', \<lparr>zr_name = ''centraluseuap'', zr_options = [''centraluseuap'']\<rparr>),
     (''US_CENTRAL_STAGE'', \<lparr>zr_name = ''centralusstage'', zr_options = [''centralusstage'']\<rparr>),
     (''US_EAST'', \<lparr>zr_name = ''EastUS'', zr_options = [''EastUS'', ''EASTUS'', ''USEast'', ''useast'', ''US East'', ''eastus'', ''East US'']\<rparr>),
     (''US_EAST_STAGE'', \<lparr>zr_name = ''eastusstage'', zr_options = [''eastusstage'']\<rparr>),
     (''US_EAST_2'', \<lparr>zr_name = ''EastUS2'', zr_options = [''EastUS2'', ''useast2'', ''US East 2'', ''eastus2'', ''EASTUS2'', ''East US 2'']\<rparr>),
     (''US_EAST_2_EUAP'', \<lparr>zr_name = ''eastus2euap'', zr_options = [''eastus2euap'']\<rparr>),
     (''US_EAST_2_STAGE'', \<lparr>zr_name = ''eastus2stage'', zr_options = [''eastus2stage'']\<rparr>),
     (''US_EAST_3'', \<lparr>zr_name = ''EastUS3'', zr_options = [''EastUS3'']\<rparr>),
     (''US_NORTH_CENTRAL'', \<lparr>zr_name = ''NorthCentralUs'', zr_options = [''NorthCentralUs'', ''northcentralus'', ''US North Central'']\<rparr>),
     (''US_NORTH_CENTRAL_STAGE'', \<lparr>zr_name = ''northcentralusstage'', zr_options = [''northcentralusstage'']\<rparr>),
     (''US_SOUTH_CENTRAL'', \<lparr>zr_name = ''SouthCentralUS'', zr_options = [''SouthCentralUS'', ''southcentralus'']\<rparr>),
     (''US_SOUTH_CENTRAL_STAGE'', \<lparr>zr_name = ''southcentralusstage'', zr_options = [''southcentralusstage'']\<rparr>),
     (''US_US'', \<lparr>zr_name = ''unitedstates'', zr_options = [''unitedstates'']\<rparr>),
     (''US_US_EAP'', \<lparr>zr_name = ''unitedstateseuap'', zr_options = [''unitedstateseuap'']\<rparr>),
     (''US_WEST_CENTRAL'', \<lparr>zr_name = ''WestCentralUS'', zr_options = [''WestCentralUS'', ''westcentralus'', ''US West Central'', ''WESTCENTRALUS'']\<rparr>),
     (''US_NORTH'', \<lparr>zr_name = ''USNorth'', zr_options = [''USNorth'']\<rparr>),
     (''US_WEST'', \<lparr>zr_name = ''WestUS'', zr_options = [''WestUS'', ''westus'', ''US West'']\<rparr>),
     (''US_WEST_STAGE'', \<lparr>zr_name = ''westusstage'', zr_options = [''westusstage'']\<rparr>),
     (''US_WEST_2'', \<lparr>zr_name = ''westus2'', zr_options = [''westus2'', ''uswest2'', ''WESTUS2'', ''US West 2'']\<rparr>),
     (''US_WEST_2_STAGE'', \<lparr>zr_name = ''westus2stage'', zr_options = [''westus2stage'']\<rparr>),
     (''US_WEST_3'', \<lparr>zr_name = ''westus3'', zr_options = [''westus3'', ''uswest3'']\<rparr>),
     (''BRAZIL'', \<lparr>zr_name = ''brazil'', zr_options = [''brazil'']\<rparr>),
     (''BRAZIL_SOUTH'', \<lparr>zr_name = ''brazilsouth'', zr_options = [''brazilsouth'']\<rparr>),
     (''BRAZIL_SOUTH_EAST'', \<lparr>zr_name = ''brazilsoutheast'', zr_options = [''brazilsoutheast'']\<rparr>),
     (''ALL'', \<lparr>zr_name = ''All Regions'', zr_options = [''All Regions'', ''GLOBAL'', ''Intercontinental'', ''global'']\<rparr>),
     (''UNASSIGNED'', \<lparr>zr_name = ''Unassigned'', zr_options = [''Unassigned'']\<rparr>),
     (''UNKNOWN'', \<lparr>zr_name = ''Unknown'', zr_options = [''Unknown'']\<rparr>)]"

definition azure_unknown_region :: string where
  "azure_unknown_region = ''Unknown''"

definition AZURE_MAPPED_REGIONS_TO_ELECTRICITY_MAPS_ZONES :: zone_map where
  "AZURE_MAPPED_REGIONS_TO_ELECTRICITY_MAPS_ZONES =
    [(''southafricanorth'', Some ''ZA''),
     (''southafricawest'', Some ''ZA''),
     (''australiacentral'', Some ''AU-NSW''),
     (''australiacentral2'', Some ''AU-NSW''),
     (''australiaeast'', Some ''AU-NSW''),
     (''australiasoutheast'', Some ''AU-VIC''),
     (''apeast'', None),
     (''apsoutheast'', Some ''SG''),
     (''japaneast'', Some ''JP-TK''),
     (''japanwest'', Some ''JP-KN''),
     (''koreacentral'', Some ''KR''),
     (''koreasouth'', Some ''KR''),
     (''centralindia'', Some ''IN-WE''),
     (''southindia'', Some ''IN-SO''),
     (''westindia'', Some ''IN-WE''),
     (''northeurope'', Some ''IE''),
     (''westeurope'', Some ''NL''),
     (''francecentral'', Some ''FR''),
     (''francesouth'', Some ''FR''),
     (''swedencentral'', Some ''SE-SE3''),
     (''switzerlandnorth'', Some ''CH''),
     (''switzerlandwest'', Some ''CH''),
     (''uksouth'', Some ''GB''),
     (''ukwest'', Some ''GB''),
     (''uk'', Some ''GB''),
     (''germany'', Some ''DE''),
     (''germanynorth'', Some ''DE''),
     (''germanywestcentral'', Some ''DE''),
     (''norwayeast'', Some ''NO-NO1''),
     (''norwaywest'', Some ''NO-NO2''),
     (''uaecentral'', None),
     (''uaenorth'', None),
     (''canadacentral'', Some ''CA-ON''),
     (''canadaeast'', Some ''CA-QC''),
     (''CentralUS'', Some ''US-MIDW-MISO''),
     (''centraluseuap'', Some ''US-MIDW-MISO''),
     (''centralusstage'', Some ''US-MIDW-MISO''),
     (''unitedstates'', Some ''US-MIDW-MISO''),
     (''unitedstateseuap'', Some ''US-MIDW-MISO''),
     (''EastUS'', Some ''US-MIDA-PJM''),
     (''eastusstage'', Some ''US-MIDA-PJM''),
     (''EastUS2'', Some ''US-MIDA-PJM''),
     (''eastus2euap'', Some ''US-MIDA-PJM''),
     (''eastus2stage'', Some ''US-MIDA-PJM''),
     (''EastUS3'', Some ''US-MIDA-PJM''),
     (''USNorth'', Some ''US-MIDW-MISO''),
     (''NorthCentralUs'', Some ''US-MIDW-MISO''),
     (''northcentralusstage'', Some ''US-MIDW-MISO''),
     (''SouthCentralUS'', Some ''US-TEX-ERCO''),
     (''southcentralusstage'', Some ''US-TEX-ERCO''),
     (''WestCentralUS'', Some ''US-NW-PACE''),
     (''WestUS'', Some ''US-CAL-CISO''),
     (''westusstage'', Some ''US-CAL-CISO''),
     (''westus2'', Some ''US-NW-PACE''),
     (''westus2stage'', Some ''US-NW-PACE''),
     (''westus3'', Some ''US-NW-PACE''),
     (''brazilsouth'', Some ''BR-CS''),
     (''brazilsoutheast'', Some ''BR-CS''),
     (''Unknown'', None)]"

section \<open>Usage types and units\<close>

definition azure_UNKNOWN_SERVICES :: "string list" where
  "azure_UNKNOWN_SERVICES =
    [''Azure Bastion'',
     ''Load Balancer'',
     ''VPN Gateway'',
     ''Azure Front Door Service'',
     ''Azure Databricks'',
     ''Azure Data Factory v2'',
     ''API Management'',
     ''Advanced Data Security'',
     ''Virtual Machines Licenses'',
     ''Self-hosted CI'']"

definition azure_UNKNOWN_USAGE_TYPES :: "string list" where
  "azure_UNKNOWN_USAGE_TYPES =
    [''Server - Free'',
     ''Requests'',
     ''Custom Domain'',
     ''Self-hosted CI'']"

definition azure_UNSUPPORTED_USAGE_TYPES :: "string list" where
  "azure_UNSUPPORTED_USAGE_TYPES =
    [''Rulesets'',
     ''Rules'',
     ''Policies'',
     ''Kafka Surcharge'',
     ''License'']"

definition azure_STORAGE_USAGE_TYPES :: "string list" where
  "azure_STORAGE_USAGE_TYPES =
    [''Data Stored'',
     ''Metadata'',
     ''Registry Unit'',
     ''ZRS'',
     ''LRS'',
     ''GRS'',
     ''GZRS'',
     ''Data Retention'',
     ''Pay-as-you-go Data at Rest'',
     ''Standard Instances'',
     ''Node'',
     ''10 DTUs'',
     ''S0 DTUs'',
     ''B DTUs'',
     ''B DTU'',
     ''eDTUs'',
     ''On Premises Server Protected Instances'',
     ''Standard Trial Nodes'',
     ''Azure VM Protected Instances'',
     ''Standard User'',
     ''Multi-step Web Test'',
     ''S0 Secondary Active DTUs'',
     ''Resource Monitored at 5 Minute Frequency'',
     ''VM Replicated to Azure'',
     ''Basic User'',
     ''Standard Nodes'',
     ''Microsoft-hosted CI'',
     ''Data Processing Unit'',
     ''Pay as you go Warm Storage'',
     ''Standard Unit'']"

definition azure_NETWORKING_USAGE_TYPES :: "string list" where
  "azure_NETWORKING_USAGE_TYPES =
    [''Geo-Replication Data transfer'',
     ''Data Transfer Out'',
     ''Egress'',
     ''Geo-Replication v2 Data transfer'',
     ''Data Processed - Egress'']"

definition azure_MEMORY_USAGE_TYPES :: "string list" where
  "azure_MEMORY_USAGE_TYPES =
    [''Execution Time'',
     ''Memory Duration'',
     ''C1 Cache Instance'']"

definition COMPUTE_USAGE_UNITS :: "string list" where
  "COMPUTE_USAGE_UNITS =
    [''1 Hour'',
     ''10 Hour'',
     ''10 Hours'',
     ''100 Hour'',
     ''100 Hours'',
     ''1000 Hour'',
     ''1000 Hours'']"

definition STORAGE_USAGE_UNITS :: "string list" where
  "STORAGE_USAGE_UNITS =
    [''1 /Month'',
     ''100 /Month'',
     ''1 GB/Month'',
     ''10 GB/Month'',
     ''100 GB/Month'',
     ''10 /Day'',
     ''30 /Day'',
     ''1 TB/Month'']"

definition az_TB_MONTH_1 :: string where
  "az_TB_MONTH_1 = ''1 TB/Month''"

definition NETWORKING_USAGE_UNITS :: "string list" where
  "NETWORKING_USAGE_UNITS =
    [''1 GB'',
     ''1 TB'',
     ''10 GB'',
     ''100 GB'',
     ''200 GB'']"

definition MEMORY_USAGE_UNITS :: "string list" where
  "MEMORY_USAGE_UNITS =
    [''1 GB Second'',
     ''50000 GB Seconds'',
     ''1 GB Hour'',
     ''1000 GB Hours'']"

definition az_GB_SECOND_1 :: string where
  "az_GB_SECOND_1 = ''1 GB Second''"

definition az_GB_SECONDS_50000 :: string where
  "az_GB_SECONDS_50000 = ''50000 GB Seconds''"

definition az_GB_HOUR_1 :: string where
  "az_GB_HOUR_1 = ''1 GB Hour''"

definition az_GB_HOURS_1000 :: string where
  "az_GB_HOURS_1000 = ''1000 GB Hours''"

definition CACHE_MEMORY_GB :: "jsnum obj" where
  "CACHE_MEMORY_GB =
    [(''C0'', Fin 0.25),
     (''C1'', Fin 1),
     (''C2'', Fin 2.5),
     (''C3'', Fin 6),
     (''C4'', Fin 13),
     (''C5'', Fin 26),
     (''C6'', Fin 53),
     (''P1'', Fin 6),
     (''P2'', Fin 13),
     (''P3'', Fin 26),
     (''P4'', Fin 53),
     (''P5'', Fin 120),
     (''E10'', Fin 12),
     (''E20'', Fin 25),
     (''E50'', Fin 50),
     (''E100'', Fin 100),
     (''F300'', Fin 384),
     (''F700'', Fin 715),
     (''F1500'', Fin 1455)]"

definition SSD_MANAGED_DISKS_STORAGE_GB :: "jsnum obj" where
  "SSD_MANAGED_DISKS_STORAGE_GB =
    [(''P1'', Fin 4),
     (''P2'', Fin 8),
     (''P3'', Fin 16),
     (''P4'', Fin 32),
     (''P6'', Fin 64),
     (''P10'', Fin 128),
     (''P15'', Fin 256),
     (''P20'', Fin 512),
     (''P30'', Fin 1024),
     (''P40'', Fin 2048),
     (''P50'', Fin 4096),
     (''P60'', Fin 8192),
     (''P70'', Fin 16384),
     (''P80'', Fin 32767),
     (''E1'', Fin 4),
     (''E2'', Fin 8),
     (''E3'', Fin 16),
     (''E4'', Fin 32),
     (''E6'', Fin 64),
     (''E10'', Fin 128),
     (''E15'', Fin 256),
     (''E20'', Fin 512),
     (''E30'', Fin 1024),
     (''E40'', Fin 2048),
     (''E50'', Fin 4096),
     (''E60'', Fin 8192),
     (''E70'', Fin 16384),
     (''E80'', Fin 32767)]"

definition HDD_MANAGED_DISKS_STORAGE_GB :: "jsnum obj" where
  "HDD_MANAGED_DISKS_STORAGE_GB =
    [(''S4'', Fin 32),
     (''S6'', Fin 64),
     (''S10'', Fin 128),
     (''S15'', Fin 256),
     (''S20'', Fin 512),
     (''S30'', Fin 1024),
     (''S40'', Fin 2048),
     (''S50'', Fin 4096),
     (''S60'', Fin 8192),
     (''S70'', Fin 16384),
     (''S80'', Fin 32767)]"

definition CONTAINER_REGISTRY_STORAGE_GB :: "jsnum obj" where
  "CONTAINER_REGISTRY_STORAGE_GB =
    [(''Basic'', Fin 10),
     (''Standard'', Fin 100),
     (''Premium'', Fin 500)]"

definition AZURE_QUERY_GROUP_BY :: "GroupBy \<Rightarrow> munit" where
  "AZURE_QUERY_GROUP_BY grouping =
     (case grouping of day \<Rightarrow> MDay | week \<Rightarrow> MIsoWeek | month \<Rightarrow> MMonth | quarter \<Rightarrow> MQuarter | year \<Rightarrow> MYear)"

section \<open>Constants\<close>

definition azure_SSDCOEFFICIENT :: jsnum where
  "azure_SSDCOEFFICIENT = Fin 1.2"

definition azure_HDDCOEFFICIENT :: jsnum where
  "azure_HDDCOEFFICIENT = Fin 0.65"

definition azure_MEMORY_AVG :: jsnum where
  "azure_MEMORY_AVG = Fin 80.47"

definition azure_MIN_WATTS_AVG :: jsnum where
  "azure_MIN_WATTS_AVG = Fin 0.74"

definition azure_MAX_WATTS_AVG :: jsnum where
  "azure_MAX_WATTS_AVG = Fin 3.54"

definition azure_NETWORKING_COEFFICIENT :: jsnum where
  "azure_NETWORKING_COEFFICIENT = Fin 0.001"

definition azure_MEMORY_COEFFICIENT :: jsnum where
  "azure_MEMORY_COEFFICIENT = Fin 0.000392"

definition azure_PUE_AVG :: jsnum where
  "azure_PUE_AVG = Fin 1.185"

definition azure_AVG_CPU_UTILIZATION_2020 :: jsnum where
  "azure_AVG_CPU_UTILIZATION_2020 = Fin 50"

definition azure_SERVER_EXPECTED_LIFESPAN :: jsnum where
  "azure_SERVER_EXPECTED_LIFESPAN = Fin 35040"

definition azure_ESTIMATE_UNKNOWN_USAGE_BY :: EstimateUnknownUsageBy where
  "azure_ESTIMATE_UNKNOWN_USAGE_BY = EU_USAGE_AMOUNT"

definition azure_memory_by_processor :: "COMPUTE_PROCESSOR_TYPES \<Rightarrow> jsnum option" where
  "azure_memory_by_processor p =
    map_option Fin (map_of
    [(CASCADE_LAKE, 98.12),
     (SKYLAKE, 81.32),
     (BROADWELL, 69.65),
     (HASWELL, 27.71),
     (COFFEE_LAKE, 19.56),
     (SANDY_BRIDGE, 16.7),
     (IVY_BRIDGE, 9.67),
     (AMD_EPYC_1ST_GEN, 89.6),
     (AMD_EPYC_2ND_GEN, 129.78),
     (AMD_EPYC_3RD_GEN, 128.0)] p)"

definition azure_min_watts_by_processor :: "COMPUTE_PROCESSOR_TYPES \<Rightarrow> jsnum option" where
  "azure_min_watts_by_processor p =
    map_option Fin (map_of
    [(CASCADE_LAKE, 0.64),
     (SKYLAKE, 0.65),
     (BROADWELL, 0.71),
     (HASWELL, 1),
     (COFFEE_LAKE, 1.14),
     (SANDY_BRIDGE, 2.17),
     (IVY_BRIDGE, 3.04),
     (AMD_EPYC_1ST_GEN, 0.82),
     (AMD_EPYC_2ND_GEN, 0.47),
     (AMD_EPYC_3RD_GEN, 0.45),
     (NVIDIA_T4, 8),
     (NVIDIA_TESLA_K80, 35),
     (NVIDIA_TESLA_P100, 36),
     (NVIDIA_TESLA_V100, 35),
     (NVIDIA_TESLA_M60, 35),
     (NVIDIA_TESLA_P40, 30),
     (NVIDIA_TESLA_A100, 46),
     (XILINX_ALVEO_U250, 27)] p)"

definition azure_max_watts_by_processor :: "COMPUTE_PROCESSOR_TYPES \<Rightarrow> jsnum option" where
  "azure_max_watts_by_processor p =
    map_option Fin (map_of
    [(CASCADE_LAKE, 3.97),
     (SKYLAKE, 4.26),
     (BROADWELL, 3.69),
     (HASWELL, 4.74),
     (COFFEE_LAKE, 5.42),
     (SANDY_BRIDGE, 8.58),
     (IVY_BRIDGE, 8.25),
     (AMD_EPYC_1ST_GEN, 2.55),
     (AMD_EPYC_2ND_GEN, 1.69),
     (AMD_EPYC_3RD_GEN, 2.02),
     (NVIDIA_T4, 71),
     (NVIDIA_TESLA_K80, 306),
     (NVIDIA_TESLA_P100, 306),
     (NVIDIA_TESLA_V100, 306),
     (NVIDIA_TESLA_M60, 306),
     (NVIDIA_TESLA_P40, 255),
     (NVIDIA_TESLA_A100, 407),
     (XILINX_ALVEO_U250, 229.5)] p)"

record azure_replication_factors =
  zf_STORAGE_LRS :: jsnum
  zf_STORAGE_ZRS :: jsnum
  zf_STORAGE_GRS :: jsnum
  zf_STORAGE_GZRS :: jsnum
  zf_STORAGE_DISKS :: jsnum
  zf_DATABASE_MYSQL :: jsnum
  zf_COSMOS_DB :: jsnum
  zf_SQL_DB :: jsnum
  zf_REDIS_CACHE :: jsnum
  zf_DEFAULT :: jsnum

definition azure_REPLICATION_FACTORS :: azure_replication_factors where
  "azure_REPLICATION_FACTORS =
    \<lparr>zf_STORAGE_LRS = Fin 3,
     zf_STORAGE_ZRS = Fin 3,
     zf_STORAGE_GRS = Fin 6,
     zf_STORAGE_GZRS = Fin 6,
     zf_STORAGE_DISKS = Fin 3,
     zf_DATABASE_MYSQL = Fin 3,
     zf_COSMOS_DB = Fin 4,
     zf_SQL_DB = Fin 3,
     zf_REDIS_CACHE = Fin 2,
     zf_DEFAULT = Fin 1\<rparr>"

text \<open>\<open>x ? x : d\<close> on a number that may be \<open>undefined\<close> is \<open>or_num x d\<close>.\<close>

definition azure_getMemory :: "COMPUTE_PROCESSOR_TYPES list \<Rightarrow> jsnum" where
  "azure_getMemory computeProcessors =
     or_num (getAverage (map azure_memory_by_processor computeProcessors)) azure_MEMORY_AVG"

definition azure_getMinWatts ::
    "(jsnum option list \<Rightarrow> jsnum) \<Rightarrow> COMPUTE_PROCESSOR_TYPES list \<Rightarrow> jsnum" where
  "azure_getMinWatts median computeProcessors =
     or_num (getWattsByAverageOrMedian median computeProcessors
               (map azure_min_watts_by_processor computeProcessors)) azure_MIN_WATTS_AVG"

definition azure_getMaxWatts ::
    "(jsnum option list \<Rightarrow> jsnum) \<Rightarrow> COMPUTE_PROCESSOR_TYPES list \<Rightarrow> jsnum" where
  "azure_getMaxWatts median computeProcessors =
     or_num (getWattsByAverageOrMedian median computeProcessors
               (map azure_max_watts_by_processor computeProcessors)) azure_MAX_WATTS_AVG"

definition azure_getPUE :: jsnum where
  "azure_getPUE = azure_PUE_AVG"

section \<open>Emissions factors\<close>

definition AZURE_EMISSIONS_FACTORS_METRIC_TON_PER_KWH :: emissions_factors where
  "AZURE_EMISSIONS_FACTORS_METRIC_TON_PER_KWH =
    [(''southafrica'', Fin 0.0009006),
     (''southafricanorth'', Fin 0.0009006),
     (''southafricawest'', Fin 0.0009006),
     (''australia'', Fin 0.00079),
     (''australiacentral'', Fin 0.00079),
     (''australiacentral2'', Fin 0.00079),
     (''australiaeast'', Fin 0.00079),
     (''australiasoutheast'', Fin 0.00096),
     (''apeast'', Fin 0.00071),
     (''apsoutheast'', Fin 0.000408),
     (''japaneast'', Fin 0.0004658),
     (''japanwest'', Fin 0.0004658),
     (''japan'', Fin 0.0004658),
     (''korea'', Fin 0.0004156),
     (''koreacentral'', Fin 0.0004156),
     (''koreasouth'', Fin 0.0004156),
     (''asia'', Fin 0.0005647),
     (''asiapacific'', Fin 0.0005647),
     (''eastasia'', Fin 0.00071),
     (''eastasiastage'', Fin 0.00071),
     (''southeastasia'', Fin 0.000408),
     (''southeastasiastage'', Fin 0.000408),
     (''india'', Fin 0.0007082),
     (''centralindia'', Fin 0.0007082),
     (''jioindiacentral'', Fin 0.0007082),
     (''jioindiawest'', Fin 0.0007082),
     (''southindia'', Fin 0.0007082),
     (''westindia'', Fin 0.0007082),
     (''northeurope'', Fin 0.0002786),
     (''westeurope'', Fin 0.0003284),
     (''francecentral'', Fin 0.00005128),
     (''francesouth'', Fin 0.00005128),
     (''france'', Fin 0.00005128),
     (''swedencentral'', Fin 0.00000567),
     (''switzerland'', Fin 0.00001152),
     (''switzerlandnorth'', Fin 0.00001152),
     (''switzerlandwest'', Fin 0.00001152),
     (''uksouth'', Fin 0.000225),
     (''ukwest'', Fin 0.000225),
     (''uk'', Fin 0.000225),
     (''germany'', Fin 0.00033866),
     (''germanynorth'', Fin 0.00033866),
     (''germanywestcentral'', Fin 0.00033866),
     (''norway'', Fin 0.00000762),
     (''norwayeast'', Fin 0.00000762),
     (''norwaywest'', Fin 0.00000762),
     (''uae'', Fin 0.0004041),
     (''uaecentral'', Fin 0.0004041),
     (''uaenorth'', Fin 0.0004041),
     (''canada'', Fin 0.00012),
     (''canadacentral'', Fin 0.00012),
     (''canadaeast'', Fin 0.00012),
     (''CentralUS'', nerc_factor ''MRO''),
     (''centraluseuap'', nerc_factor ''MRO''),
     (''centralusstage'', nerc_factor ''MRO''),
     (''unitedstates'', nerc_factor ''MRO''),
     (''unitedstateseuap'', nerc_factor ''MRO''),
     (''EastUS'', nerc_factor ''SERC''),
     (''eastusstage'', nerc_factor ''SERC''),
     (''EastUS2'', nerc_factor ''SERC''),
     (''eastus2euap'', nerc_factor ''SERC''),
     (''eastus2stage'', nerc_factor ''SERC''),
     (''EastUS3'', nerc_factor ''SERC''),
     (''USNorth'', nerc_factor ''RFC''),
     (''NorthCentralUs'', nerc_factor ''RFC''),
     (''northcentralusstage'', nerc_factor ''RFC''),
     (''SouthCentralUS'', nerc_factor ''TRE''),
     (''southcentralusstage'', nerc_factor ''TRE''),
     (''WestCentralUS'', nerc_factor ''WECC''),
     (''WestUS'', nerc_factor ''WECC''),
     (''westusstage'', nerc_factor ''WECC''),
     (''westus2'', nerc_factor ''WECC''),
     (''westus2stage'', nerc_factor ''WECC''),
     (''westus3'', nerc_factor ''WECC''),
     (''brazil'', Fin 0.0000617),
     (''brazilsouth'', Fin 0.0000617),
     (''brazilsoutheast'', Fin 0.0000617),
     (''Unknown'', Fin 0.0003512799615)]"

end
