(* ===== verification/Azure_Billing.thy ===== *)
theory Azure_Billing
  imports Core_Reader Azure_Constants Azure_Machines
begin

text \<open>
  \<open>packages/azure/src/lib/ConsumptionManagement.ts\<close>: the classification of the rows, their estimates
  and the loop over them. The ledger of kilowatt hours and the cache of emissions factors are the
  state.
\<close>

text \<open>
  \<open>packages/azure/src/lib/ConsumptionDetailRow.ts\<close>, the row of a usage detail with what its
  constructor derives from the virtual machine tables, and \<open>ReplicationFactors.ts\<close>. The list of
  unknown regions that the module keeps only silences a repeated log message.
\<close>

section \<open>ReplicationFactors.ts\<close>

definition zf_STORAGE_of :: "string \<Rightarrow> string \<Rightarrow> jsnum" where
  "zf_STORAGE_of usageType region =
     (if str_includes usageType ''LRS'' then zf_STORAGE_LRS azure_REPLICATION_FACTORS
      else if str_includes usageType ''GZRS'' then zf_STORAGE_GZRS azure_REPLICATION_FACTORS
      else if str_includes usageType ''ZRS'' then zf_STORAGE_ZRS azure_REPLICATION_FACTORS
      else if str_includes usageType ''GRS'' then zf_STORAGE_GRS azure_REPLICATION_FACTORS
      else if str_includes usageType ''Disks'' then zf_STORAGE_DISKS azure_REPLICATION_FACTORS
      else zf_DEFAULT azure_REPLICATION_FACTORS)"

definition zf_COSMOS_DB_of :: "string \<Rightarrow> string \<Rightarrow> jsnum" where
  "zf_COSMOS_DB_of usageType region =
     (if str_includes usageType ''Data Stored'' then zf_COSMOS_DB azure_REPLICATION_FACTORS
      else zf_DEFAULT azure_REPLICATION_FACTORS)"

definition zf_SQL_DB_of :: "string \<Rightarrow> string \<Rightarrow> jsnum" where
  "zf_SQL_DB_of usageType region =
     (if containsAny [''Data Stored'', ''vCore''] usageType then zf_SQL_DB azure_REPLICATION_FACTORS
      else zf_DEFAULT azure_REPLICATION_FACTORS)"

definition AZURE_REPLICATION_FACTORS_FOR_SERVICES :: "(string \<Rightarrow> string \<Rightarrow> jsnum) obj" where
  "AZURE_REPLICATION_FACTORS_FOR_SERVICES =
     [(''Storage'', zf_STORAGE_of),
      (''Azure Database for MySQL'', \<lambda>_ _. zf_DATABASE_MYSQL azure_REPLICATION_FACTORS),
      (''Azure Cosmos DB'', zf_COSMOS_DB_of),
      (''SQL Database'', zf_SQL_DB_of),
      (''Redis Cache'', \<lambda>_ _. zf_REDIS_CACHE azure_REPLICATION_FACTORS)]"

section \<open>A usage detail\<close>

record meter_details =
  md_meterName :: string
  md_unitOfMeasure :: string
  md_meterCategory :: string

text \<open>What the two kinds of usage details hold apart; the details of a legacy meter may be missing.\<close>

datatype usage_kind =
    Modern string meter_details jsnum
  | Legacy string "meter_details option" jsnum

record usage_detail =
  ud_date :: "date option"
  ud_quantity :: jsnum
  ud_subscriptionName :: string
  ud_resourceLocation :: "string option"
  ud_resourceGroup :: "string option"
  ud_tags :: "TagCollection option"
  ud_kind :: usage_kind

record ConsumptionDetailRow = BillingDataRow +
  zx_seriesName :: string

definition zx_data :: "ConsumptionDetailRow \<Rightarrow> BillingDataRow" where
  "zx_data row = BillingDataRow.truncate row"

definition parseUsageType :: "string \<Rightarrow> string" where
  "parseUsageType usageType =
     (if str_includes usageType ''Spot'' then replace_first usageType '' Spot'' []
      else if str_includes usageType ''/'' then hd (split usageType ''/'')
      else usageType)"

text \<open>The last series that has the instance type.\<close>

definition getSeriesFromInstanceType :: "string \<Rightarrow> string" where
  "getSeriesFromInstanceType usageType =
     foldl (\<lambda>matching (seriesName, types).
              if obj_get types usageType \<noteq> None then seriesName else matching)
       [] VIRTUAL_MACHINE_TYPE_SERIES_MAPPING"

definition azure_getVCpus :: "string \<Rightarrow> string \<Rightarrow> jsnum" where
  "azure_getVCpus seriesName usageType =
     or_num (or_opt (or_opt
         (num_at 0 (instance_data VIRTUAL_MACHINE_TYPE_SERIES_MAPPING (Some seriesName) (Some usageType)))
         (num_at 0 (obj_get VIRTUAL_MACHINE_TYPE_VCPU_MEMORY_MAPPING usageType)))
         (num_at 0 (obj_get VIRTUAL_MACHINE_TYPE_CONSTRAINED_VCPU_CAPABLE_MAPPING usageType))) 1"

definition azure_getGpus :: "string \<Rightarrow> jsnum" where
  "azure_getGpus usageType = or_num (obj_get GPU_VIRTUAL_MACHINE_TYPES usageType) 1"

definition getRegionFromResourceLocation :: "string option \<Rightarrow> string" where
  "getRegionFromResourceLocation location =
     (case find (\<lambda>r. case location of None \<Rightarrow> False | Some l \<Rightarrow> zr_name r = l \<or> l \<in> set (zr_options r))
             (obj_values AZURE_REGIONS) of
        Some r \<Rightarrow> zr_name r
      | None \<Rightarrow> azure_unknown_region)"

text \<open>The configured tags that the detail has with a text, and the resource group by its own name.\<close>

definition azure_row_tags :: "string list \<Rightarrow> usage_detail \<Rightarrow> TagCollection" where
  "azure_row_tags tagNames u =
     (let tags = foldl (\<lambda>tags name.
             case (case ud_tags u of None \<Rightarrow> None | Some t \<Rightarrow> tag_get t name) of
               Some v \<Rightarrow> if v = [] then tags else obj_set tags name (Some v)
             | None \<Rightarrow> tags) [] tagNames
      in if ''resourceGroup'' \<in> set tagNames then obj_set tags ''resourceGroup'' (ud_resourceGroup u)
         else tags)"

text \<open>\<open>getConsumptionDetails\<close>: the account, the meter and the cost, by the kind of the detail.\<close>

fun consumption_details :: "usage_kind \<Rightarrow> (string \<times> meter_details \<times> jsnum) result" where
  "consumption_details (Modern subscriptionGuid meter costInUSD) = Inr (subscriptionGuid, meter, costInUSD)"
| "consumption_details (Legacy i (Some meterDetails) cost) = Inr (i, meterDetails, cost)"
| "consumption_details (Legacy i None cost) = Inl TypeError"

definition new_ConsumptionDetailRow :: "string list \<Rightarrow> usage_detail \<Rightarrow> ConsumptionDetailRow result" where
  "new_ConsumptionDetailRow tagNames u =
     bindR (consumption_details (ud_kind u)) (\<lambda>(accountId, meter, cost).
       let usageType = parseUsageType (md_meterName meter);
           seriesName = getSeriesFromInstanceType usageType
       in Inr \<lparr>br_serviceName = md_meterCategory meter,
               br_accountId = accountId,
               br_accountName = ud_subscriptionName u,
               br_usageAmount = ud_quantity u,
               br_usageType = usageType,
               br_usageUnit = md_unitOfMeasure meter,
               br_cost = cost,
               br_region = getRegionFromResourceLocation (ud_resourceLocation u),
               br_cloudProvider = ''AZURE'',
               br_timestamp = ud_date u,
               br_vCpus = None,
               br_vCpuHours = ud_quantity u * azure_getVCpus seriesName usageType,
               br_gpuHours = ud_quantity u * azure_getGpus usageType,
               br_instanceType = [],
               br_replicationFactor = 0,
               br_tags = Some (azure_row_tags tagNames u),
               zx_seriesName = seriesName\<rparr>)"

section \<open>Facts\<close>

lemma zx_data_fields [simp]:
  "br_serviceName (zx_data row) = br_serviceName row"
  "br_accountId (zx_data row) = br_accountId row"
  "br_usageAmount (zx_data row) = br_usageAmount row"
  "br_usageType (zx_data row) = br_usageType row"
  "br_usageUnit (zx_data row) = br_usageUnit row"
  "br_cost (zx_data row) = br_cost row"
  "br_region (zx_data row) = br_region row"
  "br_timestamp (zx_data row) = br_timestamp row"
  "br_tags (zx_data row) = br_tags row"
  by (simp_all add: zx_data_def BillingDataRow.truncate_def)

lemma new_consumption_row_fields:
  assumes "new_ConsumptionDetailRow tagNames u = Inr row"
  shows "br_tags row = Some (azure_row_tags tagNames u)" "br_timestamp row = ud_date u"
    "br_region row = getRegionFromResourceLocation (ud_resourceLocation u)"
  using assms by (auto simp: new_ConsumptionDetailRow_def bindR_eq_Inr_iff Let_def)

text \<open>Every row has a region of the table or the unknown region.\<close>

lemma region_of_row:
  "getRegionFromResourceLocation l \<in> insert azure_unknown_region (zr_name ` set (obj_values AZURE_REGIONS))"
proof (cases "find (\<lambda>r. case l of None \<Rightarrow> False | Some x \<Rightarrow> zr_name r = x \<or> x \<in> set (zr_options r))
    (obj_values AZURE_REGIONS)")
  case None
  then show ?thesis by (simp add: getRegionFromResourceLocation_def)
next
  case (Some r)
  then have "r \<in> set (obj_values AZURE_REGIONS)" by (auto simp: find_Some_iff)
  with Some show ?thesis by (auto simp: getRegionFromResourceLocation_def)
qed

record azure_globals =
  zg_store :: kwh_store
  zg_factors :: factor_state

record azure_env =
  ze_moment :: moment_ops
  ze_median :: "jsnum option list \<Rightarrow> jsnum"
  ze_token :: string
  ze_http :: http_service
  ze_tagNames :: "string list"
  ze_chunkDays :: "int option"
  ze_subscriptionChunks :: "int option"
  ze_subscriptions :: "string list"
  ze_now :: date

section \<open>Classification of a row\<close>

definition azure_isMemoryUsage :: "string \<Rightarrow> bool" where
  "azure_isMemoryUsage usageType \<longleftrightarrow> containsAny azure_MEMORY_USAGE_TYPES usageType"

definition azure_isUnsupportedUsage :: "ConsumptionDetailRow \<Rightarrow> bool" where
  "azure_isUnsupportedUsage row \<longleftrightarrow> containsAny azure_UNSUPPORTED_USAGE_TYPES (br_usageType row)"

definition azure_isUnknownUsage :: "ConsumptionDetailRow \<Rightarrow> bool" where
  "azure_isUnknownUsage row \<longleftrightarrow>
     containsAny azure_UNKNOWN_SERVICES (br_serviceName row)
     \<or> containsAny azure_UNKNOWN_USAGE_TYPES (br_usageType row)
     \<or> \<not> containsAny (COMPUTE_USAGE_UNITS @ STORAGE_USAGE_UNITS @ NETWORKING_USAGE_UNITS
                          @ MEMORY_USAGE_UNITS) (br_usageUnit row)"

definition isGpuUsage :: "string \<Rightarrow> bool" where
  "isGpuUsage usageType \<longleftrightarrow> containsAny (obj_keys GPU_VIRTUAL_MACHINE_TYPES) usageType"

definition isSSDStorage :: "ConsumptionDetailRow \<Rightarrow> bool" where
  "isSSDStorage row \<longleftrightarrow>
     containsAny (obj_keys SSD_MANAGED_DISKS_STORAGE_GB) (br_usageType row)
     \<or> containsAny azure_STORAGE_USAGE_TYPES (br_usageType row)"

definition isHDDStorage :: "ConsumptionDetailRow \<Rightarrow> bool" where
  "isHDDStorage row \<longleftrightarrow> containsAny (obj_keys HDD_MANAGED_DISKS_STORAGE_GB) (br_usageType row)"

definition isManagedDiskStorage :: "ConsumptionDetailRow \<Rightarrow> bool" where
  "isManagedDiskStorage row \<longleftrightarrow>
     containsAny (obj_keys SSD_MANAGED_DISKS_STORAGE_GB @ obj_keys HDD_MANAGED_DISKS_STORAGE_GB)
       (br_usageType row)"

definition isContainerRegistryStorage :: "ConsumptionDetailRow \<Rightarrow> bool" where
  "isContainerRegistryStorage row \<longleftrightarrow>
     containsAny (map (\<lambda>registryType. registryType @ '' Registry Unit'')
                    (obj_keys CONTAINER_REGISTRY_STORAGE_GB)) (br_usageType row)"

definition azure_isNetworkingUsage :: "ConsumptionDetailRow \<Rightarrow> bool" where
  "azure_isNetworkingUsage row \<longleftrightarrow>
     containsAny azure_NETWORKING_USAGE_TYPES (br_usageType row)
     \<and> \<not> str_includes (br_usageType row) ''To Any''"

definition azure_getReplicationFactor :: "ConsumptionDetailRow \<Rightarrow> jsnum option" where
  "azure_getReplicationFactor row =
     map_option (\<lambda>f. f (br_usageType row) (br_region row))
       (obj_get AZURE_REPLICATION_FACTORS_FOR_SERVICES (br_serviceName row))"

section \<open>Amounts\<close>

text \<open>The first match of \<open>/(P|E)\d{1,2}/\<close>.\<close>

fun match_disk_type :: "string \<Rightarrow> string option" where
  "match_disk_type [] = None"
| "match_disk_type (c # cs) =
     (let digits = take 2 (takeWhile is_digit cs) in
      if (c = CHR ''P'' \<or> c = CHR ''E'') \<and> digits \<noteq> [] then Some (c # digits) else match_disk_type cs)"

text \<open>\<open>usageType.replace(/Disks?/, '')\<close>.\<close>

fun without_disk :: "string \<Rightarrow> string" where
  "without_disk [] = []"
| "without_disk (c # cs) =
     (if startsWith (c # cs) ''Disks'' then drop 5 (c # cs)
      else if startsWith (c # cs) ''Disk'' then drop 4 (c # cs)
      else c # without_disk cs)"

definition getUsageAmountInTerabyteHours :: "ConsumptionDetailRow \<Rightarrow> jsnum" where
  "getUsageAmountInTerabyteHours row =
     (if br_usageUnit row = az_TB_MONTH_1 then br_usageAmount row * 24
      else if isSSDStorage row \<and> isManagedDiskStorage row then
        convertGigaBytesToTerabyteHours
          (or_num (Option.bind (match_disk_type (br_usageType row)) (obj_get SSD_MANAGED_DISKS_STORAGE_GB)) 0)
      else if isHDDStorage row \<and> isManagedDiskStorage row then
        convertGigaBytesToTerabyteHours
          (toNum (obj_get HDD_MANAGED_DISKS_STORAGE_GB (trim (without_disk (br_usageType row)))))
      else if isContainerRegistryStorage row then
        convertGigaBytesToTerabyteHours
          (toNum (obj_get CONTAINER_REGISTRY_STORAGE_GB (replace_first (br_usageType row) '' Registry Unit'' [])))
      else convertGigaBytesToTerabyteHours (br_usageAmount row))"

definition getGigabyteHoursFromCacheName :: "string \<Rightarrow> jsnum \<Rightarrow> jsnum" where
  "getGigabyteHoursFromCacheName usageType usageAmount =
     toNum (obj_get CACHE_MEMORY_GB (hd (split usageType '' ''))) * usageAmount"

definition checkInstanceTypes :: "string \<Rightarrow> bool" where
  "checkInstanceTypes seriesName \<longleftrightarrow> seriesName \<in> set (obj_keys VIRTUAL_MACHINE_TYPE_SERIES_MAPPING)"

definition azure_getComputeProcessorsFromUsageType :: "string \<Rightarrow> COMPUTE_PROCESSOR_TYPES list" where
  "azure_getComputeProcessorsFromUsageType usageType =
     (case obj_get azure_INSTANCE_TYPE_COMPUTE_PROCESSOR_MAPPING usageType of
        Some ps \<Rightarrow> ps
      | None \<Rightarrow> [UNKNOWN_PROCESSOR])"

definition azure_getGpuComputeProcessorsFromUsageType :: "string \<Rightarrow> COMPUTE_PROCESSOR_TYPES list" where
  "azure_getGpuComputeProcessorsFromUsageType usageType =
     (case obj_get GPU_VIRTUAL_MACHINE_TYPE_PROCESSOR_MAPPING usageType of
        Some ps \<Rightarrow> ps
      | None \<Rightarrow> [UNKNOWN_PROCESSOR])"

text \<open>The machines of a valid series; the series of the table are not empty.\<close>

definition series_machines :: "string \<Rightarrow> rat list list" where
  "series_machines seriesName =
     (case obj_get VIRTUAL_MACHINE_TYPE_SERIES_MAPPING seriesName of
        Some types \<Rightarrow> obj_values types
      | None \<Rightarrow> [])"

definition getGigabyteHoursFromInstanceTypeAndProcessors :: "string \<Rightarrow> jsnum \<Rightarrow> string \<Rightarrow> jsnum" where
  "getGigabyteHoursFromInstanceTypeAndProcessors usageType usageAmount seriesName =
     (if usageType \<in> set azure_MEMORY_USAGE_TYPES then
        (if str_includes usageType ''Cache'' then getGigabyteHoursFromCacheName usageType usageAmount
         else usageAmount)
      else
        (let instanceTypeMemory = num_at 1
               (instance_data VIRTUAL_MACHINE_TYPE_SERIES_MAPPING (Some seriesName) (Some usageType))
         in if \<not> checkInstanceTypes seriesName \<or> \<not> truthy_opt instanceTypeMemory then 0
            else
              (let processorMemory =
                     azure_getMemory (azure_getComputeProcessorsFromUsageType usageType);
                   largest = last (series_machines seriesName)
               in calculateGigabyteHours (getPhysicalChips (toNum (num_at 0 (Some largest))))
                    (toNum (num_at 1 (Some largest))) processorMemory (toNum instanceTypeMemory) usageAmount)))"

definition getUsageAmountInGigabyteHours :: "ConsumptionDetailRow \<Rightarrow> jsnum" where
  "getUsageAmountInGigabyteHours row =
     (if br_usageUnit row = az_GB_SECONDS_50000 \<or> br_usageUnit row = az_GB_SECOND_1
      then br_usageAmount row / 3600
      else if br_usageUnit row = az_GB_HOUR_1 then br_usageAmount row
      else getGigabyteHoursFromInstanceTypeAndProcessors (br_usageType row) (br_usageAmount row)
             (zx_seriesName row))"

definition getGigabytesForNetworking :: "ConsumptionDetailRow \<Rightarrow> jsnum" where
  "getGigabytesForNetworking row =
     (if str_includes (br_usageUnit row) ''TB'' then convertTerabytesToGigabytes (br_usageAmount row)
      else br_usageAmount row)"

section \<open>Compute\<close>

definition azure_cpu_estimate ::
    "azure_env \<Rightarrow> ConsumptionDetailRow \<Rightarrow> COMPUTE_PROCESSOR_TYPES list \<Rightarrow> jsnum \<Rightarrow> jsnum \<Rightarrow>
     emissions_factors \<Rightarrow> FootprintEstimate" where
  "azure_cpu_estimate E row processors hours powerUsageEffectiveness emissionsFactors =
     hd (ComputeEstimator_estimate
           [\<lparr>cu_timestamp = br_timestamp row,
             cu_cpuUtilizationAverage = azure_AVG_CPU_UTILIZATION_2020,
             cu_vCpuHours = hours,
             cu_usesAverageCPUConstant = True\<rparr>]
           (br_region row) emissionsFactors
           (no_constants
              \<lparr>cc_minWatts := Some (azure_getMinWatts (ze_median E) processors),
               cc_maxWatts := Some (azure_getMaxWatts (ze_median E) processors),
               cc_powerUsageEffectiveness := Some powerUsageEffectiveness,
               cc_replicationFactor := azure_getReplicationFactor row\<rparr>))"

definition appendGpuComputeEstimate ::
    "azure_env \<Rightarrow> ConsumptionDetailRow \<Rightarrow> jsnum \<Rightarrow> emissions_factors \<Rightarrow> FootprintEstimate \<Rightarrow>
     FootprintEstimate" where
  "appendGpuComputeEstimate E row powerUsageEffectiveness emissionsFactors computeFootprintEstimate =
     (let gpuComputeFootprintEstimate = azure_cpu_estimate E row
            (azure_getGpuComputeProcessorsFromUsageType (br_usageType row)) (br_gpuHours row)
            powerUsageEffectiveness emissionsFactors
      in computeFootprintEstimate
           \<lparr>fe_kilowattHours := fe_kilowattHours computeFootprintEstimate
                                + fe_kilowattHours gpuComputeFootprintEstimate,
            fe_co2e := fe_co2e computeFootprintEstimate + fe_co2e gpuComputeFootprintEstimate\<rparr>)"

definition azure_getComputeFootprintEstimate ::
    "azure_env \<Rightarrow> ConsumptionDetailRow \<Rightarrow> jsnum \<Rightarrow> emissions_factors \<Rightarrow> FootprintEstimate" where
  "azure_getComputeFootprintEstimate E row powerUsageEffectiveness emissionsFactors =
     (let computeFootprintEstimate = azure_cpu_estimate E row
            (azure_getComputeProcessorsFromUsageType (br_usageType row)) (br_vCpuHours row)
            powerUsageEffectiveness emissionsFactors
      in if isGpuUsage (br_usageType row)
         then appendGpuComputeEstimate E row powerUsageEffectiveness emissionsFactors computeFootprintEstimate
         else computeFootprintEstimate)"

section \<open>Memory, storage, networking and embodied emissions\<close>

definition azure_accumulateE :: "ConsumptionDetailRow \<Rightarrow> jsnum \<Rightarrow> (azure_globals, unit) eff" where
  "azure_accumulateE row kilowattHours =
     (\<lambda>g. case accumulateKilowattHours (zg_store g) (zx_data row) kilowattHours AK_USAGE_AMOUNT of
            Inl e \<Rightarrow> (Inl e, g)
          | Inr store \<Rightarrow> (Inr (), g\<lparr>zg_store := store\<rparr>))"

definition azure_memory_estimate ::
    "ConsumptionDetailRow \<Rightarrow> jsnum \<Rightarrow> emissions_factors \<Rightarrow> FootprintEstimate" where
  "azure_memory_estimate row powerUsageEffectiveness emissionsFactors =
     (hd (MemoryEstimator_estimate azure_MEMORY_COEFFICIENT
            [\<lparr>mu_timestamp = br_timestamp row, mu_gigabyteHours = getUsageAmountInGigabyteHours row\<rparr>]
            (br_region row) emissionsFactors
            (no_constants\<lparr>cc_powerUsageEffectiveness := Some powerUsageEffectiveness,
                          cc_replicationFactor := azure_getReplicationFactor row\<rparr>)))
       \<lparr>fe_usesAverageCPUConstant := Some False\<rparr>"

definition azure_getMemoryFootprintEstimate ::
    "ConsumptionDetailRow \<Rightarrow> jsnum \<Rightarrow> emissions_factors \<Rightarrow> bool \<Rightarrow> (azure_globals, FootprintEstimate) eff" where
  "azure_getMemoryFootprintEstimate row powerUsageEffectiveness emissionsFactors withCompute =
     (let memoryEstimate = azure_memory_estimate row powerUsageEffectiveness emissionsFactors in
      if withCompute then retE memoryEstimate
      else bindE (azure_accumulateE row (fe_kilowattHours memoryEstimate)) (\<lambda>_. retE memoryEstimate))"

definition azure_storage_estimate ::
    "ConsumptionDetailRow \<Rightarrow> jsnum \<Rightarrow> emissions_factors \<Rightarrow> FootprintEstimate option" where
  "azure_storage_estimate row powerUsageEffectiveness emissionsFactors =
     (let storageUsage = \<lparr>su_timestamp = br_timestamp row,
                          su_terabyteHours = getUsageAmountInTerabyteHours row\<rparr>;
          storageConstants = no_constants
            \<lparr>cc_powerUsageEffectiveness := Some powerUsageEffectiveness,
             cc_replicationFactor := azure_getReplicationFactor row\<rparr>;
          estimate = (\<lambda>coefficient. hd (StorageEstimator_estimate coefficient [storageUsage]
                        (br_region row) emissionsFactors storageConstants))
      in if isSSDStorage row then
           Some ((estimate azure_SSDCOEFFICIENT)\<lparr>fe_usesAverageCPUConstant := Some False\<rparr>)
         else if isHDDStorage row then
           Some ((estimate azure_HDDCOEFFICIENT)\<lparr>fe_usesAverageCPUConstant := Some False\<rparr>)
         else None)"

definition azure_getStorageFootprintEstimate ::
    "ConsumptionDetailRow \<Rightarrow> jsnum \<Rightarrow> emissions_factors \<Rightarrow> (azure_globals, FootprintEstimate option) eff" where
  "azure_getStorageFootprintEstimate row powerUsageEffectiveness emissionsFactors =
     (case azure_storage_estimate row powerUsageEffectiveness emissionsFactors of
        None \<Rightarrow> retE None
      | Some estimate \<Rightarrow>
          bindE (azure_accumulateE row (fe_kilowattHours estimate)) (\<lambda>_. retE (Some estimate)))"

definition azure_networking_estimate ::
    "ConsumptionDetailRow \<Rightarrow> jsnum \<Rightarrow> emissions_factors \<Rightarrow> FootprintEstimate option" where
  "azure_networking_estimate row powerUsageEffectiveness emissionsFactors =
     (if azure_isNetworkingUsage row then
        Some ((hd (NetworkingEstimator_estimate azure_NETWORKING_COEFFICIENT
                     [\<lparr>nu_timestamp = br_timestamp row, nu_gigabytes = getGigabytesForNetworking row\<rparr>]
                     (br_region row) emissionsFactors
                     (no_constants\<lparr>cc_powerUsageEffectiveness := Some powerUsageEffectiveness\<rparr>)))
                \<lparr>fe_usesAverageCPUConstant := Some False\<rparr>)
      else None)"

definition azure_getNetworkingFootprintEstimate ::
    "ConsumptionDetailRow \<Rightarrow> jsnum \<Rightarrow> emissions_factors \<Rightarrow> (azure_globals, FootprintEstimate option) eff" where
  "azure_getNetworkingFootprintEstimate row powerUsageEffectiveness emissionsFactors =
     (case azure_networking_estimate row powerUsageEffectiveness emissionsFactors of
        None \<Rightarrow> retE None
      | Some estimate \<Rightarrow>
          bindE (azure_accumulateE row (fe_kilowattHours estimate)) (\<lambda>_. retE (Some estimate)))"

text \<open>The vCPUs, the scope 3 emissions and the vCPUs of the largest machine of the series.\<close>

definition getDataFromSeriesNameAndUsageType ::
    "string \<Rightarrow> string \<Rightarrow> jsnum option \<times> jsnum option \<times> jsnum option" where
  "getDataFromSeriesNameAndUsageType seriesName usageType =
     (let machine = instance_data VIRTUAL_MACHINE_TYPE_SERIES_MAPPING (Some seriesName) (Some usageType);
          constrained = obj_get VIRTUAL_MACHINE_TYPE_CONSTRAINED_VCPU_CAPABLE_MAPPING usageType
      in (or_opt (num_at 0 machine) (num_at 0 constrained),
          or_opt (num_at 2 machine) (num_at 3 constrained),
          if seriesName \<noteq> [] then num_at 0 (Some (last (series_machines seriesName)))
          else num_at 2 constrained))"

definition azure_getEmbodiedEmissions ::
    "azure_env \<Rightarrow> ConsumptionDetailRow \<Rightarrow> emissions_factors \<Rightarrow> FootprintEstimate" where
  "azure_getEmbodiedEmissions E row emissionsFactors =
     (let (instancevCpu, scopeThreeEmissions, largestInstancevCpu) =
            getDataFromSeriesNameAndUsageType (zx_seriesName row) (br_usageType row)
      in if \<not> truthy_opt instancevCpu \<or> \<not> truthy_opt scopeThreeEmissions
            \<or> \<not> truthy_opt largestInstancevCpu then
           \<lparr>fe_timestamp = Some (ze_now E), fe_kilowattHours = 0, fe_co2e = 0,
            fe_usesAverageCPUConstant = None\<rparr>
         else
           hd (EmbodiedEmissionsEstimator_estimate azure_SERVER_EXPECTED_LIFESPAN
                 [\<lparr>eu_timestamp = None,
                   eu_instancevCpu = toNum instancevCpu,
                   eu_largestInstancevCpu = toNum largestInstancevCpu,
                   eu_usageTimePeriod = br_usageAmount row / toNum instancevCpu,
                   eu_scopeThreeEmissions = toNum scopeThreeEmissions\<rparr>]
                 (br_region row) emissionsFactors))"

section \<open>The estimate of a row\<close>

definition azure_hours_estimate ::
    "azure_env \<Rightarrow> ConsumptionDetailRow \<Rightarrow> emissions_factors \<Rightarrow> (azure_globals, FootprintEstimate) eff" where
  "azure_hours_estimate E row emissionsFactors =
     (let computeFootprint = azure_getComputeFootprintEstimate E row azure_getPUE emissionsFactors in
      bindE (azure_getMemoryFootprintEstimate row azure_getPUE emissionsFactors True) (\<lambda>memoryFootprint.
      let embodiedEmissions = azure_getEmbodiedEmissions E row emissionsFactors in
      if azure_isMemoryUsage (br_usageType row) then retE memoryFootprint
      else if truthy (fe_kilowattHours memoryFootprint) \<or> truthy (fe_co2e embodiedEmissions) then
        (let kilowattHours = fe_kilowattHours computeFootprint + fe_kilowattHours memoryFootprint
                             + fe_kilowattHours embodiedEmissions
         in bindE (azure_accumulateE row kilowattHours) (\<lambda>_.
              retE \<lparr>fe_timestamp = fe_timestamp memoryFootprint,
                    fe_kilowattHours = kilowattHours,
                    fe_co2e = fe_co2e computeFootprint + fe_co2e memoryFootprint
                              + fe_co2e embodiedEmissions,
                    fe_usesAverageCPUConstant = fe_usesAverageCPUConstant computeFootprint\<rparr>))
      else
        bindE (azure_accumulateE row (fe_kilowattHours computeFootprint)) (\<lambda>_. retE computeFootprint)))"

definition getEstimateByPricingUnit ::
    "azure_env \<Rightarrow> ConsumptionDetailRow \<Rightarrow> emissions_factors \<Rightarrow>
     (azure_globals, FootprintEstimate option) eff" where
  "getEstimateByPricingUnit E row emissionsFactors =
     (if br_usageUnit row \<in> set COMPUTE_USAGE_UNITS then
        bindE (azure_hours_estimate E row emissionsFactors) (\<lambda>e. retE (Some e))
      else if br_usageUnit row \<in> set STORAGE_USAGE_UNITS then
        azure_getStorageFootprintEstimate row azure_getPUE emissionsFactors
      else if br_usageUnit row \<in> set NETWORKING_USAGE_UNITS then
        azure_getNetworkingFootprintEstimate row azure_getPUE emissionsFactors
      else if br_usageUnit row \<in> set MEMORY_USAGE_UNITS then
        bindE (azure_getMemoryFootprintEstimate row azure_getPUE emissionsFactors False)
          (\<lambda>e. retE (Some e))
      else
        retE (Some \<lparr>fe_timestamp = Some (ze_now E), fe_kilowattHours = 0, fe_co2e = 0,
                    fe_usesAverageCPUConstant = Some False\<rparr>))"

definition azure_getFootprintEstimateFromUsageRow ::
    "azure_env \<Rightarrow> ConsumptionDetailRow \<Rightarrow> ConsumptionDetailRow list \<Rightarrow> emissions_factors \<Rightarrow>
     (azure_globals, FootprintEstimate option \<times> ConsumptionDetailRow list) eff" where
  "azure_getFootprintEstimateFromUsageRow E row unknownRows emissionsFactors =
     (if azure_isUnsupportedUsage row then retE (None, unknownRows)
      else if azure_isUnknownUsage row then retE (None, unknownRows @ [row])
      else bindE (getEstimateByPricingUnit E row emissionsFactors) (\<lambda>e. retE (e, unknownRows)))"

definition azure_getEstimateForUnknownUsage ::
    "ConsumptionDetailRow \<Rightarrow> (azure_globals, FootprintEstimate) eff" where
  "azure_getEstimateForUnknownUsage rowData =
     (\<lambda>g. (bindR (UnknownEstimator_estimate azure_ESTIMATE_UNKNOWN_USAGE_BY
              [\<lparr>uu_timestamp = br_timestamp rowData, uu_cost = None,
                uu_usageAmount = Some (br_usageAmount rowData),
                uu_usageUnit = br_usageUnit rowData, uu_service = None\<rparr>]
              (br_region rowData) AZURE_EMISSIONS_FACTORS_METRIC_TON_PER_KWH
              (no_constants\<lparr>cc_kilowattHoursByServiceAndUsageUnit := Some (zg_store g)\<rparr>))
            (\<lambda>es. Inr (hd es)), g))"

section \<open>The loop over the rows\<close>

definition azure_factorsE :: "azure_env \<Rightarrow> string \<Rightarrow> string \<Rightarrow> (azure_globals, emissions_factors) eff" where
  "azure_factorsE E region dateTime =
     (\<lambda>g. let (r, f) = getEmissionsFactors (ze_token E) (ze_http E) region dateTime
                          AZURE_EMISSIONS_FACTORS_METRIC_TON_PER_KWH
                          AZURE_MAPPED_REGIONS_TO_ELECTRICITY_MAPS_ZONES (zg_factors g)
          in (r, g\<lparr>zg_factors := f\<rparr>))"

text \<open>
  The timestamp becomes the start of its period. The moment of an invalid date has no ISO text, so
  that \<open>new Date(null)\<close> would make it the epoch.
\<close>

definition updateTimestampByGrouping ::
    "moment_ops \<Rightarrow> GroupBy \<Rightarrow> ConsumptionDetailRow \<Rightarrow> ConsumptionDetailRow" where
  "updateTimestampByGrouping M grouping row =
     row\<lparr>br_timestamp := Some (case br_timestamp row of
           Some t \<Rightarrow> m_startOf M (AZURE_QUERY_GROUP_BY grouping) t
         | None \<Rightarrow> 0)\<rparr>"

definition azure_read :: "azure_env \<Rightarrow> GroupBy \<Rightarrow> usage_detail \<Rightarrow> ConsumptionDetailRow result" where
  "azure_read E grouping consumptionRow =
     bindR (new_ConsumptionDetailRow (ze_tagNames E) consumptionRow)
       (\<lambda>row. Inr (updateTimestampByGrouping (ze_moment E) grouping row))"

definition azure_step ::
    "azure_env \<Rightarrow> GroupBy \<Rightarrow> EstimationResult list \<times> ConsumptionDetailRow list \<Rightarrow> usage_detail \<Rightarrow>
     (azure_globals, EstimationResult list \<times> ConsumptionDetailRow list) eff" where
  "azure_step E grouping acc consumptionRow =
     bindE (liftE (azure_read E grouping consumptionRow)) (\<lambda>row.
     case br_timestamp row of
       None \<Rightarrow> throwE RangeError
     | Some t \<Rightarrow>
         bindE (azure_factorsE E (br_region row) (toISOString t)) (\<lambda>emissionsFactors.
         bindE (azure_getFootprintEstimateFromUsageRow E row (snd acc) emissionsFactors)
           (\<lambda>(footprintEstimate, unknownRows).
              case footprintEstimate of
                None \<Rightarrow> retE (fst acc, unknownRows)
              | Some e \<Rightarrow>
                  bindE (liftE (appendOrAccumulateEstimatesByDay (ze_moment E) (fst acc) (zx_data row) e
                                  grouping [])) (\<lambda>results.
                    retE (results, unknownRows)))))"

definition azure_unknown_step ::
    "azure_env \<Rightarrow> GroupBy \<Rightarrow> EstimationResult list \<Rightarrow> ConsumptionDetailRow \<Rightarrow>
     (azure_globals, EstimationResult list) eff" where
  "azure_unknown_step E grouping results row =
     bindE (azure_getEstimateForUnknownUsage row) (\<lambda>e.
       liftE (appendOrAccumulateEstimatesByDay (ze_moment E) results (zx_data row) e grouping []))"

text \<open>The details whose date is in the range of the request; an invalid date is in none.\<close>

definition in_range :: "date \<Rightarrow> date \<Rightarrow> usage_detail \<Rightarrow> bool" where
  "in_range startDate endDate u =
     (case ud_date u of None \<Rightarrow> False | Some t \<Rightarrow> startDate \<le> t \<and> t \<le> endDate)"

definition azure_estimates_of_rows ::
    "azure_env \<Rightarrow> date \<Rightarrow> date \<Rightarrow> GroupBy \<Rightarrow> usage_detail list \<Rightarrow> (azure_globals, EstimationResult list) eff" where
  "azure_estimates_of_rows E startDate endDate grouping usageRows =
     bindE (foldE (azure_step E grouping) ([], []) (filter (in_range startDate endDate) usageRows))
       (\<lambda>(results, unknownRows).
          if 0 < length results then foldE (azure_unknown_step E grouping) results unknownRows
          else retE results)"

section \<open>Estimates from input data\<close>

text \<open>
  The region of the input is put inside the meter details, where the row does not look for it: the
  usage detail has no \<open>resourceLocation\<close>.
\<close>

definition azure_input_detail :: "LookupTableInput \<Rightarrow> usage_detail" where
  "azure_input_detail i =
     \<lparr>ud_date = None, ud_quantity = 1, ud_subscriptionName = ''undefined'', ud_resourceLocation = None,
      ud_resourceGroup = None, ud_tags = Some [],
      ud_kind = Legacy [] (Some \<lparr>md_meterName = li_usageType i, md_unitOfMeasure = li_usageUnit i,
                                 md_meterCategory = li_serviceName i\<rparr>) 1\<rparr>"

definition azure_output :: "string \<Rightarrow> string \<Rightarrow> string \<Rightarrow> FootprintEstimate \<Rightarrow> LookupTableOutput" where
  "azure_output serviceName region usageType e =
     \<lparr>lo_serviceName = serviceName, lo_region = region, lo_usageType = usageType, lo_vCpus = None,
      lo_machineType = None, lo_kilowattHours = fe_kilowattHours e, lo_co2e = fe_co2e e\<rparr>"

definition azure_input_step ::
    "azure_env \<Rightarrow> LookupTableOutput list \<times> ConsumptionDetailRow list \<Rightarrow> LookupTableInput \<Rightarrow>
     (azure_globals, LookupTableOutput list \<times> ConsumptionDetailRow list) eff" where
  "azure_input_step E acc i =
     bindE (liftE (new_ConsumptionDetailRow (ze_tagNames E) (azure_input_detail i))) (\<lambda>row.
     bindE (azure_factorsE E (br_region row) (toISOString (ze_now E))) (\<lambda>emissionsFactors.
     bindE (azure_getFootprintEstimateFromUsageRow E row (snd acc) emissionsFactors)
       (\<lambda>(footprintEstimate, unknownRows).
          retE (fst acc @ (case footprintEstimate of
                             None \<Rightarrow> []
                           | Some e \<Rightarrow> [azure_output (li_serviceName i) (li_region i) (li_usageType i) e]),
                unknownRows))))"

definition azure_unknown_input_step ::
    "LookupTableOutput list \<Rightarrow> ConsumptionDetailRow \<Rightarrow> (azure_globals, LookupTableOutput list) eff" where
  "azure_unknown_input_step result row =
     bindE (azure_getEstimateForUnknownUsage row) (\<lambda>e.
       retE (result @ [azure_output (br_serviceName row) (br_region row) (br_usageType row) e]))"

definition azure_unknown_lookups ::
    "LookupTableOutput list \<times> ConsumptionDetailRow list \<Rightarrow> (azure_globals, LookupTableOutput list) eff" where
  "azure_unknown_lookups acc =
     (if 0 < length (fst acc) then foldE azure_unknown_input_step (fst acc) (snd acc) else retE (fst acc))"

definition azure_getEstimatesFromInputData ::
    "azure_env \<Rightarrow> LookupTableInput list \<Rightarrow> (azure_globals, LookupTableOutput list) eff" where
  "azure_getEstimatesFromInputData E inputData =
     bindE (foldE (azure_input_step E) ([], []) inputData) azure_unknown_lookups"

end
