(* ===== verification/Azure_Query.thy ===== *)
theory Azure_Query
  imports Azure_Billing "HOL-Library.Multiset"
begin

text \<open>
  \<open>packages/azure/src/lib/ConsumptionManagement.ts\<close>: how the usage details of a subscription are
  fetched. Every request is tried again while the rate limit is exceeded, eleven times at most, and
  a time range may be requested in chunks of days. The client of the consumption API is a
  parameter; its answer to a request may differ from one attempt to the next.
\<close>

section \<open>Requests\<close>

text \<open>The bounds of a request, and the text of its filter.\<close>

record usage_window =
  uw_start :: date
  uw_end :: date
  uw_includeStart :: bool
  uw_includeEnd :: bool

definition usage_filter :: "usage_window \<Rightarrow> string" where
  "usage_filter w =
     ''properties/usageStart '' @ (if uw_includeStart w then ''ge'' else ''gt'') @ '' '' @ apos
     @ toISOString (uw_start w) @ apos @ '' AND properties/usageEnd ''
     @ (if uw_includeEnd w then ''le'' else ''lt'') @ '' '' @ apos @ toISOString (uw_end w) @ apos"

text \<open>
  An error of the client has a response with the headers for the seconds to wait and the requests
  that remain, or it has no response at all.
\<close>

datatype usage_error =
    ResponseError "jsnum option" "jsnum option" string
  | OtherError string

text \<open>
  The iterator that \<open>usageDetails.list\<close> returns: the values that \<open>next\<close> yields, after which it is
  done or throws.
\<close>

type_synonym usage_iterator = "usage_detail list \<times> usage_error option"

record consumption_client =
  cm_subscriptionId :: string
  cm_list :: "string \<Rightarrow> usage_window \<Rightarrow> nat \<Rightarrow> usage_iterator"

fun pageThroughUsageRows ::
    "usage_iterator \<Rightarrow> usage_detail list \<Rightarrow> usage_error + usage_detail list" where
  "pageThroughUsageRows ([], None) usageRowDetails = Inr usageRowDetails"
| "pageThroughUsageRows ([], Some e) usageRowDetails = Inl e"
| "pageThroughUsageRows (row # rows, end_of) usageRowDetails =
     pageThroughUsageRows (rows, end_of) (usageRowDetails @ [row])"

text \<open>Waiting is a step without effect; an error without a response has no headers to read.\<close>

definition waitIfRateLimitExceeded :: "usage_error \<Rightarrow> string \<Rightarrow> unit result" where
  "waitIfRateLimitExceeded errorResponse errorMsg =
     (case errorResponse of
        OtherError message \<Rightarrow> Inl TypeError
      | ResponseError retryAfter rateLimitRemaining message \<Rightarrow>
          if rateLimitRemaining = Some 0 then Inr ()
          else Inl (Thrown (errorMsg @ '' '' @ message)))"

definition maxRetries :: nat where
  "maxRetries = 10"

text \<open>The tries that are left and the number of the attempt.\<close>

fun query_tries ::
    "(nat \<Rightarrow> usage_iterator) \<Rightarrow> string \<Rightarrow> nat \<Rightarrow> nat \<Rightarrow> usage_detail list result" where
  "query_tries listing errorMsg 0 currentTry =
     Inl (Thrown (errorMsg @ '' max retries of 10 exceeded, consider setting a smaller chunk size using ''
                  @ ''AZURE_CONSUMPTION_CHUNKS_DAYS''))"
| "query_tries listing errorMsg (Suc tries) currentTry =
     (case pageThroughUsageRows (listing currentTry) [] of
        Inr rows \<Rightarrow> Inr rows
      | Inl e \<Rightarrow> bindR (waitIfRateLimitExceeded e errorMsg)
                    (\<lambda>_. query_tries listing errorMsg tries (Suc currentTry)))"

definition chunked :: "azure_env \<Rightarrow> bool" where
  "chunked E \<longleftrightarrow> (case ze_chunkDays E of None \<Rightarrow> False | Some d \<Rightarrow> d \<noteq> 0)"

definition query_error :: "azure_env \<Rightarrow> date \<Rightarrow> date \<Rightarrow> string" where
  "query_error E startDate endDate =
     ''Azure ConsumptionManagementClient UsageDetailRow '' @ (if chunked E then ''paging'' else ''query'')
     @ '' for time range '' @ toISOString startDate @ '' to '' @ toISOString endDate @ '' failed. Reason:''"

definition queryConsumptionUsageDetails ::
    "azure_env \<Rightarrow> consumption_client \<Rightarrow> usage_window \<Rightarrow> usage_detail list result" where
  "queryConsumptionUsageDetails E client w =
     query_tries (cm_list client (''/subscriptions/'' @ cm_subscriptionId client @ ''/'') w)
       (query_error E (uw_start w) (uw_end w)) (Suc maxRetries) 0"

section \<open>Chunks\<close>

definition chunk_window :: "int \<Rightarrow> date \<Rightarrow> date \<Rightarrow> bool \<Rightarrow> usage_window" where
  "chunk_window stepMs endDate currentStartDate isLast =
     (let currentEndDate = min (currentStartDate + stepMs) endDate in
      \<lparr>uw_start = currentStartDate,
       uw_end = (if isLast then currentEndDate else currentEndDate - 1),
       uw_includeStart = True,
       uw_includeEnd = isLast\<rparr>)"

partial_function (option) chunks_loop ::
    "(usage_window \<Rightarrow> usage_detail list result) \<Rightarrow> int \<Rightarrow> date \<Rightarrow> date \<Rightarrow> bool \<Rightarrow> usage_detail list \<Rightarrow>
     usage_detail list result option" where
  "chunks_loop query stepMs endDate currentStartDate isLast result =
     (if currentStartDate \<le> endDate then
        (let isLast' = (isLast \<or> endDate \<le> min (currentStartDate + stepMs) endDate) in
         case query (chunk_window stepMs endDate currentStartDate isLast') of
           Inl e \<Rightarrow> Some (Inl e)
         | Inr usageRowDetails \<Rightarrow>
             chunks_loop query stepMs endDate (currentStartDate + stepMs) isLast'
               (result @ usageRowDetails))
      else Some (Inr result))"

definition day_ms :: int where
  "day_ms = 24 * 60 * 60 * 1000"

definition getConsumptionUsageDetails ::
    "azure_env \<Rightarrow> consumption_client \<Rightarrow> date \<Rightarrow> date \<Rightarrow> usage_detail list result option" where
  "getConsumptionUsageDetails E client startDate endDate =
     (if \<not> chunked E then
        Some (queryConsumptionUsageDetails E client
                \<lparr>uw_start = startDate, uw_end = endDate, uw_includeStart = True, uw_includeEnd = True\<rparr>)
      else
        chunks_loop (queryConsumptionUsageDetails E client) (the (ze_chunkDays E) * day_ms) endDate
          startDate False [])"

definition ConsumptionManagement_getEstimates ::
    "azure_env \<Rightarrow> consumption_client \<Rightarrow> date \<Rightarrow> date \<Rightarrow> GroupBy \<Rightarrow>
     (azure_globals, EstimationResult list) act" where
  "ConsumptionManagement_getEstimates E client startDate endDate grouping =
     (\<lambda>g. case getConsumptionUsageDetails E client startDate endDate of
            None \<Rightarrow> None
          | Some (Inl e) \<Rightarrow> Some (Inl e, g)
          | Some (Inr usageRows) \<Rightarrow>
              Some (azure_estimates_of_rows E startDate endDate grouping usageRows g))"

section \<open>Facts on requests\<close>

lemma pageThrough_eq:
  "pageThroughUsageRows (rows, e) acc = (case e of None \<Rightarrow> Inr (acc @ rows) | Some er \<Rightarrow> Inl er)"
  by (induction "(rows, e)" acc arbitrary: rows rule: pageThroughUsageRows.induct)
    (auto split: option.splits)

definition rate_limited :: "usage_iterator \<Rightarrow> bool" where
  "rate_limited it \<longleftrightarrow> (\<exists>retry message. snd it = Some (ResponseError retry (Some 0) message))"

lemma query_tries_limited:
  "rate_limited (listing n) \<Longrightarrow>
   query_tries listing msg (Suc k) n = query_tries listing msg k (Suc n)"
  by (cases "listing n") (auto simp: rate_limited_def pageThrough_eq waitIfRateLimitExceeded_def)

lemma query_tries_skip:
  "(\<And>i. n \<le> i \<Longrightarrow> i < n + j \<Longrightarrow> rate_limited (listing i)) \<Longrightarrow>
   query_tries listing msg (j + k) n = query_tries listing msg k (n + j)"
proof (induction j arbitrary: n)
  case 0
  then show ?case by simp
next
  case (Suc j)
  then have "query_tries listing msg (Suc (j + k)) n = query_tries listing msg (j + k) (Suc n)"
    by (intro query_tries_limited) simp
  also have "\<dots> = query_tries listing msg k (Suc n + j)"
    using Suc.prems by (intro Suc.IH) simp
  finally show ?case by simp
qed

section \<open>Facts on chunks\<close>

text \<open>The requests of a chunked query with a positive step.\<close>

function chunk_windows :: "int \<Rightarrow> date \<Rightarrow> date \<Rightarrow> usage_window list" where
  "chunk_windows stepMs endDate start =
     (if 0 < stepMs \<and> start \<le> endDate
      then chunk_window stepMs endDate start (endDate \<le> start + stepMs)
             # chunk_windows stepMs endDate (start + stepMs)
      else [])"
  by pat_completeness auto
termination by (relation "measure (\<lambda>(step, e, s). nat (e - s + 1))") auto

declare chunk_windows.simps [simp del]

lemma chunks_loop_eq:
  assumes "0 < stepMs" and "isLast \<longrightarrow> endDate \<le> start"
  shows "chunks_loop query stepMs endDate start isLast result =
    Some (bindR (mapR query (chunk_windows stepMs endDate start)) (\<lambda>rss. Inr (result @ concat rss)))"
  using assms
proof (induction stepMs endDate start arbitrary: isLast result rule: chunk_windows.induct)
  case (1 stepMs endDate start)
  show ?case
  proof (cases "start \<le> endDate")
    case False
    then show ?thesis by (simp add: chunks_loop.simps chunk_windows.simps [of stepMs endDate start])
  next
    case True
    have isLast: "(isLast \<or> endDate \<le> start + stepMs) = (endDate \<le> start + stepMs)"
      using "1.prems" True by auto
    let ?w = "chunk_window stepMs endDate start (endDate \<le> start + stepMs)"
    show ?thesis
    proof (cases "query ?w")
      case (Inl e)
      then show ?thesis
        using True "1.prems"(1) by (simp add: chunks_loop.simps [of query stepMs endDate start] isLast Let_def
            chunk_windows.simps [of stepMs endDate start])
    next
      case (Inr rows)
      have "chunks_loop query stepMs endDate (start + stepMs) (endDate \<le> start + stepMs) (result @ rows) =
          Some (bindR (mapR query (chunk_windows stepMs endDate (start + stepMs)))
            (\<lambda>rss. Inr ((result @ rows) @ concat rss)))"
        using True "1.prems"(1) by (intro "1.IH") auto
      then show ?thesis
        using True "1.prems"(1) Inr by (simp add: chunks_loop.simps [of query stepMs endDate start] isLast
            Let_def chunk_windows.simps [of stepMs endDate start] bindR_assoc)
    qed
  qed
qed

text \<open>When a usage from \<open>a\<close> to \<open>b\<close> passes the filter of a request.\<close>

definition in_window :: "date \<Rightarrow> date \<Rightarrow> usage_window \<Rightarrow> bool" where
  "in_window a b w \<longleftrightarrow>
     (if uw_includeStart w then uw_start w \<le> a else uw_start w < a)
     \<and> (if uw_includeEnd w then b \<le> uw_end w else b < uw_end w)"

lemma chunk_windows_later:
  "w \<in> set (chunk_windows stepMs endDate start) \<Longrightarrow> start \<le> uw_start w"
proof (induction stepMs endDate start rule: chunk_windows.induct)
  case (1 stepMs endDate start)
  then show ?case
    by (auto simp: chunk_windows.simps [of stepMs endDate start] chunk_window_def Let_def
        split: if_splits)
qed

text \<open>A usage within one chunk passes exactly one filter.\<close>

lemma chunk_accepts_once:
  assumes "0 < stepMs" and "start \<le> a" and "a \<le> b" and "b < endDate"
    and "(a - start) div stepMs = (b - start) div stepMs" and "(b - start) mod stepMs < stepMs - 1"
  shows "length (filter (in_window a b) (chunk_windows stepMs endDate start)) = 1"
  using assms
proof (induction stepMs endDate start rule: chunk_windows.induct)
  case (1 stepMs endDate start)
  let ?w = "chunk_window stepMs endDate start (endDate \<le> start + stepMs)"
  have unfold: "chunk_windows stepMs endDate start = ?w # chunk_windows stepMs endDate (start + stepMs)"
    using "1.prems" by (simp add: chunk_windows.simps [of stepMs endDate start])
  show ?case
  proof (cases "a < start + stepMs")
    case True
    then have "(a - start) div stepMs = 0" using "1.prems"(2) by simp
    with "1.prems"(5) have d: "(b - start) div stepMs = 0" by simp
    with "1.prems"(6) have b: "b - start < stepMs - 1"
      by (metis add.left_neutral div_mult_mod_eq mult_zero_left)
    have "in_window a b ?w"
      using "1.prems" b by (auto simp: in_window_def chunk_window_def Let_def)
    moreover have "\<not> in_window a b w" if "w \<in> set (chunk_windows stepMs endDate (start + stepMs))" for w
      using chunk_windows_later [OF that] True by (auto simp: in_window_def split: if_splits)
    ultimately show ?thesis unfolding unfold by (simp add: filter_empty_conv)
  next
    case False
    have shift: "(x - start) div stepMs = (x - (start + stepMs)) div stepMs + 1"
      "(x - start) mod stepMs = (x - (start + stepMs)) mod stepMs" for x
      using "1.prems"(1) div_add_self2 [of stepMs "x - (start + stepMs)"]
        mod_add_self2 [of "x - (start + stepMs)" stepMs] by (simp_all add: algebra_simps)
    have "\<not> in_window a b ?w"
      using False "1.prems"(3,4) by (auto simp: in_window_def chunk_window_def Let_def)
    moreover have "length (filter (in_window a b) (chunk_windows stepMs endDate (start + stepMs))) = 1"
      using "1.prems" False shift by (intro "1.IH") auto
    ultimately show ?thesis unfolding unfold by simp
  qed
qed

text \<open>A usage that starts in one chunk and ends in a later one passes no filter.\<close>

lemma chunk_loses_straddling:
  assumes "0 < stepMs" and "start \<le> a" and "b < endDate"
    and "(a - start) div stepMs < (b - start) div stepMs"
    and "w \<in> set (chunk_windows stepMs endDate start)"
  shows "\<not> in_window a b w"
  using assms
proof (induction stepMs endDate start rule: chunk_windows.induct)
  case (1 stepMs endDate start)
  let ?w = "chunk_window stepMs endDate start (endDate \<le> start + stepMs)"
  have "(0::int) \<le> (a - start) div stepMs" using "1.prems"(1,2) by (simp add: pos_imp_zdiv_nonneg_iff)
  with "1.prems"(4) have "1 \<le> (b - start) div stepMs" by linarith
  then have b: "start + stepMs \<le> b"
    using "1.prems"(1) by (metis add.commute diff_le_eq div_by_1 div_self less_irrefl mult.right_neutral
        not_less zdiv_mono1 pos_imp_zdiv_pos_iff diff_add_cancel le_diff_eq linorder_le_less_linear
        order_less_le_trans zero_less_one)
  from "1.prems"(5) consider "w = ?w" | "w \<in> set (chunk_windows stepMs endDate (start + stepMs))"
    by (auto simp: chunk_windows.simps [of stepMs endDate start] split: if_splits)
  then show ?case
  proof cases
    case 1
    then show ?thesis
      using b "1.prems"(3) by (auto simp: in_window_def chunk_window_def Let_def)
  next
    case 2
    show ?thesis
    proof (cases "start + stepMs \<le> a")
      case False
      then show ?thesis
        using chunk_windows_later [OF 2] by (auto simp: in_window_def split: if_splits)
    next
      case True
      have shift: "(x - start) div stepMs = (x - (start + stepMs)) div stepMs + 1" for x
        using "1.prems"(1) div_add_self2 [of stepMs "x - (start + stepMs)"] by (simp add: algebra_simps)
      show ?thesis
        using "1.prems" True 2 shift by (intro "1.IH") (auto simp: chunk_windows.simps [of stepMs endDate start])
    qed
  qed
qed

section \<open>What an answering client returns\<close>

lemma mset_concat_filters:
  "\<forall>u\<in>set us. length (filter (\<lambda>w. P w u) ws) = 1 \<Longrightarrow>
   mset (concat (map (\<lambda>w. filter (P w) us) ws)) = mset us"
proof (induction us)
  case Nil
  then show ?case by (induction ws) auto
next
  case (Cons u us)
  have "mset (concat (map (\<lambda>w. filter (P w) (u # us)) ws))
      = replicate_mset (length (filter (\<lambda>w. P w u) ws)) u + mset (concat (map (\<lambda>w. filter (P w) us) ws))"
    by (induction ws) simp_all
  with Cons show ?case by simp
qed

text \<open>
  The API answers a request with the usages that pass its filter. When they start and end is not part
  of what the program reads.
\<close>

definition serves ::
    "consumption_client \<Rightarrow> (usage_detail \<Rightarrow> date) \<Rightarrow> (usage_detail \<Rightarrow> date) \<Rightarrow> usage_detail list \<Rightarrow> bool" where
  "serves client usageStart usageEnd usages \<longleftrightarrow>
     (\<forall>w n. cm_list client (''/subscriptions/'' @ cm_subscriptionId client @ ''/'') w n
            = (filter (\<lambda>u. in_window (usageStart u) (usageEnd u) w) usages, None))"

lemma query_serves:
  "serves client usageStart usageEnd usages \<Longrightarrow>
   queryConsumptionUsageDetails E client w = Inr (filter (\<lambda>u. in_window (usageStart u) (usageEnd u) w) usages)"
  by (simp add: queryConsumptionUsageDetails_def serves_def pageThrough_eq)

lemma mapR_Inr: "mapR (\<lambda>x. Inr (f x)) xs = Inr (map f xs)"
  by (induction xs) simp_all

lemma chunked_serves:
  assumes "serves client usageStart usageEnd usages" and "ze_chunkDays E = Some days" and "0 < days"
  shows "getConsumptionUsageDetails E client startDate endDate =
    Some (Inr (concat (map (\<lambda>w. filter (\<lambda>u. in_window (usageStart u) (usageEnd u) w) usages)
      (chunk_windows (days * day_ms) endDate startDate))))"
proof -
  have "queryConsumptionUsageDetails E client
      = (\<lambda>w. Inr (filter (\<lambda>u. in_window (usageStart u) (usageEnd u) w) usages))"
    by (rule ext) (rule query_serves [OF assms(1)])
  moreover have "0 < days * day_ms" using assms(3) by (simp add: day_ms_def)
  ultimately show ?thesis
    using assms(2,3) by (simp add: getConsumptionUsageDetails_def chunked_def chunks_loop_eq mapR_Inr)
qed

text \<open>A usage within one chunk: it starts in it and ends before its last millisecond.\<close>

definition within_chunk :: "int \<Rightarrow> date \<Rightarrow> date \<Rightarrow> date \<Rightarrow> date \<Rightarrow> bool" where
  "within_chunk stepMs startDate endDate a b \<longleftrightarrow>
     startDate \<le> a \<and> a \<le> b \<and> b < endDate \<and> (a - startDate) div stepMs = (b - startDate) div stepMs
     \<and> (b - startDate) mod stepMs < stepMs - 1"

text \<open>What the first attempt that is not rate limited decides.\<close>

definition attempt_outcome :: "string \<Rightarrow> usage_iterator \<Rightarrow> usage_detail list result" where
  "attempt_outcome errorMsg it =
     (case snd it of
        None \<Rightarrow> Inr (fst it)
      | Some (OtherError message) \<Rightarrow> Inl TypeError
      | Some (ResponseError retryAfter remaining message) \<Rightarrow> Inl (Thrown (errorMsg @ '' '' @ message)))"

lemma query_tries_eq:
  "query_tries listing msg k n =
     (case find (\<lambda>i. \<not> rate_limited (listing i)) [n..<n + k] of
        Some i \<Rightarrow> attempt_outcome msg (listing i)
      | None \<Rightarrow> query_tries listing msg 0 (n + k))"
proof (induction k arbitrary: n)
  case 0
  then show ?case by simp
next
  case (Suc k)
  have upt: "[n..<n + Suc k] = n # [Suc n..<Suc n + k]" by (simp add: upt_conv_Cons)
  show ?case
  proof (cases "rate_limited (listing n)")
    case True
    show ?thesis
      unfolding upt query_tries_limited [of listing n msg k, OF True] Suc [of "Suc n"]
      by (simp only: find.simps True not_True_eq_False if_False add_Suc_right add_Suc)
  next
    case False
    have "query_tries listing msg (Suc k) n = attempt_outcome msg (listing n)"
      using False by (cases "listing n")
        (auto simp: rate_limited_def attempt_outcome_def pageThrough_eq waitIfRateLimitExceeded_def
          split: option.splits usage_error.splits)
    with False show ?thesis by (simp only: upt find.simps) simp
  qed
qed

end
