(* ===== verification/Azure_Totals.thy ===== *)
theory Azure_Totals
  imports Azure_Query
begin

text \<open>
  What the loop over the usage details computes: the estimate and the energy of a row as a function
  of the row and its emissions factors, and the contract of the readers of billing data.
\<close>

section \<open>The outcome of a row\<close>

definition azure_deferred :: "ConsumptionDetailRow \<Rightarrow> bool" where
  "azure_deferred row \<longleftrightarrow> \<not> azure_isUnsupportedUsage row \<and> azure_isUnknownUsage row"

definition azure_estimated :: "ConsumptionDetailRow \<Rightarrow> bool" where
  "azure_estimated row \<longleftrightarrow>
     \<not> azure_isUnsupportedUsage row \<and> \<not> azure_isUnknownUsage row
     \<and> (if br_usageUnit row \<in> set COMPUTE_USAGE_UNITS then True
        else if br_usageUnit row \<in> set STORAGE_USAGE_UNITS then isSSDStorage row \<or> isHDDStorage row
        else if br_usageUnit row \<in> set NETWORKING_USAGE_UNITS then azure_isNetworkingUsage row
        else True)"

definition with_kwh :: "FootprintEstimate option \<Rightarrow> FootprintEstimate option \<times> jsnum option" where
  "with_kwh e = (e, map_option fe_kilowattHours e)"

definition azure_hours_outcome ::
    "azure_env \<Rightarrow> ConsumptionDetailRow \<Rightarrow> emissions_factors \<Rightarrow> FootprintEstimate \<times> jsnum option" where
  "azure_hours_outcome E row ef =
     (let c = azure_getComputeFootprintEstimate E row azure_getPUE ef;
          m = azure_memory_estimate row azure_getPUE ef;
          e = azure_getEmbodiedEmissions E row ef;
          kwh = fe_kilowattHours c + fe_kilowattHours m + fe_kilowattHours e
      in if azure_isMemoryUsage (br_usageType row) then (m, None)
         else if truthy (fe_kilowattHours m) \<or> truthy (fe_co2e e) then
           (\<lparr>fe_timestamp = fe_timestamp m, fe_kilowattHours = kwh,
             fe_co2e = fe_co2e c + fe_co2e m + fe_co2e e,
             fe_usesAverageCPUConstant = fe_usesAverageCPUConstant c\<rparr>, Some kwh)
         else (c, Some (fe_kilowattHours c)))"

definition azure_outcome :: "azure_env \<Rightarrow> ConsumptionDetailRow outcome" where
  "azure_outcome E row ef =
     (if azure_isUnsupportedUsage row \<or> azure_isUnknownUsage row then (None, None)
      else if br_usageUnit row \<in> set COMPUTE_USAGE_UNITS then
        (Some (fst (azure_hours_outcome E row ef)), snd (azure_hours_outcome E row ef))
      else if br_usageUnit row \<in> set STORAGE_USAGE_UNITS then
        with_kwh (azure_storage_estimate row azure_getPUE ef)
      else if br_usageUnit row \<in> set NETWORKING_USAGE_UNITS then
        with_kwh (azure_networking_estimate row azure_getPUE ef)
      else if br_usageUnit row \<in> set MEMORY_USAGE_UNITS then
        with_kwh (Some (azure_memory_estimate row azure_getPUE ef))
      else
        (Some \<lparr>fe_timestamp = Some (ze_now E), fe_kilowattHours = 0, fe_co2e = 0,
               fe_usesAverageCPUConstant = Some False\<rparr>, None))"

definition azure_unknown_energy :: "kwh_store \<Rightarrow> ConsumptionDetailRow \<Rightarrow> jsnum" where
  "azure_unknown_energy store row =
     (case unit_totals store (br_usageUnit row) of
        None \<Rightarrow> 0
      | Some t \<Rightarrow> (kt_kilowattHours t / toNum (kt_usageAmount t)) * br_usageAmount row)"

definition azure_unknown_estimate :: "kwh_store \<Rightarrow> ConsumptionDetailRow \<Rightarrow> FootprintEstimate" where
  "azure_unknown_estimate store row =
     \<lparr>fe_timestamp = br_timestamp row,
      fe_kilowattHours = azure_unknown_energy store row,
      fe_co2e = estimateCo2 (azure_unknown_energy store row) (br_region row)
                  AZURE_EMISSIONS_FACTORS_METRIC_TON_PER_KWH,
      fe_usesAverageCPUConstant = Some False\<rparr>"

section \<open>The contract\<close>

lemma azure_accumulate_charges:
  "charges AK_USAGE_AMOUNT zg_store (zx_data row) (bindE (azure_accumulateE row k) (\<lambda>_. retE x)) x (Some k)"
  by (rule charges_accumulate [where upd = "\<lambda>st g. g\<lparr>zg_store := st\<rparr>"])
    (simp_all add: azure_accumulateE_def)

lemma azure_hours_charges:
  "charges AK_USAGE_AMOUNT zg_store (zx_data row) (azure_hours_estimate E row ef)
     (fst (azure_hours_outcome E row ef)) (snd (azure_hours_outcome E row ef))"
  by (auto simp: azure_hours_estimate_def azure_hours_outcome_def azure_getMemoryFootprintEstimate_def
      Let_def intro!: charges_ret azure_accumulate_charges)

lemma azure_storage_charges:
  "charges AK_USAGE_AMOUNT zg_store (zx_data row) (azure_getStorageFootprintEstimate row pue ef)
     (fst (with_kwh (azure_storage_estimate row pue ef))) (snd (with_kwh (azure_storage_estimate row pue ef)))"
  by (cases "azure_storage_estimate row pue ef")
    (auto simp: azure_getStorageFootprintEstimate_def with_kwh_def intro: charges_ret azure_accumulate_charges)

lemma azure_networking_charges:
  "charges AK_USAGE_AMOUNT zg_store (zx_data row) (azure_getNetworkingFootprintEstimate row pue ef)
     (fst (with_kwh (azure_networking_estimate row pue ef)))
     (snd (with_kwh (azure_networking_estimate row pue ef)))"
  by (cases "azure_networking_estimate row pue ef")
    (auto simp: azure_getNetworkingFootprintEstimate_def with_kwh_def
      intro: charges_ret azure_accumulate_charges)

lemma azure_memory_charges:
  "charges AK_USAGE_AMOUNT zg_store (zx_data row) (azure_getMemoryFootprintEstimate row pue ef False)
     (azure_memory_estimate row pue ef) (Some (fe_kilowattHours (azure_memory_estimate row pue ef)))"
  by (auto simp: azure_getMemoryFootprintEstimate_def Let_def intro: azure_accumulate_charges)

lemma pricing_unit_charges:
  assumes "\<not> azure_isUnsupportedUsage row" and "\<not> azure_isUnknownUsage row"
  shows "charges AK_USAGE_AMOUNT zg_store (zx_data row) (getEstimateByPricingUnit E row ef)
    (fst (azure_outcome E row ef)) (snd (azure_outcome E row ef))"
proof -
  note unit = getEstimateByPricingUnit_def azure_outcome_def assms
  consider "br_usageUnit row \<in> set COMPUTE_USAGE_UNITS"
    | "br_usageUnit row \<notin> set COMPUTE_USAGE_UNITS" "br_usageUnit row \<in> set STORAGE_USAGE_UNITS"
    | "br_usageUnit row \<notin> set COMPUTE_USAGE_UNITS" "br_usageUnit row \<notin> set STORAGE_USAGE_UNITS"
      "br_usageUnit row \<in> set NETWORKING_USAGE_UNITS"
    | "br_usageUnit row \<notin> set COMPUTE_USAGE_UNITS" "br_usageUnit row \<notin> set STORAGE_USAGE_UNITS"
      "br_usageUnit row \<notin> set NETWORKING_USAGE_UNITS" by blast
  then show ?thesis
  proof cases
    case 1
    then show ?thesis using charges_map [OF azure_hours_charges, where f = Some] by (simp add: unit)
  next
    case 2
    then show ?thesis using azure_storage_charges by (simp add: unit)
  next
    case 3
    then show ?thesis using azure_networking_charges by (simp add: unit)
  next
    case 4
    then show ?thesis
      using charges_map [OF azure_memory_charges, where f = Some]
      by (auto simp: unit with_kwh_def intro: charges_ret)
  qed
qed

lemma azure_row_charges:
  "charges AK_USAGE_AMOUNT zg_store (zx_data row) (azure_getFootprintEstimateFromUsageRow E row us ef)
     (fst (azure_outcome E row ef), if azure_deferred row then us @ [row] else us)
     (snd (azure_outcome E row ef))"
proof (cases "azure_isUnsupportedUsage row \<or> azure_isUnknownUsage row")
  case True
  then show ?thesis
    by (auto simp: azure_getFootprintEstimateFromUsageRow_def azure_outcome_def azure_deferred_def
        intro!: charges_ret)
next
  case False
  then have "charges AK_USAGE_AMOUNT zg_store (zx_data row)
      (bindE (getEstimateByPricingUnit E row ef) (\<lambda>e. retE (e, us)))
      (fst (azure_outcome E row ef), us) (snd (azure_outcome E row ef))"
    using charges_map [OF pricing_unit_charges, where f = "\<lambda>e. (e, us)"] by simp
  with False show ?thesis
    by (simp add: azure_getFootprintEstimateFromUsageRow_def azure_deferred_def)
qed

lemma azure_outcome_Some: "(fst (azure_outcome E row ef) \<noteq> None) = azure_estimated row"
  by (auto simp: azure_outcome_def azure_estimated_def with_kwh_def azure_storage_estimate_def
      azure_networking_estimate_def Let_def)

lemma azure_unknown_eq:
  assumes "obj_get (zg_store g) ''total'' \<noteq> None"
  shows "azure_getEstimateForUnknownUsage row g = (Inr (azure_unknown_estimate (zg_store g) row), g)"
  using assms
  by (auto simp: azure_getEstimateForUnknownUsage_def UnknownEstimator_estimate_def no_constants_def
      unknown_estimateKilowattHours_def azure_unknown_estimate_def azure_unknown_energy_def unit_totals_def
      units_of_def proportional_def azure_ESTIMATE_UNKNOWN_USAGE_BY_def split: option.splits)

text \<open>Only a legacy detail without its meter cannot be read.\<close>

definition azure_readable :: "usage_detail \<Rightarrow> bool" where
  "azure_readable u \<longleftrightarrow> (case ud_kind u of Legacy i meter cost \<Rightarrow> meter \<noteq> None | Modern i m c \<Rightarrow> True)"

lemma azure_readable_reads:
  assumes "azure_readable u"
  shows "\<exists>row. azure_read E grouping u = Inr row \<and> br_timestamp (zx_data row) \<noteq> None
    \<and> br_tags (zx_data row) \<noteq> None"
proof -
  from assms obtain i m c where "consumption_details (ud_kind u) = Inr (i, m, c)"
    by (cases "ud_kind u") (auto simp: azure_readable_def)
  then obtain row where row: "new_ConsumptionDetailRow (ze_tagNames E) u = Inr row"
    by (simp add: new_ConsumptionDetailRow_def Let_def)
  then show ?thesis
    using new_consumption_row_fields [OF row] by (simp add: azure_read_def updateTimestampByGrouping_def)
qed

interpretation azure_report: total_billing_reader "ze_moment E" grouping "[]" AK_USAGE_AMOUNT zg_store
  "azure_read E grouping" zx_data azure_estimated azure_deferred "azure_outcome E" azure_unknown_estimate
  "azure_factorsE E" "azure_getFootprintEstimateFromUsageRow E" azure_getEstimateForUnknownUsage
  azure_readable "ze_token E = []"
  for E grouping
proof unfold_locales
  fix region d ef and g g' :: azure_globals
  assume "azure_factorsE E region d g = (Inr ef, g')"
  then show "zg_store g' = zg_store g" by (auto simp: azure_factorsE_def Let_def split: prod.splits)
next
  fix row us ef
  show "charges AK_USAGE_AMOUNT zg_store (zx_data row) (azure_getFootprintEstimateFromUsageRow E row us ef)
    (fst (azure_outcome E row ef), if azure_deferred row then us @ [row] else us) (snd (azure_outcome E row ef))"
    by (rule azure_row_charges)
next
  fix row ef
  show "(fst (azure_outcome E row ef) \<noteq> None) = azure_estimated row" by (rule azure_outcome_Some)
next
  fix row and g :: azure_globals
  assume "obj_get (zg_store g) ''total'' \<noteq> None"
  then show "azure_getEstimateForUnknownUsage row g = (Inr (azure_unknown_estimate (zg_store g) row), g)"
    by (rule azure_unknown_eq)
next
  fix x
  assume "azure_readable x"
  then show "\<exists>row. azure_read E grouping x = Inr row \<and> br_timestamp (zx_data row) \<noteq> None
      \<and> br_tags (zx_data row) \<noteq> None" by (rule azure_readable_reads)
next
  fix region d and g :: azure_globals
  assume "ze_token E = []"
  then show "\<exists>ef g'. azure_factorsE E region d g = (Inr ef, g')"
    by (simp add: azure_factorsE_def getEmissionsFactors_def split: option.splits)
qed

section \<open>What a run computes\<close>

lemma azure_step_turn:
  "azure_step E grouping = turn (ze_moment E) grouping [] (azure_read E grouping) zx_data
     (azure_factorsE E) (azure_getFootprintEstimateFromUsageRow E)"
  by (intro ext) (simp add: azure_step_def turn_def cong: option.case_cong)

lemma azure_unknown_step_turn:
  "azure_unknown_step E grouping =
     unknown_turn (ze_moment E) grouping [] zx_data azure_getEstimateForUnknownUsage"
  by (intro ext) (simp add: azure_unknown_step_def unknown_turn_def)

lemma azure_estimates_run:
  "azure_estimates_of_rows E startDate endDate grouping usageRows =
     run_report (turn (ze_moment E) grouping [] (azure_read E grouping) zx_data
       (azure_factorsE E) (azure_getFootprintEstimateFromUsageRow E))
       (unknown_turn (ze_moment E) grouping [] zx_data azure_getEstimateForUnknownUsage)
       (filter (in_range startDate endDate) usageRows)"
  unfolding azure_estimates_of_rows_def run_report_def azure_step_turn azure_unknown_step_turn ..

definition azure_counted_rows :: "ConsumptionDetailRow list \<Rightarrow> ConsumptionDetailRow list" where
  "azure_counted_rows rows = rows_counted azure_estimated azure_deferred rows"

lemma azure_report_cost:
  assumes "azure_estimates_of_rows E startDate endDate grouping usageRows g = (Inr rs, g')"
    and "obj_get (zg_store g) ''total'' \<noteq> None"
  shows "\<exists>rows. mapR (azure_read E grouping) (filter (in_range startDate endDate) usageRows) = Inr rows
    \<and> er_total sd_cost rs = sum_list (map br_cost (azure_counted_rows rows))"
  using azure_report.cost_of_counted [OF assms [unfolded azure_estimates_run]]
  by (simp add: azure_counted_rows_def)

lemma azure_report_groups:
  assumes "azure_estimates_of_rows E startDate endDate grouping usageRows g = (Inr rs, g')"
    and "obj_get (zg_store g) ''total'' \<noteq> None"
  shows "results_ok [] rs"
  using assms [unfolded azure_estimates_run] by (rule azure_report.groups_unique)

lemma azure_report_returns:
  assumes "ze_token E = []" and "\<forall>u\<in>set (filter (in_range startDate endDate) usageRows). azure_readable u"
    and "obj_get (zg_store g) ''total'' \<noteq> None"
  shows "\<exists>rs g'. azure_estimates_of_rows E startDate endDate grouping usageRows g = (Inr rs, g')"
  unfolding azure_estimates_run using assms(2,3,1) by (rule azure_report.run_returns)

lemma azure_report_keeps_total:
  assumes "ze_token E = []" and "obj_get (zg_store g) ''total'' \<noteq> None"
  shows "obj_get (zg_store (snd (azure_estimates_of_rows E startDate endDate grouping usageRows g))) ''total''
    \<noteq> None"
  unfolding azure_estimates_run using assms by (rule azure_report.run_keeps_total)

lemma azure_read_readable:
  assumes "azure_read E grouping u = Inr row"
  shows "azure_readable u"
proof (rule ccontr)
  assume "\<not> azure_readable u"
  then obtain i cost where "ud_kind u = Legacy i None cost"
    by (auto simp: azure_readable_def split: usage_kind.splits)
  with assms show False by (simp add: azure_read_def new_ConsumptionDetailRow_def)
qed

lemma azure_report_typed:
  assumes "azure_estimates_of_rows E startDate endDate grouping usageRows g = (Inr rs, g')"
    and "obj_get (zg_store g) ''total'' \<noteq> None"
  shows "list_all (result_typed grouping [''AZURE'']) rs"
  using assms [unfolded azure_estimates_run]
  by (rule azure_report.run_typed)
    (auto simp: azure_read_def new_ConsumptionDetailRow_def bindR_eq_Inr_iff Let_def zx_data_def
      BillingDataRow.defs updateTimestampByGrouping_def split: prod.splits)

end
