(* ===== verification/Azure_Account.thy ===== *)
theory Azure_Account
  imports Azure_Totals
begin

text \<open>
  \<open>packages/azure/src/application/AzureAccount.ts\<close>: the subscriptions of an account and their
  estimates, where a subscription that fails contributes nothing. The requests of a chunk run
  concurrently in the source, sharing the ledger; here they run one after the other. The client of
  the subscriptions, the clients of their consumption and the settings of the tenants are
  parameters. The credentials are not modelled.
\<close>

record subscription =
  sb_subscriptionId :: string
  sb_displayName :: string

record azure_clients =
  sc_list :: "subscription list result"
  sc_get :: "string \<Rightarrow> subscription result"
  sc_consumption :: "string \<Rightarrow> consumption_client"
  sc_tenants :: "string \<Rightarrow> string list option option"

text \<open>
  The default subscriptions: those of the request, of the settings of the tenant, or of the
  configuration. A tenant without settings throws, and the settings may have no subscriptions.
\<close>

definition default_subscription_ids ::
    "azure_env \<Rightarrow> azure_clients \<Rightarrow> string list \<Rightarrow> string option \<Rightarrow> string list result" where
  "default_subscription_ids E S subscriptionIds tenantId =
     (if subscriptionIds \<noteq> [] then Inr subscriptionIds
      else case tenantId of
             None \<Rightarrow> Inr (ze_subscriptions E)
           | Some t \<Rightarrow>
               if t = [] then Inr (ze_subscriptions E)
               else (case sc_tenants S t of
                       None \<Rightarrow> Inl TypeError
                     | Some None \<Rightarrow> Inr []
                     | Some (Some ids) \<Rightarrow> Inr ids))"

definition getSubscriptionsByIds :: "azure_clients \<Rightarrow> string list \<Rightarrow> subscription list" where
  "getSubscriptionsByIds S subscriptionIds =
     foldl (\<lambda>subscriptions subscriptionId.
              case sc_get S subscriptionId of
                Inr subscription \<Rightarrow> subscriptions @ [subscription]
              | Inl _ \<Rightarrow> subscriptions) [] subscriptionIds"

definition getSubscriptions ::
    "azure_env \<Rightarrow> azure_clients \<Rightarrow> string list \<Rightarrow> string option \<Rightarrow> subscription list result" where
  "getSubscriptions E S subscriptionIds tenantId =
     bindR (default_subscription_ids E S subscriptionIds tenantId) (\<lambda>ids.
       if ids \<noteq> [] then Inr (getSubscriptionsByIds S ids) else sc_list S)"

definition getDataForSubscription ::
    "azure_env \<Rightarrow> azure_clients \<Rightarrow> date \<Rightarrow> date \<Rightarrow> string \<Rightarrow> GroupBy \<Rightarrow>
     (azure_globals, EstimationResult list) act" where
  "getDataForSubscription E S startDate endDate subscriptionId grouping =
     ConsumptionManagement_getEstimates E (sc_consumption S subscriptionId) startDate endDate grouping"

text \<open>\<open>try { ... } catch { return [] }\<close>.\<close>

definition or_empty :: "('s, 'a list) act \<Rightarrow> ('s, 'a list) act" where
  "or_empty m = (\<lambda>s. case m s of
       None \<Rightarrow> None
     | Some (Inl e, s') \<Rightarrow> Some (Inr [], s')
     | Some (Inr xs, s') \<Rightarrow> Some (Inr xs, s'))"

definition createSubscriptionRequests ::
    "azure_env \<Rightarrow> azure_clients \<Rightarrow> subscription list \<Rightarrow> date \<Rightarrow> date \<Rightarrow> GroupBy \<Rightarrow>
     (azure_globals, EstimationResult list) act list" where
  "createSubscriptionRequests E S subscriptions startDate endDate grouping =
     map (\<lambda>subscription. or_empty
            (getDataForSubscription E S startDate endDate (sb_subscriptionId subscription) grouping))
       subscriptions"

text \<open>\<open>R.splitEvery\<close> throws unless the length is positive.\<close>

definition chunk_requests :: "int option \<Rightarrow> 'a list \<Rightarrow> 'a list list result" where
  "chunk_requests subscriptionChunks pending =
     (case subscriptionChunks of
        None \<Rightarrow> Inr [pending]
      | Some n \<Rightarrow>
          if n = 0 then Inr [pending]
          else if n < 0 then
            Inl (Thrown ''First argument to splitEvery must be a positive integer'')
          else Inr (split_every (nat n) pending))"

definition getDataFromConsumptionManagement ::
    "azure_env \<Rightarrow> azure_clients \<Rightarrow> date \<Rightarrow> date \<Rightarrow> GroupBy \<Rightarrow> string list option \<Rightarrow> string option \<Rightarrow>
     (azure_globals, EstimationResult list) act" where
  "getDataFromConsumptionManagement E S startDate endDate grouping subscriptionIds tenantId =
     (case getSubscriptions E S (case subscriptionIds of None \<Rightarrow> [] | Some ids \<Rightarrow> ids) tenantId of
        Inl e \<Rightarrow> (\<lambda>g. Some (Inl e, g))
      | Inr subscriptions \<Rightarrow>
          (case chunk_requests (ze_subscriptionChunks E)
                  (createSubscriptionRequests E S subscriptions startDate endDate grouping) of
             Inl e \<Rightarrow> (\<lambda>g. Some (Inl e, g))
           | Inr chunkedRequests \<Rightarrow>
               bindA (mapA (mapA (\<lambda>request. request)) chunkedRequests) (\<lambda>estimationResults.
                 retA (concat (concat estimationResults)))))"

definition getDataFromConsumptionManagementInputData ::
    "azure_env \<Rightarrow> LookupTableInput list \<Rightarrow> (azure_globals, LookupTableOutput list) eff" where
  "getDataFromConsumptionManagementInputData E inputData = azure_getEstimatesFromInputData E inputData"

section \<open>Facts\<close>

lemma getSubscriptionsByIds_eq:
  "getSubscriptionsByIds S ids = concat (map (\<lambda>i. case sc_get S i of Inr s \<Rightarrow> [s] | Inl _ \<Rightarrow> []) ids)"
proof -
  have "foldl (\<lambda>ss i. case sc_get S i of Inr s \<Rightarrow> ss @ [s] | Inl _ \<Rightarrow> ss) acc ids
      = acc @ concat (map (\<lambda>i. case sc_get S i of Inr s \<Rightarrow> [s] | Inl _ \<Rightarrow> []) ids)" for acc
    by (induction ids arbitrary: acc) (auto split: sum.splits)
  from this [of "[]"] show ?thesis by (simp add: getSubscriptionsByIds_def)
qed

text \<open>Running the chunks one after the other is running the requests one after the other.\<close>

lemma bindA_retA: "bindA m retA = m"
  by (rule ext) (simp add: bindA_def split: option.split prod.split sum.split)

lemma mapA_append:
  "mapA f (xs @ ys) = bindA (mapA f xs) (\<lambda>us. bindA (mapA f ys) (\<lambda>vs. retA (us @ vs)))"
  by (induction xs) (simp_all add: bindA_assoc bindA_retA del: retA_apply)

lemma mapA_concat:
  "bindA (mapA (mapA f) xss) (\<lambda>rss. retA (concat rss)) = mapA f (concat xss)"
proof (induction xss)
  case Nil
  then show ?case by (simp del: retA_apply)
next
  case (Cons xs xss)
  have "bindA (mapA (mapA f) (xs # xss)) (\<lambda>rss. retA (concat rss))
      = bindA (mapA f xs) (\<lambda>us. bindA (bindA (mapA (mapA f) xss) (\<lambda>rss. retA (concat rss)))
          (\<lambda>vs. retA (us @ vs)))"
    by (simp add: bindA_assoc del: retA_apply)
  then show ?case by (simp add: Cons mapA_append del: retA_apply)
qed

text \<open>
  The outcome of the requests in order: each one runs in the state that the one before it left and
  adds its results, or nothing when it failed.
\<close>

fun request_runs ::
    "('s \<Rightarrow> 'a \<Rightarrow> ('b list result \<times> 's) option) \<Rightarrow> 's \<Rightarrow> 'a list \<Rightarrow> ('b list list \<times> 's) option" where
  "request_runs run s [] = Some ([], s)"
| "request_runs run s (x # xs) =
     (case run s x of
        None \<Rightarrow> None
      | Some (r, s') \<Rightarrow>
          map_option (\<lambda>(rs, t). ((case r of Inl _ \<Rightarrow> [] | Inr ys \<Rightarrow> ys) # rs, t)) (request_runs run s' xs))"

lemma mapA_or_empty:
  "mapA (\<lambda>request. request) (map (\<lambda>x. or_empty (f x)) xs) s
     = map_option (\<lambda>(rs, t). (Inr rs, t)) (request_runs (\<lambda>s x. f x s) s xs)"
proof (induction xs arbitrary: s)
  case Nil
  then show ?case by simp
next
  case (Cons x xs)
  show ?case
  proof (cases "f x s")
    case None
    then show ?thesis by (simp add: bindA_def or_empty_def)
  next
    case (Some p)
    obtain r s' where p: "p = (r, s')" by (cases p)
    show ?thesis
      using Some p Cons [of s']
      by (cases r; cases "request_runs (\<lambda>s x. f x s) s' xs") (auto simp: bindA_def or_empty_def)
  qed
qed

text \<open>The chunks make no difference, unless their length is negative, which throws.\<close>

lemma subscription_requests:
  assumes "getSubscriptions E S (case subscriptionIds of None \<Rightarrow> [] | Some ids \<Rightarrow> ids) tenantId
      = Inr subscriptions"
    and "case ze_subscriptionChunks E of None \<Rightarrow> True | Some n \<Rightarrow> 0 \<le> n"
  shows "getDataFromConsumptionManagement E S startDate endDate grouping subscriptionIds tenantId g =
    map_option (\<lambda>(rss, g'). (Inr (concat rss), g'))
      (request_runs (\<lambda>g subscription.
         getDataForSubscription E S startDate endDate (sb_subscriptionId subscription) grouping g)
       g subscriptions)"
proof -
  let ?rs = "createSubscriptionRequests E S subscriptions startDate endDate grouping"
  have "\<exists>chunks. chunk_requests (ze_subscriptionChunks E) ?rs = Inr chunks \<and> concat chunks = ?rs"
    using assms(2) by (auto simp: chunk_requests_def concat_split_every split: option.splits)
  then obtain chunks where chunks: "chunk_requests (ze_subscriptionChunks E) ?rs = Inr chunks"
    "concat chunks = ?rs" by blast
  have "bindA (mapA (mapA (\<lambda>request. request)) chunks) (\<lambda>rss. retA (concat (concat rss)))
      = bindA (bindA (mapA (mapA (\<lambda>request. request)) chunks) (\<lambda>rss. retA (concat rss)))
          (\<lambda>rs. retA (concat rs))"
    by (simp add: bindA_assoc del: retA_apply)
  also have "\<dots> = bindA (mapA (\<lambda>request. request) ?rs) (\<lambda>rs. retA (concat rs))"
    by (simp add: mapA_concat chunks(2))
  finally show ?thesis
    unfolding getDataFromConsumptionManagement_def assms(1) sum.case chunks(1)
    by (simp add: createSubscriptionRequests_def bindA_def mapA_or_empty option.map_comp split: option.split)
qed

end
