(* ===== verification/Ali_Constants.thy ===== *)
theory Ali_Constants
  imports Core_Accumulate Third_Party
begin

text \<open>
  The tables of the Ali package: the regions (\<open>packages/ali/src/lib/AliRegions.ts\<close>), the processors
  and machines (\<open>lib/AliTypes.ts\<close>), whose lists of disks, usage types and unknown services are empty,
  and the constants (\<open>domain/AliFootprintEstimationConstants.ts\<close>), in the order of the source. Texts
  that are not ASCII are their UTF-8 bytes.
\<close>

section \<open>Regions\<close>

datatype ALI_REGIONS =
    ALI_CN_QINGDAP
  | ALI_CN_BEIJING
  | ALI_CN_ZHANGJIAKOU
  | ALI_CN_HUHEHAOTE
  | ALI_CN_WULANCHABU
  | ALI_CN_HANGZHOU
  | ALI_CN_SHANGHAI
  | ALI_CN_SHENZHEN
  | ALI_CN_HEYUAN
  | ALI_CN_GUANGZHOU
  | ALI_CN_CHENGDU
  | ALI_CN_NANJING
  | ALI_UNKNOWN

fun ali_region :: "ALI_REGIONS \<Rightarrow> string" where
  "ali_region ALI_CN_QINGDAP =
     [CHR 0xE5, CHR 0x8D, CHR 0x8E, CHR 0xE5, CHR 0x8C, CHR 0x97] @ ''1'' @ [CHR 0xEF, CHR 0xBC, CHR 0x88, CHR 0xE9, CHR 0x9D, CHR 0x92, CHR 0xE5, CHR 0xB2, CHR 0x9B, CHR 0xEF, CHR 0xBC, CHR 0x89]"
| "ali_region ALI_CN_BEIJING =
     [CHR 0xE5, CHR 0x8D, CHR 0x8E, CHR 0xE5, CHR 0x8C, CHR 0x97] @ ''2'' @ [CHR 0xEF, CHR 0xBC, CHR 0x88, CHR 0xE5, CHR 0x8C, CHR 0x97, CHR 0xE4, CHR 0xBA, CHR 0xAC, CHR 0xEF, CHR 0xBC, CHR 0x89]"
| "ali_region ALI_CN_ZHANGJIAKOU =
     [CHR 0xE5, CHR 0x8D, CHR 0x8E, CHR 0xE5, CHR 0x8C, CHR 0x97] @ ''3'' @ [CHR 0xEF, CHR 0xBC, CHR 0x88, CHR 0xE5, CHR 0xBC, CHR 0xA0, CHR 0xE5, CHR 0xAE, CHR 0xB6, CHR 0xE5, CHR 0x8F, CHR 0xA3, CHR 0xEF, CHR 0xBC, CHR 0x89]"
| "ali_region ALI_CN_HUHEHAOTE =
     [CHR 0xE5, CHR 0x8D, CHR 0x8E, CHR 0xE5, CHR 0x8C, CHR 0x97] @ ''5'' @ [CHR 0xEF, CHR 0xBC, CHR 0x88, CHR 0xE5, CHR 0x91, CHR 0xBC, CHR 0xE5, CHR 0x92, CHR 0x8C, CHR 0xE6, CHR 0xB5, CHR 0xA9, CHR 0xE7, CHR 0x89, CHR 0xB9, CHR 0xEF, CHR 0xBC, CHR 0x89]"
| "ali_region ALI_CN_WULANCHABU =
     [CHR 0xE5, CHR 0x8D, CHR 0x8E, CHR 0xE5, CHR 0x8C, CHR 0x97] @ ''6'' @ [CHR 0xEF, CHR 0xBC, CHR 0x88, CHR 0xE4, CHR 0xB9, CHR 0x8C, CHR 0xE5, CHR 0x85, CHR 0xB0, CHR 0xE5, CHR 0xAF, CHR 0x9F, CHR 0xE5, CHR 0xB8, CHR 0x83, CHR 0xEF, CHR 0xBC, CHR 0x89]"
| "ali_region ALI_CN_HANGZHOU =
     [CHR 0xE5, CHR 0x8D, CHR 0x8E, CHR 0xE4, CHR 0xB8, CHR 0x9C] @ ''1'' @ [CHR 0xEF, CHR 0xBC, CHR 0x88, CHR 0xE6, CHR 0x9D, CHR 0xAD, CHR 0xE5, CHR 0xB7, CHR 0x9E, CHR 0xEF, CHR 0xBC, CHR 0x89]"
| "ali_region ALI_CN_SHANGHAI =
     [CHR 0xE5, CHR 0x8D, CHR 0x8E, CHR 0xE4, CHR 0xB8, CHR 0x9C] @ ''2'' @ [CHR 0xEF, CHR 0xBC, CHR 0x88, CHR 0xE4, CHR 0xB8, CHR 0x8A, CHR 0xE6, CHR 0xB5, CHR 0xB7, CHR 0xEF, CHR 0xBC, CHR 0x89]"
| "ali_region ALI_CN_SHENZHEN =
     [CHR 0xE5, CHR 0x8D, CHR 0x8E, CHR 0xE5, CHR 0x8D, CHR 0x97] @ ''1'' @ [CHR 0xEF, CHR 0xBC, CHR 0x88, CHR 0xE6, CHR 0xB7, CHR 0xB1, CHR 0xE5, CHR 0x9C, CHR 0xB3, CHR 0xEF, CHR 0xBC, CHR 0x89]"
| "ali_region ALI_CN_HEYUAN =
     [CHR 0xE5, CHR 0x8D, CHR 0x8E, CHR 0xE5, CHR 0x8D, CHR 0x97] @ ''2'' @ [CHR 0xEF, CHR 0xBC, CHR 0x88, CHR 0xE6, CHR 0xB2, CHR 0xB3, CHR 0xE6, CHR 0xBA, CHR 0x90, CHR 0xEF, CHR 0xBC, CHR 0x89]"
| "ali_region ALI_CN_GUANGZHOU =
     [CHR 0xE5, CHR 0x8D, CHR 0x8E, CHR 0xE5, CHR 0x8D, CHR 0x97] @ ''3'' @ [CHR 0xEF, CHR 0xBC, CHR 0x88, CHR 0xE5, CHR 0xB9, CHR 0xBF, CHR 0xE5, CHR 0xB7, CHR 0x9E, CHR 0xEF, CHR 0xBC, CHR 0x89]"
| "ali_region ALI_CN_CHENGDU =
     [CHR 0xE8, CHR 0xA5, CHR 0xBF, CHR 0xE5, CHR 0x8D, CHR 0x97] @ ''1'' @ [CHR 0xEF, CHR 0xBC, CHR 0x88, CHR 0xE6, CHR 0x88, CHR 0x90, CHR 0xE9, CHR 0x83, CHR 0xBD, CHR 0xEF, CHR 0xBC, CHR 0x89]"
| "ali_region ALI_CN_NANJING =
     [CHR 0xE5, CHR 0x8D, CHR 0x8E, CHR 0xE4, CHR 0xB8, CHR 0x9C] @ ''5'' @ [CHR 0xEF, CHR 0xBC, CHR 0x88, CHR 0xE5, CHR 0x8D, CHR 0x97, CHR 0xE4, CHR 0xBA, CHR 0xAC, CHR 0xEF, CHR 0xBC, CHR 0x89]"
| "ali_region ALI_UNKNOWN =
     ''Unknown''"

section \<open>Machines\<close>

definition ali_SPECIFICATION_FAMILY_COMPUTE_PROCESSOR_MAPPING :: "COMPUTE_PROCESSOR_TYPES list obj" where
  "ali_SPECIFICATION_FAMILY_COMPUTE_PROCESSOR_MAPPING =
    [(''ecs.g8ae'', [AMD_EPYC_1ST_GEN]),
     (''ecs.g7se'', [ICELAKE]),
     (''ecs.g7a'', [AMD_EPYC_1ST_GEN]),
     (''ecs.g7'', [ICELAKE]),
     (''ecs.g7t'', [ICELAKE]),
     (''ecs.g7nex'', [ICELAKE]),
     (''ecs.g6t'', [CASCADE_LAKE]),
     (''ecs.g6e'', [CASCADE_LAKE]),
     (''ecs.g6'', [CASCADE_LAKE]),
     (''ecs.sn2ne'', [SKYLAKE]),
     (''ecs.g5'', [CASCADE_LAKE, SKYLAKE]),
     (''ecs.g5ne'', [CASCADE_LAKE, SKYLAKE]),
     (''ecs.c8ae'', [AMD_EPYC_1ST_GEN]),
     (''ecs.c7re'', [ICELAKE]),
     (''ecs.c7se'', [ICELAKE]),
     (''ecs.c7nex'', [ICELAKE]),
     (''ecs.c7'', [ICELAKE]),
     (''ecs.c7t'', [ICELAKE]),
     (''ecs.c6t'', [CASCADE_LAKE]),
     (''ecs.c6e'', [CASCADE_LAKE]),
     (''ecs.c6'', [CASCADE_LAKE]),
     (''ecs.c5'', [CASCADE_LAKE, SKYLAKE]),
     (''ecs.ic5'', [CASCADE_LAKE, SKYLAKE]),
     (''ecs.sn1ne'', [SKYLAKE, BROADWELL]),
     (''ecs.r8ae'', [AMD_EPYC_1ST_GEN]),
     (''ecs.re7p'', [ICELAKE]),
     (''ecs.r7p'', [ICELAKE]),
     (''ecs.r7se'', [ICELAKE]),
     (''ecs.r7'', [ICELAKE]),
     (''ecs.r7t'', [ICELAKE]),
     (''ecs.re6p'', [CASCADE_LAKE]),
     (''ecs.r6e'', [CASCADE_LAKE]),
     (''ecs.r6'', [CASCADE_LAKE]),
     (''ecs.re6'', [CASCADE_LAKE]),
     (''ecs.r5'', [CASCADE_LAKE, SKYLAKE]),
     (''ecs.re4'', [BROADWELL]),
     (''ecs.re4e'', [BROADWELL]),
     (''ecs.se1ne'', [BROADWELL, SKYLAKE]),
     (''ecs.se1'', [BROADWELL]),
     (''ecs.d3s'', [ICELAKE]),
     (''ecs.d3c'', [ICELAKE]),
     (''ecs.d2c'', [CASCADE_LAKE]),
     (''ecs.d2s'', [SKYLAKE]),
     (''ecs.d1ne'', [BROADWELL]),
     (''ecs.d1'', [BROADWELL]),
     (''ecs.i4'', [ICELAKE]),
     (''ecs.i4g'', [ICELAKE]),
     (''ecs.i4r'', [ICELAKE]),
     (''ecs.i4p'', [ICELAKE]),
     (''ecs.i3g'', [CASCADE_LAKE]),
     (''ecs.i3'', [CASCADE_LAKE]),
     (''ecs.i2'', [SKYLAKE]),
     (''ecs.i2g'', [SKYLAKE]),
     (''ecs.i2ne'', [SKYLAKE]),
     (''ecs.i2gne'', [SKYLAKE]),
     (''ecs.i1'', [BROADWELL]),
     (''ecs.hfc6'', [CASCADE_LAKE]),
     (''ecs.hfg6'', [CASCADE_LAKE]),
     (''ecs.hfr6'', [CASCADE_LAKE]),
     (''ecs.hfc5'', [SKYLAKE]),
     (''ecs.hfg5'', [SKYLAKE]),
     (''ecs.sgn7i-vws'', [ICELAKE]),
     (''ecs.vgn7i-vws'', [ICELAKE]),
     (''ecs.gn7s'', [ICELAKE]),
     (''ecs.gn7e'', [ICELAKE]),
     (''ecs.gn7i'', [ICELAKE]),
     (''ecs.gn7'', [CASCADE_LAKE]),
     (''ecs.vgn6i'', [SKYLAKE]),
     (''ecs.gn6i'', [SKYLAKE]),
     (''ecs.gn6e'', [SKYLAKE]),
     (''ecs.gn6v'', [SKYLAKE]),
     (''ecs.vgn5i'', [BROADWELL]),
     (''ecs.gn5'', [BROADWELL]),
     (''ecs.gn5i'', [BROADWELL]),
     (''ecs.f5'', [ICELAKE]),
     (''ecs.f3'', [SKYLAKE]),
     (''ecs.ebman1'', [SKYLAKE]),
     (''ecs.ebmg7se'', [ICELAKE]),
     (''ecs.ebmg7'', [ICELAKE]),
     (''ecs.ebmg6e'', [CASCADE_LAKE]),
     (''ecs.ebmg6'', [CASCADE_LAKE]),
     (''ecs.ebmc7'', [ICELAKE]),
     (''ecs.ebmc6me'', [CASCADE_LAKE]),
     (''ecs.ebmc6e'', [CASCADE_LAKE]),
     (''ecs.ebmc6'', [CASCADE_LAKE]),
     (''ecs.ebmr7'', [ICELAKE]),
     (''ecs.ebmr6e'', [CASCADE_LAKE]),
     (''ecs.ebmr6'', [CASCADE_LAKE]),
     (''ecs.ebmre6p'', [CASCADE_LAKE]),
     (''ecs.ebmre6'', [CASCADE_LAKE]),
     (''ecs.ebmhfg6'', [CASCADE_LAKE]),
     (''ecs.ebmhfc6'', [CASCADE_LAKE]),
     (''ecs.ebmhfr6'', [CASCADE_LAKE]),
     (''ecs.ebmi2g'', [SKYLAKE]),
     (''ecs.ebmgn7ex'', [ICELAKE]),
     (''ecs.ebmgn7i'', [ICELAKE]),
     (''ecs.ebmgn7'', [CASCADE_LAKE]),
     (''ecs.ebmgn6e'', [SKYLAKE]),
     (''ecs.ebmgn6v'', [SKYLAKE]),
     (''ecs.ebmgn6i'', [SKYLAKE]),
     (''ecs.ebmg5s'', [SKYLAKE]),
     (''ecs.ebmg5'', [SKYLAKE]),
     (''ecs.ebmc4'', [BROADWELL]),
     (''ecs.ebmr5s'', [SKYLAKE]),
     (''ecs.sccg7'', [ICELAKE]),
     (''ecs.sccc7'', [ICELAKE]),
     (''ecs.scchfc6'', [CASCADE_LAKE]),
     (''ecs.scchfg6'', [CASCADE_LAKE]),
     (''ecs.scchfr6'', [CASCADE_LAKE]),
     (''ecs.scch5'', [SKYLAKE]),
     (''ecs.sccg5'', [SKYLAKE]),
     (''ecs.sccgn6e'', [SKYLAKE]),
     (''ecs.sccgn6'', [SKYLAKE]),
     (''ecs.t6'', [CASCADE_LAKE]),
     (''ecs.s6'', [CASCADE_LAKE])]"

definition ali_GPU_VIRTUAL_MACHINE_TYPE_PROCESSOR_MAPPING :: "COMPUTE_PROCESSOR_TYPES list obj" where
  "ali_GPU_VIRTUAL_MACHINE_TYPE_PROCESSOR_MAPPING =
    [(''ecs.sgn7i'', [NVIDIA_A10G]),
     (''ecs.gn7r'', [NVIDIA_A10G]),
     (''ecs.gn7i'', [NVIDIA_A10G]),
     (''ecs.vgn6i'', [NVIDIA_T4]),
     (''ecs.gn6i'', [NVIDIA_TESLA_V100]),
     (''ecs.gn6v'', [NVIDIA_TESLA_V100]),
     (''ecs.vgn5i'', [NVIDIA_TESLA_P4]),
     (''ecs.gn5'', [NVIDIA_TESLA_P100]),
     (''ecs.gn5i'', [NVIDIA_TESLA_P4])]"

definition INSTANCE_SPECIFICATION_MAPPING :: "rat list obj obj" where
  "INSTANCE_SPECIFICATION_MAPPING =
    [(''ecs.g8ae'',
        [(''large'', [2, 8, 1.1]),
         (''xlarge'', [4, 16, 1.1]),
         (''2xlarge'', [8, 32, 1.1]),
         (''4xlarge'', [16, 64, 1.1]),
         (''8xlarge'', [32, 128, 1.1]),
         (''16xlarge'', [64, 256, 1.1]),
         (''32xlarge'', [128, 512, 1.1])]),
     (''ecs.g7se'',
        [(''large'', [2, 8, 1.2]),
         (''xlarge'', [4, 16, 1.2]),
         (''2xlarge'', [8, 32, 1.2]),
         (''3xlarge'', [12, 48, 1.2]),
         (''4xlarge'', [16, 64, 1.2]),
         (''6xlarge'', [24, 96, 1.2]),
         (''8xlarge'', [32, 128, 1.2]),
         (''16xlarge'', [64, 256, 1.2]),
         (''32xlarge'', [128, 512, 1.2])]),
     (''ecs.g7'',
        [(''large'', [2, 8, 1.1]),
         (''xlarge'', [4, 16, 1.1]),
         (''2xlarge'', [8, 32, 1.1]),
         (''3xlarge'', [12, 48, 1.1]),
         (''4xlarge'', [16, 64, 1.1]),
         (''6xlarge'', [24, 96, 1.1]),
         (''8xlarge'', [32, 128, 1.1]),
         (''16xlarge'', [64, 256, 1.1]),
         (''32xlarge'', [128, 512, 1.1])]),
     (''ecs.g7t'',
        [(''large'', [2, 8, 1.1]),
         (''xlarge'', [4, 16, 1.1]),
         (''2xlarge'', [8, 32, 1.1]),
         (''3xlarge'', [12, 48, 1.1]),
         (''4xlarge'', [16, 64, 1.1]),
         (''6xlarge'', [24, 96, 1.1]),
         (''8xlarge'', [32, 128, 1.1]),
         (''16xlarge'', [64, 256, 1.1]),
         (''32xlarge'', [128, 512, 1.1])]),
     (''ecs.g7ne'',
        [(''large'', [2, 8, 1.1]),
         (''xlarge'', [4, 16, 1.1]),
         (''2xlarge'', [8, 32, 1.1]),
         (''4xlarge'', [16, 64, 1.1]),
         (''6xlarge'', [24, 96, 1.1]),
         (''8xlarge'', [32, 128, 1.1]),
         (''12xlarge'', [48, 192, 1.1]),
         (''16xlarge'', [64, 256, 1.1]),
         (''32xlarge'', [128, 512, 1.1])]),
     (''ecs.g6'',
        [(''large'', [2, 8, 1.1]),
         (''xlarge'', [4, 16, 1.1]),
         (''2xlarge'', [8, 32, 1.1]),
         (''3xlarge'', [12, 48, 1.1]),
         (''4xlarge'', [16, 64, 1.1]),
         (''6xlarge'', [24, 96, 1.1]),
         (''8xlarge'', [32, 128, 1.1]),
         (''13xlarge'', [52, 192, 1.1]),
         (''26xlarge'', [104, 384, 1.1])])]"

definition ali_SSD_MANAGED_DISKS_STORAGE_GB :: "jsnum obj" where
  "ali_SSD_MANAGED_DISKS_STORAGE_GB = []"

definition ali_HDD_MANAGED_DISKS_STORAGE_GB :: "jsnum obj" where
  "ali_HDD_MANAGED_DISKS_STORAGE_GB = []"

definition ali_STORAGE_USAGE_TYPES :: "string list" where
  "ali_STORAGE_USAGE_TYPES = []"

definition ali_NETWORKING_USAGE_TYPES :: "string list" where
  "ali_NETWORKING_USAGE_TYPES = []"

definition ali_UNKNOWN_SERVICES :: "string list" where
  "ali_UNKNOWN_SERVICES = []"

definition ali_UNKNOWN_USAGE_TYPES :: "string list" where
  "ali_UNKNOWN_USAGE_TYPES = []"

section \<open>Constants\<close>

definition ali_SSDCOEFFICIENT :: jsnum where
  "ali_SSDCOEFFICIENT = Fin 1.2"

definition ali_HDDCOEFFICIENT :: jsnum where
  "ali_HDDCOEFFICIENT = Fin 0.65"

definition ali_MEMORY_AVG :: jsnum where
  "ali_MEMORY_AVG = Fin 80.69"

definition ali_MIN_WATTS_AVG :: jsnum where
  "ali_MIN_WATTS_AVG = Fin 0.74"

definition ali_MAX_WATTS_AVG :: jsnum where
  "ali_MAX_WATTS_AVG = Fin 3.5"

definition ali_NETWORKING_COEFFICIENT :: jsnum where
  "ali_NETWORKING_COEFFICIENT = Fin 0.001"

definition ali_MEMORY_COEFFICIENT :: jsnum where
  "ali_MEMORY_COEFFICIENT = Fin 0.000392"

definition ali_PUE_AVG :: jsnum where
  "ali_PUE_AVG = Fin 1.3"

definition ali_AVG_CPU_UTILIZATION_2020 :: jsnum where
  "ali_AVG_CPU_UTILIZATION_2020 = Fin 50"

definition ali_SERVER_EXPECTED_LIFESPAN :: jsnum where
  "ali_SERVER_EXPECTED_LIFESPAN = Fin 35040"

definition ali_ESTIMATE_UNKNOWN_USAGE_BY :: EstimateUnknownUsageBy where
  "ali_ESTIMATE_UNKNOWN_USAGE_BY = EU_COST"

definition ali_memory_by_processor :: "COMPUTE_PROCESSOR_TYPES \<Rightarrow> jsnum option" where
  "ali_memory_by_processor p =
    map_option Fin (map_of
    [(CASCADE_LAKE, 98.12),
     (SKYLAKE, 81.32),
     (BROADWELL, 69.65),
     (HASWELL, 27.71),
     (COFFEE_LAKE, 19.56),
     (SANDY_BRIDGE, 16.7),
     (IVY_BRIDGE, 9.67),
     (AMD_EPYC_1ST_GEN, 89.6),
     (AMD_EPYC_2ND_GEN, 129.78),
     (AWS_GRAVITON_2, 129.78)] p)"

definition ali_min_watts_by_processor :: "COMPUTE_PROCESSOR_TYPES \<Rightarrow> jsnum option" where
  "ali_min_watts_by_processor p =
    map_option Fin (map_of
    [(CASCADE_LAKE, 0.64),
     (SKYLAKE, 0.65),
     (BROADWELL, 0.71),
     (HASWELL, 1),
     (COFFEE_LAKE, 1.14),
     (SANDY_BRIDGE, 2.17),
     (IVY_BRIDGE, 3.04),
     (AMD_EPYC_1ST_GEN, 0.82),
     (AMD_EPYC_2ND_GEN, 0.47),
     (AWS_GRAVITON_2, 0.47),
     (NVIDIA_K520, 26),
     (NVIDIA_A10G, 18),
     (NVIDIA_T4, 8),
     (NVIDIA_TESLA_M60, 35),
     (NVIDIA_TESLA_K80, 35),
     (NVIDIA_TESLA_V100, 35),
     (NVIDIA_TESLA_A100, 46),
     (NVIDIA_TESLA_P4, 9),
     (NVIDIA_TESLA_P100, 36),
     (AMD_RADEON_PRO_V520, 26)] p)"

definition ali_max_watts_by_processor :: "COMPUTE_PROCESSOR_TYPES \<Rightarrow> jsnum option" where
  "ali_max_watts_by_processor p =
    map_option Fin (map_of
    [(CASCADE_LAKE, 3.97),
     (SKYLAKE, 4.26),
     (BROADWELL, 3.69),
     (HASWELL, 4.74),
     (COFFEE_LAKE, 5.42),
     (SANDY_BRIDGE, 8.58),
     (IVY_BRIDGE, 8.25),
     (AMD_EPYC_1ST_GEN, 2.55),
     (AMD_EPYC_2ND_GEN, 1.69),
     (AWS_GRAVITON_2, 1.69),
     (NVIDIA_K520, 229),
     (NVIDIA_A10G, 153),
     (NVIDIA_T4, 71),
     (NVIDIA_TESLA_M60, 306),
     (NVIDIA_TESLA_K80, 306),
     (NVIDIA_TESLA_V100, 306),
     (NVIDIA_TESLA_A100, 407),
     (NVIDIA_TESLA_P4, 76.5),
     (NVIDIA_TESLA_P100, 306),
     (AMD_RADEON_PRO_V520, 229)] p)"

definition ali_DEFAULT_REPLICATION :: jsnum where
  "ali_DEFAULT_REPLICATION = 1"

definition ali_PUE_TRAILING_TWELVE_MONTH :: "jsnum obj" where
  "ali_PUE_TRAILING_TWELVE_MONTH =
    [(ali_region ALI_CN_HANGZHOU, Fin 1.3),
     (ali_region ALI_CN_SHANGHAI, Fin 1.3),
     (ali_region ALI_CN_NANJING, Fin 1.3),
     (ali_region ALI_CN_SHENZHEN, Fin 1.3),
     (ali_region ALI_CN_HEYUAN, Fin 1.3),
     (ali_region ALI_CN_GUANGZHOU, Fin 1.3),
     (ali_region ALI_CN_QINGDAP, Fin 1.2),
     (ali_region ALI_CN_BEIJING, Fin 1.2),
     (ali_region ALI_CN_ZHANGJIAKOU, Fin 1.2),
     (ali_region ALI_CN_HUHEHAOTE, Fin 1.2),
     (ali_region ALI_CN_WULANCHABU, Fin 1.2),
     (ali_region ALI_UNKNOWN, Fin 1.3)]"

text \<open>\<open>x ? x : d\<close> on a number that may be \<open>undefined\<close> is \<open>or_num x d\<close>.\<close>

definition ali_getMemory :: "COMPUTE_PROCESSOR_TYPES list \<Rightarrow> jsnum" where
  "ali_getMemory computeProcessors =
     or_num (getAverage (map ali_memory_by_processor computeProcessors)) ali_MEMORY_AVG"

definition ali_getMinWatts ::
    "(jsnum option list \<Rightarrow> jsnum) \<Rightarrow> COMPUTE_PROCESSOR_TYPES list \<Rightarrow> jsnum" where
  "ali_getMinWatts median computeProcessors =
     or_num (getWattsByAverageOrMedian median computeProcessors
               (map ali_min_watts_by_processor computeProcessors)) ali_MIN_WATTS_AVG"

definition ali_getMaxWatts ::
    "(jsnum option list \<Rightarrow> jsnum) \<Rightarrow> COMPUTE_PROCESSOR_TYPES list \<Rightarrow> jsnum" where
  "ali_getMaxWatts median computeProcessors =
     or_num (getWattsByAverageOrMedian median computeProcessors
               (map ali_max_watts_by_processor computeProcessors)) ali_MAX_WATTS_AVG"

definition ali_getPUE :: "string option \<Rightarrow> jsnum" where
  "ali_getPUE region =
     or_num (Option.bind region (obj_get ali_PUE_TRAILING_TWELVE_MONTH)) ali_PUE_AVG"

definition ALI_EMISSIONS_FACTORS_METRIC_TON_PER_KWH :: emissions_factors where
  "ALI_EMISSIONS_FACTORS_METRIC_TON_PER_KWH =
    [(ali_region ALI_CN_HANGZHOU, Fin 0.000626),
     (ali_region ALI_CN_SHANGHAI, Fin 0.000626),
     (ali_region ALI_CN_NANJING, Fin 0.000626),
     (ali_region ALI_CN_SHENZHEN, Fin 0.000585),
     (ali_region ALI_CN_HEYUAN, Fin 0.000585),
     (ali_region ALI_CN_GUANGZHOU, Fin 0.000585),
     (ali_region ALI_CN_QINGDAP, Fin 0.000665),
     (ali_region ALI_CN_BEIJING, Fin 0.000665),
     (ali_region ALI_CN_ZHANGJIAKOU, Fin 0.000665),
     (ali_region ALI_CN_HUHEHAOTE, Fin 0.000665),
     (ali_region ALI_CN_WULANCHABU, Fin 0.000665),
     (ali_region ALI_UNKNOWN, Fin 0.0006512799615)]"

end
