(* ===== verification/Ali_Service.thy ===== *)
theory Ali_Service
  imports Core_Reader Ali_Constants
begin

text \<open>
  \<open>packages/ali/src/lib/AliCostAndUsageService.ts\<close>: the estimates of the bills of the months of a
  request. The ledger of kilowatt hours is the state; the client, which answers a billing cycle with
  one page of items, is a parameter.
\<close>

text \<open>
  \<open>packages/ali/src/lib/AliCalculateRow.ts\<close>, the row of an item of an instance bill, and
  \<open>ReplicationFactors.ts\<close>. Texts that are not ASCII are their UTF-8 bytes, which split and search like
  the texts; the white space before a number is ASCII. A missing text that is only compared or shown
  is the text \<open>undefined\<close>; the texts that the row takes apart may be missing.
\<close>

section \<open>The words of a bill\<close>

text \<open>Cores, memory, the packages of function compute with their units, and the units of a period.\<close>

definition zh_cores :: string where
  "zh_cores = [CHR 0xE6, CHR 0xA0, CHR 0xB8]"

definition zh_memory :: string where
  "zh_memory = [CHR 0xE5, CHR 0x86, CHR 0x85, CHR 0xE5, CHR 0xAD, CHR 0x98]"

definition zh_vcpu_package :: string where
  "zh_vcpu_package = ''vCPU'' @ [CHR 0xE8, CHR 0xB5, CHR 0x84, CHR 0xE6, CHR 0xBA, CHR 0x90, CHR 0xE5, CHR 0x8C, CHR 0x85]"

definition zh_memory_package :: string where
  "zh_memory_package = [CHR 0xE5, CHR 0x86, CHR 0x85, CHR 0xE5, CHR 0xAD, CHR 0x98, CHR 0xE8, CHR 0xB5, CHR 0x84, CHR 0xE6, CHR 0xBA, CHR 0x90, CHR 0xE5, CHR 0x8C, CHR 0x85]"

definition zh_vcpu_seconds :: string where
  "zh_vcpu_seconds = ''vCPU*'' @ [CHR 0xE7, CHR 0xA7, CHR 0x92]"

definition zh_gb_seconds :: string where
  "zh_gb_seconds = ''GB*'' @ [CHR 0xE7, CHR 0xA7, CHR 0x92]"

definition zh_second :: string where
  "zh_second = [CHR 0xE7, CHR 0xA7, CHR 0x92]"

definition zh_minute :: string where
  "zh_minute = [CHR 0xE5, CHR 0x88, CHR 0x86]"

definition zh_hour :: string where
  "zh_hour = [CHR 0xE6, CHR 0x97, CHR 0xB6]"

definition zh_day :: string where
  "zh_day = [CHR 0xE5, CHR 0xA4, CHR 0xA9]"

definition zh_month :: string where
  "zh_month = [CHR 0xE6, CHR 0x9C, CHR 0x88]"

definition zh_year :: string where
  "zh_year = [CHR 0xE5, CHR 0xB9, CHR 0xB4]"

section \<open>The row\<close>

record bill_item =
  bi_billAccountID :: string
  bi_billAccountName :: string
  bi_cashAmount :: jsnum
  bi_region :: string
  bi_productCode :: string
  bi_instanceSpec :: "string option"
  bi_instanceConfig :: "string option"
  bi_servicePeriod :: string
  bi_servicePeriodUnit :: string

record AliCalculateRow = BillingDataRow +
  ax_seriesName :: string
  ax_specificationFamily :: string

definition ax_data :: "AliCalculateRow \<Rightarrow> BillingDataRow" where
  "ax_data row = BillingDataRow.truncate row"

text \<open>
  The first match of \<open>(?<=(key):).*?(?=(;|$))\<close>: after the key and a colon, the text up to the next
  semicolon or the end, which must not go over a line terminator.
\<close>

definition utf8_line_end :: "string \<Rightarrow> bool" where
  "utf8_line_end s \<longleftrightarrow> list_ex line_terminator s
     \<or> str_includes s [CHR 0xE2, CHR 0x80, CHR 0xA8] \<or> str_includes s [CHR 0xE2, CHR 0x80, CHR 0xA9]"

fun getJsonValue :: "string \<Rightarrow> string \<Rightarrow> string option" where
  "getJsonValue key [] = None"
| "getJsonValue key (c # cs) =
     (let v = takeWhile (\<lambda>d. d \<noteq> CHR '';'') (drop (length key + 1) (c # cs))
      in if startsWith (c # cs) (key @ '':'') \<and> \<not> utf8_line_end v then Some v else getJsonValue key cs)"

definition ali_getSpecificationFamily :: "string \<Rightarrow> string" where
  "ali_getSpecificationFamily seriesName =
     (let parts = split seriesName ''.''
      in if length parts \<le> 1 then hd parts
         else hd parts @ ''.'' @ hd (split (parts ! 1) ''-''))"

definition servicePeriodUnitRatios :: "jsnum obj" where
  "servicePeriodUnitRatios =
     [(zh_second, 1 / 3600), (zh_minute, 1 / 60), (zh_hour, 1), (zh_day, 24), (zh_month, 24 * 30),
      (zh_year, 24 * 30 * 12)]"

definition ali_getUsage :: "string \<Rightarrow> string \<Rightarrow> jsnum" where
  "ali_getUsage servicePeriod servicePeriodUnit =
     parseInt servicePeriod * or_num (obj_get servicePeriodUnitRatios servicePeriodUnit) 1"

definition parseCpuAndGpu :: "string \<Rightarrow> string \<Rightarrow> jsnum" where
  "parseCpuAndGpu instanceConfig key =
     (case getJsonValue key instanceConfig of
        None \<Rightarrow> 0
      | Some v \<Rightarrow> parseInt (hd (split v zh_cores)))"

definition parseMemory :: "string \<Rightarrow> jsnum" where
  "parseMemory instanceConfig =
     (case getJsonValue zh_memory instanceConfig of
        None \<Rightarrow> 0
      | Some v \<Rightarrow> parseInt (hd (split v ''GB'')))"

text \<open>A quantity and its unit, a power of ten thousand, in seconds.\<close>

definition package_hours :: "string \<Rightarrow> string \<Rightarrow> string \<Rightarrow> jsnum" where
  "package_hours key unit instanceConfig =
     (case getJsonValue key instanceConfig of
        None \<Rightarrow> 0
      | Some v \<Rightarrow>
          (let parts = split (hd (split v unit)) '' ''
           in if length parts \<le> 1 then 0
              else (parseInt (parts ! 0) * mapToArabic (parts ! 1)) / 3600))"

definition getFunctionComputeVcpuHours :: "string \<Rightarrow> jsnum" where
  "getFunctionComputeVcpuHours instanceConfig = package_hours zh_vcpu_package zh_vcpu_seconds instanceConfig"

definition getFunctionComputeMemoryHours :: "string \<Rightarrow> jsnum" where
  "getFunctionComputeMemoryHours instanceConfig = package_hours zh_memory_package zh_gb_seconds instanceConfig"

definition ali_getVCpuHours :: "bill_item \<Rightarrow> string \<Rightarrow> jsnum" where
  "ali_getVCpuHours item instanceConfig =
     (if bi_productCode item = ''fc'' then getFunctionComputeVcpuHours instanceConfig
      else ali_getUsage (bi_servicePeriod item) (bi_servicePeriodUnit item)
           * parseCpuAndGpu instanceConfig ''CPU'')"

definition ali_getGpuHours :: "bill_item \<Rightarrow> string \<Rightarrow> jsnum" where
  "ali_getGpuHours item instanceConfig =
     ali_getUsage (bi_servicePeriod item) (bi_servicePeriodUnit item)
     * parseCpuAndGpu instanceConfig ''GPU''"

definition ali_getMemoryHours :: "bill_item \<Rightarrow> string \<Rightarrow> jsnum" where
  "ali_getMemoryHours item instanceConfig =
     (if bi_productCode item = ''fc'' then getFunctionComputeMemoryHours instanceConfig
      else ali_getUsage (bi_servicePeriod item) (bi_servicePeriodUnit item) * parseMemory instanceConfig)"

definition ALI_REPLICATION_FACTORS_FOR_SERVICES :: "(string \<Rightarrow> string \<Rightarrow> jsnum) obj" where
  "ALI_REPLICATION_FACTORS_FOR_SERVICES =
     [(''ecs'', \<lambda>_ _. ali_DEFAULT_REPLICATION), (''DEFAULT'', \<lambda>_ _. ali_DEFAULT_REPLICATION)]"

definition ali_getReplicationFactor :: "string \<Rightarrow> string \<Rightarrow> string \<Rightarrow> jsnum" where
  "ali_getReplicationFactor serviceName usageType region =
     or_num (map_option (\<lambda>f. f usageType region) (obj_get ALI_REPLICATION_FACTORS_FOR_SERVICES serviceName))
       (case obj_get ALI_REPLICATION_FACTORS_FOR_SERVICES ''DEFAULT'' of
          Some f \<Rightarrow> f usageType region | None \<Rightarrow> NaN)"

text \<open>An item without a specification or a configuration cannot be read. The row has no usage type or unit.\<close>

definition new_AliCalculateRow :: "bill_item \<Rightarrow> AliCalculateRow result" where
  "new_AliCalculateRow item =
     (case (bi_instanceConfig item, bi_instanceSpec item) of
        (Some instanceConfig, Some seriesName) \<Rightarrow>
          Inr \<lparr>br_serviceName = bi_productCode item,
               br_accountId = bi_billAccountID item,
               br_accountName = bi_billAccountName item,
               br_usageAmount = ali_getMemoryHours item instanceConfig,
               br_usageType = ''undefined'',
               br_usageUnit = ''undefined'',
               br_cost = bi_cashAmount item,
               br_region = bi_region item,
               br_cloudProvider = ''undefined'',
               br_timestamp = None,
               br_vCpus = None,
               br_vCpuHours = ali_getVCpuHours item instanceConfig,
               br_gpuHours = ali_getGpuHours item instanceConfig,
               br_instanceType = bi_productCode item,
               br_replicationFactor =
                 ali_getReplicationFactor (bi_productCode item) ''undefined'' (bi_region item),
               br_tags = None,
               ax_seriesName = seriesName,
               ax_specificationFamily = ali_getSpecificationFamily seriesName\<rparr>
      | _ \<Rightarrow> Inl TypeError)"

record instance_bill =
  ib_totalCount :: jsnum
  ib_items :: "bill_item list"

record ali_env =
  ae_median :: "jsnum option list \<Rightarrow> jsnum"
  ae_name :: string
  ae_bill :: "string \<Rightarrow> instance_bill result"

section \<open>Estimates of a row\<close>

definition getComputeProcessorsFromAliSpecificationFamily :: "string \<Rightarrow> COMPUTE_PROCESSOR_TYPES list" where
  "getComputeProcessorsFromAliSpecificationFamily specificationFamily =
     (case obj_get ali_SPECIFICATION_FAMILY_COMPUTE_PROCESSOR_MAPPING specificationFamily of
        Some ps \<Rightarrow> ps
      | None \<Rightarrow> [UNKNOWN_PROCESSOR])"

definition getGPUComputeProcessorsFromAliInstanceType :: "string \<Rightarrow> COMPUTE_PROCESSOR_TYPES list" where
  "getGPUComputeProcessorsFromAliInstanceType specificationFamily =
     (case obj_get ali_GPU_VIRTUAL_MACHINE_TYPE_PROCESSOR_MAPPING specificationFamily of
        Some ps \<Rightarrow> ps
      | None \<Rightarrow> [UNKNOWN_PROCESSOR])"

definition ali_isGpuUsage :: "jsnum \<Rightarrow> bool" where
  "ali_isGpuUsage gpuHours \<longleftrightarrow> gpuHours \<noteq> 0"

definition ali_cpu_estimate ::
    "ali_env \<Rightarrow> AliCalculateRow \<Rightarrow> COMPUTE_PROCESSOR_TYPES list \<Rightarrow> jsnum \<Rightarrow> jsnum \<Rightarrow> emissions_factors \<Rightarrow>
     FootprintEstimate" where
  "ali_cpu_estimate E row processors hours pue emissionsFactors =
     hd (ComputeEstimator_estimate
           [\<lparr>cu_timestamp = br_timestamp row,
             cu_cpuUtilizationAverage = ali_AVG_CPU_UTILIZATION_2020,
             cu_vCpuHours = hours,
             cu_usesAverageCPUConstant = True\<rparr>]
           (br_region row) emissionsFactors
           (no_constants
              \<lparr>cc_minWatts := Some (ali_getMinWatts (ae_median E) processors),
               cc_maxWatts := Some (ali_getMaxWatts (ae_median E) processors),
               cc_powerUsageEffectiveness := Some pue,
               cc_replicationFactor := Some (br_replicationFactor row)\<rparr>))"

definition ali_appendGpuComputeEstimate ::
    "ali_env \<Rightarrow> AliCalculateRow \<Rightarrow> jsnum \<Rightarrow> emissions_factors \<Rightarrow> FootprintEstimate \<Rightarrow> FootprintEstimate" where
  "ali_appendGpuComputeEstimate E row pue emissionsFactors computeFootprintEstimate =
     (let gpuComputeFootprintEstimate = ali_cpu_estimate E row
            (getGPUComputeProcessorsFromAliInstanceType (ax_specificationFamily row)) (br_gpuHours row)
            pue emissionsFactors
      in computeFootprintEstimate
           \<lparr>fe_kilowattHours := fe_kilowattHours computeFootprintEstimate
                                + fe_kilowattHours gpuComputeFootprintEstimate,
            fe_co2e := fe_co2e computeFootprintEstimate + fe_co2e gpuComputeFootprintEstimate\<rparr>)"

definition ali_getComputeFootprintEstimate ::
    "ali_env \<Rightarrow> AliCalculateRow \<Rightarrow> jsnum \<Rightarrow> emissions_factors \<Rightarrow> FootprintEstimate" where
  "ali_getComputeFootprintEstimate E row pue emissionsFactors =
     (let computeFootprintEstimate = ali_cpu_estimate E row
            (getComputeProcessorsFromAliSpecificationFamily (ax_specificationFamily row))
            (br_vCpuHours row) pue emissionsFactors
      in if ali_isGpuUsage (br_gpuHours row)
         then ali_appendGpuComputeEstimate E row pue emissionsFactors computeFootprintEstimate
         else computeFootprintEstimate)"

definition ali_getMemoryFootprintEstimate ::
    "AliCalculateRow \<Rightarrow> jsnum \<Rightarrow> emissions_factors \<Rightarrow> FootprintEstimate" where
  "ali_getMemoryFootprintEstimate row pue emissionsFactors =
     (hd (MemoryEstimator_estimate ali_MEMORY_COEFFICIENT
            [\<lparr>mu_timestamp = br_timestamp row, mu_gigabyteHours = br_usageAmount row\<rparr>]
            (br_region row) emissionsFactors
            (no_constants\<lparr>cc_powerUsageEffectiveness := Some pue,
                          cc_replicationFactor := Some (br_replicationFactor row)\<rparr>)))
       \<lparr>fe_usesAverageCPUConstant := Some False\<rparr>"

text \<open>The vCPUs, the scope 3 emissions and the vCPUs of the last machine of the family.\<close>

definition getDataFromSeriesName :: "string \<Rightarrow> jsnum option \<times> jsnum option \<times> jsnum option" where
  "getDataFromSeriesName seriesName =
     (let instanceTypeDetails = split seriesName ''.''
      in if length instanceTypeDetails \<le> 1 then (Some 0, Some 0, Some 0)
         else
           (let instanceSize = last instanceTypeDetails;
                instanceFamily = join ''.'' (take 2 instanceTypeDetails);
                machine = instance_data INSTANCE_SPECIFICATION_MAPPING (Some instanceFamily) (Some instanceSize);
                familyInstanceTypes = obj_values (case obj_get INSTANCE_SPECIFICATION_MAPPING instanceFamily of
                                                    Some types \<Rightarrow> types | None \<Rightarrow> [])
            in (num_at 0 machine, num_at 2 machine,
                if familyInstanceTypes = [] then None else num_at 0 (Some (last familyInstanceTypes)))))"

definition ali_getEmbodiedEmissions :: "AliCalculateRow \<Rightarrow> emissions_factors \<Rightarrow> jsnum \<times> jsnum" where
  "ali_getEmbodiedEmissions row emissionsFactors =
     (let (instancevCpu, scopeThreeEmissions, largestInstancevCpu) = getDataFromSeriesName (ax_seriesName row)
      in if \<not> truthy_opt instancevCpu \<or> \<not> truthy_opt scopeThreeEmissions
            \<or> \<not> truthy_opt largestInstancevCpu then (0, 0)
         else
           (let e = hd (EmbodiedEmissionsEstimator_estimate ali_SERVER_EXPECTED_LIFESPAN
                 [\<lparr>eu_timestamp = None,
                   eu_instancevCpu = toNum instancevCpu,
                   eu_largestInstancevCpu = toNum largestInstancevCpu,
                   eu_usageTimePeriod = br_usageAmount row / toNum instancevCpu,
                   eu_scopeThreeEmissions = toNum scopeThreeEmissions\<rparr>]
                 (br_region row) emissionsFactors)
            in (fe_kilowattHours e, fe_co2e e)))"

definition ali_isSSDStorage :: "AliCalculateRow \<Rightarrow> bool" where
  "ali_isSSDStorage row \<longleftrightarrow>
     containsAny (obj_keys ali_SSD_MANAGED_DISKS_STORAGE_GB) (br_usageType row)
     \<or> containsAny ali_STORAGE_USAGE_TYPES (br_usageType row)"

definition ali_isHDDStorage :: "AliCalculateRow \<Rightarrow> bool" where
  "ali_isHDDStorage row \<longleftrightarrow> containsAny (obj_keys ali_HDD_MANAGED_DISKS_STORAGE_GB) (br_usageType row)"

definition no_footprint :: FootprintEstimate where
  "no_footprint = \<lparr>fe_timestamp = None, fe_kilowattHours = 0, fe_co2e = 0, fe_usesAverageCPUConstant = None\<rparr>"

definition ali_accumulateE :: "AliCalculateRow \<Rightarrow> jsnum \<Rightarrow> (kwh_store, unit) eff" where
  "ali_accumulateE row kilowattHours =
     (\<lambda>g. case accumulateKilowattHours g (ax_data row) kilowattHours AK_USAGE_AMOUNT of
            Inl e \<Rightarrow> (Inl e, g)
          | Inr store \<Rightarrow> (Inr (), store))"

definition ali_storage_estimate :: "AliCalculateRow \<Rightarrow> jsnum \<Rightarrow> emissions_factors \<Rightarrow> FootprintEstimate" where
  "ali_storage_estimate row pue emissionsFactors =
     (let estimate = (\<lambda>coefficient. hd (StorageEstimator_estimate coefficient
            [\<lparr>su_timestamp = br_timestamp row, su_terabyteHours = br_usageAmount row\<rparr>]
            (br_region row) emissionsFactors
            (no_constants\<lparr>cc_powerUsageEffectiveness := Some pue,
                          cc_replicationFactor := Some (br_replicationFactor row)\<rparr>)))
      in (if ali_isSSDStorage row then estimate ali_SSDCOEFFICIENT
          else if ali_isHDDStorage row then estimate ali_HDDCOEFFICIENT
          else no_footprint)\<lparr>fe_usesAverageCPUConstant := Some False\<rparr>)"

definition ali_getStorageFootprintEstimate ::
    "AliCalculateRow \<Rightarrow> jsnum \<Rightarrow> emissions_factors \<Rightarrow> (kwh_store, FootprintEstimate) eff" where
  "ali_getStorageFootprintEstimate row pue emissionsFactors =
     (let estimate = ali_storage_estimate row pue emissionsFactors
      in bindE (ali_accumulateE row (fe_kilowattHours estimate)) (\<lambda>_. retE estimate))"

definition ali_networking_estimate :: "AliCalculateRow \<Rightarrow> jsnum \<Rightarrow> emissions_factors \<Rightarrow> FootprintEstimate" where
  "ali_networking_estimate row pue emissionsFactors =
     (if containsAny ali_NETWORKING_USAGE_TYPES (br_usageType row)
      then hd (NetworkingEstimator_estimate ali_NETWORKING_COEFFICIENT
                 [\<lparr>nu_timestamp = br_timestamp row, nu_gigabytes = br_usageAmount row\<rparr>]
                 (br_region row) emissionsFactors
                 (no_constants\<lparr>cc_powerUsageEffectiveness := Some pue\<rparr>))
      else no_footprint)\<lparr>fe_usesAverageCPUConstant := Some False\<rparr>"

definition ali_getNetworkingFootprintEstimate ::
    "AliCalculateRow \<Rightarrow> jsnum \<Rightarrow> emissions_factors \<Rightarrow> (kwh_store, FootprintEstimate) eff" where
  "ali_getNetworkingFootprintEstimate row pue emissionsFactors =
     (let estimate = ali_networking_estimate row pue emissionsFactors
      in bindE (ali_accumulateE row (fe_kilowattHours estimate)) (\<lambda>_. retE estimate))"

definition ali_getEstimateForUnknownUsage :: "AliCalculateRow \<Rightarrow> (kwh_store, FootprintEstimate) eff" where
  "ali_getEstimateForUnknownUsage rowData =
     (if containsAny ali_UNKNOWN_SERVICES (br_serviceName rowData)
         \<or> containsAny ali_UNKNOWN_USAGE_TYPES (br_usageType rowData) then
        (\<lambda>g. (bindR (UnknownEstimator_estimate ali_ESTIMATE_UNKNOWN_USAGE_BY
                 [\<lparr>uu_timestamp = br_timestamp rowData, uu_cost = None,
                   uu_usageAmount = Some (br_usageAmount rowData),
                   uu_usageUnit = br_usageUnit rowData, uu_service = None\<rparr>]
                 (br_region rowData) ALI_EMISSIONS_FACTORS_METRIC_TON_PER_KWH
                 (no_constants\<lparr>cc_kilowattHoursByServiceAndUsageUnit := Some g\<rparr>))
               (\<lambda>es. Inr (hd es)), g))
      else retE \<lparr>fe_timestamp = br_timestamp rowData, fe_kilowattHours = 0, fe_co2e = 0,
                 fe_usesAverageCPUConstant = Some False\<rparr>)"

section \<open>The bills of a request\<close>

definition ali_item_step ::
    "ali_env \<Rightarrow> ServiceData list \<Rightarrow> bill_item \<Rightarrow> (kwh_store, ServiceData list) eff" where
  "ali_item_step E serviceEstimates cur =
     bindE (liftE (new_AliCalculateRow cur)) (\<lambda>row.
     let pue = ali_getPUE None;
         emissionsFactors = ALI_EMISSIONS_FACTORS_METRIC_TON_PER_KWH;
         compute = ali_getComputeFootprintEstimate E row pue emissionsFactors;
         memory = ali_getMemoryFootprintEstimate row pue emissionsFactors;
         (embodiedKwh, embodiedCo2e) = ali_getEmbodiedEmissions row emissionsFactors
     in bindE (ali_getStorageFootprintEstimate row pue emissionsFactors) (\<lambda>storage.
        bindE (ali_getNetworkingFootprintEstimate row pue emissionsFactors) (\<lambda>networking.
        bindE (ali_getEstimateForUnknownUsage row) (\<lambda>unknown.
          retE (serviceEstimates @
            [\<lparr>sd_cloudProvider = ae_name E,
              sd_accountId = br_accountId row,
              sd_accountName = br_accountName row,
              sd_serviceName = br_serviceName row,
              sd_kilowattHours = fe_kilowattHours compute + fe_kilowattHours memory
                + fe_kilowattHours storage + fe_kilowattHours networking
                + fe_kilowattHours unknown + embodiedKwh,
              sd_co2e = fe_co2e compute + fe_co2e memory + fe_co2e storage + fe_co2e networking
                + fe_co2e unknown + embodiedCo2e,
              sd_cost = br_cost row,
              sd_region = br_region row,
              sd_usesAverageCPUConstant = False,
              sd_tags = None\<rparr>])))))"

text \<open>\<open>date.setMonth(date.getMonth() + 1)\<close> in UTC: a day that the next month has not is one of the month after.\<close>

definition add_month :: "date \<Rightarrow> date" where
  "add_month t =
     (case civil (day_number t) of
        (y, m, d) \<Rightarrow> (month_start (y * 12 + m) + d - 1) * ms_per_day + t mod ms_per_day)"

lemma add_month_eq:
  "add_month t = (month_start (month_of t + 1) + day_of_month t - 1) * ms_per_day + t mod ms_per_day"
  by (simp add: add_month_def month_of_def day_of_month_def split: prod.split)

lemma add_month_later: "t < add_month t"
proof -
  have "day_number t + 28 \<le> month_start (month_of t + 1) + day_of_month t - 1"
    using month_of_bounds(3) [of t] month_start_step [of "month_of t"] by linarith
  then have "(day_number t + 28) * ms_per_day
      \<le> (month_start (month_of t + 1) + day_of_month t - 1) * ms_per_day"
    by (rule mult_right_mono) (simp add: ms_per_day_def)
  moreover have "t = day_number t * ms_per_day + t mod ms_per_day" by (simp add: day_number_def)
  ultimately show ?thesis unfolding add_month_eq by (simp add: ms_per_day_def distrib_right)
qed

function ali_getDates :: "date \<Rightarrow> date \<Rightarrow> date list" where
  "ali_getDates currentDate endDate =
     (if currentDate \<le> endDate then currentDate # ali_getDates (add_month currentDate) endDate else [])"
  by pat_completeness auto
termination
  by (relation "measure (\<lambda>(t, e). nat (e - t + 1))") (use add_month_later in \<open>auto simp: add.commute\<close>)

declare ali_getDates.simps [simp del]

text \<open>\<open>moment(date).format('YYYY-MM')\<close>, for the years 0 to 9999.\<close>

definition billing_cycle :: "date \<Rightarrow> string" where
  "billing_cycle date = take 7 (iso_day date)"

definition getBill :: "ali_env \<Rightarrow> date \<Rightarrow> instance_bill result" where
  "getBill E date = ae_bill E (billing_cycle date)"

definition ali_date_step ::
    "ali_env \<Rightarrow> GroupBy \<Rightarrow> EstimationResult list \<Rightarrow> date \<Rightarrow> (kwh_store, EstimationResult list) eff" where
  "ali_date_step E grouping results date =
     bindE (liftE (getBill E date)) (\<lambda>bill.
       if ib_totalCount bill \<le> 0 then retE results
       else bindE (foldE (ali_item_step E) [] (ib_items bill)) (\<lambda>serviceEstimates.
         retE (results @ [\<lparr>er_timestamp = date, er_serviceEstimates = serviceEstimates,
                          er_periodStartDate = None, er_periodEndDate = None, er_groupBy = grouping\<rparr>])))"

definition AliCostAndUsageService_getEstimates ::
    "ali_env \<Rightarrow> date \<Rightarrow> date \<Rightarrow> GroupBy \<Rightarrow> (kwh_store, EstimationResult list) eff" where
  "AliCostAndUsageService_getEstimates E startDate endDate grouping =
     foldE (ali_date_step E grouping) [] (ali_getDates startDate endDate)"

text \<open>\<open>AliAccount.ts\<close>.\<close>

definition ali_getDataFromCostAndUsageReports ::
    "ali_env \<Rightarrow> date \<Rightarrow> date \<Rightarrow> GroupBy \<Rightarrow> (kwh_store, EstimationResult list) act" where
  "ali_getDataFromCostAndUsageReports E startDate endDate grouping =
     (\<lambda>g. Some (AliCostAndUsageService_getEstimates E startDate endDate grouping g))"

end
