(* ===== verification/Ali_Totals.thy ===== *)
theory Ali_Totals
  imports Ali_Service
begin

text \<open>
  What the estimates of the Ali bills come to: a computation without state, because nothing that Ali
  bills is estimated as storage, as networking or from the ledger.
\<close>

section \<open>Loops that only append\<close>

lemma foldE_pure:
  assumes step: "\<And>acc x g. P g \<Longrightarrow>
      (case h x of Inl e \<Rightarrow> \<exists>g'. f acc x g = (Inl e, g') \<and> P g'
       | Inr ys \<Rightarrow> \<exists>g'. f acc x g = (Inr (acc @ ys), g') \<and> P g')"
    and "P g"
  shows "case mapR h xs of Inl e \<Rightarrow> \<exists>g'. foldE f acc xs g = (Inl e, g') \<and> P g'
       | Inr yss \<Rightarrow> \<exists>g'. foldE f acc xs g = (Inr (acc @ concat yss), g') \<and> P g'"
  using assms(2)
proof (induction xs arbitrary: acc g)
  case Nil
  then show ?case by simp
next
  case (Cons x xs)
  show ?case
  proof (cases "h x")
    case (Inl e)
    then show ?thesis using step [OF Cons.prems, of acc x] by (auto simp: bindE_apply)
  next
    case (Inr ys)
    then obtain g' where g': "f acc x g = (Inr (acc @ ys), g')" "P g'"
      using step [OF Cons.prems, of acc x] by auto
    then show ?thesis
      using Cons.IH [OF g'(2), of "acc @ ys"] Inr by (auto simp: bindE_apply split: sum.splits)
  qed
qed

section \<open>The estimate of a row\<close>

definition ali_estimate :: "ali_env \<Rightarrow> AliCalculateRow \<Rightarrow> ServiceData" where
  "ali_estimate E row =
     (let compute = ali_getComputeFootprintEstimate E row (ali_getPUE None)
            ALI_EMISSIONS_FACTORS_METRIC_TON_PER_KWH;
          memory = ali_getMemoryFootprintEstimate row (ali_getPUE None)
            ALI_EMISSIONS_FACTORS_METRIC_TON_PER_KWH;
          embodied = ali_getEmbodiedEmissions row ALI_EMISSIONS_FACTORS_METRIC_TON_PER_KWH
      in \<lparr>sd_cloudProvider = ae_name E, sd_accountId = br_accountId row,
          sd_accountName = br_accountName row, sd_serviceName = br_serviceName row,
          sd_kilowattHours = fe_kilowattHours compute + fe_kilowattHours memory + fst embodied,
          sd_co2e = fe_co2e compute + fe_co2e memory + snd embodied,
          sd_cost = br_cost row, sd_region = br_region row, sd_usesAverageCPUConstant = False,
          sd_tags = None\<rparr>)"

definition ali_month :: "ali_env \<Rightarrow> GroupBy \<Rightarrow> date \<Rightarrow> EstimationResult list result" where
  "ali_month E grouping date =
     bindR (getBill E date) (\<lambda>bill.
       if ib_totalCount bill \<le> 0 then Inr []
       else bindR (mapR new_AliCalculateRow (ib_items bill)) (\<lambda>rows.
         Inr [\<lparr>er_timestamp = date, er_serviceEstimates = map (ali_estimate E) rows,
               er_periodStartDate = None, er_periodEndDate = None, er_groupBy = grouping\<rparr>]))"

definition ali_report :: "ali_env \<Rightarrow> date \<Rightarrow> date \<Rightarrow> GroupBy \<Rightarrow> EstimationResult list result" where
  "ali_report E s e grouping =
     bindR (mapR (ali_month E grouping) (ali_getDates s e)) (\<lambda>rss. Inr (concat rss))"

section \<open>The service computes it\<close>

abbreviation has_total :: "kwh_store \<Rightarrow> bool" where
  "has_total g \<equiv> obj_get g ''total'' \<noteq> None"

lemma ali_accumulateE_total:
  "has_total g \<Longrightarrow> \<exists>g'. ali_accumulateE row kwh g = (Inr (), g') \<and> has_total g'"
  using accumulate_eq [of g "ax_data row" kwh AK_USAGE_AMOUNT] by (auto simp: ali_accumulateE_def)

lemma ali_storage_zero:
  "has_total g \<Longrightarrow> \<exists>e g'. ali_getStorageFootprintEstimate row pue ef g = (Inr e, g') \<and> has_total g'
     \<and> fe_kilowattHours e = 0 \<and> fe_co2e e = 0"
  using ali_accumulateE_total [of g row "fe_kilowattHours (ali_storage_estimate row pue ef)"]
  by (auto simp: ali_getStorageFootprintEstimate_def bindE_apply ali_storage_estimate_def
      ali_isSSDStorage_def ali_isHDDStorage_def ali_SSD_MANAGED_DISKS_STORAGE_GB_def
      ali_HDD_MANAGED_DISKS_STORAGE_GB_def ali_STORAGE_USAGE_TYPES_def containsAny_def no_footprint_def
      obj_keys_def)

lemma ali_networking_zero:
  "has_total g \<Longrightarrow> \<exists>e g'. ali_getNetworkingFootprintEstimate row pue ef g = (Inr e, g') \<and> has_total g'
     \<and> fe_kilowattHours e = 0 \<and> fe_co2e e = 0"
  using ali_accumulateE_total [of g row "fe_kilowattHours (ali_networking_estimate row pue ef)"]
  by (auto simp: ali_getNetworkingFootprintEstimate_def bindE_apply ali_networking_estimate_def
      ali_NETWORKING_USAGE_TYPES_def containsAny_def no_footprint_def)

lemma ali_unknown_zero:
  "\<exists>e. ali_getEstimateForUnknownUsage row = retE e \<and> fe_kilowattHours e = 0 \<and> fe_co2e e = 0"
  unfolding ali_getEstimateForUnknownUsage_def
  by (rule exI, intro conjI, simp add: containsAny_def ali_UNKNOWN_SERVICES_def ali_UNKNOWN_USAGE_TYPES_def)
     simp_all

lemma ali_item_eq:
  assumes "has_total g"
  shows "case new_AliCalculateRow item of
           Inl e \<Rightarrow> ali_item_step E acc item g = (Inl e, g)
         | Inr row \<Rightarrow> \<exists>g'. ali_item_step E acc item g = (Inr (acc @ [ali_estimate E row]), g') \<and> has_total g'"
proof (cases "new_AliCalculateRow item")
  case (Inl e)
  then show ?thesis by (simp add: ali_item_step_def bindE_apply)
next
  case (Inr row)
  let ?F = ALI_EMISSIONS_FACTORS_METRIC_TON_PER_KWH and ?p = "ali_getPUE None"
  obtain s g1 where s: "ali_getStorageFootprintEstimate row ?p ?F g = (Inr s, g1)" "has_total g1"
      "fe_kilowattHours s = 0" "fe_co2e s = 0" using ali_storage_zero [OF assms] by blast
  obtain n g2 where n: "ali_getNetworkingFootprintEstimate row ?p ?F g1 = (Inr n, g2)" "has_total g2"
      "fe_kilowattHours n = 0" "fe_co2e n = 0" using ali_networking_zero [OF s(2)] by blast
  obtain u where u: "ali_getEstimateForUnknownUsage row = retE u" "fe_kilowattHours u = 0" "fe_co2e u = 0"
    using ali_unknown_zero by blast
  show ?thesis
    using s n u
    by (simp add: Inr ali_item_step_def bindE_apply Let_def case_prod_unfold ali_estimate_def)
qed

lemma ali_items_eq:
  assumes "has_total g"
  shows "case mapR new_AliCalculateRow items of
           Inl e \<Rightarrow> \<exists>g'. foldE (ali_item_step E) acc items g = (Inl e, g') \<and> has_total g'
         | Inr rows \<Rightarrow> \<exists>g'. foldE (ali_item_step E) acc items g = (Inr (acc @ map (ali_estimate E) rows), g')
             \<and> has_total g'"
  using assms
proof (induction items arbitrary: acc g)
  case Nil
  then show ?case by simp
next
  case (Cons item items)
  show ?case
  proof (cases "new_AliCalculateRow item")
    case (Inl e)
    then show ?thesis using ali_item_eq [OF Cons.prems, of E acc item] Cons.prems by (simp add: bindE_apply)
  next
    case (Inr row)
    then obtain g' where g': "ali_item_step E acc item g = (Inr (acc @ [ali_estimate E row]), g')" "has_total g'"
      using ali_item_eq [OF Cons.prems, of E acc item] by auto
    then show ?thesis
      using Cons.IH [OF g'(2), of "acc @ [ali_estimate E row]"] Inr
      by (auto simp: bindE_apply split: sum.splits)
  qed
qed

lemma ali_date_eq:
  assumes "has_total g"
  shows "case ali_month E grouping date of
           Inl e \<Rightarrow> \<exists>g'. ali_date_step E grouping acc date g = (Inl e, g') \<and> has_total g'
         | Inr rs \<Rightarrow> \<exists>g'. ali_date_step E grouping acc date g = (Inr (acc @ rs), g') \<and> has_total g'"
proof (cases "getBill E date")
  case (Inl e)
  then show ?thesis using assms by (simp add: ali_month_def ali_date_step_def bindE_apply)
next
  case (Inr bill)
  then show ?thesis
    using assms ali_items_eq [OF assms, of E "[]" "ib_items bill"]
    by (cases "mapR new_AliCalculateRow (ib_items bill)")
       (auto simp: ali_month_def ali_date_step_def bindE_apply)
qed

lemma ali_service_eq:
  assumes "has_total g"
  shows "\<exists>g'. AliCostAndUsageService_getEstimates E s e grouping g = (ali_report E s e grouping, g') \<and> has_total g'"
  using foldE_pure [where h = "ali_month E grouping" and f = "ali_date_step E grouping" and P = has_total and acc = "[]"
      and xs = "ali_getDates s e", OF ali_date_eq assms]
  by (cases "mapR (ali_month E grouping) (ali_getDates s e)")
     (auto simp: AliCostAndUsageService_getEstimates_def ali_report_def)

section \<open>The cost of a request\<close>

definition bill_cost :: "instance_bill \<Rightarrow> jsnum" where
  "bill_cost bill = (if ib_totalCount bill \<le> 0 then 0 else sum_list (map bi_cashAmount (ib_items bill)))"

lemma new_AliCalculateRow_cost: "new_AliCalculateRow item = Inr row \<Longrightarrow> br_cost row = bi_cashAmount item"
  by (auto simp: new_AliCalculateRow_def split: option.splits)

lemma ali_rows_cost:
  "mapR new_AliCalculateRow items = Inr rows \<Longrightarrow>
     se_total sd_cost (map (ali_estimate E) rows) = sum_list (map bi_cashAmount items)"
proof (induction items arbitrary: rows)
  case Nil
  then show ?case by simp
next
  case (Cons item items)
  then show ?case
    by (auto simp: bindR_eq_Inr_iff new_AliCalculateRow_cost ali_estimate_def Let_def)
qed

lemma ali_month_cost:
  assumes "ali_month E grouping date = Inr rs"
  obtains bill where "getBill E date = Inr bill" "er_total sd_cost rs = bill_cost bill"
proof -
  from assms obtain bill where b: "getBill E date = Inr bill" by (auto simp: ali_month_def bindR_eq_Inr_iff)
  with assms have "er_total sd_cost rs = bill_cost bill"
    using ali_rows_cost [of "ib_items bill" _ E]
    by (auto simp: ali_month_def bindR_eq_Inr_iff bill_cost_def er_total_def split: if_splits)
  with b that show thesis by blast
qed

lemma er_total_concats: "er_total f (concat rss) = sum_list (map (er_total f) rss)"
  by (induction rss) (auto simp: er_total_def)

text \<open>The amounts of the first pages of the bills of the months, as far as the request gets.\<close>

lemma ali_report_cost:
  assumes "ali_report E s e grouping = Inr rs"
  obtains bills where "mapR (getBill E) (ali_getDates s e) = Inr bills"
    "er_total sd_cost rs = sum_list (map bill_cost bills)"
proof -
  from assms obtain rss where rss: "mapR (ali_month E grouping) (ali_getDates s e) = Inr rss" "rs = concat rss"
    by (auto simp: ali_report_def bindR_eq_Inr_iff)
  have "\<exists>bills. mapR (getBill E) ds = Inr bills \<and> sum_list (map (er_total sd_cost) rss) = sum_list (map bill_cost bills)"
    if "mapR (ali_month E grouping) ds = Inr rss" for ds rss
    using that
  proof (induction ds arbitrary: rss)
    case Nil
    then show ?case by simp
  next
    case (Cons d ds)
    then obtain r rss' where r: "ali_month E grouping d = Inr r" "rss = r # rss'"
        "mapR (ali_month E grouping) ds = Inr rss'" by (auto simp: bindR_eq_Inr_iff)
    from ali_month_cost [OF r(1)] obtain bill where "getBill E d = Inr bill" "er_total sd_cost r = bill_cost bill" .
    with Cons.IH [OF r(3)] r(2) show ?case by auto
  qed
  from this [OF rss(1)] rss(2) that show thesis by (auto simp: er_total_concats)
qed

lemma ali_report_typed:
  assumes "ali_report E s e grouping = Inr rs"
  shows "list_all (result_typed grouping [ae_name E]) rs"
proof -
  have month: "list_all (result_typed grouping [ae_name E]) r" if "ali_month E grouping d = Inr r" for d r
    using that by (auto simp: ali_month_def bindR_eq_Inr_iff result_typed_def ali_estimate_def Let_def
        list_all_iff split: if_splits)
  from assms obtain rss where "mapR (ali_month E grouping) (ali_getDates s e) = Inr rss" "rs = concat rss"
    by (auto simp: ali_report_def bindR_eq_Inr_iff)
  moreover have "list_all (list_all (result_typed grouping [ae_name E])) rss"
    if "mapR (ali_month E grouping) ds = Inr rss" for ds rss
    using that by (induction ds arbitrary: rss) (auto simp: bindR_eq_Inr_iff month)
  ultimately show ?thesis by (auto simp: list_all_iff)
qed

end
