(* ===== verification/System_Billing.thy ===== *)
theory System_Billing
  imports App_Main Aws_Athena Gcp_Account Azure_Account Ali_Totals
begin

text \<open>
  The application together with the four providers, all of them reading billing data: the services
  of an account are those of the providers' packages, each on its own part of the module-level state.
  What the providers bill follows from what their clients answer.
\<close>

section \<open>The state and the services of all packages\<close>

record system_globals =
  sg_aws :: aws_globals
  sg_gcp :: gcp_globals
  sg_azure :: azure_globals
  sg_ali :: kwh_store

record system_env =
  sy_aws :: aws_env
  sy_athena :: athena_services
  sy_athenaConfig :: athena_config
  sy_gcp :: gcp_env
  sy_bigquery :: "string \<Rightarrow> bigquery"
  sy_gcpAccount :: CloudProviderAccount
  sy_azure :: azure_env
  sy_azureClients :: azure_clients
  sy_azureInit :: "(string \<times> string option) option \<Rightarrow> unit result"
  sy_ali :: ali_env

text \<open>An operation on a part of the state.\<close>

definition on_part :: "('s \<Rightarrow> 'p) \<Rightarrow> ('p \<Rightarrow> 's \<Rightarrow> 's) \<Rightarrow> ('p, 'a) act \<Rightarrow> ('s, 'a) act" where
  "on_part get put m = (\<lambda>s. map_option (\<lambda>(r, p). (r, put p s)) (m (get s)))"

definition always :: "('s, 'a) eff \<Rightarrow> ('s, 'a) act" where
  "always m = (\<lambda>s. Some (m s))"

text \<open>
  The accounts that read no billing data are those of \<open>S\<close>; the sign-in of Azure changes nothing here.
\<close>

definition system_services ::
    "system_env \<Rightarrow> system_globals account_services \<Rightarrow> system_globals account_services" where
  "system_services P S = S
     \<lparr>as_awsBilling := (\<lambda>s e grouping. on_part sg_aws (\<lambda>p g. g\<lparr>sg_aws := p\<rparr>)
        (getDataFromCostAndUsageReports (sy_aws P) (sy_athena P) (sy_athenaConfig P) s e grouping)),
      as_gcpBilling := (\<lambda>s e grouping. on_part sg_gcp (\<lambda>p g. g\<lparr>sg_gcp := p\<rparr>)
        (always (getDataFromBillingExportTable (sy_gcp P) (sy_bigquery P) (sy_gcpAccount P) s e grouping))),
      as_azureInit := (\<lambda>t g. Some (sy_azureInit P t, g)),
      as_azureConsumption := (\<lambda>accounts tenantId s e grouping. on_part sg_azure (\<lambda>p g. g\<lparr>sg_azure := p\<rparr>)
        (getDataFromConsumptionManagement (sy_azure P) (sy_azureClients P) s e grouping accounts tenantId)),
      as_ali := (\<lambda>s e grouping. on_part sg_ali (\<lambda>p g. g\<lparr>sg_ali := p\<rparr>)
        (ali_getDataFromCostAndUsageReports (sy_ali P) s e grouping))\<rparr>"

section \<open>What is billed\<close>

text \<open>The amount that a provider bills for a request; none when its data cannot be got.\<close>

definition aws_billed :: "system_env \<Rightarrow> app_request \<Rightarrow> jsnum option" where
  "aws_billed P q =
     (case getUsage (sy_aws P) (sy_athena P) (sy_athenaConfig P) (ar_startDate q) (ar_endDate q) (ar_groupBy q) of
        Some (Inr usageRows) \<Rightarrow>
          (case read_cells (sy_aws P) (drop 1 usageRows) of
             Inr rows \<Rightarrow> Some (sum_list (map br_cost (counted_rows rows)))
           | Inl _ \<Rightarrow> None)
      | _ \<Rightarrow> None)"

definition gcp_billed :: "system_env \<Rightarrow> app_request \<Rightarrow> jsnum option" where
  "gcp_billed P q =
     (case gcp_getUsage (sy_gcp P) (sy_bigquery P (ac_id (sy_gcpAccount P)))
             (ar_startDate q) (ar_endDate q) (ar_groupBy q) of
        Inr usageRows \<Rightarrow>
          (case mapR (gcp_read (sy_gcp P)) usageRows of
             Inr rows \<Rightarrow> Some (sum_list (map br_cost (gcp_counted_rows rows)))
           | Inl _ \<Rightarrow> None)
      | Inl _ \<Rightarrow> None)"

text \<open>A subscription whose usages cannot be fetched or read bills nothing.\<close>

definition subscription_billed :: "azure_env \<Rightarrow> azure_clients \<Rightarrow> app_request \<Rightarrow> subscription \<Rightarrow> jsnum" where
  "subscription_billed E S q subscription =
     (case getConsumptionUsageDetails E (sc_consumption S (sb_subscriptionId subscription))
             (ar_startDate q) (ar_endDate q) of
        Some (Inr usageRows) \<Rightarrow>
          (case mapR (azure_read E (ar_groupBy q))
                  (filter (in_range (ar_startDate q) (ar_endDate q)) usageRows) of
             Inr rows \<Rightarrow> sum_list (map br_cost (azure_counted_rows rows))
           | Inl _ \<Rightarrow> 0)
      | _ \<Rightarrow> 0)"

definition azure_billed :: "system_env \<Rightarrow> app_request \<Rightarrow> jsnum option" where
  "azure_billed P q =
     (case getSubscriptions (sy_azure P) (sy_azureClients P)
             (case ar_accounts q of None \<Rightarrow> [] | Some ids \<Rightarrow> ids) (ar_tenantId q) of
        Inr subscriptions \<Rightarrow>
          Some (sum_list (map (subscription_billed (sy_azure P) (sy_azureClients P) q) subscriptions))
      | Inl _ \<Rightarrow> None)"

definition ali_billed :: "system_env \<Rightarrow> app_request \<Rightarrow> jsnum option" where
  "ali_billed P q =
     (case mapR (getBill (sy_ali P)) (ali_getDates (ar_startDate q) (ar_endDate q)) of
        Inr bills \<Rightarrow> Some (sum_list (map bill_cost bills))
      | Inl _ \<Rightarrow> None)"

fun add_billed :: "jsnum option list \<Rightarrow> jsnum option" where
  "add_billed [] = Some 0"
| "add_billed (x # xs) =
     (case (x, add_billed xs) of (Some a, Some b) \<Rightarrow> Some (a + b) | _ \<Rightarrow> None)"

text \<open>The sum over the providers that the configuration includes and has billing data of.\<close>

definition system_billed :: "system_env \<Rightarrow> app_config \<Rightarrow> include_flags \<Rightarrow> app_request \<Rightarrow> jsnum option" where
  "system_billed P C fl q =
     add_billed
       [if inc_AWS fl then aws_billed P q else Some 0,
        if inc_GCP fl then gcp_billed P q else Some 0,
        if inc_AZURE fl \<and> cf_azureBilling C then azure_billed P q else Some 0,
        if inc_ALI fl \<and> nonempty (cf_aliAccessKeyId C) \<noteq> None then ali_billed P q else Some 0]"

section \<open>Facts\<close>

lemma on_part_Inr:
  "on_part get put m s = Some (Inr x, s') \<longleftrightarrow> (\<exists>p. m (get s) = Some (Inr x, p) \<and> s' = put p s)"
  by (auto simp: on_part_def)

lemma aws_billed_cost:
  assumes "getDataFromCostAndUsageReports (sy_aws P) (sy_athena P) (sy_athenaConfig P) (ar_startDate q)
      (ar_endDate q) (ar_groupBy q) g = Some (Inr es, g')"
    and "obj_get (ag_store g) ''total'' \<noteq> None"
  shows "aws_billed P q = Some (er_total sd_cost es)"
proof -
  from assms(1) obtain usageRows where rows: "getUsage (sy_aws P) (sy_athena P) (sy_athenaConfig P)
      (ar_startDate q) (ar_endDate q) (ar_groupBy q) = Some (Inr usageRows)"
    "estimates_of_rows (sy_aws P) (ar_groupBy q) usageRows g = (Inr es, g')"
    by (auto simp: getDataFromCostAndUsageReports_def CostAndUsageReports_getEstimates_def
        bindE_def liftE_def split: option.splits sum.splits)
  from report_cost [OF rows(2) assms(2)] rows(1) show ?thesis by (auto simp: aws_billed_def)
qed

lemma gcp_billed_cost:
  assumes "getDataFromBillingExportTable (sy_gcp P) (sy_bigquery P) (sy_gcpAccount P) (ar_startDate q)
      (ar_endDate q) (ar_groupBy q) g = (Inr es, g')"
    and "obj_get (gg_store g) ''total'' \<noteq> None"
  shows "gcp_billed P q = Some (er_total sd_cost es)"
proof -
  from assms(1) obtain usageRows where rows: "gcp_getUsage (sy_gcp P) (sy_bigquery P (ac_id (sy_gcpAccount P)))
      (ar_startDate q) (ar_endDate q) (ar_groupBy q) = Inr usageRows"
    "gcp_estimates_of_rows (sy_gcp P) (ar_groupBy q) usageRows g = (Inr es, g')"
    by (auto simp: getDataFromBillingExportTable_def BillingExportTable_getEstimates_def
        bindE_def liftE_def split: sum.splits)
  from gcp_report_cost [OF rows(2) assms(2)] rows(1) show ?thesis by (auto simp: gcp_billed_def)
qed

lemma ali_billed_cost:
  assumes "ali_getDataFromCostAndUsageReports (sy_ali P) (ar_startDate q) (ar_endDate q) (ar_groupBy q) g
      = Some (Inr es, g')" and "obj_get g ''total'' \<noteq> None"
  shows "ali_billed P q = Some (er_total sd_cost es)"
proof -
  from assms(1) have "ali_report (sy_ali P) (ar_startDate q) (ar_endDate q) (ar_groupBy q) = Inr es"
    using ali_service_eq [OF assms(2), of "sy_ali P" "ar_startDate q" "ar_endDate q" "ar_groupBy q"]
    by (auto simp: ali_getDataFromCostAndUsageReports_def)
  from ali_report_cost [OF this] show ?thesis by (metis ali_billed_def option.simps sum.case(2))
qed

text \<open>The runs of the subscriptions, where Azure needs no token to get its emissions factors.\<close>

lemma subscription_run:
  assumes "ze_token E = []" and "obj_get (zg_store g) ''total'' \<noteq> None"
    and "getDataForSubscription E S (ar_startDate q) (ar_endDate q) (sb_subscriptionId sub) (ar_groupBy q) g
      = Some (r, g')"
  shows "er_total sd_cost (case r of Inl _ \<Rightarrow> [] | Inr rs \<Rightarrow> rs) = subscription_billed E S q sub"
    and "obj_get (zg_store g') ''total'' \<noteq> None"
proof -
  let ?client = "sc_consumption S (sb_subscriptionId sub)" and ?s = "ar_startDate q" and ?e = "ar_endDate q"
  obtain res where res: "getConsumptionUsageDetails E ?client ?s ?e = Some res"
    using assms(3) by (auto simp: getDataForSubscription_def ConsumptionManagement_getEstimates_def
        split: option.splits)
  have "er_total sd_cost (case r of Inl _ \<Rightarrow> [] | Inr rs \<Rightarrow> rs) = subscription_billed E S q sub
      \<and> obj_get (zg_store g') ''total'' \<noteq> None"
  proof (cases res)
    case (Inl e)
    then show ?thesis
      using assms(2,3) res by (auto simp: getDataForSubscription_def ConsumptionManagement_getEstimates_def
          subscription_billed_def er_total_def)
  next
    case (Inr usageRows)
    then have run: "azure_estimates_of_rows E ?s ?e (ar_groupBy q) usageRows g = (r, g')"
      using assms(3) res by (simp add: getDataForSubscription_def ConsumptionManagement_getEstimates_def)
    have tot: "obj_get (zg_store g') ''total'' \<noteq> None"
      using azure_report_keeps_total [OF assms(1,2), of ?s ?e "ar_groupBy q" usageRows] run by simp
    let ?rows = "mapR (azure_read E (ar_groupBy q)) (filter (in_range ?s ?e) usageRows)"
    show ?thesis
    proof (cases r)
      case (Inr rs)
      from azure_report_cost [OF run [unfolded Inr] assms(2)] tot res \<open>res = Inr usageRows\<close> Inr
      show ?thesis by (auto simp: subscription_billed_def)
    next
      case (Inl e)
      have "?rows \<noteq> Inr rows" for rows
      proof
        assume "?rows = Inr rows"
        from mapR_member [OF this] azure_read_readable
        have "\<forall>u\<in>set (filter (in_range ?s ?e) usageRows). azure_readable u" by blast
        from azure_report_returns [OF assms(1) this assms(2), of "ar_groupBy q"] run Inl show False by auto
      qed
      then show ?thesis
        using tot res \<open>res = Inr usageRows\<close> Inl
        by (cases ?rows) (auto simp: subscription_billed_def er_total_def)
    qed
  qed
  then show "er_total sd_cost (case r of Inl _ \<Rightarrow> [] | Inr rs \<Rightarrow> rs) = subscription_billed E S q sub"
    "obj_get (zg_store g') ''total'' \<noteq> None" by blast+
qed

lemma subscription_runs_cost:
  assumes "ze_token E = []" and "obj_get (zg_store g) ''total'' \<noteq> None"
    and "request_runs (\<lambda>g sub. getDataForSubscription E S (ar_startDate q) (ar_endDate q)
           (sb_subscriptionId sub) (ar_groupBy q) g) g subs = Some (rss, g')"
  shows "er_total sd_cost (concat rss) = sum_list (map (subscription_billed E S q) subs)"
  using assms(2,3)
proof (induction subs arbitrary: g rss)
  case Nil
  then show ?case by (simp add: er_total_def)
next
  case (Cons sub subs)
  from Cons.prems(2) obtain r h rss' where r:
    "getDataForSubscription E S (ar_startDate q) (ar_endDate q) (sb_subscriptionId sub) (ar_groupBy q) g
       = Some (r, h)"
    "request_runs (\<lambda>g sub. getDataForSubscription E S (ar_startDate q) (ar_endDate q)
           (sb_subscriptionId sub) (ar_groupBy q) g) h subs = Some (rss', g')"
    "rss = (case r of Inl _ \<Rightarrow> [] | Inr rs \<Rightarrow> rs) # rss'"
    by (auto split: option.splits)
  note run = subscription_run [OF assms(1) Cons.prems(1) r(1)]
  have "er_total sd_cost (xs @ ys) = er_total sd_cost xs + er_total sd_cost ys" for xs ys
    by (simp add: er_total_def)
  with Cons.IH [OF run(2) r(2)] run(1) show ?case by (simp add: r(3))
qed

lemma consumption_runs:
  assumes "getDataFromConsumptionManagement E S s e grouping accounts tenantId g = Some (Inr rs, g')"
  obtains subs rss where
    "getSubscriptions E S (case accounts of None \<Rightarrow> [] | Some ids \<Rightarrow> ids) tenantId = Inr subs"
    "request_runs (\<lambda>g sub. getDataForSubscription E S s e (sb_subscriptionId sub) grouping g) g subs
      = Some (rss, g')" "rs = concat rss"
proof -
  from assms obtain subs where subs:
    "getSubscriptions E S (case accounts of None \<Rightarrow> [] | Some ids \<Rightarrow> ids) tenantId = Inr subs"
    by (auto simp: getDataFromConsumptionManagement_def split: sum.splits)
  with assms have "case ze_subscriptionChunks E of None \<Rightarrow> True | Some n \<Rightarrow> 0 \<le> n"
    by (auto simp: getDataFromConsumptionManagement_def chunk_requests_def split: option.splits if_splits)
  from assms [unfolded subscription_requests [OF subs this]] that [OF subs] show thesis by auto
qed

lemma azure_billed_cost:
  assumes "getDataFromConsumptionManagement (sy_azure P) (sy_azureClients P) (ar_startDate q) (ar_endDate q)
      (ar_groupBy q) (ar_accounts q) (ar_tenantId q) g = Some (Inr es, g')"
    and "obj_get (zg_store g) ''total'' \<noteq> None" and "ze_token (sy_azure P) = []"
  shows "azure_billed P q = Some (er_total sd_cost es)"
proof -
  obtain subs rss where
    subs: "getSubscriptions (sy_azure P) (sy_azureClients P)
      (case ar_accounts q of None \<Rightarrow> [] | Some ids \<Rightarrow> ids) (ar_tenantId q) = Inr subs"
    and runs: "request_runs (\<lambda>g sub. getDataForSubscription (sy_azure P) (sy_azureClients P) (ar_startDate q)
      (ar_endDate q) (sb_subscriptionId sub) (ar_groupBy q) g) g subs = Some (rss, g')" "es = concat rss"
    by (rule consumption_runs [OF assms(1)])
  from subscription_runs_cost [OF assms(3,2) runs(1)] show ?thesis
    unfolding azure_billed_def subs runs(2) by simp
qed

text \<open>What the providers answer to a request costs what they bill.\<close>

lemma provider_estimates_cost:
  assumes "provider_estimates (system_services P S) C fl q g = Some (Inr es, g')"
    and "inc_AWS fl \<longrightarrow> cf_awsBilling C" and "inc_GCP fl \<longrightarrow> cf_gcpBilling C"
    and "ze_token (sy_azure P) = []"
    and "obj_get (ag_store (sg_aws g)) ''total'' \<noteq> None" and "obj_get (gg_store (sg_gcp g)) ''total'' \<noteq> None"
    and "obj_get (zg_store (sg_azure g)) ''total'' \<noteq> None" and "obj_get (sg_ali g) ''total'' \<noteq> None"
  shows "system_billed P C fl q = Some (er_total sd_cost es)"
proof -
  from assms(1) obtain aws gcp azure ali g1 g2 g3 where parts:
    "aws_estimates (system_services P S) C fl q g = Some (Inr aws, g1)"
    "gcp_estimates (system_services P S) C fl q g1 = Some (Inr gcp, g2)"
    "azure_estimates (system_services P S) C fl q g2 = Some (Inr azure, g3)"
    "ali_estimates (system_services P S) C fl q g3 = Some (Inr ali, g')"
    "es = concat aws @ concat gcp @ concat azure @ concat ali" by (rule provider_estimates_parts)
  have aws: "(if inc_AWS fl then aws_billed P q else Some 0) = Some (er_total sd_cost (concat aws))"
    "sg_gcp g1 = sg_gcp g \<and> sg_azure g1 = sg_azure g \<and> sg_ali g1 = sg_ali g"
    using parts(1) assms(2) aws_billed_cost [OF _ assms(5), of P q]
    by (auto simp: aws_estimates_def system_services_def bindA_eq_Inr on_part_Inr er_total_def
        split: if_splits)
  have gcp: "(if inc_GCP fl then gcp_billed P q else Some 0) = Some (er_total sd_cost (concat gcp))"
    "sg_azure g2 = sg_azure g1 \<and> sg_ali g2 = sg_ali g1"
    using parts(2) assms(3) aws(2) gcp_billed_cost [OF _ assms(6), of P q]
    by (auto simp: gcp_estimates_def system_services_def bindA_eq_Inr on_part_Inr er_total_def always_def
        split: if_splits)
  have azure: "(if inc_AZURE fl \<and> cf_azureBilling C then azure_billed P q else Some 0)
      = Some (er_total sd_cost (concat azure))" "sg_ali g3 = sg_ali g2"
    using parts(3) aws(2) gcp(2) azure_billed_cost [OF _ assms(7,4), of q]
    by (auto simp: azure_estimates_def system_services_def bindA_eq_Inr on_part_Inr er_total_def
        split: if_splits)
  have ali: "(if inc_ALI fl \<and> nonempty (cf_aliAccessKeyId C) \<noteq> None then ali_billed P q else Some 0)
      = Some (er_total sd_cost (concat ali))"
    using parts(4) aws(2) gcp(2) azure(2) ali_billed_cost [OF _ assms(8), of P q]
    by (auto simp: ali_estimates_def system_services_def bindA_eq_Inr on_part_Inr er_total_def
        split: if_splits)
  show ?thesis
    unfolding system_billed_def aws(1) gcp(1) azure(1) ali parts(5) by (simp add: er_total_def)
qed

section \<open>What is answered\<close>

text \<open>The providers of a system, with the name of Ali in the configuration.\<close>

definition system_providers :: "system_env \<Rightarrow> string list" where
  "system_providers P = [''AWS'', ''GCP'', ''AZURE'', ae_name (sy_ali P)]"

text \<open>An answered period is that of its instant in the grouping of the request.\<close>

definition answer_typed :: "moment_ops \<Rightarrow> GroupBy \<Rightarrow> string list \<Rightarrow> EstimationResult \<Rightarrow> bool" where
  "answer_typed M grouping providers r \<longleftrightarrow> result_typed grouping providers r
     \<and> er_periodStartDate r = Some (er_timestamp r)
     \<and> er_periodEndDate r = Some (getPeriodEndDate M (er_timestamp r) grouping)"

lemma typed_weaken:
  "list_all (result_typed g [p]) rs \<Longrightarrow> p \<in> set ps \<Longrightarrow> list_all (result_typed g ps) rs"
  by (auto simp: list_all_iff result_typed_def)

lemma request_runs_typed:
  assumes "ze_token E = []" and "obj_get (zg_store g) ''total'' \<noteq> None"
    and "request_runs (\<lambda>g sub. getDataForSubscription E S s e (sb_subscriptionId sub) grouping g) g subs
      = Some (rss, g')"
  shows "list_all (result_typed grouping [''AZURE'']) (concat rss)"
  using assms(2,3)
proof (induction subs arbitrary: g rss)
  case Nil
  then show ?case by simp
next
  case (Cons sub subs)
  from Cons.prems(2) obtain r h rss' where r:
    "getDataForSubscription E S s e (sb_subscriptionId sub) grouping g = Some (r, h)"
    "request_runs (\<lambda>g sub. getDataForSubscription E S s e (sb_subscriptionId sub) grouping g) h subs
      = Some (rss', g')"
    "rss = (case r of Inl _ \<Rightarrow> [] | Inr rs \<Rightarrow> rs) # rss'"
    by (auto split: option.splits)
  have "list_all (result_typed grouping [''AZURE'']) (case r of Inl _ \<Rightarrow> [] | Inr rs \<Rightarrow> rs)
      \<and> obj_get (zg_store h) ''total'' \<noteq> None"
  proof (cases "getConsumptionUsageDetails E (sc_consumption S (sb_subscriptionId sub)) s e")
    case None
    then show ?thesis using r(1) by (simp add: getDataForSubscription_def ConsumptionManagement_getEstimates_def)
  next
    case (Some res)
    show ?thesis
    proof (cases res)
      case (Inl er)
      then show ?thesis
        using r(1) Some Cons.prems(1)
        by (auto simp: getDataForSubscription_def ConsumptionManagement_getEstimates_def)
    next
      case (Inr usageRows)
      then have run: "azure_estimates_of_rows E s e grouping usageRows g = (r, h)"
        using r(1) Some by (simp add: getDataForSubscription_def ConsumptionManagement_getEstimates_def)
      then show ?thesis
        using azure_report_keeps_total [OF assms(1) Cons.prems(1), of s e grouping usageRows]
          azure_report_typed [OF _ Cons.prems(1)]
        by (cases r) auto
    qed
  qed
  with Cons.IH [OF _ r(2)] show ?case by (simp add: r(3))
qed

lemma aws_data_typed:
  assumes "getDataFromCostAndUsageReports E Sv Cf s e grouping g = Some (Inr rs, h)"
    and "obj_get (ag_store g) ''total'' \<noteq> None"
  shows "list_all (result_typed grouping [''AWS'']) rs"
proof -
  from assms(1) obtain usageRows where "estimates_of_rows E grouping usageRows g = (Inr rs, h)"
    by (auto simp: getDataFromCostAndUsageReports_def CostAndUsageReports_getEstimates_def
        bindE_def liftE_def split: option.splits sum.splits)
  then show ?thesis using assms(2) by (rule report_typed)
qed

lemma gcp_data_typed:
  assumes "getDataFromBillingExportTable E B account s e grouping g = (Inr rs, h)"
    and "obj_get (gg_store g) ''total'' \<noteq> None"
  shows "list_all (result_typed grouping [''GCP'']) rs"
proof -
  from assms(1) obtain usageRows where "gcp_estimates_of_rows E grouping usageRows g = (Inr rs, h)"
    by (auto simp: getDataFromBillingExportTable_def BillingExportTable_getEstimates_def
        bindE_def liftE_def split: sum.splits)
  then show ?thesis using assms(2) by (rule gcp_report_typed)
qed

lemma provider_estimates_typed:
  assumes "provider_estimates (system_services P S) C fl q g = Some (Inr es, g')"
    and "inc_AWS fl \<longrightarrow> cf_awsBilling C" and "inc_GCP fl \<longrightarrow> cf_gcpBilling C"
    and "ze_token (sy_azure P) = []"
    and "obj_get (ag_store (sg_aws g)) ''total'' \<noteq> None" and "obj_get (gg_store (sg_gcp g)) ''total'' \<noteq> None"
    and "obj_get (zg_store (sg_azure g)) ''total'' \<noteq> None" and "obj_get (sg_ali g) ''total'' \<noteq> None"
  shows "list_all (result_typed (ar_groupBy q) (system_providers P)) es"
proof -
  let ?T = "list_all (result_typed (ar_groupBy q) (system_providers P))"
  from assms(1) obtain aws gcp azure ali g1 g2 g3 where parts:
    "aws_estimates (system_services P S) C fl q g = Some (Inr aws, g1)"
    "gcp_estimates (system_services P S) C fl q g1 = Some (Inr gcp, g2)"
    "azure_estimates (system_services P S) C fl q g2 = Some (Inr azure, g3)"
    "ali_estimates (system_services P S) C fl q g3 = Some (Inr ali, g')"
    "es = concat aws @ concat gcp @ concat azure @ concat ali" by (rule provider_estimates_parts)
  have ps: "''AWS'' \<in> set (system_providers P)" "''GCP'' \<in> set (system_providers P)"
    by (simp_all add: system_providers_def)
  have aws: "?T (concat aws)" "sg_gcp g1 = sg_gcp g \<and> sg_azure g1 = sg_azure g \<and> sg_ali g1 = sg_ali g"
    using parts(1) assms(2) typed_weaken [OF aws_data_typed [OF _ assms(5)] ps(1)]
    by (auto simp: aws_estimates_def system_services_def bindA_eq_Inr on_part_Inr split: if_splits)
  have "obj_get (gg_store (sg_gcp g1)) ''total'' \<noteq> None" using assms(6) aws(2) by simp
  then have gcp: "?T (concat gcp)" "sg_azure g2 = sg_azure g1 \<and> sg_ali g2 = sg_ali g1"
    using parts(2) assms(3) typed_weaken [OF gcp_data_typed ps(2)]
    by (auto simp: gcp_estimates_def system_services_def bindA_eq_Inr on_part_Inr always_def split: if_splits)
  have azure: "?T (concat azure)" "sg_ali g3 = sg_ali g2"
  proof -
    have typed: "?T rs" if run: "getDataFromConsumptionManagement (sy_azure P) (sy_azureClients P) s e
        (ar_groupBy q) accounts tenantId (sg_azure g2) = Some (Inr rs, h)" for s e accounts tenantId rs h
    proof (rule consumption_runs [OF run])
      fix subs rss
      assume runs: "request_runs (\<lambda>g sub. getDataForSubscription (sy_azure P) (sy_azureClients P) s e
          (sb_subscriptionId sub) (ar_groupBy q) g) (sg_azure g2) subs = Some (rss, h)" and "rs = concat rss"
      have "obj_get (zg_store (sg_azure g2)) ''total'' \<noteq> None" using assms(7) aws(2) gcp(2) by simp
      from request_runs_typed [OF assms(4) this runs] show "?T rs"
        unfolding \<open>rs = concat rss\<close> by (rule typed_weaken) (simp add: system_providers_def)
    qed
    show "?T (concat azure)" "sg_ali g3 = sg_ali g2"
      using parts(3) typed
      by (auto simp: azure_estimates_def system_services_def bindA_eq_Inr on_part_Inr split: if_splits)
  qed
  have ali: "?T (concat ali)"
  proof (cases "inc_ALI fl \<and> nonempty (cf_aliAccessKeyId C) \<noteq> None")
    case True
    have "obj_get (sg_ali g3) ''total'' \<noteq> None" using assms(8) aws(2) gcp(2) azure(2) by simp
    from ali_service_eq [OF this, of "sy_ali P" "ar_startDate q" "ar_endDate q" "ar_groupBy q"] parts(4) True
    obtain rs where "ali = [rs]" "ali_report (sy_ali P) (ar_startDate q) (ar_endDate q) (ar_groupBy q) = Inr rs"
      by (auto simp: ali_estimates_def system_services_def bindA_eq_Inr on_part_Inr
          ali_getDataFromCostAndUsageReports_def)
    then show ?thesis
      using typed_weaken [OF ali_report_typed, of "sy_ali P" _ _ _ rs "system_providers P"]
      by (simp add: system_providers_def)
  next
    case False
    then show ?thesis using parts(4) by (auto simp: ali_estimates_def split: if_splits)
  qed
  show ?thesis using aws(1) gcp(1) azure(1) ali by (simp add: parts(5))
qed

lemma merge_groups_typed:
  assumes "list_all (result_typed grouping ps) rs"
  shows "list_all (answer_typed M grouping ps) (merge_groups M rs)"
proof -
  have "answer_typed M grouping ps (merged M (filter (\<lambda>r. iso_key r = k) rs))"
    if "k \<in> set (first_occurrences [] (map iso_key rs))" for k
  proof -
    let ?f = "filter (\<lambda>r. iso_key r = k) rs"
    have "?f \<noteq> []" using that by (auto simp: set_first_occurrences filter_empty_conv)
    then have "hd ?f \<in> set rs" using hd_in_set [of ?f] by simp
    with assms show ?thesis
      by (auto simp: answer_typed_def result_typed_def merged_def list_all_iff)
  qed
  then show ?thesis by (simp add: merge_groups_def list_all_iff)
qed

end
