(* ===== verification/Aws_Properties.thy ===== *)
theory Aws_Properties
  imports Aws_Totals Aws_Athena
begin

text \<open>
  The properties of the AWS package: the estimates of a cost and usage report, the rows it reads,
  the Athena query that yields them and the regions of an account. The witnesses run on a report
  of two rows of one day, a job of AWS Glue and requests of an unknown unit.
\<close>

section \<open>Inputs of the witnesses\<close>

definition glue_env :: aws_env where
  "glue_env = \<lparr>aw_moment = moment_documented, aw_median = median_documented, aw_token = [],
     aw_http = (\<lambda>_. Inr None), aw_tagNames = [''user:team''], aw_accounts = NotAnArray, aw_now = 0\<rparr>"

definition glue_start :: aws_globals where
  "glue_start = \<lparr>ag_store = initial_store,
     ag_factors = \<lparr>zoneIntensityFactors = [], requests = []\<rparr>\<rparr>"

definition glue_cells :: "string \<Rightarrow> string \<Rightarrow> string \<Rightarrow> string \<Rightarrow> athena_row" where
  "glue_cells usageType usageUnit usageAmount cost =
     [Some ''2023-01-05'', Some ''a1'', Some ''us-east-1'', Some ''AWSGlue'', Some usageType,
      Some usageUnit, Some '''', Some usageAmount, Some cost, Some ''red'']"

definition glue_report :: "athena_row list" where
  "glue_report = [[], glue_cells ''USE1-ETL-DPU-Hour'' ''DPU-Hour'' ''10'' ''4.5'',
     glue_cells ''USE1-Catalog-Request'' ''Request'' ''7'' ''1.5'']"

definition glue_row :: "string \<Rightarrow> string \<Rightarrow> jsnum \<Rightarrow> jsnum \<Rightarrow> jsnum \<Rightarrow> BillingDataRow" where
  "glue_row usageType usageUnit usageAmount vCpuHours cost =
     \<lparr>br_serviceName = ''AWSGlue'', br_accountId = ''a1'', br_accountName = ''a1'',
      br_usageAmount = usageAmount, br_usageType = usageType, br_usageUnit = usageUnit,
      br_cost = cost, br_region = ''us-east-1'', br_cloudProvider = ''AWS'',
      br_timestamp = Some 1672876800000, br_vCpus = None, br_vCpuHours = vCpuHours,
      br_gpuHours = Fin 0, br_instanceType = usageType, br_replicationFactor = Fin 1,
      br_tags = Some [(''user:team'', Some ''red'')]\<rparr>"

definition glue_rows :: "BillingDataRow list" where
  "glue_rows = [glue_row ''USE1-ETL-DPU-Hour'' ''DPU-Hour'' (Fin 10) (Fin 40) (Fin (9 / 2)),
     glue_row ''USE1-Catalog-Request'' ''Request'' (Fin 7) (Fin 28) (Fin (3 / 2))]"

lemma glue_convert:
  "convertAthenaRowToCostAndUsageReportsRow (glue_report ! Suc 0) [''user:team''] [] = Inr (glue_rows ! 0)"
  "convertAthenaRowToCostAndUsageReportsRow (glue_report ! 2) [''user:team''] [] = Inr (glue_rows ! 1)"
  by code_simp+

lemma glue_total: "obj_get (ag_store glue_start) ''total'' \<noteq> None"
  by (simp add: glue_start_def initial_store_def)

lemma glue_tags: "aw_tagNames glue_env = [''user:team'']" "account_names (aw_accounts glue_env) = []"
  "aw_token glue_env = []"
  by (simp_all add: glue_env_def account_names_def)

lemma glue_drop: "drop (Suc 0) glue_report = [glue_report ! Suc 0, glue_report ! 2]"
  by (simp add: glue_report_def)

lemma glue_read: "read_cells glue_env (drop (Suc 0) glue_report) = Inr glue_rows"
  unfolding glue_drop by (simp add: read_cells_def glue_tags glue_convert) (simp add: glue_rows_def)

lemma glue_readable: "\<forall>c\<in>set (drop (Suc 0) glue_report). readable glue_env c"
  unfolding glue_drop
  by (simp add: readable_def glue_tags glue_convert) (simp add: glue_rows_def glue_row_def)

lemma glue_counted: "counted_rows glue_rows = glue_rows"
  by code_simp

section \<open>The estimates of a report\<close>

text \<open>C6. A report whose rows have a readable date and all their columns returns: without an
  Electricity Maps token \<open>getEstimates\<close> throws in no branch, whatever the ledger has recorded
  before.\<close>

theorem report_always_returns:
  assumes "aw_token E = []" and "\<forall>c\<in>set (drop 1 usageRows). readable E c"
    and "obj_get (ag_store g) ''total'' \<noteq> None"
  shows "\<exists>rs g'. estimates_of_rows E grouping usageRows g = (Inr rs, g')"
  using assms by (rule report_returns)

theorem report_always_returns_witness:
  "\<exists>rs g'. estimates_of_rows glue_env day glue_report glue_start = (Inr rs, g')"
  using report_always_returns [of glue_env glue_report glue_start day] glue_tags(3) glue_readable glue_total
  by simp

text \<open>The run of the witnesses: it returns, by the same lemma.\<close>

lemma glue_run: "\<exists>rs g'. estimates_of_rows glue_env day glue_report glue_start = (Inr rs, g')"
  using report_returns [of glue_env glue_report glue_start day] glue_tags(3) glue_readable glue_total
  by simp

text \<open>C5. The costs of the estimates of a report add up to the costs of the rows it counts: the rows
  with an estimate and, when there is any, the rows of unknown usage; every counted row contributes
  once and the unsupported rows nothing.\<close>

theorem report_conserves_cost:
  assumes "estimates_of_rows E grouping usageRows g = (Inr rs, g')"
    and "obj_get (ag_store g) ''total'' \<noteq> None"
  shows "\<exists>rows. read_cells E (drop 1 usageRows) = Inr rows
    \<and> er_total sd_cost rs = sum_list (map br_cost (counted_rows rows))"
  using assms by (rule report_cost)

theorem report_conserves_cost_witness:
  "\<exists>rs g'. estimates_of_rows glue_env day glue_report glue_start = (Inr rs, g')
     \<and> er_total sd_cost rs = Fin 6"
proof -
  obtain rs g' where run: "estimates_of_rows glue_env day glue_report glue_start = (Inr rs, g')"
    using glue_run by blast
  from report_conserves_cost [OF run glue_total]
  have "er_total sd_cost rs = sum_list (map br_cost glue_rows)"
    by (simp add: glue_read glue_counted)
  then show ?thesis using run by (simp add: glue_rows_def glue_row_def jsnum_simps)
qed

text \<open>In the result of a report no day has two entries for the same region, service, account and
  tags, and no two results have the same day.\<close>

theorem report_groups_are_unique:
  assumes "estimates_of_rows E grouping usageRows g = (Inr rs, g')"
    and "obj_get (ag_store g) ''total'' \<noteq> None"
  shows "results_ok (aw_tagNames E) rs"
  using assms by (rule report_results_ok)

theorem report_groups_are_unique_witness:
  "\<exists>rs g'. estimates_of_rows glue_env day glue_report glue_start = (Inr rs, g')
     \<and> results_ok [''user:team''] rs"
proof -
  obtain rs g' where run: "estimates_of_rows glue_env day glue_report glue_start = (Inr rs, g')"
    using glue_run by blast
  from report_groups_are_unique [OF run glue_total] run show ?thesis by (auto simp: glue_tags)
qed



text \<open>A row is deferred to the unknown usages exactly when its type or unit is unknown and its
  type is supported; otherwise it has an estimate exactly when its unit and type say so: always
  for compute and Lambda units, for storage units when the type is SSD or HDD, for transfer units
  when the type is networking.\<close>

theorem row_is_deferred_or_estimated:
  assumes "obj_get (ag_store g) ''total'' \<noteq> None"
  shows "\<exists>fe g'. getFootprintEstimateFromUsageRow E row us ef g
        = (Inr (fe, if deferred row then us @ [row] else us), g')
      \<and> (fe \<noteq> None \<longleftrightarrow> yields_estimate row) \<and> \<not> (deferred row \<and> yields_estimate row)"
  using getFootprintEstimateFromUsageRow_eq [OF assms, of E row us ef] row_outcome_Some [of E row ef]
  by (auto simp: deferred_def yields_estimate_def estimable_def)

theorem row_is_deferred_or_estimated_witness:
  "\<exists>fe g'. getFootprintEstimateFromUsageRow glue_env (glue_rows ! 1) [] [] glue_start
     = (Inr (fe, [glue_rows ! 1]), g') \<and> fe = None"
proof -
  have "deferred (glue_rows ! 1)" by code_simp
  then show ?thesis
    using row_is_deferred_or_estimated [OF glue_total, of glue_env "glue_rows ! 1" "[]" "[]"] by auto
qed

text \<open>A compute row without a usable number of vCPU hours (\<open>NaN\<close>, the value for an instance type
  the tables lack) is estimated at 0 kilowatt hours but at \<open>NaN\<close> emissions, and the ledger is left
  as it was.\<close>

theorem missing_vcpu_hours_give_NaN_emissions:
  assumes "obj_get (ag_store g) ''total'' \<noteq> None" and "estimable row"
    and "known_unit (br_usageUnit row) = Some u" and "kind_of u = ComputeUnit"
    and "br_vCpuHours row = NaN"
  shows "\<exists>e. getFootprintEstimateFromUsageRow E row us ef g = (Inr (Some e, us), g)
      \<and> fe_kilowattHours e = 0 \<and> fe_co2e e = NaN"
proof -
  have "ed_vCpuHours (row_data row) = NaN" using assms(5) by (simp add: row_data_def)
  note nan = aws_computeFootprint_NaN [OF this, of "aw_median E" ef]
  have "row_outcome E row ef = compute_outcome E row ef"
    using assms(2-4) by (simp add: row_outcome_def)
  moreover have "\<not> deferred row" using assms(2) by (auto simp: estimable_def deferred_def)
  ultimately show ?thesis
    using getFootprintEstimateFromUsageRow_eq [OF assms(1), of E row us ef] nan
    by (simp add: compute_outcome_def Let_def store_after_def isNaN_def)
qed

definition unlisted_instance :: BillingDataRow where
  "unlisted_instance = glue_row ''BoxUsage:zz9.large'' ''Hrs'' (Fin 24) NaN (Fin 2)"

theorem missing_vcpu_hours_give_NaN_emissions_witness:
  "\<exists>e. getFootprintEstimateFromUsageRow glue_env unlisted_instance [] [] glue_start
     = (Inr (Some e, []), glue_start) \<and> fe_kilowattHours e = 0 \<and> fe_co2e e = NaN"
proof -
  have "estimable unlisted_instance" "known_unit (br_usageUnit unlisted_instance) = Some HOURS_1"
    by code_simp+
  then show ?thesis
    using missing_vcpu_hours_give_NaN_emissions [OF glue_total, of unlisted_instance HOURS_1 glue_env "[]" "[]"]
    by (simp add: unlisted_instance_def glue_row_def)
qed

section \<open>The rows\<close>

text \<open>Every storage replication factor of a row is one of 1, 2, 3 and 6, whatever its service and
  usage type.\<close>

theorem replication_factors_are_small:
  "getReplicationFactor serviceName usageType \<in> {Fin 1, Fin 2, Fin 3, Fin 6}"
  by (rule replication_factor_values)

text \<open>The vCPU hours of a Redshift node of two vCPUs are the usage times two divided by 3600, also
  when the usage is in hours, and when it is in seconds they are divided by 3600 twice.\<close>

theorem redshift_hours_are_divided_again:
  "br_vCpuHours (CostAndUsageReportsRow t ai an r ''AmazonRedshift'' ''Node:dc2.large'' unit None
       (Fin a) c tags)
     = Fin (a * 2 / 3600 / (if unit = usage_unit_name SECONDS_1 then 3600 else 1))"
proof -
  have facts: "extractInstanceTypeFromUsageType ''Node:dc2.large'' = ''dc2.large''"
    "extractVCpuFromInstanceType ''AmazonRedshift'' ''Node:dc2.large'' ''dc2.large'' = Some (Fin (2 / 3600))"
    "\<not> str_includes ''Node:dc2.large'' ''Aurora:ServerlessUsage''"
    "\<not> containsAny [''Fargate-vCPU-Hours'', ''CPUCredits''] ''Node:dc2.large''"
    "\<not> containsAny (obj_keys BURSTABLE_INSTANCE_BASELINE_UTILIZATION) ''Node:dc2.large''"
    "parseInstanceTypeFromUsageType ''Node:dc2.large'' = (''Node:dc2.large'', ''dc2.large'')"
    by code_simp+
  have "getVCpuHours ''AmazonRedshift'' ''Node:dc2.large'' x None = Fin (2 / 3600) * x" for x
    by (simp add: getVCpuHours_def facts truthy_opt_def)
  then show ?thesis
    by (simp add: CostAndUsageReportsRow_def cleanUsageAmount_def isRedshiftComputeUsage_def
        facts jsnum_simps Let_def)
qed

text \<open>For the instances of a family outside the EC2 table the scope 3 emissions read are the
  gigabytes of memory: 6144 for \<open>u-6tb1.metal\<close>, whose entry has 35.762264 after the memory.\<close>

theorem scope3_of_high_memory_is_its_memory:
  "getDataFromInstanceType ''u-6tb1.metal'' = (Some 448, Some 6144, Some 448)
   \<and> instance_data INSTANCE_FAMILY_TO_INSTANCE_TYPE_MAPPING (Some ''u-6tb1'') (Some ''metal'')
       = Some [448, 6144, 35762264 / 1000000]"
  by (rule conjI) code_simp+

section \<open>The Athena query\<close>

text \<open>Polling returns exactly the first conclusive status: it returns \<open>r\<close> if and only if some
  poll has the outcome \<open>r\<close> (a request that fails, \<open>FAILED\<close> or \<open>SUCCEEDED\<close>) and no poll before it
  has an outcome.\<close>

theorem polling_returns_first_outcome:
  "pollQuery status i n = Some r \<longleftrightarrow>
     (\<exists>d. poll_outcome status i (n + d) = Some r \<and> (\<forall>j<d. poll_outcome status i (n + j) = None))"
proof
  assume "pollQuery status i n = Some r"
  from pollQuery_sound [OF this] obtain k where k: "n \<le> k" "poll_outcome status i k = Some r"
    "\<forall>j. n \<le> j \<and> j < k \<longrightarrow> poll_outcome status i j = None" by blast
  then show "\<exists>d. poll_outcome status i (n + d) = Some r \<and> (\<forall>j<d. poll_outcome status i (n + j) = None)"
    by (intro exI [of _ "k - n"]) auto
next
  assume "\<exists>d. poll_outcome status i (n + d) = Some r \<and> (\<forall>j<d. poll_outcome status i (n + j) = None)"
  then show "pollQuery status i n = Some r" using pollQuery_complete by blast
qed

theorem polling_returns_first_outcome_witness:
  "pollQuery (\<lambda>n. Inr \<lparr>qs_State = (if n < 2 then ''RUNNING'' else ''SUCCEEDED''), qs_StateChangeReason = []\<rparr>)
     ''q1'' 0 = Some (Inr 2)"
  by (subst polling_returns_first_outcome) (rule exI [of _ 2], simp add: poll_outcome_def)

text \<open>C38. A query that Athena cancels is polled forever: if every status from the first poll on is
  \<open>CANCELLED\<close> (or a running state), the rows of the query are never returned and no error is
  raised.\<close>

theorem cancelled_query_never_returns:
  assumes "\<forall>k. \<exists>q. as_status S i k = Inr q \<and> qs_State q \<notin> {''FAILED'', ''SUCCEEDED''}"
  shows "getQueryResultSetRows S i = None"
proof -
  have "poll_outcome (as_status S i) i k = None" for k
    using assms [rule_format, of k] by (auto simp: poll_outcome_def)
  then show ?thesis
    using pollQuery_diverges [of "as_status S i" i 0] by (simp add: getQueryResultSetRows_def)
qed

theorem cancelled_query_never_returns_witness:
  "getQueryResultSetRows
     \<lparr>as_table = (\<lambda>_ _. Inr None), as_start = (\<lambda>_. Inr ''q1''),
      as_status = (\<lambda>_ _. Inr \<lparr>qs_State = ''CANCELLED'', qs_StateChangeReason = ''by user''\<rparr>),
      as_results = (\<lambda>_ _. Inr ([], None))\<rparr> ''q1'' = None"
  by (rule cancelled_query_never_returns) simp

text \<open>Paging collects every page in order: when the tokens of the service end, the result is the
  whole chain of its pages.\<close>

theorem paging_collects_all_pages:
  assumes "page_chain fetch token pages"
  shows "paginate fetch [] token = Some (Inr pages)"
  using paginate_chain [OF assms, of "[]"] by simp

theorem paging_collects_all_pages_witness:
  "paginate (\<lambda>t. if t = None then Inr (1 :: int, Some ''b'') else Inr (2, None)) [] None
     = Some (Inr [1, 2])"
  by (rule paging_collects_all_pages)
    (auto intro!: page_chain.more_pages [where t = "''b''"] page_chain.last_page)

text \<open>The column of a tag is in lower case, and apart from underscores it spells the prefix and the
  tag's name without its colons; it is at most twice as long as the name and the prefix.\<close>

theorem tag_column_spells_the_tag:
  "(\<forall>c\<in>set (tagNameToAthenaColumn tagName). \<not> is_upper_letter c)
   \<and> filter (\<lambda>c. c \<noteq> CHR ''_'') (tagNameToAthenaColumn tagName)
       = ''resourcetags'' @ filter (\<lambda>c. c \<noteq> CHR ''_'') (toLowerCase (filter (\<lambda>c. c \<noteq> CHR '':'') tagName))
   \<and> length (tagNameToAthenaColumn tagName) \<le> 2 * length tagName + 14"
proof -
  have lower: "\<forall>c\<in>set ''resource_tags_''. \<not> is_upper_letter c" by code_simp
  show ?thesis
    using tag_column_lower [OF lower, of tagName] tag_column_letters [of "''resource_tags_''" tagName]
      tag_column_length [of "''resource_tags_''" tagName]
    by (simp add: tagNameToAthenaColumn_def)
qed

theorem tag_column_spells_the_tag_witness:
  "length (tagNameToAthenaColumn ''user:costCenter'') \<le> 46
   \<and> filter is_upper_letter (tagNameToAthenaColumn ''user:costCenter'') = []"
  using tag_column_spells_the_tag [of "''user:costCenter''"] by (simp add: filter_empty_conv)

end
