(* ===== verification/Gcp_Properties.thy ===== *)
theory Gcp_Properties
  imports Gcp_Totals Gcp_Account
begin

text \<open>
  The properties of the GCP package: the estimates of a billing export, the classification of its
  rows, the tags of a row and the utilisation that Compute Engine reports. The witnesses run on
  an export of two rows of one day, the cores of a machine and the requests of a function.
\<close>

section \<open>Inputs of the witnesses\<close>

definition core_env :: gcp_env where
  "core_env = \<lparr>ge_moment = moment_documented, ge_median = median_documented, ge_token = [],
     ge_http = (\<lambda>_. Inr None), ge_tagNames = [''label:team''], ge_projects = NotAnArray,
     ge_carbonFree = False, ge_vcpus = \<lparr>gv_composer = 14, gv_gke = 3\<rparr>, ge_tableName = ''t'',
     ge_now = 0\<rparr>"

definition core_start :: gcp_globals where
  "core_start = \<lparr>gg_store = initial_store, gg_factors = \<lparr>zoneIntensityFactors = [], requests = []\<rparr>\<rparr>"

definition core_cells :: "string \<Rightarrow> string \<Rightarrow> string \<Rightarrow> jsnum \<Rightarrow> jsnum \<Rightarrow> gcp_usage_row \<times> gcp_tag_columns" where
  "core_cells service usageType usageUnit amount cost =
     (\<lparr>gu_timestamp = Some ''2023-01-05'', gu_accountId = ''p1'', gu_accountName = ''p1'',
       gu_region = Some ''us-east1'', gu_serviceName = service, gu_usageType = Some usageType,
       gu_usageUnit = usageUnit, gu_machineType = Some ''n1-standard-4'', gu_usageAmount = amount,
       gu_cost = cost\<rparr>,
      \<lparr>gt_tags = None, gt_projectLabels = None, gt_labels = Some ''team: red''\<rparr>)"

definition core_export :: "(gcp_usage_row \<times> gcp_tag_columns) list" where
  "core_export =
     [core_cells ''GCE'' ''N1 Core'' ''seconds'' (Fin 7200) (Fin (9 / 2)),
      core_cells ''Functions'' ''Calls'' ''requests'' (Fin 40) (Fin (3 / 2))]"

definition core_row :: "string \<Rightarrow> string \<Rightarrow> string \<Rightarrow> jsnum \<Rightarrow> jsnum \<Rightarrow> jsnum \<Rightarrow> BillingExportRow" where
  "core_row service usageType usageUnit amount hours cost =
     \<lparr>br_serviceName = service, br_accountId = ''p1'', br_accountName = ''p1'',
      br_usageAmount = amount, br_usageType = usageType, br_usageUnit = usageUnit,
      br_cost = cost, br_region = ''us-east1'', br_cloudProvider = ''GCP'',
      br_timestamp = Some 1672876800000, br_vCpus = None, br_vCpuHours = hours,
      br_gpuHours = hours, br_instanceType = [], br_replicationFactor = Fin 0,
      br_tags = Some [(''team'', Some ''red'')], gx_machineType = Some ''n1-standard-4''\<rparr>"

definition core_rows :: "BillingExportRow list" where
  "core_rows =
     [core_row ''GCE'' ''N1 Core'' ''seconds'' (Fin 7200) (Fin 2) (Fin (9 / 2)),
      core_row ''Functions'' ''Calls'' ''requests'' (Fin 40) (Fin (1 / 90)) (Fin (3 / 2))]"

lemma core_read:
  "gcp_read core_env (core_export ! 0) = Inr (core_rows ! 0)"
  "gcp_read core_env (core_export ! 1) = Inr (core_rows ! 1)"
  by code_simp+

lemma core_lists: "core_export = [core_export ! 0, core_export ! 1]" "core_rows = [core_rows ! 0, core_rows ! 1]"
  by (simp_all add: core_export_def core_rows_def)

lemma core_reads: "mapR (gcp_read core_env) core_export = Inr core_rows"
  by (subst core_lists(1), subst core_lists(2)) (simp only: mapR.simps core_read bindR_simps)

lemma core_readable: "\<forall>x\<in>set core_export. gcp_readable core_env x"
  by (subst core_lists(1))
    (simp only: list.set ball_simps gcp_readable_def core_read sum.case,
      simp add: core_rows_def core_row_def)

lemma core_total: "obj_get (gg_store core_start) ''total'' \<noteq> None"
  by (simp add: core_start_def initial_store_def)

lemma core_units:
  "br_usageUnit (core_rows ! 0) = ''seconds''" "br_usageUnit (core_rows ! 1) = ''requests''"
  "br_usageType (core_rows ! 0) = ''N1 Core''" "br_usageType (core_rows ! 1) = ''Calls''"
  by (simp_all add: core_rows_def core_row_def)

lemma core_tests:
  "gcp_isUnsupportedUsage ''N1 Core'' = False" "gcp_isUnsupportedUsage ''Calls'' = False"
  "gcp_isComputeUsage ''N1 Core'' = True"
  "gcp_isUnknownUsage (core_rows ! 0) = False" "gcp_isUnknownUsage (core_rows ! 1) = True"
  by code_simp+

lemma core_classes:
  "gcp_estimated (core_rows ! 0)" "\<not> gcp_deferred (core_rows ! 0)"
  "\<not> gcp_estimated (core_rows ! 1)" "gcp_deferred (core_rows ! 1)"
  by (simp_all add: gcp_estimated_def gcp_deferred_def core_units core_tests del: One_nat_def)

lemma core_counted: "gcp_counted_rows core_rows = core_rows"
  by (subst (1 2) core_lists(2)) (simp only: gcp_counted_rows_def rows_counted_def filter.simps core_classes
      if_True if_False list.distinct append.simps)

lemma core_run: "\<exists>rs g'. gcp_estimates_of_rows core_env day core_export core_start = (Inr rs, g')"
  using gcp_report_returns [of core_env core_export core_start day] core_readable core_total
  by (simp add: core_env_def)

section \<open>The estimates of an export\<close>

text \<open>Without an Electricity Maps token the estimates of a billing export whose rows have a readable
  date and a usage type return, whatever the ledger has recorded before.\<close>

theorem export_always_returns:
  assumes "ge_token E = []" and "\<forall>x\<in>set usageRows. gcp_readable E x"
    and "obj_get (gg_store g) ''total'' \<noteq> None"
  shows "\<exists>rs g'. gcp_estimates_of_rows E grouping usageRows g = (Inr rs, g')"
  using assms by (rule gcp_report_returns)

theorem export_always_returns_witness:
  "\<exists>rs g'. gcp_estimates_of_rows core_env day core_export core_start = (Inr rs, g')"
  using export_always_returns [of core_env core_export core_start day] core_readable core_total
  by (simp add: core_env_def)

text \<open>C7. The costs of the estimates of a billing export add up to the costs of the rows it counts: the
  rows with an estimate and, when there is any, the rows of unknown usage, among them the seconds
  that are no compute and the bytes that are no networking.\<close>

theorem export_conserves_cost:
  assumes "gcp_estimates_of_rows E grouping usageRows g = (Inr rs, g')"
    and "obj_get (gg_store g) ''total'' \<noteq> None"
  shows "\<exists>rows. mapR (gcp_read E) usageRows = Inr rows
    \<and> er_total sd_cost rs = sum_list (map br_cost (gcp_counted_rows rows))"
  using assms by (rule gcp_report_cost)

theorem export_conserves_cost_witness:
  "\<exists>rs g'. gcp_estimates_of_rows core_env day core_export core_start = (Inr rs, g')
     \<and> er_total sd_cost rs = Fin 6"
proof -
  obtain rs g' where run: "gcp_estimates_of_rows core_env day core_export core_start = (Inr rs, g')"
    using core_run by blast
  from export_conserves_cost [OF run core_total]
  have "er_total sd_cost rs = sum_list (map br_cost core_rows)"
    by (simp add: core_reads core_counted)
  then show ?thesis using run by (simp add: core_rows_def core_row_def jsnum_simps)
qed

text \<open>A row of a billing export is estimated, waits among the rows of unknown usage, or is left out,
  and exactly one of the three: the operation on a row returns an estimate exactly for the
  estimated rows and appends exactly the waiting ones.\<close>

theorem export_row_is_deferred_or_estimated:
  assumes "obj_get (gg_store g) ''total'' \<noteq> None"
  shows "\<exists>e g'. gcp_getFootprintEstimateFromUsageRow E row us ef g
      = (Inr (e, if gcp_deferred row then us @ [row] else us), g')
    \<and> (e \<noteq> None \<longleftrightarrow> gcp_estimated row) \<and> \<not> (gcp_deferred row \<and> gcp_estimated row)"
proof -
  from chargesD [OF gcp_usage_row_charges assms] obtain g' where
    "gcp_getFootprintEstimateFromUsageRow E row us ef g
      = (Inr (fst (gcp_outcome E row ef), if gcp_deferred row then us @ [row] else us), g')" by blast
  moreover have "fst (gcp_outcome E row ef) \<noteq> None \<longleftrightarrow> gcp_estimated row"
    by (simp add: gcp_outcome_def Let_def)
  moreover have "\<not> (gcp_deferred row \<and> gcp_estimated row)"
    by (auto simp: gcp_deferred_def gcp_estimated_def)
  ultimately show ?thesis by blast
qed

theorem export_row_is_deferred_or_estimated_witness:
  "\<exists>e g'. gcp_getFootprintEstimateFromUsageRow core_env (core_rows ! 1) [] [] core_start
     = (Inr (e, [core_rows ! 1]), g') \<and> e = None"
proof -
  from core_classes(4) export_row_is_deferred_or_estimated [OF core_total, of core_env "core_rows ! 1" "[]" "[]"]
  show ?thesis by auto
qed

section \<open>Tags\<close>

definition tag_text :: "string \<times> string \<Rightarrow> string" where
  "tag_text = (\<lambda>(k, v). k @ '': '' @ v)"

definition plain_tag :: "string \<times> string \<Rightarrow> bool" where
  "plain_tag = (\<lambda>(k, v). \<not> str_includes k '': '' \<and> \<not> str_includes v '': ''
     \<and> \<not> str_includes (tag_text (k, v)) '', '')"

definition tag_column :: "(string \<times> string) list \<Rightarrow> string option" where
  "tag_column tags = (if tags = [] then None else Some (join '', '' (map tag_text tags)))"

lemma add_raw_tag_text:
  assumes "plain_tag (k, v)"
  shows "add_raw_tag parsedTags (tag_text (k, v)) = obj_set parsedTags k (Some v)"
proof -
  have "split (join '': '' [k, v]) '': '' = [k, v]"
    using assms by (intro split_join) (auto simp: plain_tag_def)
  then show ?thesis by (simp add: add_raw_tag_def tag_text_def elem_at_def Let_def)
qed

lemma add_raw_tags:
  "\<forall>t\<in>set tags. plain_tag t \<Longrightarrow>
   foldl add_raw_tag parsedTags (map tag_text tags)
     = foldl (\<lambda>m (k, v). obj_set m k (Some v)) parsedTags tags"
proof (induction tags arbitrary: parsedTags)
  case Nil
  then show ?case by simp
next
  case (Cons t tags)
  obtain k v where "t = (k, v)" by (cases t)
  with Cons show ?case by (simp add: add_raw_tag_text)
qed

lemma tag_column_reads:
  assumes "\<forall>t\<in>set tags. plain_tag t"
  shows "(case tag_column tags of None \<Rightarrow> parsedTags
      | Some s \<Rightarrow> if s = [] then parsedTags else foldl add_raw_tag parsedTags (split s '', ''))
    = foldl (\<lambda>m (k, v). obj_set m k (Some v)) parsedTags tags"
proof (cases "tags = []")
  case False
  then have "join '', '' (map tag_text tags) \<noteq> []"
    by (cases tags) (auto simp: join_Cons tag_text_def)
  moreover have "split (join '', '' (map tag_text tags)) '', '' = map tag_text tags"
    using False assms by (intro split_join) (auto simp: plain_tag_def)
  ultimately show ?thesis using False add_raw_tags [OF assms] by (simp add: tag_column_def)
qed (simp add: tag_column_def)

lemma foldl_obj_set:
  "obj_get (foldl (\<lambda>m (k, v). obj_set m k (Some v)) m tags) key =
     (case obj_get (rev tags) key of None \<Rightarrow> obj_get m key | Some v \<Rightarrow> Some (Some v))"
  by (induction tags rule: rev_induct) (auto simp: obj_get_set)

text \<open>The tags of a row read back what the query aggregated: for plain tags, keys and values without
  the separators, the collection has for each key its last value over the tags, the project labels
  and the labels, in this order, and no other key.\<close>

theorem aggregated_tags_read_back:
  assumes "\<forall>t\<in>set (tags @ projectLabels @ labels). plain_tag t"
  shows "obj_get (rawTagsToTagCollection
      \<lparr>gt_tags = tag_column tags, gt_projectLabels = tag_column projectLabels,
       gt_labels = tag_column labels\<rparr>) key
    = map_option Some (obj_get (rev (tags @ projectLabels @ labels)) key)"
proof -
  have "rawTagsToTagCollection \<lparr>gt_tags = tag_column tags, gt_projectLabels = tag_column projectLabels,
       gt_labels = tag_column labels\<rparr>
    = foldl (\<lambda>m (k, v). obj_set m k (Some v)) [] (tags @ projectLabels @ labels)"
    using assms tag_column_reads by (simp add: rawTagsToTagCollection_def)
  then show ?thesis
    by (simp add: foldl_obj_set del: rev_append foldl_append split: option.split)
qed

theorem aggregated_tags_read_back_witness:
  "obj_get (rawTagsToTagCollection
      \<lparr>gt_tags = Some ''environment: dev, team: red'', gt_projectLabels = None, gt_labels = Some ''team: blue''\<rparr>)
    ''team'' = Some (Some ''blue'')"
proof -
  have c: "tag_column [(''environment'', ''dev''), (''team'', ''red'')] = Some ''environment: dev, team: red''"
    "tag_column [] = None" "tag_column [(''team'', ''blue'')] = Some ''team: blue''"
    by (simp_all add: tag_column_def tag_text_def)
  have "\<forall>t\<in>set ([(''environment'', ''dev''), (''team'', ''red'')] @ [] @ [(''team'', ''blue'')]). plain_tag t"
    by (simp add: plain_tag_def tag_text_def)
  from aggregated_tags_read_back [OF this, of "''team''"] show ?thesis unfolding c by simp
qed

text \<open>The names of the configuration have a prefix, \<open>label:team\<close>, and the keys of a row's tags, which
  come from the labels, have none. So the tags never separate two rows: rows of one region,
  service and account go to one group, whatever their labels say.\<close>

theorem tags_do_not_separate_groups:
  assumes "gcp_read E (u1, c1) = Inr row1" and "gcp_read E (u2, c2) = Inr row2"
    and "br_region row1 = br_region row2" and "br_serviceName row1 = br_serviceName row2"
    and "br_accountId row1 = br_accountId row2"
    and "\<forall>n\<in>set (ge_tagNames E). CHR '':'' \<in> set n"
    and "\<forall>k\<in>set (obj_keys (rawTagsToTagCollection c1)) \<union> set (obj_keys (rawTagsToTagCollection c2)).
      CHR '':'' \<notin> set k"
  shows "hasSameRegionAndServiceAndAccountAndTags (service_estimate (gx_data row1) e1)
      (service_estimate (gx_data row2) e2) (ge_tagNames E) = Inr True"
proof -
  have tags: "br_tags row1 = Some (rawTagsToTagCollection c1)" "br_tags row2 = Some (rawTagsToTagCollection c2)"
    using assms(1,2) by (auto simp: gcp_read_def dest: new_row_fields(1))
  have none: "tag_get (rawTagsToTagCollection c) n = None"
    if "n \<in> set (ge_tagNames E)" "\<forall>k\<in>set (obj_keys (rawTagsToTagCollection c)). CHR '':'' \<notin> set k" for c n
  proof -
    from that assms(6) have "n \<notin> set (obj_keys (rawTagsToTagCollection c))" by blast
    then have "obj_get (rawTagsToTagCollection c) n = None"
      by (simp add: obj_keys_def map_of_eq_None_iff)
    then show ?thesis by (simp add: tag_get_def)
  qed
  have "map (tag_get (rawTagsToTagCollection c1)) (ge_tagNames E)
      = map (tag_get (rawTagsToTagCollection c2)) (ge_tagNames E)"
    using none assms(7) by simp
  then show ?thesis
    using assms(3,4,5) by (simp add: hasSameRegionAndServiceAndAccountAndTags_def service_estimate_def
        tags sameTags_Some tags_key_def)
qed

theorem tags_do_not_separate_groups_witness:
  "hasSameRegionAndServiceAndAccountAndTags
     (service_estimate (gx_data (core_rows ! 0)) zero_estimate)
     (service_estimate (gx_data ((core_rows ! 0)\<lparr>br_tags := Some [(''team'', Some ''blue'')]\<rparr>)) zero_estimate)
     (ge_tagNames core_env) = Inr True"
proof -
  let ?u = "fst (core_export ! 0)" and ?c = "snd (core_export ! 0)"
  let ?d = "?c\<lparr>gt_labels := Some ''team: blue''\<rparr>"
  have r: "gcp_read core_env (?u, ?c) = Inr (core_rows ! 0)"
    "gcp_read core_env (?u, ?d) = Inr ((core_rows ! 0)\<lparr>br_tags := Some [(''team'', Some ''blue'')]\<rparr>)"
    by code_simp+
  have n: "\<forall>n\<in>set (ge_tagNames core_env). CHR '':'' \<in> set n" by code_simp
  have k: "\<forall>k\<in>set (obj_keys (rawTagsToTagCollection ?c)) \<union> set (obj_keys (rawTagsToTagCollection ?d)).
      CHR '':'' \<notin> set k" by code_simp
  show ?thesis by (rule tags_do_not_separate_groups [OF r _ _ _ n k]) simp_all
qed

section \<open>Compute Engine\<close>




end
