(* ===== verification/Azure_Recommendations.thy ===== *)
theory Azure_Recommendations
  imports Azure_Account Common_Types
begin

text \<open>
  \<open>packages/azure/src/lib/AdvisorRecommendations.ts\<close> and its classes \<open>RightsizingRecommendation\<close>: the
  recommendations of Azure Advisor for the virtual machines of a subscription, and of all the
  subscriptions of an account. What the pages of Advisor list is a parameter.
\<close>

section \<open>Recommendations of Advisor\<close>

text \<open>The extended properties are an object from names to text; the metadata of the resource may be missing.\<close>

record ResourceRecommendation =
  ra_solution :: "string option"
  ra_extendedProperties :: "string obj option"
  ra_resourceMetadata :: "string option option"

section \<open>RightsizingRecommendation.ts\<close>

record azure_rightsizing =
  va_subscriptionId :: "string option"
  va_region :: string
  va_type :: "string option"
  va_instanceName :: "string option"
  va_resourceId :: "string option"
  va_instanceType :: "string option"
  va_vCpuHours :: jsnum
  va_costSavings :: jsnum
  va_usageAmount :: jsnum

text \<open>A type that has none of the three marks is left undefined.\<close>

definition parseInstanceType :: "string \<Rightarrow> string option" where
  "parseInstanceType instanceType =
     (if str_includes instanceType ''_'' then
        (let instanceTypeSplit = split instanceType ''_''
         in Some (join '' '' (if str_includes (hd instanceTypeSplit) ''Standard''
                             then drop 1 instanceTypeSplit else instanceTypeSplit)))
      else if str_includes instanceType ''/'' then Some (hd (split instanceType ''/''))
      else if str_includes instanceType ''Spot'' then Some (replace_first instanceType '' Spot'' [])
      else None)"

definition azure_rightsizing_getSeries :: "string option \<Rightarrow> string" where
  "azure_rightsizing_getSeries instanceType =
     foldl (\<lambda>matchingSeriesName (seriesName, types).
              if obj_get types (text_of instanceType) \<noteq> None then seriesName else matchingSeriesName)
       [] VIRTUAL_MACHINE_TYPE_SERIES_MAPPING"

definition azure_rightsizing_getVCpuHours :: "string option \<Rightarrow> jsnum \<Rightarrow> jsnum" where
  "azure_rightsizing_getVCpuHours instanceType usageAmount =
     (let seriesName = azure_rightsizing_getSeries instanceType;
          name = text_of instanceType;
          vCpus = or_num (or_opt (or_opt
            (num_at 0 (instance_data VIRTUAL_MACHINE_TYPE_SERIES_MAPPING (Some seriesName) (Some name)))
            (num_at 0 (obj_get VIRTUAL_MACHINE_TYPE_VCPU_MEMORY_MAPPING name)))
            (num_at 0 (obj_get VIRTUAL_MACHINE_TYPE_CONSTRAINED_VCPU_CAPABLE_MAPPING name))) 1
      in vCpus * usageAmount)"

definition azure_getMappedRegion :: "string option \<Rightarrow> string" where
  "azure_getMappedRegion region =
     (case find (\<lambda>r. case region of None \<Rightarrow> False | Some l \<Rightarrow> zr_name r = l \<or> l \<in> set (zr_options r))
             (obj_values AZURE_REGIONS) of
        Some r \<Rightarrow> zr_name r
      | None \<Rightarrow> azure_unknown_region)"

text \<open>The constructors of the current and of the target recommendation, which read different types.\<close>

definition azure_rightsizing_of :: "azure_env \<Rightarrow> string \<Rightarrow> ResourceRecommendation \<Rightarrow> azure_rightsizing result" where
  "azure_rightsizing_of E sku data =
     (case (ra_extendedProperties data, ra_resourceMetadata data) of
        (Some properties, Some resourceId) \<Rightarrow>
          (case obj_get properties sku of
             None \<Rightarrow> Inl TypeError
           | Some skuName \<Rightarrow>
               (let instanceType = parseInstanceType skuName;
                    usageAmount = getHoursInMonth (ze_moment E) (ze_now E)
                in Inr \<lparr>va_subscriptionId = obj_get properties ''subscriptionId'',
                        va_region = azure_getMappedRegion (obj_get properties ''regionId''),
                        va_type = obj_get properties ''recommendationType'',
                        va_instanceName = obj_get properties ''roleName'',
                        va_resourceId = resourceId,
                        va_instanceType = instanceType,
                        va_vCpuHours = azure_rightsizing_getVCpuHours instanceType usageAmount,
                        va_costSavings = or_num (Some (parseFloat_opt (obj_get properties ''savingsAmount''))) 0,
                        va_usageAmount = usageAmount\<rparr>))
      | _ \<Rightarrow> Inl TypeError)"

definition azure_new_RightsizingCurrentRecommendation ::
    "azure_env \<Rightarrow> ResourceRecommendation \<Rightarrow> azure_rightsizing result" where
  "azure_new_RightsizingCurrentRecommendation E data = azure_rightsizing_of E ''currentSku'' data"

definition azure_new_RightsizingTargetRecommendation ::
    "azure_env \<Rightarrow> ResourceRecommendation \<Rightarrow> azure_rightsizing result" where
  "azure_new_RightsizingTargetRecommendation E data = azure_rightsizing_of E ''targetSku'' data"

section \<open>AdvisorRecommendations.ts\<close>

definition advisor_getComputeProcessors :: "azure_rightsizing \<Rightarrow> COMPUTE_PROCESSOR_TYPES list" where
  "advisor_getComputeProcessors r =
     (case obj_get azure_INSTANCE_TYPE_COMPUTE_PROCESSOR_MAPPING (text_of (va_instanceType r)) of
        Some ps \<Rightarrow> ps
      | None \<Rightarrow> [UNKNOWN_PROCESSOR])"

definition advisor_getGPUComputeProcessors :: "azure_rightsizing \<Rightarrow> COMPUTE_PROCESSOR_TYPES list" where
  "advisor_getGPUComputeProcessors r =
     (case obj_get GPU_VIRTUAL_MACHINE_TYPE_PROCESSOR_MAPPING (text_of (va_instanceType r)) of
        Some ps \<Rightarrow> ps
      | None \<Rightarrow> [UNKNOWN_PROCESSOR])"

definition advisor_isGpuInstance :: "string option \<Rightarrow> bool" where
  "advisor_isGpuInstance instanceType = containsAny (obj_keys GPU_VIRTUAL_MACHINE_TYPES) (text_of instanceType)"

definition advisor_estimate ::
    "azure_env \<Rightarrow> azure_rightsizing \<Rightarrow> COMPUTE_PROCESSOR_TYPES list \<Rightarrow> jsnum \<Rightarrow> emissions_factors \<Rightarrow>
     FootprintEstimate" where
  "advisor_estimate E r processors hours emissionsFactors =
     hd (ComputeEstimator_estimate
           [\<lparr>cu_timestamp = None, cu_cpuUtilizationAverage = azure_AVG_CPU_UTILIZATION_2020,
             cu_vCpuHours = hours, cu_usesAverageCPUConstant = True\<rparr>]
           (va_region r) emissionsFactors
           (no_constants
              \<lparr>cc_minWatts := Some (azure_getMinWatts (ze_median E) processors),
               cc_maxWatts := Some (azure_getMaxWatts (ze_median E) processors),
               cc_powerUsageEffectiveness := Some (azure_getPUE)\<rparr>))"

definition advisor_getComputeFootprint ::
    "azure_env \<Rightarrow> azure_rightsizing \<Rightarrow> emissions_factors \<Rightarrow> FootprintEstimate" where
  "advisor_getComputeFootprint E r emissionsFactors =
     (let computeEstimate = advisor_estimate E r (advisor_getComputeProcessors r) (va_vCpuHours r) emissionsFactors
      in if advisor_isGpuInstance (va_instanceType r) then
           (let gpuHours = or_num (Some (toNum (obj_get GPU_VIRTUAL_MACHINE_TYPES (text_of (va_instanceType r)))
                                         * va_usageAmount r)) 0;
                gpuComputeEstimate =
                  advisor_estimate E r (advisor_getGPUComputeProcessors r) gpuHours emissionsFactors
            in computeEstimate
                 \<lparr>fe_kilowattHours := fe_kilowattHours computeEstimate + fe_kilowattHours gpuComputeEstimate,
                  fe_co2e := fe_co2e computeEstimate + fe_co2e gpuComputeEstimate\<rparr>)
         else computeEstimate)"

definition advisor_getGigabyteHours :: "azure_rightsizing \<Rightarrow> jsnum" where
  "advisor_getGigabyteHours r =
     (let seriesName = azure_rightsizing_getSeries (va_instanceType r);
          instanceTypeMemory = num_at 1
            (instance_data VIRTUAL_MACHINE_TYPE_SERIES_MAPPING (Some seriesName) (Some (text_of (va_instanceType r))))
      in if seriesName \<notin> set (obj_keys VIRTUAL_MACHINE_TYPE_SERIES_MAPPING) \<or> \<not> truthy_opt instanceTypeMemory
         then 0
         else
           (let processorMemory = azure_getMemory (advisor_getComputeProcessors r);
                largest = last (series_machines seriesName)
            in calculateGigabyteHours (getPhysicalChips (toNum (num_at 0 (Some largest))))
                 (toNum (num_at 1 (Some largest))) processorMemory (toNum instanceTypeMemory) (va_usageAmount r)))"

definition advisor_getMemoryFootprint :: "azure_rightsizing \<Rightarrow> emissions_factors \<Rightarrow> FootprintEstimate" where
  "advisor_getMemoryFootprint r emissionsFactors =
     hd (MemoryEstimator_estimate azure_MEMORY_COEFFICIENT
           [\<lparr>mu_timestamp = None, mu_gigabyteHours = advisor_getGigabyteHours r\<rparr>]
           (va_region r) emissionsFactors
           (no_constants\<lparr>cc_powerUsageEffectiveness := Some (azure_getPUE)\<rparr>))"

definition advisor_getFootprintEstimates ::
    "azure_env \<Rightarrow> azure_rightsizing \<Rightarrow> (azure_globals, FootprintEstimate \<times> FootprintEstimate) eff" where
  "advisor_getFootprintEstimates E r =
     bindE (azure_factorsE E (va_region r) (toISOString (ze_now E))) (\<lambda>emissionsFactors.
       retE (advisor_getComputeFootprint E r emissionsFactors, advisor_getMemoryFootprint r emissionsFactors))"

definition advisor_detail :: "azure_rightsizing \<Rightarrow> azure_rightsizing option \<Rightarrow> string option" where
  "advisor_detail current target =
     (let modifyDetail = ''Update instance type '' @ text_of (va_instanceType current) @ '' to ''
            @ text_of (Option.bind target va_instanceType);
          defaultDetail =
            (case va_instanceName current of
               Some name \<Rightarrow>
                 if name = [] then text_of (va_type current) @ '' instance with Resource ID: ''
                                     @ text_of (va_resourceId current) @ ''.''
                 else text_of (va_type current) @ '': '' @ name @ ''.''
             | None \<Rightarrow> text_of (va_type current) @ '' instance with Resource ID: ''
                         @ text_of (va_resourceId current) @ ''.'');
          recommendationTypes = [(''Shutdown'', defaultDetail),
                                 (''Right-size'', defaultDetail @ '' '' @ modifyDetail),
                                 (''SkuChange'', defaultDetail @ '' '' @ modifyDetail)]
      in obj_get recommendationTypes (text_of (va_type current)))"

definition advisor_result ::
    "azure_rightsizing \<Rightarrow> string option \<Rightarrow> jsnum \<Rightarrow> jsnum \<Rightarrow> jsnum \<Rightarrow> RecommendationResult" where
  "advisor_result current detail kilowattHourSavings co2eSavings costSavings =
     \<lparr>rr_cloudProvider = ''AZURE'',
      rr_accountId = va_subscriptionId current,
      rr_accountName = va_subscriptionId current,
      rr_region = Some (va_region current),
      rr_recommendationType = text_of (va_type current),
      rr_recommendationDetail = detail,
      rr_resourceId = va_resourceId current,
      rr_instanceName = va_instanceName current,
      rr_kilowattHourSavings = kilowattHourSavings,
      rr_costSavings = Some costSavings,
      rr_co2eSavings = co2eSavings,
      rr_recommendationOptions = None\<rparr>"

definition advisor_step ::
    "azure_env \<Rightarrow> RecommendationResult list \<Rightarrow> ResourceRecommendation \<Rightarrow>
     (azure_globals, RecommendationResult list) eff" where
  "advisor_step E results recommendation =
     bindE (liftE (azure_new_RightsizingCurrentRecommendation E recommendation)) (\<lambda>current.
     bindE (advisor_getFootprintEstimates E current) (\<lambda>(currentCompute, currentMemory).
       let (kilowattHours, co2e) =
             (if truthy (fe_co2e currentMemory)
              then (fe_kilowattHours currentCompute + fe_kilowattHours currentMemory,
                    fe_co2e currentCompute + fe_co2e currentMemory)
              else (fe_kilowattHours currentCompute, fe_co2e currentCompute))
       in if va_type current \<in> {Some ''Right-size'', Some ''SkuChange''} then
            bindE (liftE (azure_new_RightsizingTargetRecommendation E recommendation)) (\<lambda>target.
            bindE (advisor_getFootprintEstimates E target) (\<lambda>(compute, memory).
              retE (results @ [advisor_result current (advisor_detail current (Some target))
                (if truthy (fe_co2e memory)
                 then kilowattHours - fe_kilowattHours compute - fe_kilowattHours memory
                 else kilowattHours - fe_kilowattHours compute)
                (if truthy (fe_co2e memory)
                 then co2e - fe_co2e compute - fe_co2e memory else co2e - fe_co2e compute)
                (va_costSavings target)])))
          else
            retE (results @ [advisor_result current (advisor_detail current None)
                    kilowattHours co2e (va_costSavings current)])))"

text \<open>Only recommendations about underutilized machines are kept; each of them must have its text.\<close>

definition underutilized :: "ResourceRecommendation list \<Rightarrow> ResourceRecommendation list result" where
  "underutilized recommendations =
     bindR (mapR (\<lambda>r. case ra_solution r of
                        None \<Rightarrow> Inl TypeError
                      | Some solution \<Rightarrow> Inr (str_includes solution ''underutilized'', r)) recommendations) (\<lambda>rs.
       Inr (map snd (filter fst rs)))"

definition Advisor_getRecommendations ::
    "azure_env \<Rightarrow> string + ResourceRecommendation list \<Rightarrow> (azure_globals, RecommendationResult list) eff" where
  "Advisor_getRecommendations E listed =
     explained (\<lambda>e. ''Failed to grab Azure Advisor recommendations. Reason: '' @ error_text e)
       (bindE (liftE (case listed of Inl message \<Rightarrow> Inl (Thrown message) | Inr rs \<Rightarrow> underutilized rs))
          (foldE (advisor_step E) []))"

section \<open>AzureAccount.ts\<close>

definition getRecommendationsForSubscription ::
    "azure_env \<Rightarrow> (string \<Rightarrow> string + ResourceRecommendation list) \<Rightarrow> string \<Rightarrow>
     (azure_globals, RecommendationResult list) eff" where
  "getRecommendationsForSubscription E advisor subscriptionId = Advisor_getRecommendations E (advisor subscriptionId)"

definition getDataFromAdvisorManagement ::
    "azure_env \<Rightarrow> azure_clients \<Rightarrow> (string \<Rightarrow> string + ResourceRecommendation list) \<Rightarrow> string list option \<Rightarrow>
     (azure_globals, RecommendationResult list) eff" where
  "getDataFromAdvisorManagement E S advisor subscriptionIds =
     bindE (liftE (getSubscriptions E S (case subscriptionIds of None \<Rightarrow> [] | Some ids \<Rightarrow> ids) None)) (\<lambda>subscriptions.
     bindE (mapE (\<lambda>subscription.
              attempt [] (getRecommendationsForSubscription E advisor (sb_subscriptionId subscription)))
            subscriptions) (\<lambda>recommendations.
       retE (concat recommendations)))"

end
