(* ===== verification/Azure_Properties.thy ===== *)
theory Azure_Properties
  imports Azure_Account Azure_Recommendations
begin

text \<open>
  The properties of the Azure package: how the usage details are fetched, the estimates of a
  subscription and of an account, and the amounts of disks. The witnesses run on two usages of an
  hour, a virtual machine and the operations of a cache of unknown unit.
\<close>

section \<open>Inputs of the witnesses\<close>

definition vm_env :: azure_env where
  "vm_env = \<lparr>ze_moment = moment_documented, ze_median = median_documented, ze_token = [],
     ze_http = (\<lambda>_. Inr None), ze_tagNames = [], ze_chunkDays = None, ze_subscriptionChunks = None,
     ze_subscriptions = [], ze_now = 0\<rparr>"

definition vm_start :: azure_globals where
  "vm_start = \<lparr>zg_store = initial_store, zg_factors = \<lparr>zoneIntensityFactors = [], requests = []\<rparr>\<rparr>"

definition vm_detail :: "date \<Rightarrow> string \<Rightarrow> string \<Rightarrow> string \<Rightarrow> jsnum \<Rightarrow> jsnum \<Rightarrow> usage_detail" where
  "vm_detail t service meter usageUnit amount cost =
     \<lparr>ud_date = Some t, ud_quantity = amount, ud_subscriptionName = ''main'',
      ud_resourceLocation = Some ''uksouth'', ud_resourceGroup = None, ud_tags = None,
      ud_kind = Modern ''guid'' \<lparr>md_meterName = meter, md_unitOfMeasure = usageUnit,
                                md_meterCategory = service\<rparr> cost\<rparr>"

definition vm_usages :: "usage_detail list" where
  "vm_usages =
     [vm_detail 1672876800000 ''Virtual Machines'' ''D2s v3'' ''1 Hour'' (Fin 3) (Fin (9 / 2)),
      vm_detail 1672963200000 ''Cache'' ''Calls'' ''1K'' (Fin 40) (Fin (3 / 2))]"

definition usage_start :: "usage_detail \<Rightarrow> date" where
  "usage_start u = (case ud_date u of None \<Rightarrow> 0 | Some t \<Rightarrow> t)"

definition answering_client :: "(usage_detail \<Rightarrow> date) \<Rightarrow> usage_detail list \<Rightarrow> consumption_client" where
  "answering_client usageEnd usages =
     \<lparr>cm_subscriptionId = ''s1'',
      cm_list = (\<lambda>_ w _. (filter (\<lambda>u. in_window (usage_start u) (usageEnd u) w) usages, None))\<rparr>"

lemma answering_serves: "serves (answering_client usageEnd usages) usage_start usageEnd usages"
  by (simp add: serves_def answering_client_def)

section \<open>Fetching the usage details\<close>

text \<open>C13. The outcome of a request for usage details is that of the first of at most eleven attempts that does not
  exceed the rate limit: its rows, or its error; when every attempt exceeds the limit the error
  says so.\<close>

theorem usage_query_outcome:
  "queryConsumptionUsageDetails E client w =
     (let listing = cm_list client (''/subscriptions/'' @ cm_subscriptionId client @ ''/'') w;
          msg = query_error E (uw_start w) (uw_end w)
      in case find (\<lambda>i. \<not> rate_limited (listing i)) [0..<11] of
           Some i \<Rightarrow> attempt_outcome msg (listing i)
         | None \<Rightarrow> Inl (Thrown (msg @ '' max retries of 10 exceeded, consider setting a smaller chunk size using ''
                                @ ''AZURE_CONSUMPTION_CHUNKS_DAYS'')))"
proof -
  have eleven: "Suc maxRetries = 11" by (simp add: maxRetries_def)
  show ?thesis
    unfolding queryConsumptionUsageDetails_def eleven query_tries_eq [where k = 11 and n = 0] Let_def
      add_0 query_tries.simps(1) ..
qed



text \<open>C37. A usage that starts in one chunk and ends in a later one is in no answer, because the end of a chunk
  is in its filter, although a request without chunks returns it.\<close>

theorem chunks_lose_straddling_usages:
  assumes "serves client usageStart usageEnd usages" and "ze_chunkDays E = Some days" and "0 < days"
    and "startDate \<le> usageStart u" and "usageEnd u < endDate"
    and "(usageStart u - startDate) div (days * day_ms) < (usageEnd u - startDate) div (days * day_ms)"
    and "u \<in> set usages"
  shows "\<exists>rows. getConsumptionUsageDetails E client startDate endDate = Some (Inr rows) \<and> u \<notin> set rows
    \<and> (\<exists>all. getConsumptionUsageDetails (E\<lparr>ze_chunkDays := None\<rparr>) client startDate endDate = Some (Inr all)
        \<and> u \<in> set all)"
proof -
  have step: "0 < days * day_ms" using assms(3) by (simp add: day_ms_def)
  have "usageStart u \<le> usageEnd u"
    using assms(6) step by (meson not_le zdiv_mono1 diff_right_mono order.strict_trans2 less_irrefl less_imp_le)
  then have "u \<in> set (filter (\<lambda>u. in_window (usageStart u) (usageEnd u)
      \<lparr>uw_start = startDate, uw_end = endDate, uw_includeStart = True, uw_includeEnd = True\<rparr>) usages)"
    using assms(4,5,7) by (simp add: in_window_def)
  then have "\<exists>all. getConsumptionUsageDetails (E\<lparr>ze_chunkDays := None\<rparr>) client startDate endDate
      = Some (Inr all) \<and> u \<in> set all"
    by (simp add: getConsumptionUsageDetails_def chunked_def query_serves [OF assms(1)])
  then show ?thesis
    using chunk_loses_straddling [OF step assms(4,5,6)] by (auto simp: chunked_serves [OF assms(1-3)])
qed

theorem chunks_lose_straddling_usages_witness:
  "\<exists>rows. getConsumptionUsageDetails (vm_env\<lparr>ze_chunkDays := Some 1\<rparr>)
      (answering_client (\<lambda>u. usage_start u + 86400000) vm_usages) 1672876800000 1673136000000 = Some (Inr rows)
    \<and> hd vm_usages \<notin> set rows
    \<and> (\<exists>all. getConsumptionUsageDetails (vm_env\<lparr>ze_chunkDays := Some 1\<rparr>\<lparr>ze_chunkDays := None\<rparr>)
        (answering_client (\<lambda>u. usage_start u + 86400000) vm_usages) 1672876800000 1673136000000
          = Some (Inr all) \<and> hd vm_usages \<in> set all)"
  by (rule chunks_lose_straddling_usages [OF answering_serves, where days = 1])
    (simp_all add: vm_env_def vm_usages_def vm_detail_def usage_start_def day_ms_def)

section \<open>The estimates of a subscription\<close>

definition vm_row :: "date \<Rightarrow> string \<Rightarrow> string \<Rightarrow> string \<Rightarrow> jsnum \<Rightarrow> jsnum \<Rightarrow> jsnum \<Rightarrow> string \<Rightarrow> ConsumptionDetailRow" where
  "vm_row t service usageType usageUnit amount hours cost series =
     \<lparr>br_serviceName = service, br_accountId = ''guid'', br_accountName = ''main'',
      br_usageAmount = amount, br_usageType = usageType, br_usageUnit = usageUnit, br_cost = cost,
      br_region = ''uksouth'', br_cloudProvider = ''AZURE'', br_timestamp = Some t, br_vCpus = None,
      br_vCpuHours = hours, br_gpuHours = amount, br_instanceType = [], br_replicationFactor = 0,
      br_tags = Some [], zx_seriesName = series\<rparr>"

definition vm_rows :: "ConsumptionDetailRow list" where
  "vm_rows =
     [vm_row 1672876800000 ''Virtual Machines'' ''D2s v3'' ''1 Hour'' (Fin 3) (Fin 6) (Fin (9 / 2)) ''D2s-64s v3'',
      vm_row 1672963200000 ''Cache'' ''Calls'' ''1K'' (Fin 40) (Fin 40) (Fin (3 / 2)) []]"

lemma vm_read:
  "azure_read vm_env day (vm_usages ! 0) = Inr (vm_rows ! 0)"
  "azure_read vm_env day (vm_usages ! 1) = Inr (vm_rows ! 1)"
  by code_simp+

lemma vm_tests:
  "azure_isUnsupportedUsage (vm_rows ! 0) = False" "azure_isUnsupportedUsage (vm_rows ! 1) = False"
  "azure_isUnknownUsage (vm_rows ! 0) = False" "azure_isUnknownUsage (vm_rows ! 1) = True"
  "br_usageUnit (vm_rows ! 0) \<in> set COMPUTE_USAGE_UNITS"
  by code_simp+

lemma vm_classes:
  "azure_estimated (vm_rows ! 0)" "\<not> azure_deferred (vm_rows ! 0)"
  "\<not> azure_estimated (vm_rows ! 1)" "azure_deferred (vm_rows ! 1)"
  by (simp_all add: azure_estimated_def azure_deferred_def vm_tests del: One_nat_def)

lemma vm_lists: "vm_usages = [vm_usages ! 0, vm_usages ! 1]" "vm_rows = [vm_rows ! 0, vm_rows ! 1]"
  by (simp_all add: vm_usages_def vm_rows_def)

lemma vm_reads: "mapR (azure_read vm_env day) vm_usages = Inr vm_rows"
  by (subst vm_lists(1), subst vm_lists(2)) (simp only: mapR.simps vm_read bindR_simps)

lemma vm_counted: "azure_counted_rows vm_rows = vm_rows"
  by (subst (1 2) vm_lists(2)) (simp only: azure_counted_rows_def rows_counted_def filter.simps vm_classes
      if_True if_False list.distinct append.simps)

lemma vm_in_range: "filter (in_range 1672876800000 1673136000000) vm_usages = vm_usages"
  by (simp add: vm_usages_def in_range_def vm_detail_def)

lemma vm_readable: "\<forall>u\<in>set vm_usages. azure_readable u"
  by (simp add: vm_usages_def azure_readable_def vm_detail_def)

lemma vm_total: "obj_get (zg_store vm_start) ''total'' \<noteq> None"
  by (simp add: vm_start_def initial_store_def)

abbreviation vm_client :: consumption_client where
  "vm_client \<equiv> answering_client (\<lambda>u. usage_start u + 3600000) vm_usages"

lemma vm_fetched:
  "getConsumptionUsageDetails vm_env vm_client 1672876800000 1673136000000 = Some (Inr vm_usages)"
proof -
  have "filter (\<lambda>u. in_window (usage_start u) (usage_start u + 3600000)
      \<lparr>uw_start = 1672876800000, uw_end = 1673136000000, uw_includeStart = True, uw_includeEnd = True\<rparr>) vm_usages
    = vm_usages"
    by (simp add: vm_usages_def vm_detail_def usage_start_def in_window_def)
  then show ?thesis
    by (simp add: getConsumptionUsageDetails_def chunked_def query_serves [OF answering_serves])
      (simp add: vm_env_def)
qed

text \<open>Without an Electricity Maps token the estimates of fetched usage details return, when every legacy
  detail has its meter; the region, the unit and the date of a detail are of no matter.\<close>

theorem subscription_always_returns:
  assumes "ze_token E = []" and "obj_get (zg_store g) ''total'' \<noteq> None"
    and "getConsumptionUsageDetails E client startDate endDate = Some (Inr usageRows)"
    and "\<forall>u\<in>set usageRows. azure_readable u"
  shows "\<exists>rs g'. ConsumptionManagement_getEstimates E client startDate endDate grouping g = Some (Inr rs, g')"
  using azure_report_returns [OF assms(1) _ assms(2), of startDate endDate usageRows grouping] assms(3,4)
  by (simp add: ConsumptionManagement_getEstimates_def)

theorem subscription_always_returns_witness:
  "\<exists>rs g'. ConsumptionManagement_getEstimates vm_env vm_client 1672876800000 1673136000000 day vm_start
     = Some (Inr rs, g')"
  by (rule subscription_always_returns [OF _ vm_total vm_fetched vm_readable]) (simp add: vm_env_def)

lemma vm_run:
  "\<exists>rs g'. ConsumptionManagement_getEstimates vm_env vm_client 1672876800000 1673136000000 day vm_start
     = Some (Inr rs, g')"
  using azure_report_returns [of vm_env 1672876800000 1673136000000 vm_usages vm_start day]
  by (simp add: ConsumptionManagement_getEstimates_def vm_fetched vm_in_range vm_readable vm_total)
    (simp add: vm_env_def)

text \<open>C8. The costs of the estimates of a subscription add up to the costs of the usages it counts: of those
  fetched, the ones in the range of the request that have an estimate and, when there is any, the
  ones of unknown usage.\<close>

theorem subscription_conserves_cost:
  assumes "ConsumptionManagement_getEstimates E client startDate endDate grouping g = Some (Inr rs, g')"
    and "obj_get (zg_store g) ''total'' \<noteq> None"
  shows "\<exists>usageRows rows. getConsumptionUsageDetails E client startDate endDate = Some (Inr usageRows)
    \<and> mapR (azure_read E grouping) (filter (in_range startDate endDate) usageRows) = Inr rows
    \<and> er_total sd_cost rs = sum_list (map br_cost (azure_counted_rows rows))"
proof -
  from assms(1) obtain usageRows where
    "getConsumptionUsageDetails E client startDate endDate = Some (Inr usageRows)"
    "azure_estimates_of_rows E startDate endDate grouping usageRows g = (Inr rs, g')"
    by (auto simp: ConsumptionManagement_getEstimates_def split: option.splits sum.splits)
  with azure_report_cost [OF this(2) assms(2)] show ?thesis by blast
qed

theorem subscription_conserves_cost_witness:
  "\<exists>rs g'. ConsumptionManagement_getEstimates vm_env vm_client 1672876800000 1673136000000 day vm_start
     = (Some (Inr rs, g')) \<and> er_total sd_cost rs = Fin 6"
proof -
  obtain rs g' where run: "ConsumptionManagement_getEstimates vm_env vm_client 1672876800000 1673136000000 day
      vm_start = Some (Inr rs, g')"
    using vm_run by blast
  from subscription_conserves_cost [OF run vm_total]
  have "er_total sd_cost rs = sum_list (map br_cost vm_rows)"
    by (simp add: vm_fetched vm_in_range vm_reads vm_counted)
  then show ?thesis using run by (simp add: vm_rows_def vm_row_def jsnum_simps)
qed

section \<open>The subscriptions of an account\<close>


definition vm_clients :: azure_clients where
  "vm_clients =
     \<lparr>sc_list = Inr [\<lparr>sb_subscriptionId = ''s0'', sb_displayName = ''broken''\<rparr>,
                      \<lparr>sb_subscriptionId = ''s1'', sb_displayName = ''main''\<rparr>],
      sc_get = (\<lambda>i. Inr \<lparr>sb_subscriptionId = i, sb_displayName = i\<rparr>),
      sc_consumption = (\<lambda>i. if i = ''s1'' then vm_client
         else \<lparr>cm_subscriptionId = i, cm_list = (\<lambda>_ _ _. ([], Some (OtherError ''forbidden'')))\<rparr>),
      sc_tenants = (\<lambda>_. None)\<rparr>"

lemma vm_subscriptions:
  "getSubscriptions vm_env vm_clients [] None
     = Inr [\<lparr>sb_subscriptionId = ''s0'', sb_displayName = ''broken''\<rparr>,
            \<lparr>sb_subscriptionId = ''s1'', sb_displayName = ''main''\<rparr>]"
  by (simp add: getSubscriptions_def default_subscription_ids_def vm_clients_def vm_env_def)

lemma vm_broken: "getConsumptionUsageDetails vm_env (sc_consumption vm_clients ''s0'') s e = Some (Inl TypeError)"
proof -
  have "\<not> chunked vm_env" by (simp add: chunked_def vm_env_def)
  then show ?thesis
    by (simp add: vm_clients_def getConsumptionUsageDetails_def queryConsumptionUsageDetails_def
        waitIfRateLimitExceeded_def)
qed

lemma vm_data:
  "getDataForSubscription vm_env vm_clients s e ''s0'' day vm_start = Some (Inl TypeError, vm_start)"
  "getDataForSubscription vm_env vm_clients s e ''s1'' = ConsumptionManagement_getEstimates vm_env vm_client s e"
proof -
  show "getDataForSubscription vm_env vm_clients s e ''s0'' day vm_start = Some (Inl TypeError, vm_start)"
    by (simp add: getDataForSubscription_def ConsumptionManagement_getEstimates_def vm_broken)
  show "getDataForSubscription vm_env vm_clients s e ''s1'' = ConsumptionManagement_getEstimates vm_env vm_client s e"
    by (rule ext) (simp add: getDataForSubscription_def vm_clients_def)
qed

lemma vm_chunks: "case ze_subscriptionChunks vm_env of None \<Rightarrow> True | Some n \<Rightarrow> 0 \<le> n"
  by (simp add: vm_env_def)


lemma vm_account_run:
  "\<exists>rs g'. getDataFromConsumptionManagement vm_env vm_clients 1672876800000 1673136000000 day None None vm_start
     = Some (Inr rs, g')"
proof -
  obtain rs g' where run: "ConsumptionManagement_getEstimates vm_env vm_client 1672876800000 1673136000000 day
      vm_start = Some (Inr rs, g')"
    using vm_run by blast
  show ?thesis
    using subscription_requests [OF _ vm_chunks, of vm_clients None None
        _ 1672876800000 1673136000000 day vm_start, unfolded option.case, OF vm_subscriptions]
    by (simp add: vm_data run)
qed

section \<open>Amounts\<close>

text \<open>A managed disk whose name has the word LRS, such as \<open>S4 LRS Disk\<close>, counts as SSD storage; when no SSD
  matches its name it is charged no terabyte at all.\<close>

theorem redundant_disks_have_no_size:
  assumes "test_word ''LRS'' (br_usageType row)" and "isManagedDiskStorage row"
    and "match_disk_type (br_usageType row) = None" and "br_usageUnit row \<noteq> az_TB_MONTH_1"
  shows "getUsageAmountInTerabyteHours row = 0"
proof -
  have "isSSDStorage row"
    using assms(1) by (simp add: isSSDStorage_def containsAny_def azure_STORAGE_USAGE_TYPES_def)
  moreover have "convertGigaBytesToTerabyteHours 0 = 0" by code_simp
  ultimately show ?thesis
    using assms by (simp add: getUsageAmountInTerabyteHours_def or_num_def)
qed

definition disk_row :: "string \<Rightarrow> ConsumptionDetailRow" where
  "disk_row usageType = vm_row 0 ''Storage'' usageType ''1/Month'' 1 1 1 []"

theorem redundant_disks_have_no_size_witness:
  "getUsageAmountInTerabyteHours (disk_row ''S4 LRS Disk'') = 0"
proof (rule redundant_disks_have_no_size)
  show "test_word ''LRS'' (br_usageType (disk_row ''S4 LRS Disk''))" by code_simp
  show "isManagedDiskStorage (disk_row ''S4 LRS Disk'')" by code_simp
qed (simp_all add: disk_row_def vm_row_def az_TB_MONTH_1_def)

lemma named_disk_has_its_size:
  "getUsageAmountInTerabyteHours (disk_row ''S4 Disks'') = convertGigaBytesToTerabyteHours (Fin 32)"
  by code_simp

section \<open>Lookups\<close>

definition at_region :: "string \<Rightarrow> LookupTableInput \<Rightarrow> LookupTableInput" where
  "at_region region i = i\<lparr>li_region := region\<rparr>"

text \<open>What a lookup table holds but for the names of the regions.\<close>

definition lookup_numbers :: "LookupTableOutput list \<Rightarrow> (string \<times> string \<times> jsnum \<times> jsnum) list" where
  "lookup_numbers = map (\<lambda>l. (lo_serviceName l, lo_usageType l, lo_kilowattHours l, lo_co2e l))"

definition same_numbers ::
    "LookupTableOutput list result \<times> azure_globals \<Rightarrow> LookupTableOutput list result \<times> azure_globals \<Rightarrow> bool" where
  "same_numbers x y \<longleftrightarrow>
     map_sum id lookup_numbers (fst x) = map_sum id lookup_numbers (fst y) \<and> snd x = snd y"

lemma same_detail: "azure_input_detail (at_region (f i) i) = azure_input_detail i"
  by (simp add: azure_input_detail_def at_region_def)

text \<open>From tables with the same numbers come tables with the same numbers.\<close>

lemma unknown_lookups_same:
  assumes "lookup_numbers acc = lookup_numbers acc'"
  shows "same_numbers (foldE azure_unknown_input_step acc us g) (foldE azure_unknown_input_step acc' us g)"
  using assms
proof (induction us arbitrary: acc acc' g)
  case Nil
  then show ?case by (simp add: same_numbers_def)
next
  case (Cons u us)
  obtain r g' where run: "azure_getEstimateForUnknownUsage u g = (r, g')" by fastforce
  show ?case
  proof (cases r)
    case (Inl e)
    then show ?thesis using run by (simp add: azure_unknown_input_step_def bindE_apply same_numbers_def)
  next
    case (Inr e)
    have "lookup_numbers (acc @ [azure_output (br_serviceName u) (br_region u) (br_usageType u) e])
        = lookup_numbers (acc' @ [azure_output (br_serviceName u) (br_region u) (br_usageType u) e])"
      using Cons.prems by (simp add: lookup_numbers_def)
    from Cons.IH [OF this, of g'] show ?thesis
      using run Inr by (simp add: azure_unknown_input_step_def bindE_apply)
  qed
qed

lemma lookup_numbers_length: "lookup_numbers xs = lookup_numbers ys \<Longrightarrow> length xs = length ys"
  by (drule arg_cong [where f = length]) (simp add: lookup_numbers_def)

lemma lookups_same:
  assumes "lookup_numbers acc = lookup_numbers acc'"
  shows "same_numbers
    (bindE (foldE (azure_input_step E) (acc, us) (map (\<lambda>i. at_region (f i) i) is)) azure_unknown_lookups g)
    (bindE (foldE (azure_input_step E) (acc', us) is) azure_unknown_lookups g)"
  using assms
proof (induction "is" arbitrary: acc acc' us g)
  case Nil
  then have "same_numbers (azure_unknown_lookups (acc, us) g) (azure_unknown_lookups (acc', us) g)"
    using unknown_lookups_same [OF Nil, of us g] lookup_numbers_length [OF Nil]
    by (cases "acc = []") (simp_all add: azure_unknown_lookups_def same_numbers_def)
  then show ?case by (simp del: eff_apply)
next
  case (Cons i "is")
  define m where "m = bindE (liftE (new_ConsumptionDetailRow (ze_tagNames E) (azure_input_detail i)))
    (\<lambda>row. bindE (azure_factorsE E (br_region row) (toISOString (ze_now E)))
      (azure_getFootprintEstimateFromUsageRow E row us))"
  define out where "out = (\<lambda>(j :: LookupTableInput) e. case e of None \<Rightarrow> []
    | Some e \<Rightarrow> [azure_output (li_serviceName j) (li_region j) (li_usageType j) e])"
  have step: "azure_input_step E (a, us) j = bindE m (\<lambda>(e, us'). retE (a @ out j e, us'))"
    if "azure_input_detail j = azure_input_detail i" for a j
    by (rule ext) (auto simp: azure_input_step_def m_def out_def that bindE_def split: sum.splits prod.splits)
  obtain r g' where run: "m g = (r, g')" by fastforce
  show ?case
  proof (cases r)
    case (Inl e)
    then show ?thesis
      by (simp add: step [OF same_detail] step [OF refl] bindE_apply run same_numbers_def)
  next
    case (Inr p)
    obtain e us' where p: "p = (e, us')" by fastforce
    have "lookup_numbers (acc @ out (at_region (f i) i) e) = lookup_numbers (acc' @ out i e)"
      using Cons.prems by (simp add: lookup_numbers_def out_def at_region_def azure_output_def split: option.split)
    from Cons.IH [OF this, of us' g'] show ?thesis
      using Inr p by (simp add: step [OF same_detail] step [OF refl] bindE_apply run)
  qed
qed

text \<open>The region of a lookup changes nothing but its name: each row of the table has the kilowatt hours and
  the emissions of the unknown region, because the region is looked for outside the meter details
  that hold it.\<close>

theorem lookups_ignore_the_region:
  "same_numbers
     (getDataFromConsumptionManagementInputData E (map (\<lambda>i. at_region (f i) i) inputData) g)
     (getDataFromConsumptionManagementInputData E inputData g)"
  unfolding getDataFromConsumptionManagementInputData_def azure_getEstimatesFromInputData_def
  by (rule lookups_same) simp

section \<open>Recommendations\<close>

text \<open>
  The recommendations of Azure Advisor as a computation without state: every recommendation about an
  underutilized machine is answered with what it saves, and a subscription that fails is left out.
\<close>

text \<open>The energy and the emissions of a machine with the factors of the table.\<close>

definition advisor_estimated :: "azure_env \<Rightarrow> azure_rightsizing \<Rightarrow> jsnum \<times> jsnum" where
  "advisor_estimated E r =
     (let compute = advisor_getComputeFootprint E r AZURE_EMISSIONS_FACTORS_METRIC_TON_PER_KWH;
          memory = advisor_getMemoryFootprint r AZURE_EMISSIONS_FACTORS_METRIC_TON_PER_KWH
      in if truthy (fe_co2e memory)
         then (fe_kilowattHours compute + fe_kilowattHours memory, fe_co2e compute + fe_co2e memory)
         else (fe_kilowattHours compute, fe_co2e compute))"

definition advisor_answer :: "azure_env \<Rightarrow> ResourceRecommendation \<Rightarrow> RecommendationResult result" where
  "advisor_answer E rec =
     bindR (azure_new_RightsizingCurrentRecommendation E rec) (\<lambda>current.
       if va_type current \<in> {Some ''Right-size'', Some ''SkuChange''} then
         bindR (azure_new_RightsizingTargetRecommendation E rec) (\<lambda>target.
           Inr (advisor_result current (advisor_detail current (Some target))
             (fst (advisor_estimated E current) - fst (advisor_estimated E target))
             (snd (advisor_estimated E current) - snd (advisor_estimated E target)) (va_costSavings target)))
       else Inr (advisor_result current (advisor_detail current None)
              (fst (advisor_estimated E current)) (snd (advisor_estimated E current)) (va_costSavings current)))"

definition advisor_answers :: "azure_env \<Rightarrow> string + ResourceRecommendation list \<Rightarrow> RecommendationResult list result" where
  "advisor_answers E listed =
     (case listed of
        Inl message \<Rightarrow> Inl (Thrown message)
      | Inr recommendations \<Rightarrow> bindR (underutilized recommendations) (mapR (advisor_answer E)))"

lemma azure_factorsE_no_token:
  "ze_token E = [] \<Longrightarrow> azure_factorsE E region dateTime g = (Inr AZURE_EMISSIONS_FACTORS_METRIC_TON_PER_KWH, g)"
  by (simp add: azure_factorsE_def getEmissionsFactors_def split: option.splits)

lemma advisor_step_answer:
  assumes "ze_token E = []"
  shows "advisor_step E rs rec g
    = (case advisor_answer E rec of Inl e \<Rightarrow> (Inl e, g) | Inr r \<Rightarrow> (Inr (rs @ [r]), g))"
  by (auto simp: advisor_step_def advisor_answer_def advisor_getFootprintEstimates_def bindE_apply bindR_def
      azure_factorsE_no_token [OF assms] advisor_estimated_def minus_plus_num Let_def split: sum.splits)

lemma advisor_loop:
  assumes "ze_token E = []"
  shows "foldE (advisor_step E) acc recs g
    = (case mapR (advisor_answer E) recs of Inl e \<Rightarrow> (Inl e, g) | Inr rs \<Rightarrow> (Inr (acc @ rs), g))"
  by (rule foldE_appends) (rule advisor_step_answer [OF assms])

lemma advisor_run:
  assumes "ze_token E = []"
  shows "attempt [] (Advisor_getRecommendations E listed) g
    = (Inr (case advisor_answers E listed of Inl _ \<Rightarrow> [] | Inr rs \<Rightarrow> rs), g)"
  by (cases listed) (auto simp: attempt_def Advisor_getRecommendations_def explained_def bindE_apply
      advisor_answers_def bindR_def advisor_loop [OF assms] split: sum.splits prod.splits)

lemma mapE_pure: "(\<And>x. f x g = (Inr (h x), g)) \<Longrightarrow> mapE f xs g = (Inr (map h xs), g)"
  by (induction xs) (simp_all add: bindE_apply)

lemma account_answers:
  assumes "ze_token E = []"
  shows "getDataFromAdvisorManagement E S advisor subscriptionIds g
    = (case getSubscriptions E S (case subscriptionIds of None \<Rightarrow> [] | Some ids \<Rightarrow> ids) None of
         Inl e \<Rightarrow> (Inl e, g)
       | Inr subscriptions \<Rightarrow>
           (Inr (concat (map (\<lambda>s. case advisor_answers E (advisor (sb_subscriptionId s)) of
                                    Inl _ \<Rightarrow> [] | Inr rs \<Rightarrow> rs) subscriptions)), g))"
  by (auto simp: getDataFromAdvisorManagement_def bindE_apply getRecommendationsForSubscription_def
      mapE_pure [OF advisor_run [OF assms]] split: sum.split)

text \<open>Without a token of Electricity Maps, the recommendations of an account are those of its subscriptions in
  order, without a change of state: each recommendation about an underutilized machine is answered with the
  estimate of the machine, less that of the target when it is resized. A subscription whose list, or one of
  whose recommendations, cannot be read contributes nothing.\<close>

theorem advisor_recommendations_are_answered:
  assumes "ze_token E = []"
  shows "getDataFromAdvisorManagement E S advisor subscriptionIds g
    = (case getSubscriptions E S (case subscriptionIds of None \<Rightarrow> [] | Some ids \<Rightarrow> ids) None of
         Inl e \<Rightarrow> (Inl e, g)
       | Inr subscriptions \<Rightarrow>
           (Inr (concat (map (\<lambda>s. case advisor_answers E (advisor (sb_subscriptionId s)) of
                                    Inl _ \<Rightarrow> [] | Inr rs \<Rightarrow> rs) subscriptions)), g))"
  by (rule account_answers [OF assms])

definition idle_machine :: ResourceRecommendation where
  "idle_machine =
     \<lparr>ra_solution = Some ''Shut down underutilized machines'',
      ra_extendedProperties = Some [(''subscriptionId'', ''b''), (''recommendationType'', ''Shutdown''),
        (''regionId'', ''uksouth''), (''roleName'', ''vm1''), (''currentSku'', ''Standard_D2s_v3''),
        (''savingsAmount'', ''12'')],
      ra_resourceMetadata = Some (Some ''/vm1'')\<rparr>"

definition reserved_machine :: ResourceRecommendation where
  "reserved_machine = \<lparr>ra_solution = Some ''Reserve machines'', ra_extendedProperties = None, ra_resourceMetadata = None\<rparr>"

text \<open>The first subscription cannot be listed, the second one has an idle machine, and one of the third has no properties.\<close>

definition advised :: "string \<Rightarrow> string + ResourceRecommendation list" where
  "advised subscription =
     (if subscription = ''a'' then Inl ''Forbidden''
      else if subscription = ''b'' then Inr [reserved_machine, idle_machine]
      else Inr [idle_machine, idle_machine\<lparr>ra_extendedProperties := None\<rparr>])"

definition advised_clients :: azure_clients where
  "advised_clients =
     \<lparr>sc_list = Inr (map (\<lambda>s. \<lparr>sb_subscriptionId = s, sb_displayName = s\<rparr>) [''a'', ''b'', ''c'']),
      sc_get = (\<lambda>_. Inl TypeError), sc_consumption = (\<lambda>_. answering_client usage_start []),
      sc_tenants = (\<lambda>_. None)\<rparr>"

lemma advised_texts:
  "str_includes ''Shut down underutilized machines'' ''underutilized''"
  "\<not> str_includes ''Reserve machines'' ''underutilized''" "parseFloat ''12'' = Fin 12"
  by code_simp+

lemma idle_answer:
  "\<exists>r. advisor_answer vm_env idle_machine = Inr r \<and> rr_accountId r = Some ''b''
     \<and> rr_costSavings r = Some (Fin 12) \<and> rr_recommendationDetail r = Some ''Shutdown: vm1.''"
  by (simp add: advisor_answer_def azure_new_RightsizingCurrentRecommendation_def azure_rightsizing_of_def
      idle_machine_def advisor_result_def advisor_detail_def parseFloat_opt_def advised_texts Let_def)

lemma broken_answer: "advisor_answer vm_env (idle_machine\<lparr>ra_extendedProperties := None\<rparr>) = Inl TypeError"
  by (simp add: advisor_answer_def azure_new_RightsizingCurrentRecommendation_def azure_rightsizing_of_def
      split: option.split)

lemma advised_answers:
  "advisor_answers vm_env (advised ''a'') = Inl (Thrown ''Forbidden'')"
  "advisor_answers vm_env (advised ''b'') = mapR (advisor_answer vm_env) [idle_machine]"
  "advisor_answers vm_env (advised ''c'') = Inl TypeError"
proof -
  have u: "underutilized [reserved_machine, idle_machine] = Inr [idle_machine]"
    "underutilized [idle_machine, idle_machine\<lparr>ra_extendedProperties := None\<rparr>]
       = Inr [idle_machine, idle_machine\<lparr>ra_extendedProperties := None\<rparr>]"
    by (simp_all add: underutilized_def reserved_machine_def idle_machine_def advised_texts)
  show "advisor_answers vm_env (advised ''a'') = Inl (Thrown ''Forbidden'')"
    "advisor_answers vm_env (advised ''b'') = mapR (advisor_answer vm_env) [idle_machine]"
    by (simp_all add: advisor_answers_def advised_def u)
  show "advisor_answers vm_env (advised ''c'') = Inl TypeError"
    using idle_answer broken_answer by (auto simp: advisor_answers_def advised_def u)
qed

theorem advisor_recommendations_are_answered_witness:
  "\<exists>r. getDataFromAdvisorManagement vm_env advised_clients advised None vm_start = (Inr [r], vm_start)
     \<and> rr_accountId r = Some ''b'' \<and> rr_costSavings r = Some (Fin 12)
     \<and> rr_recommendationDetail r = Some ''Shutdown: vm1.''"
proof -
  have "ze_token vm_env = []" by (simp add: vm_env_def)
  note run = advisor_recommendations_are_answered [OF this, of advised_clients advised None vm_start]
  have "getSubscriptions vm_env advised_clients [] None
      = Inr (map (\<lambda>s. \<lparr>sb_subscriptionId = s, sb_displayName = s\<rparr>) [''a'', ''b'', ''c''])"
    by (simp add: getSubscriptions_def default_subscription_ids_def vm_env_def advised_clients_def)
  with run idle_answer show ?thesis by (auto simp: advised_answers)
qed

end
