(* ===== verification/Ali_Properties.thy ===== *)
theory Ali_Properties
  imports Ali_Totals
begin

text \<open>
  The properties of the Ali package: the months whose bills a request reads, what the text of a
  configuration comes to, and the estimates of the bills.
\<close>

section \<open>The months of a request\<close>

text \<open>How far a date is into its month.\<close>

definition into_month :: "date \<Rightarrow> int" where
  "into_month t = t - month_start (month_of t) * ms_per_day"

definition last_billed_month :: "date \<Rightarrow> date \<Rightarrow> int" where
  "last_billed_month s e = (if into_month s \<le> into_month e then month_of e else month_of e - 1)"

definition cycle_name :: "int \<Rightarrow> string" where
  "cycle_name k = padded 4 (k div 12) @ ''-'' @ padded 2 (k mod 12 + 1)"

lemma into_month_eq: "into_month t = (day_of_month t - 1) * ms_per_day + t mod ms_per_day"
proof -
  have "t = day_number t * ms_per_day + t mod ms_per_day" by (simp add: day_number_def)
  then show ?thesis using month_of_bounds(3) [of t] by (simp add: into_month_def algebra_simps)
qed

lemma add_month_regular:
  assumes "day_of_month t \<le> 28"
  shows "month_of (add_month t) = month_of t + 1" "day_of_month (add_month t) = day_of_month t"
    "into_month (add_month t) = into_month t"
proof -
  have md: "(add_month t) mod ms_per_day = t mod ms_per_day" by (simp add: add_month_eq)
  have dn: "day_number (add_month t) = month_start (month_of t + 1) + day_of_month t - 1"
    by (simp add: day_number_def add_month_eq ms_per_day_def)
  show "month_of (add_month t) = month_of t + 1"
    using assms month_of_bounds(4) [of t] month_start_step [of "month_of t + 1"]
    by (intro month_of_unique) (auto simp: dn)
  from day_of_month_unique [OF this dn]
  show "day_of_month (add_month t) = day_of_month t" .
  then show "into_month (add_month t) = into_month t" by (simp add: into_month_eq md)
qed

lemma into_month_bounds: "0 \<le> into_month t" "t = month_start (month_of t) * ms_per_day + into_month t"
  "into_month t < (month_start (month_of t + 1) - month_start (month_of t)) * ms_per_day"
proof -
  show "0 \<le> into_month t" using month_of_bounds(4) [of t] by (simp add: into_month_eq ms_per_day_def)
  show "t = month_start (month_of t) * ms_per_day + into_month t" by (simp add: into_month_def)
  have "day_of_month t \<le> month_start (month_of t + 1) - month_start (month_of t)"
    using month_of_bounds(2,3) [of t] by linarith
  then have "(day_of_month t - 1 + 1) * ms_per_day
      \<le> (month_start (month_of t + 1) - month_start (month_of t)) * ms_per_day"
    by (intro mult_right_mono) (simp_all add: ms_per_day_def)
  moreover have "t mod ms_per_day < ms_per_day" by (simp add: ms_per_day_def)
  ultimately show "into_month t < (month_start (month_of t + 1) - month_start (month_of t)) * ms_per_day"
    by (simp add: into_month_eq algebra_simps)
qed

lemma month_start_ms:
  "j < k \<Longrightarrow> month_start (j + 1) * ms_per_day \<le> month_start k * ms_per_day"
  using month_start_less [of "j + 1" k] by (cases "j + 1 = k") (auto simp: ms_per_day_def)

lemma before_iff: "s \<le> e \<longleftrightarrow> month_of s \<le> last_billed_month s e"
proof -
  note s = into_month_bounds [of s] and e = into_month_bounds [of e]
  consider "month_of s < month_of e" | "month_of s = month_of e" | "month_of e < month_of s" by linarith
  then show ?thesis
  proof cases
    case 1
    from month_start_ms [OF this] s e have "s \<le> e" by (simp add: left_diff_distrib)
    with 1 show ?thesis by (auto simp: last_billed_month_def)
  next
    case 2
    then have "s - e = into_month s - into_month e" by (simp add: into_month_def)
    then have "s \<le> e \<longleftrightarrow> into_month s \<le> into_month e" by linarith
    with 2 show ?thesis by (simp add: last_billed_month_def)
  next
    case 3
    from month_start_ms [OF this] s e have "e < s" by (simp add: left_diff_distrib)
    with 3 show ?thesis by (auto simp: last_billed_month_def)
  qed
qed

lemma months_of_dates:
  "day_of_month s \<le> 28 \<Longrightarrow> map month_of (ali_getDates s e) = [month_of s..last_billed_month s e]"
proof (induction s e rule: ali_getDates.induct)
  case (1 s e)
  have "last_billed_month (add_month s) e = last_billed_month s e"
    using add_month_regular(3) [OF 1(2)] by (simp add: last_billed_month_def)
  moreover have "s \<le> e \<Longrightarrow> map month_of (ali_getDates (add_month s) e)
      = [month_of s + 1..last_billed_month (add_month s) e]"
    using 1 add_month_regular [OF 1(2)] by simp
  ultimately have rest: "s \<le> e \<Longrightarrow> map month_of (ali_getDates (add_month s) e)
      = [month_of s + 1..last_billed_month s e]" by simp
  show ?case
  proof (cases "s \<le> e")
    case True
    then have "map month_of (ali_getDates s e) = month_of s # [month_of s + 1..last_billed_month s e]"
      using rest by (subst ali_getDates.simps) simp
    then show ?thesis using upto_rec1 [OF before_iff [THEN iffD1, OF True]] by simp
  next
    case False
    then have "\<not> month_of s \<le> last_billed_month s e" using before_iff [of s e] by blast
    with False show ?thesis by (subst ali_getDates.simps) simp
  qed
qed

lemma dates_between: "d \<in> set (ali_getDates s e) \<Longrightarrow> s \<le> d \<and> d \<le> e"
proof (induction s e rule: ali_getDates.induct)
  case (1 s e)
  then show ?case
    using add_month_later [of s] by (subst (asm) (2) ali_getDates.simps) (auto split: if_splits)
qed

lemma billing_cycle_month:
  assumes "0 \<le> year_of t" "year_of t \<le> 9999"
  shows "billing_cycle t = cycle_name (month_of t)"
proof -
  obtain y m d where c: "civil (day_number t) = (y, m, d)" by (cases "civil (day_number t)")
  have "month_of t div 12 = y" "month_of t mod 12 + 1 = m"
    using civil_spec(2,3) [OF c] by (simp_all add: month_of_def c)
  then show ?thesis
    using iso_day_eq [OF c] assms by (simp add: billing_cycle_def cycle_name_def year_of_def c)
qed

lemma year_of_mono: "s \<le> t \<Longrightarrow> year_of s \<le> year_of t"
proof -
  assume "s \<le> t"
  have "year_of u = month_of u div 12" for u
    using civil_spec(2,3) [of "day_number u"]
    by (cases "civil (day_number u)") (auto simp: year_of_def month_of_def)
  moreover have "month_of s \<le> month_of t"
    using \<open>s \<le> t\<close> before_iff [of s t] by (auto simp: last_billed_month_def split: if_splits)
  ultimately show ?thesis by (simp add: zdiv_mono1)
qed

text \<open>The bills that a request reads are those of consecutive months, each once, from the month of its
  start on: up to the month of its end when the end is as far into its month as the start is, and
  otherwise only up to the month before. Start days up to the 28th, which every month has.\<close>

theorem ali_bills_of_consecutive_months:
  assumes "day_of_month s \<le> 28" and "0 \<le> year_of s" and "year_of e \<le> 9999"
  shows "map billing_cycle (ali_getDates s e) = map cycle_name [month_of s..last_billed_month s e]"
proof -
  have "map billing_cycle (ali_getDates s e) = map (cycle_name \<circ> month_of) (ali_getDates s e)"
    using assms(2,3) dates_between [of _ s e] year_of_mono
    by (auto intro!: billing_cycle_month intro: order_trans)
  also have "\<dots> = map cycle_name (map month_of (ali_getDates s e))" by simp
  finally show ?thesis using months_of_dates [OF assms(1)] by (simp only:)
qed

text \<open>From the fifteenth of November 2022 to the tenth of February 2023: February is not billed.\<close>

theorem ali_bills_of_consecutive_months_witness:
  "map billing_cycle (ali_getDates 1668470400000 1675987200000) = [''2022-11'', ''2022-12'', ''2023-01'']"
proof -
  have "day_of_month 1668470400000 \<le> 28" "0 \<le> year_of 1668470400000" "year_of 1675987200000 \<le> 9999"
    by code_simp+
  from ali_bills_of_consecutive_months [OF this]
  have "map billing_cycle (ali_getDates 1668470400000 1675987200000)
      = map cycle_name [month_of 1668470400000..last_billed_month 1668470400000 1675987200000]" .
  also have "\<dots> = [''2022-11'', ''2022-12'', ''2023-01'']" by code_simp
  finally show ?thesis .
qed

section \<open>The configuration of an instance\<close>

definition config_text :: "(string \<times> string) list \<Rightarrow> string" where
  "config_text kvs = join '';'' (map (\<lambda>(k, v). k @ '':'' @ v) kvs)"

definition plain_config :: "(string \<times> string) list \<Rightarrow> bool" where
  "plain_config kvs \<longleftrightarrow> list_all (\<lambda>(k, v). CHR '':'' \<notin> set k \<and> CHR '';'' \<notin> set k
     \<and> CHR '':'' \<notin> set v \<and> CHR '';'' \<notin> set v \<and> \<not> utf8_line_end v) kvs"

text \<open>No other key ends with the key, as \<open>vCPU\<close> would with \<open>CPU\<close>.\<close>

definition separate_key :: "string \<Rightarrow> (string \<times> string) list \<Rightarrow> bool" where
  "separate_key key kvs \<longleftrightarrow> CHR '';'' \<notin> set key
     \<and> list_all (\<lambda>(k, v). endsWith k key \<longrightarrow> k = key) kvs"

lemma startsWith_before:
  assumes "c \<notin> set t" "startsWith (p @ c # r) t"
  shows "startsWith p t"
proof -
  from assms(2) obtain v where v: "p @ c # r = t @ v" by (auto simp: startsWith_iff)
  have "length t \<le> length p"
  proof (rule ccontr)
    assume "\<not> length t \<le> length p"
    then have "t ! length p = (t @ v) ! length p" "length p < length t" by (simp_all add: nth_append)
    with v [symmetric] assms(1) show False by (auto simp: nth_append in_set_conv_nth)
  qed
  with v have "p = t @ drop (length t) p" by (metis append_eq_append_conv_if append_take_drop_id)
  then show ?thesis unfolding startsWith_iff by blast
qed

lemma getJsonValue_skip:
  assumes "CHR '';'' \<notin> set key" "\<not> str_includes p (key @ '':'')"
  shows "getJsonValue key (p @ '';'' @ r) = getJsonValue key r"
  using assms(2)
proof (induction p)
  case Nil
  then show ?case using assms(1) startsWith_before [of "CHR '';''" "key @ '':''" "[]" r]
    by (cases key) (auto simp: startsWith_iff)
next
  case (Cons c p)
  have "CHR '';'' \<notin> set (key @ '':'')" using assms(1) by simp
  from startsWith_before [OF this, of "c # p" r] Cons.prems
  have "\<not> startsWith (c # p @ '';'' @ r) (key @ '':'')" by auto
  then show ?case using Cons by (simp del: startsWith.simps)
qed

lemma getJsonValue_absent: "\<not> str_includes p (key @ '':'') \<Longrightarrow> getJsonValue key p = None"
  by (induction p) (auto simp del: startsWith.simps)

lemma getJsonValue_here:
  assumes "CHR '';'' \<notin> set v" "\<not> utf8_line_end v" "r = [] \<or> hd r = CHR '';''"
  shows "getJsonValue key (key @ '':'' @ v @ r) = Some v"
proof -
  have tw: "takeWhile (\<lambda>d. d \<noteq> CHR '';'') (v @ r) = v"
    using assms(1,3) by (cases r) (auto simp: takeWhile_append takeWhile_eq_all_conv)
  obtain c cs where cs: "key @ '':'' @ v @ r = c # cs" by (cases "key @ '':'' @ v @ r") auto
  have "startsWith (c # cs) (key @ '':'')" unfolding cs [symmetric] startsWith_iff by simp
  moreover have "drop (length key + 1) (c # cs) = v @ r" unfolding cs [symmetric] by simp
  ultimately show ?thesis unfolding cs using assms(2) tw by (simp del: startsWith.simps drop_Cons)
qed

lemma key_in_field:
  assumes "CHR '':'' \<notin> set k" "CHR '':'' \<notin> set v" "str_includes (k @ '':'' @ v) (key @ '':'')"
  shows "endsWith k key"
proof -
  from assms(3) obtain u w where uw: "k @ CHR '':'' # v = (u @ key) @ CHR '':'' # w"
    by (auto simp: str_includes_iff)
  then obtain us where "k = (u @ key) @ us \<and> us @ CHR '':'' # v = CHR '':'' # w
      \<or> k @ us = u @ key \<and> CHR '':'' # v = us @ CHR '':'' # w"
    using iffD1 [OF append_eq_append_conv2 uw] by metis
  with assms(1,2) have "k = u @ key" by (cases us) auto
  then show ?thesis by (simp add: endsWith_iff)
qed

text \<open>A configuration reads back: the first field of a key.\<close>

lemma getJsonValue_config:
  assumes "plain_config kvs" "separate_key key kvs"
  shows "getJsonValue key (config_text kvs) = map_of kvs key"
  using assms
proof (induction kvs)
  case Nil
  then show ?case by (simp add: config_text_def)
next
  case (Cons f kvs)
  obtain k v where f: "f = (k, v)" by (cases f)
  have kv: "CHR '':'' \<notin> set k" "CHR '':'' \<notin> set v" "CHR '';'' \<notin> set v" "\<not> utf8_line_end v"
      "endsWith k key \<Longrightarrow> k = key" "CHR '';'' \<notin> set key"
    and rest: "getJsonValue key (config_text kvs) = map_of kvs key"
    using Cons by (auto simp: f plain_config_def separate_key_def)
  have ct: "config_text (f # kvs) = k @ '':'' @ v @ (if kvs = [] then [] else '';'' @ config_text kvs)"
    by (simp add: f config_text_def join_Cons)
  show ?case
  proof (cases "k = key")
    case True
    then show ?thesis unfolding ct using getJsonValue_here [OF kv(3,4)] by (simp add: f)
  next
    case False
    then have no: "\<not> str_includes (k @ '':'' @ v) (key @ '':'')"
      using key_in_field [OF kv(1,2)] kv(5) by blast
    show ?thesis
    proof (cases "kvs = []")
      case True
      then show ?thesis unfolding ct using getJsonValue_absent [OF no] False by (simp add: f)
    next
      case ne: False
      then show ?thesis
        unfolding ct using getJsonValue_skip [OF kv(6) no, of "config_text kvs"] rest False
        by (simp add: f)
    qed
  qed
qed

text \<open>An amount in decimal digits before its unit.\<close>

lemma padded_head:
  assumes "0 < k"
  obtains c cs where "padded k n = c # cs" "is_digit c"
proof -
  obtain c cs where c: "padded k n = c # cs" using assms length_padded [of k n] by (cases "padded k n") auto
  then have "is_digit c" using padded_digits [of k n] by auto
  with c that show thesis by blast
qed

lemma parseInt_padded:
  assumes "0 < k" "0 \<le> n" "n < 10 ^ k"
  shows "parseInt (padded k n) = Fin (of_int n)"
proof -
  obtain c cs where c: "padded k n = c # cs" "is_digit c" using padded_head [OF assms(1)] .
  have all: "list_all is_digit (padded k n)" using padded_digits [of k n] by (simp add: list_all_iff)
  have tw: "takeWhile is_digit (c # cs) = c # cs" using all by (simp add: takeWhile_eq_all_conv c list_all_iff)
  then have ds: "fst (read_digits (c # cs)) = c # cs" by (simp only: read_digits_def fst_conv)
  have sp: "\<not> is_space c" "c \<noteq> CHR ''-''" "c \<noteq> CHR ''+''" using c(2) by (auto simp: char_defs)
  have "\<not> startsWith (c # cs) ''0x''" "\<not> startsWith (c # cs) ''0X''"
    using all by (cases cs; auto simp: c char_defs)+
  then have "parseInt (c # cs) = Fin (of_int (digits_val (c # cs)))"
    using sp ds by (simp add: parseInt_def read_sign_def Let_def del: startsWith.simps)
  then show ?thesis using digits_val_padded [OF assms(2,3)] by (simp add: c)
qed

lemma digits_before:
  assumes "\<not> is_digit c" "c \<notin> set t"
  shows "hd (split (padded k n @ c # t) (c # t)) = padded k n"
proof -
  have "\<not> str_includes (padded k n) (c # t)"
    using padded_digits [of k n] assms(1) by (auto simp: str_includes_iff)
  from split_first [OF assms(2) this, of "[]"] show ?thesis by simp
qed

lemma cores_read: "0 < k \<Longrightarrow> 0 \<le> n \<Longrightarrow> n < 10 ^ k \<Longrightarrow> parseInt (hd (split (padded k n @ zh_cores) zh_cores)) = Fin (of_int n)"
  unfolding zh_cores_def by (subst digits_before) (auto simp: parseInt_padded char_defs)

lemma gigabytes_read: "0 < k \<Longrightarrow> 0 \<le> n \<Longrightarrow> n < 10 ^ k \<Longrightarrow> parseInt (hd (split (padded k n @ ''GB'') ''GB'')) = Fin (of_int n)"
  by (subst digits_before) (auto simp: parseInt_padded char_defs)

text \<open>The hours of an item of the bill are what its configuration says: an instance of so many cores
  and gigabytes that ran for so many hours has the products as its vCPU hours and its gigabyte hours,
  and without a field for GPUs no GPU hours. The fields may stand in any order, among others.\<close>

theorem ali_row_reads_configuration:
  assumes "bi_productCode item \<noteq> ''fc''" and "bi_instanceSpec item \<noteq> None"
    and "bi_instanceConfig item = Some (config_text kvs)" and "plain_config kvs"
    and "list_all (\<lambda>key. separate_key key kvs) [''CPU'', ''GPU'', zh_memory]"
    and "map_of kvs ''CPU'' = Some (padded k cores @ zh_cores)"
    and "map_of kvs zh_memory = Some (padded k gigabytes @ ''GB'')" and "map_of kvs ''GPU'' = None"
    and "bi_servicePeriod item = padded k hours" and "bi_servicePeriodUnit item = zh_hour"
    and "0 < k" and "0 \<le> cores \<and> cores < 10 ^ k" and "0 \<le> gigabytes \<and> gigabytes < 10 ^ k"
    and "0 \<le> hours \<and> hours < 10 ^ k"
  shows "case new_AliCalculateRow item of Inl e \<Rightarrow> False
       | Inr row \<Rightarrow> br_vCpuHours row = Fin (of_int (hours * cores))
           \<and> br_usageAmount row = Fin (of_int (hours * gigabytes)) \<and> br_gpuHours row = 0"
proof -
  have sep: "separate_key ''CPU'' kvs" "separate_key ''GPU'' kvs" "separate_key zh_memory kvs"
    using assms(5) by simp_all
  have unit: "obj_get servicePeriodUnitRatios zh_hour = Some 1" by code_simp
  have use: "ali_getUsage (padded k hours) zh_hour = Fin (of_int hours)"
    using assms(11,14) by (simp add: ali_getUsage_def unit parseInt_padded one_Fin)
  note read = getJsonValue_config [OF assms(4)]
  show ?thesis
    using assms(1,2,3,11-13)
    by (auto simp: new_AliCalculateRow_def ali_getVCpuHours_def ali_getGpuHours_def ali_getMemoryHours_def
        assms(6-10) use parseCpuAndGpu_def parseMemory_def read [OF sep(1)] read [OF sep(2)]
        read [OF sep(3)] cores_read gigabytes_read zero_Fin)
qed

definition ecs_config :: "(string \<times> string) list" where
  "ecs_config = [(''OS'', ''linux''), (''CPU'', ''04'' @ zh_cores), (zh_memory, ''16GB'')]"

definition ecs_item :: bill_item where
  "ecs_item = \<lparr>bi_billAccountID = ''1'', bi_billAccountName = ''a'', bi_cashAmount = 5,
     bi_region = ''cn-beijing'', bi_productCode = ''ecs'', bi_instanceSpec = Some ''ecs.g6.xlarge'',
     bi_instanceConfig = Some (config_text ecs_config), bi_servicePeriod = ''24'',
     bi_servicePeriodUnit = zh_hour\<rparr>"

theorem ali_row_reads_configuration_witness:
  "case new_AliCalculateRow ecs_item of Inl e \<Rightarrow> False
   | Inr row \<Rightarrow> br_vCpuHours row = Fin 96 \<and> br_usageAmount row = Fin 384 \<and> br_gpuHours row = 0"
proof -
  have "bi_productCode ecs_item \<noteq> ''fc''" "bi_instanceSpec ecs_item \<noteq> None"
    "bi_instanceConfig ecs_item = Some (config_text ecs_config)" by (simp_all add: ecs_item_def)
  moreover have "plain_config ecs_config"
    "list_all (\<lambda>key. separate_key key ecs_config) [''CPU'', ''GPU'', zh_memory]"
    "map_of ecs_config ''CPU'' = Some (padded 2 4 @ zh_cores)"
    "map_of ecs_config zh_memory = Some (padded 2 16 @ ''GB'')" "map_of ecs_config ''GPU'' = None"
    "bi_servicePeriod ecs_item = padded 2 24" "bi_servicePeriodUnit ecs_item = zh_hour"
    by code_simp+
  ultimately have "case new_AliCalculateRow ecs_item of Inl e \<Rightarrow> False
       | Inr row \<Rightarrow> br_vCpuHours row = Fin (of_int (24 * 4))
           \<and> br_usageAmount row = Fin (of_int (24 * 16)) \<and> br_gpuHours row = 0"
    by (rule ali_row_reads_configuration) simp_all
  then show ?thesis by (auto split: sum.splits)
qed

section \<open>The estimates of the bills\<close>

text \<open>C15. The ledger has no influence on the estimates of Ali: what the service answers, its errors
  included, is the computation without state in which the energy of an item is that of its vCPUs and
  GPUs, of its memory and its embodied part, and each month with a bill is one period. Items are never
  estimated as storage, as networking or as unknown usage.\<close>

theorem ali_report_is_pure:
  assumes "obj_get g ''total'' \<noteq> None"
  shows "fst (AliCostAndUsageService_getEstimates E s e grouping g) = ali_report E s e grouping"
  using ali_service_eq [OF assms, of E s e grouping] by auto

definition one_bill :: ali_env where
  "one_bill = \<lparr>ae_median = (\<lambda>xs. 0), ae_name = ''AliCloud'',
     ae_bill = (\<lambda>cycle. Inr (if cycle = ''2022-12'' then \<lparr>ib_totalCount = 1, ib_items = [ecs_item]\<rparr>
                              else \<lparr>ib_totalCount = 0, ib_items = []\<rparr>))\<rparr>"

theorem ali_report_is_pure_witness:
  "case fst (AliCostAndUsageService_getEstimates one_bill 1668470400000 1675987200000 month initial_store) of
     Inl e \<Rightarrow> False
   | Inr rs \<Rightarrow> map er_timestamp rs = [1671062400000] \<and> er_total sd_cost rs = Fin 5"
proof -
  have "obj_get initial_store ''total'' \<noteq> None" by (simp add: initial_store_def)
  from ali_report_is_pure [OF this, of one_bill 1668470400000 1675987200000 month]
  have pure: "fst (AliCostAndUsageService_getEstimates one_bill 1668470400000 1675987200000 month initial_store)
      = ali_report one_bill 1668470400000 1675987200000 month" .
  have dates: "ali_getDates 1668470400000 1675987200000 = [1668470400000, 1671062400000, 1673740800000]"
    by code_simp
  have cycles: "billing_cycle 1668470400000 = ''2022-11''" "billing_cycle 1671062400000 = ''2022-12''"
    "billing_cycle 1673740800000 = ''2023-01''" by code_simp+
  obtain row where row: "new_AliCalculateRow ecs_item = Inr row" "br_cost row = 5"
    by (simp add: new_AliCalculateRow_def ecs_item_def)
  show ?thesis
    unfolding pure ali_report_def dates
    by (simp add: ali_month_def getBill_def cycles one_bill_def row er_total_def ali_estimate_def Let_def
        jsnum_simps)
qed

end
