(* ===== verification/App_Remote_Cache.thy ===== *)
theory App_Remote_Cache
  imports App_Cache Js_Effects
begin

text \<open>
  The other two caches of \<open>packages/app/src\<close> and the choice between the three. \<open>Cache.ts\<close> is stated over
  the operations of a cache manager; \<open>GoogleCloudCacheManager.ts\<close> keeps its estimates in a file of a
  bucket; \<open>MongoDbCacheManager.ts\<close> keeps one document for each service of each result. The driver of
  MongoDB is a parameter, and so is whether the bucket can be reached.
\<close>

section \<open>The decorator over a cache manager\<close>

text \<open>
  The missing dates may not be found (the loop over the dates does not return), and reading may change
  the store. Errors of a store are logged by the managers and never reach the decorator.
\<close>

record ('q, 's) cache_manager =
  cm_getMissingDates :: "'q \<Rightarrow> 's \<Rightarrow> (date list \<times> 's) option"
  cm_setEstimates :: "'q \<Rightarrow> EstimationResult list \<Rightarrow> 's \<Rightarrow> 's"
  cm_getEstimates :: "'q \<Rightarrow> 's \<Rightarrow> EstimationResult list \<times> 's"

definition cached_by ::
    "cache_env \<Rightarrow> ('q cache_request_scheme, 's) cache_manager \<Rightarrow> 'q cache_request_scheme \<Rightarrow> 's \<Rightarrow>
     (EstimationResult list result \<times> 's) option" where
  "cached_by E manager q s =
     (let grouping = cq_grouping q;
          fetch = getEstimatesForMissingDates (ce_moment E) (ce_getCostAndEstimates E) grouping;
          answer = (\<lambda>s. let (cachedEstimates, s') = cm_getEstimates manager q s
                        in (Inr (concat_estimates (filterCachedEstimates cachedEstimates) []), s'))
      in case cm_getMissingDates manager q s of
           None \<Rightarrow> None
         | Some (missingDates, s1) \<Rightarrow>
             Some
               (if cq_ignoreCache q then (fetch missingDates, s1)
                else if 0 < length missingDates then
                  (case fetch missingDates of
                     Inl e \<Rightarrow> (Inl e, s1)
                   | Inr newEstimates \<Rightarrow>
                       answer
                         (if 0 < length newEstimates then
                            (let estimatesToPersist =
                                   fillDates (ce_moment E) (ce_difference E) missingDates newEstimates grouping
                             in if 0 < length estimatesToPersist
                                then cm_setEstimates manager q estimatesToPersist s1 else s1)
                          else s1))
                else answer s1))"

definition cache_file_of :: "cache_env \<Rightarrow> 'q cache_request_scheme \<Rightarrow> string" where
  "cache_file_of E q = getCacheFileName (ce_cachePath E) (GroupBy_name (cq_grouping q))"

definition local_manager :: "cache_env \<Rightarrow> ('q cache_request_scheme, local_cache) cache_manager" where
  "local_manager E =
     \<lparr>cm_getMissingDates = (\<lambda>q. local_getMissingDates (ce_moment E) (cache_file_of E q) (cq_startDate q)
        (cq_endDate q) (cq_grouping q)),
      cm_setEstimates = (\<lambda>q. local_setEstimates (cache_file_of E q)),
      cm_getEstimates = (\<lambda>q s. (local_getEstimates s, s))\<rparr>"

lemma cached_by_local: "cached_by E (local_manager E) q s = cached_call E q s"
  by (simp add: cached_by_def cached_call_def local_manager_def cache_file_of_def Let_def
      split: option.splits prod.splits sum.splits)

section \<open>GoogleCloudCacheManager.ts\<close>

text \<open>The files of the bucket, or a bucket that cannot be reached; the two lists of the manager.\<close>

record bucket_cache =
  bu_files :: "cache_file obj option"
  bu_cachedEstimates :: "EstimationResult list"
  bu_fetchedEstimates :: "EstimationResult list"

definition getCloudFileContent :: "string \<Rightarrow> bucket_cache \<Rightarrow> EstimationResult list \<times> bucket_cache" where
  "getCloudFileContent cacheFileName s =
     (case bu_files s of
        None \<Rightarrow> ([], s)
      | Some files \<Rightarrow>
          (case obj_get files cacheFileName of
             None \<Rightarrow> ([], s\<lparr>bu_files := Some (obj_set files cacheFileName (Estimates []))\<rparr>)
           | Some (Estimates es) \<Rightarrow> (es, s)
           | Some Unreadable \<Rightarrow> ([], s)))"

definition bucket_getMissingDates ::
    "moment_ops \<Rightarrow> string \<Rightarrow> date \<Rightarrow> date \<Rightarrow> GroupBy \<Rightarrow> bucket_cache \<Rightarrow> (date list \<times> bucket_cache) option" where
  "bucket_getMissingDates M cacheFileName startDate endDate grouping s =
     (let (estimates, s1) = getCloudFileContent cacheFileName s;
          filteredEstimates = filterEstimatesForRequest startDate endDate estimates;
          s2 = s1\<lparr>bu_cachedEstimates := filteredEstimates\<rparr>
      in case getMissingDates M filteredEstimates startDate endDate grouping of
           None \<Rightarrow> None
         | Some missing \<Rightarrow> Some (missing, s2))"

text \<open>The stream replaces the content of the file.\<close>

definition bucket_setEstimates :: "string \<Rightarrow> EstimationResult list \<Rightarrow> bucket_cache \<Rightarrow> bucket_cache" where
  "bucket_setEstimates cacheFileName estimates s =
     (let s1 = s\<lparr>bu_fetchedEstimates := estimates\<rparr>;
          mergedData = bu_cachedEstimates s1 @ estimates
      in case bu_files s1 of
           None \<Rightarrow> s1
         | Some files \<Rightarrow> s1\<lparr>bu_files := Some (obj_set files cacheFileName (Estimates mergedData))\<rparr>)"

definition bucket_getEstimates :: "bucket_cache \<Rightarrow> EstimationResult list" where
  "bucket_getEstimates s = bu_cachedEstimates s @ bu_fetchedEstimates s"

definition bucket_manager :: "cache_env \<Rightarrow> ('q cache_request_scheme, bucket_cache) cache_manager" where
  "bucket_manager E =
     \<lparr>cm_getMissingDates = (\<lambda>q. bucket_getMissingDates (ce_moment E) (cache_file_of E q) (cq_startDate q)
        (cq_endDate q) (cq_grouping q)),
      cm_setEstimates = (\<lambda>q. bucket_setEstimates (cache_file_of E q)),
      cm_getEstimates = (\<lambda>q s. (bucket_getEstimates s, s))\<rparr>"

section \<open>MongoDbCacheManager.ts: documents and requests\<close>

record mongo_doc =
  mo_service :: ServiceData
  mo_timestamp :: date
  mo_groupBy :: GroupBy

text \<open>What the manager reads of a request, beside the fields of the decorator.\<close>

record mongo_request = cache_request +
  mq_cloudProviders :: "string list option"
  mq_accounts :: "string list option"
  mq_services :: "string list option"
  mq_regions :: "string list option"
  mq_tags :: "string obj option"
  mq_skip :: "jsnum option"
  mq_limit :: "jsnum option"
  mq_tenantId :: "string option"
  mq_cloudProviderToSeed :: "string option"

datatype mongo_filter = Between date date | OneOf "string list" | Equals string

datatype stage =
    Match "mongo_filter obj"
  | Skip jsnum
  | Limit jsnum
  | Sort "(string \<times> int) list"
  | GroupByTimestamp
  | Unset "string list"

datatype dates_expression = DayOfTimestamp | TimestampOfProvider string

datatype cached_date = DayText string | Instant date

record 'db mongo_driver =
  md_listCollections :: "string \<Rightarrow> 'db \<Rightarrow> string + bool"
  md_createCollection :: "string \<Rightarrow> 'db \<Rightarrow> string + 'db"
  md_aggregate :: "string \<Rightarrow> stage list \<Rightarrow> 'db \<Rightarrow> string + EstimationResult list"
  md_insertMany :: "string \<Rightarrow> mongo_doc list \<Rightarrow> 'db \<Rightarrow> string + 'db"
  md_countDocuments :: "string \<Rightarrow> 'db \<Rightarrow> string + nat"
  md_dates :: "string \<Rightarrow> dates_expression \<Rightarrow> 'db \<Rightarrow> string + cached_date list list"

text \<open>
  The connection: the driver says whether a client can connect. Without an address the client of an earlier
  call, when there is one, connects again; the errors are logged.
\<close>

datatype mongo_client = WithCertificate string string | Plain string

definition createDbConnection ::
    "(mongo_client \<Rightarrow> string option) \<Rightarrow> string option \<Rightarrow> string option \<Rightarrow> mongo_client option \<Rightarrow>
     mongo_client option \<times> js_error list" where
  "createDbConnection connect mongoURI mongoCredentials mongoClient =
     (let (client, errors) =
        (case (nonempty mongoCredentials, nonempty mongoURI) of
           (Some c, Some uri) \<Rightarrow> (Some (WithCertificate uri c), [])
         | (None, Some uri) \<Rightarrow> (Some (Plain uri), [])
         | _ \<Rightarrow> (mongoClient, [Thrown ''Please provide a valid URI'']))
      in (client, errors @ (case client of
                              None \<Rightarrow> [TypeError]
                            | Some c \<Rightarrow> (case connect c of None \<Rightarrow> [] | Some e \<Rightarrow> [Thrown e]))))"

definition collection_name :: "string option \<Rightarrow> string \<Rightarrow> string" where
  "collection_name tenantId grouping =
     (case nonempty tenantId of
        Some t \<Rightarrow> t @ ''-estimates-by-'' @ grouping
      | None \<Rightarrow> ''estimates-by-'' @ grouping)"

section \<open>The pipeline\<close>

definition filterTable :: "mongo_request \<Rightarrow> (string list option) obj" where
  "filterTable request =
     [(''cloudProvider'', mq_cloudProviders request), (''accountId'', mq_accounts request),
      (''serviceName'', mq_services request), (''region'', mq_regions request)]"

text \<open>A new filter comes before the ones that there are.\<close>

definition with_filter :: "mongo_filter obj \<Rightarrow> string \<times> string list option \<Rightarrow> mongo_filter obj" where
  "with_filter filters entry =
     (case snd entry of
        Some v \<Rightarrow> if 0 < length v then (fst entry, OneOf v) # filters else filters
      | None \<Rightarrow> filters)"

definition createAggregationFilters :: "mongo_request \<Rightarrow> date \<Rightarrow> date \<Rightarrow> mongo_filter obj" where
  "createAggregationFilters request startDate endDate =
     (let filters = foldl with_filter [(''timestamp'', Between startDate endDate)] (filterTable request)
      in foldl (\<lambda>fs (key, v). (''tags.'' @ key, Equals v) # fs) filters
           (case mq_tags request of None \<Rightarrow> [] | Some tags \<Rightarrow> tags))"

definition createAggregationStages :: "mongo_request \<Rightarrow> mongo_filter obj \<Rightarrow> stage list" where
  "createAggregationStages request filters =
     [Match filters]
     @ (if \<not> isNaN (toNum (mq_skip request)) then [Skip (toNum (mq_skip request))] else [])
     @ [Limit (if isNaN (toNum (mq_limit request)) then 50000 else toNum (mq_limit request)),
        Sort [(''timestamp'', 1), (''_id'', 1)],
        GroupByTimestamp,
        Unset [''_id'', ''serviceEstimates._id'', ''serviceEstimates.timestamp'', ''serviceEstimates.groupBy'']]"

section \<open>The operations\<close>

definition mongo_startDate :: "moment_ops \<Rightarrow> mongo_request \<Rightarrow> date" where
  "mongo_startDate M request =
     m_startOf M (if cq_grouping request = week then MIsoWeek else munit_of (cq_grouping request))
       (cq_startDate request)"

text \<open>An error is logged and thrown again, for \<open>getEstimates\<close> to log and to leave out.\<close>

definition mongo_loadEstimates ::
    "moment_ops \<Rightarrow> 'db mongo_driver \<Rightarrow> string \<Rightarrow> mongo_request \<Rightarrow> 'db \<Rightarrow> (string + EstimationResult list) \<times> 'db" where
  "mongo_loadEstimates M D collectionName request db =
     (let filters = createAggregationFilters request (mongo_startDate M request) (cq_endDate request);
          stages = createAggregationStages request filters
      in case md_listCollections D collectionName db of
           Inl e \<Rightarrow> (Inl e, db)
         | Inr True \<Rightarrow> (md_aggregate D collectionName stages db, db)
         | Inr False \<Rightarrow>
             (case md_createCollection D collectionName db of
                Inl e \<Rightarrow> (Inl e, db)
              | Inr db' \<Rightarrow> (Inr [], db')))"

definition request_collection :: "mongo_request \<Rightarrow> string" where
  "request_collection request = collection_name (mq_tenantId request) (GroupBy_name (cq_grouping request))"

definition mongo_getEstimates ::
    "moment_ops \<Rightarrow> 'db mongo_driver \<Rightarrow> mongo_request \<Rightarrow> 'db \<Rightarrow> EstimationResult list \<times> 'db" where
  "mongo_getEstimates M D request db =
     (case mongo_loadEstimates M D (request_collection request) request db of
        (Inl e, db') \<Rightarrow> ([], db')
      | (Inr estimates, db') \<Rightarrow> (estimates, db'))"

definition documents_of :: "EstimationResult \<Rightarrow> mongo_doc list" where
  "documents_of estimate =
     map (\<lambda>s. \<lparr>mo_service = s, mo_timestamp = er_timestamp estimate, mo_groupBy = er_groupBy estimate\<rparr>)
       (er_serviceEstimates estimate)"

definition mongo_setEstimates ::
    "'db mongo_driver \<Rightarrow> mongo_request \<Rightarrow> EstimationResult list \<Rightarrow> 'db \<Rightarrow> 'db" where
  "mongo_setEstimates D request estimates db =
     (case md_insertMany D (request_collection request) (concat (map documents_of estimates)) db of
        Inl e \<Rightarrow> db
      | Inr db' \<Rightarrow> db')"

text \<open>The dates of the documents, an empty list where there is no collection or no document.\<close>

definition mongo_cachedDates ::
    "'db mongo_driver \<Rightarrow> string \<Rightarrow> mongo_request \<Rightarrow> 'db \<Rightarrow> string + cached_date list list" where
  "mongo_cachedDates D collectionName request db =
     bindR (md_listCollections D collectionName db) (\<lambda>found.
       if \<not> found then Inr [[]]
       else bindR (md_countDocuments D collectionName db) (\<lambda>count.
         if count = 0 then Inr [[]]
         else md_dates D collectionName
                (case nonempty (mq_cloudProviderToSeed request) of
                   Some p \<Rightarrow> TimestampOfProvider p
                 | None \<Rightarrow> DayOfTimestamp) db))"

definition is_date :: "date \<Rightarrow> cached_date \<Rightarrow> bool" where
  "is_date a cachedDate =
     (case cachedDate of DayText d \<Rightarrow> parse_date d = Some a | Instant t \<Rightarrow> t = a)"

text \<open>Any error, and an answer without an element, means that no date is missing.\<close>

definition mongo_getMissingDates ::
    "moment_ops \<Rightarrow> 'db mongo_driver \<Rightarrow> mongo_request \<Rightarrow> 'db \<Rightarrow> (date list \<times> 'db) option" where
  "mongo_getMissingDates M D request db =
     (case getDatesWithinRequestTimeFrame M (cq_grouping request) (cq_startDate request) (cq_endDate request) of
        None \<Rightarrow> None
      | Some requestedDates \<Rightarrow>
          Some
            (if cq_ignoreCache request then requestedDates
             else (case mongo_cachedDates D (request_collection request) request db of
                     Inl e \<Rightarrow> []
                   | Inr [] \<Rightarrow> []
                   | Inr (cachedDates # _) \<Rightarrow>
                       filter (\<lambda>a. \<not> list_ex (is_date a) cachedDates) requestedDates), db))"

definition mongo_manager :: "moment_ops \<Rightarrow> 'db mongo_driver \<Rightarrow> (mongo_request, 'db) cache_manager" where
  "mongo_manager M D =
     \<lparr>cm_getMissingDates = mongo_getMissingDates M D,
      cm_setEstimates = mongo_setEstimates D,
      cm_getEstimates = mongo_getEstimates M D\<rparr>"

section \<open>The choice between the caches\<close>

record 'db cache_stores =
  cs_local :: local_cache
  cs_bucket :: bucket_cache
  cs_db :: 'db

definition cache_mode_call ::
    "string \<Rightarrow> cache_env \<Rightarrow> 'db mongo_driver \<Rightarrow> mongo_request \<Rightarrow> 'db cache_stores \<Rightarrow>
     (EstimationResult list result \<times> 'db cache_stores) option" where
  "cache_mode_call CACHE_MODE E D q S =
     (if CACHE_MODE = ''GCS'' then
        map_option (\<lambda>(r, s). (r, S\<lparr>cs_bucket := s\<rparr>)) (cached_by E (bucket_manager E) q (cs_bucket S))
      else if CACHE_MODE = ''MONGODB'' then
        map_option (\<lambda>(r, s). (r, S\<lparr>cs_db := s\<rparr>)) (cached_by E (mongo_manager (ce_moment E) D) q (cs_db S))
      else map_option (\<lambda>(r, s). (r, S\<lparr>cs_local := s\<rparr>)) (cached_by E (local_manager E) q (cs_local S)))"

end
