(* ===== verification/App_Mongo_Store.thy ===== *)
theory App_Mongo_Store
  imports App_Remote_Cache
begin

text \<open>
  What the documentation of MongoDB says of the operations that the cache uses: collections hold
  documents in the order of their insertion, and a pipeline selects, pages and groups them. The order of
  the groups is not documented. The locale holds the laws, and what the manager reads and writes over
  them; an executable store satisfies them.
\<close>

section \<open>Selecting and grouping\<close>

definition doc_text :: "string \<Rightarrow> mongo_doc \<Rightarrow> string option" where
  "doc_text key d =
     (if key = ''cloudProvider'' then Some (sd_cloudProvider (mo_service d))
      else if key = ''accountId'' then Some (sd_accountId (mo_service d))
      else if key = ''serviceName'' then Some (sd_serviceName (mo_service d))
      else if key = ''region'' then Some (sd_region (mo_service d))
      else if startsWith key ''tags.'' then
        (case sd_tags (mo_service d) of None \<Rightarrow> None | Some tags \<Rightarrow> tag_get tags (drop 5 key))
      else None)"

fun doc_matches :: "mongo_doc \<Rightarrow> string \<times> mongo_filter \<Rightarrow> bool" where
  "doc_matches d (key, Between a b) \<longleftrightarrow> a \<le> mo_timestamp d \<and> mo_timestamp d \<le> b"
| "doc_matches d (key, OneOf vs) \<longleftrightarrow> doc_text key d \<in> set (map Some vs)"
| "doc_matches d (key, Equals v) \<longleftrightarrow> doc_text key d = Some v"

definition selected :: "mongo_filter obj \<Rightarrow> mongo_doc list \<Rightarrow> mongo_doc list" where
  "selected filters ds = filter (\<lambda>d. list_all (doc_matches d) filters) ds"

definition result_of_group :: "date \<times> mongo_doc list \<Rightarrow> EstimationResult" where
  "result_of_group g =
     \<lparr>er_timestamp = fst g, er_serviceEstimates = map mo_service (snd g), er_periodStartDate = None,
      er_periodEndDate = None, er_groupBy = mo_groupBy (hd (snd g))\<rparr>"

definition grouped :: "mongo_doc list \<Rightarrow> EstimationResult list" where
  "grouped ds = map result_of_group (group_fold mo_timestamp collect [] ds)"

definition doc_total :: "(ServiceData \<Rightarrow> jsnum) \<Rightarrow> mongo_doc list \<Rightarrow> jsnum" where
  "doc_total f ds = sum_list (map (\<lambda>d. f (mo_service d)) ds)"

lemma doc_total_simps [simp]: "doc_total f [] = 0" "doc_total f (as @ bs) = doc_total f as + doc_total f bs"
  by (simp_all add: doc_total_def)

lemma er_total_grouped: "er_total f (grouped ds) = doc_total f ds"
  using sum_list_first_occurrences [of "\<lambda>d. f (mo_service d)" mo_timestamp ds]
  by (simp add: er_total_def grouped_def result_of_group_def group_fold_collect se_total_def comp_def
      doc_total_def)

lemma er_total_mset: "mset rs = mset qs \<Longrightarrow> er_total f rs = er_total f qs"
  unfolding er_total_def by (metis mset_map sum_mset_sum_list)

lemma doc_total_documents: "doc_total f (documents_of r) = se_total f (er_serviceEstimates r)"
  by (simp add: doc_total_def documents_of_def se_total_def comp_def)

lemma documents_time: "d \<in> set (documents_of r) \<Longrightarrow> mo_timestamp d = er_timestamp r"
  by (auto simp: documents_of_def)

text \<open>The documents of the results of a period are the documents in the period.\<close>

lemma doc_total_period:
  "doc_total f (filter (\<lambda>d. s \<le> mo_timestamp d \<and> mo_timestamp d \<le> e) (concat (map documents_of rs)))
     = er_total f (filterEstimatesForRequest s e rs)"
proof (induction rs)
  case Nil
  then show ?case by (simp add: filterEstimatesForRequest_def)
next
  case (Cons r rs)
  have "filter (\<lambda>d. s \<le> mo_timestamp d \<and> mo_timestamp d \<le> e) (documents_of r)
      = (if s \<le> er_timestamp r \<and> er_timestamp r \<le> e then documents_of r else [])"
    by (auto simp: filter_empty_conv filter_id_conv documents_time)
  with Cons show ?case by (simp add: filterEstimatesForRequest_def doc_total_documents)
qed

section \<open>The laws\<close>

definition cache_pipeline :: "mongo_filter obj \<Rightarrow> jsnum \<Rightarrow> stage list" where
  "cache_pipeline filters limit =
     [Match filters, Limit limit, Sort [(''timestamp'', 1), (''_id'', 1)], GroupByTimestamp,
      Unset [''_id'', ''serviceEstimates._id'', ''serviceEstimates.timestamp'', ''serviceEstimates.groupBy'']]"

locale mongo_store =
  fixes D :: "'db mongo_driver" and docs :: "'db \<Rightarrow> string \<Rightarrow> mongo_doc list option"
  assumes list_collections: "md_listCollections D c db = Inr (docs db c \<noteq> None)"
    and create_collection: "docs db c = None \<Longrightarrow>
      \<exists>db'. md_createCollection D c db = Inr db' \<and> docs db' = (docs db)(c \<mapsto> [])"
    and insert_none: "\<exists>e. md_insertMany D c [] db = Inl e"
    and insert_many: "ds \<noteq> [] \<Longrightarrow> \<exists>db'. md_insertMany D c ds db = Inr db'
      \<and> docs db' = (docs db)(c \<mapsto> (case docs db c of None \<Rightarrow> [] | Some old \<Rightarrow> old) @ ds)"
    and count_documents: "docs db c = Some ds \<Longrightarrow> md_countDocuments D c db = Inr (length ds)"
    and group_documents: "docs db c = Some ds \<Longrightarrow> length (selected filters ds) \<le> n \<Longrightarrow> 0 < n \<Longrightarrow>
      \<exists>rs. md_aggregate D c (cache_pipeline filters (Fin (of_nat n))) db = Inr rs
        \<and> mset rs = mset (grouped (selected filters ds))"
    and dates_of_documents: "docs db c = Some ds \<Longrightarrow> ds \<noteq> [] \<Longrightarrow>
      \<exists>dates. md_dates D c DayOfTimestamp db = Inr [dates]
        \<and> set dates = (\<lambda>d. DayText (iso_day (mo_timestamp d))) ` set ds"
begin

text \<open>Inserting nothing is an error that the manager drops; otherwise the documents are added.\<close>

lemma docs_after_set:
  "docs (mongo_setEstimates D q rs db) =
     (if concat (map documents_of rs) = [] then docs db
      else (docs db)(request_collection q \<mapsto>
        (case docs db (request_collection q) of None \<Rightarrow> [] | Some old \<Rightarrow> old) @ concat (map documents_of rs)))"
proof (cases "concat (map documents_of rs) = []")
  case True
  show ?thesis
    using insert_none [of "request_collection q" db] unfolding mongo_setEstimates_def True by auto
next
  case False
  then show ?thesis using insert_many [OF False, of "request_collection q" db]
    by (auto simp: mongo_setEstimates_def)
qed

lemma read_total:
  assumes "docs db (request_collection q) = Some ds"
    and "mq_skip q = None" "mq_limit q = None"
    and "length (selected (createAggregationFilters q (mongo_startDate M q) (cq_endDate q)) ds) \<le> 50000"
  shows "er_total f (fst (mongo_getEstimates M D q db))
       = doc_total f (selected (createAggregationFilters q (mongo_startDate M q) (cq_endDate q)) ds)"
proof -
  let ?fs = "createAggregationFilters q (mongo_startDate M q) (cq_endDate q)"
  have stages: "createAggregationStages q ?fs = cache_pipeline ?fs (Fin (of_nat 50000))"
    using assms(2,3) by (simp add: createAggregationStages_def cache_pipeline_def isNaN_def numeral_Fin)
  obtain rs where "md_aggregate D (request_collection q) (cache_pipeline ?fs (Fin (of_nat 50000))) db = Inr rs"
    "mset rs = mset (grouped (selected ?fs ds))"
    using group_documents [OF assms(1,4)] by auto
  then show ?thesis
    using assms(1) er_total_mset [of rs "grouped (selected ?fs ds)" f]
    by (simp add: mongo_getEstimates_def mongo_loadEstimates_def Let_def list_collections stages er_total_grouped)
qed

end

section \<open>A store\<close>

type_synonym mongo_db = "(mongo_doc list) obj"

fun run_stages :: "stage list \<Rightarrow> mongo_doc list \<Rightarrow> string + EstimationResult list" where
  "run_stages [] ds = Inr []"
| "run_stages (Match filters # stages) ds = run_stages stages (selected filters ds)"
| "run_stages (Skip n # stages) ds =
     (case n of Fin x \<Rightarrow> run_stages stages (drop (nat \<lfloor>x\<rfloor>) ds) | _ \<Rightarrow> Inl ''invalid skip'')"
| "run_stages (Limit n # stages) ds =
     (case n of
        Fin x \<Rightarrow> if 0 < x then run_stages stages (take (nat \<lfloor>x\<rfloor>) ds) else Inl ''the limit must be positive''
      | _ \<Rightarrow> Inl ''invalid limit'')"
| "run_stages (Sort keys # stages) ds = run_stages stages (sort_key mo_timestamp ds)"
| "run_stages (GroupByTimestamp # stages) ds = Inr (grouped ds)"
| "run_stages (Unset names # stages) ds = run_stages stages ds"

definition dates_documented :: "dates_expression \<Rightarrow> mongo_doc list \<Rightarrow> cached_date list" where
  "dates_documented expression ds =
     (case expression of
        DayOfTimestamp \<Rightarrow> remdups (map (\<lambda>d. DayText (iso_day (mo_timestamp d))) ds)
      | TimestampOfProvider p \<Rightarrow>
          remdups (map (\<lambda>d. Instant (mo_timestamp d)) (filter (\<lambda>d. sd_cloudProvider (mo_service d) = p) ds)))"

definition mongo_documented :: "mongo_db mongo_driver" where
  "mongo_documented =
     \<lparr>md_listCollections = (\<lambda>c db. Inr (obj_get db c \<noteq> None)),
      md_createCollection = (\<lambda>c db. Inr (obj_set db c [])),
      md_aggregate = (\<lambda>c stages db. run_stages stages (case obj_get db c of None \<Rightarrow> [] | Some ds \<Rightarrow> ds)),
      md_insertMany = (\<lambda>c ds db.
        if ds = [] then Inl ''Invalid BulkOperation, Batch cannot be empty''
        else Inr (obj_set db c ((case obj_get db c of None \<Rightarrow> [] | Some old \<Rightarrow> old) @ ds))),
      md_countDocuments = (\<lambda>c db. Inr (length (case obj_get db c of None \<Rightarrow> [] | Some ds \<Rightarrow> ds))),
      md_dates = (\<lambda>c expression db.
        case obj_get db c of
          None \<Rightarrow> Inr []
        | Some ds \<Rightarrow> Inr (if ds = [] then [] else [dates_documented expression ds]))\<rparr>"

text \<open>Sorting by time is stable, so the groups are the same ones in another order.\<close>

lemma grouped_sort: "mset (grouped (sort_key mo_timestamp ds)) = mset (grouped ds)"
proof -
  let ?k = "\<lambda>ds. first_occurrences [] (map mo_timestamp ds)"
  have "filter (\<lambda>d. mo_timestamp d = t) (sort_key mo_timestamp ds) = filter (\<lambda>d. mo_timestamp d = t) ds" for t
    by (rule stable_sort_key_sort_key [unfolded stable_sort_key_def, rule_format])
  moreover have "mset (?k (sort_key mo_timestamp ds)) = mset (?k ds)"
    by (rule set_eq_iff_mset_eq_distinct [THEN iffD1])
      (simp_all add: distinct_first_occurrences set_first_occurrences)
  ultimately show ?thesis
    by (simp add: grouped_def group_fold_collect)
qed

interpretation mongo_doc_store: mongo_store mongo_documented "\<lambda>db c. obj_get db c"
proof
  fix db :: mongo_db and c filters n ds
  assume ds: "obj_get db c = Some ds" "length (selected filters ds) \<le> n" "0 < n"
  then show "\<exists>rs. md_aggregate mongo_documented c (cache_pipeline filters (Fin (of_nat n))) db = Inr rs
      \<and> mset rs = mset (grouped (selected filters ds))"
    using grouped_sort [of "selected filters ds"]
    by (simp add: mongo_documented_def cache_pipeline_def)
qed (auto simp: mongo_documented_def dates_documented_def update_conv)

end
