(* ===== verification/App_Properties.thy ===== *)
theory App_Properties
  imports App_Main App_Mongo_Store
begin

text \<open>
  The properties of the application: valid requests, the estimates of all providers, the cache of
  estimates and its file.
\<close>

section \<open>Requests\<close>

text \<open>A request is accepted only with a start and an end date that are readable, in order and not
  in the future; every filter is absent or a non-empty list whose elements have the characters
  of the filter's expression; the period is one the program knows and the limit a whole number
  of at most 50000.\<close>

theorem accepted_request_is_valid:
  assumes "createValidFootprintRequest parseMoment now r = Inr q"
  shows "(\<exists>s e. rr_startDate r = Some s \<and> rr_endDate r = Some e
       \<and> parseMoment s = Some (rq_startDate q) \<and> parseMoment e = Some (rq_endDate q)
       \<and> rq_startDate q \<le> rq_endDate q \<and> rq_endDate q \<le> now)
    \<and> filter_accepts provider_ok (rq_cloudProviders q)
    \<and> filter_accepts account_ok (rq_accounts q)
    \<and> filter_accepts service_ok (rq_services q)
    \<and> filter_accepts region_ok (rq_regions q)
    \<and> groupBy_errors (rq_groupBy q) = []
    \<and> (case rq_limit q of None \<Rightarrow> True
       | Some l \<Rightarrow> \<exists>n. l = Fin (of_int n) \<and> 0 \<le> n \<and> n \<le> 50000)"
  using createValid_Inr [OF assms] by blast

definition sample_raw :: FootprintEstimatesRawRequest where
  "sample_raw = \<lparr>rr_startDate = Some ''2023-01-01'', rr_endDate = Some ''2023-01-31'',
     rr_cloudProviderToSeed = None, rr_ignoreCache = None, rr_groupBy = Some ''day'',
     rr_limit = Some ''100'', rr_skip = None, rr_cloudProviders = Some (Single ''aws''),
     rr_accounts = None, rr_services = None, rr_regions = Some (Several [Some ''us-east-1'']),
     rr_tags = None, rr_tenantId = None, rr_accessToken = None\<rparr>"

theorem accepted_request_is_valid_witness:
  "\<exists>q. createValidFootprintRequest parse_date 1700000000000 sample_raw = Inr q
     \<and> rq_startDate q \<le> rq_endDate q \<and> filter_accepts provider_ok (rq_cloudProviders q)"
proof -
  have "case createValidFootprintRequest parse_date 1700000000000 sample_raw of
      Inl _ \<Rightarrow> False | Inr _ \<Rightarrow> True" by code_simp
  then obtain q where "createValidFootprintRequest parse_date 1700000000000 sample_raw = Inr q"
    by (auto split: sum.splits)
  with accepted_request_is_valid [OF this] show ?thesis by blast
qed

section \<open>The estimates of all providers\<close>


definition sample_estimates :: "string \<Rightarrow> jsnum \<Rightarrow> EstimationResult list" where
  "sample_estimates provider cost =
     [\<lparr>er_timestamp = 86400000,
       er_serviceEstimates =
         [\<lparr>sd_cloudProvider = provider, sd_accountId = ''a'', sd_accountName = ''a'',
           sd_serviceName = ''s'', sd_kilowattHours = 1, sd_co2e = 1, sd_cost = cost,
           sd_region = ''r'', sd_usesAverageCPUConstant = False, sd_tags = None\<rparr>],
       er_periodStartDate = Some 86400000, er_periodEndDate = Some 86400000, er_groupBy = day\<rparr>]"

definition sample_sources :: "nat account_services" where
  "sample_sources = \<lparr>
     as_awsBilling = (\<lambda>s e g. retA (sample_estimates ''AWS'' 2)),
     as_awsAccount = (\<lambda>a s e g. retA []),
     as_gcpBilling = (\<lambda>s e g. retA (sample_estimates ''GCP'' 3)),
     as_gcpProject = (\<lambda>a s e g. retA []),
     as_azureInit = (\<lambda>t. retA ()),
     as_azureConsumption = (\<lambda>a t s e g. retA []),
     as_ali = (\<lambda>s e g. retA [])\<rparr>"

definition sample_config :: app_config where
  "sample_config = \<lparr>cf_testMode = False, cf_awsBilling = True, cf_awsAccounts = [],
     cf_gcpBilling = True, cf_gcpProjects = [], cf_azureBilling = False, cf_aliAccessKeyId = None\<rparr>"

definition sample_request :: "seed_param option \<Rightarrow> app_request" where
  "sample_request seed = \<lparr>ar_startDate = 0, ar_endDate = 172800000, ar_groupBy = day,
     ar_accounts = None, ar_cloudProviderToSeed = seed, ar_tenantId = None, ar_accessToken = None\<rparr>"

definition all_included :: include_flags where
  "all_included = \<lparr>inc_AWS = True, inc_GCP = True, inc_AZURE = True, inc_ALI = True\<rparr>"


lemma sample_seeded:
  "provider_estimates sample_sources sample_config
       (all_included\<lparr>inc_AWS := True, inc_GCP := False, inc_AZURE := False\<rparr>) (sample_request seed) n
     = Some (Inr (sample_estimates ''AWS'' 2), n)"
  by (simp add: provider_estimates_def aws_estimates_def ali_estimates_def sample_sources_def
      sample_config_def all_included_def nonempty_def bindA_def)

lemma sample_request_seed: "ar_cloudProviderToSeed (sample_request seed) = seed"
  by (simp add: sample_request_def)

lemma sample_config_test: "\<not> cf_testMode sample_config"
  by (simp add: sample_config_def)


text \<open>A request that seeds one provider switches the other providers off for good: the flags are
  written to the one configuration object, so a later request without a seed asks neither of the
  others, and its flags stay as they are.\<close>

theorem seeding_excludes_providers_for_good:
  assumes "App_getCostAndEstimates M reduceBy S C q1 (flags, g) = Some (r1, (flags1, g1))"
    and "ar_cloudProviderToSeed q1 = Some (SeedText s)" and "toUpperCase s = ''AWS''"
    and "ar_cloudProviderToSeed q2 = None"
    and "App_getCostAndEstimates M reduceBy S C q2 (flags1, g2) = Some (r2, (flags2, g3))"
  shows "flags2 = flags1 \<and> flags1 = flags\<lparr>inc_AWS := True, inc_GCP := False, inc_AZURE := False\<rparr>
    \<and> gcp_estimates S C flags1 q2 = retA [] \<and> azure_estimates S C flags1 q2 = retA []"
proof -
  have "s \<noteq> []" using assms(3) by (auto simp: toUpperCase_def)
  then have "includeCloudProviders (ar_cloudProviderToSeed q1) flags
      = Inr (flags\<lparr>inc_AWS := True, inc_GCP := False, inc_AZURE := False\<rparr>)"
    using assms(2,3) by (simp add: seeded_flags)
  from App_getCostAndEstimates_flags [OF assms(1) this]
  have f1: "flags1 = flags\<lparr>inc_AWS := True, inc_GCP := False, inc_AZURE := False\<rparr>" .
  have "includeCloudProviders (ar_cloudProviderToSeed q2) flags1 = Inr flags1"
    using assms(4) by (simp add: unseeded_flags)
  from App_getCostAndEstimates_flags [OF assms(5) this] f1 show ?thesis by simp
qed

theorem seeding_excludes_providers_for_good_witness:
  "\<exists>r1 r2 flags. App_getCostAndEstimates moment_documented reduceBy_documented sample_sources
       sample_config (sample_request (Some (SeedText ''aws''))) (all_included, 0) = Some (r1, (flags, 0))
     \<and> App_getCostAndEstimates moment_documented reduceBy_documented sample_sources
       sample_config (sample_request None) (flags, 0) = Some (r2, (flags, 0))
     \<and> \<not> inc_GCP flags"
proof -
  let ?run = "\<lambda>seed. App_getCostAndEstimates moment_documented reduceBy_documented sample_sources
       sample_config (sample_request seed)"
  let ?fl = "all_included\<lparr>inc_AWS := True, inc_GCP := False, inc_AZURE := False\<rparr>"
  have up: "toUpperCase ''aws'' = ''AWS''" by code_simp
  obtain r1 where r1: "?run (Some (SeedText ''aws'')) (all_included, 0) = Some (r1, (?fl, 0))"
    by (simp add: App_getCostAndEstimates_def sample_request_seed seeded_flags up sample_seeded
        sample_config_test)
  obtain r2 where r2: "?run None (?fl, 0) = Some (r2, (?fl, 0))"
    by (simp add: App_getCostAndEstimates_def sample_request_seed unseeded_flags sample_seeded
        sample_config_test)
  from seeding_excludes_providers_for_good [OF r1 sample_request_seed up sample_request_seed r2]
  have "?fl = all_included\<lparr>inc_AWS := True, inc_GCP := False, inc_AZURE := False\<rparr>" by simp
  then show ?thesis using r1 r2 by fastforce
qed

section \<open>The cache\<close>

text \<open>C39. The file that the cache writes in windows of a hundred estimates reads back, line by line,
  as the same estimates, as long as an estimate's text has no line break and at least two
  characters and parses to the estimate.\<close>

theorem cache_file_reads_back:
  assumes "xs \<noteq> []" and "\<And>x. x \<in> set xs \<Longrightarrow> parse (stringify x) = Inr x"
    and "\<And>x. x \<in> set xs \<Longrightarrow> CHR 0x0A \<notin> set (stringify x) \<and> 2 \<le> length (stringify x)"
  shows "getCachedData parse (written_file stringify xs) = Inr xs"
  using assms by (rule cache_file_roundtrip)

theorem cache_file_reads_back_witness:
  "getCachedData (\<lambda>s. Inr s) (written_file id [''{}'', ''{1}'']) = Inr [''{}'', ''{1}'']"
  by (rule cache_file_reads_back) auto

text \<open>Merging two lists of estimates in the order of time, one estimate for each instant, gives
  such a list again: it has every estimate of the first list and those of the second whose instant
  the first does not have.\<close>

theorem merge_prefers_first_list:
  assumes "by_time as" and "by_time bs"
  shows "by_time (mergeEstimates as bs)
    \<and> set (mergeEstimates as bs) = set as \<union> {b \<in> set bs. er_timestamp b \<notin> er_timestamp ` set as}"
  using assms mergeEstimates_sorted mergeEstimates_set by blast

theorem merge_prefers_first_list_witness:
  "set (mergeEstimates (sample_estimates ''AWS'' 2) (sample_estimates ''GCP'' 3))
     = set (sample_estimates ''AWS'' 2)"
  using merge_prefers_first_list [of "sample_estimates ''AWS'' 2" "sample_estimates ''GCP'' 3"]
  by (auto simp: by_time_def sample_estimates_def)

text \<open>For a request the loop over its periods ends, and the dates missing from the cache are, in
  the order of time, exactly the period starts up to the end date that no cached estimate has.\<close>

theorem missing_dates_are_exact:
  assumes "moment_calendar M"
  shows "\<exists>dates missing. getDatesWithinRequestTimeFrame M grouping startDate endDate = Some dates
     \<and> getMissingDates M cached startDate endDate grouping = Some missing
     \<and> sorted_wrt (<) missing \<and> set missing = set dates - er_timestamp ` set cached
     \<and> (\<forall>d\<in>set dates. d \<le> endDate)"
proof -
  obtain dates missing where d: "getDatesWithinRequestTimeFrame M grouping startDate endDate = Some dates"
    "getMissingDates M cached startDate endDate grouping = Some missing"
    "sorted_wrt (<) missing" "set missing = set dates - er_timestamp ` set cached"
    using moment_calendar.missing_dates [OF assms, of grouping startDate endDate cached] by blast
  with moment_calendar.dates_strict(2) [OF assms d(1)] show ?thesis by blast
qed

theorem missing_dates_are_exact_witness:
  "\<exists>missing. getMissingDates moment_documented (sample_estimates ''AWS'' 2) 0 172800000 day = Some missing
     \<and> sorted_wrt (<) missing \<and> 86400000 \<notin> set missing"
  using missing_dates_are_exact [OF moment_cal_doc.moment_calendar_axioms, of day 0 172800000
      "sample_estimates ''AWS'' 2"]
  by (auto simp: sample_estimates_def)

text \<open>Missing dates are fetched in runs of consecutive periods: the runs together are the missing
  dates, in order, and each request spans its run, from its first date to the end of its last
  period.\<close>

theorem missing_dates_are_fetched_in_runs:
  "\<exists>groups. concat groups = ds \<and> (\<forall>g\<in>set groups. run_of M (munit_of grouping) g)
    \<and> getMissingDataRequests M grouping ds
        = map (\<lambda>g. (hd g, m_endOf M (munit_of grouping) (last g))) groups"
  using missing_groups [of M "munit_of grouping" ds]
  by (intro exI [of _ "foldl (group_date M (munit_of grouping)) [] ds"])
    (simp add: getMissingDataRequests_def Let_def)

theorem missing_dates_are_fetched_in_runs_witness:
  "\<exists>groups. concat groups = [0 :: date, 86400000, 259200000]
     \<and> length (getMissingDataRequests moment_documented day [0, 86400000, 259200000]) = length groups"
  using missing_dates_are_fetched_in_runs [of "[0, 86400000, 259200000]" moment_documented day] by auto



text \<open>C40. The answer from the cache counts what was fetched last again: when no date is missing, the
  totals are those of the cached estimates of the request plus those that an earlier request
  fetched.\<close>

theorem cached_answer_counts_earlier_fetch:
  assumes "cached_call E q c = Some (Inr rs, c')" and "\<not> cq_ignoreCache q"
    and "local_getMissingDates (ce_moment E) (getCacheFileName (ce_cachePath E)
           (GroupBy_name (cq_grouping q))) (cq_startDate q) (cq_endDate q) (cq_grouping q) c
         = Some ([], c1)"
  shows "er_total f rs = er_total f (lc_cachedEstimates c1) + er_total f (lc_fetchedEstimates c)"
  using assms by (rule cached_call_stale)

text \<open>A cache that has the one day of the request and an estimate fetched before.\<close>

definition sample_cache :: local_cache where
  "sample_cache = \<lparr>lc_files = [(getCacheFileName None ''day'', Estimates (sample_estimates ''AWS'' 2))],
     lc_cachedEstimates = [], lc_fetchedEstimates = sample_estimates ''AWS'' 2\<rparr>"

definition sample_env :: cache_env where
  "sample_env = \<lparr>ce_moment = moment_documented, ce_difference = difference_documented,
     ce_getCostAndEstimates = (\<lambda>s e. Inr []), ce_cachePath = None\<rparr>"

theorem cached_answer_counts_earlier_fetch_witness:
  "\<exists>rs c'. cached_call sample_env
       \<lparr>cq_startDate = 86400000, cq_endDate = 86400000, cq_grouping = day, cq_ignoreCache = False\<rparr>
       sample_cache = Some (Inr rs, c')
     \<and> er_total sd_cost rs = Fin 4"
proof -
  let ?q = "\<lparr>cq_startDate = 86400000, cq_endDate = 86400000, cq_grouping = day, cq_ignoreCache = False\<rparr>"
  let ?c1 = "sample_cache\<lparr>lc_cachedEstimates := sample_estimates ''AWS'' 2\<rparr>"
  have load: "loadEstimates (getCacheFileName None ''day'') sample_cache
      = (sample_estimates ''AWS'' 2, sample_cache)"
    by (simp add: loadEstimates_def sample_cache_def)
  have flt: "filterEstimatesForRequest 86400000 86400000 (sample_estimates ''AWS'' 2) = sample_estimates ''AWS'' 2"
    by (simp add: filterEstimatesForRequest_def sample_estimates_def)
  have none: "getMissingDates moment_documented (sample_estimates ''AWS'' 2) 86400000 86400000 day = Some []"
  proof -
    have start: "m_startOf moment_documented MDay 86400000 = 86400000" by code_simp
    have "dates_loop moment_documented MDay 86400000 [] 86400000 = Some [86400000]"
      by (subst dates_loop.simps, subst dates_loop.simps) (simp add: moment_doc.add_day)
    then show ?thesis
      by (simp add: getMissingDates_def getDatesWithinRequestTimeFrame_def start sample_estimates_def)
  qed
  have missing: "local_getMissingDates moment_documented (getCacheFileName None ''day'')
      86400000 86400000 day sample_cache = Some ([], ?c1)"
    by (simp add: local_getMissingDates_def load flt none)
  obtain rs where run: "cached_call sample_env ?q sample_cache = Some (Inr rs, ?c1)"
    by (simp add: cached_call_def sample_env_def missing)
  from cached_answer_counts_earlier_fetch [OF run, of ?c1 sd_cost] missing
  have "er_total sd_cost rs = Fin 4"
    by (simp add: sample_env_def sample_cache_def sample_estimates_def jsnum_simps)
  then show ?thesis using run by blast
qed

section \<open>Emissions factors\<close>

text \<open>The emissions factors listed are those of the providers' tables, each provider's in the order
  of its table: the row of a region carries its factor, and there are as many rows as the tables
  have regions.\<close>

theorem emissions_factors_list_every_region:
  "map (\<lambda>e. (em_cloudProvider e, em_region e)) (App_getEmissionsFactors providers)
     = concat (map (\<lambda>(p, fs). map (Pair p) (obj_keys fs)) providers)
   \<and> (\<forall>e\<in>set (App_getEmissionsFactors providers). \<exists>fs. (em_cloudProvider e, fs) \<in> set providers
        \<and> em_mtPerKwHour e = toNum (obj_get fs (em_region e)))"
proof -
  have "map (\<lambda>e. (em_cloudProvider e, em_region e)) (App_getEmissionsFactors providers)
     = concat (map (\<lambda>(p, fs). map (Pair p) (obj_keys fs)) providers)"
    unfolding App_getEmissionsFactors_eq map_concat map_map
    by (rule arg_cong [where f = concat]) (auto simp: comp_def)
  moreover have "\<forall>e\<in>set (App_getEmissionsFactors providers). \<exists>fs. (em_cloudProvider e, fs) \<in> set providers
        \<and> em_mtPerKwHour e = toNum (obj_get fs (em_region e))"
    by (auto simp: App_getEmissionsFactors_eq)
  ultimately show ?thesis ..
qed

theorem emissions_factors_list_every_region_witness:
  "map (\<lambda>e. (em_cloudProvider e, em_region e))
       (App_getEmissionsFactors [(''GCP'', [(''us-east1'', 3), (''us-east4'', 4)]), (''ALI'', [(''cn'', 5)])])
     = [(''GCP'', ''us-east1''), (''GCP'', ''us-east4''), (''ALI'', ''cn'')]"
  using emissions_factors_list_every_region
    [of "[(''GCP'', [(''us-east1'', 3), (''us-east4'', 4)]), (''ALI'', [(''cn'', 5)])]"]
  by (simp add: obj_keys_def)

text \<open>
  Properties of the caches in MongoDB and in a bucket: what is stored is read back, days without
  estimates are asked for again, and the file of the bucket keeps one period.
\<close>

section \<open>MongoDB\<close>





definition mongo_day :: mongo_request where
  "mongo_day = \<lparr>cq_startDate = 0, cq_endDate = 86400000, cq_grouping = day, cq_ignoreCache = False,
     mq_cloudProviders = None, mq_accounts = None, mq_services = None, mq_regions = None, mq_tags = None,
     mq_skip = None, mq_limit = None, mq_tenantId = None, mq_cloudProviderToSeed = None\<rparr>"

definition one_service :: ServiceData where
  "one_service = \<lparr>sd_cloudProvider = ''AWS'', sd_accountId = ''1'', sd_accountName = ''one'', sd_serviceName = ''EC2'',
     sd_kilowattHours = 3, sd_co2e = 2, sd_cost = 5, sd_region = ''us-east-1'', sd_usesAverageCPUConstant = True,
     sd_tags = None\<rparr>"

definition day_result :: "date \<Rightarrow> ServiceData list \<Rightarrow> EstimationResult" where
  "day_result t services = \<lparr>er_timestamp = t, er_serviceEstimates = services, er_periodStartDate = None,
     er_periodEndDate = None, er_groupBy = day\<rparr>"


text \<open>
  Only services are stored, so a day without any leaves no document: after a result without services has
  been set for a date that no document is of, the date is still missing, and asked for again each time.
\<close>

theorem mongo_asks_again_for_empty_days:
  assumes "mongo_store D docs" and "docs db (request_collection q) = Some old" and "old \<noteq> []"
    and "\<not> cq_ignoreCache q" and "mq_cloudProviderToSeed q = None"
    and "getDatesWithinRequestTimeFrame M (cq_grouping q) (cq_startDate q) (cq_endDate q) = Some dates"
    and "t \<in> set dates"
    and "\<forall>d \<in> set old. parse_date (iso_day (mo_timestamp d)) \<noteq> Some t"
    and "\<forall>r \<in> set rs. er_timestamp r = t \<longrightarrow> er_serviceEstimates r = []"
    and "\<forall>r \<in> set rs. er_timestamp r \<noteq> t \<longrightarrow> parse_date (iso_day (er_timestamp r)) \<noteq> Some t"
  shows "\<exists>missing db'. mongo_getMissingDates M D q (mongo_setEstimates D q rs db) = Some (missing, db')
       \<and> t \<in> set missing"
proof -
  let ?ds = "old @ concat (map documents_of rs)"
  let ?db = "mongo_setEstimates D q rs db"
  have after: "docs ?db (request_collection q) = Some ?ds"
    using mongo_store.docs_after_set [OF assms(1), of q rs db] assms(2) by auto
  obtain cached where cached: "md_dates D (request_collection q) DayOfTimestamp ?db = Inr [cached]"
    "set cached = (\<lambda>d. DayText (iso_day (mo_timestamp d))) ` set ?ds"
    using mongo_store.dates_of_documents [OF assms(1) after] assms(3) by auto
  have "mongo_cachedDates D (request_collection q) q ?db = Inr [cached]"
    using assms(3,5) after cached(1)
    by (simp add: mongo_cachedDates_def mongo_store.list_collections [OF assms(1)]
        mongo_store.count_documents [OF assms(1) after] nonempty_def)
  moreover have "\<not> list_ex (is_date t) cached"
    using assms(8-10) by (auto simp: list_ex_iff cached(2) is_date_def documents_of_def)
  ultimately show ?thesis
    using assms(4,6,7) by (auto simp: mongo_getMissingDates_def)
qed

theorem mongo_asks_again_for_empty_days_witness:
  "\<exists>missing db'. mongo_getMissingDates moment_documented mongo_documented mongo_day
       (mongo_setEstimates mongo_documented mongo_day [day_result 86400000 []]
          [(''estimates-by-day'', documents_of (day_result 0 [one_service]))]) = Some (missing, db')
     \<and> 86400000 \<in> set missing"
proof (rule mongo_asks_again_for_empty_days [OF mongo_doc_store.mongo_store_axioms])
  show "obj_get [(''estimates-by-day'', documents_of (day_result 0 [one_service]))] (request_collection mongo_day)
      = Some (documents_of (day_result 0 [one_service]))"
    by (simp add: mongo_day_def request_collection_def collection_name_def nonempty_def)
  show "getDatesWithinRequestTimeFrame moment_documented (cq_grouping mongo_day) (cq_startDate mongo_day)
      (cq_endDate mongo_day) = Some [0, 86400000]"
    by (simp add: mongo_day_def getDatesWithinRequestTimeFrame_def dates_loop.simps moment_documented_def
        startOf_documented_def add_documented_def day_number_def split_def)
  have "parse_date (iso_day 0) = Some (start_of_day 0)"
    by (rule parse_date_iso_day) (simp_all add: year_of_def civil_def march_year_def day_number_def Let_def)
  then show "\<forall>d \<in> set (documents_of (day_result 0 [one_service])). parse_date (iso_day (mo_timestamp d)) \<noteq> Some 86400000"
    by (simp add: documents_of_def day_result_def start_of_day_def day_number_def)
qed (simp_all add: mongo_day_def documents_of_def day_result_def)

section \<open>The bucket\<close>

text \<open>
  Setting the estimates of a request in the bucket replaces its file by those of the request's period: the
  results that the file had for any other period are gone.
\<close>

theorem bucket_forgets_other_periods:
  assumes "bucket_getMissingDates M file s e grouping c = Some (missing, c1)"
    and "bu_files c = Some files" and "obj_get files file = Some (Estimates old)"
  shows "\<exists>files'. bu_files (bucket_setEstimates file new c1) = Some files'
       \<and> obj_get files' file = Some (Estimates (filter (\<lambda>r. s \<le> er_timestamp r \<and> er_timestamp r \<le> e) old @ new))"
proof -
  have "getCloudFileContent file c = (old, c)" using assms(2,3) by (simp add: getCloudFileContent_def)
  then have "c1 = c\<lparr>bu_cachedEstimates := filterEstimatesForRequest s e old\<rparr>"
    using assms(1) by (auto simp: bucket_getMissingDates_def Let_def split: option.splits)
  then show ?thesis
    by (simp add: bucket_setEstimates_def Let_def assms(2) obj_get_set filterEstimatesForRequest_def)
qed

theorem bucket_forgets_other_periods_witness:
  "\<exists>files'. bu_files (bucket_setEstimates ''estimates.cache.day.json'' [day_result 172800000 [one_service]]
       \<lparr>bu_files = Some [(''estimates.cache.day.json'', Estimates [day_result 0 [one_service]])],
        bu_cachedEstimates = [], bu_fetchedEstimates = []\<rparr>) = Some files'
     \<and> obj_get files' ''estimates.cache.day.json'' = Some (Estimates [day_result 172800000 [one_service]])"
proof -
  obtain missing where missing: "getMissingDates moment_documented [] 172800000 172800000 day = Some missing"
    using moment_cal_doc.missing_dates by blast
  have "\<exists>files'. bu_files (bucket_setEstimates ''estimates.cache.day.json'' [day_result 172800000 [one_service]]
       \<lparr>bu_files = Some [(''estimates.cache.day.json'', Estimates [day_result 0 [one_service]])],
        bu_cachedEstimates = [], bu_fetchedEstimates = []\<rparr>) = Some files'
     \<and> obj_get files' ''estimates.cache.day.json''
       = Some (Estimates (filter (\<lambda>r. 172800000 \<le> er_timestamp r \<and> er_timestamp r \<le> 172800000)
           [day_result 0 [one_service]] @ [day_result 172800000 [one_service]]))"
  proof (rule bucket_forgets_other_periods)
    show "bucket_getMissingDates moment_documented ''estimates.cache.day.json'' 172800000 172800000 day
        \<lparr>bu_files = Some [(''estimates.cache.day.json'', Estimates [day_result 0 [one_service]])],
         bu_cachedEstimates = [], bu_fetchedEstimates = []\<rparr> =
      Some (missing, \<lparr>bu_files = Some [(''estimates.cache.day.json'', Estimates [day_result 0 [one_service]])],
         bu_cachedEstimates = [], bu_fetchedEstimates = []\<rparr>)"
      using missing by (simp add: bucket_getMissingDates_def getCloudFileContent_def filterEstimatesForRequest_def day_result_def)
    show "obj_get [(''estimates.cache.day.json'', Estimates [day_result 0 [one_service]])] ''estimates.cache.day.json''
        = Some (Estimates [day_result 0 [one_service]])"
      by simp
  qed simp
  then show ?thesis by (simp add: day_result_def)
qed

end
