(* ===== verification/Aws_Rightsizing.thy ===== *)
theory Aws_Rightsizing
  imports Aws_Athena Common_Types
begin

text \<open>
  \<open>packages/aws/src/lib/Recommendations/RightsizingRecommendations.ts\<close> and the classes of
  \<open>Recommendations/Rightsizing\<close>: what AWS recommends for an EC2 instance, either to terminate it or to
  replace it by one of several target instances, with the energy and emissions that would be saved.
  The pages of Cost Explorer are a parameter. A recommendation is used once, so the changes that the
  source makes to its list of targets are the value of \<open>getTargetInstance\<close> here.
\<close>

section \<open>Recommendations of Cost Explorer\<close>

record EC2ResourceDetails =
  rd_Region :: "string option"
  rd_InstanceType :: "string option"
  rd_Vcpu :: "string option"

record TargetInstance =
  ti_EstimatedMonthlySavings :: "string option"
  ti_EC2ResourceDetails :: "EC2ResourceDetails option"

text \<open>
  The current instance has its details unless AWS sends none; \<open>TerminateRecommendationDetail\<close> and
  \<open>ModifyRecommendationDetail\<close> are there by the type of the recommendation.
\<close>

record AwsRightsizingRecommendation =
  rz_AccountId :: "string option"
  rz_RightsizingType :: string
  rz_InstanceName :: "string option"
  rz_ResourceId :: "string option"
  rz_EC2ResourceDetails :: "EC2ResourceDetails option"
  rz_TerminateSavings :: "string option"
  rz_TargetInstances :: "TargetInstance list option"

section \<open>RightsizingRecommendation.ts\<close>

record RightsizingRecommendation =
  rs_accountId :: "string option"
  rs_region :: string
  rs_type :: string
  rs_instanceName :: "string option"
  rs_resourceId :: "string option"
  rs_instanceType :: "string option"
  rs_vCpuHours :: jsnum
  rs_costSavings :: jsnum
  rs_usageAmount :: jsnum

definition monthly_hours :: "aws_env \<Rightarrow> jsnum" where
  "monthly_hours E = getHoursInMonth (aw_moment E) (aw_now E)"

definition rightsizing_getVCpuHours :: "aws_env \<Rightarrow> EC2ResourceDetails \<Rightarrow> jsnum" where
  "rightsizing_getVCpuHours E resourceDetails =
     (let instanceType = text_of (rd_InstanceType resourceDetails);
          vCpus = parseFloat_opt (rd_Vcpu resourceDetails)
      in if containsAny (obj_keys BURSTABLE_INSTANCE_BASELINE_UTILIZATION) instanceType
         then ((vCpus * toNum (map_option Fin (obj_get BURSTABLE_INSTANCE_BASELINE_UTILIZATION instanceType)))
               / aws_AVG_CPU_UTILIZATION_2020) * monthly_hours E
         else vCpus * monthly_hours E)"

definition getMappedRegion :: "string option \<Rightarrow> string" where
  "getMappedRegion region =
     (case obj_get AWS_MAPPED_REGION_NAMES_TO_CODES (text_of region) of
        Some regionCode \<Rightarrow> regionCode
      | None \<Rightarrow> aws_region AWS_UNKNOWN)"

definition compute_processors_of :: "string option \<Rightarrow> COMPUTE_PROCESSOR_TYPES list" where
  "compute_processors_of instanceType =
     (case obj_get INSTANCE_TYPE_COMPUTE_PROCESSOR_MAPPING (text_of instanceType) of
        Some ps \<Rightarrow> ps
      | None \<Rightarrow> [UNKNOWN_PROCESSOR])"

definition gpu_processors_of :: "string option \<Rightarrow> COMPUTE_PROCESSOR_TYPES list" where
  "gpu_processors_of instanceType =
     (case obj_get INSTANCE_TYPE_GPU_PROCESSOR_MAPPING (text_of instanceType) of
        Some ps \<Rightarrow> ps
      | None \<Rightarrow> [UNKNOWN_PROCESSOR])"

section \<open>RightsizingCurrentRecommendation.ts and RightsizingTargetRecommendation.ts\<close>

definition new_RightsizingCurrentRecommendation ::
    "aws_env \<Rightarrow> AwsRightsizingRecommendation \<Rightarrow> RightsizingRecommendation result" where
  "new_RightsizingCurrentRecommendation E data =
     (case rz_EC2ResourceDetails data of
        None \<Rightarrow> Inl TypeError
      | Some details \<Rightarrow> Inr
          \<lparr>rs_accountId = rz_AccountId data,
           rs_region = getMappedRegion (rd_Region details),
           rs_type = rz_RightsizingType data,
           rs_instanceName = rz_InstanceName data,
           rs_resourceId = rz_ResourceId data,
           rs_instanceType = rd_InstanceType details,
           rs_vCpuHours = rightsizing_getVCpuHours E details,
           rs_costSavings = or_num (Some (parseFloat_opt (rz_TerminateSavings data))) 0,
           rs_usageAmount = monthly_hours E\<rparr>)"

definition new_RightsizingTargetRecommendation ::
    "aws_env \<Rightarrow> AwsRightsizingRecommendation \<Rightarrow> TargetInstance option \<Rightarrow> RightsizingRecommendation result" where
  "new_RightsizingTargetRecommendation E data targetInstance =
     (case targetInstance of
        None \<Rightarrow> Inl TypeError
      | Some target \<Rightarrow>
          (case ti_EC2ResourceDetails target of
             None \<Rightarrow> Inl TypeError
           | Some details \<Rightarrow> Inr
               \<lparr>rs_accountId = rz_AccountId data,
                rs_region = getMappedRegion (rd_Region details),
                rs_type = rz_RightsizingType data,
                rs_instanceName = Some ''Recommend new instance'',
                rs_resourceId = None,
                rs_instanceType = rd_InstanceType details,
                rs_vCpuHours = rightsizing_getVCpuHours E details,
                rs_costSavings = parseFloat_opt (ti_EstimatedMonthlySavings target),
                rs_usageAmount = monthly_hours E\<rparr>))"

section \<open>RightsizingRecommendations.ts\<close>

text \<open>
  The only target instance that is left: the last one is taken off the list, and replaced by each of
  the others that saves at least as much as those before it, or nothing.
\<close>

definition better_target :: "jsnum \<times> TargetInstance option \<Rightarrow> TargetInstance \<Rightarrow> jsnum \<times> TargetInstance option" where
  "better_target acc i =
     (let s = parseFloat_opt (ti_EstimatedMonthlySavings i)
      in if fst acc \<le> s then (s, Some i) else acc)"

definition getTargetInstance :: "TargetInstance list \<Rightarrow> TargetInstance option" where
  "getTargetInstance targets =
     (if targets = [] then None
      else snd (foldl better_target (0, Some (last targets)) (butlast targets)))"

definition rightsizing_detail :: "RightsizingRecommendation \<Rightarrow> RightsizingRecommendation option \<Rightarrow> string option" where
  "rightsizing_detail current target =
     (let modifyDetail = ''Update instance type '' @ text_of (rs_instanceType current) @ '' to ''
            @ text_of (Option.bind target rs_instanceType);
          defaultDetail =
            (case rs_instanceName current of
               Some name \<Rightarrow>
                 if name = [] then rs_type current @ '' instance with Resource ID: ''
                                     @ text_of (rs_resourceId current) @ ''.''
                 else rs_type current @ '' instance: '' @ name @ ''.''
             | None \<Rightarrow> rs_type current @ '' instance with Resource ID: ''
                         @ text_of (rs_resourceId current) @ ''.'');
          recommendationTypes = [(''Terminate'', defaultDetail),
                                 (''Modify'', defaultDetail @ '' '' @ modifyDetail)]
      in obj_get recommendationTypes (rs_type current))"

text \<open>
  What the estimate builders copy from a recommendation. It has no usage type, which the test for GPU
  instances reads as text.
\<close>

definition rightsizing_data :: "RightsizingRecommendation \<Rightarrow> estimates_data" where
  "rightsizing_data r =
     \<lparr>ed_usageAmount = rs_usageAmount r,
      ed_instanceType = (case rs_instanceType r of Some t \<Rightarrow> t | None \<Rightarrow> []),
      ed_usageType = ''undefined'',
      ed_vCpuHours = rs_vCpuHours r,
      ed_gpuHours = NaN,
      ed_region = rs_region r,
      ed_replicationFactor = None,
      ed_computeProcessors = compute_processors_of (rs_instanceType r),
      ed_gpuComputeProcessors = gpu_processors_of (rs_instanceType r)\<rparr>"

text \<open>The compute and the memory footprint of a recommendation.\<close>

definition footprints_of ::
    "aws_env \<Rightarrow> estimates_data \<Rightarrow> (aws_globals, FootprintEstimate \<times> FootprintEstimate) eff" where
  "footprints_of E d =
     bindE (factorsE E (ed_region d) (toISOString (aw_now E))) (\<lambda>emissionsFactors.
       retE (aws_computeFootprint (aw_median E) d emissionsFactors,
             aws_memoryFootprint (aw_median E) aws_MEMORY_COEFFICIENT d emissionsFactors))"

definition with_memory :: "FootprintEstimate \<times> FootprintEstimate \<Rightarrow> jsnum \<times> jsnum" where
  "with_memory footprints =
     (let (compute, memory) = footprints
      in if truthy (fe_co2e memory)
         then (fe_kilowattHours compute + fe_kilowattHours memory, fe_co2e compute + fe_co2e memory)
         else (fe_kilowattHours compute, fe_co2e compute))"

definition rightsizing_result ::
    "RightsizingRecommendation \<Rightarrow> string option \<Rightarrow> jsnum \<Rightarrow> jsnum \<Rightarrow> jsnum \<Rightarrow> RecommendationResult" where
  "rightsizing_result current detail kilowattHourSavings co2eSavings costSavings =
     \<lparr>rr_cloudProvider = ''AWS'',
      rr_accountId = rs_accountId current,
      rr_accountName = rs_accountId current,
      rr_region = Some (rs_region current),
      rr_recommendationType = rs_type current,
      rr_recommendationDetail = detail,
      rr_resourceId = rs_resourceId current,
      rr_instanceName = rs_instanceName current,
      rr_kilowattHourSavings = kilowattHourSavings,
      rr_costSavings = Some costSavings,
      rr_co2eSavings = co2eSavings,
      rr_recommendationOptions = None\<rparr>"

definition rightsizing_step ::
    "aws_env \<Rightarrow> RecommendationResult list \<Rightarrow> AwsRightsizingRecommendation \<Rightarrow>
     (aws_globals, RecommendationResult list) eff" where
  "rightsizing_step E results recommendation =
     bindE (liftE (new_RightsizingCurrentRecommendation E recommendation)) (\<lambda>current.
     bindE (footprints_of E (rightsizing_data current)) (\<lambda>currentFootprints.
       let (kilowattHours, co2e) = with_memory currentFootprints
       in if rz_RightsizingType recommendation = ''Modify'' then
            (case rz_TargetInstances recommendation of
               None \<Rightarrow> throwE TypeError
             | Some targets \<Rightarrow>
                 bindE (liftE (new_RightsizingTargetRecommendation E recommendation
                                 (getTargetInstance targets))) (\<lambda>target.
                 bindE (footprints_of E (rightsizing_data target)) (\<lambda>(compute, memory).
                   retE (results @ [rightsizing_result current (rightsizing_detail current (Some target))
                     (if truthy (fe_co2e memory)
                      then kilowattHours - fe_kilowattHours compute - fe_kilowattHours memory
                      else kilowattHours - fe_kilowattHours compute)
                     (if truthy (fe_co2e memory)
                      then co2e - fe_co2e compute - fe_co2e memory else co2e - fe_co2e compute)
                     (rs_costSavings target)]))))
          else
            retE (results @ [rightsizing_result current (rightsizing_detail current None)
                    kilowattHours co2e (rs_costSavings current)])))"

type_synonym rightsizing_pages =
  "AWS_RECOMMENDATIONS_TARGETS \<Rightarrow> string option \<Rightarrow> string + (AwsRightsizingRecommendation list \<times> string option)"

definition rightsizing_results ::
    "aws_env \<Rightarrow> AwsRightsizingRecommendation list list result \<Rightarrow> (aws_globals, RecommendationResult list) eff" where
  "rightsizing_results E pages =
     explained (\<lambda>e. ''Failed to grab AWS Rightsizing recommendations. Reason: '' @ error_message e)
       (bindE (liftE pages) (\<lambda>results. foldE (rightsizing_step E) [] (concat results)))"

definition Rightsizing_getRecommendations ::
    "aws_env \<Rightarrow> rightsizing_pages \<Rightarrow> AWS_RECOMMENDATIONS_TARGETS \<Rightarrow>
     (aws_globals, RecommendationResult list) act" where
  "Rightsizing_getRecommendations E fetch recommendationTarget =
     (\<lambda>g. case paginate (fetch recommendationTarget) [] None of
        None \<Rightarrow> None
      | Some pages \<Rightarrow> Some (rightsizing_results E pages g))"

end
