(* ===== verification/Aws_Optimizer.thy ===== *)
theory Aws_Optimizer
  imports Aws_Rightsizing
begin

text \<open>
  \<open>packages/aws/src/lib/Recommendations/ComputeOptimizerRecommendations.ts\<close> and the classes of
  \<open>Recommendations/ComputeOptimizer\<close>: the recommendations that Compute Optimizer exports to a bucket, one
  CSV file for a service and day. A line is an object from the names of the columns to text. The classes
  of a current and a target recommendation of a service have the same fields, so they share a record;
  a field that only one of the two sets is \<open>None\<close> or \<open>NaN\<close> in the other.
\<close>

type_synonym csv_row = "string obj"

section \<open>ComputeOptimizerRecommendation.ts\<close>

record ComputeOptimizerRecommendation =
  co_accountId :: "string option"
  co_accountName :: "string option"
  co_region :: "string option"
  co_type :: "string option"
  co_description :: string
  co_resourceId :: "string option"
  co_costSavings :: "jsnum option"
  co_recommendationOptions :: "ComputeOptimizerRecommendationOption list"

text \<open>A column with the resource name that must be there, as the source takes it apart.\<close>

definition arn_of :: "csv_row \<Rightarrow> string \<Rightarrow> string result" where
  "arn_of row name = (case obj_get row name of None \<Rightarrow> Inl TypeError | Some arn \<Rightarrow> Inr arn)"

definition getRegion :: "string \<Rightarrow> string option" where
  "getRegion resourceArn = elem_at (split resourceArn '':'') 3"

definition getResourceId :: "string \<Rightarrow> string" where
  "getResourceId resourceArn = last (split resourceArn ''/'')"

definition optimizer_getVCpuHours :: "aws_env \<Rightarrow> jsnum \<Rightarrow> string option \<Rightarrow> jsnum" where
  "optimizer_getVCpuHours E vcpus instanceType =
     (if containsAny (obj_keys BURSTABLE_INSTANCE_BASELINE_UTILIZATION) (text_of instanceType)
      then ((vcpus * toNum (map_option Fin
               (obj_get BURSTABLE_INSTANCE_BASELINE_UTILIZATION (text_of instanceType))))
            / aws_AVG_CPU_UTILIZATION_2020) * monthly_hours E
      else vcpus * monthly_hours E)"

fun performance_risk :: "ComputeOptimizerRecommendationOption \<Rightarrow> string option" where
  "performance_risk (EC2RecommendationOption _ _ risk _) = risk"
| "performance_risk (EBSRecommendationOption _ _ _ risk) = risk"
| "performance_risk (LambdaRecommendationOption _ _ risk) = risk"

definition getOptimalRecommendation ::
    "ComputeOptimizerRecommendationOption list \<Rightarrow> ComputeOptimizerRecommendationOption option" where
  "getOptimalRecommendation recommendationOptions =
     find (\<lambda>recommendation. parseFloat_opt (performance_risk recommendation) \<le> 3) recommendationOptions"

text \<open>The three options of a line; \<open>column k name\<close> is a column of the option \<open>k\<close>.\<close>

definition column :: "csv_row \<Rightarrow> string \<Rightarrow> string \<Rightarrow> string option" where
  "column row k name = obj_get row (''recommendationOptions_'' @ k @ name)"

definition optimizer_base ::
    "csv_row \<Rightarrow> string option \<Rightarrow> string option \<Rightarrow> string \<Rightarrow> string option \<Rightarrow> jsnum option \<Rightarrow>
     ComputeOptimizerRecommendationOption list \<Rightarrow> ComputeOptimizerRecommendation" where
  "optimizer_base row region type description resourceId costSavings options =
     \<lparr>co_accountId = obj_get row ''accountId'',
      co_accountName = obj_get row ''accountId'',
      co_region = region,
      co_type = type,
      co_description = description,
      co_resourceId = resourceId,
      co_costSavings = costSavings,
      co_recommendationOptions = options\<rparr>"

section \<open>EC2\<close>

record EC2ComputeOptimizerRecommendation = ComputeOptimizerRecommendation +
  ec_instanceName :: "string option"
  ec_instanceType :: "string option"
  ec_vcpus :: "string option"
  ec_vCpuHours :: jsnum
  ec_usageAmount :: jsnum

definition ec2_options :: "csv_row \<Rightarrow> ComputeOptimizerRecommendationOption list" where
  "ec2_options row =
     map (\<lambda>k. EC2RecommendationOption (column row k ''_instanceType'')
                (column row k ''_estimatedMonthlySavings_value'') (column row k ''_performanceRisk'')
                (column row k ''_vcpus''))
       [''1'', ''2'', ''3'']"

definition new_EC2CurrentComputeOptimizerRecommendation ::
    "aws_env \<Rightarrow> csv_row \<Rightarrow> EC2ComputeOptimizerRecommendation result" where
  "new_EC2CurrentComputeOptimizerRecommendation E row =
     bindR (arn_of row ''instanceArn'') (\<lambda>arn.
       let instanceType = obj_get row ''currentInstanceType'';
           vcpus = obj_get row ''current_vcpus''
       in Inr (ComputeOptimizerRecommendation.extend
                 (optimizer_base row (getRegion arn) (Some (''EC2-'' @ text_of (obj_get row ''finding'')))
                    (text_of instanceType) (Some (getResourceId arn)) None (ec2_options row))
                 (EC2ComputeOptimizerRecommendation.fields (obj_get row ''instanceName'') instanceType vcpus
                    (optimizer_getVCpuHours E (parseFloat_opt vcpus) instanceType) (monthly_hours E))))"

definition new_EC2TargetComputeOptimizerRecommendation ::
    "aws_env \<Rightarrow> csv_row \<Rightarrow> EC2ComputeOptimizerRecommendation result" where
  "new_EC2TargetComputeOptimizerRecommendation E row =
     bindR (arn_of row ''instanceArn'') (\<lambda>arn.
       case getOptimalRecommendation (ec2_options row) of
         Some (EC2RecommendationOption instanceType costSavings risk vcpus) \<Rightarrow>
           Inr (ComputeOptimizerRecommendation.extend
                  (optimizer_base row (getRegion arn) (obj_get row ''finding'') (text_of instanceType) None
                     (Some (parseFloat_opt costSavings)) (ec2_options row))
                  (EC2ComputeOptimizerRecommendation.fields (obj_get row ''instanceName'') instanceType vcpus
                     (optimizer_getVCpuHours E (parseFloat_opt vcpus) instanceType) (monthly_hours E)))
       | _ \<Rightarrow> Inl TypeError)"

text \<open>What the estimate builders copy of it, as for a rightsizing recommendation.\<close>

definition ec2_data :: "EC2ComputeOptimizerRecommendation \<Rightarrow> estimates_data" where
  "ec2_data r =
     \<lparr>ed_usageAmount = ec_usageAmount r,
      ed_instanceType = (case ec_instanceType r of Some t \<Rightarrow> t | None \<Rightarrow> []),
      ed_usageType = ''undefined'',
      ed_vCpuHours = ec_vCpuHours r,
      ed_gpuHours = NaN,
      ed_region = text_of (co_region r),
      ed_replicationFactor = None,
      ed_computeProcessors = compute_processors_of (ec_instanceType r),
      ed_gpuComputeProcessors = gpu_processors_of (ec_instanceType r)\<rparr>"

section \<open>EBS\<close>

record EBSComputeOptimizerRecommendation = ComputeOptimizerRecommendation +
  eb_volumeType :: "string option"
  eb_volumeSize :: jsnum

definition ebs_options :: "csv_row \<Rightarrow> ComputeOptimizerRecommendationOption list" where
  "ebs_options row =
     map (\<lambda>k. EBSRecommendationOption (column row k ''_configuration_volumeType'')
                (column row k ''_configuration_volumeSize'')
                (column row k ''_estimatedMonthlySavings_value'') (column row k ''_performanceRisk''))
       [''1'', ''2'', ''3'']"

text \<open>The text of a whole number, or of no number: what \<open>parseInt\<close> yields in a template.\<close>

function nat_text :: "nat \<Rightarrow> string" where
  "nat_text n = (if n < 10 then [digit_char (int n)]
                 else nat_text (n div 10) @ [digit_char (int (n mod 10))])"
  by pat_completeness auto
termination by (relation "measure id") auto

definition whole_text :: "jsnum \<Rightarrow> string" where
  "whole_text x =
     (case x of
        Fin q \<Rightarrow> (if \<lfloor>q\<rfloor> < 0 then ''-'' @ nat_text (nat (- \<lfloor>q\<rfloor>)) else nat_text (nat \<lfloor>q\<rfloor>))
      | PInf \<Rightarrow> ''Infinity'' | NInf \<Rightarrow> ''-Infinity'' | NaN \<Rightarrow> ''NaN'')"

definition volume_description :: "string option \<Rightarrow> jsnum \<Rightarrow> string" where
  "volume_description volumeType volumeSize = text_of volumeType @ ''('' @ whole_text volumeSize @ ''GB)''"

definition new_EBSCurrentComputeOptimizerRecommendation ::
    "csv_row \<Rightarrow> EBSComputeOptimizerRecommendation result" where
  "new_EBSCurrentComputeOptimizerRecommendation row =
     bindR (arn_of row ''volumeArn'') (\<lambda>arn.
       let volumeType = obj_get row ''currentConfiguration_volumeType'';
           volumeSize = parseInt (text_of (obj_get row ''currentConfiguration_volumeSize''))
       in Inr (ComputeOptimizerRecommendation.extend
                 (optimizer_base row (getRegion arn) (Some (''EBS-'' @ text_of (obj_get row ''finding'')))
                    (volume_description volumeType volumeSize) (Some (getResourceId arn)) None (ebs_options row))
                 (EBSComputeOptimizerRecommendation.fields volumeType volumeSize)))"

definition new_EBSTargetComputeOptimizerRecommendation ::
    "csv_row \<Rightarrow> EBSComputeOptimizerRecommendation result" where
  "new_EBSTargetComputeOptimizerRecommendation row =
     bindR (arn_of row ''volumeArn'') (\<lambda>arn.
       case getOptimalRecommendation (ebs_options row) of
         Some (EBSRecommendationOption volumeType sizeText costSavings risk) \<Rightarrow>
           (let volumeSize = parseInt (text_of sizeText)
            in Inr (ComputeOptimizerRecommendation.extend
                      (optimizer_base row (getRegion arn) (obj_get row ''finding'')
                         (volume_description volumeType volumeSize) None
                         (Some (parseFloat_opt costSavings)) (ebs_options row))
                      (EBSComputeOptimizerRecommendation.fields volumeType volumeSize)))
       | _ \<Rightarrow> Inl TypeError)"

definition volumeTypeIsSSD :: "string option \<Rightarrow> bool" where
  "volumeTypeIsSSD volumeType = list_ex (\<lambda>type. str_includes type (text_of volumeType)) SSD_USAGE_TYPES"

definition optimizer_getStorageFootprintEstimate :: "EBSComputeOptimizerRecommendation \<Rightarrow> FootprintEstimate" where
  "optimizer_getStorageFootprintEstimate r =
     aws_storageFootprint
       (if volumeTypeIsSSD (eb_volumeType r) then aws_SSDCOEFFICIENT else aws_HDDCOEFFICIENT)
       (text_of (co_region r)) (eb_volumeSize r)"

section \<open>Lambda\<close>

text \<open>
  The vCPUs are kept as text and read back at once, which gives the number again; the model keeps the
  number. A Lambda function has no instance type, so no memory is estimated for it.
\<close>

record LambdaComputeOptimizerRecommendation = ComputeOptimizerRecommendation +
  la_functionVersion :: "string option"
  la_memorySize :: "string option"
  la_vCpus :: jsnum
  la_vCpuHours :: jsnum
  la_usageAmount :: jsnum

definition lambda_options :: "csv_row \<Rightarrow> ComputeOptimizerRecommendationOption list" where
  "lambda_options row =
     map (\<lambda>k. LambdaRecommendationOption (column row k ''_configuration_memorySize'')
                (column row k ''_estimatedMonthlySavings_value'') None)
       [''1'', ''2'', ''3'']"

definition lambda_getResourceId :: "string \<Rightarrow> string" where
  "lambda_getResourceId functionArn =
     (let functionData = split functionArn '':''
      in (if 2 \<le> length functionData then functionData ! (length functionData - 2) else ''undefined'')
           @ '':'' @ last functionData)"

definition getVcpusForLambda :: "string option \<Rightarrow> jsnum" where
  "getVcpusForLambda memorySize = parseFloat_opt memorySize / 1769"

definition new_LambdaCurrentComputeOptimizerRecommendation ::
    "aws_env \<Rightarrow> csv_row \<Rightarrow> LambdaComputeOptimizerRecommendation result" where
  "new_LambdaCurrentComputeOptimizerRecommendation E row =
     bindR (arn_of row ''functionArn'') (\<lambda>arn.
       let memorySize = obj_get row ''currentConfiguration_memorySize'';
           vCpus = getVcpusForLambda memorySize
       in Inr (ComputeOptimizerRecommendation.extend
                 (optimizer_base row (getRegion arn) (Some (''Lambda-'' @ text_of (obj_get row ''finding'')))
                    (text_of memorySize @ ''MB'') (Some (lambda_getResourceId arn)) None (lambda_options row))
                 (LambdaComputeOptimizerRecommendation.fields (obj_get row ''functionVersion'') memorySize vCpus
                    (optimizer_getVCpuHours E vCpus None) (monthly_hours E))))"

definition new_LambdaTargetComputeOptimizerRecommendation ::
    "aws_env \<Rightarrow> csv_row \<Rightarrow> LambdaComputeOptimizerRecommendation result" where
  "new_LambdaTargetComputeOptimizerRecommendation E row =
     bindR (arn_of row ''functionArn'') (\<lambda>arn.
       let memorySize = column row ''1'' ''_configuration_memorySize'';
           vCpus = getVcpusForLambda memorySize
       in Inr (ComputeOptimizerRecommendation.extend
                 (optimizer_base row (getRegion arn) (obj_get row ''finding'')
                    (text_of memorySize @ ''MB'') (Some (lambda_getResourceId arn))
                    (Some (parseFloat_opt (column row ''1'' ''_estimatedMonthlySavings_value'')))
                    (lambda_options row))
                 (LambdaComputeOptimizerRecommendation.fields None memorySize vCpus
                    (optimizer_getVCpuHours E vCpus None) (monthly_hours E))))"

definition lambda_data :: "LambdaComputeOptimizerRecommendation \<Rightarrow> estimates_data" where
  "lambda_data r =
     \<lparr>ed_usageAmount = la_usageAmount r,
      ed_instanceType = [],
      ed_usageType = ''undefined'',
      ed_vCpuHours = la_vCpuHours r,
      ed_gpuHours = NaN,
      ed_region = text_of (co_region r),
      ed_replicationFactor = None,
      ed_computeProcessors = [UNKNOWN_PROCESSOR],
      ed_gpuComputeProcessors = [UNKNOWN_PROCESSOR]\<rparr>"

end
