(* ===== verification/Aws_Recommendations.thy ===== *)
theory Aws_Recommendations
  imports Aws_Optimizer Aws_Athena
begin

text \<open>
  The exported recommendations of \<open>ComputeOptimizerRecommendations.ts\<close>, and
  \<open>packages/aws/src/lib/Recommendations/Recommendations.ts\<close>, which asks one or both of the services
  and keeps one recommendation for a resource when it has asked both. The bucket is a parameter.
\<close>

section \<open>ComputeOptimizerRecommendations.ts\<close>

definition compute_savings ::
    "aws_env \<Rightarrow> estimates_data \<Rightarrow> estimates_data \<Rightarrow> (aws_globals, jsnum \<times> jsnum) eff" where
  "compute_savings E current target =
     bindE (footprints_of E current) (\<lambda>(currentCompute, currentMemory).
     bindE (footprints_of E target) (\<lambda>(targetCompute, targetMemory).
       let kilowattHourSavings = fe_kilowattHours currentCompute - fe_kilowattHours targetCompute;
           co2eSavings = fe_co2e currentCompute - fe_co2e targetCompute
       in retE (if truthy (fe_co2e currentMemory) \<or> truthy (fe_co2e targetMemory)
                then (kilowattHourSavings + (fe_kilowattHours currentMemory - fe_kilowattHours targetMemory),
                      co2eSavings + (fe_co2e currentMemory - fe_co2e targetMemory))
                else (kilowattHourSavings, co2eSavings))))"

definition storage_savings ::
    "EBSComputeOptimizerRecommendation \<Rightarrow> EBSComputeOptimizerRecommendation \<Rightarrow> jsnum \<times> jsnum" where
  "storage_savings current target =
     (let currentStorage = optimizer_getStorageFootprintEstimate current;
          targetStorage = optimizer_getStorageFootprintEstimate target
      in (fe_kilowattHours currentStorage - fe_kilowattHours targetStorage,
          fe_co2e currentStorage - fe_co2e targetStorage))"

text \<open>
  What the table of services makes of a line: the current and the target recommendation, the name of the
  instance and the savings, which are estimated only when the target saves costs.
\<close>

record optimizer_pair =
  op_current :: ComputeOptimizerRecommendation
  op_target :: ComputeOptimizerRecommendation
  op_instanceName :: "string option"
  op_savings :: "(aws_globals, jsnum \<times> jsnum) eff"

definition new_optimizer_pair :: "aws_env \<Rightarrow> string option \<Rightarrow> csv_row \<Rightarrow> optimizer_pair result" where
  "new_optimizer_pair E service row =
     (if service = Some ''ec2'' then
        bindR (new_EC2CurrentComputeOptimizerRecommendation E row) (\<lambda>current.
        bindR (new_EC2TargetComputeOptimizerRecommendation E row) (\<lambda>target.
          Inr \<lparr>op_current = ComputeOptimizerRecommendation.truncate current,
               op_target = ComputeOptimizerRecommendation.truncate target,
               op_instanceName = ec_instanceName current,
               op_savings = compute_savings E (ec2_data current) (ec2_data target)\<rparr>))
      else if service = Some ''ebs'' then
        bindR (new_EBSCurrentComputeOptimizerRecommendation row) (\<lambda>current.
        bindR (new_EBSTargetComputeOptimizerRecommendation row) (\<lambda>target.
          Inr \<lparr>op_current = ComputeOptimizerRecommendation.truncate current,
               op_target = ComputeOptimizerRecommendation.truncate target,
               op_instanceName = None,
               op_savings = retE (storage_savings current target)\<rparr>))
      else if service = Some ''lambda'' then
        bindR (new_LambdaCurrentComputeOptimizerRecommendation E row) (\<lambda>current.
        bindR (new_LambdaTargetComputeOptimizerRecommendation E row) (\<lambda>target.
          Inr \<lparr>op_current = ComputeOptimizerRecommendation.truncate current,
               op_target = ComputeOptimizerRecommendation.truncate target,
               op_instanceName = None,
               op_savings = compute_savings E (lambda_data current) (lambda_data target)\<rparr>))
      else Inl TypeError)"

definition optimizer_detail ::
    "string option \<Rightarrow> ComputeOptimizerRecommendation \<Rightarrow> ComputeOptimizerRecommendation \<Rightarrow> string" where
  "optimizer_detail service current target =
     (let modifyType = [(''ec2'', ''instance type''), (''ebs'', ''volume type''),
                        (''lambda'', ''configuration memory size'')]
      in ''Save cost by changing '' @ text_of (obj_get modifyType (text_of service)) @ '' from ''
         @ co_description current @ '' to '' @ co_description target @ ''.'')"

definition includedRecommendationTypes :: "string list" where
  "includedRecommendationTypes = [''OVER_PROVISIONED'', ''NOTOPTIMIZED'']"

definition optimizer_row_step ::
    "aws_env \<Rightarrow> string option \<Rightarrow> RecommendationResult list \<Rightarrow> csv_row \<Rightarrow>
     (aws_globals, RecommendationResult list) eff" where
  "optimizer_row_step E service results row =
     (case obj_get row ''finding'' of
        None \<Rightarrow> throwE TypeError
      | Some recommendationType \<Rightarrow>
          if toUpperCase recommendationType \<notin> set includedRecommendationTypes then retE results
          else
            bindE (liftE (new_optimizer_pair E service row)) (\<lambda>p.
              let current = op_current p; target = op_target p
              in if \<not> truthy_opt (co_costSavings target) then retE results
                 else
                   bindE (op_savings p) (\<lambda>(kilowattHourSavings, co2eSavings).
                     retE (results @
                       [\<lparr>rr_cloudProvider = ''AWS'',
                         rr_accountId = co_accountId current,
                         rr_accountName = co_accountId current,
                         rr_region = co_region current,
                         rr_recommendationType = text_of (co_type current),
                         rr_recommendationDetail = Some (optimizer_detail service current target),
                         rr_resourceId = co_resourceId current,
                         rr_instanceName = op_instanceName p,
                         rr_kilowattHourSavings = kilowattHourSavings,
                         rr_costSavings = Some (or_num (co_costSavings target) 0),
                         rr_co2eSavings = co2eSavings,
                         rr_recommendationOptions = None\<rparr>]))))"

text \<open>The first match of \<open>/[0-9]{4}-[0-9]{2}-[0-9]{2}/\<close>.\<close>

definition date_at :: "string \<Rightarrow> bool" where
  "date_at s \<longleftrightarrow> 10 \<le> length s \<and> list_all is_digit (take 4 s @ take 2 (drop 5 s) @ take 2 (drop 8 s))
     \<and> s ! 4 = CHR ''-'' \<and> s ! 7 = CHR ''-''"

fun first_date :: "string \<Rightarrow> string option" where
  "first_date [] = None"
| "first_date (c # cs) = (if date_at (c # cs) then Some (take 10 (c # cs)) else first_date cs)"

definition isFromPreviousDay :: "aws_env \<Rightarrow> string \<Rightarrow> bool" where
  "isFromPreviousDay E text =
     (case parse_date text of
        None \<Rightarrow> False
      | Some recommendationDate \<Rightarrow> m_add (aw_moment E) (- 1) MDay (aw_now E) \<le> recommendationDate)"

text \<open>The list of a bucket is its name and the keys of its objects; an object is read as its lines.\<close>

record optimizer_bucket =
  bu_listBucketObjects :: "string \<Rightarrow> string + (string \<times> string list)"
  bu_getObject :: "string \<Rightarrow> string \<Rightarrow> string + csv_row list"

definition lifted :: "string + 'a \<Rightarrow> ('s, 'a) eff" where
  "lifted r = (case r of Inl message \<Rightarrow> throwE (Thrown message) | Inr x \<Rightarrow> retE x)"

definition optimizer_object_step ::
    "aws_env \<Rightarrow> optimizer_bucket \<Rightarrow> string \<Rightarrow> RecommendationResult list \<Rightarrow> string \<Rightarrow>
     (aws_globals, RecommendationResult list) eff" where
  "optimizer_object_step E B bucketName results key =
     (case first_date key of
        None \<Rightarrow> throwE TypeError
      | Some recommendationDate \<Rightarrow>
          if isFromPreviousDay E recommendationDate \<and> \<not> str_includes key ''asg'' then
            bindE (lifted (bu_getObject B bucketName key)) (\<lambda>parsedRecommendations.
              foldE (optimizer_row_step E (elem_at (split key ''/'') 1)) results parsedRecommendations)
          else retE results)"

definition Optimizer_getRecommendations ::
    "aws_env \<Rightarrow> optimizer_bucket \<Rightarrow> string \<Rightarrow> (aws_globals, RecommendationResult list) eff" where
  "Optimizer_getRecommendations E B centralComputeOptimizerBucket =
     explained (\<lambda>e. ''Failed to grab AWS Compute Optimizer recommendations. Reason: '' @ error_message e)
       (bindE (lifted (bu_listBucketObjects B centralComputeOptimizerBucket)) (\<lambda>(name, keys).
          foldE (optimizer_object_step E B name) [] keys))"

section \<open>Recommendations.ts\<close>

definition getHighestCostSavings :: "RecommendationResult \<Rightarrow> RecommendationResult \<Rightarrow> RecommendationResult" where
  "getHighestCostSavings recommendationOne recommendationTwo =
     (if toNum (rr_costSavings recommendationOne) < toNum (rr_costSavings recommendationTwo)
      then recommendationTwo else recommendationOne)"

text \<open>The list has at least two recommendations, and only two are looked at.\<close>

definition getHighestSavings :: "RecommendationResult list \<Rightarrow> RecommendationResult" where
  "getHighestSavings recommendations =
     (let recommendationOne = recommendations ! 0; recommendationTwo = recommendations ! 1
      in if rr_co2eSavings recommendationOne < rr_co2eSavings recommendationTwo then recommendationTwo
         else if rr_co2eSavings recommendationTwo = rr_co2eSavings recommendationOne
                 \<and> \<not> isNaN (rr_co2eSavings recommendationOne)
         then getHighestCostSavings recommendationOne recommendationTwo
         else recommendationOne)"

definition resource_key :: "RecommendationResult \<Rightarrow> string" where
  "resource_key recommendation = text_of (rr_resourceId recommendation)"

definition mapped_resources :: "RecommendationResult list \<Rightarrow> RecommendationResult list obj" where
  "mapped_resources recommendationData =
     group_fold resource_key collect [] recommendationData"

definition getUniquesWithHighestSavings :: "RecommendationResult list \<Rightarrow> RecommendationResult list" where
  "getUniquesWithHighestSavings recommendationData =
     map (\<lambda>(resource, recommendations).
            if 1 < length recommendations then getHighestSavings recommendations else recommendations ! 0)
         (mapped_resources recommendationData)"

text \<open>\<open>AWS.RECOMMENDATIONS_SERVICE\<close> and \<open>AWS.COMPUTE_OPTIMIZER_BUCKET\<close> of the configuration, and the clients.\<close>

record aws_rec_env =
  wr_env :: aws_env
  wr_service :: "AWS_RECOMMENDATIONS_SERVICES option"
  wr_bucketName :: string
  wr_bucket :: optimizer_bucket
  wr_pages :: rightsizing_pages

definition aws_getRecommendations ::
    "aws_rec_env \<Rightarrow> AWS_RECOMMENDATIONS_TARGETS \<Rightarrow> (aws_globals, RecommendationResult list) act" where
  "aws_getRecommendations R recommendationTarget =
     (let service = (case wr_service R of Some s \<Rightarrow> s | None \<Rightarrow> AWS_DEFAULT_RECOMMENDATIONS_SERVICE)
      in bindA (if service \<noteq> RightSizing
                then (\<lambda>g. Some (Optimizer_getRecommendations (wr_env R) (wr_bucket R) (wr_bucketName R) g))
                else retA []) (\<lambda>optimized.
         bindA (if service \<noteq> ComputeOptimizer
                then Rightsizing_getRecommendations (wr_env R) (wr_pages R) recommendationTarget
                else retA []) (\<lambda>rightsized.
           let recommendationData = optimized @ rightsized
           in retA (if service = All_Services then getUniquesWithHighestSavings recommendationData
                    else recommendationData))))"

text \<open>\<open>AWSAccount.ts\<close>: an account asks with its own credentials, which the clients stand for.\<close>

definition aws_getDataForRecommendations ::
    "aws_rec_env \<Rightarrow> AWS_RECOMMENDATIONS_TARGETS \<Rightarrow> (aws_globals, RecommendationResult list) act" where
  "aws_getDataForRecommendations R recommendationTarget = aws_getRecommendations R recommendationTarget"

end
