(* ===== verification/Gcp_Recommendations.thy ===== *)
theory Gcp_Recommendations
  imports Gcp_Billing Common_Types
begin

text \<open>
  \<open>packages/gcp/src/lib/Recommendations.ts\<close>: the savings of the recommendations of the active projects.
  An address saves no energy that could be estimated; it gets a share, by its cost, of what the other
  recommendations save. The state is the cache of emissions factors and the totals of the instance of
  the class. The recommendations of a project run concurrently in the source, and in order here.
\<close>

text \<open>
  \<open>packages/gcp/src/lib/ServiceWrapper.ts\<close> and the types it returns: the active projects with their
  zones and the recommendations of a zone. The clients are parameters; a request of the recommender is
  tried again while its quota is exceeded, so the client answers by the number of the attempt.
\<close>

section \<open>Types\<close>

record ActiveProject =
  pj_id :: string
  pj_name :: string
  pj_zones :: "string list"

text \<open>An impact on the costs: the units as text, which \<open>parseInt\<close> reads, and the nanos.\<close>

record gcp_impact =
  im_category :: string
  im_cost :: "(string \<times> jsnum) option"

text \<open>
  A recommendation. The resource is that of the first operation of the first group of its content,
  and missing where the content has none.
\<close>

record gcp_recommendation =
  rc_recommenderSubtype :: string
  rc_description :: string
  rc_resource :: "string option"
  rc_primaryImpact :: gcp_impact
  rc_additionalImpact :: "gcp_impact list"

record RecommenderRecommendations =
  rm_id :: string
  rm_zone :: string
  rm_recommendations :: "gcp_recommendation list"

record ResourceDetails =
  rd_resourceId :: string
  rd_resourceName :: string

record gcp_project =
  gp_projectId :: string
  gp_displayName :: string
  gp_state :: string

text \<open>The resources of a project; an identifier may be missing.\<close>

record gcp_instance =
  gi_id :: "string option"
  gi_name :: string
  gi_machineType :: string
  gi_diskSources :: "string list"

record gcp_disk =
  gd_id :: "string option"
  gd_name :: string
  gd_type :: string
  gd_sizeGb :: string

record gcp_image =
  gm_id :: "string option"
  gm_name :: string
  gm_archiveSizeBytes :: string

record gcp_address =
  gn_id :: "string option"
  gn_name :: string

text \<open>A zone of a list that is scoped by zones, with the code of its warning.\<close>

type_synonym scoped_list = "(string \<times> string option) list"

text \<open>The details of the error of a request to the recommender.\<close>

type_synonym recommender_error = "string option"

record gcp_clients =
  gw_searchProjects :: "gcp_project list result"
  gw_instancesList :: "string \<Rightarrow> scoped_list result"
  gw_disksList :: "string \<Rightarrow> scoped_list result"
  gw_addressesList :: "string \<Rightarrow> scoped_list result"
  gw_listRecommendations ::
    "string \<Rightarrow> string \<Rightarrow> string \<Rightarrow> nat \<Rightarrow> recommender_error + gcp_recommendation list"
  gw_getInstance :: "string \<Rightarrow> string \<Rightarrow> string \<Rightarrow> gcp_instance result"
  gw_getMachineTypeCpus :: "string \<Rightarrow> string \<Rightarrow> string \<Rightarrow> jsnum result"
  gw_getDisk :: "string \<Rightarrow> string \<Rightarrow> string \<Rightarrow> gcp_disk result"
  gw_getImage :: "string \<Rightarrow> string \<Rightarrow> gcp_image result"
  gw_getAddress :: "string \<Rightarrow> string \<Rightarrow> string \<Rightarrow> gcp_address result"

section \<open>Projects and zones\<close>

definition extractZones :: "scoped_list \<Rightarrow> string list" where
  "extractZones results =
     map (\<lambda>(zone, _). replace_first (replace_first zone ''zones/'' []) ''regions/'' [])
       (filter (\<lambda>(_, warning). warning \<noteq> Some ''NO_RESULTS_ON_PAGE'') results)"

text \<open>A project whose zones cannot be listed is left out. The lists are asked for in order.\<close>

definition getZonesForProject :: "gcp_clients \<Rightarrow> gcp_project \<Rightarrow> ActiveProject list" where
  "getZonesForProject W project =
     (case bindR (gw_instancesList W (gp_projectId project)) (\<lambda>instancesResult.
           bindR (gw_disksList W (gp_projectId project)) (\<lambda>disksResult.
           bindR (gw_addressesList W (gp_projectId project)) (\<lambda>addressesResult.
             Inr (extractZones instancesResult, extractZones disksResult, extractZones addressesResult)))) of
        Inl e \<Rightarrow> []
      | Inr (instanceZones, diskZones, addressesZones) \<Rightarrow>
          [\<lparr>pj_id = gp_projectId project, pj_name = gp_displayName project,
            pj_zones = first_occurrences [] (instanceZones @ addressesZones @ diskZones @ [''global''])\<rparr>])"

definition getActiveProjectsAndZones :: "gcp_clients \<Rightarrow> ActiveProject list result" where
  "getActiveProjectsAndZones W =
     bindR (gw_searchProjects W) (\<lambda>projects.
     let activeProjects = filter (\<lambda>project. gp_state project = ''ACTIVE'') projects;
         projectChunks = split_every 150 activeProjects
     in Inr (concat (map (\<lambda>projectChunk. concat (map (getZonesForProject W) projectChunk)) projectChunks)))"

section \<open>Recommendations of a zone\<close>

text \<open>
  The loop of one recommender, from an attempt on: its recommendations, or none when the request
  fails for another reason than the quota. The value is \<open>None\<close> while the quota stays exceeded.
\<close>

definition quota_exceeded :: "recommender_error \<Rightarrow> bool" where
  "quota_exceeded details \<longleftrightarrow> (case details of None \<Rightarrow> False | Some d \<Rightarrow> str_includes d ''Quota exceeded'')"

partial_function (option) list_recommendations ::
    "(nat \<Rightarrow> recommender_error + gcp_recommendation list) \<Rightarrow> nat \<Rightarrow> gcp_recommendation list option option" where
  "list_recommendations request n =
     (case request n of
        Inr recommendations \<Rightarrow> Some (Some recommendations)
      | Inl details \<Rightarrow>
          if quota_exceeded details then list_recommendations request (n + 1) else Some None)"

fun getRecommendationsForRecommenderIds ::
    "gcp_clients \<Rightarrow> string \<Rightarrow> string \<Rightarrow> string list \<Rightarrow> RecommenderRecommendations list option" where
  "getRecommendationsForRecommenderIds W projectId zone [] = Some []"
| "getRecommendationsForRecommenderIds W projectId zone (recommenderId # recommenderIds) =
     (case list_recommendations (gw_listRecommendations W projectId zone recommenderId) 0 of
        None \<Rightarrow> None
      | Some answer \<Rightarrow>
          map_option (\<lambda>rest.
            (case answer of
               None \<Rightarrow> rest
             | Some recommendations \<Rightarrow>
                 \<lparr>rm_id = recommenderId, rm_zone = zone, rm_recommendations = recommendations\<rparr> # rest))
            (getRecommendationsForRecommenderIds W projectId zone recommenderIds))"

definition getStorageTypeFromDiskName :: "string \<Rightarrow> string" where
  "getStorageTypeFromDiskName diskName = (if str_includes diskName ''ssd'' then ''SSD'' else ''HDD'')"

section \<open>Facts\<close>

text \<open>The loop returns what the first attempt answers whose error is not the quota.\<close>

lemma list_recommendations_first:
  assumes "\<forall>k<d. case request (n + k) of Inl e \<Rightarrow> quota_exceeded e | Inr _ \<Rightarrow> False"
    and "case request (n + d) of Inl e \<Rightarrow> \<not> quota_exceeded e | Inr _ \<Rightarrow> True"
  shows "list_recommendations request n
    = Some (case request (n + d) of Inl _ \<Rightarrow> None | Inr recommendations \<Rightarrow> Some recommendations)"
  using assms
proof (induction d arbitrary: n)
  case 0
  then show ?case by (subst list_recommendations.simps) (auto split: sum.splits)
next
  case (Suc d)
  have "\<exists>e. request n = Inl e \<and> quota_exceeded e"
    using Suc.prems(1) [rule_format, of 0] by (auto split: sum.splits)
  then obtain e where e: "request n = Inl e" "quota_exceeded e" by blast
  have "\<forall>k<d. case request (Suc n + k) of Inl e \<Rightarrow> quota_exceeded e | Inr _ \<Rightarrow> False"
    using Suc.prems(1) by auto
  from Suc.IH [OF this] Suc.prems(2) e show ?case
    by (subst list_recommendations.simps) simp
qed

lemma zones_of_project:
  "getZonesForProject W project = [p] \<Longrightarrow> distinct (pj_zones p) \<and> ''global'' \<in> set (pj_zones p)"
  by (auto simp: getZonesForProject_def set_first_occurrences distinct_first_occurrences
      split: sum.splits prod.splits)

lemma active_projects:
  "getActiveProjectsAndZones W = bindR (gw_searchProjects W) (\<lambda>projects.
     Inr (concat (map (getZonesForProject W) (filter (\<lambda>p. gp_state p = ''ACTIVE'') projects))))"
proof -
  have "concat (map (\<lambda>c. concat (map f c)) xss) = concat (map f (concat xss))" for f :: "gcp_project \<Rightarrow> ActiveProject list" and xss
    by (induction xss) auto
  then show ?thesis by (simp add: getActiveProjectsAndZones_def concat_split_every Let_def)
qed

record gcp_rec_state =
  gr_factors :: factor_state
  gr_cost :: jsnum
  gr_kilowattHours :: jsnum

definition RECOMMENDER_IDS :: "string list" where
  "RECOMMENDER_IDS =
     [''google.compute.image.IdleResourceRecommender'',
      ''google.compute.address.IdleResourceRecommender'',
      ''google.compute.disk.IdleResourceRecommender'',
      ''google.compute.instance.IdleResourceRecommender'',
      ''google.compute.instance.MachineTypeRecommender'',
      ''google.compute.instanceGroupManager.MachineTypeRecommender'',
      ''google.logging.productSuggestion.ContainerRecommender'',
      ''google.monitoring.productSuggestion.ComputeRecommender'']"

section \<open>Savings\<close>

text \<open>A part of the zone that is missing is shown as \<open>undefined\<close>.\<close>

definition parseRegionFromZone :: "string \<Rightarrow> string" where
  "parseRegionFromZone zone =
     (let zoneArray = split zone ''-''
      in if zone = ''global'' then gcp_region GCP_UNKNOWN
         else hd zoneArray @ ''-'' @ (case elem_at zoneArray 1 of Some p \<Rightarrow> p | None \<Rightarrow> ''undefined''))"

definition gcp_rec_factorsE :: "gcp_env \<Rightarrow> string \<Rightarrow> (gcp_rec_state, emissions_factors) eff" where
  "gcp_rec_factorsE E region =
     (\<lambda>g. let (r, f) = getEmissionsFactors (ge_token E) (ge_http E) region (toISOString (ge_now E))
                          (getGCPEmissionsFactors (ge_carbonFree E))
                          GCP_MAPPED_REGIONS_TO_ELECTRICITY_MAPS_ZONES (gr_factors g)
          in (r, g\<lparr>gr_factors := f\<rparr>))"

definition estimateComputeCO2eSavings ::
    "gcp_env \<Rightarrow> string \<Rightarrow> jsnum \<Rightarrow> string \<Rightarrow> (gcp_rec_state, FootprintEstimate) eff" where
  "estimateComputeCO2eSavings E machineTypeFamily vCpus region =
     (let vCpuHours = vCpus * getHoursInMonth (ge_moment E) (ge_now E);
          computeUsage = \<lparr>cu_timestamp = None, cu_cpuUtilizationAverage = gcp_AVG_CPU_UTILIZATION_2020,
                          cu_vCpuHours = vCpuHours, cu_usesAverageCPUConstant = True\<rparr>;
          computeProcessors =
            (case obj_get gcp_INSTANCE_TYPE_COMPUTE_PROCESSOR_MAPPING machineTypeFamily of
               Some ps \<Rightarrow> ps
             | None \<Rightarrow> [UNKNOWN_PROCESSOR]);
          computeConstants = no_constants
            \<lparr>cc_minWatts := Some (gcp_getMinWatts (ge_median E) computeProcessors),
             cc_maxWatts := Some (gcp_getMaxWatts (ge_median E) computeProcessors),
             cc_powerUsageEffectiveness := Some (gcp_getPUE region)\<rparr>
      in bindE (gcp_rec_factorsE E region) (\<lambda>emissionsFactors.
           retE (hd (ComputeEstimator_estimate [computeUsage] region emissionsFactors computeConstants))))"

definition estimateStorageCO2eSavings ::
    "gcp_env \<Rightarrow> jsnum \<Rightarrow> string \<Rightarrow> string option \<Rightarrow> (gcp_rec_state, FootprintEstimate) eff" where
  "estimateStorageCO2eSavings E storageGigabytes region storageType =
     (let storageUsage = \<lparr>su_timestamp = None,
            su_terabyteHours = (getHoursInMonth (ge_moment E) (ge_now E) * storageGigabytes) / 1000\<rparr>;
          storageConstants = no_constants\<lparr>cc_powerUsageEffectiveness := Some (gcp_getPUE region)\<rparr>;
          coefficient = (if storageType = Some ''SSD'' then gcp_SSDCOEFFICIENT else gcp_HDDCOEFFICIENT)
      in bindE (gcp_rec_factorsE E region) (\<lambda>emissionsFactors.
           retE ((hd (StorageEstimator_estimate coefficient [storageUsage] region emissionsFactors storageConstants))
                   \<lparr>fe_usesAverageCPUConstant := Some False\<rparr>)))"

definition getCO2EstimatedSavingsForMachineType ::
    "gcp_env \<Rightarrow> gcp_clients \<Rightarrow> string \<Rightarrow> string \<Rightarrow> string option \<Rightarrow> (gcp_rec_state, FootprintEstimate) eff" where
  "getCO2EstimatedSavingsForMachineType E W projectId zone currentMachineType =
     bindE (liftE (gw_getMachineTypeCpus W projectId
              (case currentMachineType of Some m \<Rightarrow> m | None \<Rightarrow> ''undefined'') zone)) (\<lambda>guestCpus.
     case currentMachineType of
       None \<Rightarrow> throwE TypeError
     | Some machineType \<Rightarrow>
         estimateComputeCO2eSavings E (hd (split machineType ''-''))
           (case obj_get SHARED_CORE_PROCESSORS_BASELINE_UTILIZATION machineType of
              Some baseline \<Rightarrow> Fin baseline / gcp_AVG_CPU_UTILIZATION_2020
            | None \<Rightarrow> guestCpus)
           (parseRegionFromZone zone))"

definition getCO2EstimatesSavingsForDisk ::
    "gcp_env \<Rightarrow> gcp_disk \<Rightarrow> string \<Rightarrow> (gcp_rec_state, FootprintEstimate) eff" where
  "getCO2EstimatesSavingsForDisk E diskDetails zone =
     estimateStorageCO2eSavings E (parseFloat (gd_sizeGb diskDetails)) (parseRegionFromZone zone)
       (Some (getStorageTypeFromDiskName (last (split (gd_type diskDetails) ''/''))))"

definition getCO2EstimatedSavingsForInstance ::
    "gcp_env \<Rightarrow> gcp_clients \<Rightarrow> string \<Rightarrow> gcp_instance \<Rightarrow> string \<Rightarrow> (gcp_rec_state, FootprintEstimate) eff" where
  "getCO2EstimatedSavingsForInstance E W projectId instanceDetails zone =
     (let machineType = last (split (gi_machineType instanceDetails) ''/'')
      in bindE (liftE (gw_getMachineTypeCpus W projectId machineType zone)) (\<lambda>guestCpus.
           estimateComputeCO2eSavings E (hd (split machineType ''-'')) guestCpus (parseRegionFromZone zone)))"

text \<open>The instance that the resource of a recommendation names.\<close>

definition gcp_getInstanceDetails ::
    "gcp_clients \<Rightarrow> string \<Rightarrow> string \<Rightarrow> string \<Rightarrow> gcp_instance result" where
  "gcp_getInstanceDetails W resource projectId zone =
     gw_getInstance W projectId (last (split resource ''/'')) zone"

definition getEstimatedCostSavings :: "gcp_recommendation \<Rightarrow> jsnum result" where
  "getEstimatedCostSavings rec =
     (let impact = (if im_category (rc_primaryImpact rec) = ''PERFORMANCE''
                    then elem_at (rc_additionalImpact rec) 0 else Some (rc_primaryImpact rec))
      in case Option.bind impact im_cost of
           None \<Rightarrow> Inl TypeError
         | Some (units, nanos) \<Rightarrow> Inr (abs_num ((parseInt units + nanos / 1000000000) * - 1)))"

text \<open>The identifier of a resource as text, which throws where it is missing.\<close>

definition details_of :: "string option \<Rightarrow> string \<Rightarrow> ResourceDetails result" where
  "details_of i name =
     (case i of
        None \<Rightarrow> Inl TypeError
      | Some resourceId \<Rightarrow> Inr \<lparr>rd_resourceId = resourceId, rd_resourceName = name\<rparr>)"

text \<open>
  The estimate comes before the details, so an error in the details keeps the estimate and the
  details that were known before.
\<close>

definition with_details ::
    "FootprintEstimate \<Rightarrow> ResourceDetails \<Rightarrow> ResourceDetails result \<Rightarrow>
     (gcp_rec_state, FootprintEstimate \<times> ResourceDetails) eff" where
  "with_details footprintEstimate resourceDetails details =
     retE (footprintEstimate, (case details of Inl _ \<Rightarrow> resourceDetails | Inr d \<Rightarrow> d))"

definition estimate_of :: "jsnum \<Rightarrow> jsnum \<Rightarrow> FootprintEstimate" where
  "estimate_of kilowattHours co2e =
     \<lparr>fe_timestamp = None, fe_kilowattHours = kilowattHours, fe_co2e = co2e, fe_usesAverageCPUConstant = None\<rparr>"

definition savings_of_stopped_vm ::
    "gcp_env \<Rightarrow> gcp_clients \<Rightarrow> string \<Rightarrow> string \<Rightarrow> string \<Rightarrow> ResourceDetails \<Rightarrow>
     (gcp_rec_state, FootprintEstimate \<times> ResourceDetails) eff" where
  "savings_of_stopped_vm E W projectId zone resource resourceDetails =
     bindE (liftE (gcp_getInstanceDetails W resource projectId zone)) (\<lambda>instanceDetails.
     bindE (getCO2EstimatedSavingsForInstance E W projectId instanceDetails zone) (\<lambda>compute.
     bindE (mapE (\<lambda>source.
              bindE (liftE (gw_getDisk W projectId (last (split source ''disks/'')) zone)) (\<lambda>diskDetails.
                getCO2EstimatesSavingsForDisk E diskDetails zone))
            (gi_diskSources instanceDetails)) (\<lambda>storage.
       with_details
         (estimate_of (fe_kilowattHours compute + sum_list (map fe_kilowattHours storage))
            (fe_co2e compute + sum_list (map fe_co2e storage)))
         resourceDetails (details_of (gi_id instanceDetails) (gi_name instanceDetails)))))"

definition savings_of_machine_type ::
    "gcp_env \<Rightarrow> gcp_clients \<Rightarrow> string \<Rightarrow> string \<Rightarrow> string \<Rightarrow> string \<Rightarrow> ResourceDetails \<Rightarrow>
     (gcp_rec_state, FootprintEstimate \<times> ResourceDetails) eff" where
  "savings_of_machine_type E W projectId zone description resource resourceDetails =
     (let words = split (replace_first description ''.'' []) '' ''
      in bindE (getCO2EstimatedSavingsForMachineType E W projectId zone (elem_at words 7)) (\<lambda>current.
         bindE (getCO2EstimatedSavingsForMachineType E W projectId zone (elem_at words 9)) (\<lambda>new.
           with_details
             (estimate_of (fe_kilowattHours current - fe_kilowattHours new) (fe_co2e current - fe_co2e new))
             resourceDetails
             (bindR (gcp_getInstanceDetails W resource projectId zone) (\<lambda>i. details_of (gi_id i) (gi_name i))))))"

text \<open>\<open>description.split("'")[1]\<close>, which is sent to the client as it is.\<close>

definition quoted_name :: "string \<Rightarrow> string" where
  "quoted_name description =
     (case elem_at (split description apos) 1 of Some name \<Rightarrow> name | None \<Rightarrow> ''undefined'')"

definition savings_of_disk ::
    "gcp_env \<Rightarrow> gcp_clients \<Rightarrow> string \<Rightarrow> string \<Rightarrow> string \<Rightarrow> ResourceDetails \<Rightarrow>
     (gcp_rec_state, FootprintEstimate \<times> ResourceDetails) eff" where
  "savings_of_disk E W projectId zone description resourceDetails =
     bindE (liftE (gw_getDisk W projectId (quoted_name description) zone)) (\<lambda>diskDetails.
     bindE (getCO2EstimatesSavingsForDisk E diskDetails zone) (\<lambda>footprintEstimate.
       with_details footprintEstimate resourceDetails (details_of (gd_id diskDetails) (gd_name diskDetails))))"

definition savings_of_image ::
    "gcp_env \<Rightarrow> gcp_clients \<Rightarrow> string \<Rightarrow> string \<Rightarrow> string \<Rightarrow> ResourceDetails \<Rightarrow>
     (gcp_rec_state, FootprintEstimate \<times> ResourceDetails) eff" where
  "savings_of_image E W projectId zone description resourceDetails =
     bindE (liftE (gw_getImage W projectId (quoted_name description))) (\<lambda>imageDetails.
     bindE (estimateStorageCO2eSavings E
              (convertBytesToGigabytes (parseFloat (gm_archiveSizeBytes imageDetails)))
              (parseRegionFromZone zone) None) (\<lambda>footprintEstimate.
       with_details footprintEstimate resourceDetails (details_of (gm_id imageDetails) (gm_name imageDetails))))"

definition getEstimatedCO2eSavings ::
    "gcp_env \<Rightarrow> gcp_clients \<Rightarrow> string \<Rightarrow> string \<Rightarrow> gcp_recommendation \<Rightarrow>
     (gcp_rec_state, FootprintEstimate \<times> ResourceDetails) eff" where
  "getEstimatedCO2eSavings E W projectId zone recommendation =
     (case rc_resource recommendation of
        None \<Rightarrow> throwE TypeError
      | Some resource \<Rightarrow>
          (let footprintEstimate = estimate_of 0 0;
               resourceDetails = \<lparr>rd_resourceId = [], rd_resourceName = last (split resource ''/'')\<rparr>;
               subtype = rc_recommenderSubtype recommendation;
               description = rc_description recommendation
           in attempt (footprintEstimate, resourceDetails)
                (if subtype = ''STOP_VM'' then
                   savings_of_stopped_vm E W projectId zone resource resourceDetails
                 else if subtype = ''CHANGE_MACHINE_TYPE'' then
                   savings_of_machine_type E W projectId zone description resource resourceDetails
                 else if subtype = ''SNAPSHOT_AND_DELETE_DISK'' \<or> subtype = ''DELETE_DISK'' then
                   savings_of_disk E W projectId zone description resourceDetails
                 else if subtype = ''DELETE_IMAGE'' then
                   savings_of_image E W projectId zone description resourceDetails
                 else if subtype = ''DELETE_ADDRESS'' then
                   bindE (liftE (gw_getAddress W projectId (quoted_name description) zone)) (\<lambda>addressDetails.
                     with_details footprintEstimate resourceDetails
                       (details_of (gn_id addressDetails) (gn_name addressDetails)))
                 else retE (footprintEstimate, resourceDetails))))"

section \<open>The recommendations of a project\<close>

record UnknownRecommendationDetails =
  ur_rec :: gcp_recommendation
  ur_zone :: string
  ur_cost :: jsnum
  ur_resourceDetails :: ResourceDetails

definition accumulateCostAndCo2e :: "jsnum \<Rightarrow> jsnum \<Rightarrow> (gcp_rec_state, unit) eff" where
  "accumulateCostAndCo2e cost kilowattHours =
     (\<lambda>g. (Inr (), g\<lparr>gr_cost := gr_cost g + cost, gr_kilowattHours := gr_kilowattHours g + kilowattHours\<rparr>))"

definition gcp_result ::
    "ActiveProject \<Rightarrow> string \<Rightarrow> gcp_recommendation \<Rightarrow> jsnum \<Rightarrow> jsnum \<Rightarrow> jsnum \<Rightarrow> ResourceDetails \<Rightarrow>
     RecommendationResult" where
  "gcp_result project zone rec cost co2e kilowattHours resourceDetails =
     \<lparr>rr_cloudProvider = ''GCP'',
      rr_accountId = Some (pj_id project),
      rr_accountName = Some (pj_name project),
      rr_region = Some (parseRegionFromZone zone),
      rr_recommendationType = rc_recommenderSubtype rec,
      rr_recommendationDetail = Some (rc_description rec),
      rr_resourceId = Some (rd_resourceId resourceDetails),
      rr_instanceName = Some (rd_resourceName resourceDetails),
      rr_kilowattHourSavings = kilowattHours,
      rr_costSavings = Some cost,
      rr_co2eSavings = co2e,
      rr_recommendationOptions = None\<rparr>"

definition gcp_recommendation_step ::
    "gcp_env \<Rightarrow> gcp_clients \<Rightarrow> ActiveProject \<Rightarrow>
     RecommendationResult list \<times> UnknownRecommendationDetails list \<Rightarrow> string \<times> gcp_recommendation \<Rightarrow>
     (gcp_rec_state, RecommendationResult list \<times> UnknownRecommendationDetails list) eff" where
  "gcp_recommendation_step E W project = (\<lambda>(results, unknowns) (zone, rec).
     bindE (getEstimatedCO2eSavings E W (pj_id project) zone rec) (\<lambda>(savings, resourceDetails).
     bindE (liftE (getEstimatedCostSavings rec)) (\<lambda>cost.
       if rc_recommenderSubtype rec = ''DELETE_ADDRESS'' then
         retE (results, unknowns @ [\<lparr>ur_rec = rec, ur_zone = zone, ur_cost = cost,
                                     ur_resourceDetails = resourceDetails\<rparr>])
       else
         bindE (accumulateCostAndCo2e cost (fe_kilowattHours savings)) (\<lambda>_.
           retE (results @ [gcp_result project zone rec cost (fe_co2e savings) (fe_kilowattHours savings)
                              resourceDetails], unknowns)))))"

definition getCo2eEstimationsForUnknowns ::
    "gcp_env \<Rightarrow> string \<Rightarrow> jsnum \<Rightarrow> (gcp_rec_state, jsnum \<times> jsnum) eff" where
  "getCo2eEstimationsForUnknowns E zone cost =
     (\<lambda>g. if gr_cost g = 0 then (Inr (0, 0), g)
          else
            (let region = parseRegionFromZone zone;
                 kilowattHours = cost * (gr_kilowattHours g / gr_cost g)
             in bindE (gcp_rec_factorsE E region) (\<lambda>emissionsFactors.
                  retE (kilowattHours * toNum (obj_get emissionsFactors region), kilowattHours)) g))"

definition gcp_unknown_recommendation_step ::
    "gcp_env \<Rightarrow> ActiveProject \<Rightarrow> RecommendationResult list \<Rightarrow> UnknownRecommendationDetails \<Rightarrow>
     (gcp_rec_state, RecommendationResult list) eff" where
  "gcp_unknown_recommendation_step E project results u =
     bindE (getCo2eEstimationsForUnknowns E (ur_zone u) (ur_cost u)) (\<lambda>(co2e, kilowattHours).
       retE (results @ [gcp_result project (ur_zone u) (ur_rec u) (ur_cost u) co2e kilowattHours
                          (ur_resourceDetails u)]))"

text \<open>The recommendations of all zones with their zone, in the order of the zones and recommenders.\<close>

definition recommendations_of_zones ::
    "gcp_clients \<Rightarrow> ActiveProject \<Rightarrow> (string \<times> gcp_recommendation) list option" where
  "recommendations_of_zones W project =
     map_option (\<lambda>recommendationsByIds.
         concat (map (\<lambda>r. map (\<lambda>rec. (rm_zone r, rec)) (rm_recommendations r))
           (filter (\<lambda>r. length (rm_recommendations r) > 0) (concat recommendationsByIds))))
       (those (map (\<lambda>zone. getRecommendationsForRecommenderIds W (pj_id project) zone RECOMMENDER_IDS)
          (pj_zones project)))"

definition estimate_recommendations ::
    "gcp_env \<Rightarrow> gcp_clients \<Rightarrow> ActiveProject \<Rightarrow> (string \<times> gcp_recommendation) list \<Rightarrow>
     (gcp_rec_state, RecommendationResult list) eff" where
  "estimate_recommendations E W project recs =
     bindE (foldE (gcp_recommendation_step E W project) ([], []) recs) (\<lambda>(results, unknowns).
       foldE (gcp_unknown_recommendation_step E project) results unknowns)"

definition getFilteredRecommendations ::
    "gcp_env \<Rightarrow> gcp_clients \<Rightarrow> ActiveProject \<Rightarrow> (gcp_rec_state, RecommendationResult list) act" where
  "getFilteredRecommendations E W project =
     (\<lambda>g. case recommendations_of_zones W project of
            None \<Rightarrow> None
          | Some recs \<Rightarrow>
              if recs = [] then Some (Inr [], g)
              else Some (estimate_recommendations E W project recs g))"

definition getRecommendationsForProjects ::
    "gcp_env \<Rightarrow> gcp_clients \<Rightarrow> ActiveProject list \<Rightarrow> (gcp_rec_state, RecommendationResult list) act" where
  "getRecommendationsForProjects E W projects =
     bindA (mapA (getFilteredRecommendations E W) projects) (\<lambda>rss. retA (concat rss))"

definition gcp_getRecommendations ::
    "gcp_env \<Rightarrow> gcp_clients \<Rightarrow> (gcp_rec_state, RecommendationResult list) act" where
  "gcp_getRecommendations E W =
     (case getActiveProjectsAndZones W of
        Inl e \<Rightarrow> (\<lambda>g. Some (Inl e, g))
      | Inr projects \<Rightarrow> getRecommendationsForProjects E W projects)"

text \<open>\<open>GCPAccount.ts\<close>: an instance of its own, with totals of zero.\<close>

definition gcp_getDataForRecommendations ::
    "gcp_env \<Rightarrow> gcp_clients \<Rightarrow> (gcp_globals, RecommendationResult list) act" where
  "gcp_getDataForRecommendations E W =
     (\<lambda>g. map_option (\<lambda>(r, s). (r, g\<lparr>gg_factors := gr_factors s\<rparr>))
            (gcp_getRecommendations E W \<lparr>gr_factors = gg_factors g, gr_cost = 0, gr_kilowattHours = 0\<rparr>))"

end
