(* ===== verification/System_Recommendations.thy ===== *)
theory System_Recommendations
  imports System_Billing Aws_Recommendations Gcp_Recommendations Azure_Recommendations On_Premise_Report App_Main Common_Types
begin

text \<open>
  The recommendations and the lookups of the app over the packages of the providers: the accounts that
  read billing data are those of the packages, on their own part of the state.
\<close>

text \<open>
  The recommendations of \<open>packages/app/src/App.ts\<close>: those of AWS, of GCP and of Azure, one after the
  other. What an account of a provider recommends is a parameter, and so is the file that a test reads.
\<close>

record 'g recommendation_services =
  rv_awsBilling :: "string \<Rightarrow> ('g, RecommendationResult list) act"
  rv_awsAccount :: "account \<Rightarrow> string \<Rightarrow> ('g, RecommendationResult list) act"
  rv_gcpBilling :: "('g, RecommendationResult list) act"
  rv_gcpProject :: "account \<Rightarrow> ('g, RecommendationResult list) act"
  rv_azureInit :: "(string \<times> string option) option \<Rightarrow> ('g, unit) act"
  rv_azureAdvisor :: "string list option \<Rightarrow> ('g, RecommendationResult list) act"
  rv_recommendationsMock :: "RecommendationResult list result"

definition aws_recommendations ::
    "'g recommendation_services \<Rightarrow> app_config \<Rightarrow> RecommendationRequest \<Rightarrow> ('g, RecommendationResult list list) act" where
  "aws_recommendations S C q =
     (if cf_awsBilling C then
        bindA (rv_awsBilling S (rc_awsRecommendationTarget q)) (\<lambda>recommendations. retA [recommendations])
      else mapA (\<lambda>a. rv_awsAccount S a (rc_awsRecommendationTarget q)) (cf_awsAccounts C))"

definition gcp_recommendations ::
    "'g recommendation_services \<Rightarrow> app_config \<Rightarrow> ('g, RecommendationResult list list) act" where
  "gcp_recommendations S C =
     (if cf_gcpBilling C then bindA (rv_gcpBilling S) (\<lambda>recommendations. retA [recommendations])
      else mapA (rv_gcpProject S) (cf_gcpProjects C))"

definition azure_recommendations ::
    "'g recommendation_services \<Rightarrow> app_config \<Rightarrow> RecommendationRequest \<Rightarrow> ('g, RecommendationResult list list) act" where
  "azure_recommendations S C q =
     (if cf_azureBilling C then
        bindA (rv_azureInit S
                 (case rc_tenantId q of
                    Some t \<Rightarrow> if t = [] then None else Some (t, rc_accessToken q)
                  | None \<Rightarrow> None)) (\<lambda>_.
        bindA (rv_azureAdvisor S (rc_accounts q)) (\<lambda>recommendations. retA [recommendations]))
      else retA [])"

definition App_getRecommendations ::
    "'g recommendation_services \<Rightarrow> app_config \<Rightarrow> RecommendationRequest \<Rightarrow> ('g, RecommendationResult list) act" where
  "App_getRecommendations S C q =
     (if cf_testMode C then (\<lambda>g. Some (rv_recommendationsMock S, g))
      else
        bindA (aws_recommendations S C q) (\<lambda>aws.
        bindA (gcp_recommendations S C) (\<lambda>gcp.
        bindA (azure_recommendations S C q) (\<lambda>azure.
          retA (concat [concat aws, concat gcp, concat azure])))))"

lemma App_getRecommendations_parts:
  assumes "App_getRecommendations S C q g = Some (Inr rs, g')" and "\<not> cf_testMode C"
  obtains aws gcp azure g1 g2 where
    "aws_recommendations S C q g = Some (Inr aws, g1)"
    "gcp_recommendations S C g1 = Some (Inr gcp, g2)"
    "azure_recommendations S C q g2 = Some (Inr azure, g')"
    "rs = concat aws @ concat gcp @ concat azure"
  using assms by (auto simp: App_getRecommendations_def bindA_eq_Inr)

record system_clients =
  sk_aws :: aws_rec_env
  sk_gcp :: gcp_env
  sk_gcpClients :: gcp_clients
  sk_azure :: azure_env
  sk_azureClients :: azure_clients
  sk_advisor :: "string \<Rightarrow> string + ResourceRecommendation list"
  sk_azureInit :: "(string \<times> string option) option \<Rightarrow> unit result"

text \<open>The target of a valid request is one of the two names.\<close>

definition target_of :: "string \<Rightarrow> AWS_RECOMMENDATIONS_TARGETS" where
  "target_of name = (if name = ''CROSS_INSTANCE_FAMILY'' then CROSS_INSTANCE_FAMILY else SAME_INSTANCE_FAMILY)"

definition system_recommendations ::
    "system_clients \<Rightarrow> system_globals recommendation_services \<Rightarrow> system_globals recommendation_services" where
  "system_recommendations P S = S
     \<lparr>rv_awsBilling := (\<lambda>target. on_part sg_aws (\<lambda>p g. g\<lparr>sg_aws := p\<rparr>)
        (aws_getDataForRecommendations (sk_aws P) (target_of target))),
      rv_gcpBilling := on_part sg_gcp (\<lambda>p g. g\<lparr>sg_gcp := p\<rparr>)
        (gcp_getDataForRecommendations (sk_gcp P) (sk_gcpClients P)),
      rv_azureInit := (\<lambda>t g. Some (sk_azureInit P t, g)),
      rv_azureAdvisor := (\<lambda>accounts. on_part sg_azure (\<lambda>p g. g\<lparr>sg_azure := p\<rparr>)
        (always (getDataFromAdvisorManagement (sk_azure P) (sk_azureClients P) (sk_advisor P) accounts)))\<rparr>"

section \<open>Lookups of \<open>App.ts\<close>\<close>

definition getAwsEstimatesFromInputData ::
    "aws_env \<Rightarrow> LookupTableInput list \<Rightarrow> (system_globals, aws_lookup_output list) act" where
  "getAwsEstimatesFromInputData E inputData = on_part sg_aws (\<lambda>p g. g\<lparr>sg_aws := p\<rparr>)
     (always (getCostAndUsageReportsDataFromInputData E inputData))"

definition getGcpEstimatesFromInputData ::
    "gcp_env \<Rightarrow> LookupTableInput list \<Rightarrow> (system_globals, LookupTableOutput list) act" where
  "getGcpEstimatesFromInputData E inputData = on_part sg_gcp (\<lambda>p g. g\<lparr>sg_gcp := p\<rparr>)
     (always (getBillingExportDataFromInputData E inputData))"

definition getAzureEstimatesFromInputData ::
    "azure_env \<Rightarrow> LookupTableInput list \<Rightarrow> (system_globals, LookupTableOutput list) act" where
  "getAzureEstimatesFromInputData E inputData = on_part sg_azure (\<lambda>p g. g\<lparr>sg_azure := p\<rparr>)
     (always (getDataFromConsumptionManagementInputData E inputData))"

definition getOnPremiseEstimatesFromInputData ::
    "on_premise_env \<Rightarrow> OnPremiseDataInput list \<Rightarrow> OnPremiseDataOutput list result" where
  "getOnPremiseEstimatesFromInputData E inputData = getOnPremiseDataFromInputData E inputData"

end
