(* ===== verification/Aws_Recommendation_Properties.thy ===== *)
theory Aws_Recommendation_Properties
  imports Aws_Recommendations Aws_Properties
begin

text \<open>
  The properties of the recommendations of AWS: what a rightsizing recommendation saves, which target
  instance is chosen, when an export of Compute Optimizer fails, and which of several recommendations for
  a resource is kept.
\<close>

section \<open>Rightsizing\<close>

text \<open>The energy and the emissions of a recommendation with the factors of the table.\<close>

definition estimated :: "aws_env \<Rightarrow> RightsizingRecommendation \<Rightarrow> jsnum \<times> jsnum" where
  "estimated E r =
     with_memory (aws_computeFootprint (aw_median E) (rightsizing_data r) AWS_EMISSIONS_FACTORS_METRIC_TON_PER_KWH,
       aws_memoryFootprint (aw_median E) aws_MEMORY_COEFFICIENT (rightsizing_data r)
         AWS_EMISSIONS_FACTORS_METRIC_TON_PER_KWH)"

text \<open>What a recommendation is answered with: the estimate of the instance, less that of the target.\<close>

definition rightsizing_answer :: "aws_env \<Rightarrow> AwsRightsizingRecommendation \<Rightarrow> RecommendationResult result" where
  "rightsizing_answer E rec =
     bindR (new_RightsizingCurrentRecommendation E rec) (\<lambda>current.
       if rz_RightsizingType rec = ''Modify'' then
         (case rz_TargetInstances rec of
            None \<Rightarrow> Inl TypeError
          | Some targets \<Rightarrow>
              bindR (new_RightsizingTargetRecommendation E rec (getTargetInstance targets)) (\<lambda>target.
                Inr (rightsizing_result current (rightsizing_detail current (Some target))
                  (fst (estimated E current) - fst (estimated E target))
                  (snd (estimated E current) - snd (estimated E target)) (rs_costSavings target))))
       else Inr (rightsizing_result current (rightsizing_detail current None)
              (fst (estimated E current)) (snd (estimated E current)) (rs_costSavings current)))"

lemma footprints_no_token:
  "aw_token E = [] \<Longrightarrow> footprints_of E d g =
     (Inr (aws_computeFootprint (aw_median E) d AWS_EMISSIONS_FACTORS_METRIC_TON_PER_KWH,
           aws_memoryFootprint (aw_median E) aws_MEMORY_COEFFICIENT d AWS_EMISSIONS_FACTORS_METRIC_TON_PER_KWH), g)"
  by (simp add: footprints_of_def bindE_apply factorsE_no_token)

lemma rightsizing_step_answer:
  assumes "aw_token E = []"
  shows "rightsizing_step E rs rec g
    = (case rightsizing_answer E rec of Inl e \<Rightarrow> (Inl e, g) | Inr r \<Rightarrow> (Inr (rs @ [r]), g))"
  by (auto simp: rightsizing_step_def rightsizing_answer_def bindE_apply bindR_def footprints_no_token [OF assms]
      estimated_def with_memory_def minus_plus_num Let_def split: sum.splits option.splits prod.splits)

lemma rightsizing_loop:
  assumes "aw_token E = []"
  shows "foldE (rightsizing_step E) acc recs g
    = (case mapR (rightsizing_answer E) recs of Inl e \<Rightarrow> (Inl e, g) | Inr rs \<Rightarrow> (Inr (acc @ rs), g))"
  by (rule foldE_appends) (rule rightsizing_step_answer [OF assms])

text \<open>Without a token of Electricity Maps, the recommendations of Cost Explorer are answered one by one, in
  their order and without a change of state: with the estimate of the instance, less the estimate of its
  target when it is to be replaced. The first that cannot be read fails them all, with its reason.\<close>

theorem rightsizing_recommendations_are_answered:
  assumes "aw_token E = []"
  shows "rightsizing_results E (Inr pages) g
    = (case mapR (rightsizing_answer E) (concat pages) of
         Inl e \<Rightarrow> (Inl (Thrown (''Failed to grab AWS Rightsizing recommendations. Reason: '' @ error_message e)), g)
       | Inr rs \<Rightarrow> (Inr rs, g))"
  by (simp add: rightsizing_results_def explained_def bindE_apply rightsizing_loop [OF assms] split: sum.split)

definition idle_instance :: AwsRightsizingRecommendation where
  "idle_instance =
     \<lparr>rz_AccountId = Some ''1'', rz_RightsizingType = ''Terminate'', rz_InstanceName = None,
      rz_ResourceId = Some ''i-1'',
      rz_EC2ResourceDetails = Some \<lparr>rd_Region = Some ''US East (Ohio)'', rd_InstanceType = Some ''m5.large'',
        rd_Vcpu = Some ''2''\<rparr>,
      rz_TerminateSavings = Some ''40'', rz_TargetInstances = None\<rparr>"

lemma parsed_amounts: "parseFloat ''1.5'' = Fin (3 / 2)" "parseFloat ''40'' = Fin 40"
  by code_simp+

lemma idle_instance_answer:
  "\<exists>r. rightsizing_answer glue_env idle_instance = Inr r \<and> rr_costSavings r = Some (Fin 40)
     \<and> rr_resourceId r = Some ''i-1''
     \<and> rr_recommendationDetail r = Some ''Terminate instance with Resource ID: i-1.''"
  by (simp add: rightsizing_answer_def new_RightsizingCurrentRecommendation_def idle_instance_def
      rightsizing_result_def rightsizing_detail_def parseFloat_opt_def parsed_amounts)

text \<open>An idle instance, and the same without the details of its resource.\<close>

theorem rightsizing_recommendations_are_answered_witness:
  "(\<exists>r. rightsizing_results glue_env (Inr [[idle_instance], []]) glue_start = (Inr [r], glue_start)
      \<and> rr_costSavings r = Some (Fin 40) \<and> rr_resourceId r = Some ''i-1''
      \<and> rr_recommendationDetail r = Some ''Terminate instance with Resource ID: i-1.'')
   \<and> rightsizing_results glue_env (Inr [[idle_instance\<lparr>rz_EC2ResourceDetails := None\<rparr>], [idle_instance]]) glue_start
      = (Inl (Thrown ''Failed to grab AWS Rightsizing recommendations. Reason: TypeError''), glue_start)"
proof -
  have none: "rightsizing_answer glue_env (idle_instance\<lparr>rz_EC2ResourceDetails := None\<rparr>) = Inl TypeError"
    by (simp add: rightsizing_answer_def new_RightsizingCurrentRecommendation_def)
  from idle_instance_answer none show ?thesis
    using rightsizing_recommendations_are_answered [OF glue_tags(3), of "[[idle_instance], []]" glue_start]
      rightsizing_recommendations_are_answered [OF glue_tags(3),
        of "[[idle_instance\<lparr>rz_EC2ResourceDetails := None\<rparr>], [idle_instance]]" glue_start]
    by (auto simp: error_message_def)
qed

section \<open>The target instance\<close>

abbreviation savings_of :: "TargetInstance \<Rightarrow> jsnum" where
  "savings_of i \<equiv> parseFloat_opt (ti_EstimatedMonthlySavings i)"

lemma better_targets:
  assumes "\<forall>i\<in>set ts. \<exists>p. savings_of i = Fin p"
  shows "\<exists>q' c'. foldl better_target (Fin q, c) ts = (Fin q', c') \<and> q \<le> q'
    \<and> (\<forall>j\<in>set ts. savings_of j \<le> Fin q')
    \<and> (c' = c \<and> q' = q \<and> (\<forall>j\<in>set ts. savings_of j < Fin q) \<or> (\<exists>i\<in>set ts. c' = Some i \<and> savings_of i = Fin q'))"
  using assms
proof (induction ts arbitrary: q c)
  case Nil
  then show ?case by simp
next
  case (Cons t ts)
  then obtain p where p: "savings_of t = Fin p" by auto
  show ?case
  proof (cases "q \<le> p")
    case True
    from Cons.IH [of p "Some t"] Cons.prems obtain q' c' where
      "foldl better_target (Fin p, Some t) ts = (Fin q', c')" "p \<le> q'" "\<forall>j\<in>set ts. savings_of j \<le> Fin q'"
      "c' = Some t \<and> q' = p \<and> (\<forall>j\<in>set ts. savings_of j < Fin p)
        \<or> (\<exists>i\<in>set ts. c' = Some i \<and> savings_of i = Fin q')"
      by auto
    moreover have "better_target (Fin q, c) t = (Fin p, Some t)" using True p by (simp add: better_target_def)
    ultimately show ?thesis using True p by (intro exI [of _ q'] exI [of _ c']) auto
  next
    case False
    from Cons.IH [of q c] Cons.prems obtain q' c' where
      "foldl better_target (Fin q, c) ts = (Fin q', c')" "q \<le> q'" "\<forall>j\<in>set ts. savings_of j \<le> Fin q'"
      "c' = c \<and> q' = q \<and> (\<forall>j\<in>set ts. savings_of j < Fin q)
        \<or> (\<exists>i\<in>set ts. c' = Some i \<and> savings_of i = Fin q')"
      by auto
    moreover have "better_target (Fin q, c) t = (Fin q, c)" using False p by (simp add: better_target_def)
    ultimately show ?thesis using False p by (intro exI [of _ q'] exI [of _ c']) auto
  qed
qed

text \<open>The target instance that a recommendation is estimated with is the best of all but the last: the last
  one is replaced by any other that saves nothing or more, however much it would save itself.\<close>

theorem last_target_instance_is_overlooked:
  assumes "ts \<noteq> []" and "\<forall>i\<in>set ts. \<exists>p\<ge>0. parseFloat_opt (ti_EstimatedMonthlySavings i) = Fin p"
  shows "\<exists>i\<in>set ts. getTargetInstance (ts @ [t]) = Some i
    \<and> (\<forall>j\<in>set ts. parseFloat_opt (ti_EstimatedMonthlySavings j) \<le> parseFloat_opt (ti_EstimatedMonthlySavings i))"
proof -
  from assms(2) have "\<forall>i\<in>set ts. \<exists>p. savings_of i = Fin p" by blast
  from better_targets [OF this, of 0 "Some t"] obtain q' c' where
    run: "foldl better_target (Fin 0, Some t) ts = (Fin q', c')" and
    most: "\<forall>j\<in>set ts. savings_of j \<le> Fin q'" and
    choice: "c' = Some t \<and> q' = 0 \<and> (\<forall>j\<in>set ts. savings_of j < Fin 0)
      \<or> (\<exists>i\<in>set ts. c' = Some i \<and> savings_of i = Fin q')" by auto
  have "\<not> (\<forall>j\<in>set ts. savings_of j < Fin 0)"
    using assms by (cases ts) auto
  with choice obtain i where "i \<in> set ts" "c' = Some i" "savings_of i = Fin q'" by blast
  with run most show ?thesis by (intro bexI [of _ i]) (simp_all add: getTargetInstance_def zero_Fin)
qed

definition target_saving :: "string \<Rightarrow> string \<Rightarrow> TargetInstance" where
  "target_saving instanceType amount =
     \<lparr>ti_EstimatedMonthlySavings = Some amount,
      ti_EC2ResourceDetails = Some \<lparr>rd_Region = Some ''US East (Ohio)'', rd_InstanceType = Some instanceType,
        rd_Vcpu = Some ''2''\<rparr>\<rparr>"

theorem last_target_instance_is_overlooked_witness:
  "getTargetInstance [target_saving ''m5.large'' ''1.5'', target_saving ''t3.small'' ''40'']
     = Some (target_saving ''m5.large'' ''1.5'')"
proof -
  have "savings_of (target_saving ''m5.large'' ''1.5'') = Fin (3 / 2)"
    by (simp add: target_saving_def parseFloat_opt_def parsed_amounts)
  then have "\<forall>i\<in>set [target_saving ''m5.large'' ''1.5'']. \<exists>p\<ge>0. savings_of i = Fin p"
    by (auto intro: exI [of _ "3 / 2 :: rat"])
  from last_target_instance_is_overlooked [OF _ this, of "target_saving ''t3.small'' ''40''"]
  show ?thesis by simp
qed

section \<open>Exports of Compute Optimizer\<close>

lemma risky_line:
  assumes "obj_get row ''finding'' = Some finding" and "toUpperCase finding \<in> set includedRecommendationTypes"
    and "\<forall>option\<in>set (ec2_options row). \<not> parseFloat_opt (performance_risk option) \<le> 3"
  shows "\<exists>e t'. optimizer_row_step E (Some ''ec2'') rs row t = (Inl e, t')"
proof -
  have "getOptimalRecommendation (ec2_options row) = None"
    using assms(3) by (auto simp: getOptimalRecommendation_def find_None_iff)
  then have "\<exists>e. new_optimizer_pair E (Some ''ec2'') row = Inl e"
    by (auto simp: new_optimizer_pair_def new_EC2TargetComputeOptimizerRecommendation_def bindR_def
        split: sum.split)
  with assms(1,2) show ?thesis by (auto simp: optimizer_row_step_def bindE_apply)
qed

text \<open>A target must have a performance risk of at most 3. When one included line of an export of EC2 has no such
  option, all recommendations of Compute Optimizer fail, whatever the other lines and exports have.\<close>

theorem risky_line_fails_the_export:
  assumes "bu_listBucketObjects B bucket = Inr (name, keys)" and "key \<in> set keys"
    and "first_date key = Some text" and "isFromPreviousDay E text" and "\<not> str_includes key ''asg''"
    and "elem_at (split key ''/'') 1 = Some ''ec2''"
    and "bu_getObject B name key = Inr rows" and "row \<in> set rows"
    and "obj_get row ''finding'' = Some finding" and "toUpperCase finding \<in> set includedRecommendationTypes"
    and "\<forall>option\<in>set (ec2_options row). \<not> parseFloat_opt (performance_risk option) \<le> 3"
  shows "\<exists>message. fst (Optimizer_getRecommendations E B bucket g) = Inl (Thrown message)"
proof -
  have "\<exists>e t'. foldE (optimizer_row_step E (Some ''ec2'')) rs rows t = (Inl e, t')" for rs t
    by (rule foldE_fails [OF assms(8)]) (rule risky_line [OF assms(9-11)])
  then have "\<exists>e t'. optimizer_object_step E B name rs key t = (Inl e, t')" for rs t
    using assms(3-7) by (simp add: optimizer_object_step_def lifted_def)
  then have "\<exists>e t. foldE (optimizer_object_step E B name) [] keys g = (Inl e, t)"
    by (rule foldE_fails [OF assms(2)])
  then obtain e t where "foldE (optimizer_object_step E B name) [] keys g = (Inl e, t)" by blast
  then show ?thesis
    using assms(1) by (simp add: Optimizer_getRecommendations_def explained_def lifted_def)
qed

definition risky_row :: csv_row where
  "risky_row = [(''accountId'', ''1''), (''finding'', ''OVER_PROVISIONED''),
     (''instanceArn'', ''arn:aws:ec2:us-east-1:1:instance/i-1''), (''recommendationOptions_1_performanceRisk'', ''40'')]"

definition risky_bucket :: optimizer_bucket where
  "risky_bucket = \<lparr>bu_listBucketObjects = (\<lambda>_. Inr (''b'', [''co/ec2/1970-01-01.csv''])),
     bu_getObject = (\<lambda>_ _. Inr [[], risky_row])\<rparr>"

theorem risky_line_fails_the_export_witness:
  "\<exists>message. fst (Optimizer_getRecommendations glue_env risky_bucket ''b'' glue_start) = Inl (Thrown message)"
proof (rule risky_line_fails_the_export)
  show "bu_listBucketObjects risky_bucket ''b'' = Inr (''b'', [''co/ec2/1970-01-01.csv''])"
    "bu_getObject risky_bucket ''b'' ''co/ec2/1970-01-01.csv'' = Inr [[], risky_row]"
    by (simp_all add: risky_bucket_def)
  show "first_date ''co/ec2/1970-01-01.csv'' = Some ''1970-01-01''"
    "\<not> str_includes ''co/ec2/1970-01-01.csv'' ''asg''"
    "elem_at (split ''co/ec2/1970-01-01.csv'' ''/'') 1 = Some ''ec2''"
    "toUpperCase ''OVER_PROVISIONED'' \<in> set includedRecommendationTypes" by code_simp+
  have "parse_date ''1970-01-01'' = Some 0" by code_simp
  then show "isFromPreviousDay glue_env ''1970-01-01''"
    by (simp add: isFromPreviousDay_def glue_env_def moment_documented_def add_documented_def)
  show "obj_get risky_row ''finding'' = Some ''OVER_PROVISIONED''" by (simp add: risky_row_def)
  have "parseFloat ''undefined'' = NaN" by code_simp
  then show "\<forall>option\<in>set (ec2_options risky_row). \<not> parseFloat_opt (performance_risk option) \<le> 3"
    by (simp add: ec2_options_def column_def risky_row_def parseFloat_opt_def parsed_amounts numeral_Fin
        less_eq_jsnum_def)
qed simp_all

section \<open>One recommendation for a resource\<close>

text \<open>A recommendation that saves more emissions, or as much and more costs.\<close>

definition beats :: "RecommendationResult \<Rightarrow> RecommendationResult \<Rightarrow> bool" where
  "beats r u \<longleftrightarrow> rr_co2eSavings u < rr_co2eSavings r
     \<or> rr_co2eSavings r = rr_co2eSavings u \<and> \<not> isNaN (rr_co2eSavings u)
       \<and> toNum (rr_costSavings u) < toNum (rr_costSavings r)"

definition of_resource :: "RecommendationResult list \<Rightarrow> string \<Rightarrow> RecommendationResult list" where
  "of_resource data k = filter (\<lambda>r. resource_key r = k) data"

definition chosen :: "RecommendationResult list \<Rightarrow> RecommendationResult" where
  "chosen rs = (if 1 < length rs then getHighestSavings rs else rs ! 0)"

lemma uniques_eq:
  "getUniquesWithHighestSavings data
     = map (\<lambda>k. chosen (of_resource data k)) (first_occurrences [] (map resource_key data))"
  by (simp add: getUniquesWithHighestSavings_def mapped_resources_def group_fold_collect chosen_def
      of_resource_def)

lemma less_irrefl_num: "\<not> a < a" for a :: jsnum
  by (cases a) simp_all

lemma less_asym_num: "a < b \<Longrightarrow> \<not> b < a" for a b :: jsnum
  by (cases a; cases b) simp_all

lemma chosen_of_two:
  assumes "rs \<noteq> []"
  shows "chosen rs \<in> set (take 2 rs) \<and> list_all (\<lambda>r. \<not> beats r (chosen rs)) (take 2 rs)"
proof -
  from assms obtain a xs where rs: "rs = a # xs" by (cases rs) auto
  show ?thesis
  proof (cases xs)
    case Nil
    then show ?thesis by (simp add: rs chosen_def beats_def less_irrefl_num)
  next
    case (Cons b ys)
    have "getHighestSavings (a # b # ys) \<in> {a, b}"
      "\<not> beats a (getHighestSavings (a # b # ys))" "\<not> beats b (getHighestSavings (a # b # ys))"
      by (auto simp: getHighestSavings_def getHighestCostSavings_def beats_def Let_def less_irrefl_num
          dest: less_asym_num)
    then show ?thesis by (auto simp: rs Cons chosen_def)
  qed
qed

text \<open>When both services are asked, one recommendation is kept for each resource, in the order in which the
  resources were named first. It is one of the first two for its resource and neither of them saves more
  emissions, or as much and more costs; a third one is not looked at.\<close>

theorem one_recommendation_for_a_resource:
  "map resource_key (getUniquesWithHighestSavings data) = first_occurrences [] (map resource_key data)
    \<and> list_all (\<lambda>u. u \<in> set (take 2 (of_resource data (resource_key u)))
          \<and> list_all (\<lambda>r. \<not> beats r u) (take 2 (of_resource data (resource_key u))))
        (getUniquesWithHighestSavings data)"
proof -
  have best: "chosen (of_resource data k) \<in> set (take 2 (of_resource data k))"
    "list_all (\<lambda>r. \<not> beats r (chosen (of_resource data k))) (take 2 (of_resource data k))"
    "resource_key (chosen (of_resource data k)) = k"
    if "k \<in> set (map resource_key data)" for k
  proof -
    from that have "of_resource data k \<noteq> []" by (auto simp: of_resource_def filter_empty_conv)
    from chosen_of_two [OF this] show "chosen (of_resource data k) \<in> set (take 2 (of_resource data k))"
      "list_all (\<lambda>r. \<not> beats r (chosen (of_resource data k))) (take 2 (of_resource data k))" by auto
    then have "chosen (of_resource data k) \<in> set (of_resource data k)" by (metis in_set_takeD)
    then show "resource_key (chosen (of_resource data k)) = k" by (simp add: of_resource_def)
  qed
  let ?ks = "first_occurrences [] (map resource_key data)"
  have ks: "set ?ks = set (map resource_key data)" by (simp add: set_first_occurrences)
  have "map (resource_key \<circ> (\<lambda>k. chosen (of_resource data k))) ?ks = ?ks"
    by (rule map_idI) (use best(3) ks in simp)
  moreover have "list_all (\<lambda>k. let u = chosen (of_resource data k) in
      u \<in> set (take 2 (of_resource data (resource_key u)))
        \<and> list_all (\<lambda>r. \<not> beats r u) (take 2 (of_resource data (resource_key u)))) ?ks"
    unfolding list_all_iff [of _ ?ks] Let_def ks using best by metis
  ultimately show ?thesis by (simp add: uniques_eq list_all_iff comp_def Let_def)
qed

definition saving_for :: "string \<Rightarrow> rat \<Rightarrow> rat \<Rightarrow> RecommendationResult" where
  "saving_for resource co2e cost =
     \<lparr>rr_cloudProvider = ''AWS'', rr_accountId = Some ''1'', rr_accountName = Some ''1'', rr_region = None,
      rr_recommendationType = ''Terminate'', rr_recommendationDetail = None, rr_resourceId = Some resource,
      rr_instanceName = None, rr_kilowattHourSavings = Fin 1, rr_costSavings = Some (Fin cost),
      rr_co2eSavings = Fin co2e, rr_recommendationOptions = None\<rparr>"

text \<open>The third recommendation for \<open>i-1\<close> saves most and is dropped.\<close>

theorem one_recommendation_for_a_resource_witness:
  "getUniquesWithHighestSavings
      [saving_for ''i-1'' 1 5, saving_for ''i-2'' 4 1, saving_for ''i-1'' 2 0, saving_for ''i-1'' 9 9]
     = [saving_for ''i-1'' 2 0, saving_for ''i-2'' 4 1]
   \<and> map resource_key [saving_for ''i-1'' 2 0, saving_for ''i-2'' 4 1] = [''i-1'', ''i-2'']"
proof -
  let ?data = "[saving_for ''i-1'' 1 5, saving_for ''i-2'' 4 1, saving_for ''i-1'' 2 0, saving_for ''i-1'' 9 9]"
  have eq: "getUniquesWithHighestSavings ?data = [saving_for ''i-1'' 2 0, saving_for ''i-2'' 4 1]"
    by (simp add: uniques_eq of_resource_def chosen_def getHighestSavings_def saving_for_def resource_key_def)
  moreover have "map resource_key (getUniquesWithHighestSavings ?data) = [''i-1'', ''i-2'']"
    using one_recommendation_for_a_resource [of ?data] by (simp add: saving_for_def resource_key_def)
  ultimately show ?thesis by simp
qed

end
