(* ===== verification/Gcp_Recommendation_Properties.thy ===== *)
theory Gcp_Recommendation_Properties
  imports Gcp_Recommendations Gcp_Properties
begin

text \<open>
  The properties of the recommendations of GCP: every recommendation of a project is answered once, with
  its cost, and the addresses share in what the others save.
\<close>

section \<open>Operations that keep the totals\<close>

definition totals :: "gcp_rec_state \<Rightarrow> jsnum \<times> jsnum" where
  "totals g = (gr_cost g, gr_kilowattHours g)"

definition keeps_totals :: "(gcp_rec_state, 'a) eff \<Rightarrow> bool" where
  "keeps_totals m \<longleftrightarrow> (\<forall>g. totals (snd (m g)) = totals g)"

named_theorems keeps_intros

lemma keeps_ret [keeps_intros]: "keeps_totals (retE x)" "keeps_totals (throwE e)" "keeps_totals (liftE r)"
  by (simp_all add: keeps_totals_def)

lemma keeps_bind [keeps_intros]:
  assumes "keeps_totals m" and "\<And>x. keeps_totals (f x)"
  shows "keeps_totals (bindE m f)"
  unfolding keeps_totals_def
proof
  fix g
  obtain r h where r: "m g = (r, h)" by (cases "m g")
  with assms(1) have "totals h = totals g" unfolding keeps_totals_def by (metis snd_conv)
  moreover have "totals (snd (f x h)) = totals h" for x using assms(2) by (simp add: keeps_totals_def)
  ultimately show "totals (snd (bindE m f g)) = totals g" using r by (cases r) (simp_all add: bindE_apply)
qed

lemma keeps_map [keeps_intros]: "(\<And>x. keeps_totals (f x)) \<Longrightarrow> keeps_totals (mapE f xs)"
  by (induction xs) (auto intro: keeps_intros)

lemma keeps_attempt [keeps_intros]: "keeps_totals m \<Longrightarrow> keeps_totals (attempt x m)"
  by (auto simp: keeps_totals_def attempt_def split: prod.split sum.split) (metis snd_conv)+

lemma keeps_factors [keeps_intros]: "keeps_totals (gcp_rec_factorsE E region)"
  by (auto simp: keeps_totals_def gcp_rec_factorsE_def totals_def Let_def split: prod.split)

lemma keeps_parts [keeps_intros]:
  "keeps_totals (estimateComputeCO2eSavings E family vCpus region)"
  "keeps_totals (estimateStorageCO2eSavings E gigabytes region storageType)"
  "keeps_totals (with_details fe d r)"
  by (auto simp: estimateComputeCO2eSavings_def estimateStorageCO2eSavings_def with_details_def Let_def
      intro: keeps_intros)

lemma keeps_savings: "keeps_totals (getEstimatedCO2eSavings E W projectId zone rec)"
  unfolding getEstimatedCO2eSavings_def
  by (auto simp: savings_of_stopped_vm_def savings_of_machine_type_def savings_of_disk_def savings_of_image_def
      getCO2EstimatedSavingsForInstance_def getCO2EstimatedSavingsForMachineType_def
      getCO2EstimatesSavingsForDisk_def Let_def intro!: keeps_intros split: option.split)

lemma keepsD: "keeps_totals m \<Longrightarrow> m g = (r, h) \<Longrightarrow> totals h = totals g"
  unfolding keeps_totals_def by (metis snd_conv)

section \<open>The loops\<close>

definition is_address :: "gcp_recommendation \<Rightarrow> bool" where
  "is_address rec \<longleftrightarrow> rc_recommenderSubtype rec = ''DELETE_ADDRESS''"

definition cost_of :: "gcp_recommendation \<Rightarrow> jsnum" where
  "cost_of rec = (case getEstimatedCostSavings rec of Inr c \<Rightarrow> c | Inl _ \<Rightarrow> 0)"

text \<open>What identifies a result, and what of a recommendation it answers.\<close>

definition result_key :: "RecommendationResult \<Rightarrow> string \<times> string option \<times> string option \<times> jsnum option" where
  "result_key r = (rr_recommendationType r, rr_recommendationDetail r, rr_region r, rr_costSavings r)"

definition rec_key :: "string \<times> gcp_recommendation \<Rightarrow> string \<times> string option \<times> string option \<times> jsnum option" where
  "rec_key = (\<lambda>(zone, rec). (rc_recommenderSubtype rec, Some (rc_description rec),
     Some (parseRegionFromZone zone), Some (cost_of rec)))"

lemma step_result:
  assumes "gcp_recommendation_step E W project (rs, us) (zone, rec) g = (Inr (rs', us'), g')"
  shows "if is_address rec
    then rs' = rs \<and> totals g' = totals g
      \<and> (\<exists>d. us' = us @ [\<lparr>ur_rec = rec, ur_zone = zone, ur_cost = cost_of rec, ur_resourceDetails = d\<rparr>])
    else us' = us \<and> (\<exists>r. rs' = rs @ [r] \<and> result_key r = rec_key (zone, rec)
      \<and> totals g' = (gr_cost g + cost_of rec, gr_kilowattHours g + rr_kilowattHourSavings r))"
proof -
  from assms obtain fe d h cost where
    fe: "getEstimatedCO2eSavings E W (pj_id project) zone rec g = (Inr (fe, d), h)" and
    cost: "getEstimatedCostSavings rec = Inr cost" and
    rest: "(if rc_recommenderSubtype rec = ''DELETE_ADDRESS'' then
         retE (rs, us @ [\<lparr>ur_rec = rec, ur_zone = zone, ur_cost = cost, ur_resourceDetails = d\<rparr>])
       else bindE (accumulateCostAndCo2e cost (fe_kilowattHours fe)) (\<lambda>_.
           retE (rs @ [gcp_result project zone rec cost (fe_co2e fe) (fe_kilowattHours fe) d], us))) h
      = (Inr (rs', us'), g')"
    by (auto simp: gcp_recommendation_step_def bindE_eq_Inr)
  have h: "gr_cost h = gr_cost g" "gr_kilowattHours h = gr_kilowattHours g"
    using keepsD [OF keeps_savings fe] by (simp_all add: totals_def)
  have c: "cost_of rec = cost" using cost by (simp add: cost_of_def)
  show ?thesis
  proof (cases "is_address rec")
    case True
    then show ?thesis using rest h c by (auto simp: is_address_def totals_def)
  next
    case False
    then show ?thesis
      using rest h c
      by (auto simp: is_address_def totals_def accumulateCostAndCo2e_def bindE_apply result_key_def
          rec_key_def gcp_result_def)
  qed
qed

definition unknown_key :: "UnknownRecommendationDetails \<Rightarrow> string \<times> string option \<times> string option \<times> jsnum option" where
  "unknown_key u = rec_key (ur_zone u, ur_rec u)"

lemma known_loop:
  assumes "foldE (gcp_recommendation_step E W project) ([], []) recs g = (Inr (rs, us), g')"
  shows "map result_key rs = map rec_key (filter (\<lambda>(z, r). \<not> is_address r) recs)
    \<and> map unknown_key us = map rec_key (filter (\<lambda>(z, r). is_address r) recs)
    \<and> (\<forall>u\<in>set us. is_address (ur_rec u) \<and> ur_cost u = cost_of (ur_rec u))
    \<and> totals g' = (gr_cost g + sum_list (map (\<lambda>r. toNum (rr_costSavings r)) rs),
                   gr_kilowattHours g + sum_list (map rr_kilowattHourSavings rs))"
proof -
  define P where "P ys acc h \<longleftrightarrow>
      map result_key (fst acc) = map rec_key (filter (\<lambda>(z, r). \<not> is_address r) ys)
    \<and> map unknown_key (snd acc) = map rec_key (filter (\<lambda>(z, r). is_address r) ys)
    \<and> (\<forall>u\<in>set (snd acc). is_address (ur_rec u) \<and> ur_cost u = cost_of (ur_rec u))
    \<and> totals h = (gr_cost g + sum_list (map (\<lambda>r. toNum (rr_costSavings r)) (fst acc)),
                   gr_kilowattHours g + sum_list (map rr_kilowattHourSavings (fst acc)))"
    for ys and acc :: "RecommendationResult list \<times> UnknownRecommendationDetails list" and h
  have "P recs (rs, us) g'"
    using assms
  proof (rule foldE_invariant)
    show "P [] ([], []) g" by (simp add: P_def totals_def)
  next
    fix ys x zs a t a' t'
    assume P: "P ys a t" and st: "gcp_recommendation_step E W project a x t = (Inr a', t')"
    obtain zone rec where x: "x = (zone, rec)" by (cases x)
    obtain r u r' u' where a: "a = (r, u)" "a' = (r', u')" by (cases a, cases a')
    have cost: "toNum (rr_costSavings r) = cost_of rec" if "result_key r = rec_key (zone, rec)" for r
      using that by (simp add: result_key_def rec_key_def)
    from step_result [OF st [unfolded a x]] P show "P (ys @ [x]) a' t'"
      by (auto simp: P_def a x unknown_key_def totals_def cost add.assoc split: if_splits)
  qed
  then show ?thesis by (simp add: P_def)
qed

text \<open>The share of an address in the totals.\<close>

definition share :: "jsnum \<times> jsnum \<Rightarrow> jsnum \<Rightarrow> jsnum" where
  "share T cost = (if fst T = 0 then 0 else cost * (snd T / fst T))"

lemma unknown_step_result:
  assumes "gcp_unknown_recommendation_step E project rs u g = (Inr rs', g')"
    and "ur_cost u = cost_of (ur_rec u)"
  shows "totals g' = totals g \<and> (\<exists>r. rs' = rs @ [r] \<and> result_key r = unknown_key u
    \<and> rr_kilowattHourSavings r = share (totals g) (cost_of (ur_rec u)))"
proof -
  from assms obtain co2e kwh where e: "getCo2eEstimationsForUnknowns E (ur_zone u) (ur_cost u) g
      = (Inr (co2e, kwh), g')"
    "rs' = rs @ [gcp_result project (ur_zone u) (ur_rec u) (ur_cost u) co2e kwh (ur_resourceDetails u)]"
    by (auto simp: gcp_unknown_recommendation_step_def bindE_eq_Inr)
  have "keeps_totals (getCo2eEstimationsForUnknowns E (ur_zone u) (ur_cost u))"
    unfolding keeps_totals_def
  proof
    fix h
    have "keeps_totals (bindE (gcp_rec_factorsE E (parseRegionFromZone (ur_zone u))) (\<lambda>emissionsFactors.
        retE (k * toNum (obj_get emissionsFactors (parseRegionFromZone (ur_zone u))), k)))" for k
      by (intro keeps_intros)
    then show "totals (snd (getCo2eEstimationsForUnknowns E (ur_zone u) (ur_cost u) h)) = totals h"
      by (simp add: getCo2eEstimationsForUnknowns_def keeps_totals_def Let_def)
  qed
  from keepsD [OF this e(1)] have "totals g' = totals g" .
  moreover have "kwh = share (totals g) (ur_cost u)"
    using e(1) by (auto simp: getCo2eEstimationsForUnknowns_def share_def totals_def Let_def bindE_eq_Inr
        split: if_splits)
  ultimately show ?thesis
    using e(2) assms(2) by (simp add: result_key_def unknown_key_def rec_key_def gcp_result_def)
qed

lemma unknown_loop_results:
  assumes "foldE (gcp_unknown_recommendation_step E project) rs us g = (Inr rs', g')"
    and "\<forall>u\<in>set us. ur_cost u = cost_of (ur_rec u)"
  shows "\<exists>ps. rs' = rs @ ps \<and> map result_key ps = map unknown_key us
    \<and> map rr_kilowattHourSavings ps = map (\<lambda>u. share (totals g) (cost_of (ur_rec u))) us"
  using assms
proof (induction us arbitrary: rs g)
  case Nil
  then show ?case by simp
next
  case (Cons u us)
  from Cons.prems(1) obtain rs1 g1 where st: "gcp_unknown_recommendation_step E project rs u g = (Inr rs1, g1)"
    "foldE (gcp_unknown_recommendation_step E project) rs1 us g1 = (Inr rs', g')"
    by (auto simp: bindE_eq_Inr)
  from unknown_step_result [OF st(1)] Cons.prems(2) obtain r where r: "totals g1 = totals g"
    "rs1 = rs @ [r]" "result_key r = unknown_key u"
    "rr_kilowattHourSavings r = share (totals g) (cost_of (ur_rec u))" by auto
  from Cons.IH [OF st(2)] Cons.prems(2) obtain ps where "rs' = rs1 @ ps" "map result_key ps = map unknown_key us"
    "map rr_kilowattHourSavings ps = map (\<lambda>u. share (totals g1) (cost_of (ur_rec u))) us" by auto
  with r show ?case by (intro exI [of _ "r # ps"]) simp
qed

section \<open>Runs return\<close>

definition rec_complete :: "gcp_recommendation \<Rightarrow> bool" where
  "rec_complete rec \<longleftrightarrow> rc_resource rec \<noteq> None
     \<and> (case getEstimatedCostSavings rec of Inr _ \<Rightarrow> True | Inl _ \<Rightarrow> False)"

lemma savings_return:
  assumes "rc_resource rec \<noteq> None"
  shows "\<exists>x h. getEstimatedCO2eSavings E W p zone rec g = (Inr x, h)"
proof -
  from assms obtain resource where "rc_resource rec = Some resource" by blast
  then show ?thesis
    unfolding getEstimatedCO2eSavings_def Let_def by (simp only: option.case attempt_returns)
qed

lemma factors_return: "ge_token E = [] \<Longrightarrow> \<exists>ef h. gcp_rec_factorsE E region g = (Inr ef, h)"
  by (simp add: gcp_rec_factorsE_def getEmissionsFactors_def split: option.split)

lemma gcp_run_returns:
  assumes "ge_token E = []" and "\<forall>(zone, rec)\<in>set recs. rec_complete rec"
  shows "\<exists>rs g'. estimate_recommendations E W project recs g = (Inr rs, g')"
proof -
  have "\<exists>acc h. foldE (gcp_recommendation_step E W project) ([], []) recs g = (Inr acc, h) \<and> True"
  proof (rule foldE_total)
    fix a t x
    assume "x \<in> set recs"
    obtain zone rec where x: "x = (zone, rec)" by (cases x)
    with assms(2) \<open>x \<in> set recs\<close> have c: "rec_complete rec" by auto
    then obtain cost where cost: "getEstimatedCostSavings rec = Inr cost"
      by (auto simp: rec_complete_def split: sum.splits)
    from savings_return [of rec E W "pj_id project" zone t] c obtain fe d h where
      "getEstimatedCO2eSavings E W (pj_id project) zone rec t = (Inr (fe, d), h)"
      by (auto simp: rec_complete_def)
    with cost show "\<exists>a' t'. gcp_recommendation_step E W project a x t = (Inr a', t') \<and> True"
      by (cases a) (auto simp: gcp_recommendation_step_def x bindE_apply accumulateCostAndCo2e_def)
  qed simp
  then obtain rs us h where loop:
    "foldE (gcp_recommendation_step E W project) ([], []) recs g = (Inr (rs, us), h)" by auto
  have "\<exists>rs' h'. foldE (gcp_unknown_recommendation_step E project) rs us h = (Inr rs', h') \<and> True"
  proof (rule foldE_total)
    fix a :: "RecommendationResult list" and t and x :: UnknownRecommendationDetails
    obtain ef t' where "gcp_rec_factorsE E (parseRegionFromZone (ur_zone x)) t = (Inr ef, t')"
      using factors_return [OF assms(1)] by blast
    then show "\<exists>a' t'. gcp_unknown_recommendation_step E project a x t = (Inr a', t') \<and> True"
      by (auto simp: gcp_unknown_recommendation_step_def getCo2eEstimationsForUnknowns_def bindE_apply Let_def)
  qed simp
  then show ?thesis using loop by (auto simp: estimate_recommendations_def bindE_apply)
qed

text \<open>What the results of a project answer, from the totals at the start.\<close>

definition project_answered :: "gcp_clients \<Rightarrow> jsnum \<times> jsnum \<Rightarrow> ActiveProject \<Rightarrow> RecommendationResult list \<Rightarrow> bool" where
  "project_answered W T project rs \<longleftrightarrow>
     (\<exists>recs known addresses. recommendations_of_zones W project = Some recs \<and> rs = known @ addresses
       \<and> map result_key known = map rec_key (filter (\<lambda>(zone, rec). \<not> is_address rec) recs)
       \<and> map result_key addresses = map rec_key (filter (\<lambda>(zone, rec). is_address rec) recs)
       \<and> list_all (\<lambda>r. rr_kilowattHourSavings r =
           share (fst T + sum_list (map (\<lambda>r. toNum (rr_costSavings r)) known),
                  snd T + sum_list (map rr_kilowattHourSavings known))
             (toNum (rr_costSavings r))) addresses)"

lemma project_answers:
  assumes "getFilteredRecommendations E W project g = Some (Inr rs, g')"
  shows "project_answered W (totals g) project rs"
proof -
  from assms obtain recs where recs: "recommendations_of_zones W project = Some recs"
    and run: "if recs = [] then rs = [] else estimate_recommendations E W project recs g = (Inr rs, g')"
    by (auto simp: getFilteredRecommendations_def split: option.splits if_splits)
  show ?thesis
  proof (cases "recs = []")
    case True
    then show ?thesis using recs run unfolding project_answered_def by (intro exI [of _ "[]"]) simp
  next
    case False
    with run obtain known us h where
      loop: "foldE (gcp_recommendation_step E W project) ([], []) recs g = (Inr (known, us), h)" and
      rest: "foldE (gcp_unknown_recommendation_step E project) known us h = (Inr rs, g')"
      by (auto simp: estimate_recommendations_def bindE_eq_Inr)
    note k = known_loop [OF loop]
    from unknown_loop_results [OF rest] k obtain ps where ps: "rs = known @ ps"
      "map result_key ps = map unknown_key us"
      "map rr_kilowattHourSavings ps = map (\<lambda>u. share (totals h) (cost_of (ur_rec u))) us" by auto
    have "rr_kilowattHourSavings r = share (totals h) (toNum (rr_costSavings r))" if "r \<in> set ps" for r
    proof -
      have len: "length ps = length us" using ps(2) by (metis length_map)
      from that obtain i where i: "i < length ps" "r = ps ! i" by (auto simp: in_set_conv_nth)
      from arg_cong [OF ps(2), of "\<lambda>l. l ! i"] arg_cong [OF ps(3), of "\<lambda>l. l ! i"] i len show ?thesis
        by (simp add: result_key_def unknown_key_def rec_key_def)
    qed
    then show ?thesis
      unfolding project_answered_def using recs ps k by (intro exI [of _ recs] exI [of _ known] exI [of _ ps]) (simp add: list_all_iff totals_def)
  qed
qed

section \<open>The properties\<close>

text \<open>Every recommendation of a project is answered exactly once, with its type, text, region and costs:
  first all that are not about addresses, in the order of the zones and recommenders, then the addresses.
  An address is credited with energy in proportion to its costs, at the ratio of the energy to the costs
  of the other recommendations so far, and with none when those cost nothing.\<close>

theorem gcp_recommendations_are_answered_once:
  assumes "getFilteredRecommendations E W project g = Some (Inr rs, g')"
  shows "\<exists>recs known addresses. recommendations_of_zones W project = Some recs \<and> rs = known @ addresses
    \<and> map result_key known = map rec_key (filter (\<lambda>(zone, rec). \<not> is_address rec) recs)
    \<and> map result_key addresses = map rec_key (filter (\<lambda>(zone, rec). is_address rec) recs)
    \<and> list_all (\<lambda>r. rr_kilowattHourSavings r =
        share (gr_cost g + sum_list (map (\<lambda>r. toNum (rr_costSavings r)) known),
               gr_kilowattHours g + sum_list (map rr_kilowattHourSavings known))
          (toNum (rr_costSavings r))) addresses"
  using project_answers [OF assms] by (simp add: project_answered_def totals_def)

definition disk_and_address :: "gcp_recommendation list" where
  "disk_and_address =
     [\<lparr>rc_recommenderSubtype = ''DELETE_ADDRESS'', rc_description = ''Save by deleting idle address'',
       rc_resource = Some ''a/b/ip'', rc_primaryImpact = \<lparr>im_category = ''COST'', im_cost = Some (''-5'', 0)\<rparr>,
       rc_additionalImpact = []\<rparr>,
      \<lparr>rc_recommenderSubtype = ''DELETE_DISK'', rc_description = ''Save by deleting idle disk'',
       rc_resource = Some ''a/b/disk'', rc_primaryImpact = \<lparr>im_category = ''PERFORMANCE'', im_cost = None\<rparr>,
       rc_additionalImpact = [\<lparr>im_category = ''COST'', im_cost = Some (''-10'', 0)\<rparr>]\<rparr>]"

text \<open>One recommender has the two, after its quota was exceeded twice; the disk cannot be read.\<close>

definition quota_clients :: gcp_clients where
  "quota_clients =
     \<lparr>gw_searchProjects = Inr [], gw_instancesList = (\<lambda>_. Inr []), gw_disksList = (\<lambda>_. Inr []),
      gw_addressesList = (\<lambda>_. Inr []),
      gw_listRecommendations = (\<lambda>_ _ i n.
        if i \<noteq> ''google.compute.disk.IdleResourceRecommender'' then Inl None
        else if n < 2 then Inl (Some ''Quota exceeded'') else Inr disk_and_address),
      gw_getInstance = (\<lambda>_ _ _. Inl TypeError), gw_getMachineTypeCpus = (\<lambda>_ _ _. Inl TypeError),
      gw_getDisk = (\<lambda>_ _ _. Inl TypeError), gw_getImage = (\<lambda>_ _. Inl TypeError),
      gw_getAddress = (\<lambda>_ _ _. Inl TypeError)\<rparr>"

definition quota_project :: ActiveProject where
  "quota_project = \<lparr>pj_id = ''p'', pj_name = ''p'', pj_zones = [''us-east1-b'']\<rparr>"

definition quota_start :: gcp_rec_state where
  "quota_start = \<lparr>gr_factors = \<lparr>zoneIntensityFactors = [], requests = []\<rparr>, gr_cost = 0, gr_kilowattHours = 0\<rparr>"

lemma quota_requests:
  "list_recommendations (gw_listRecommendations quota_clients p z i) 0
     = Some (if i = ''google.compute.disk.IdleResourceRecommender'' then Some disk_and_address else None)"
proof (cases "i = ''google.compute.disk.IdleResourceRecommender''")
  case True
  have q: "quota_exceeded (Some ''Quota exceeded'')" by code_simp
  show ?thesis
    using list_recommendations_first [of 2 "gw_listRecommendations quota_clients p z i" 0] True q
    by (simp add: quota_clients_def)
next
  case False
  then show ?thesis
    using list_recommendations_first [of 0 "gw_listRecommendations quota_clients p z i" 0]
    by (simp add: quota_clients_def quota_exceeded_def)
qed

lemma quota_zones:
  "recommendations_of_zones quota_clients quota_project = Some (map (Pair ''us-east1-b'') disk_and_address)"
  by (simp add: recommendations_of_zones_def quota_project_def RECOMMENDER_IDS_def quota_requests
      disk_and_address_def)

lemma quota_costs:
  "getEstimatedCostSavings (disk_and_address ! 0) = Inr (Fin 5)"
  "getEstimatedCostSavings (disk_and_address ! 1) = Inr (Fin 10)"
proof -
  have p: "parseInt ''-5'' = Fin (- 5)" "parseInt ''-10'' = Fin (- 10)" by code_simp+
  show "getEstimatedCostSavings (disk_and_address ! 0) = Inr (Fin 5)"
    "getEstimatedCostSavings (disk_and_address ! 1) = Inr (Fin 10)"
    by (simp_all add: getEstimatedCostSavings_def disk_and_address_def p elem_at_def jsnum_simps)
qed

lemma quota_recs: "disk_and_address = [disk_and_address ! 0, disk_and_address ! 1]"
  "is_address (disk_and_address ! 0)" "\<not> is_address (disk_and_address ! 1)"
  by (simp_all add: disk_and_address_def is_address_def)

lemma quota_complete: "\<forall>(zone, rec)\<in>set (map (Pair ''us-east1-b'') disk_and_address). rec_complete rec"
proof -
  have "rec_complete (disk_and_address ! 0)" "rec_complete (disk_and_address ! 1)"
    using quota_costs by (simp_all add: rec_complete_def) (simp_all add: disk_and_address_def)
  then have "list_all rec_complete [disk_and_address ! 0, disk_and_address ! 1]" by simp
  then have "list_all rec_complete disk_and_address" using quota_recs(1) by metis
  then show ?thesis by (auto simp: list_all_iff)
qed

theorem gcp_recommendations_are_answered_once_witness:
  "\<exists>disk address g'. getFilteredRecommendations core_env quota_clients quota_project quota_start
       = Some (Inr [disk, address], g')
     \<and> rr_costSavings disk = Some (Fin 10) \<and> rr_costSavings address = Some (Fin 5)
     \<and> rr_kilowattHourSavings address = Fin 5 * (rr_kilowattHourSavings disk / Fin 10)"
proof -
  have token: "ge_token core_env = []" by (simp add: core_env_def)
  obtain rs g' where run: "getFilteredRecommendations core_env quota_clients quota_project quota_start
      = Some (Inr rs, g')"
    using gcp_run_returns [OF token quota_complete, of quota_clients quota_project quota_start]
    by (auto simp: getFilteredRecommendations_def quota_zones) (simp add: disk_and_address_def)
  from gcp_recommendations_are_answered_once [OF run] obtain known addresses where
    rs: "rs = known @ addresses" and
    keys: "map result_key known = map rec_key (filter (\<lambda>(z, r). \<not> is_address r) (map (Pair ''us-east1-b'') disk_and_address))"
      "map result_key addresses = map rec_key (filter (\<lambda>(z, r). is_address r) (map (Pair ''us-east1-b'') disk_and_address))" and
    shares: "list_all (\<lambda>r. rr_kilowattHourSavings r =
        share (gr_cost quota_start + sum_list (map (\<lambda>r. toNum (rr_costSavings r)) known),
               gr_kilowattHours quota_start + sum_list (map rr_kilowattHourSavings known))
          (toNum (rr_costSavings r))) addresses"
    by (auto simp: quota_zones)
  have "map result_key known = [rec_key (''us-east1-b'', disk_and_address ! 1)]"
    "map result_key addresses = [rec_key (''us-east1-b'', disk_and_address ! 0)]"
    using keys quota_recs(2,3) by (subst (asm) (1 2) quota_recs(1), simp)+
  then obtain disk address where one: "known = [disk]" "addresses = [address]"
    "result_key disk = rec_key (''us-east1-b'', disk_and_address ! 1)"
    "result_key address = rec_key (''us-east1-b'', disk_and_address ! 0)" by auto
  then have costs: "rr_costSavings disk = Some (Fin 10)" "rr_costSavings address = Some (Fin 5)"
    using quota_costs by (simp_all add: result_key_def rec_key_def cost_of_def)
  have ten: "Fin 10 \<noteq> 0" by (simp add: zero_Fin)
  have "rr_kilowattHourSavings address = Fin 5 * (rr_kilowattHourSavings disk / Fin 10)"
    using shares ten by (simp add: one costs share_def quota_start_def)
  with run rs one costs show ?thesis by auto
qed

text \<open>A recommender is asked again while its quota is exceeded: when every recommender answers in the end,
  the request returns, with the first answer of each that has one, in their order.\<close>

theorem exceeded_quota_is_waited_out:
  assumes "\<forall>i\<in>set ids. (\<forall>k<delay i. case gw_listRecommendations W projectId zone i k of
        Inl e \<Rightarrow> quota_exceeded e | Inr _ \<Rightarrow> False)
      \<and> (case gw_listRecommendations W projectId zone i (delay i) of Inl e \<Rightarrow> \<not> quota_exceeded e | Inr _ \<Rightarrow> True)"
  shows "getRecommendationsForRecommenderIds W projectId zone ids
    = Some (concat (map (\<lambda>i. case gw_listRecommendations W projectId zone i (delay i) of
        Inl _ \<Rightarrow> []
      | Inr recommendations \<Rightarrow> [\<lparr>rm_id = i, rm_zone = zone, rm_recommendations = recommendations\<rparr>]) ids))"
  using assms
proof (induction ids)
  case Nil
  then show ?case by simp
next
  case (Cons i ids)
  then have i: "\<forall>k<delay i. case gw_listRecommendations W projectId zone i (0 + k) of
        Inl e \<Rightarrow> quota_exceeded e | Inr _ \<Rightarrow> False"
      "case gw_listRecommendations W projectId zone i (0 + delay i) of Inl e \<Rightarrow> \<not> quota_exceeded e | Inr _ \<Rightarrow> True"
    by simp_all
  from list_recommendations_first [OF i] Cons show ?case by (auto split: sum.splits)
qed

theorem exceeded_quota_is_waited_out_witness:
  "getRecommendationsForRecommenderIds quota_clients ''p'' ''z'' [''x'', ''google.compute.disk.IdleResourceRecommender'']
    = Some [\<lparr>rm_id = ''google.compute.disk.IdleResourceRecommender'', rm_zone = ''z'',
             rm_recommendations = disk_and_address\<rparr>]"
proof -
  have q: "quota_exceeded (Some ''Quota exceeded'')" "\<not> quota_exceeded None" by code_simp+
  show ?thesis
    by (subst exceeded_quota_is_waited_out [where delay = "\<lambda>i. if i = ''x'' then 0 else 2"])
      (simp_all add: quota_clients_def q)
qed

end
