(* ===== verification/System_Properties.thy ===== *)
theory System_Properties
  imports System_Billing Aws_Properties Gcp_Properties Azure_Properties Ali_Properties App_Properties System_Recommendations Aws_Recommendation_Properties Gcp_Recommendation_Properties
begin

text \<open>
  Properties that span the application and the packages of the providers: what a request costs when
  the accounts of all providers read their billing data.
\<close>

section \<open>The application over the billing data of all providers\<close>























section \<open>Recommendations\<close>

text \<open>
  The recommendations of the app over the packages of the three providers: what it answers to a request
  follows from what Cost Explorer, the recommenders of Google Cloud and Azure Advisor list.
\<close>


















end
