(* ===== verification/Js_Format.thy ===== *)
theory Js_Format
  imports Js_Date
begin

text \<open>
  Numbers as text: \<open>toFixed\<close>, which rounds half up to a number of digits after the point, and the text of a
  whole number. The text of a number is read back as the rounded number. Numbers of \<open>10\<^sup>2\<^sup>1\<close> and more, which
  the language shows with an exponent, are shown like the others.
\<close>

fun natural_text :: "nat \<Rightarrow> string" where
  "natural_text n = (if n < 10 then [] else natural_text (n div 10)) @ [digit_char (int (n mod 10))]"

declare natural_text.simps [simp del]

definition integer_text :: "int \<Rightarrow> string" where
  "integer_text n = (if n < 0 then CHR ''-'' # natural_text (nat (- n)) else natural_text (nat n))"

definition fixed_units :: "nat \<Rightarrow> rat \<Rightarrow> int" where
  "fixed_units digits x = \<lfloor>\<bar>x\<bar> * 10 ^ digits + 1 / 2\<rfloor>"

fun toFixed :: "nat \<Rightarrow> jsnum \<Rightarrow> string" where
  "toFixed digits (Fin x) =
     (let n = fixed_units digits x in
      (if x < 0 then ''-'' else []) @ natural_text (nat (n div 10 ^ digits))
      @ (if digits = 0 then [] else CHR ''.'' # padded digits (n mod 10 ^ digits)))"
| "toFixed digits PInf = ''Infinity''"
| "toFixed digits NInf = ''-Infinity''"
| "toFixed digits NaN = ''NaN''"

section \<open>Reading back\<close>

lemma natural_text_digits: "\<forall>c \<in> set (natural_text n). is_digit c"
proof (induction n rule: natural_text.induct)
  case (1 n)
  then show ?case by (subst natural_text.simps) (auto simp: digit_char_is_digit)
qed

lemma natural_text_nonempty [simp]: "natural_text n \<noteq> []"
  by (subst natural_text.simps) simp

lemma digits_val_snoc: "digits_val (xs @ [d]) = 10 * digits_val xs + digit_val d"
  by (simp add: digits_val_def)

lemma digits_val_append: "digits_val (xs @ ys) = digits_val xs * 10 ^ length ys + digits_val ys"
proof (induction ys rule: rev_induct)
  case Nil
  then show ?case by (simp add: digits_val_def)
next
  case (snoc y ys)
  then show ?case using digits_val_snoc [of "xs @ ys" y] digits_val_snoc [of ys y] by (simp add: algebra_simps)
qed

lemma digits_val_natural: "digits_val (natural_text n) = int n"
proof (induction n rule: natural_text.induct)
  case (1 n)
  show ?case
  proof (cases "n < 10")
    case True
    then show ?thesis
      by (subst natural_text.simps) (simp add: digits_val_def digit_char_val)
  next
    case False
    then have "digits_val (natural_text (n div 10)) = int (n div 10)" using 1 by simp
    then show ?thesis using False
      by (subst natural_text.simps) (simp add: digits_val_snoc digit_char_val zmod_int zdiv_int)
  qed
qed

lemma takeWhile_digits: "\<forall>c \<in> set u. is_digit c \<Longrightarrow> \<not> is_digit d \<Longrightarrow>
  takeWhile is_digit (u @ d # v) = u \<and> dropWhile is_digit (u @ d # v) = d # v"
  by (induction u) auto

lemma takeWhile_all_digits: "\<forall>c \<in> set u. is_digit c \<Longrightarrow> takeWhile is_digit u = u \<and> dropWhile is_digit u = []"
  by (induction u) auto

text \<open>A text of digits, a point and digits is the number it shows.\<close>

lemma parseFloat_fixed:
  assumes "\<forall>c \<in> set u. is_digit c" and "\<forall>c \<in> set v. is_digit c" and "u \<noteq> []"
  shows "parseFloat (u @ CHR ''.'' # v) = Fin (of_int (digits_val (u @ v)) / 10 ^ length v)"
    and "parseFloat (CHR ''-'' # u @ CHR ''.'' # v) = Fin (- of_int (digits_val (u @ v)) / 10 ^ length v)"
proof -
  obtain c cs where u: "u = c # cs" using assms(3) by (cases u) auto
  have c: "is_digit c" using assms(1) u by simp
  then have no: "\<not> is_space c" "c \<noteq> CHR ''-''" "c \<noteq> CHR ''+''" "c \<noteq> CHR ''I''"
    by (auto simp: is_digit_def is_space_def code_def)
  have dot: "\<not> is_digit (CHR ''.'')" by (simp add: is_digit_def code_def)
  have digits: "read_digits (u @ CHR ''.'' # v) = (u, CHR ''.'' # v)" "read_digits v = (v, [])"
    using takeWhile_digits [OF assms(1) dot, of v] takeWhile_all_digits [OF assms(2)]
    by (simp_all add: read_digits_def)
  have inf: "\<not> startsWith (u @ CHR ''.'' # v) ''Infinity''" using no(4) by (simp add: u)
  have minus: "\<not> is_space (CHR ''-'')" by (simp add: is_space_def code_def)
  have sign: "dropWhile is_space (u @ CHR ''.'' # v) = u @ CHR ''.'' # v"
    "read_sign (u @ CHR ''.'' # v) = (1, u @ CHR ''.'' # v)"
    "read_sign (CHR ''-'' # u @ CHR ''.'' # v) = (-1, u @ CHR ''.'' # v)"
    "dropWhile is_space (CHR ''-'' # u @ CHR ''.'' # v) = CHR ''-'' # u @ CHR ''.'' # v"
    using no by (simp_all add: u read_sign_def minus)
  have scale: "scale10 x (0 - int (length v)) = x / 10 ^ length v" for x
    by (auto simp: scale10_def)
  show "parseFloat (u @ CHR ''.'' # v) = Fin (of_int (digits_val (u @ v)) / 10 ^ length v)"
    "parseFloat (CHR ''-'' # u @ CHR ''.'' # v) = Fin (- of_int (digits_val (u @ v)) / 10 ^ length v)"
    unfolding parseFloat_def sign
    by (simp_all add: inf digits assms(3) read_exponent_def scale [simplified] scale)
qed

lemma parseFloat_toFixed:
  assumes "0 < digits"
  shows "parseFloat (toFixed digits (Fin x))
       = Fin ((if x < 0 then -1 else 1) * of_int (fixed_units digits x) / 10 ^ digits)"
proof -
  define n where "n = fixed_units digits x"
  have n: "0 \<le> n" by (simp add: n_def fixed_units_def zero_le_floor)
  let ?u = "natural_text (nat (n div 10 ^ digits))" and ?v = "padded digits (n mod 10 ^ digits)"
  have "digits_val ?u = n div 10 ^ digits"
    using n by (simp add: digits_val_natural pos_imp_zdiv_nonneg_iff)
  moreover have "digits_val ?v = n mod 10 ^ digits" by (rule digits_val_padded) simp_all
  ultimately have val: "digits_val (?u @ ?v) = n"
    using div_mult_mod_eq [of n "10 ^ digits"] by (simp add: digits_val_append)
  note parse = parseFloat_fixed [OF natural_text_digits padded_digits natural_text_nonempty,
      of "nat (n div 10 ^ digits)" digits "n mod 10 ^ digits"]
  show ?thesis
    using parse assms by (simp add: val n_def [symmetric] Let_def)
qed

lemma fixed_units_near: "\<bar>of_int (fixed_units digits x) / 10 ^ digits - \<bar>x\<bar>\<bar> \<le> 1 / (2 * 10 ^ digits)"
proof -
  have "of_int (fixed_units digits x) \<le> \<bar>x\<bar> * 10 ^ digits + 1 / 2"
    "\<bar>x\<bar> * 10 ^ digits + 1 / 2 < of_int (fixed_units digits x) + 1"
    unfolding fixed_units_def by linarith+
  then have "\<bar>of_int (fixed_units digits x) - \<bar>x\<bar> * 10 ^ digits\<bar> \<le> 1 / 2" by linarith
  then have "\<bar>of_int (fixed_units digits x) - \<bar>x\<bar> * 10 ^ digits\<bar> / 10 ^ digits \<le> (1 / 2) / 10 ^ digits"
    by (intro divide_right_mono) simp_all
  moreover have "\<bar>of_int (fixed_units digits x) / 10 ^ digits - \<bar>x\<bar>\<bar>
      = \<bar>of_int (fixed_units digits x) - \<bar>x\<bar> * 10 ^ digits\<bar> / 10 ^ digits"
  proof -
    have "of_int (fixed_units digits x) / 10 ^ digits - \<bar>x\<bar>
        = (of_int (fixed_units digits x) - \<bar>x\<bar> * 10 ^ digits) / 10 ^ digits" by (simp add: field_simps)
    then show ?thesis by (simp only: abs_divide) simp
  qed
  ultimately show ?thesis by simp
qed

text \<open>What is shown is at most half a unit of its last digit from the number.\<close>

lemma toFixed_near:
  assumes "0 < digits"
  shows "\<exists>y. parseFloat (toFixed digits (Fin x)) = Fin y \<and> \<bar>y - x\<bar> \<le> 1 / (2 * 10 ^ digits)"
proof (cases "x < 0")
  case True
  then have "\<bar>- of_int (fixed_units digits x) / 10 ^ digits - x\<bar>
      = \<bar>of_int (fixed_units digits x) / 10 ^ digits - \<bar>x\<bar>\<bar>" by simp
  then show ?thesis using True fixed_units_near [of digits x] parseFloat_toFixed [OF assms, of x] by simp
next
  case False
  then show ?thesis using fixed_units_near [of digits x] parseFloat_toFixed [OF assms, of x] by simp
qed

section \<open>Dates past the end of a month\<close>

text \<open>
  The day of the month of a date and \<open>setDate\<close>: the date on a given day of the same month, which runs
  on into the next months when the month has no such day. Months have at most 31 days.
\<close>

definition setDate :: "date \<Rightarrow> int \<Rightarrow> date" where
  "setDate t d = ms_per_day * (month_start (month_of t) + d - 1) + t mod ms_per_day"

lemma day_number_setDate: "day_number (setDate t d) = month_start (month_of t) + d - 1"
  by (simp add: setDate_def day_number_def ms_per_day_def)

lemma time_of_setDate: "setDate t d mod ms_per_day = t mod ms_per_day"
  unfolding setDate_def by simp

lemma setDate_diff: "setDate t d = t + ms_per_day * (d - day_of_month t)"
proof -
  have "t = ms_per_day * day_number t + t mod ms_per_day"
    by (simp add: day_number_def)
  then have "t = ms_per_day * (month_start (month_of t) + day_of_month t - 1) + t mod ms_per_day"
    using month_of_bounds(3) [of t] by simp
  then show ?thesis by (simp add: setDate_def algebra_simps)
qed

lemma setDate_mono: "setDate t d < setDate t e \<longleftrightarrow> d < e"
  by (simp add: setDate_def ms_per_day_def)

section \<open>The lengths of months\<close>

lemma leap_step_upper:
  "(a + 1) div 4 - (a + 1) div 100 + (a + 1) div 400 \<le> a div 4 - a div 100 + a div 400 + 1" for a :: int
proof -
  define p c where "p = a div 4" and "c = p div 25"
  have eqs: "a div 100 = c" "a div 400 = c div 4" "(a + 1) div 100 = (a + 1) div 4 div 25"
    "(a + 1) div 400 = (a + 1) div 4 div 25 div 4"
    by (simp_all add: p_def c_def zdiv_zmult2_eq [symmetric])
  consider "(a + 1) div 4 = p" | "(a + 1) div 4 = p + 1" "(p + 1) div 25 = c"
    | "(a + 1) div 4 = p + 1" "(p + 1) div 25 = c + 1"
    using div_next [of 4 a] div_next [of 25 p] by (auto simp: p_def c_def)
  then show ?thesis
  proof cases
    case 1
    then show ?thesis unfolding eqs by (simp add: p_def c_def)
  next
    case 2
    then show ?thesis unfolding eqs by (simp add: p_def [symmetric])
  next
    case 3
    have "(c + 1) div 4 \<le> c div 4 + 1" using div_next [of 4 c] by auto
    with 3 show ?thesis unfolding eqs by (simp add: p_def [symmetric])
  qed
qed

lemma year_days_upper: "year_days y \<le> year_days (y - 1) + 366"
  using leap_step_upper [of "y - 1"] by (simp add: year_days_def left_diff_distrib)

lemma days_in_month_le:
  assumes "1 \<le> m" "m \<le> 12"
  shows "days_in_month y m \<le> 31"
proof -
  have "m = 1 \<or> m = 2 \<or> m = 3 \<or> m = 4 \<or> m = 5 \<or> m = 6 \<or> m = 7 \<or> m = 8 \<or> m = 9 \<or> m = 10
      \<or> m = 11 \<or> m = 12"
    using assms by presburger
  then show ?thesis
    unfolding days_in_month_def days_of_civil_year_days using year_days_upper [of y]
    by (elim disjE) simp_all
qed

lemma month_start_upper: "month_start (k + 1) \<le> month_start k + 31"
proof -
  define y m where "y = k div 12" and "m = k mod 12 + 1"
  have m: "1 \<le> m" "m \<le> 12" by (simp_all add: m_def)
  have k: "k = y * 12 + (m - 1)" by (simp add: y_def m_def)
  have start: "month_start k = days_of_civil y m 1" using month_start_civil [OF m] k by simp
  have "month_start (k + 1) = days_in_month y m + days_of_civil y m 1"
  proof (cases "m = 12")
    case True
    then have "k + 1 = (y + 1) * 12 + (1 - 1)" using k by simp
    then show ?thesis using True month_start_civil [of 1 "y + 1"]
      by (simp only: days_in_month_def) simp
  next
    case False
    then have "k + 1 = y * 12 + ((m + 1) - 1)" "m + 1 \<le> 12" using k m by simp_all
    then show ?thesis using False m month_start_civil [of "m + 1" y] by (simp add: days_in_month_def)
  qed
  then show ?thesis using days_in_month_le [OF m, of y] start by simp
qed

lemma day_of_month_upper: "day_of_month t \<le> 31"
  using month_of_bounds(2,3) [of t] month_start_upper [of "month_of t"] by linarith

lemma month_start_mono: "j \<le> k \<Longrightarrow> month_start j \<le> month_start k"
  using month_start_less [of j k] by (cases "j = k") auto

lemma month_of_mono: "day_number s \<le> day_number t \<Longrightarrow> month_of s \<le> month_of t"
proof (rule ccontr)
  assume "day_number s \<le> day_number t" "\<not> month_of s \<le> month_of t"
  then show False
    using month_of_bounds(1) [of s] month_of_bounds(2) [of t] month_start_mono [of "month_of t + 1" "month_of s"]
    by linarith
qed

text \<open>A day past the 31st lies in a later month, and not far from the month it was counted from.\<close>

lemma setDate_later_month: "31 < d \<Longrightarrow> month_of t < month_of (setDate t d)"
proof (rule ccontr)
  assume d: "31 < d" and "\<not> month_of t < month_of (setDate t d)"
  then have "month_start (month_of (setDate t d) + 1) \<le> month_start (month_of t + 1)"
    by (intro month_start_mono) simp
  with month_of_bounds(2) [of "setDate t d"] month_start_upper [of "month_of t"] d
  show False by (simp add: day_number_setDate)
qed

lemma setDate_same_month:
  assumes "1 \<le> d" and "month_start (month_of t) + d \<le> month_start (month_of t + 1)"
  shows "month_of (setDate t d) = month_of t"
  by (rule month_of_unique) (use assms in \<open>simp_all add: day_number_setDate\<close>)

end
