(* ===== verification/Aws_Cloud_Watch.thy ===== *)
theory Aws_Cloud_Watch
  imports Aws_Athena Aws_Instances Core_Compute_Usage Js_Format Js_Effects
begin

text \<open>
  What the services of \<open>packages/aws/src/lib\<close> have in common: the requests to Cost Explorer and CloudWatch
  and their pages (\<open>ServiceWrapper.ts\<close>), and the mappers of the answers to costs (\<open>CostMapper.ts\<close>), to
  storage usage and its estimates (\<open>StorageUsageMapper.ts\<close>) and to compute usage
  (\<open>ComputeUsageMapper.ts\<close>). The clients of AWS are parameters. An answer that never ends is \<open>None\<close>.
\<close>

section \<open>Intervals\<close>

text \<open>
  \<open>getQueryByInterval\<close> of \<open>packages/aws/src/lib/ServiceWrapper.ts\<close>: a query for each of the intervals
  that a period is cut into. Every new date is counted from the day of the month of the first one, so
  the loop does not always move on; it is a partial function.
\<close>

partial_function (option) query_windows ::
    "int \<Rightarrow> date \<Rightarrow> date \<Rightarrow> (date \<times> date) list \<Rightarrow> date \<Rightarrow> date \<Rightarrow> (date \<times> date) list option" where
  "query_windows intervalInDays start end windows startCopy endCopy =
     (if endCopy < end then
        (let startCopy' = setDate startCopy (day_of_month start + intervalInDays) in
         query_windows intervalInDays start end (windows @ [(startCopy, endCopy)]) startCopy'
           (setDate startCopy' (day_of_month start + intervalInDays)))
      else Some (windows @ [(startCopy, end)]))"

text \<open>The queries are sent while the loop runs, and awaited together.\<close>

definition getQueryByInterval ::
    "int \<Rightarrow> (date \<Rightarrow> date \<Rightarrow> 'a promise) \<Rightarrow> date \<Rightarrow> date \<Rightarrow> 'a list promise" where
  "getQueryByInterval intervalInDays query start end =
     (case query_windows intervalInDays start end [] start
             (setDate start (day_of_month start + intervalInDays)) of
        None \<Rightarrow> None
      | Some windows \<Rightarrow> promise_all (map (\<lambda>(s, e). query s e) windows))"

section \<open>The windows\<close>

text \<open>Windows that meet, from one date to another.\<close>

fun meeting :: "date \<Rightarrow> (date \<times> date) list \<Rightarrow> date \<Rightarrow> bool" where
  "meeting a [] b \<longleftrightarrow> a = b"
| "meeting a ((s, e) # ws) b \<longleftrightarrow> s = a \<and> meeting e ws b"

lemma meeting_append: "meeting a (us @ vs) c \<longleftrightarrow> (\<exists>b. meeting a us b \<and> meeting b vs c)"
  by (induction a us c rule: meeting.induct) auto

lemma query_windows_meet:
  assumes "query_windows n start end windows s e = Some ws"
    and "e = setDate s (day_of_month start + n)" and "meeting start windows s"
  shows "meeting start ws end \<and> ws \<noteq> []"
proof -
  have "e = setDate s (day_of_month start + n) \<longrightarrow> meeting start windows s \<longrightarrow> meeting start ws end \<and> ws \<noteq> []"
    by (rule query_windows.raw_induct [where P = "\<lambda>n start end windows s e ws.
          e = setDate s (day_of_month start + n) \<longrightarrow> meeting start windows s \<longrightarrow> meeting start ws end \<and> ws \<noteq> []",
          OF _ assms(1)])
      (auto simp: Let_def meeting_append split: if_splits)
  with assms(2,3) show ?thesis by simp
qed

text \<open>
  The loop moves on when the day it counts to is past the 31st: it is then in a later month than the
  one it was counted from.
\<close>

lemma query_windows_returns:
  assumes "31 < day_of_month start + n" and "e = setDate s (day_of_month start + n)"
  shows "\<exists>ws. query_windows n start end windows s e = Some ws"
  using assms(2)
proof (induction "nat (month_of end - month_of e + 1)" arbitrary: windows s e rule: less_induct)
  case less
  show ?case
  proof (cases "e < end")
    case False
    then show ?thesis by (subst query_windows.simps) simp
  next
    case True
    define s' where "s' = setDate s (day_of_month start + n)"
    define e' where "e' = setDate s' (day_of_month start + n)"
    have "month_of e < month_of e'"
      using setDate_later_month [OF assms(1), of s'] less.prems by (simp add: e'_def s'_def)
    moreover have "month_of e \<le> month_of end"
      by (rule month_of_mono) (use True in \<open>simp add: day_number_def zdiv_mono1 ms_per_day_def\<close>)
    ultimately have "\<exists>ws. query_windows n start end (windows @ [(s, e)]) s' e' = Some ws"
      by (intro less.hyps) (auto simp: e'_def)
    then show ?thesis by (subst query_windows.simps) (simp add: True Let_def s'_def e'_def)
  qed
qed

text \<open>
  Once the day it counts to is in the month it counts from, the date of that day is counted to again,
  and a later end of the period is never reached.
\<close>

lemma query_windows_stuck:
  assumes "1 \<le> day_of_month start + n"
    and "month_start (month_of s) + (day_of_month start + n) \<le> month_start (month_of s + 1)"
    and "e = setDate s (day_of_month start + n)" and "e < end"
  shows "query_windows n start end windows s e = None"
proof (rule ccontr)
  let ?stuck = "\<lambda>n start end s e. 1 \<le> day_of_month start + n
      \<and> month_start (month_of s) + (day_of_month start + n) \<le> month_start (month_of s + 1)
      \<and> e = setDate s (day_of_month start + n) \<and> e < end"
  assume "query_windows n start end windows s e \<noteq> None"
  then obtain ws where ws: "query_windows n start end windows s e = Some ws" by auto
  have again: "?stuck n start end s' (setDate s' (day_of_month start + n))"
    if "?stuck n start end s e" and "s' = setDate s (day_of_month start + n)" for n start "end" s s' e
  proof -
    have "month_of s' = month_of s"
      using that by (simp add: setDate_same_month)
    moreover from this have "setDate s' (day_of_month start + n) = s'"
      using that(2) by (simp add: setDate_def time_of_setDate [unfolded setDate_def])
    ultimately show ?thesis using that by simp
  qed
  have "\<not> ?stuck n start end s e"
    by (rule query_windows.raw_induct [where P = "\<lambda>n start end windows s e ws. \<not> ?stuck n start end s e",
          OF _ ws])
      (use again in \<open>fastforce simp: Let_def split: if_splits\<close>)
  with assms show False by blast
qed

section \<open>Requests and answers\<close>

record cost_request =
  cq_Start :: string
  cq_End :: string
  cq_And :: "(string \<times> string list) list"
  cq_Granularity :: string
  cq_Metrics :: "string list"
  cq_GroupBy :: "(string \<times> string) list"

record cost_metric =
  cm_Amount :: string
  cm_Unit :: string

record cost_group =
  cg_Keys :: "string list"
  cg_Metrics :: "cost_metric obj"

record result_by_time =
  rt_Start :: string
  rt_Groups :: "cost_group list"

record metric_query =
  mq_Id :: string
  mq_Expression :: string
  mq_ReturnData :: "bool option"

record metric_request =
  mr_StartTime :: date
  mr_EndTime :: date
  mr_MetricDataQueries :: "metric_query list"
  mr_ScanBy :: string

record metric_result = MetricDataResult +
  md_StatusCode :: string

text \<open>A client answers a request for a page with an error, or the page and the token of the next one.\<close>

record aws_clients =
  wc_costs :: "cost_request \<Rightarrow> string option \<Rightarrow> string + (result_by_time list \<times> string option)"
  wc_metrics :: "metric_request \<Rightarrow> string option \<Rightarrow> string + (metric_result list \<times> string option)"

section \<open>ServiceWrapper.ts\<close>

definition checkForPartialData :: "metric_result list \<Rightarrow> unit result" where
  "checkForPartialData results =
     (if list_ex (\<lambda>r. md_StatusCode r = ''PartialData'') results
      then Inl (Thrown ''Partial Data Returned from AWS'') else Inr ())"

definition getCostAndUsageResponses :: "aws_clients \<Rightarrow> cost_request \<Rightarrow> result_by_time list list promise" where
  "getCostAndUsageResponses W params = paginate (wc_costs W params) [] None"

text \<open>A page is checked as soon as it is there, so a partial one ends the paging.\<close>

definition metric_page ::
    "aws_clients \<Rightarrow> metric_request \<Rightarrow> string option \<Rightarrow> string + (metric_result list \<times> string option)" where
  "metric_page W params token =
     bindR (wc_metrics W params token) (\<lambda>(results, nextToken).
       case checkForPartialData results of
         Inl e \<Rightarrow> Inl (error_message e)
       | Inr _ \<Rightarrow> Inr (results, nextToken))"

definition getMetricDataResponses :: "aws_clients \<Rightarrow> metric_request \<Rightarrow> metric_result list list promise" where
  "getMetricDataResponses W params = paginate (metric_page W params) [] None"

section \<open>Rows of Cost Explorer\<close>

text \<open>The groups of every day of every page, each with its day, and the function of the mapper on them.\<close>

definition cost_rows :: "(string \<Rightarrow> cost_group \<Rightarrow> 'a result) \<Rightarrow> result_by_time list list \<Rightarrow> 'a list result" where
  "cost_rows f responses =
     bindR (mapR (mapR (\<lambda>result. mapR (f (rt_Start result)) (rt_Groups result))) responses)
       (\<lambda>rows. Inr (concat (concat rows)))"

text \<open>\<open>group.Metrics.<name>\<close>, whose members are read.\<close>

definition metric_of :: "cost_group \<Rightarrow> string \<Rightarrow> cost_metric result" where
  "metric_of g name = (case obj_get (cg_Metrics g) name of None \<Rightarrow> Inl TypeError | Some m \<Rightarrow> Inr m)"

definition first_key :: "cost_group \<Rightarrow> string result" where
  "first_key g = (case elem_at (cg_Keys g) 0 of None \<Rightarrow> Inl TypeError | Some k \<Rightarrow> Inr k)"

definition cost_of_group :: "string \<Rightarrow> cost_group \<Rightarrow> Cost result" where
  "cost_of_group timestampString g =
     bindR (metric_of g ''AmortizedCost'') (\<lambda>m.
       Inr \<lparr>co_timestamp = parse_date timestampString, co_amount = parseFloat (cm_Amount m),
            co_currency = cm_Unit m\<rparr>)"

definition getCostFromCostExplorer :: "aws_clients \<Rightarrow> cost_request \<Rightarrow> Cost list promise" where
  "getCostFromCostExplorer W params =
     awaitP (getCostAndUsageResponses W params) (\<lambda>responses. Some (cost_rows cost_of_group responses))"

section \<open>StorageUsageMapper.ts\<close>

datatype DiskType = DISK_SSD | DISK_HDD | DISK_UNKNOWN

record VolumeUsage = StorageUsage +
  vu_diskType :: DiskType

definition estimateTerabyteHours :: "moment_ops \<Rightarrow> jsnum \<Rightarrow> string \<Rightarrow> jsnum" where
  "estimateTerabyteHours M sizeGbMonth timestamp =
     (sizeGbMonth / 1000)
     * (case parse_date timestamp of None \<Rightarrow> NaN | Some t \<Rightarrow> Fin (of_int (m_daysInMonth M t))) * 24"

definition volume_of_group ::
    "moment_ops \<Rightarrow> (string \<Rightarrow> DiskType) \<Rightarrow> string \<Rightarrow> cost_group \<Rightarrow> VolumeUsage result" where
  "volume_of_group M diskTypeCallBack timestampString g =
     bindR (metric_of g ''UsageQuantity'') (\<lambda>m.
     bindR (first_key g) (\<lambda>k.
       Inr \<lparr>su_timestamp = parse_date timestampString,
            su_terabyteHours = estimateTerabyteHours M (parseFloat (cm_Amount m)) timestampString,
            vu_diskType = diskTypeCallBack k\<rparr>))"

definition getUsageFromCostExplorer ::
    "moment_ops \<Rightarrow> aws_clients \<Rightarrow> cost_request \<Rightarrow> (string \<Rightarrow> DiskType) \<Rightarrow> VolumeUsage list promise" where
  "getUsageFromCostExplorer M W params diskTypeCallBack =
     awaitP (getCostAndUsageResponses W params) (\<lambda>responses.
       Some (bindR (cost_rows (volume_of_group M diskTypeCallBack) responses)
               (\<lambda>usages. Inr (filter (\<lambda>u. truthy (su_terabyteHours u)) usages))))"

text \<open>
  The accumulator is an object by the text of the instant; the text of an unreadable date throws. The
  first estimate of an instant is the entry, and the others are added to it.
\<close>

definition with_instant :: "FootprintEstimate \<Rightarrow> (string \<times> FootprintEstimate) result" where
  "with_instant estimate =
     (case fe_timestamp estimate of None \<Rightarrow> Inl RangeError | Some t \<Rightarrow> Inr (toISOString t, estimate))"

definition add_estimates :: "string \<times> FootprintEstimate \<Rightarrow> FootprintEstimate option \<Rightarrow> FootprintEstimate" where
  "add_estimates e old =
     (case old of
        None \<Rightarrow> snd e
      | Some a \<Rightarrow> a\<lparr>fe_co2e := fe_co2e a + fe_co2e (snd e),
                    fe_kilowattHours := fe_kilowattHours a + fe_kilowattHours (snd e)\<rparr>)"

definition estimates_by_instant :: "FootprintEstimate list \<Rightarrow> FootprintEstimate list result" where
  "estimates_by_instant estimates =
     bindR (mapR with_instant estimates) (\<lambda>es. Inr (obj_values (group_fold fst add_estimates [] es)))"

definition estimate_volumes ::
    "jsnum \<Rightarrow> VolumeUsage list \<Rightarrow> string \<Rightarrow> emissions_factors \<Rightarrow> CloudConstants \<Rightarrow> FootprintEstimate list" where
  "estimate_volumes coefficient usages region emissionsFactors constants =
     StorageEstimator_estimate coefficient (map StorageUsage.truncate usages) region emissionsFactors constants"

definition getEstimatesFromCostExplorer ::
    "string \<Rightarrow> VolumeUsage list \<Rightarrow> emissions_factors \<Rightarrow> CloudConstants \<Rightarrow> FootprintEstimate list result" where
  "getEstimatesFromCostExplorer region volumeUsages emissionsFactors constants =
     (let ssdUsage = filter (\<lambda>u. vu_diskType u = DISK_SSD) volumeUsages;
          hddUsage = filter (\<lambda>u. vu_diskType u = DISK_HDD) volumeUsages
      in estimates_by_instant
           (estimate_volumes aws_SSDCOEFFICIENT ssdUsage region emissionsFactors constants
            @ estimate_volumes aws_HDDCOEFFICIENT hddUsage region emissionsFactors constants))"

section \<open>ComputeUsageMapper.ts\<close>

definition node_vcpus :: "rat obj \<Rightarrow> cost_group \<Rightarrow> jsnum result" where
  "node_vcpus NODE_TYPES g =
     bindR (metric_of g ''UsageQuantity'') (\<lambda>m.
     bindR (first_key g) (\<lambda>k.
       Inr (parseInt (cm_Amount m)
            * toNum (map_option Fin (obj_get NODE_TYPES (text_of (elem_at (split k '':'') 1)))))))"

definition vcpus_of_day :: "rat obj \<Rightarrow> result_by_time \<Rightarrow> RawComputeUsage list result" where
  "vcpus_of_day NODE_TYPES result =
     (if 0 < length (rt_Groups result) then
        bindR (foldR (\<lambda>s g. bindR (node_vcpus NODE_TYPES g) (\<lambda>x. Inr (s + x))) 0 (rt_Groups result))
          (\<lambda>s. Inr [\<lparr>ru_id = ''vCPUs'', ru_timestamp = rt_Start result, ru_value = Some s\<rparr>])
      else Inr [])"

definition getNumberVcpusByDate :: "result_by_time list list \<Rightarrow> rat obj \<Rightarrow> RawComputeUsage list result" where
  "getNumberVcpusByDate responses NODE_TYPES =
     bindR (mapR (vcpus_of_day NODE_TYPES) (concat responses)) (\<lambda>days. Inr (concat days))"

definition raw_usages :: "metric_result list list \<Rightarrow> RawComputeUsage list" where
  "raw_usages responses =
     concat (map (\<lambda>r. extractRawComputeUsages (MetricDataResult.truncate r)) (concat responses))"

definition aws_utilization_constants :: CloudConstants where
  "aws_utilization_constants = no_constants\<lparr>cc_avgCpuUtilization := Some aws_AVG_CPU_UTILIZATION_2020\<rparr>"

definition getComputeUsage ::
    "metric_result list list \<Rightarrow> result_by_time list list \<Rightarrow> rat obj \<Rightarrow> ComputeUsage list result" where
  "getComputeUsage metricDataResponses costAndUsageResponses NODE_TYPES =
     (let rawCpuUtilizations = map (\<lambda>u. u\<lparr>ru_timestamp := take 10 (ru_timestamp u)\<rparr>) (raw_usages metricDataResponses)
      in bindR (getNumberVcpusByDate costAndUsageResponses NODE_TYPES) (\<lambda>rawvCpuHours.
           Inr (buildComputeUsages (rawCpuUtilizations @ rawvCpuHours) aws_utilization_constants)))"

end
