(* ===== verification/Aws_Services.thy ===== *)
theory Aws_Services
  imports Aws_Cloud_Watch
begin

text \<open>
  The services of \<open>packages/aws/src/lib\<close> that are read from Cost Explorer and CloudWatch: \<open>EBS.ts\<close>,
  \<open>S3.ts\<close>, \<open>EC2.ts\<close>, \<open>ElastiCache.ts\<close>, \<open>RDSCompute.ts\<close>, \<open>RDSStorage.ts\<close> and \<open>RDS.ts\<close>, on the two
  abstract services of \<open>packages/core/src\<close>. An answer that never ends is \<open>None\<close>.
\<close>

section \<open>The services of the core package\<close>

type_synonym 'a service_query = "date \<Rightarrow> date \<Rightarrow> string \<Rightarrow> 'a promise"

text \<open>\<open>storage/StorageService.ts\<close> and \<open>compute/ServiceWithCPUUtilization.ts\<close>.\<close>

definition StorageService_getEstimates ::
    "jsnum \<Rightarrow> StorageUsage list service_query \<Rightarrow> date \<Rightarrow> date \<Rightarrow> string \<Rightarrow> emissions_factors \<Rightarrow>
     CloudConstants \<Rightarrow> FootprintEstimate list promise" where
  "StorageService_getEstimates storageCoefficient usage_of start end region emissionsFactors constants =
     awaitP (usage_of start end region) (\<lambda>usage.
       Some (Inr (StorageEstimator_estimate storageCoefficient usage region emissionsFactors constants)))"

definition ServiceWithCPUUtilization_getEstimates ::
    "ComputeUsage list service_query \<Rightarrow> date \<Rightarrow> date \<Rightarrow> string \<Rightarrow> emissions_factors \<Rightarrow> CloudConstants \<Rightarrow>
     FootprintEstimate list promise" where
  "ServiceWithCPUUtilization_getEstimates usage_of start end region emissionsFactors constants =
     awaitP (usage_of start end region) (\<lambda>usage.
       Some (Inr (ComputeEstimator_estimate usage region emissionsFactors constants)))"

section \<open>The requests\<close>

definition cost_params :: "date \<Rightarrow> date \<Rightarrow> (string \<times> string list) list \<Rightarrow> string \<Rightarrow> cost_request" where
  "cost_params start end filters metric =
     \<lparr>cq_Start = iso_day start, cq_End = iso_day end, cq_And = filters, cq_Granularity = ''DAILY'',
      cq_Metrics = [metric], cq_GroupBy = [(''USAGE_TYPE'', ''DIMENSION'')]\<rparr>"

definition cpu_query :: "string \<Rightarrow> metric_query list" where
  "cpu_query search =
     [\<lparr>mq_Id = ''cpuUtilizationWithEmptyValues'', mq_Expression = search, mq_ReturnData = Some False\<rparr>,
      \<lparr>mq_Id = ''cpuUtilization'', mq_Expression = ''REMOVE_EMPTY(cpuUtilizationWithEmptyValues)'',
       mq_ReturnData = None\<rparr>]"

definition metric_params :: "date \<Rightarrow> date \<Rightarrow> metric_query list \<Rightarrow> metric_request" where
  "metric_params start end queries =
     \<lparr>mr_StartTime = start, mr_EndTime = end, mr_MetricDataQueries = queries,
      mr_ScanBy = ''TimestampAscending''\<rparr>"

section \<open>EBS.ts\<close>

definition EBS_filter :: "string \<Rightarrow> (string \<times> string list) list" where
  "EBS_filter region =
     [(''USAGE_TYPE_GROUP'', [''EC2: EBS - SSD(gp2)'', ''EC2: EBS - SSD(io1)'', ''EC2: EBS - HDD(sc1)'',
        ''EC2: EBS - HDD(st1)'', ''EC2: EBS - Magnetic'']),
      (''REGION'', [region])]"

definition EBS_getDiskType :: "string \<Rightarrow> DiskType" where
  "EBS_getDiskType awsGroupKey =
     (if endsWith awsGroupKey ''VolumeUsage.gp2'' \<or> endsWith awsGroupKey ''VolumeUsage.piops'' then DISK_SSD
      else if endsWith awsGroupKey ''VolumeUsage.st1'' \<or> endsWith awsGroupKey ''VolumeUsage.sc1''
           \<or> endsWith awsGroupKey ''VolumeUsage'' then DISK_HDD
      else DISK_UNKNOWN)"

definition EBS_getUsage :: "moment_ops \<Rightarrow> aws_clients \<Rightarrow> VolumeUsage list service_query" where
  "EBS_getUsage M W startDate endDate region =
     getUsageFromCostExplorer M W (cost_params startDate endDate (EBS_filter region) ''UsageQuantity'')
       EBS_getDiskType"

definition EBS_getEstimates ::
    "moment_ops \<Rightarrow> aws_clients \<Rightarrow> date \<Rightarrow> date \<Rightarrow> string \<Rightarrow> emissions_factors \<Rightarrow> CloudConstants \<Rightarrow>
     FootprintEstimate list promise" where
  "EBS_getEstimates M W start end region emissionsFactors constants =
     awaitP (EBS_getUsage M W start end region) (\<lambda>usage.
       Some (getEstimatesFromCostExplorer region usage emissionsFactors constants))"

definition EBS_getCosts :: "aws_clients \<Rightarrow> Cost list service_query" where
  "EBS_getCosts W start end region =
     getCostFromCostExplorer W (cost_params start end (EBS_filter region) ''AmortizedCost'')"

section \<open>S3.ts\<close>

definition S3_query :: metric_query where
  "S3_query =
     \<lparr>mq_Id = ''s3Size'',
      mq_Expression = ''SUM(SEARCH('' @ apos @ ''{AWS/S3,BucketName,StorageType} MetricName='' @ dquote
        @ ''BucketSizeBytes'' @ dquote @ '' StorageType='' @ dquote @ ''StandardStorage'' @ dquote @ apos
        @ '', '' @ apos @ ''Average'' @ apos @ '', 86400))'',
      mq_ReturnData = None\<rparr>"

definition S3_usage_of :: "metric_result \<Rightarrow> StorageUsage list" where
  "S3_usage_of s3ResponseData =
     filter (\<lambda>r. truthy (su_terabyteHours r))
       (map (\<lambda>(i, timestamp).
              \<lparr>su_timestamp = Some timestamp,
               su_terabyteHours = (toNum (elem_at (md_Values s3ResponseData) i) / 1099511627776) * 24\<rparr>)
         (enumerate 0 (md_Timestamps s3ResponseData)))"

definition S3_getUsage :: "aws_clients \<Rightarrow> StorageUsage list service_query" where
  "S3_getUsage W startDate endDate region =
     awaitP (getMetricDataResponses W (metric_params startDate endDate [S3_query])) (\<lambda>responses.
       case elem_at (hd responses) 0 of
         None \<Rightarrow> Some (Inl TypeError)
       | Some s3ResponseData \<Rightarrow> Some (Inr (S3_usage_of s3ResponseData)))"

definition S3_getEstimates ::
    "aws_clients \<Rightarrow> date \<Rightarrow> date \<Rightarrow> string \<Rightarrow> emissions_factors \<Rightarrow> CloudConstants \<Rightarrow> FootprintEstimate list promise" where
  "S3_getEstimates W = StorageService_getEstimates aws_HDDCOEFFICIENT (S3_getUsage W)"

definition S3_getCosts :: "aws_clients \<Rightarrow> Cost list service_query" where
  "S3_getCosts W start end region =
     getCostFromCostExplorer W
       (cost_params start end [(''REGION'', [region]), (''SERVICE'', [''Amazon Simple Storage Service''])]
         ''AmortizedCost'')"

section \<open>EC2.ts\<close>

definition EC2_queries :: "metric_query list" where
  "EC2_queries =
     cpu_query (''SEARCH('' @ apos @ ''{AWS/EC2,InstanceId} MetricName='' @ dquote @ ''CPUUtilization''
         @ dquote @ apos @ '', '' @ apos @ ''Average'' @ apos @ '', 3600)'')
     @ [\<lparr>mq_Id = ''vCPUs'',
         mq_Expression = ''SEARCH('' @ apos @ ''{AWS/Usage,Resource,Type,Service,Class } Resource='' @ dquote
           @ ''vCPU'' @ dquote @ '' MetricName='' @ dquote @ ''ResourceCount'' @ dquote @ apos @ '', '' @ apos
           @ ''Average'' @ apos @ '', 3600)'',
         mq_ReturnData = None\<rparr>]"

definition EC2_runQuery :: "aws_clients \<Rightarrow> date \<Rightarrow> date \<Rightarrow> ComputeUsage list promise" where
  "EC2_runQuery W start end =
     awaitP (getMetricDataResponses W (metric_params start end EC2_queries)) (\<lambda>responses.
       Some (Inr (buildComputeUsages (raw_usages responses) aws_utilization_constants)))"

definition EC2_getUsage :: "aws_clients \<Rightarrow> ComputeUsage list service_query" where
  "EC2_getUsage W start end region =
     awaitP (getQueryByInterval 30 (EC2_runQuery W) start end) (\<lambda>response. Some (Inr (concat response)))"

definition EC2_getEstimates ::
    "aws_clients \<Rightarrow> date \<Rightarrow> date \<Rightarrow> string \<Rightarrow> emissions_factors \<Rightarrow> CloudConstants \<Rightarrow> FootprintEstimate list promise" where
  "EC2_getEstimates W = ServiceWithCPUUtilization_getEstimates (EC2_getUsage W)"

definition EC2_getCosts :: "aws_clients \<Rightarrow> Cost list service_query" where
  "EC2_getCosts W start end region =
     getCostFromCostExplorer W
       (cost_params start end [(''REGION'', [region]), (''USAGE_TYPE_GROUP'', [''EC2: Running Hours''])]
         ''AmortizedCost'')"

section \<open>ElastiCache.ts\<close>

definition ElastiCache_filter :: "string \<Rightarrow> (string \<times> string list) list" where
  "ElastiCache_filter region =
     [(''USAGE_TYPE_GROUP'', [''ElastiCache: Running Hours'']), (''REGION'', [region])]"

definition ElastiCache_queries :: "metric_query list" where
  "ElastiCache_queries =
     cpu_query (''SEARCH('' @ apos @ ''{AWS/ElastiCache} MetricName='' @ dquote @ ''CPUUtilization'' @ dquote
       @ apos @ '', '' @ apos @ ''Average'' @ apos @ '', 3600)'')"

definition ElastiCache_getUsage :: "aws_clients \<Rightarrow> ComputeUsage list service_query" where
  "ElastiCache_getUsage W start end region =
     awaitP (getMetricDataResponses W (metric_params start end ElastiCache_queries)) (\<lambda>metricDataResponses.
     awaitP (getCostAndUsageResponses W (cost_params start end (ElastiCache_filter region) ''UsageQuantity''))
       (\<lambda>costAndUsageResponses.
         Some (getComputeUsage metricDataResponses costAndUsageResponses CACHE_NODE_TYPES)))"

definition ElastiCache_getEstimates ::
    "aws_clients \<Rightarrow> date \<Rightarrow> date \<Rightarrow> string \<Rightarrow> emissions_factors \<Rightarrow> CloudConstants \<Rightarrow> FootprintEstimate list promise" where
  "ElastiCache_getEstimates W = ServiceWithCPUUtilization_getEstimates (ElastiCache_getUsage W)"

definition ElastiCache_getCosts :: "aws_clients \<Rightarrow> Cost list service_query" where
  "ElastiCache_getCosts W start end region =
     getCostFromCostExplorer W (cost_params start end (ElastiCache_filter region) ''AmortizedCost'')"

section \<open>RDSCompute.ts and RDSStorage.ts\<close>

definition RDSCompute_filter :: "string \<Rightarrow> (string \<times> string list) list" where
  "RDSCompute_filter region =
     [(''REGION'', [region]), (''USAGE_TYPE_GROUP'', [''RDS: Running Hours''])]"

definition RDSCompute_getCpuUtilization :: "aws_clients \<Rightarrow> date \<Rightarrow> date \<Rightarrow> metric_result list list promise" where
  "RDSCompute_getCpuUtilization W start end =
     getMetricDataResponses W (metric_params start end
       (cpu_query (''SEARCH('' @ apos @ ''{AWS/RDS} MetricName='' @ dquote @ ''CPUUtilization'' @ dquote
          @ apos @ '', '' @ apos @ ''Average'' @ apos @ '', 3600)'')))"

definition RDSCompute_getTotalVCpusByDate ::
    "aws_clients \<Rightarrow> date \<Rightarrow> date \<Rightarrow> string \<Rightarrow> result_by_time list list promise" where
  "RDSCompute_getTotalVCpusByDate W start end region =
     getCostAndUsageResponses W (cost_params start end (RDSCompute_filter region) ''UsageQuantity'')"

definition RDSCompute_getUsage :: "aws_clients \<Rightarrow> ComputeUsage list service_query" where
  "RDSCompute_getUsage W start end region =
     awaitP (RDSCompute_getCpuUtilization W start end) (\<lambda>metricDataResponses.
     awaitP (RDSCompute_getTotalVCpusByDate W start end region) (\<lambda>costAndUsageResponses.
         Some (getComputeUsage metricDataResponses costAndUsageResponses RDS_INSTANCE_TYPES)))"

definition RDSCompute_getEstimates ::
    "aws_clients \<Rightarrow> date \<Rightarrow> date \<Rightarrow> string \<Rightarrow> emissions_factors \<Rightarrow> CloudConstants \<Rightarrow> FootprintEstimate list promise" where
  "RDSCompute_getEstimates W = ServiceWithCPUUtilization_getEstimates (RDSCompute_getUsage W)"

definition RDSCompute_getCosts :: "aws_clients \<Rightarrow> Cost list service_query" where
  "RDSCompute_getCosts W start end region =
     getCostFromCostExplorer W (cost_params start end (RDSCompute_filter region) ''AmortizedCost'')"

definition RDSStorage_filter :: "string \<Rightarrow> (string \<times> string list) list" where
  "RDSStorage_filter region = [(''REGION'', [region]), (''USAGE_TYPE_GROUP'', [''RDS: Storage''])]"

definition RDSStorage_getDiskType :: "string \<Rightarrow> DiskType" where
  "RDSStorage_getDiskType awsGroupKey =
     (if endsWith awsGroupKey ''GP2-Storage'' \<or> endsWith awsGroupKey ''PIOPS-Storage'' then DISK_SSD
      else if endsWith awsGroupKey ''StorageUsage'' \<or> endsWith awsGroupKey ''ChargedBackupUsage'' then DISK_HDD
      else DISK_UNKNOWN)"

definition RDSStorage_getUsage :: "moment_ops \<Rightarrow> aws_clients \<Rightarrow> VolumeUsage list service_query" where
  "RDSStorage_getUsage M W startDate endDate region =
     getUsageFromCostExplorer M W (cost_params startDate endDate (RDSStorage_filter region) ''UsageQuantity'')
       RDSStorage_getDiskType"

definition RDSStorage_getEstimates ::
    "moment_ops \<Rightarrow> aws_clients \<Rightarrow> date \<Rightarrow> date \<Rightarrow> string \<Rightarrow> emissions_factors \<Rightarrow> CloudConstants \<Rightarrow>
     FootprintEstimate list promise" where
  "RDSStorage_getEstimates M W start end region emissionsFactors constants =
     awaitP (RDSStorage_getUsage M W start end region) (\<lambda>usage.
       Some (getEstimatesFromCostExplorer region usage emissionsFactors constants))"

definition RDSStorage_getCosts :: "aws_clients \<Rightarrow> Cost list service_query" where
  "RDSStorage_getCosts W start end region =
     getCostFromCostExplorer W (cost_params start end (RDSStorage_filter region) ''AmortizedCost'')"

section \<open>RDS.ts\<close>

text \<open>
  The entries of \<open>result\<close> are keyed by a number; \<open>Object.values\<close> lists the ones whose key is an array
  index first, by the index, and the others in the order in which they were added.
\<close>

definition is_array_index :: "date option \<Rightarrow> bool" where
  "is_array_index k = (case k of None \<Rightarrow> False | Some t \<Rightarrow> 0 \<le> t \<and> t < 4294967295)"

definition values_by_time :: "(date option \<times> 'a) list \<Rightarrow> 'a list" where
  "values_by_time d =
     map snd (sort_key (\<lambda>e. the (fst e)) (filter (\<lambda>e. is_array_index (fst e)) d)
              @ filter (\<lambda>e. \<not> is_array_index (fst e)) d)"

definition add_rds_estimate :: "FootprintEstimate \<Rightarrow> FootprintEstimate option \<Rightarrow> FootprintEstimate" where
  "add_rds_estimate estimate old =
     (case old of
        Some a \<Rightarrow> a\<lparr>fe_co2e := fe_co2e a + fe_co2e estimate,
                    fe_kilowattHours := fe_kilowattHours a + fe_kilowattHours estimate\<rparr>
      | None \<Rightarrow> \<lparr>fe_timestamp = fe_timestamp estimate, fe_kilowattHours = fe_kilowattHours estimate,
                 fe_co2e = fe_co2e estimate, fe_usesAverageCPUConstant = None\<rparr>)"

definition RDS_getEstimates ::
    "moment_ops \<Rightarrow> aws_clients \<Rightarrow> date \<Rightarrow> date \<Rightarrow> string \<Rightarrow> emissions_factors \<Rightarrow> CloudConstants \<Rightarrow>
     FootprintEstimate list promise" where
  "RDS_getEstimates M W start end region emissionsFactors constants =
     awaitP (promise_all [RDSCompute_getEstimates W start end region emissionsFactors constants,
                          RDSStorage_getEstimates M W start end region emissionsFactors constants])
       (\<lambda>resolvedEstimates. Some (Inr (values_by_time
          (group_fold fe_timestamp add_rds_estimate [] (concat resolvedEstimates)))))"

text \<open>A day of the costs, as \<open>format\<close> shows it, and the accumulator that starts without a currency.\<close>

definition cost_day :: "Cost \<Rightarrow> string" where
  "cost_day cost = (case co_timestamp cost of None \<Rightarrow> ''Invalid date'' | Some t \<Rightarrow> iso_day t)"

definition accumulate_rds_cost :: "Cost \<Rightarrow> Cost \<Rightarrow> Cost" where
  "accumulate_rds_cost accumulator cost =
     \<lparr>co_timestamp = (if co_timestamp accumulator \<noteq> None then co_timestamp accumulator
                      else parse_date (cost_day cost)),
      co_amount = co_amount accumulator + co_amount cost,
      co_currency = (if co_currency cost \<noteq> [] then co_currency cost else ''USD'')\<rparr>"

definition RDS_getCosts :: "(Cost, Cost) reduce_by \<Rightarrow> aws_clients \<Rightarrow> Cost list service_query" where
  "RDS_getCosts reduceBy W start end region =
     awaitP (RDSCompute_getCosts W start end region) (\<lambda>rdsComputeCosts.
     awaitP (RDSStorage_getCosts W start end region) (\<lambda>rdsStorageCosts.
       Some (Inr (obj_values (reduceBy accumulate_rds_cost
         \<lparr>co_timestamp = None, co_amount = 0, co_currency = []\<rparr> cost_day
         (rdsComputeCosts @ rdsStorageCosts))))))"

section \<open>Lambda.ts\<close>

text \<open>
  \<open>packages/aws/src/lib/Lambda.ts\<close>: the energy of the functions from the reports in their log groups. The
  groups are queried twenty at a time, an interval of 60 days at a time; a query is started when fewer
  than ten are running, and its results are polled until they are there or a time has passed. The
  client of CloudWatch Logs and the clock are parameters: what the \<open>n\<close>-th poll of a query sees.
\<close>

section \<open>The client\<close>

text \<open>A query's text is a template with a number in it.\<close>

datatype template_part = Text string | Number jsnum

record log_query =
  lq_startTime :: int
  lq_endTime :: int
  lq_queryString :: "template_part list"
  lq_logGroupNames :: "string list"

record log_field =
  lf_value :: "string option"

record log_answer =
  la_status :: string
  la_results :: "log_field list list option"

record lambda_clients =
  lc_logGroups :: "string + string list"
  lc_running :: "log_query \<Rightarrow> nat \<Rightarrow> string + nat"
  lc_start :: "log_query \<Rightarrow> string + string option"
  lc_answer :: "string \<Rightarrow> nat \<Rightarrow> string + log_answer"
  lc_startTime :: "string \<Rightarrow> int"
  lc_clock :: "string \<Rightarrow> nat \<Rightarrow> int"

definition answered :: "string + 'a \<Rightarrow> 'a promise" where
  "answered answer = (case answer of Inl message \<Rightarrow> Some (Inl (Thrown message)) | Inr x \<Rightarrow> Some (Inr x))"

section \<open>Log groups\<close>

definition LOG_GROUP_SIZE_REQUEST_LIMIT :: nat where
  "LOG_GROUP_SIZE_REQUEST_LIMIT = 20"

definition MAX_CONCURRENT_LOG_QUERIES :: nat where
  "MAX_CONCURRENT_LOG_QUERIES = 10"

definition getLambdaLogGroupNames :: "lambda_clients \<Rightarrow> string list list promise" where
  "getLambdaLogGroupNames L =
     awaitP (answered (lc_logGroups L)) (\<lambda>extractedLogGroupNames.
       Some (Inr (split_every LOG_GROUP_SIZE_REQUEST_LIMIT extractedLogGroupNames)))"

section \<open>Queries\<close>

definition lambda_averageWatts :: jsnum where
  "lambda_averageWatts =
     aws_MIN_WATTS_AVG + (aws_AVG_CPU_UTILIZATION_2020 / 100) * (aws_MAX_WATTS_AVG - aws_MIN_WATTS_AVG)"

definition lambda_query :: "template_part list" where
  "lambda_query =
     [Text (nl @ indent 12 @ ''filter @type = '' @ dquote @ ''REPORT'' @ dquote @ nl
        @ indent 12 @ ''| fields datefloor(@timestamp, 1d) as Date, @duration/1000 as DurationInS, ''
        @ ''@memorySize/1000000 as MemorySetInMB, ''),
      Number lambda_averageWatts,
      Text ('' * DurationInS/3600 * MemorySetInMB/1792 as wattsPerFunction'' @ nl
        @ indent 12 @ ''| stats sum(wattsPerFunction) as Watts by Date '' @ nl
        @ indent 12 @ ''| sort Date asc'')]"

definition lambda_params :: "string list \<Rightarrow> date \<Rightarrow> date \<Rightarrow> log_query" where
  "lambda_params groupNames start end =
     \<lparr>lq_startTime = start, lq_endTime = end, lq_queryString = lambda_query, lq_logGroupNames = groupNames\<rparr>"

partial_function (option) wait_for_query :: "(nat \<Rightarrow> string + nat) \<Rightarrow> nat \<Rightarrow> nat promise" where
  "wait_for_query running n =
     (case running n of
        Inl message \<Rightarrow> Some (Inl (Thrown message))
      | Inr queries \<Rightarrow>
          if queries < MAX_CONCURRENT_LOG_QUERIES then Some (Inr n) else wait_for_query running (n + 1))"

definition Lambda_runQuery :: "lambda_clients \<Rightarrow> string list \<Rightarrow> date \<Rightarrow> date \<Rightarrow> string option promise" where
  "Lambda_runQuery L groupNames start end =
     (let params = lambda_params groupNames start end in
      awaitP (wait_for_query (lc_running L params) 0) (\<lambda>_. answered (lc_start L params)))"

definition getQueryIdsArray ::
    "lambda_clients \<Rightarrow> string list list \<Rightarrow> date \<Rightarrow> date \<Rightarrow> string option list list promise" where
  "getQueryIdsArray L groupNames start end =
     mapP (\<lambda>logGroup. getQueryByInterval 60 (Lambda_runQuery L logGroup) start end) groupNames"

section \<open>Results\<close>

definition unfinished :: "log_answer \<Rightarrow> bool" where
  "unfinished cwResultsData \<longleftrightarrow> la_status cwResultsData = ''Running'' \<or> la_status cwResultsData = ''Scheduled''"

partial_function (option) poll_results ::
    "(nat \<Rightarrow> string + log_answer) \<Rightarrow> (nat \<Rightarrow> int) \<Rightarrow> int \<Rightarrow> int \<Rightarrow> nat \<Rightarrow> log_answer promise" where
  "poll_results answer clock startTime timeout n =
     (case answer n of
        Inl message \<Rightarrow> Some (Inl (Thrown message))
      | Inr cwResultsData \<Rightarrow>
          if \<not> unfinished cwResultsData then Some (Inr cwResultsData)
          else if timeout < clock n - startTime then
            Some (Inl (Thrown (''CloudWatchLog request failed, status: '' @ la_status cwResultsData)))
          else poll_results answer clock startTime timeout (n + 1))"

definition Lambda_getResults :: "lambda_clients \<Rightarrow> int \<Rightarrow> string \<Rightarrow> log_answer promise" where
  "Lambda_getResults L timeout queryId =
     poll_results (lc_answer L queryId) (lc_clock L queryId) (lc_startTime L queryId) timeout 0"

text \<open>An identifier that is \<open>undefined\<close> has no \<open>toString\<close>.\<close>

definition results_of_queries :: "lambda_clients \<Rightarrow> int \<Rightarrow> string option list \<Rightarrow> log_answer list promise" where
  "results_of_queries L timeout queryIds =
     (if None \<in> set queryIds then Some (Inl TypeError)
      else promise_all (map (\<lambda>i. Lambda_getResults L timeout (the i)) queryIds))"

section \<open>Estimates\<close>

definition field_value :: "log_field list \<Rightarrow> nat \<Rightarrow> string option result" where
  "field_value resultByDate i =
     (case elem_at resultByDate i of None \<Rightarrow> Inl TypeError | Some f \<Rightarrow> Inr (lf_value f))"

definition lambda_estimate :: "string \<Rightarrow> log_field list \<Rightarrow> FootprintEstimate result" where
  "lambda_estimate region resultByDate =
     bindR (field_value resultByDate 0) (\<lambda>date_text.
     case date_text of
       None \<Rightarrow> Inl TypeError
     | Some date_text \<Rightarrow>
         bindR (field_value resultByDate 1) (\<lambda>watts.
         let kilowattHours = (parseFloat_opt watts * aws_getPUE ''undefined'') / 1000
         in Inr \<lparr>fe_timestamp = parse_date (take 10 date_text),
                 fe_kilowattHours = kilowattHours,
                 fe_co2e = estimateCo2 kilowattHours region AWS_EMISSIONS_FACTORS_METRIC_TON_PER_KWH,
                 fe_usesAverageCPUConstant = None\<rparr>))"

definition answer_rows :: "log_answer \<Rightarrow> log_field list list result" where
  "answer_rows a = (case la_results a of None \<Rightarrow> Inl TypeError | Some rows \<Rightarrow> Inr rows)"

definition Lambda_getEstimates ::
    "lambda_clients \<Rightarrow> int \<Rightarrow> date \<Rightarrow> date \<Rightarrow> string \<Rightarrow> FootprintEstimate list promise" where
  "Lambda_getEstimates L timeout start end region =
     awaitP (getLambdaLogGroupNames L) (\<lambda>groupNames.
       if groupNames = [] then Some (Inr [])
       else
         awaitP (getQueryIdsArray L groupNames start end) (\<lambda>queryIdsArray.
         awaitP (mapP (results_of_queries L timeout) queryIdsArray) (\<lambda>usage.
           Some (bindR (mapR answer_rows (concat usage)) (\<lambda>rows.
                   mapR (lambda_estimate region) (concat rows))))))"

definition Lambda_getCosts :: "aws_clients \<Rightarrow> date \<Rightarrow> date \<Rightarrow> string \<Rightarrow> Cost list promise" where
  "Lambda_getCosts W start end region =
     getCostFromCostExplorer W
       \<lparr>cq_Start = iso_day start, cq_End = iso_day end,
        cq_And = [(''REGION'', [region]), (''SERVICE'', [''AWS Lambda''])],
        cq_Granularity = ''DAILY'', cq_Metrics = [''AmortizedCost''],
        cq_GroupBy = [(''USAGE_TYPE'', ''DIMENSION'')]\<rparr>"

section \<open>Facts\<close>

text \<open>
  With a clock that passes the timeout, and running queries that end, both loops return.
\<close>

lemma wait_for_query_returns:
  assumes "running (n + k) = Inr queries" and "queries < MAX_CONCURRENT_LOG_QUERIES"
  shows "wait_for_query running n \<noteq> None"
  using assms(1)
proof (induction k arbitrary: n)
  case 0
  then show ?case using assms(2) by (subst wait_for_query.simps) simp
next
  case (Suc k)
  then have "wait_for_query running (n + 1) \<noteq> None" by simp
  then show ?case by (subst wait_for_query.simps) (simp split: sum.splits)
qed

lemma poll_results_returns:
  assumes "timeout < clock (n + k) - startTime"
  shows "poll_results answer clock startTime timeout n \<noteq> None"
  using assms
proof (induction k arbitrary: n)
  case 0
  then show ?case by (subst poll_results.simps) (simp split: sum.splits)
next
  case (Suc k)
  then have "poll_results answer clock startTime timeout (n + 1) \<noteq> None" by simp
  then show ?case by (subst poll_results.simps) (simp split: sum.splits)
qed

text \<open>What is polled in the end is finished, and the first answer that is.\<close>

lemma poll_results_finished:
  assumes "poll_results answer clock startTime timeout n = Some (Inr a)"
  shows "\<not> unfinished a"
proof (rule poll_results.raw_induct [where P = "\<lambda>answer clock startTime timeout n r. \<forall>a. r = Inr a \<longrightarrow> \<not> unfinished a",
      OF _ assms, rule_format, OF _ refl])
qed (auto split: sum.splits if_splits)

end
