(* ===== verification/Aws_Service_Properties.thy ===== *)
theory Aws_Service_Properties
  imports Aws_Services
begin

text \<open>
  Properties of the services on Cost Explorer and CloudWatch: the intervals of a query, the energy of
  volumes, the reports of Lambda and the pages that are refused.
\<close>

section \<open>Facts\<close>

lemma first_window_returns:
  assumes "31 < day_of_month start + n"
  obtains ws where "query_windows n start end [] start (setDate start (day_of_month start + n)) = Some ws"
    "meeting start ws end" "ws \<noteq> []"
proof -
  obtain ws where ws: "query_windows n start end [] start (setDate start (day_of_month start + n)) = Some ws"
    using query_windows_returns [OF assms refl] by blast
  show thesis using that [OF ws] query_windows_meet [OF ws refl] by simp
qed

lemma with_instant_Inr: "with_instant e = Inr k \<longleftrightarrow> (\<exists>t. fe_timestamp e = Some t \<and> k = (toISOString t, e))"
  by (auto simp: with_instant_def split: option.splits)

lemma estimates_by_instant_sums:
  assumes "estimates_by_instant es = Inr rs"
  shows "sum_list (map fe_kilowattHours rs) = sum_list (map fe_kilowattHours es)"
    and "sum_list (map fe_co2e rs) = sum_list (map fe_co2e es)"
proof -
  from assms obtain ks where ks: "mapR with_instant es = Inr ks"
    and rs: "rs = obj_values (group_fold fst add_estimates [] ks)"
    by (auto simp: estimates_by_instant_def bindR_eq_Inr_iff)
  have "list_all2 (\<lambda>e k. snd k = e) es ks"
    using ks unfolding mapR_pointwise by (rule list_all2_mono) (auto simp: with_instant_Inr)
  then have "map snd ks = es" by (induction rule: list_all2_induct) auto
  moreover have "sum_list (map fe_kilowattHours rs) = sum_list (map (\<lambda>k. fe_kilowattHours (snd k)) ks)"
    "sum_list (map fe_co2e rs) = sum_list (map (\<lambda>k. fe_co2e (snd k)) ks)"
    unfolding rs
    using sum_list_group_fold [of fe_kilowattHours add_estimates "\<lambda>k. fe_kilowattHours (snd k)" fst "[]" ks]
      sum_list_group_fold [of fe_co2e add_estimates "\<lambda>k. fe_co2e (snd k)" fst "[]" ks]
    by (simp_all add: add_estimates_def obj_values_def)
  ultimately show "sum_list (map fe_kilowattHours rs) = sum_list (map fe_kilowattHours es)"
    "sum_list (map fe_co2e rs) = sum_list (map fe_co2e es)"
    by (auto simp: comp_def)
qed

text \<open>Each entry keeps the instant of its key, so no two entries have the same instant.\<close>

lemma estimates_by_instant_distinct:
  assumes "estimates_by_instant es = Inr rs"
  shows "distinct (map fe_timestamp rs)"
proof -
  from assms obtain ks where ks: "mapR with_instant es = Inr ks"
    and rs: "rs = obj_values (group_fold fst add_estimates [] ks)"
    by (auto simp: estimates_by_instant_def bindR_eq_Inr_iff)
  let ?ok = "\<lambda>k e. \<exists>t. fe_timestamp e = Some t \<and> toISOString t = k"
  have keeps: "\<forall>k e. obj_get (group_fold fst add_estimates d xs) k = Some e \<longrightarrow> ?ok k e"
    if "\<forall>k e. obj_get d k = Some e \<longrightarrow> ?ok k e" and "\<forall>x \<in> set xs. ?ok (fst x) (snd x)" for d xs
    using that
  proof (induction xs arbitrary: d)
    case Nil
    then show ?case by (simp add: group_fold_def)
  next
    case (Cons x xs)
    have "?ok (fst x) (add_estimates x (obj_get d (fst x)))"
      using Cons.prems by (cases "obj_get d (fst x)") (auto simp: add_estimates_def)
    then have "\<forall>k e. obj_get (upsert d (fst x) (add_estimates x)) k = Some e \<longrightarrow> ?ok k e"
      using Cons.prems(1) by (auto simp: upsert_def obj_get_set)
    then show ?case using Cons.IH Cons.prems(2) by (simp add: group_fold_def)
  qed
  have ks_ok: "\<forall>k \<in> set ks. ?ok (fst k) (snd k)"
  proof
    fix k assume "k \<in> set ks"
    then obtain i where i: "i < length ks" "k = ks ! i" by (auto simp: in_set_conv_nth)
    with ks show "?ok (fst k) (snd k)"
      by (auto simp: mapR_pointwise list_all2_conv_all_nth with_instant_Inr)
  qed
  have get: "?ok k e" if "obj_get (group_fold fst add_estimates [] ks) k = Some e" for k e
    using keeps [OF _ ks_ok, of "[]"] that by simp
  have wf: "obj_wf (group_fold fst add_estimates [] ks)" by (simp add: obj_wf_group_fold)
  then have ok: "\<forall>(k, e) \<in> set (group_fold fst add_estimates [] ks). ?ok k e"
    using get by (auto simp: obj_wf_def)
  define ts where "ts = map (\<lambda>e. the (fe_timestamp (snd e))) (group_fold fst add_estimates [] ks)"
  have "map fst (group_fold fst add_estimates [] ks) = map toISOString ts"
    and stamps: "map (\<lambda>e. fe_timestamp (snd e)) (group_fold fst add_estimates [] ks) = map Some ts"
    using ok by (auto simp: ts_def)
  then have "distinct ts" using wf by (simp add: obj_wf_def distinct_map)
  then show ?thesis using stamps by (simp add: rs obj_values_def comp_def distinct_map)
qed

lemma estimates_by_instant_total:
  "\<forall>e \<in> set es. fe_timestamp e \<noteq> None \<Longrightarrow> \<exists>rs. estimates_by_instant es = Inr rs"
proof -
  assume "\<forall>e \<in> set es. fe_timestamp e \<noteq> None"
  then have "\<forall>e \<in> set es. \<exists>k. with_instant e = Inr k" by (auto simp: with_instant_Inr)
  then obtain ks where "mapR with_instant es = Inr ks" using mapR_returns by blast
  then show ?thesis by (simp add: estimates_by_instant_def)
qed

section \<open>Storage\<close>

text \<open>The energy of one volume: that of its kind of disk, and none where the kind is not known.\<close>

definition volume_kilowattHours :: "CloudConstants \<Rightarrow> VolumeUsage \<Rightarrow> jsnum" where
  "volume_kilowattHours c u =
     (case vu_diskType u of
        DISK_SSD \<Rightarrow> storage_estimateKilowattHours aws_SSDCOEFFICIENT (su_terabyteHours u)
          (cc_powerUsageEffectiveness c) (cc_replicationFactor c)
      | DISK_HDD \<Rightarrow> storage_estimateKilowattHours aws_HDDCOEFFICIENT (su_terabyteHours u)
          (cc_powerUsageEffectiveness c) (cc_replicationFactor c)
      | DISK_UNKNOWN \<Rightarrow> 0)"

lemma volumes_split:
  "sum_list (map fe_kilowattHours
      (estimate_volumes aws_SSDCOEFFICIENT (filter (\<lambda>u. vu_diskType u = DISK_SSD) us) region ef c
       @ estimate_volumes aws_HDDCOEFFICIENT (filter (\<lambda>u. vu_diskType u = DISK_HDD) us) region ef c))
   = sum_list (map (volume_kilowattHours c) us)"
proof (induction us)
  case Nil
  then show ?case by (simp add: estimate_volumes_def StorageEstimator_estimate_def)
next
  case (Cons u us)
  then show ?case
    by (cases "vu_diskType u")
      (simp_all add: estimate_volumes_def StorageEstimator_estimate_def volume_kilowattHours_def Let_def
        StorageUsage.truncate_def add.assoc add.left_commute)
qed

text \<open>
  C16. The estimates of volumes whose dates are readable: one for each instant, and their energy is the sum
  of the energies of the volumes; a volume of an unknown kind adds nothing.
\<close>

theorem volume_energy_is_conserved:
  assumes "\<forall>u \<in> set volumeUsages. su_timestamp u \<noteq> None"
  shows "\<exists>es. getEstimatesFromCostExplorer region volumeUsages ef c = Inr es
       \<and> distinct (map fe_timestamp es)
       \<and> sum_list (map fe_kilowattHours es) = sum_list (map (volume_kilowattHours c) volumeUsages)"
proof -
  let ?es = "estimate_volumes aws_SSDCOEFFICIENT (filter (\<lambda>u. vu_diskType u = DISK_SSD) volumeUsages) region ef c
    @ estimate_volumes aws_HDDCOEFFICIENT (filter (\<lambda>u. vu_diskType u = DISK_HDD) volumeUsages) region ef c"
  have "\<forall>e \<in> set ?es. fe_timestamp e \<noteq> None"
    using assms by (auto simp: estimate_volumes_def StorageEstimator_estimate_def Let_def StorageUsage.truncate_def)
  then obtain rs where rs: "estimates_by_instant ?es = Inr rs" using estimates_by_instant_total by blast
  then show ?thesis
    using estimates_by_instant_sums(1) [OF rs] estimates_by_instant_distinct [OF rs] volumes_split [of us region ef c for us]
    by (auto simp: getEstimatesFromCostExplorer_def Let_def)
qed

theorem volume_energy_is_conserved_witness:
  "\<exists>es. getEstimatesFromCostExplorer ''us-east-1''
       [\<lparr>su_timestamp = Some 0, su_terabyteHours = 1000, vu_diskType = DISK_SSD\<rparr>,
        \<lparr>su_timestamp = Some 0, su_terabyteHours = 2000, vu_diskType = DISK_HDD\<rparr>,
        \<lparr>su_timestamp = Some 86400000, su_terabyteHours = 5, vu_diskType = DISK_UNKNOWN\<rparr>]
       AWS_EMISSIONS_FACTORS_METRIC_TON_PER_KWH (no_constants\<lparr>cc_powerUsageEffectiveness := Some 1\<rparr>) = Inr es
     \<and> sum_list (map fe_kilowattHours es) = Fin 2.5"
  using volume_energy_is_conserved [of
       "[\<lparr>su_timestamp = Some 0, su_terabyteHours = 1000, vu_diskType = DISK_SSD\<rparr>,
        \<lparr>su_timestamp = Some 0, su_terabyteHours = 2000, vu_diskType = DISK_HDD\<rparr>,
        \<lparr>su_timestamp = Some 86400000, su_terabyteHours = 5, vu_diskType = DISK_UNKNOWN\<rparr>]"
       "''us-east-1''" AWS_EMISSIONS_FACTORS_METRIC_TON_PER_KWH "no_constants\<lparr>cc_powerUsageEffectiveness := Some 1\<rparr>"]
  by (auto simp: volume_kilowattHours_def storage_estimateKilowattHours_def no_constants_def default_one_def
      aws_SSDCOEFFICIENT_def aws_HDDCOEFFICIENT_def jsnum_simps divide_Fin)

section \<open>Intervals\<close>

text \<open>
  C30. When the first day of a period and the interval together pass the 31st, the loop ends, and its windows
  meet one another from the start of the period to its end: every instant of the period is asked for.
\<close>

theorem intervals_cover_the_period:
  assumes "31 < day_of_month start + intervalInDays"
  shows "\<exists>ws. ws \<noteq> [] \<and> meeting start ws end
       \<and> getQueryByInterval intervalInDays query start end = promise_all (map (\<lambda>(s, e). query s e) ws)"
proof -
  obtain ws where "query_windows intervalInDays start end [] start
      (setDate start (day_of_month start + intervalInDays)) = Some ws" "meeting start ws end" "ws \<noteq> []"
    by (rule first_window_returns [OF assms])
  then show ?thesis by (auto simp: getQueryByInterval_def)
qed

theorem intervals_cover_the_period_witness:
  "\<exists>ws. ws \<noteq> [] \<and> meeting (86400000 * 31) ws (86400000 * 300)
     \<and> getQueryByInterval 60 (\<lambda>s e. Some (Inr (s, e))) (86400000 * 31) (86400000 * 300)
       = promise_all (map (\<lambda>(s, e). Some (Inr (s, e))) ws)"
  by (rule intervals_cover_the_period)
    (simp add: day_of_month_def civil_def march_year_def day_number_def ms_per_day_def Let_def)

text \<open>
  C31. The usage of EC2 is asked for thirty days at a time. For a period that starts on the first of a month of
  31 days and ends later than the 31st the request never ends: the next date is the 31st again and again.
\<close>

theorem ec2_usage_never_ends:
  assumes "day_of_month start = 1" and "month_start (month_of start + 1) = month_start (month_of start) + 31"
    and "start + 30 * ms_per_day < end"
  shows "EC2_getUsage W start end region = None"
proof -
  have "setDate start 31 = start + 30 * ms_per_day"
    using assms(1) by (simp add: setDate_diff)
  then have "query_windows 30 start end [] start (setDate start (day_of_month start + 30)) = None"
    using assms by (intro query_windows_stuck) simp_all
  then show ?thesis by (simp add: EC2_getUsage_def getQueryByInterval_def)
qed

text \<open>From 1 January 2022 to 1 February 2022.\<close>

theorem ec2_usage_never_ends_witness:
  "EC2_getUsage \<lparr>wc_costs = \<lambda>r t. Inr ([], None), wc_metrics = \<lambda>r t. Inr ([], None)\<rparr>
     1640995200000 1643673600000 ''us-east-1'' = None"
  by (rule ec2_usage_never_ends)
    (simp_all add: day_of_month_def month_of_def month_start_def days_of_civil_def civil_def march_year_def
      day_number_def ms_per_day_def Let_def)

section \<open>Lambda\<close>

text \<open>
  C24. The report of Lambda is always answered, whatever the clients say, when every query finds a poll with
  fewer than ten running queries and the clock passes the timeout: with estimates or with an error.
\<close>

theorem lambda_report_is_answered:
  assumes slots: "\<And>params. \<exists>n queries. lc_running L params n = Inr queries \<and> queries < MAX_CONCURRENT_LOG_QUERIES"
    and clock: "\<And>queryId. \<exists>n. timeout < lc_clock L queryId n - lc_startTime L queryId"
  shows "\<exists>r. Lambda_getEstimates L timeout start end region = Some r"
proof -
  have wait: "wait_for_query (lc_running L params) 0 \<noteq> None" for params
    using slots [of params] wait_for_query_returns [of "lc_running L params" 0] by fastforce
  have run: "Lambda_runQuery L groupNames s e \<noteq> None" for groupNames s e
    unfolding Lambda_runQuery_def Let_def by (intro awaitP_settles wait) (simp add: answered_def split: sum.splits)
  obtain ws where "query_windows 60 start end [] start (setDate start (day_of_month start + 60)) = Some ws"
    using first_window_returns [of start 60 "end"] month_of_bounds(4) [of start] by fastforce
  then have intervals: "getQueryByInterval 60 (Lambda_runQuery L g) start end \<noteq> None" for g
    using promise_all_settles [of ws "\<lambda>(s, e). Lambda_runQuery L g s e"] run by (auto simp: getQueryByInterval_def)
  have poll: "Lambda_getResults L timeout i \<noteq> None" for i
    using clock [of i] poll_results_returns [of timeout "lc_clock L i" 0 _ "lc_startTime L i"]
    by (auto simp: Lambda_getResults_def)
  have results: "results_of_queries L timeout is \<noteq> None" for "is"
    unfolding results_of_queries_def by (auto intro: promise_all_settles [OF poll, simplified])
  have ids: "getQueryIdsArray L gs start end \<noteq> None" for gs
    unfolding getQueryIdsArray_def by (rule mapP_settles) (rule intervals)
  have all: "mapP (results_of_queries L timeout) iss \<noteq> None" for iss
    by (rule mapP_settles) (rule results)
  have "Lambda_getEstimates L timeout start end region \<noteq> None"
    unfolding Lambda_getEstimates_def
  proof (rule awaitP_settles)
    show "getLambdaLogGroupNames L \<noteq> None"
      by (simp add: getLambdaLogGroupNames_def answered_def split: sum.splits)
    fix groupNames
    show "(if groupNames = [] then Some (Inr [])
        else awaitP (getQueryIdsArray L groupNames start end) (\<lambda>queryIdsArray.
          awaitP (mapP (results_of_queries L timeout) queryIdsArray) (\<lambda>usage.
            Some (bindR (mapR answer_rows (concat usage)) (\<lambda>rows. mapR (lambda_estimate region) (concat rows))))))
        \<noteq> None"
      by (simp del: not_None_eq) (intro impI awaitP_settles ids all; simp)
  qed
  then show ?thesis by auto
qed

theorem lambda_report_is_answered_witness:
  "\<exists>r. Lambda_getEstimates
     \<lparr>lc_logGroups = Inr [''/aws/lambda/a''], lc_running = \<lambda>params n. Inr (12 - n), lc_start = \<lambda>params. Inr (Some ''q''),
      lc_answer = \<lambda>i n. Inr \<lparr>la_status = ''Running'', la_results = None\<rparr>,
      lc_startTime = \<lambda>i. 0, lc_clock = \<lambda>i n. 1000 * int n\<rparr> 60000 0 86400000 ''us-east-1'' = Some r"
proof (rule lambda_report_is_answered)
  show "\<exists>n queries. lc_running
     \<lparr>lc_logGroups = Inr [''/aws/lambda/a''], lc_running = \<lambda>params n. Inr (12 - n), lc_start = \<lambda>params. Inr (Some ''q''),
      lc_answer = \<lambda>i n. Inr \<lparr>la_status = ''Running'', la_results = None\<rparr>,
      lc_startTime = \<lambda>i. 0, lc_clock = \<lambda>i n. 1000 * int n\<rparr> params n = Inr queries
      \<and> queries < MAX_CONCURRENT_LOG_QUERIES" for params
    by (rule exI [of _ 12]) (simp add: MAX_CONCURRENT_LOG_QUERIES_def)
  show "\<exists>n. 60000 < lc_clock
     \<lparr>lc_logGroups = Inr [''/aws/lambda/a''], lc_running = \<lambda>params n. Inr (12 - n), lc_start = \<lambda>params. Inr (Some ''q''),
      lc_answer = \<lambda>i n. Inr \<lparr>la_status = ''Running'', la_results = None\<rparr>,
      lc_startTime = \<lambda>i. 0, lc_clock = \<lambda>i n. 1000 * int n\<rparr> queryId n - lc_startTime
     \<lparr>lc_logGroups = Inr [''/aws/lambda/a''], lc_running = \<lambda>params n. Inr (12 - n), lc_start = \<lambda>params. Inr (Some ''q''),
      lc_answer = \<lambda>i n. Inr \<lparr>la_status = ''Running'', la_results = None\<rparr>,
      lc_startTime = \<lambda>i. 0, lc_clock = \<lambda>i n. 1000 * int n\<rparr> queryId" for queryId
    by (rule exI [of _ 61]) simp
qed

lemma split_every_lengths: "0 < n \<Longrightarrow> g \<in> set (split_every n xs) \<Longrightarrow> g \<noteq> [] \<and> length g \<le> n"
proof (induction n xs rule: split_every.induct)
  case (1 n xs)
  then show ?case by (subst (asm) (2) split_every.simps) (auto split: if_splits)
qed

text \<open>
  The log groups are queried in pieces of one to twenty, the limit of a request, and each group is in one
  piece, in their order.
\<close>

theorem log_groups_fit_a_request:
  assumes "getLambdaLogGroupNames L = Some (Inr pieces)"
  shows "lc_logGroups L = Inr (concat pieces) \<and> (\<forall>g \<in> set pieces. 1 \<le> length g \<and> length g \<le> 20)"
proof -
  have "0 < LOG_GROUP_SIZE_REQUEST_LIMIT" by (simp add: LOG_GROUP_SIZE_REQUEST_LIMIT_def)
  then show ?thesis
    using assms split_every_lengths [of LOG_GROUP_SIZE_REQUEST_LIMIT]
    by (fastforce simp: getLambdaLogGroupNames_def awaitP_Inr answered_def concat_split_every
        LOG_GROUP_SIZE_REQUEST_LIMIT_def Suc_le_eq split: sum.splits)
qed

definition three_groups :: lambda_clients where
  "three_groups = \<lparr>lc_logGroups = Inr [''/aws/lambda/a'', ''/aws/lambda/b'', ''/aws/lambda/c''],
     lc_running = \<lambda>params n. Inr 0, lc_start = \<lambda>params. Inr None,
     lc_answer = \<lambda>i n. Inl ''none'', lc_startTime = \<lambda>i. 0, lc_clock = \<lambda>i n. 0\<rparr>"

theorem log_groups_fit_a_request_witness:
  "lc_logGroups three_groups = Inr (concat [[''/aws/lambda/a'', ''/aws/lambda/b'', ''/aws/lambda/c'']])
     \<and> (\<forall>g \<in> set [[''/aws/lambda/a'', ''/aws/lambda/b'', ''/aws/lambda/c'']]. 1 \<le> length g \<and> length g \<le> 20)"
  by (rule log_groups_fit_a_request)
    (simp add: getLambdaLogGroupNames_def three_groups_def answered_def LOG_GROUP_SIZE_REQUEST_LIMIT_def split_every.simps)

section \<open>Partial data\<close>

lemma metric_page_complete:
  "metric_page W params token = Inr (results, next) \<Longrightarrow> \<forall>r \<in> set results. md_StatusCode r \<noteq> ''PartialData''"
  by (auto simp: metric_page_def bindR_eq_Inr_iff checkForPartialData_def list_ex_iff split: if_splits)

lemma paginate_all:
  assumes "paginate fetch responses token = Some (Inr pages)" and "\<forall>page \<in> set responses. P page"
    and "\<And>token page next. fetch token = Inr (page, next) \<Longrightarrow> P page"
  shows "\<forall>page \<in> set pages. P page"
proof -
  let ?Q = "\<lambda>fetch responses r. (\<forall>token page next. fetch token = Inr (page, next) \<longrightarrow> P page) \<longrightarrow>
      (\<forall>page \<in> set responses. P page) \<longrightarrow> (\<forall>qs. r = Inr qs \<longrightarrow> (\<forall>page \<in> set qs. P page))"
  have "?Q fetch responses (Inr pages :: 'a list result)"
  proof (rule paginate.raw_induct [where P = "\<lambda>fetch responses token r. ?Q fetch responses r", OF _ assms(1)])
    fix f fetch responses token r
    assume IH: "\<And>fetch responses token r. f fetch responses token = Some r \<Longrightarrow> ?Q fetch responses r"
      and step: "(case fetch token of
          Inl message \<Rightarrow> Some (Inl (Thrown message))
        | Inr (page, nextToken) \<Rightarrow>
            (case nextToken of
               None \<Rightarrow> Some (Inr (responses @ [page]))
             | Some t \<Rightarrow> if t = [] then Some (Inr (responses @ [page]))
                         else f fetch (responses @ [page]) nextToken)) = Some r"
    show "?Q fetch responses r"
    proof (intro impI)
      assume pages: "\<forall>token page next. fetch token = Inr (page, next) \<longrightarrow> P page"
        and old: "\<forall>page \<in> set responses. P page"
      show "\<forall>qs. r = Inr qs \<longrightarrow> (\<forall>page \<in> set qs. P page)"
      proof (cases "fetch token")
        case (Inl message)
        with step show ?thesis by auto
      next
        case (Inr answer)
        obtain page nextToken where answer: "answer = (page, nextToken)" by (cases answer)
        have all: "\<forall>page \<in> set (responses @ [page]). P page" using old pages Inr answer by auto
        show ?thesis
        proof (cases "f fetch (responses @ [page]) nextToken = Some r")
          case True
          show ?thesis using IH [OF True] pages all by blast
        next
          case False
          then have "r = Inr (responses @ [page])"
            using step Inr answer by (auto split: option.splits if_splits)
          with all show ?thesis by auto
        qed
      qed
    qed
  qed
  with assms(2,3) show ?thesis by blast
qed

text \<open>
  A metric that CloudWatch marks as partial is never counted: when the pages of a request are returned,
  none of their results is partial.
\<close>

theorem partial_data_is_never_counted:
  assumes "getMetricDataResponses W params = Some (Inr pages)"
  shows "filter (\<lambda>r. md_StatusCode r = ''PartialData'') (concat pages) = []"
  unfolding filter_empty_conv
  using paginate_all [OF assms [unfolded getMetricDataResponses_def], of "\<lambda>page. \<forall>r \<in> set page. md_StatusCode r \<noteq> ''PartialData''"]
    metric_page_complete by fastforce

definition two_results :: "metric_result list" where
  "two_results = [\<lparr>md_Id = ''cpuUtilization'', md_Timestamps = [0], md_Values = [50], md_StatusCode = ''Complete''\<rparr>,
     \<lparr>md_Id = ''vCPUs'', md_Timestamps = [0], md_Values = [4], md_StatusCode = ''Complete''\<rparr>]"

theorem partial_data_is_never_counted_witness:
  "filter (\<lambda>r. md_StatusCode r = ''PartialData'') (concat [two_results]) = []"
  by (rule partial_data_is_never_counted
      [of "\<lparr>wc_costs = \<lambda>r t. Inr ([], None), wc_metrics = \<lambda>r t. Inr (two_results, None)\<rparr>" "metric_params 0 1 EC2_queries"])
    (simp add: getMetricDataResponses_def paginate.simps metric_page_def checkForPartialData_def two_results_def)

end
