(* ===== verification/Cli_Tables.thy ===== *)
theory Cli_Tables
  imports Js_Format App_Request Js_Effects
begin

text \<open>
  \<open>packages/cli/src\<close>: the tables of the command line by day, by service and by both, with their texts and
  the file of comma-separated values, and the command itself (\<open>cli.ts\<close>). The app is a parameter, and so
  are \<open>uniq\<close> of ramda, the clock and the answers to the prompts.
\<close>

section \<open>EmissionsTableUtils.ts\<close>

record Total =
  to_kilowattHours :: jsnum
  to_co2e :: jsnum
  to_cost :: jsnum

type_synonym Totals = "Total obj"

definition zero_total :: Total where
  "zero_total = \<lparr>to_kilowattHours = 0, to_co2e = 0, to_cost = 0\<rparr>"

definition initialTotals :: "string list \<Rightarrow> Totals" where
  "initialTotals serviceNames =
     obj_set (foldl (\<lambda>t service. obj_set t service zero_total) [] serviceNames) ''total'' zero_total"

definition displayServiceName :: "string \<Rightarrow> string" where
  "displayServiceName key = (if key = ''total'' then ''Total'' else key)"

definition displayWattHours :: "jsnum \<Rightarrow> string" where
  "displayWattHours kilowattHours = toFixed 2 kilowattHours"

definition displayCo2e :: "jsnum \<Rightarrow> string" where
  "displayCo2e co2e = toFixed 6 co2e"

definition displayCost :: "jsnum \<Rightarrow> string" where
  "displayCost cost = ''$'' @ toFixed 2 cost"

text \<open>A table: its rows, and the widths of its columns.\<close>

type_synonym table = "string list list \<times> nat list"

section \<open>EmissionsByServiceTable.ts\<close>

definition add_to_entry :: "ServiceData \<Rightarrow> Total option \<Rightarrow> Total" where
  "add_to_entry e old =
     (case old of
        Some t \<Rightarrow> \<lparr>to_kilowattHours = to_kilowattHours t + sd_kilowattHours e, to_co2e = to_co2e t + sd_co2e e,
                   to_cost = to_cost t + sd_cost e\<rparr>
      | None \<Rightarrow> \<lparr>to_kilowattHours = sd_kilowattHours e, to_co2e = sd_co2e e, to_cost = sd_cost e\<rparr>)"

text \<open>The entry of the total is there from the start.\<close>

definition add_service :: "Totals \<Rightarrow> ServiceData \<Rightarrow> Totals" where
  "add_service t e = upsert (upsert t (sd_serviceName e) (add_to_entry e)) ''total'' (add_to_entry e)"

definition services_of :: "EstimationResult list \<Rightarrow> ServiceData list" where
  "services_of estimationResults = concat (map er_serviceEstimates estimationResults)"

definition service_grandTotals :: "(string list \<Rightarrow> string list) \<Rightarrow> EstimationResult list \<Rightarrow> Totals" where
  "service_grandTotals uniq estimationResults =
     foldl add_service (initialTotals (uniq (map sd_serviceName (services_of estimationResults))))
       (services_of estimationResults)"

definition EmissionsByServiceTable :: "(string list \<Rightarrow> string list) \<Rightarrow> EstimationResult list \<Rightarrow> table" where
  "EmissionsByServiceTable uniq estimationResults =
     ([''Service'', ''kilowatt hours'', ''metric tons CO2e Emissions'', ''Cost'']
      # map (\<lambda>(serviceName, serviceData).
              [displayServiceName serviceName, displayWattHours (to_kilowattHours serviceData),
               displayCo2e (to_co2e serviceData), displayCost (to_cost serviceData)])
          (service_grandTotals uniq estimationResults),
      [15, 20, 25, 20])"

section \<open>EmissionsByDayTable.ts\<close>

definition add_on_day :: "date \<times> ServiceData \<Rightarrow> Total option \<Rightarrow> Total" where
  "add_on_day d old = add_to_entry (snd d) (Some (case old of Some t \<Rightarrow> t | None \<Rightarrow> zero_total))"

definition dated_services :: "EstimationResult list \<Rightarrow> (date \<times> ServiceData) list" where
  "dated_services estimationResults =
     concat (map (\<lambda>r. map (\<lambda>e. (er_timestamp r, e)) (er_serviceEstimates r)) estimationResults)"

definition day_grandTotals :: "EstimationResult list \<Rightarrow> Totals" where
  "day_grandTotals estimationResults =
     (let ds = dated_services estimationResults;
          all = foldl (\<lambda>t d. add_to_entry (snd d) (Some t)) zero_total ds
      in obj_set (group_fold (\<lambda>d. iso_day (fst d)) add_on_day [] ds) ''Total'' all)"

definition EmissionsByDayTable :: "EstimationResult list \<Rightarrow> table" where
  "EmissionsByDayTable estimationResults =
     ([''Date'', ''kilowatt hours'', ''metric tons CO2e Emissions'']
      # map (\<lambda>(rowName, rowData).
              [rowName, displayWattHours (to_kilowattHours rowData), displayCo2e (to_co2e rowData)])
          (day_grandTotals estimationResults),
      [15, 20, 25])"

section \<open>EmissionsByDayAndServiceTable.ts\<close>

text \<open>Every name has an entry: they are made for the names of the same estimates.\<close>

definition totals_entry :: "Totals \<Rightarrow> string \<Rightarrow> Total" where
  "totals_entry totals serviceName = (case obj_get totals serviceName of Some t \<Rightarrow> t | None \<Rightarrow> zero_total)"

definition displayService :: "Totals \<Rightarrow> string \<Rightarrow> string list" where
  "displayService totals serviceName =
     [displayWattHours (to_kilowattHours (totals_entry totals serviceName)),
      displayCo2e (to_co2e (totals_entry totals serviceName))]"

definition add_energy :: "ServiceData \<Rightarrow> Total option \<Rightarrow> Total" where
  "add_energy e old =
     (let t = (case old of Some t \<Rightarrow> t | None \<Rightarrow> zero_total)
      in t\<lparr>to_kilowattHours := to_kilowattHours t + sd_kilowattHours e, to_co2e := to_co2e t + sd_co2e e\<rparr>)"

definition add_service_energy :: "Totals \<Rightarrow> ServiceData \<Rightarrow> Totals" where
  "add_service_energy t e = upsert (upsert t (sd_serviceName e) (add_energy e)) ''total'' (add_energy e)"

definition day_row :: "string list \<Rightarrow> EstimationResult \<Rightarrow> string list" where
  "day_row serviceNames estimationResult =
     (let subTotals = foldl add_service_energy (initialTotals serviceNames) (er_serviceEstimates estimationResult);
          subTotalsServiceNames = filter (\<lambda>k. k \<noteq> ''total'') (obj_keys subTotals)
      in [iso_day (er_timestamp estimationResult)]
         @ concat (map (displayService subTotals) subTotalsServiceNames)
         @ displayService subTotals ''total'')"

definition EmissionsByDayAndServiceTable ::
    "(string list \<Rightarrow> string list) \<Rightarrow> EstimationResult list \<Rightarrow> table" where
  "EmissionsByDayAndServiceTable uniq estimationResults =
     (let serviceNames = uniq (map sd_serviceName (services_of estimationResults));
          headers = [''Date (UTC)'']
            @ concat (map (\<lambda>s. [displayServiceName s @ '' kilowatt hours'',
                                displayServiceName s @ '' metric tons CO2e Emissions'']) serviceNames)
            @ [''SUM kilowatt hours'', ''SUM metric tons CO2e Emissions''];
          colWidths = [15] @ concat (map (\<lambda>_. [20, 25]) serviceNames) @ [20, 25];
          sorted = sort_key er_timestamp estimationResults;
          grandTotals = foldl add_service_energy (initialTotals serviceNames) (services_of sorted)
      in ([headers] @ map (day_row serviceNames) sorted
          @ [[''Total''] @ concat (map (displayService grandTotals) serviceNames)
             @ displayService grandTotals ''total''],
          colWidths))"

section \<open>CSV.ts and the text of a table\<close>

definition exportToCSV :: "string list list \<Rightarrow> string" where
  "exportToCSV contents = concat (map (\<lambda>row. join '','' row @ nl) contents)"

definition padEnd :: "string \<Rightarrow> nat option \<Rightarrow> string" where
  "padEnd s w = (case w of None \<Rightarrow> s | Some n \<Rightarrow> s @ replicate (n - length s) CHR '' '')"

definition row_text :: "nat list \<Rightarrow> string list \<Rightarrow> string" where
  "row_text colWidths row =
     foldl (\<lambda>acc (col, cell). acc @ padEnd (''| '' @ cell) (elem_at colWidths col)) [] (enumerate 0 row)"

definition table_text :: "table \<Rightarrow> string" where
  "table_text t = join nl (map (row_text (snd t)) (fst t))"

section \<open>cli.ts\<close>

definition validateCliInput :: "string option \<Rightarrow> unit result" where
  "validateCliInput groupBy =
     (let groupingOptions = [''day'', ''dayAndService'', ''service''] in
      if (case groupBy of None \<Rightarrow> True | Some g \<Rightarrow> g \<notin> set groupingOptions) then
        Inl (Thrown (''GroupBy param is incorrect. Please specify one of the following grouping methods: ''
                     @ join '' | '' groupingOptions))
      else Inr ())"

text \<open>
  With the cache of MongoDB the connection is opened before the app is asked and closed afterwards, which fails
  when there is none; with the other caches nothing is to be closed.

  The options of the command, which are \<open>undefined\<close> when they are not given, or the four answers.
\<close>

record cli_options =
  co_startDate :: "string option"
  co_endDate :: "string option"
  co_groupBy :: "string option"
  co_format :: "string option"

record cli_env =
  ce_uniq :: "string list \<Rightarrow> string list"
  ce_parseMoment :: "string \<Rightarrow> date option"
  ce_now :: date
  ce_getCostAndEstimates :: "EstimationRequest \<Rightarrow> EstimationResult list promise"
  ce_closing :: "unit result"
  ce_csvFile :: string

datatype cli_output = Printed string | Saved string string

definition cli_request :: "string option \<Rightarrow> string option \<Rightarrow> FootprintEstimatesRawRequest" where
  "cli_request startDate endDate =
     \<lparr>rr_startDate = startDate, rr_endDate = endDate, rr_cloudProviderToSeed = None, rr_ignoreCache = None,
      rr_groupBy = Some ''day'', rr_limit = None, rr_skip = None, rr_cloudProviders = None, rr_accounts = None,
      rr_services = None, rr_regions = None, rr_tags = None, rr_tenantId = None, rr_accessToken = None\<rparr>"

definition cli_table :: "cli_env \<Rightarrow> string option \<Rightarrow> EstimationResult list \<Rightarrow> table" where
  "cli_table E groupBy estimations =
     (if groupBy = Some ''service'' then EmissionsByServiceTable (ce_uniq E) estimations
      else if groupBy = Some ''day'' then EmissionsByDayTable estimations
      else EmissionsByDayAndServiceTable (ce_uniq E) estimations)"

definition cli :: "cli_env \<Rightarrow> bool \<Rightarrow> cli_options \<Rightarrow> cli_output promise" where
  "cli E interactive opts =
     (let groupBy = (if interactive then co_groupBy opts
                     else if nonempty (co_groupBy opts) = None then Some ''day'' else co_groupBy opts)
      in case validateCliInput groupBy of
           Inl e \<Rightarrow> Some (Inl e)
         | Inr _ \<Rightarrow>
             (case createValidFootprintRequest (ce_parseMoment E) (ce_now E)
                     (cli_request (co_startDate opts) (co_endDate opts)) of
                Inl e \<Rightarrow> Some (Inl e)
              | Inr request \<Rightarrow>
                  awaitP (ce_getCostAndEstimates E request) (\<lambda>estimations.
                    let t = cli_table E groupBy estimations
                    in case ce_closing E of
                         Inl e \<Rightarrow> Some (Inl e)
                       | Inr _ \<Rightarrow>
                           Some (Inr (if co_format opts = Some ''csv''
                                      then Saved (ce_csvFile E) (exportToCSV (fst t))
                                      else Printed (table_text t))))))"

section \<open>The totals add up\<close>

text \<open>What the documentation of \<open>uniq\<close> says: one copy of each element.\<close>

locale ramda_uniq =
  fixes uniq :: "string list \<Rightarrow> string list"
  assumes uniq_set: "set (uniq xs) = set xs"
    and uniq_distinct: "distinct (uniq xs)"
begin

lemma no_total: "''total'' \<notin> set xs \<Longrightarrow> ''total'' \<notin> set (uniq xs)"
  by (simp add: uniq_set)

end

definition uniq_documented :: "string list \<Rightarrow> string list" where
  "uniq_documented xs = first_occurrences [] xs"

interpretation uniq_doc: ramda_uniq uniq_documented
  by unfold_locales (simp_all add: uniq_documented_def set_first_occurrences distinct_first_occurrences)

definition adds_field :: "(Total \<Rightarrow> jsnum) \<Rightarrow> (ServiceData \<Rightarrow> jsnum) \<Rightarrow> bool" where
  "adds_field f g \<longleftrightarrow> f zero_total = 0 \<and> (\<forall>e t. f (add_to_entry e (Some t)) = f t + g e)"

lemma adds_fields:
  "adds_field to_kilowattHours sd_kilowattHours" "adds_field to_co2e sd_co2e" "adds_field to_cost sd_cost"
  by (simp_all add: adds_field_def zero_total_def add_to_entry_def)

lemma initialTotals_get:
  "obj_get (initialTotals names) k = (if k = ''total'' \<or> k \<in> set names then Some zero_total else None)"
proof -
  have "obj_get (foldl (\<lambda>t service. obj_set t service zero_total) t names) k
      = (if k \<in> set names then Some zero_total else obj_get t k)" for t
    by (induction names arbitrary: t) (auto simp: obj_get_set)
  then show ?thesis by (simp add: initialTotals_def obj_get_set)
qed

lemma foldl_add_service:
  assumes "adds_field f g" and "\<forall>e \<in> set es. obj_get t (sd_serviceName e) \<noteq> None" and "obj_get t ''total'' \<noteq> None"
    and "\<forall>e \<in> set es. sd_serviceName e \<noteq> ''total''"
  shows "k \<noteq> ''total'' \<Longrightarrow> map_option f (obj_get (foldl add_service t es) k)
       = map_option (\<lambda>u. f u + sum_list (map g (filter (\<lambda>e. sd_serviceName e = k) es))) (obj_get t k)"
    and "map_option f (obj_get (foldl add_service t es) ''total'')
       = map_option (\<lambda>u. f u + sum_list (map g es)) (obj_get t ''total'')"
proof -
  have "(k \<noteq> ''total'' \<longrightarrow> map_option f (obj_get (foldl add_service t es) k)
       = map_option (\<lambda>u. f u + sum_list (map g (filter (\<lambda>e. sd_serviceName e = k) es))) (obj_get t k))
    \<and> map_option f (obj_get (foldl add_service t es) ''total'')
       = map_option (\<lambda>u. f u + sum_list (map g es)) (obj_get t ''total'')"
    using assms(2-)
  proof (induction es arbitrary: t)
    case Nil
    then show ?case by (simp add: option.map_ident)
  next
    case (Cons e es)
    obtain u v where uv: "obj_get t (sd_serviceName e) = Some u" "obj_get t ''total'' = Some v"
      using Cons.prems by auto
    have name: "sd_serviceName e \<noteq> ''total''" using Cons.prems by simp
    let ?t = "add_service t e"
    have get: "obj_get ?t j = (if j = ''total'' then Some (add_to_entry e (Some v))
        else if j = sd_serviceName e then Some (add_to_entry e (Some u)) else obj_get t j)" for j
      using name by (auto simp: add_service_def upsert_def obj_get_set uv)
    have IH: "(k \<noteq> ''total'' \<longrightarrow> map_option f (obj_get (foldl add_service ?t es) k)
       = map_option (\<lambda>u. f u + sum_list (map g (filter (\<lambda>e. sd_serviceName e = k) es))) (obj_get ?t k))
    \<and> map_option f (obj_get (foldl add_service ?t es) ''total'')
       = map_option (\<lambda>u. f u + sum_list (map g es)) (obj_get ?t ''total'')"
      by (rule Cons.IH) (use Cons.prems get in auto)
    have "f (add_to_entry e (Some w)) = f w + g e" for w
      using assms(1) by (simp add: adds_field_def)
    then show ?case using IH name by (auto simp: get uv add.assoc)
  qed
  then show "k \<noteq> ''total'' \<Longrightarrow> map_option f (obj_get (foldl add_service t es) k)
       = map_option (\<lambda>u. f u + sum_list (map g (filter (\<lambda>e. sd_serviceName e = k) es))) (obj_get t k)"
    "map_option f (obj_get (foldl add_service t es) ''total'')
       = map_option (\<lambda>u. f u + sum_list (map g es)) (obj_get t ''total'')" by simp_all
qed

end
