(* ===== verification/Cli_Properties.thy ===== *)
theory Cli_Properties
  imports Cli_Tables
begin

text \<open>
  The properties of the command line: the totals of the table by service, the total that the table by day shows,
  the file of comma-separated values, and the grouping when none is given.
\<close>

section \<open>Totals\<close>



definition cli_service :: "string \<Rightarrow> jsnum \<Rightarrow> jsnum \<Rightarrow> jsnum \<Rightarrow> ServiceData" where
  "cli_service name kwh co2e cost =
     \<lparr>sd_cloudProvider = ''AWS'', sd_accountId = ''1'', sd_accountName = ''main'', sd_serviceName = name,
      sd_kilowattHours = kwh, sd_co2e = co2e, sd_cost = cost, sd_region = ''us-east-1'',
      sd_usesAverageCPUConstant = False, sd_tags = None\<rparr>"

definition cli_day :: "date \<Rightarrow> ServiceData list \<Rightarrow> EstimationResult" where
  "cli_day d services =
     \<lparr>er_timestamp = d, er_serviceEstimates = services, er_periodStartDate = None, er_periodEndDate = None,
      er_groupBy = day\<rparr>"

definition cli_results :: "EstimationResult list" where
  "cli_results =
     [cli_day 0 [cli_service ''AmazonEC2'' (Fin 3) (Fin 1) (Fin 5), cli_service ''AmazonS3'' (Fin 1) (Fin (1 / 2)) (Fin 2)],
      cli_day 86400000 [cli_service ''AmazonEC2'' (Fin 4) (Fin 2) (Fin 6)]]"

lemmas cli_sample_defs = cli_results_def cli_day_def cli_service_def services_of_def


lemma add_on_days:
  assumes "adds_field f g"
  shows "f (foldl (\<lambda>t d. add_to_entry (snd d) (Some t)) t ds) = f t + sum_list (map (\<lambda>d. g (snd d)) ds)"
  using assms by (induction ds arbitrary: t) (simp_all add: adds_field_def add.assoc)

lemma dated_services_snd: "map (\<lambda>d. g (snd d)) (dated_services rs) = map g (services_of rs)"
  by (simp add: dated_services_def services_of_def map_concat comp_def)

text \<open>A day has the form of a date, so no day is called Total, and the total is the last row.\<close>

lemma iso_day_not_total: "iso_day d \<noteq> ''Total''"
proof -
  have "4 \<le> length (iso_year y)" for y by (simp add: iso_year_def)
  then have "10 \<le> length (iso_date n)" for n by (cases "civil n") (simp add: iso_date_def)
  then have "10 \<le> length (iso_date (day_number d))" .
  then have "length (iso_day d) = 10" by (simp add: iso_day_def toISOString_def)
  then show ?thesis by auto
qed

lemma last_day_row:
  "last (fst (EmissionsByDayTable rs))
     = [''Total'', displayWattHours (sum_list (map sd_kilowattHours (services_of rs))),
        displayCo2e (sum_list (map sd_co2e (services_of rs)))]"
proof -
  let ?days = "group_fold (\<lambda>d. iso_day (fst d)) add_on_day [] (dated_services rs)"
  have "obj_get ?days ''Total'' = None"
    by (simp add: map_of_group_fold iso_day_not_total)
  then show ?thesis
    by (simp add: EmissionsByDayTable_def day_grandTotals_def Let_def obj_set_new add_on_days [OF adds_fields(1)]
        add_on_days [OF adds_fields(2)] dated_services_snd zero_total_def)
qed

text \<open>
  C28. The table by day: when the estimates add up to a finite energy and to finite emissions, its last row shows
  the total, with an energy that is read back to at most half a hundredth of the sum and emissions that are read
  back to at most half a millionth.
\<close>

theorem day_table_shows_the_total:
  assumes "sum_list (map sd_kilowattHours (services_of rs)) = Fin kwh"
    and "sum_list (map sd_co2e (services_of rs)) = Fin co2e"
  shows "\<exists>energy emissions x y. last (fst (EmissionsByDayTable rs)) = [''Total'', energy, emissions]
    \<and> parseFloat energy = Fin x \<and> \<bar>x - kwh\<bar> \<le> 1 / 200
    \<and> parseFloat emissions = Fin y \<and> \<bar>y - co2e\<bar> \<le> 1 / 2000000"
proof -
  obtain x where x: "parseFloat (displayWattHours (Fin kwh)) = Fin x" "\<bar>x - kwh\<bar> \<le> 1 / 200"
    using toFixed_near [of 2 kwh] by (auto simp: displayWattHours_def)
  obtain y where y: "parseFloat (displayCo2e (Fin co2e)) = Fin y" "\<bar>y - co2e\<bar> \<le> 1 / 2000000"
    using toFixed_near [of 6 co2e] by (auto simp: displayCo2e_def)
  show ?thesis
    using x y assms by (auto simp: last_day_row)
qed

theorem day_table_shows_the_total_witness:
  "\<exists>energy emissions x y. last (fst (EmissionsByDayTable cli_results)) = [''Total'', energy, emissions]
    \<and> parseFloat energy = Fin x \<and> \<bar>x - 8\<bar> \<le> 1 / 200
    \<and> parseFloat emissions = Fin y \<and> \<bar>y - 7 / 2\<bar> \<le> 1 / 2000000"
  by (rule day_table_shows_the_total) (simp_all add: cli_sample_defs)

section \<open>The file of comma-separated values\<close>

definition csv_cell :: "string \<Rightarrow> bool" where
  "csv_cell s \<longleftrightarrow> CHR '','' \<notin> set s \<and> CHR 0x0A \<notin> set s"

lemma csv_cell_simps [simp]:
  "csv_cell []" "csv_cell (c # s) \<longleftrightarrow> c \<noteq> CHR '','' \<and> c \<noteq> CHR 0x0A \<and> csv_cell s"
  "csv_cell (s @ t) \<longleftrightarrow> csv_cell s \<and> csv_cell t"
  by (auto simp: csv_cell_def)

lemma csv_cell_digits: "\<forall>c \<in> set s. is_digit c \<Longrightarrow> csv_cell s"
  by (auto simp: csv_cell_def is_digit_def code_def)

lemma csv_cell_toFixed: "csv_cell (toFixed digits x)"
  by (cases "(digits, x)" rule: toFixed.cases)
    (auto simp: Let_def csv_cell_digits natural_text_digits padded_digits)

lemma split_go_char:
  "c \<notin> set p \<Longrightarrow> split_go [c] cur (p @ c # r) = (rev cur @ p) # split_go [c] [] r"
  by (induction p arbitrary: cur) auto

lemma split_go_rest: "c \<notin> set p \<Longrightarrow> split_go [c] cur p = [rev cur @ p]"
  by (induction p arbitrary: cur) auto

lemma split_join_char:
  "ps \<noteq> [] \<Longrightarrow> \<forall>p \<in> set ps. c \<notin> set p \<Longrightarrow> split (join [c] ps) [c] = ps"
proof (induction ps)
  case Nil
  then show ?case by simp
next
  case (Cons p ps)
  then show ?case by (cases "ps = []") (auto simp: split_def join_Cons split_go_char split_go_rest)
qed

lemma split_lines: "\<forall>p \<in> set ps. c \<notin> set p \<Longrightarrow> split (concat (map (\<lambda>p. p @ [c]) ps)) [c] = ps @ [[]]"
  by (induction ps) (auto simp: split_def split_go_char)

lemma set_join: "set (join sep ps) \<subseteq> set sep \<union> \<Union> (set ` set ps)"
  by (induction ps) (auto simp: join_Cons)

lemma csv_reads_back:
  assumes "\<forall>row \<in> set rows. row \<noteq> [] \<and> (\<forall>cell \<in> set row. csv_cell cell)"
  shows "map (\<lambda>line. split line '','') (butlast (split (exportToCSV rows) nl)) = rows"
proof -
  have "CHR 0x0A \<notin> set (join '','' row)" if "row \<in> set rows" for row
    using assms that set_join [of "'',''" row] by (auto simp: csv_cell_def)
  then have "split (exportToCSV rows) nl = map (join '','') rows @ [[]]"
    using split_lines [of "map (join '','') rows" "CHR 0x0A"] by (simp add: exportToCSV_def nl_def comp_def)
  moreover have "split (join '','' row) '','' = row" if "row \<in> set rows" for row
    using assms that by (intro split_join_char) (auto simp: csv_cell_def)
  ultimately show ?thesis by (simp add: map_idI)
qed

lemma service_names:
  assumes "ramda_uniq uniq"
  shows "fst ` set (service_grandTotals uniq rs) = insert ''total'' (sd_serviceName ` set (services_of rs))"
proof -
  have init: "fst ` set (foldl (\<lambda>t service. obj_set t service zero_total) t names) = set names \<union> fst ` set t" for t names
    by (induction names arbitrary: t) (auto simp: dom_update)
  have "fst ` set (foldl add_service t es) = sd_serviceName ` set es \<union> fst ` set t"
    if "''total'' \<in> fst ` set t" for t es
    using that by (induction es arbitrary: t) (auto simp: add_service_def upsert_def dom_update)
  then show ?thesis
    using assms by (auto simp: service_grandTotals_def initialTotals_def dom_update init ramda_uniq_def)
qed

lemma service_cells:
  assumes "ramda_uniq uniq" and "\<forall>e \<in> set (services_of rs). csv_cell (sd_serviceName e)"
    and "row \<in> set (fst (EmissionsByServiceTable uniq rs))"
  shows "row \<noteq> [] \<and> (\<forall>cell \<in> set row. csv_cell cell)"
proof -
  have "csv_cell n" if "(n, u) \<in> set (service_grandTotals uniq rs)" for n u
  proof -
    have "n \<in> insert ''total'' (sd_serviceName ` set (services_of rs))"
      unfolding service_names [OF assms(1), symmetric] using that by force
    then show ?thesis using assms(2) by auto
  qed
  moreover have "row = [''Service'', ''kilowatt hours'', ''metric tons CO2e Emissions'', ''Cost'']
      \<or> (\<exists>n u. (n, u) \<in> set (service_grandTotals uniq rs)
          \<and> row = [displayServiceName n, displayWattHours (to_kilowattHours u), displayCo2e (to_co2e u),
                   displayCost (to_cost u)])"
    using assms(3) by (auto simp: EmissionsByServiceTable_def simp del: split_paired_Ex)
  moreover have "csv_cell (displayWattHours x)" "csv_cell (displayCo2e x)" "csv_cell (displayCost x)"
    "csv_cell (displayServiceName n) \<longleftrightarrow> csv_cell n" for x n
    by (simp_all add: displayWattHours_def displayCo2e_def displayCost_def csv_cell_toFixed displayServiceName_def)
  ultimately show ?thesis by auto
qed

text \<open>
  C29. The rows that are saved for the table by service are read back by splitting the file into lines and the lines
  at their commas, when no name of a service has a comma or a line break: the writer does not quote.
\<close>

theorem saved_services_read_back:
  assumes "ramda_uniq uniq"
    and "\<forall>e \<in> set (services_of rs). CHR '','' \<notin> set (sd_serviceName e) \<and> CHR 0x0A \<notin> set (sd_serviceName e)"
  shows "map (\<lambda>line. split line '','') (butlast (split (exportToCSV (fst (EmissionsByServiceTable uniq rs))) nl))
       = fst (EmissionsByServiceTable uniq rs)"
  by (rule csv_reads_back, rule ballI, rule service_cells [OF assms(1)])
    (use assms(2) in \<open>simp_all add: csv_cell_def\<close>)

theorem saved_services_read_back_witness:
  "map (\<lambda>line. split line '','')
     (butlast (split (exportToCSV (fst (EmissionsByServiceTable uniq_documented cli_results))) nl))
   = fst (EmissionsByServiceTable uniq_documented cli_results)"
  by (rule saved_services_read_back [OF uniq_doc.ramda_uniq_axioms]) (simp add: cli_sample_defs)

lemma length_split_char: "length (split s [c]) = Suc (count_list s c)"
proof -
  have "length (split_go [c] cur s) = Suc (count_list s c)" for cur
    by (induction s arbitrary: cur) auto
  then show ?thesis by (simp add: split_def)
qed

lemma count_join: "row \<noteq> [] \<Longrightarrow>
  Suc (count_list (join [c] row) c) = length row + sum_list (map (\<lambda>cell. count_list cell c) row)"
  by (induction row) (auto simp: join_Cons)

text \<open>
  The writer quotes nothing: the line of a row is read back as one cell more than the row has for every comma
  in its cells.
\<close>

theorem commas_add_cells:
  assumes "row \<noteq> []" and "\<forall>cell \<in> set row. CHR 0x0A \<notin> set cell"
  shows "length (split (hd (split (exportToCSV (row # rows)) nl)) '','')
       = length row + sum_list (map (\<lambda>cell. count_list cell (CHR '','')) row)"
proof -
  have "CHR 0x0A \<notin> set (join '','' row)"
    using assms(2) set_join [of "'',''" row] by auto
  then have "hd (split (exportToCSV (row # rows)) nl) = join '','' row"
    by (simp add: exportToCSV_def nl_def split_def split_go_char)
  then show ?thesis using count_join [OF assms(1), of "CHR '',''"] by (simp add: length_split_char)
qed

theorem commas_add_cells_witness:
  "length (split (hd (split (exportToCSV [[''Virtual Network, Basic'', ''1.00'']]) nl)) '','') = 3"
  using commas_add_cells [of "[''Virtual Network, Basic'', ''1.00'']" "[]"] by simp

section \<open>The grouping\<close>

text \<open>
  Without a grouping, the command groups by day, but after the prompts, which say that the default is
  dayAndService, an empty answer ends in an error before the app is asked.
\<close>

theorem empty_answer_is_an_error:
  assumes "nonempty g = None"
  shows "cli E False (opts\<lparr>co_groupBy := g\<rparr>) = cli E False (opts\<lparr>co_groupBy := Some ''day''\<rparr>)
    \<and> cli E True (opts\<lparr>co_groupBy := g\<rparr>)
      = Some (Inl (Thrown (''GroupBy param is incorrect. Please specify one of the following grouping methods: ''
          @ ''day | dayAndService | service'')))"
proof -
  have "nonempty (Some ''day'') = Some ''day''" by (simp add: nonempty_def)
  moreover have "g = None \<or> g = Some []"
    using assms by (auto simp: nonempty_def split: option.splits list.splits)
  ultimately show ?thesis
    using assms by (cases "ce_closing E") (auto simp: cli_def validateCliInput_def Let_def split: sum.split)
qed

theorem empty_answer_is_an_error_witness:
  "\<exists>E. cli E True \<lparr>co_startDate = Some ''2024-01-01'', co_endDate = Some ''2024-01-02'', co_groupBy = Some [],
      co_format = None\<rparr>
   = Some (Inl (Thrown (''GroupBy param is incorrect. Please specify one of the following grouping methods: ''
       @ ''day | dayAndService | service'')))"
  using empty_answer_is_an_error [of "Some []" _ "\<lparr>co_startDate = Some ''2024-01-01'',
      co_endDate = Some ''2024-01-02'', co_groupBy = None, co_format = None\<rparr>"]
  by (simp add: nonempty_def)

end
