(* ===== verification/Api_Users.thy ===== *)
theory Api_Users
  imports App_Request
begin

text \<open>
  The users of the API, \<open>packages/api/src/users\<close>: \<open>user.ts\<close> and \<open>entity/user.entity.ts\<close>, the operations of
  \<open>user.service.ts\<close> and the answers of \<open>user.controller.ts\<close>. The repository of the users and the decoding
  of a token are parameters; an operation of the repository fails with a message. A locale states what is
  documented of a repository.
\<close>

section \<open>Users\<close>

text \<open>An account of the identity provider, as far as the code reads it.\<close>

record msal_account =
  ma_id :: string
  ma_oid :: string

record azure_connection =
  az_connected :: bool
  az_account :: "msal_account option"
  az_accessToken :: "string option"

text \<open>The connections to clouds, of which only the one to Azure is used.\<close>

record cloud_connections =
  cn_azure :: "azure_connection option"

record BaseUser =
  us_email :: "string option"
  us_firstName :: "string option"
  us_isExternal :: bool
  us_lastName :: "string option"
  us_nickName :: "string option"
  us_tenantId :: "string option"
  us_externalId :: "string option"
  us_cloudConnections :: "cloud_connections option"

record User = BaseUser +
  us_id :: string

definition identified :: "string \<Rightarrow> BaseUser \<Rightarrow> User" where
  "identified i u = BaseUser.extend u \<lparr>us_id = i\<rparr>"

section \<open>The repository\<close>

text \<open>\<open>ur_insert\<close> is \<open>save\<close> of an entity without an identifier, which the database gives it.\<close>

record 'db user_repository =
  ur_find :: "'db \<Rightarrow> string + User list"
  ur_findOneById :: "string option \<Rightarrow> 'db \<Rightarrow> string + User option"
  ur_findByExternalId :: "string option \<Rightarrow> 'db \<Rightarrow> string + User option"
  ur_insert :: "BaseUser \<Rightarrow> 'db \<Rightarrow> string + string \<times> 'db"
  ur_save :: "User \<Rightarrow> 'db \<Rightarrow> string + 'db"
  ur_remove :: "User \<Rightarrow> 'db \<Rightarrow> string + bool \<times> 'db"

definition asking :: "('db \<Rightarrow> string + 'a) \<Rightarrow> ('db, 'a) eff" where
  "asking f = (\<lambda>db. (case f db of Inl e \<Rightarrow> Inl (Thrown e) | Inr x \<Rightarrow> Inr x, db))"

definition changing :: "('db \<Rightarrow> string + 'a \<times> 'db) \<Rightarrow> ('db, 'a) eff" where
  "changing f = (\<lambda>db. case f db of Inl e \<Rightarrow> (Inl (Thrown e), db) | Inr (x, db') \<Rightarrow> (Inr x, db'))"

definition saving :: "('db \<Rightarrow> string + 'db) \<Rightarrow> ('db, unit) eff" where
  "saving f = (\<lambda>db. case f db of Inl e \<Rightarrow> (Inl (Thrown e), db) | Inr db' \<Rightarrow> (Inr (), db'))"

section \<open>\<open>user.service.ts\<close>\<close>

definition defaultTenantId :: string where
  "defaultTenantId = ''-1''"

definition getAllUsers :: "'db user_repository \<Rightarrow> ('db, User list) eff" where
  "getAllUsers R = asking (ur_find R)"

definition getUserById :: "'db user_repository \<Rightarrow> string option \<Rightarrow> ('db, User option) eff" where
  "getUserById R i = asking (ur_findOneById R i)"

definition getUserByExternalId :: "'db user_repository \<Rightarrow> string option \<Rightarrow> ('db, User option) eff" where
  "getUserByExternalId R externalId = asking (ur_findByExternalId R externalId)"

definition is_given :: "string option \<Rightarrow> bool" where
  "is_given s \<longleftrightarrow> nonempty s \<noteq> None"

text \<open>The connections of a new user are in the answer and not in the entity.\<close>

definition createUser :: "'db user_repository \<Rightarrow> BaseUser \<Rightarrow> ('db, User) eff" where
  "createUser R newUser =
     (let newUser = (if is_given (us_tenantId newUser) then newUser
                     else newUser\<lparr>us_tenantId := Some defaultTenantId\<rparr>);
          userEntity = newUser\<lparr>us_cloudConnections := None\<rparr>
      in bindE (changing (ur_insert R userEntity)) (\<lambda>i. retE (identified i newUser)))"

definition updated :: "'b BaseUser_scheme \<Rightarrow> User \<Rightarrow> User" where
  "updated userUpdate user =
     user\<lparr>us_email := (if is_given (us_email userUpdate) then us_email userUpdate else us_email user),
          us_firstName := (if is_given (us_firstName userUpdate) then us_firstName userUpdate else us_firstName user),
          us_lastName := (if is_given (us_lastName userUpdate) then us_lastName userUpdate else us_lastName user),
          us_nickName := (if is_given (us_nickName userUpdate) then us_nickName userUpdate else us_nickName user),
          us_cloudConnections := (if us_cloudConnections userUpdate \<noteq> None then us_cloudConnections userUpdate
                                  else us_cloudConnections user)\<rparr>"

lemma updated_identity [simp]:
  "us_id (updated userUpdate user) = us_id user" "us_externalId (updated userUpdate user) = us_externalId user"
  "us_tenantId (updated userUpdate user) = us_tenantId user" "us_isExternal (updated userUpdate user) = us_isExternal user"
  by (simp_all add: updated_def)

definition updateUser :: "'db user_repository \<Rightarrow> string \<Rightarrow> 'b BaseUser_scheme \<Rightarrow> ('db, User option) eff" where
  "updateUser R i userUpdate =
     bindE (getUserById R (Some i)) (\<lambda>found.
       case found of
         None \<Rightarrow> retE None
       | Some user \<Rightarrow> bindE (saving (ur_save R (updated userUpdate user))) (\<lambda>_. retE (Some (updated userUpdate user))))"

definition removeUser :: "'db user_repository \<Rightarrow> string \<Rightarrow> ('db, bool) eff" where
  "removeUser R i =
     bindE (getUserById R (Some i)) (\<lambda>found.
       case found of None \<Rightarrow> retE False | Some user \<Rightarrow> changing (ur_remove R user))"

section \<open>\<open>user.controller.ts\<close>\<close>

text \<open>The payload of a token as \<open>jwt.decode\<close> yields it: none, a text, or the claims.\<close>

datatype jwt_payload = NoPayload | TextPayload string | Claims "string obj"

text \<open>\<open>authorization?.split(' ')[1]\<close>.\<close>

definition bearer_token :: "string option \<Rightarrow> string option" where
  "bearer_token authorization =
     (case authorization of None \<Rightarrow> None | Some a \<Rightarrow> elem_at (split a '' '') 1)"

text \<open>The tenant of a token, which must be among its claims.\<close>

definition tenant_of_token :: "(string \<Rightarrow> jwt_payload) \<Rightarrow> string \<Rightarrow> string result" where
  "tenant_of_token decode token =
     (case decode token of
        Claims claims \<Rightarrow>
          (case obj_get claims ''tid'' of
             Some tid \<Rightarrow> Inr tid
           | None \<Rightarrow> Inl (Thrown ''Tenant ID (tid) not found in token''))
      | _ \<Rightarrow> Inl (Thrown ''Tenant ID (tid) not found in token''))"

datatype 'a response = Sent nat 'a | Failed nat string

definition answering :: "'b response \<Rightarrow> ('db, 'b response) eff \<Rightarrow> 'db \<Rightarrow> 'b response \<times> 'db" where
  "answering failure m db = (case m db of (Inl _, db') \<Rightarrow> (failure, db') | (Inr r, db') \<Rightarrow> (r, db'))"

definition getAllUsers_handler :: "'db user_repository \<Rightarrow> 'db \<Rightarrow> User list response \<times> 'db" where
  "getAllUsers_handler R =
     answering (Failed 500 ''Error retrieving users'') (bindE (getAllUsers R) (\<lambda>users. retE (Sent 200 users)))"

definition getUserById_handler :: "'db user_repository \<Rightarrow> string \<Rightarrow> 'db \<Rightarrow> User response \<times> 'db" where
  "getUserById_handler R i =
     answering (Failed 500 ''Error retrieving user'')
       (bindE (getUserById R (Some i)) (\<lambda>user.
          retE (case user of Some u \<Rightarrow> Sent 200 u | None \<Rightarrow> Failed 404 ''user not found'')))"

definition createUser_handler ::
    "'db user_repository \<Rightarrow> (string \<Rightarrow> jwt_payload) \<Rightarrow> string option \<Rightarrow> BaseUser \<Rightarrow> 'db \<Rightarrow> User response \<times> 'db" where
  "createUser_handler R decode authorization user =
     answering (Failed 500 ''Create user failed. Internal server error'')
       (bindE (case nonempty (bearer_token authorization) of
                 None \<Rightarrow> retE user
               | Some token \<Rightarrow>
                   bindE (liftE (tenant_of_token decode token)) (\<lambda>tid. retE (user\<lparr>us_tenantId := Some tid\<rparr>)))
          (\<lambda>user. bindE (createUser R user) (\<lambda>newUser. retE (Sent 201 newUser))))"

definition updateUser_handler :: "'db user_repository \<Rightarrow> string \<Rightarrow> User \<Rightarrow> 'db \<Rightarrow> string response \<times> 'db" where
  "updateUser_handler R i userUpdate =
     answering (Failed 500 ''Update user failed. Internal server error'')
       (bindE (updateUser R i userUpdate) (\<lambda>user.
          retE (case user of Some _ \<Rightarrow> Sent 200 ''User updated successfully'' | None \<Rightarrow> Failed 404 ''User not found'')))"

definition removeUser_handler :: "'db user_repository \<Rightarrow> string \<Rightarrow> 'db \<Rightarrow> string response \<times> 'db" where
  "removeUser_handler R i =
     answering (Failed 500 ''Delete user failed. Internal server error'')
       (bindE (removeUser R i) (\<lambda>removed.
          retE (if removed then Sent 200 ''User deleted successfully'' else Failed 404 ''User not found'')))"

section \<open>The laws of a repository\<close>

locale user_store =
  fixes R :: "'db user_repository" and users :: "'db \<Rightarrow> User list"
  assumes find_all: "ur_find R db = Inr (users db)"
    and found_id: "ur_findOneById R (Some i) db = Inr found \<Longrightarrow> found = find (\<lambda>u. us_id u = i) (users db)"
    and found_external: "x \<noteq> [] \<Longrightarrow> ur_findByExternalId R (Some x) db = Inr (find (\<lambda>u. us_externalId u = Some x) (users db))"
    and inserted: "ur_insert R new db = Inr (i, db') \<Longrightarrow>
      i \<notin> us_id ` set (users db) \<and> users db' = users db @ [identified i new]"
    and saved: "us_id u \<in> us_id ` set (users db) \<Longrightarrow> ur_save R u db = Inr db' \<Longrightarrow>
      users db' = map (\<lambda>v. if us_id v = us_id u then u else v) (users db)"
    and removed: "ur_remove R u db = Inr (b, db') \<Longrightarrow> b \<and> users db' = filter (\<lambda>v. us_id v \<noteq> us_id u) (users db)"
begin

text \<open>A user that was created is found by its external identifier, when no other one has it.\<close>

lemma created_is_found:
  assumes "createUser R newUser db = (Inr u, db')" and "us_externalId newUser = Some x" "x \<noteq> []"
    and "\<forall>v \<in> set (users db). us_externalId v \<noteq> Some x"
  shows "getUserByExternalId R (Some x) db' = (Inr (Some (u\<lparr>us_cloudConnections := None\<rparr>)), db')"
proof -
  let ?new = "if is_given (us_tenantId newUser) then newUser else newUser\<lparr>us_tenantId := Some defaultTenantId\<rparr>"
  from assms(1) obtain i where ins: "ur_insert R (?new\<lparr>us_cloudConnections := None\<rparr>) db = Inr (i, db')"
    and u: "u = identified i ?new"
    by (auto simp: createUser_def Let_def bindE_def changing_def retE_def split: sum.splits prod.splits if_splits)
  have "find P us = None \<Longrightarrow> find P (us @ [v]) = (if P v then Some v else None)" for P us and v :: User
    by (induction us) (auto split: if_splits)
  moreover have "find (\<lambda>v. us_externalId v = Some x) (users db) = None"
    using assms(4) by (simp add: find_None_iff)
  ultimately have "find (\<lambda>v. us_externalId v = Some x) (users db @ [v])
      = (if us_externalId v = Some x then Some v else None)" for v
    by blast
  then show ?thesis
    using inserted [OF ins] assms(2,3)
    by (simp add: getUserByExternalId_def asking_def found_external u identified_def BaseUser.defs)
qed

text \<open>No operation gives two users one identifier.\<close>

lemma identifiers_stay_distinct:
  assumes "distinct (map us_id (users db))"
  shows "distinct (map us_id (users (snd (createUser R newUser db))))"
    and "distinct (map us_id (users (snd (updateUser R i userUpdate db))))"
    and "distinct (map us_id (users (snd (removeUser R i db))))"
proof -
  show "distinct (map us_id (users (snd (createUser R newUser db))))"
    using assms by (auto simp: createUser_def Let_def bindE_def changing_def retE_def identified_def BaseUser.defs
        split: sum.splits prod.splits dest!: inserted)
  have same: "distinct (map us_id (users db'))"
    if "ur_findOneById R (Some i) db = Inr (Some u)" and "ur_save R (updated userUpdate u) db = Inr db'" for u db'
  proof -
    have "us_id (updated userUpdate u) \<in> us_id ` set (users db)"
      using found_id [OF that(1)] by (metis find_Some_iff imageI nth_mem updated_identity(1))
    from saved [OF this that(2)] have "map us_id (users db') = map us_id (users db)" by simp
    then show ?thesis using assms by simp
  qed
  show "distinct (map us_id (users (snd (updateUser R i userUpdate db))))"
  proof (cases "ur_findOneById R (Some i) db")
    case (Inl e)
    then show ?thesis using assms by (simp add: updateUser_def getUserById_def asking_def bindE_def)
  next
    case (Inr found)
    then show ?thesis using assms same
      by (auto simp: updateUser_def getUserById_def asking_def bindE_def saving_def changing_def retE_def
          split: sum.split option.split)
  qed
  show "distinct (map us_id (users (snd (removeUser R i db))))"
    using assms by (auto simp: removeUser_def getUserById_def asking_def bindE_def changing_def retE_def
        distinct_map_filter split: sum.splits prod.splits option.splits dest!: removed)
qed

end

text \<open>A list of users satisfies the laws; a new identifier is longer than all others.\<close>

definition fresh_id :: "User list \<Rightarrow> string" where
  "fresh_id us = CHR ''u'' # concat (map us_id us)"

definition users_documented :: "User list user_repository" where
  "users_documented =
     \<lparr>ur_find = Inr,
      ur_findOneById = (\<lambda>i us. Inr (case i of None \<Rightarrow> None | Some j \<Rightarrow> find (\<lambda>u. us_id u = j) us)),
      ur_findByExternalId = (\<lambda>x us. Inr (find (\<lambda>u. us_externalId u = x) us)),
      ur_insert = (\<lambda>u us. Inr (fresh_id us, us @ [identified (fresh_id us) u])),
      ur_save = (\<lambda>u us. Inr (map (\<lambda>v. if us_id v = us_id u then u else v) us)),
      ur_remove = (\<lambda>u us. Inr (True, filter (\<lambda>v. us_id v \<noteq> us_id u) us))\<rparr>"

lemma fresh_id_fresh: "fresh_id us \<notin> us_id ` set us"
proof -
  have "length (us_id u) < length (fresh_id us)" if "u \<in> set us" for u
    using that by (induction us) (auto simp: fresh_id_def)
  then show ?thesis by force
qed

interpretation user_doc: user_store users_documented "\<lambda>us. us"
  by unfold_locales (auto simp: users_documented_def fresh_id_fresh)

end
