(* ===== verification/Api_Auth.thy ===== *)
theory Api_Auth
  imports Api_Users
begin

text \<open>
  Sessions and sign-in of the API, \<open>packages/api/src\<close>: the claims of a session (\<open>utils/claimUtils.ts\<close>), the
  sign-in at the identity provider and the connection to a cloud (\<open>auth/auth.provider.ts\<close> and
  \<open>auth/auth.controller.ts\<close>), and the two guards of the routes (\<open>utils/auth.ts\<close>). The client of the identity
  provider, its keys and the library for tokens are parameters, and so is the repository of users.
\<close>

section \<open>Sessions\<close>

record session_user =
  su_id :: string
  su_name :: "string option"
  su_isCloudConnected :: bool

record session_account =
  sa_account :: msal_account
  sa_user :: "session_user option"

record session =
  ss_isAuthenticated :: bool
  ss_accessToken :: "string option"
  ss_idToken :: "string option"
  ss_tokenCache :: "string option"
  ss_accessTokenToCloud :: "string option"
  ss_account :: "session_account option"
  ss_claims :: "string obj option"

definition new_session :: session where
  "new_session = \<lparr>ss_isAuthenticated = False, ss_accessToken = None, ss_idToken = None, ss_tokenCache = None,
     ss_accessTokenToCloud = None, ss_account = None, ss_claims = None\<rparr>"

section \<open>\<open>claimUtils.ts\<close>\<close>

text \<open>
  \<open>decodeURI\<close> and \<open>decodeURIComponent\<close> on the escapes of ASCII characters; the first keeps the escapes of
  reserved characters. The escapes of other characters are kept as they are.
\<close>

fun percent_decode :: "(char \<Rightarrow> bool) \<Rightarrow> string \<Rightarrow> string result" where
  "percent_decode keep [] = Inr []"
| "percent_decode keep (c # cs) =
     (if c \<noteq> CHR ''%'' then bindR (percent_decode keep cs) (\<lambda>r. Inr (c # r))
      else if length cs < 2 \<or> \<not> list_all hex_digit (take 2 cs) then Inl (Thrown ''URI malformed'')
      else
        (let v = 16 * hex_val (cs ! 0) + hex_val (cs ! 1); d = char_of (nat v) in
         bindR (percent_decode keep (drop 2 cs)) (\<lambda>r.
           Inr ((if 128 \<le> v \<or> keep d then c # take 2 cs else [d]) @ r))))"

definition decodeURI :: "string \<Rightarrow> string result" where
  "decodeURI s = percent_decode (\<lambda>c. c \<in> set '';/?:@&=+$,#'') s"

definition decodeURIComponent :: "string \<Rightarrow> string result" where
  "decodeURIComponent s = percent_decode (\<lambda>_. False) s"

definition parse_challenge :: "string obj \<Rightarrow> string \<Rightarrow> string obj result" where
  "parse_challenge challengeMap challenge =
     (let parts = split challenge ''='' in
      case elem_at parts 1 of
        None \<Rightarrow> Inl TypeError
      | Some v \<Rightarrow>
          bindR (decodeURI (filter (\<lambda>c. c \<noteq> CHR 0x27 \<and> c \<noteq> CHR 0x22) v)) (\<lambda>d.
            Inr (obj_set challengeMap (trim (hd parts)) d)))"

definition parseChallenges :: "string \<Rightarrow> string obj result" where
  "parseChallenges header =
     (let schemeSeparator = index_of header '' '';
          challenges = split (drop (nat (schemeSeparator + 1)) header) '',''
      in foldR parse_challenge [] challenges)"

datatype claims_error = ClaimsChallengeAuthError "string option" | OtherError js_error

text \<open>The response of an API: its status, its header \<open>WWW-Authenticate\<close> and its content.\<close>

record 'a api_answer =
  an_status :: nat
  an_authenticate :: "string option"
  an_json :: "'a result"

definition handleAnyClaimsChallenge :: "string \<Rightarrow> 'a api_answer \<Rightarrow> claims_error + 'a" where
  "handleAnyClaimsChallenge status_text answer =
     (if an_status answer = 200 then
        (case an_json answer of Inl e \<Rightarrow> Inl (OtherError e) | Inr x \<Rightarrow> Inr x)
      else if an_status answer = 401 then
        (case nonempty (an_authenticate answer) of
           Some header \<Rightarrow>
             (case parseChallenges header of
                Inl e \<Rightarrow> Inl (OtherError e)
              | Inr challenges \<Rightarrow> Inl (ClaimsChallengeAuthError (obj_get challenges ''claims'')))
         | None \<Rightarrow> Inl (OtherError (Thrown (''Unauthorized: '' @ status_text))))
      else Inl (OtherError (Thrown (''Something went wrong with the request: '' @ status_text))))"

text \<open>\<open>new URL(endpoint).hostname\<close> of an absolute address without a user.\<close>

definition hostname :: "string \<Rightarrow> string" where
  "hostname endpoint =
     (case elem_at (split endpoint ''//'') 1 of
        None \<Rightarrow> []
      | Some rest \<Rightarrow> toLowerCase (takeWhile (\<lambda>c. c \<notin> set ''/:?#'') rest))"

definition claims_key :: "session \<Rightarrow> string \<Rightarrow> string \<Rightarrow> string result" where
  "claims_key s clientId endpoint =
     (case ss_account s of
        None \<Rightarrow> Inl TypeError
      | Some a \<Rightarrow> Inr (''cc.'' @ clientId @ ''.'' @ ma_oid (sa_account a) @ ''.'' @ hostname endpoint))"

definition setClaims :: "string \<Rightarrow> string \<Rightarrow> string \<Rightarrow> session \<Rightarrow> session result" where
  "setClaims clientId endpoint claims s =
     bindR (claims_key s clientId endpoint) (\<lambda>key.
       Inr (s\<lparr>ss_claims := Some (case ss_claims s of
                 Some old \<Rightarrow> obj_set old key claims
               | None \<Rightarrow> [(key, claims)])\<rparr>))"

definition hasClaims :: "session \<Rightarrow> bool" where
  "hasClaims s = (case ss_claims s of Some c \<Rightarrow> 0 < length (obj_keys c) | None \<Rightarrow> False)"

text \<open>\<open>base64\<close> decodes a text; \<open>Buffer.from(undefined)\<close> throws.\<close>

definition getClaims :: "(string \<Rightarrow> string) \<Rightarrow> session \<Rightarrow> string \<Rightarrow> string \<Rightarrow> string option result" where
  "getClaims base64 s clientId endpoint =
     (if hasClaims s then
        bindR (claims_key s clientId endpoint) (\<lambda>key.
          case ss_claims s of
            None \<Rightarrow> Inl TypeError
          | Some claims \<Rightarrow> (case obj_get claims key of None \<Rightarrow> Inl TypeError | Some c \<Rightarrow> Inr (Some (base64 c))))
      else Inr None)"

section \<open>The identity provider\<close>

definition GRAPH_ME_ENDPOINT :: string where
  "GRAPH_ME_ENDPOINT = ''https://graph.microsoft.com/v1.0/me''"

definition AZURE_SERVICES_ENDPOINT :: string where
  "AZURE_SERVICES_ENDPOINT = ''https://management.azure.com/.default''"

definition STATE_COOKIE_NAME :: string where
  "STATE_COOKIE_NAME = ''anw.ccf.state''"

definition CONNECT_STATE_COOKIE_NAME :: string where
  "CONNECT_STATE_COOKIE_NAME = ''anw.ccf.connect.state''"

record auth_request =
  aq_redirectUri :: "string option"
  aq_state :: string
  aq_scopes :: "string list"
  aq_claims :: "string option"

record auth_cookie =
  ak_verifier :: string
  ak_authCodeRequest :: auth_request

record redirect_body =
  rb_code :: "string option"
  rb_state :: string

record token_response =
  tr_accessToken :: string
  tr_idToken :: string
  tr_account :: msal_account

record msal_env =
  me_clientId :: string
  me_authority :: string
  me_redirectUri :: "string option"
  me_redirectConnectUri :: "string option"
  me_postLoginRedirectUri :: "string option"
  me_postLogoutRedirectUri :: "string option"
  me_postConnectRedirectUri :: "string option"
  me_csrfToken :: string
  me_pkceCodes :: "string \<times> string"
  me_encodeState :: "string \<Rightarrow> string \<Rightarrow> string"
  me_decodeState :: "string \<Rightarrow> string result"
  me_getAuthCodeUrl :: "string \<Rightarrow> auth_request \<Rightarrow> string result"
  me_acquireTokenByCode :: "string \<Rightarrow> auth_request \<Rightarrow> redirect_body \<Rightarrow> token_response result"
  me_serialize :: "token_response \<Rightarrow> string"
  me_deserialize :: "string option \<Rightarrow> unit result"
  me_acquireTokenSilent :: "msal_account option \<Rightarrow> string list \<Rightarrow> string option \<Rightarrow> token_response result"
  me_decode :: "string \<Rightarrow> jwt_payload"
  me_base64 :: "string \<Rightarrow> string"
  me_cloudDiscoveryMetadata :: "string result"
  me_authorityMetadata :: "string result"
  me_errorName :: "js_error \<Rightarrow> string"
  me_errorPayload :: "js_error \<Rightarrow> string"

text \<open>The session and the cookies of the caller, the users, and the metadata in the configuration.\<close>

record 'db api_state =
  as_session :: session
  as_cookies :: "auth_cookie obj"
  as_db :: 'db
  as_metadata :: "(string \<times> string) option"

text \<open>
  What becomes of a request: an answer, a redirection, an error for the next handler, or a rejected promise
  that nothing handles, so that the request is not answered.
\<close>

datatype auth_outcome =
    AuthUrl string
  | RedirectTo string
  | Account "session_account option"
  | Unauthorized string "string option"
  | NextError js_error
  | Unanswered js_error

definition in_session :: "(session \<Rightarrow> session) \<Rightarrow> ('db api_state, unit) eff" where
  "in_session f = (\<lambda>s. (Inr (), s\<lparr>as_session := f (as_session s)\<rparr>))"

definition from_session :: "(session \<Rightarrow> ('db api_state, 'a) eff) \<Rightarrow> ('db api_state, 'a) eff" where
  "from_session f = (\<lambda>s. f (as_session s) s)"

definition in_db :: "('db, 'a) eff \<Rightarrow> ('db api_state, 'a) eff" where
  "in_db m = (\<lambda>s. case m (as_db s) of (r, db) \<Rightarrow> (r, s\<lparr>as_db := db\<rparr>))"

definition clearing_cookie :: "string \<Rightarrow> ('db api_state, unit) eff" where
  "clearing_cookie name = (\<lambda>s. (Inr (), s\<lparr>as_cookies := filter (\<lambda>(k, _). k \<noteq> name) (as_cookies s)\<rparr>))"

definition caught :: "('db api_state, auth_outcome) eff \<Rightarrow> 'db api_state \<Rightarrow> auth_outcome \<times> 'db api_state" where
  "caught m s = (case m s of (Inl e, s') \<Rightarrow> (NextError e, s') | (Inr r, s') \<Rightarrow> (r, s'))"

definition uncaught :: "('db api_state, auth_outcome) eff \<Rightarrow> 'db api_state \<Rightarrow> auth_outcome \<times> 'db api_state" where
  "uncaught m s = (case m s of (Inl e, s') \<Rightarrow> (Unanswered e, s') | (Inr r, s') \<Rightarrow> (r, s'))"

section \<open>\<open>auth.provider.ts\<close>: going to the identity provider\<close>

text \<open>The two redirections differ in the address to return to and the cookie.\<close>

definition redirect_with ::
    "msal_env \<Rightarrow> string \<Rightarrow> string option \<Rightarrow> string \<Rightarrow> string list \<Rightarrow> string option \<Rightarrow> ('db api_state, auth_outcome) eff" where
  "redirect_with E cookie redirectUri state scopes claims s =
     (let (verifier, challenge) = me_pkceCodes E;
          request = \<lparr>aq_redirectUri = redirectUri, aq_state = state, aq_scopes = scopes, aq_claims = claims\<rparr>
      in case me_getAuthCodeUrl E challenge request of
           Inl e \<Rightarrow> (Inr (NextError e), s)
         | Inr url \<Rightarrow>
             (Inr (AuthUrl url),
              s\<lparr>as_cookies := obj_set (as_cookies s) cookie
                  \<lparr>ak_verifier = verifier, ak_authCodeRequest = request\<rparr>\<rparr>))"

definition redirectToAuthCodeUrl ::
    "msal_env \<Rightarrow> string \<Rightarrow> string list \<Rightarrow> string option \<Rightarrow> ('db api_state, auth_outcome) eff" where
  "redirectToAuthCodeUrl E = redirect_with E STATE_COOKIE_NAME (me_redirectUri E)"

definition redirectToAuthCodeUrlForConnect ::
    "msal_env \<Rightarrow> string \<Rightarrow> string list \<Rightarrow> string option \<Rightarrow> ('db api_state, auth_outcome) eff" where
  "redirectToAuthCodeUrlForConnect E = redirect_with E CONNECT_STATE_COOKIE_NAME (me_redirectConnectUri E)"

definition first_text :: "string option \<Rightarrow> string option \<Rightarrow> string \<Rightarrow> string" where
  "first_text a b c =
     (case nonempty a of Some x \<Rightarrow> x | None \<Rightarrow> (case nonempty b of Some x \<Rightarrow> x | None \<Rightarrow> c))"

definition scopes_of :: "string option \<Rightarrow> string list" where
  "scopes_of scopesToConsent = (case nonempty scopesToConsent of Some t \<Rightarrow> split t '' '' | None \<Rightarrow> [])"

text \<open>The metadata is fetched once and kept in the configuration.\<close>

definition with_metadata :: "msal_env \<Rightarrow> ('db api_state, unit) eff" where
  "with_metadata E s =
     (case as_metadata s of
        Some _ \<Rightarrow> (Inr (), s)
      | None \<Rightarrow>
          (case (me_cloudDiscoveryMetadata E, me_authorityMetadata E) of
             (Inr c, Inr a) \<Rightarrow> (Inr (), s\<lparr>as_metadata := Some (c, a)\<rparr>)
           | (Inl e, _) \<Rightarrow> (Inl e, s)
           | (_, Inl e) \<Rightarrow> (Inl e, s)))"

definition claims_for :: "msal_env \<Rightarrow> string \<Rightarrow> ('db api_state, string option) eff" where
  "claims_for E endpoint = from_session (\<lambda>t. liftE (getClaims (me_base64 E) t (me_clientId E) endpoint))"

definition login :: "msal_env \<Rightarrow> string option \<Rightarrow> string option \<Rightarrow> ('db api_state, auth_outcome) eff" where
  "login E postLoginRedirectUri scopesToConsent =
     (let state = me_encodeState E (me_csrfToken E)
                    (first_text postLoginRedirectUri (me_postLoginRedirectUri E) ''/'')
      in bindE (claims_for E GRAPH_ME_ENDPOINT) (\<lambda>claims.
         bindE (with_metadata E) (\<lambda>_. redirectToAuthCodeUrl E state (scopes_of scopesToConsent) claims)))"

definition connect :: "msal_env \<Rightarrow> string option \<Rightarrow> ('db api_state, auth_outcome) eff" where
  "connect E scopesToConsent =
     (let state = me_encodeState E (me_csrfToken E) (first_text None (me_postConnectRedirectUri E) ''/'')
      in bindE (claims_for E AZURE_SERVICES_ENDPOINT) (\<lambda>claims.
         bindE (with_metadata E) (\<lambda>_. redirectToAuthCodeUrlForConnect E state (scopes_of scopesToConsent) claims)))"

section \<open>\<open>auth.provider.ts\<close>: coming back\<close>

text \<open>A claim of the payload that \<open>jwt.decode(...).payload\<close> yields.\<close>

definition claims_of_token :: "msal_env \<Rightarrow> string \<Rightarrow> string obj result" where
  "claims_of_token E token =
     (case me_decode E token of NoPayload \<Rightarrow> Inl TypeError | TextPayload _ \<Rightarrow> Inr [] | Claims c \<Rightarrow> Inr c)"

definition claim_or :: "string obj \<Rightarrow> string \<Rightarrow> string \<Rightarrow> string option" where
  "claim_or claims name other = (case obj_get claims name of Some v \<Rightarrow> Some v | None \<Rightarrow> obj_get claims other)"

definition user_of_claims :: "string obj \<Rightarrow> BaseUser" where
  "user_of_claims c =
     \<lparr>us_email = claim_or c ''email'' ''upn'', us_firstName = claim_or c ''firstName'' ''given_name'',
      us_isExternal = (case obj_get c ''isExternal'' of None \<Rightarrow> True | Some v \<Rightarrow> v = ''true''),
      us_lastName = claim_or c ''lastName'' ''family_name'', us_nickName = claim_or c ''nickName'' ''name'',
      us_tenantId = claim_or c ''tenantId'' ''tid'', us_externalId = claim_or c ''externalId'' ''oid'',
      us_cloudConnections = None\<rparr>"

definition azure_of :: "('a BaseUser_scheme) \<Rightarrow> azure_connection option" where
  "azure_of u = (case us_cloudConnections u of None \<Rightarrow> None | Some c \<Rightarrow> cn_azure c)"

definition acquire_by_code ::
    "msal_env \<Rightarrow> auth_cookie \<Rightarrow> redirect_body \<Rightarrow> ('db api_state, token_response) eff" where
  "acquire_by_code E cookie body =
     liftE (me_acquireTokenByCode E (ak_verifier cookie) (ak_authCodeRequest cookie) body)"

definition signed_in :: "msal_env \<Rightarrow> token_response \<Rightarrow> session \<Rightarrow> session" where
  "signed_in E tokenResponse s =
     s\<lparr>ss_tokenCache := Some (me_serialize E tokenResponse), ss_accessToken := Some (tr_accessToken tokenResponse),
       ss_idToken := Some (tr_idToken tokenResponse),
       ss_account := Some \<lparr>sa_account = tr_account tokenResponse, sa_user = None\<rparr>, ss_isAuthenticated := True\<rparr>"

definition with_user :: "session_user \<Rightarrow> session \<Rightarrow> session" where
  "with_user u s = s\<lparr>ss_account := map_option (\<lambda>a. a\<lparr>sa_user := Some u\<rparr>) (ss_account s)\<rparr>"

definition user_signed_in :: "User \<Rightarrow> session \<Rightarrow> session" where
  "user_signed_in user s =
     (with_user \<lparr>su_id = us_id user, su_name = us_nickName user,
                 su_isCloudConnected = (case azure_of user of None \<Rightarrow> False | Some a \<Rightarrow> az_connected a)\<rparr> s)
       \<lparr>ss_accessTokenToCloud := (case azure_of user of None \<Rightarrow> None | Some a \<Rightarrow> az_accessToken a)\<rparr>"

definition handleRedirect ::
    "msal_env \<Rightarrow> 'db user_repository \<Rightarrow> redirect_body \<Rightarrow> 'db api_state \<Rightarrow> auth_outcome \<times> 'db api_state" where
  "handleRedirect E R body s =
     (case obj_get (as_cookies s) STATE_COOKIE_NAME of
        None \<Rightarrow> (Unanswered TypeError, s)
      | Some cookie \<Rightarrow>
          caught
            (bindE (acquire_by_code E cookie body) (\<lambda>tokenResponse.
             bindE (in_session (signed_in E tokenResponse)) (\<lambda>_.
             bindE (liftE (me_decodeState E (rb_state body))) (\<lambda>redirectTo.
             bindE (clearing_cookie STATE_COOKIE_NAME) (\<lambda>_.
             bindE (liftE (claims_of_token E (tr_accessToken tokenResponse))) (\<lambda>decodedToken.
             bindE (in_db (getUserByExternalId R (obj_get decodedToken ''oid''))) (\<lambda>found.
             bindE (case found of
                      Some user \<Rightarrow> retE user
                    | None \<Rightarrow> in_db (createUser R (user_of_claims decodedToken))) (\<lambda>user.
             bindE (in_session (user_signed_in user)) (\<lambda>_.
             retE (RedirectTo redirectTo)))))))))) s)"

definition connection_signed_in :: "token_response \<Rightarrow> session \<Rightarrow> session" where
  "connection_signed_in tokenResponse s =
     (if ss_account s = None
      then s\<lparr>ss_accessToken := Some (tr_accessToken tokenResponse),
             ss_account := Some \<lparr>sa_account = tr_account tokenResponse, sa_user = None\<rparr>, ss_isAuthenticated := True\<rparr>
      else s)\<lparr>ss_accessTokenToCloud := Some (tr_accessToken tokenResponse)\<rparr>"

definition azure_connected :: "token_response \<Rightarrow> User \<Rightarrow> User" where
  "azure_connected tokenResponse user =
     user\<lparr>us_cloudConnections := Some \<lparr>cn_azure = Some \<lparr>az_connected = True,
       az_account = Some (tr_account tokenResponse), az_accessToken = Some (tr_accessToken tokenResponse)\<rparr>\<rparr>\<rparr>"

text \<open>The session is changed before the user is looked for, and \<open>user.id\<close> throws when there is none.\<close>

definition handleRedirectToConnect ::
    "msal_env \<Rightarrow> 'db user_repository \<Rightarrow> redirect_body \<Rightarrow> 'db api_state \<Rightarrow> auth_outcome \<times> 'db api_state" where
  "handleRedirectToConnect E R body s =
     (case obj_get (as_cookies s) CONNECT_STATE_COOKIE_NAME of
        None \<Rightarrow> (Unanswered TypeError, s)
      | Some cookie \<Rightarrow>
          caught
            (bindE (acquire_by_code E cookie body) (\<lambda>tokenResponse.
             bindE (in_session (connection_signed_in tokenResponse)) (\<lambda>_.
             bindE (liftE (claims_of_token E (tr_accessToken tokenResponse))) (\<lambda>decodedToken.
             bindE (in_db (getUserByExternalId R (obj_get decodedToken ''oid''))) (\<lambda>found.
             case found of
               None \<Rightarrow> throwE TypeError
             | Some user \<Rightarrow>
                 bindE (in_db (updateUser R (us_id user) (azure_connected tokenResponse user))) (\<lambda>_.
                 bindE (in_session (with_user \<lparr>su_id = us_id user, su_name = us_nickName user,
                                               su_isCloudConnected = True\<rparr>)) (\<lambda>_.
                 bindE (liftE (me_decodeState E (rb_state body))) (\<lambda>redirectTo.
                 bindE (clearing_cookie CONNECT_STATE_COOKIE_NAME) (\<lambda>_.
                 retE (RedirectTo redirectTo)))))))))) s)"

text \<open>An address that is not configured is shown as \<open>undefined\<close>.\<close>

definition logout :: "msal_env \<Rightarrow> 'db api_state \<Rightarrow> auth_outcome \<times> 'db api_state" where
  "logout E s =
     (AuthUrl (me_authority E @ ''/oauth2/v2.0/logout?post_logout_redirect_uri=''
               @ text_of (me_postLogoutRedirectUri E)),
      s\<lparr>as_session := new_session\<rparr>)"

definition isAuthenticated :: "session \<Rightarrow> bool" where
  "isAuthenticated s = ss_isAuthenticated s"

definition getAccount :: "session \<Rightarrow> session_account option" where
  "getAccount s = (if isAuthenticated s then ss_account s else None)"

section \<open>\<open>auth.provider.ts\<close>: a new token for the cloud\<close>

definition session_user_id :: "session \<Rightarrow> string option" where
  "session_user_id s =
     (case ss_account s of None \<Rightarrow> None | Some a \<Rightarrow> map_option su_id (sa_user a))"

definition disconnected :: "User \<Rightarrow> User" where
  "disconnected user = user\<lparr>us_cloudConnections := Some \<lparr>cn_azure =
     Some \<lparr>az_connected = False, az_account = None, az_accessToken = None\<rparr>\<rparr>\<rparr>"

definition disconnectUser :: "'db user_repository \<Rightarrow> ('db api_state, unit) eff" where
  "disconnectUser R = from_session (\<lambda>t.
     case ss_account t of
       None \<Rightarrow> throwE TypeError
     | Some a \<Rightarrow>
         (case sa_user a of
            None \<Rightarrow> throwE TypeError
          | Some u \<Rightarrow>
              bindE (in_session (\<lambda>t. (with_user (u\<lparr>su_isCloudConnected := False\<rparr>) t)
                                       \<lparr>ss_accessTokenToCloud := None\<rparr>)) (\<lambda>_.
              bindE (in_db (getUserById R (Some (su_id u)))) (\<lambda>found.
                case found of
                  None \<Rightarrow> retE ()
                | Some user \<Rightarrow>
                    if azure_of user = None then retE ()
                    else bindE (in_db (updateUser R (us_id user) (disconnected user))) (\<lambda>_. retE ())))))"

definition azure_renewed :: "token_response \<Rightarrow> azure_connection \<Rightarrow> azure_connection" where
  "azure_renewed tokenResponse a =
     a\<lparr>az_accessToken := Some (tr_accessToken tokenResponse), az_account := Some (tr_account tokenResponse)\<rparr>"

text \<open>A user who is not there, or who is not connected, makes reading the account throw.\<close>

definition acquire_silently :: "msal_env \<Rightarrow> 'db user_repository \<Rightarrow> string list \<Rightarrow> ('db api_state, string) eff" where
  "acquire_silently E R scopes = from_session (\<lambda>t.
     bindE (liftE (me_deserialize E (ss_tokenCache t))) (\<lambda>_.
     bindE (in_db (getUserById R (session_user_id t))) (\<lambda>found.
       case found of
         None \<Rightarrow> throwE TypeError
       | Some user \<Rightarrow>
           (case azure_of user of
              None \<Rightarrow> throwE TypeError
            | Some a \<Rightarrow>
                bindE (claims_for E AZURE_SERVICES_ENDPOINT) (\<lambda>claims.
                bindE (liftE (me_acquireTokenSilent E (az_account a) scopes claims)) (\<lambda>tokenResponse.
                bindE (in_session (\<lambda>t. t\<lparr>ss_accessTokenToCloud := Some (tr_accessToken tokenResponse)\<rparr>)) (\<lambda>_.
                bindE (in_db (updateUser R (us_id user)
                         (user\<lparr>us_cloudConnections := Some \<lparr>cn_azure = Some (azure_renewed tokenResponse a)\<rparr>\<rparr>))) (\<lambda>_.
                retE (tr_accessToken tokenResponse)))))))))"

text \<open>The user is disconnected before the error is thrown again; that may fail in its turn.\<close>

definition acquireTokenForConsumptionMgmt ::
    "msal_env \<Rightarrow> 'db user_repository \<Rightarrow> string list \<Rightarrow> ('db api_state, string) eff" where
  "acquireTokenForConsumptionMgmt E R scopes s =
     (case acquire_silently E R scopes s of
        (Inr token, s') \<Rightarrow> (Inr token, s')
      | (Inl e, s') \<Rightarrow> bindE (disconnectUser R) (\<lambda>_. throwE e) s')"

section \<open>\<open>auth.controller.ts\<close>\<close>

definition query_value :: "string option \<Rightarrow> string option result" where
  "query_value q = (case nonempty q of None \<Rightarrow> Inr None | Some t \<Rightarrow> bindR (decodeURIComponent t) (\<lambda>d. Inr (Some d)))"

definition loginUser ::
    "msal_env \<Rightarrow> string option \<Rightarrow> string option \<Rightarrow> 'db api_state \<Rightarrow> auth_outcome \<times> 'db api_state" where
  "loginUser E postLoginRedirectUri scopesToConsent =
     uncaught
       (bindE (liftE (query_value postLoginRedirectUri)) (\<lambda>uri.
        bindE (liftE (query_value scopesToConsent)) (\<lambda>scopes. login E uri scopes)))"

definition connectCloud :: "msal_env \<Rightarrow> string option \<Rightarrow> 'db api_state \<Rightarrow> auth_outcome \<times> 'db api_state" where
  "connectCloud E scopesToConsent s =
     (if \<not> isAuthenticated (as_session s) then (Unauthorized ''unauthorized'' None, s)
      else
        (case bindE (liftE (query_value scopesToConsent)) (\<lambda>scopes.
                connect E (Some (first_text scopes None AZURE_SERVICES_ENDPOINT))) s of
           (Inr r, s') \<Rightarrow> (r, s')
         | (Inl e, s') \<Rightarrow>
             (if me_errorName E e = ''ClaimsChallengeAuthError'' then
                (case setClaims (me_clientId E) AZURE_SERVICES_ENDPOINT (me_errorPayload E e) (as_session s') of
                   Inl e' \<Rightarrow> (Unanswered e', s')
                 | Inr t \<Rightarrow> (Unauthorized (me_errorName E e) None, s'\<lparr>as_session := t\<rparr>))
              else if me_errorName E e = ''InteractionRequiredAuthError'' then
                (Unauthorized (me_errorName E e) (Some (me_errorPayload E e)), s')
              else (NextError e, s'))))"

section \<open>\<open>utils/auth.ts\<close>\<close>

text \<open>
  The header of a token as \<open>jwt.decode\<close> yields it, with its key identifier; the keys of the provider; why
  \<open>jwt.verify\<close> refuses a token.
\<close>

datatype token_header = Undecodable | KeyId "string option"

datatype signing_key = RsaKey string | OtherKey

datatype refusal = TokenExpired | Refused js_error

record key_env =
  ke_header :: "string option \<Rightarrow> token_header"
  ke_signingKey :: "string \<Rightarrow> signing_key result"
  ke_verify :: "string \<Rightarrow> string \<Rightarrow> refusal option"
  ke_payload :: "string \<Rightarrow> jwt_payload"

definition getPublicKey :: "key_env \<Rightarrow> string \<Rightarrow> string result" where
  "getPublicKey K kid =
     bindR (ke_signingKey K kid) (\<lambda>key.
       case key of
         RsaKey k \<Rightarrow> Inr k
       | OtherKey \<Rightarrow> Inl (Thrown ''Retrieved key is not an RsaSigningKey''))"

definition verifyToken :: "key_env \<Rightarrow> string \<Rightarrow> string \<Rightarrow> bool \<Rightarrow> refusal + jwt_payload" where
  "verifyToken K token publicKey useJwtVerifier =
     (if useJwtVerifier then
        (case ke_verify K token publicKey of Some r \<Rightarrow> Inl r | None \<Rightarrow> Inr (ke_payload K token))
      else
        (case ke_payload K token of NoPayload \<Rightarrow> Inl (Refused TypeError) | p \<Rightarrow> Inr p))"

text \<open>A guard sends answers and may go on to the next handler with a token for the request.\<close>

type_synonym answers = "(nat \<times> string) list"

text \<open>Every error on the way is logged, and the promise is fulfilled.\<close>

definition verifyTokenForGeneralAccess :: "key_env \<Rightarrow> string option \<Rightarrow> answers \<times> jwt_payload option result" where
  "verifyTokenForGeneralAccess K accessToken =
     (case ke_header K accessToken of
        Undecodable \<Rightarrow> ([(400, ''Invalid token structure'')], Inr None)
      | KeyId k \<Rightarrow>
          (case nonempty k of
             None \<Rightarrow> ([(400, ''No \"kid\" found in token header'')], Inr None)
           | Some kid \<Rightarrow>
               (case getPublicKey K kid of
                  Inl e \<Rightarrow> ([], Inr None)
                | Inr publicKey \<Rightarrow>
                    (case verifyToken K (text_of accessToken) publicKey False of
                       Inl r \<Rightarrow> ([], Inr None)
                     | Inr p \<Rightarrow> ([], Inr (Some p))))))"

definition authSession :: "key_env \<Rightarrow> session \<Rightarrow> answers \<times> string option option" where
  "authSession K s =
     (if \<not> isAuthenticated s then ([(401, ''Session not found or has expired'')], None)
      else
        (case verifyTokenForGeneralAccess K (ss_accessToken s) of
           (sent, Inr verifiedToken) \<Rightarrow> (sent, Some (ss_accessToken s))
         | (sent, Inl e) \<Rightarrow> (sent @ [(403, ''Failed to authenticate token'')], None)))"

definition verifyTokenExpiryForCloudAccess ::
    "msal_env \<Rightarrow> key_env \<Rightarrow> 'db user_repository \<Rightarrow> string \<Rightarrow> ('db api_state, string) eff" where
  "verifyTokenExpiryForCloudAccess E K R accessToken =
     (case ke_header K (Some accessToken) of
        Undecodable \<Rightarrow> throwE (Thrown ''Invalid token structure'')
      | KeyId k \<Rightarrow>
          (case nonempty k of
             None \<Rightarrow> throwE (Thrown ''No \"kid\" found in token header'')
           | Some kid \<Rightarrow>
               bindE (liftE (getPublicKey K kid)) (\<lambda>publicKey.
                 case verifyToken K accessToken publicKey True of
                   Inr _ \<Rightarrow> retE accessToken
                 | Inl TokenExpired \<Rightarrow> acquireTokenForConsumptionMgmt E R [AZURE_SERVICES_ENDPOINT]
                 | Inl (Refused e) \<Rightarrow> throwE e)))"

definition cloudAccessTokenValidator ::
    "msal_env \<Rightarrow> key_env \<Rightarrow> 'db user_repository \<Rightarrow> 'db api_state \<Rightarrow> (answers \<times> string option) \<times> 'db api_state" where
  "cloudAccessTokenValidator E K R s =
     (if \<not> isAuthenticated (as_session s) then (([(401, ''Session not found or has expired'')], None), s)
      else
        (case nonempty (ss_accessTokenToCloud (as_session s)) of
           None \<Rightarrow> (([(401, ''Cloud access token not found or has expired'')], None), s)
         | Some accessToken \<Rightarrow>
             (case verifyTokenExpiryForCloudAccess E K R accessToken s of
                (Inr token, s') \<Rightarrow> (([], Some token), s')
              | (Inl e, s') \<Rightarrow> (([(403, ''Failed to authenticate token'')], None), s'))))"

end
