(* ===== verification/Api_Server.thy ===== *)
theory Api_Server
  imports Api_Auth
begin

text \<open>
  The routes of \<open>packages/api/src/api.ts\<close> with their guards, the handlers of \<open>middleware.ts\<close>, the routes of
  \<open>auth.router.ts\<close> and \<open>user.router.ts\<close>, and how the session of a caller develops over the requests. The app
  is a parameter; what it answers is handed on.
\<close>

section \<open>\<open>middleware.ts\<close>\<close>

text \<open>An error of the app with the class that the handlers look at.\<close>

datatype app_error = ValidationError string | PartialDataError string | AppError js_error

datatype 'a http_answer = Body 'a | Status nat string | NoAnswer js_error

record ('f, 'r) api_app =
  aa_parseMoment :: "string \<Rightarrow> date option"
  aa_now :: date
  aa_decode :: "string \<Rightarrow> jwt_payload"
  aa_getCostAndEstimates :: "EstimationRequest \<Rightarrow> (app_error + EstimationResult list) option"
  aa_getEmissionsFactors :: "app_error + 'f"
  aa_getRecommendations :: "RecommendationRequest \<Rightarrow> (app_error + 'r) option"
  aa_graph :: "string option \<Rightarrow> string result"

text \<open>The query is the raw request, without the tenant and the token, which are in the headers.\<close>

record http_request =
  hr_query :: FootprintEstimatesRawRequest
  hr_awsRecommendationTarget :: "string option"
  hr_authorization :: "string option"
  hr_tenant :: "string option"

definition request_token :: "string option \<Rightarrow> http_request \<Rightarrow> string option" where
  "request_token user_token req =
     (case nonempty user_token of Some t \<Rightarrow> Some t | None \<Rightarrow> bearer_token (hr_authorization req))"

text \<open>The tenant of the header, or else the one in the token when there is a token.\<close>

definition request_tenant ::
    "(string \<Rightarrow> jwt_payload) \<Rightarrow> string option \<Rightarrow> string option \<Rightarrow> string option result" where
  "request_tenant decode token header =
     (case (nonempty token, nonempty header) of
        (Some t, None) \<Rightarrow> bindR (tenant_of_token decode t) (\<lambda>tid. Inr (Some tid))
      | _ \<Rightarrow> Inr header)"

definition footprint_request ::
    "FootprintEstimatesRawRequest \<Rightarrow> string option \<Rightarrow> string option \<Rightarrow> FootprintEstimatesRawRequest" where
  "footprint_request query tenantId token =
     query\<lparr>rr_tenantId := tenantId, rr_accessToken := token,
           rr_groupBy := (if nonempty (rr_groupBy query) = None then Some ''day'' else rr_groupBy query)\<rparr>"

definition as_validation :: "'a result \<Rightarrow> app_error + 'a" where
  "as_validation r =
     (case r of
        Inr x \<Rightarrow> Inr x
      | Inl (Thrown m) \<Rightarrow> Inl (ValidationError m)
      | Inl e \<Rightarrow> Inl (AppError e))"

definition footprint_status :: "app_error \<Rightarrow> 'a http_answer" where
  "footprint_status e =
     (case e of
        ValidationError m \<Rightarrow> Status 400 m
      | PartialDataError m \<Rightarrow> Status 416 m
      | AppError _ \<Rightarrow> Status 500 ''Internal Server Error'')"

text \<open>The tenant is looked up outside of the block that answers errors.\<close>

definition FootprintApiMiddleware ::
    "('f, 'r) api_app \<Rightarrow> string option \<Rightarrow> http_request \<Rightarrow> EstimationResult list http_answer option" where
  "FootprintApiMiddleware A user_token req =
     (let token = request_token user_token req in
      case request_tenant (aa_decode A) token (hr_tenant req) of
        Inl e \<Rightarrow> Some (NoAnswer e)
      | Inr tenantId \<Rightarrow>
          (case as_validation (createValidFootprintRequest (aa_parseMoment A) (aa_now A)
                  (footprint_request (hr_query req) tenantId token)) of
             Inl e \<Rightarrow> Some (footprint_status e)
           | Inr estimationRequest \<Rightarrow>
               (case aa_getCostAndEstimates A estimationRequest of
                  None \<Rightarrow> None
                | Some (Inl e) \<Rightarrow> Some (footprint_status e)
                | Some (Inr results) \<Rightarrow> Some (Body results))))"

definition EmissionsApiMiddleware :: "('f, 'r) api_app \<Rightarrow> 'f http_answer" where
  "EmissionsApiMiddleware A =
     (case aa_getEmissionsFactors A of
        Inl e \<Rightarrow> Status 500 ''Internal Server Error''
      | Inr factors \<Rightarrow> Body factors)"

definition recommendations_status :: "app_error \<Rightarrow> 'a http_answer" where
  "recommendations_status e =
     (case e of ValidationError m \<Rightarrow> Status 400 m | _ \<Rightarrow> Status 500 ''Internal Server Error'')"

definition RecommendationsApiMiddleware ::
    "('f, 'r) api_app \<Rightarrow> string option \<Rightarrow> http_request \<Rightarrow> 'r http_answer option" where
  "RecommendationsApiMiddleware A user_token req =
     (let token = request_token user_token req in
      case request_tenant (aa_decode A) token (hr_tenant req) of
        Inl e \<Rightarrow> Some (NoAnswer e)
      | Inr tenantId \<Rightarrow>
          (case as_validation (createValidRecommendationsRequest (hr_awsRecommendationTarget req) tenantId token) of
             Inl e \<Rightarrow> Some (recommendations_status e)
           | Inr request \<Rightarrow>
               (case aa_getRecommendations A request of
                  None \<Rightarrow> None
                | Some (Inl e) \<Rightarrow> Some (recommendations_status e)
                | Some (Inr recommendations) \<Rightarrow> Some (Body recommendations))))"

text \<open>The profile is asked for with the token of the header, not with that of the session.\<close>

definition ProfileDataApiMiddleware :: "('f, 'r) api_app \<Rightarrow> http_request \<Rightarrow> string http_answer" where
  "ProfileDataApiMiddleware A req =
     (case aa_graph A (bearer_token (hr_authorization req)) of
        Inl e \<Rightarrow> Status 500 ''Internal Server Error''
      | Inr graphData \<Rightarrow> Body graphData)"

section \<open>The routes\<close>

text \<open>A guard's answers, then the handler when the guard goes on; with the state that the guard leaves.\<close>

definition cloud_route ::
    "msal_env \<Rightarrow> key_env \<Rightarrow> 'db user_repository \<Rightarrow> (string option \<Rightarrow> 'a http_answer option) \<Rightarrow> 'db api_state \<Rightarrow>
     (answers \<times> 'a http_answer option option) \<times> 'db api_state" where
  "cloud_route E K R handler s =
     (case cloudAccessTokenValidator E K R s of
        ((sent, None), s') \<Rightarrow> ((sent, None), s')
      | ((sent, Some token), s') \<Rightarrow> ((sent, Some (handler (Some token))), s'))"

definition footprint_route ::
    "msal_env \<Rightarrow> key_env \<Rightarrow> 'db user_repository \<Rightarrow> ('f, 'r) api_app \<Rightarrow> http_request \<Rightarrow> 'db api_state \<Rightarrow>
     (answers \<times> EstimationResult list http_answer option option) \<times> 'db api_state" where
  "footprint_route E K R A req = cloud_route E K R (\<lambda>token. FootprintApiMiddleware A token req)"

definition emissions_route ::
    "msal_env \<Rightarrow> key_env \<Rightarrow> 'db user_repository \<Rightarrow> ('f, 'r) api_app \<Rightarrow> 'db api_state \<Rightarrow>
     (answers \<times> 'f http_answer option option) \<times> 'db api_state" where
  "emissions_route E K R A = cloud_route E K R (\<lambda>token. Some (EmissionsApiMiddleware A))"

definition recommendations_route ::
    "msal_env \<Rightarrow> key_env \<Rightarrow> 'db user_repository \<Rightarrow> ('f, 'r) api_app \<Rightarrow> http_request \<Rightarrow> 'db api_state \<Rightarrow>
     (answers \<times> 'r http_answer option option) \<times> 'db api_state" where
  "recommendations_route E K R A req = cloud_route E K R (\<lambda>token. RecommendationsApiMiddleware A token req)"

definition healthz :: "string http_answer" where
  "healthz = Status 200 ''OK''"

definition session_route ::
    "key_env \<Rightarrow> ('db \<Rightarrow> 'a \<times> 'db) \<Rightarrow> 'db api_state \<Rightarrow> (answers \<times> 'a option) \<times> 'db api_state" where
  "session_route K handler s =
     (case authSession K (as_session s) of
        (sent, None) \<Rightarrow> ((sent, None), s)
      | (sent, Some _) \<Rightarrow> (case handler (as_db s) of (r, db) \<Rightarrow> ((sent, Some r), s\<lparr>as_db := db\<rparr>)))"

definition profile_route ::
    "key_env \<Rightarrow> ('f, 'r) api_app \<Rightarrow> http_request \<Rightarrow> 'db api_state \<Rightarrow>
     (answers \<times> string http_answer option) \<times> 'db api_state" where
  "profile_route K A req = session_route K (\<lambda>db. (ProfileDataApiMiddleware A req, db))"

definition users_route ::
    "key_env \<Rightarrow> 'db user_repository \<Rightarrow> 'db api_state \<Rightarrow> (answers \<times> User list response option) \<times> 'db api_state" where
  "users_route K R = session_route K (getAllUsers_handler R)"

definition remove_user_route ::
    "key_env \<Rightarrow> 'db user_repository \<Rightarrow> string \<Rightarrow> 'db api_state \<Rightarrow>
     (answers \<times> string response option) \<times> 'db api_state" where
  "remove_user_route K R i = session_route K (removeUser_handler R i)"

section \<open>The session over the requests\<close>

text \<open>
  A step is a request of the caller, with whatever the clients and the app answer at that time. The routes of
  \<open>auth.router.ts\<close> have no guard. Of the routes to the cloud only the guard changes the state. The requests of
  others, and those to the users, change the users.
\<close>

inductive api_step :: "'db user_repository \<Rightarrow> 'db api_state \<Rightarrow> 'db api_state \<Rightarrow> bool" for R where
  login: "loginUser E uri scopes s = (r, s') \<Longrightarrow> api_step R s s'"
| redirect: "handleRedirect E R body s = (r, s') \<Longrightarrow> api_step R s s'"
| connect: "connectCloud E scopes s = (r, s') \<Longrightarrow> api_step R s s'"
| redirect_connect: "handleRedirectToConnect E R body s = (r, s') \<Longrightarrow> api_step R s s'"
| logout: "Api_Auth.logout E s = (r, s') \<Longrightarrow> api_step R s s'"
| cloud: "cloudAccessTokenValidator E K R s = (r, s') \<Longrightarrow> api_step R s s'"
| others: "api_step R s (s\<lparr>as_db := db\<rparr>)"

definition session_ok :: "session \<Rightarrow> bool" where
  "session_ok s \<longleftrightarrow> (ss_isAuthenticated s \<longleftrightarrow> ss_account s \<noteq> None)
     \<and> (ss_accessTokenToCloud s \<noteq> None \<longrightarrow> ss_isAuthenticated s)"

text \<open>What an operation keeps of the session, whether it returns or throws.\<close>

definition session_keeps :: "(session \<Rightarrow> bool) \<Rightarrow> ('db api_state, 'a) eff \<Rightarrow> bool" where
  "session_keeps P m \<longleftrightarrow> (\<forall>s. P (as_session s) \<longrightarrow> P (as_session (snd (m s))))"

named_theorems session_intros \<open>operations that keep what they are to keep of a session\<close>

lemma session_keepsD: "session_keeps P m \<Longrightarrow> m s = (r, s') \<Longrightarrow> P (as_session s) \<Longrightarrow> P (as_session s')"
  by (metis session_keeps_def snd_conv)

lemma session_keeps_bind [session_intros]: "session_keeps P m \<Longrightarrow> (\<And>x. session_keeps P (f x)) \<Longrightarrow> session_keeps P (bindE m f)"
  unfolding session_keeps_def bindE_def by (fastforce split: prod.split sum.split)

lemma session_keeps_from_session [session_intros]: "(\<And>t. session_keeps P (f t)) \<Longrightarrow> session_keeps P (from_session f)"
  by (simp add: session_keeps_def from_session_def)

lemma session_keeps_if [session_intros]: "session_keeps P m \<Longrightarrow> session_keeps P m' \<Longrightarrow> session_keeps P (if b then m else m')"
  by simp

lemma session_keeps_lift [session_intros]: "session_keeps P (liftE r)"
  by (simp add: session_keeps_def liftE_def)

lemma session_keeps_ret [session_intros]: "session_keeps P (retE x)"
  by (simp add: session_keeps_def retE_def)

lemma session_keeps_throw [session_intros]: "session_keeps P (throwE e)"
  by (simp add: session_keeps_def throwE_def)

lemma session_keeps_in_db [session_intros]: "session_keeps P (in_db m)"
  by (simp add: session_keeps_def in_db_def split: prod.split)

lemma session_keeps_clearing [session_intros]: "session_keeps P (clearing_cookie c)"
  by (simp add: session_keeps_def clearing_cookie_def)

lemma session_keeps_in_session: "(\<And>s. P s \<Longrightarrow> P (f s)) \<Longrightarrow> session_keeps P (in_session f)"
  by (simp add: session_keeps_def in_session_def)

lemma session_keeps_metadata [session_intros]: "session_keeps P (with_metadata E)"
  by (auto simp: session_keeps_def with_metadata_def split: option.split sum.split)

lemma session_keeps_claims [session_intros]: "session_keeps P (claims_for E e)"
  unfolding claims_for_def by (intro session_intros)

lemma session_keeps_redirect_with [session_intros]: "session_keeps P (redirect_with E c uri state scopes claims)"
  by (auto simp: session_keeps_def redirect_with_def Let_def split: prod.split sum.split)

lemma session_keeps_option [session_intros]:
  "session_keeps P m \<Longrightarrow> (\<And>x. session_keeps P (f x)) \<Longrightarrow> session_keeps P (case v of None \<Rightarrow> m | Some x \<Rightarrow> f x)"
  by (cases v) auto

lemma session_ok_steps:
  "session_ok s \<Longrightarrow> session_ok (with_user u s)"
  "session_ok (signed_in E t s)"
  "session_ok s \<Longrightarrow> session_ok (connection_signed_in t s)"
  "session_ok s \<Longrightarrow> ss_isAuthenticated s \<Longrightarrow> session_ok (user_signed_in user s)"
  by (auto simp: session_ok_def with_user_def signed_in_def connection_signed_in_def user_signed_in_def)

text \<open>A session that is signed in stays so.\<close>

definition signed_session :: "session \<Rightarrow> bool" where
  "signed_session s \<longleftrightarrow> session_ok s \<and> ss_isAuthenticated s"

lemma signed_steps:
  "signed_session s \<Longrightarrow> signed_session (with_user u s)"
  "signed_session s \<Longrightarrow> signed_session (user_signed_in user s)"
  "signed_session s \<Longrightarrow> signed_session (s\<lparr>ss_accessTokenToCloud := c\<rparr>)"
  by (auto simp: signed_session_def session_ok_def with_user_def user_signed_in_def)

lemma session_keeps_disconnect: "session_keeps signed_session (disconnectUser R)"
  unfolding disconnectUser_def by (intro session_intros session_keeps_in_session signed_steps)

lemma session_keeps_acquire:
  fixes R :: "'db user_repository"
  shows "session_keeps signed_session (acquireTokenForConsumptionMgmt E R scopes)"
proof -
  have silent: "session_keeps signed_session (acquire_silently E R scopes)"
    unfolding acquire_silently_def by (intro session_intros session_keeps_in_session signed_steps)
  have again: "session_keeps signed_session (bindE (disconnectUser R) (\<lambda>_. throwE e) :: ('db api_state, string) eff)" for e
    by (intro session_intros session_keeps_disconnect)
  show ?thesis
    unfolding session_keeps_def
  proof (intro allI impI)
    fix s :: "'db api_state" assume s: "signed_session (as_session s)"
    obtain r s' where silently: "acquire_silently E R scopes s = (r, s')" by fastforce
    have "signed_session (as_session s')" by (rule session_keepsD [OF silent silently s])
    then show "signed_session (as_session (snd (acquireTokenForConsumptionMgmt E R scopes s)))"
      using again unfolding session_keeps_def by (cases r) (simp_all add: acquireTokenForConsumptionMgmt_def silently)
  qed
qed

lemma session_keeps_into:
  assumes "\<And>s. P s \<Longrightarrow> Q (f s)" and "\<And>s. Q s \<Longrightarrow> P s" and "\<And>x. session_keeps Q (g x)"
  shows "session_keeps P (bindE (in_session f) g)"
  using assms unfolding session_keeps_def by (simp add: bindE_def in_session_def)

lemma session_keeps_sign_in:
  assumes "\<And>t s. session_ok s \<Longrightarrow> signed_session (f t s)" and "\<And>t u. session_keeps signed_session (g t u)"
  shows "session_keeps session_ok (bindE (liftE x) (\<lambda>t. bindE (in_session (f t)) (g t)))"
proof (intro session_keeps_bind [OF session_keeps_lift])
  show "session_keeps session_ok (bindE (in_session (f t)) (g t))" for t
    by (rule session_keeps_into [where Q = signed_session, OF assms(1) _ assms(2)]) (simp_all add: signed_session_def)
qed

lemma session_keeps_outcome:
  assumes "session_keeps P m" "P (as_session s)"
  shows "P (as_session (snd (caught m s)))" "P (as_session (snd (uncaught m s)))"
proof -
  obtain r s' where m: "m s = (r, s')" by fastforce
  have "P (as_session s')" by (rule session_keepsD [OF assms(1) m assms(2)])
  then show "P (as_session (snd (caught m s)))" "P (as_session (snd (uncaught m s)))"
    by (cases r; simp add: caught_def uncaught_def m)+
qed

lemma login_ok:
  assumes "session_ok (as_session s)"
  shows "session_ok (as_session (snd (loginUser E uri scopes s)))"
  unfolding loginUser_def login_def redirectToAuthCodeUrl_def Let_def
  by (rule session_keeps_outcome(2) [where P = session_ok, OF _ assms], intro session_intros)

lemma signed_in_steps:
  "signed_session (signed_in E t s)" "session_ok s \<Longrightarrow> signed_session (connection_signed_in t s)"
  by (auto simp: signed_session_def session_ok_def signed_in_def connection_signed_in_def)

lemma redirect_ok:
  assumes "session_ok (as_session s)"
  shows "session_ok (as_session (snd (handleRedirect E R body s)))"
proof (cases "obj_get (as_cookies s) STATE_COOKIE_NAME")
  case None
  then show ?thesis using assms by (simp add: handleRedirect_def)
next
  case (Some cookie)
  show ?thesis
    unfolding handleRedirect_def Some option.case acquire_by_code_def
    by (rule session_keeps_outcome(1) [where P = session_ok, OF _ assms], rule session_keeps_sign_in, rule signed_in_steps,
        intro session_intros session_keeps_in_session signed_steps)
qed

lemma redirect_connect_ok:
  assumes "session_ok (as_session s)"
  shows "session_ok (as_session (snd (handleRedirectToConnect E R body s)))"
proof (cases "obj_get (as_cookies s) CONNECT_STATE_COOKIE_NAME")
  case None
  then show ?thesis using assms by (simp add: handleRedirectToConnect_def)
next
  case (Some cookie)
  show ?thesis
    unfolding handleRedirectToConnect_def Some option.case acquire_by_code_def
    by (rule session_keeps_outcome(1) [where P = session_ok, OF _ assms], rule session_keeps_sign_in, erule signed_in_steps(2),
        intro session_intros session_keeps_in_session signed_steps)
qed

lemma signed_ok: "signed_session s \<Longrightarrow> session_ok s"
  by (simp add: signed_session_def)

lemma setClaims_ok: "setClaims c e x s = Inr t \<Longrightarrow> session_ok s \<Longrightarrow> session_ok t"
  by (auto simp: setClaims_def session_ok_def bindR_eq_Inr_iff)

lemma connect_ok: "session_ok (as_session s) \<Longrightarrow> session_ok (as_session (snd (connectCloud E scopes s)))"
proof -
  assume ok: "session_ok (as_session s)"
  let ?m = "bindE (liftE (query_value scopes)) (\<lambda>scopes.
      Api_Auth.connect E (Some (first_text scopes None AZURE_SERVICES_ENDPOINT)))"
  obtain r s' where m: "?m s = (r, s')" by fastforce
  have "session_keeps session_ok ?m"
    unfolding Api_Auth.connect_def redirectToAuthCodeUrlForConnect_def Let_def by (intro session_intros)
  from session_keepsD [OF this m ok] have "session_ok (as_session s')" .
  then show ?thesis using ok
    by (auto simp: connectCloud_def m setClaims_ok split: sum.split)
qed

lemma cloud_ok: "session_ok (as_session s) \<Longrightarrow> session_ok (as_session (snd (cloudAccessTokenValidator E K R s)))"
proof -
  assume ok: "session_ok (as_session s)"
  have verify: "session_keeps signed_session (verifyTokenExpiryForCloudAccess E K R token)" for token
    unfolding verifyTokenExpiryForCloudAccess_def
    by (auto split: token_header.split option.split sum.split refusal.split
        intro!: session_intros session_keeps_acquire)
  show ?thesis
  proof (cases "isAuthenticated (as_session s)")
    case False
    then show ?thesis using ok by (simp add: cloudAccessTokenValidator_def)
  next
    case True
    then have "signed_session (as_session s)" using ok by (simp add: signed_session_def isAuthenticated_def)
    then have "signed_session (as_session (snd (verifyTokenExpiryForCloudAccess E K R token s)))" for token
      using verify [of token] by (simp add: session_keeps_def)
    then show ?thesis using ok
      by (auto simp: cloudAccessTokenValidator_def split: option.split prod.split sum.split)
        (metis signed_ok snd_conv)+
  qed
qed

text \<open>The route leaves the state that the guard leaves.\<close>

lemma cloud_route_state: "snd (cloud_route E K R handler s) = snd (cloudAccessTokenValidator E K R s)"
  by (simp add: cloud_route_def split: prod.split option.split)

lemma api_step_ok:
  assumes "api_step R s s'" and "session_ok (as_session s)"
  shows "session_ok (as_session s')"
  using assms
proof cases
  case login
  then show ?thesis using login_ok [OF assms(2)] by (metis snd_conv)
next
  case redirect
  then show ?thesis using redirect_ok [OF assms(2)] by (metis snd_conv)
next
  case connect
  then show ?thesis using connect_ok [OF assms(2)] by (metis snd_conv)
next
  case redirect_connect
  then show ?thesis using redirect_connect_ok [OF assms(2)] by (metis snd_conv)
next
  case logout
  then show ?thesis by (auto simp: Api_Auth.logout_def session_ok_def new_session_def)
next
  case cloud
  then show ?thesis using cloud_ok [OF assms(2)] by (metis snd_conv)
next
  case others
  then show ?thesis using assms(2) by simp
qed

lemma in_db_Inr: "in_db m s = (Inr x, s') \<longleftrightarrow> (\<exists>db. m (as_db s) = (Inr x, db) \<and> s' = s\<lparr>as_db := db\<rparr>)"
  by (auto simp: in_db_def split: prod.split)

lemma getPublicKey_Inr: "getPublicKey K kid = Inr key \<longleftrightarrow> ke_signingKey K kid = Inr (RsaKey key)"
proof -
  have "(case key' of RsaKey k \<Rightarrow> Inr k | OtherKey \<Rightarrow> Inl e) = Inr key \<longleftrightarrow> key' = RsaKey key" for key' and e :: js_error
    by (cases key') auto
  then show ?thesis by (simp add: getPublicKey_def bindR_eq_Inr_iff)
qed

lemma found_Inr:
  "(case found of None \<Rightarrow> throwE e | Some x \<Rightarrow> f x) s = (Inr y, s') \<longleftrightarrow> (\<exists>x. found = Some x \<and> f x s = (Inr y, s'))"
  by (cases found) (auto simp: throwE_def)

text \<open>The token that is acquired is the one in the session.\<close>

lemma acquired_token_in_session:
  assumes "acquireTokenForConsumptionMgmt E R scopes s = (Inr token, s')"
  shows "ss_accessTokenToCloud (as_session s') = Some token"
proof -
  have "acquire_silently E R scopes s = (Inr token, s')"
  proof (cases "acquire_silently E R scopes s")
    case (Pair r t)
    then show ?thesis using assms
      by (cases r) (auto simp: acquireTokenForConsumptionMgmt_def bindE_eq_Inr throwE_def)
  qed
  then show ?thesis
    by (auto simp: acquire_silently_def from_session_def bindE_eq_Inr liftE_def in_session_def in_db_Inr retE_def
        found_Inr claims_for_def)
qed

end
