(* ===== verification/Api_Properties.thy ===== *)
theory Api_Properties
  imports Api_Server
begin

text \<open>
  The properties of the API: the sessions of its callers, what its two guards let pass, the users, the claims and
  the answers of the handlers.
\<close>

section \<open>Inputs of the witnesses\<close>

definition api_account :: msal_account where
  "api_account = \<lparr>ma_id = ''account'', ma_oid = ''oid-1''\<rparr>"


definition api_cookie :: auth_cookie where
  "api_cookie = \<lparr>ak_verifier = ''verifier'',
     ak_authCodeRequest = \<lparr>aq_redirectUri = None, aq_state = ''/'', aq_scopes = [], aq_claims = None\<rparr>\<rparr>"


definition api_start :: "User list api_state" where
  "api_start = \<lparr>as_session = new_session,
     as_cookies = [(STATE_COOKIE_NAME, api_cookie), (CONNECT_STATE_COOKIE_NAME, api_cookie)], as_db = [],
     as_metadata = None\<rparr>"

definition api_keys :: "refusal option \<Rightarrow> key_env" where
  "api_keys refused = \<lparr>ke_header = (\<lambda>t. KeyId (Some ''kid'')), ke_signingKey = (\<lambda>k. Inr (RsaKey ''key'')),
     ke_verify = (\<lambda>t k. refused), ke_payload = (\<lambda>t. Claims [])\<rparr>"

definition api_session :: session where
  "api_session = new_session\<lparr>ss_isAuthenticated := True, ss_accessToken := Some ''token'',
     ss_accessTokenToCloud := Some ''cloud'', ss_account := Some \<lparr>sa_account = api_account, sa_user = None\<rparr>\<rparr>"

section \<open>Sessions\<close>





section \<open>What the guards let pass\<close>



text \<open>
  C32. The guard of the routes to the users and to the profile verifies no token: once a session is authenticated,
  the handler runs, whatever the token in the session and whatever the keys, and even when the guard has already
  answered that the token is invalid.
\<close>

theorem session_token_is_not_verified:
  assumes "ss_isAuthenticated (as_session s)"
  shows "session_route K handler s =
      ((fst (verifyTokenForGeneralAccess K (ss_accessToken (as_session s))), Some (fst (handler (as_db s)))),
       s\<lparr>as_db := snd (handler (as_db s))\<rparr>)
    \<and> (ke_header K (ss_accessToken (as_session s)) = Undecodable \<longrightarrow>
       fst (verifyTokenForGeneralAccess K (ss_accessToken (as_session s))) = [(400, ''Invalid token structure'')])"
proof -
  have "\<exists>sent p. verifyTokenForGeneralAccess K t = (sent, Inr p)" for t
    by (auto simp: verifyTokenForGeneralAccess_def split: token_header.split option.split sum.split)
  then obtain sent p where "verifyTokenForGeneralAccess K (ss_accessToken (as_session s)) = (sent, Inr p)" by blast
  then show ?thesis using assms
    by (auto simp: session_route_def authSession_def isAuthenticated_def verifyTokenForGeneralAccess_def
        split: prod.split)
qed

theorem session_token_is_not_verified_witness:
  "fst (remove_user_route ((api_keys None)\<lparr>ke_header := \<lambda>t. Undecodable\<rparr>) users_documented ''u''
      (api_start\<lparr>as_session := api_session, as_db := [identified ''u'' (user_of_claims [])]\<rparr>))
   = ([(400, ''Invalid token structure'')], Some (Sent 200 ''User deleted successfully''))"
  using session_token_is_not_verified [of "api_start\<lparr>as_session := api_session, as_db := [identified ''u'' (user_of_claims [])]\<rparr>"
      "(api_keys None)\<lparr>ke_header := \<lambda>t. Undecodable\<rparr>" "removeUser_handler users_documented ''u''"]
  by (simp add: remove_user_route_def api_session_def removeUser_handler_def answering_def removeUser_def getUserById_def
      asking_def changing_def bindE_def retE_def users_documented_def identified_def BaseUser.defs)

section \<open>Users and claims\<close>

text \<open>
  C21. With a repository that does what is documented: a user who is created is found by the external identifier,
  when no other user has it, with the tenant \<open>-1\<close> when none is given and without the connections to clouds that
  the creation answers with.
\<close>

theorem created_user_is_found:
  assumes "user_store R users" and "createUser R newUser db = (Inr u, db')"
    and "us_externalId newUser = Some x" "x \<noteq> []" and "Some x \<notin> us_externalId ` set (users db)"
  shows "getUserByExternalId R (Some x) db' = (Inr (Some (u\<lparr>us_cloudConnections := None\<rparr>)), db')
    \<and> us_tenantId u = (if nonempty (us_tenantId newUser) = None then Some ''-1'' else us_tenantId newUser)"
proof -
  have "us_tenantId u = (if nonempty (us_tenantId newUser) = None then Some ''-1'' else us_tenantId newUser)"
    using assms(2)
    by (auto simp: createUser_def Let_def bindE_eq_Inr retE_def is_given_def identified_def BaseUser.defs defaultTenantId_def)
  moreover have "\<forall>v \<in> set (users db). us_externalId v \<noteq> Some x" using assms(5) by force
  ultimately show ?thesis
    using user_store.created_is_found [OF assms(1,2,3,4)] by simp
qed

theorem created_user_is_found_witness:
  "\<exists>u. getUserByExternalId users_documented (Some ''oid-1'')
      (snd (createUser users_documented (user_of_claims [(''oid'', ''oid-1'')]) []))
    = (Inr (Some u), snd (createUser users_documented (user_of_claims [(''oid'', ''oid-1'')]) []))
    \<and> us_tenantId u = Some ''-1''"
proof -
  let ?c = "createUser users_documented (user_of_claims [(''oid'', ''oid-1'')]) []"
  obtain u where c: "?c = (Inr u, snd ?c)"
    by (simp add: createUser_def Let_def bindE_def changing_def retE_def users_documented_def)
  have x: "us_externalId (user_of_claims [(''oid'', ''oid-1'')]) = Some ''oid-1''"
    and t: "us_tenantId (user_of_claims [(''oid'', ''oid-1'')]) = None"
    by (simp_all add: user_of_claims_def claim_or_def)
  show ?thesis
    using created_user_is_found [OF user_doc.user_store_axioms c x] t by (force simp: nonempty_def)
qed

text \<open>
  Claims that are set for an endpoint are read back, decoded, for that endpoint. For an endpoint of another host
  without claims of its own, reading throws instead of yielding none.
\<close>

theorem claims_read_back:
  assumes "setClaims clientId endpoint claims s = Inr t"
  shows "getClaims base64 t clientId endpoint = Inr (Some (base64 claims))
    \<and> (ss_claims s = None \<and> hostname other \<noteq> hostname endpoint \<longrightarrow> getClaims base64 t clientId other = Inl TypeError)"
proof -
  from assms obtain key where key: "claims_key s clientId endpoint = Inr key"
    and t: "t = s\<lparr>ss_claims := Some (case ss_claims s of Some old \<Rightarrow> obj_set old key claims | None \<Rightarrow> [(key, claims)])\<rparr>"
    by (auto simp: setClaims_def bindR_eq_Inr_iff)
  have keys: "claims_key t c e = claims_key s c e" for c e by (simp add: claims_key_def t)
  have nonempty: "AList.update key claims old \<noteq> []" for old by (cases old) auto
  have "claims_key s clientId other = Inr other_key \<Longrightarrow> other_key = key \<Longrightarrow> hostname other = hostname endpoint" for other_key
    using key by (auto simp: claims_key_def split: option.splits)
  then show ?thesis
    using key nonempty
    by (auto simp: getClaims_def hasClaims_def keys t obj_keys_def obj_get_set split: option.splits)
      (auto simp: claims_key_def split: option.splits)
qed

theorem claims_read_back_witness:
  "getClaims (\<lambda>c. c) (api_session\<lparr>ss_claims := Some [(''cc.client.oid-1.management.azure.com'', ''eyJ9'')]\<rparr>) ''client''
      AZURE_SERVICES_ENDPOINT = Inr (Some ''eyJ9'')
   \<and> getClaims (\<lambda>c. c) (api_session\<lparr>ss_claims := Some [(''cc.client.oid-1.management.azure.com'', ''eyJ9'')]\<rparr>) ''client''
      GRAPH_ME_ENDPOINT = Inl TypeError"
proof -
  have hosts: "hostname AZURE_SERVICES_ENDPOINT = ''management.azure.com''" "hostname GRAPH_ME_ENDPOINT = ''graph.microsoft.com''"
    by (simp_all add: hostname_def AZURE_SERVICES_ENDPOINT_def GRAPH_ME_ENDPOINT_def split_def elem_at_def
      toLowerCase_def lower_char_def is_upper_letter_def code_def)
  show ?thesis
    using claims_read_back [of "''client''" AZURE_SERVICES_ENDPOINT "''eyJ9''" api_session _ "\<lambda>c. c" GRAPH_ME_ENDPOINT]
    by (simp add: setClaims_def claims_key_def api_session_def new_session_def api_account_def hosts)
qed

section \<open>Answers\<close>

text \<open>
  C34. A request whose token has no tenant among its claims, and that has no header with one, is never answered: the
  handler throws outside of the block that answers errors, and its promise is rejected.
\<close>

theorem missing_tenant_is_not_answered:
  assumes "request_token user_token req = Some token" "token \<noteq> []" and "nonempty (hr_tenant req) = None"
    and "aa_decode A token = Claims c" "obj_get c ''tid'' = None"
  shows "FootprintApiMiddleware A user_token req = Some (NoAnswer (Thrown ''Tenant ID (tid) not found in token''))
    \<and> RecommendationsApiMiddleware A user_token req = Some (NoAnswer (Thrown ''Tenant ID (tid) not found in token''))"
  using assms
  by (simp add: FootprintApiMiddleware_def RecommendationsApiMiddleware_def request_tenant_def tenant_of_token_def
      nonempty_Some [THEN iffD2])

definition partial_app :: "(nat, nat) api_app" where
  "partial_app =
     \<lparr>aa_parseMoment = parse_day, aa_now = 1700000000000, aa_decode = (\<lambda>t. Claims [(''oid'', ''oid-1'')]),
      aa_getCostAndEstimates = (\<lambda>q. Some (Inl (PartialDataError ''partial''))), aa_getEmissionsFactors = Inr 1,
      aa_getRecommendations = (\<lambda>q. Some (Inr 2)), aa_graph = (\<lambda>t. Inr ''{}'')\<rparr>"

definition api_request :: "string option \<Rightarrow> http_request" where
  "api_request tenant =
     \<lparr>hr_query = \<lparr>rr_startDate = None, rr_endDate = None, rr_cloudProviderToSeed = None, rr_ignoreCache = None,
        rr_groupBy = None, rr_limit = None, rr_skip = None, rr_cloudProviders = None, rr_accounts = None,
        rr_services = None, rr_regions = None, rr_tags = None, rr_tenantId = None, rr_accessToken = None\<rparr>,
      hr_awsRecommendationTarget = None, hr_authorization = None, hr_tenant = tenant\<rparr>"

theorem missing_tenant_is_not_answered_witness:
  "FootprintApiMiddleware partial_app (Some ''token'') (api_request None)
     = Some (NoAnswer (Thrown ''Tenant ID (tid) not found in token''))"
  using missing_tenant_is_not_answered [of "Some ''token''" "api_request None" "''token''" partial_app "[(''oid'', ''oid-1'')]"]
  by (simp add: request_token_def nonempty_def api_request_def partial_app_def)

end
