(* ===== verification/Client_Data.thy ===== *)
theory Client_Data
  imports Js_Format Common_Types
begin

text \<open>
  The data of the dashboard, \<open>packages/client/src/utils\<close>: how the estimates are fetched page by page
  (\<open>hooks/FootprintServiceHook.ts\<close>), the sums and series of its charts (\<open>helpers/transformData.ts\<close>), the dates
  of a forecast (\<open>helpers/handleDates.ts\<close>), and the pages and colours of the bar chart. The requests, moment and
  the number format of the browser are parameters.
\<close>

section \<open>Estimates as they arrive\<close>

text \<open>The names of a service estimate may be \<open>null\<close>.\<close>

record client_service =
  cs_cloudProvider :: "string option"
  cs_accountId :: "string option"
  cs_accountName :: "string option"
  cs_serviceName :: "string option"
  cs_region :: "string option"
  cs_kilowattHours :: jsnum
  cs_co2e :: jsnum
  cs_cost :: jsnum
  cs_usesAverageCPUConstant :: "bool option"
  cs_tags :: "string obj option"

record client_result =
  cl_timestamp :: date
  cl_services :: "client_service list"
  cl_period :: "date option \<times> date option"
  cl_groupBy :: GroupBy

definition all_services :: "client_result list \<Rightarrow> client_service list" where
  "all_services data = concat (map cl_services data)"

section \<open>\<open>FootprintServiceHook.ts\<close>\<close>

record fetch_params =
  fp_ignoreCache :: bool
  fp_limit :: "jsnum option"

text \<open>\<open>equals\<close> of ramda compares objects by their keys, whatever the order of the keys.\<close>

definition same_tags :: "string obj \<Rightarrow> string obj \<Rightarrow> bool" where
  "same_tags a b \<longleftrightarrow> list_all (\<lambda>k. obj_get a k = obj_get b k) (map fst a @ map fst b)"

definition same_service :: "client_service \<Rightarrow> client_service \<Rightarrow> bool" where
  "same_service a b \<longleftrightarrow>
     a\<lparr>cs_tags := None\<rparr> = b\<lparr>cs_tags := None\<rparr>
     \<and> (case (cs_tags a, cs_tags b) of
          (None, None) \<Rightarrow> True
        | (Some s, Some t) \<Rightarrow> same_tags s t
        | _ \<Rightarrow> False)"

definition equal_objects :: "client_service option \<Rightarrow> client_service option \<Rightarrow> bool" where
  "equal_objects a b \<longleftrightarrow>
     (case (a, b) of
        (None, None) \<Rightarrow> True
      | (Some s, Some t) \<Rightarrow> same_service s t
      | _ \<Rightarrow> False)"

text \<open>The last service estimate of a list of results, which is \<open>undefined\<close> when the last result has none.\<close>

definition last_service :: "client_result list \<Rightarrow> client_service option" where
  "last_service rs = (let ss = cl_services (last rs) in if ss = [] then None else Some (last ss))"

definition checkForEqualObjects :: "client_result list option \<Rightarrow> client_result list \<Rightarrow> bool" where
  "checkForEqualObjects newEstimates cachedEstimates =
     (if cachedEstimates = [] then False
      else
        (case newEstimates of
           None \<Rightarrow> True
         | Some new \<Rightarrow> if new = [] then True else equal_objects (last_service new) (last_service cachedEstimates)))"

definition checkForLoopExit :: "client_result list option \<Rightarrow> fetch_params \<Rightarrow> client_result list \<Rightarrow> nat" where
  "checkForLoopExit data params estimates =
     (if fp_ignoreCache params \<or> data = None \<or> checkForEqualObjects data estimates then 0
      else (case data of None \<Rightarrow> 0 | Some d \<Rightarrow> length d))"

text \<open>The services of a new result are added to the first result of its instant.\<close>

fun add_services :: "client_result list \<Rightarrow> client_result \<Rightarrow> client_result list" where
  "add_services [] new = []"
| "add_services (r # rs) new =
     (if cl_timestamp r = cl_timestamp new then r\<lparr>cl_services := cl_services r @ cl_services new\<rparr> # rs
      else r # add_services rs new)"

definition add_result :: "date list \<Rightarrow> client_result list \<Rightarrow> client_result \<Rightarrow> client_result list" where
  "add_result existingDates updatedEstimates newEstimate =
     (if cl_timestamp newEstimate \<in> set existingDates then add_services updatedEstimates newEstimate
      else updatedEstimates @ [newEstimate])"

definition concatenateResults :: "client_result list \<Rightarrow> client_result list option \<Rightarrow> client_result list option" where
  "concatenateResults estimates newEstimates =
     (if estimates = [] then newEstimates
      else
        (case newEstimates of
           None \<Rightarrow> Some estimates
         | Some new \<Rightarrow>
             if new = [] \<or> checkForEqualObjects newEstimates estimates then Some estimates
             else Some (foldl (add_result (map cl_timestamp estimates)) estimates new)))"

text \<open>
  The loop over the pages: what is shown in the end, with the error that ended it. A request may never be answered,
  and the pages may never end.
\<close>

type_synonym page_request = "jsnum \<Rightarrow> client_result list option promise"

partial_function (option) fetch_pages ::
    "fetch_params \<Rightarrow> page_request \<Rightarrow> jsnum \<Rightarrow> client_result list \<Rightarrow>
     (client_result list option \<times> js_error option) option" where
  "fetch_pages params request skip estimates =
     (case request skip of
        None \<Rightarrow> None
      | Some (Inl e) \<Rightarrow> Some (Some estimates, Some e)
      | Some (Inr data) \<Rightarrow>
          (case concatenateResults estimates data of
             None \<Rightarrow> Some (None, None)
           | Some estimates' \<Rightarrow>
               if 0 < checkForLoopExit data params estimates
               then fetch_pages params request (skip + toNum (fp_limit params)) estimates'
               else Some (Some estimates', None)))"

definition fetchEstimates ::
    "string option \<Rightarrow> bool \<Rightarrow> fetch_params \<Rightarrow> page_request \<Rightarrow> client_result list \<Rightarrow>
     (client_result list option \<times> js_error option) option" where
  "fetchEstimates baseUrl enabled params request data =
     (if baseUrl = None \<or> baseUrl = Some [] \<or> \<not> enabled then Some (Some data, None)
      else fetch_pages params request 0 data)"

section \<open>\<open>transformData.ts\<close>: rounding\<close>

definition exponent10 :: "rat \<Rightarrow> int" where
  "exponent10 x =
     (if 1 \<le> x then int (length (natural_text (nat \<lfloor>x\<rfloor>))) - 1
      else - int (length (natural_text (nat (\<lceil>1 / x\<rceil> - 1)))))"

text \<open>The number that the text of \<open>toExponential(digits - 1)\<close> is read back as: \<open>digits\<close> digits, half up.\<close>

definition round_significant :: "nat \<Rightarrow> rat \<Rightarrow> rat" where
  "round_significant digits x =
     (if x = 0 then 0
      else
        (let e = exponent10 \<bar>x\<bar> - int digits + 1
         in (if x < 0 then -1 else 1) * scale10 (of_int \<lfloor>scale10 \<bar>x\<bar> (- e) + 1 / 2\<rfloor>) e))"

fun roundNumberBasedOnSize :: "jsnum \<Rightarrow> nat \<Rightarrow> jsnum" where
  "roundNumberBasedOnSize (Fin x) digits =
     (if 1 \<le> x then parseFloat (toFixed digits (Fin x)) else Fin (round_significant digits x))"
| "roundNumberBasedOnSize x digits = x"

section \<open>\<open>transformData.ts\<close>: series and sums\<close>

record cloudEstPerDay =
  ce_x :: date
  ce_y :: jsnum
  ce_usesAverage :: "bool option"
  ce_cost :: "jsnum option"
  ce_kilowattHours :: "jsnum option"

definition total_of :: "(client_service \<Rightarrow> jsnum) \<Rightarrow> client_service list \<Rightarrow> jsnum" where
  "total_of f ss = foldl (\<lambda>t s. t + f s) 0 ss"

definition co2_point :: "client_result \<Rightarrow> cloudEstPerDay" where
  "co2_point r =
     \<lparr>ce_x = cl_timestamp r, ce_y = roundNumberBasedOnSize (total_of cs_co2e (cl_services r)) 4,
      ce_usesAverage = Some (list_ex (\<lambda>s. cs_usesAverageCPUConstant s = Some True) (cl_services r)),
      ce_cost = Some (roundNumberBasedOnSize (total_of cs_cost (cl_services r)) 2),
      ce_kilowattHours = Some (roundNumberBasedOnSize (total_of cs_kilowattHours (cl_services r)) 2)\<rparr>"

definition plain_point :: "date \<Rightarrow> jsnum \<Rightarrow> cloudEstPerDay" where
  "plain_point x y = \<lparr>ce_x = x, ce_y = y, ce_usesAverage = None, ce_cost = None, ce_kilowattHours = None\<rparr>"

definition sumServiceTotals :: "client_result list \<Rightarrow> cloudEstPerDay list obj" where
  "sumServiceTotals data =
     [(''co2Series'', map co2_point data),
      (''kilowattHoursSeries'',
       map (\<lambda>r. plain_point (cl_timestamp r)
                  (roundNumberBasedOnSize (total_of cs_kilowattHours (cl_services r)) 2)) data),
      (''costSeries'',
       map (\<lambda>r. plain_point (cl_timestamp r) (roundNumberBasedOnSize (total_of cs_cost (cl_services r)) 2)) data)]"

text \<open>\<open>Math.max\<close> is NaN when one of its arguments is; 0 and NaN are falsy.\<close>

definition math_max :: "jsnum \<Rightarrow> jsnum \<Rightarrow> jsnum" where
  "math_max a b = (if isNaN a \<or> isNaN b then NaN else if a < b then b else a)"

definition getMaxOfDataSeries :: "cloudEstPerDay list \<Rightarrow> jsnum" where
  "getMaxOfDataSeries series =
     (if series = [] then 1
      else (let max = foldl math_max NInf (map ce_y series) in if max = 0 \<or> isNaN max then 1 else max))"

datatype chart_type = REGION | SERVICE | ACCOUNT

definition getPropertyFromDataType :: "chart_type \<Rightarrow> client_service \<Rightarrow> string option" where
  "getPropertyFromDataType dataType v =
     (case dataType of REGION \<Rightarrow> cs_region v | SERVICE \<Rightarrow> cs_serviceName v | ACCOUNT \<Rightarrow> cs_accountName v)"

text \<open>The unknown names are replaced in the estimates; a region that is \<open>null\<close> throws.\<close>

definition checkUnknownTypes :: "chart_type \<Rightarrow> client_service \<Rightarrow> client_service result" where
  "checkUnknownTypes dataType v =
     (case dataType of
        ACCOUNT \<Rightarrow> Inr (if cs_accountName v = None then v\<lparr>cs_accountName := Some ''Unknown Account''\<rparr> else v)
      | SERVICE \<Rightarrow> Inr (if cs_serviceName v = None then v\<lparr>cs_serviceName := Some ''Unknown Service''\<rparr> else v)
      | REGION \<Rightarrow>
          (case cs_region v of
             None \<Rightarrow> Inl TypeError
           | Some r \<Rightarrow> Inr (if toLowerCase r = ''unknown'' then v\<lparr>cs_region := Some ''Unknown Region''\<rparr> else v)))"

definition null_text :: "string option \<Rightarrow> string" where
  "null_text s = (case s of Some t \<Rightarrow> t | None \<Rightarrow> ''null'')"

type_synonym co2_entry = "string option \<times> jsnum"

definition add_co2 :: "client_service \<Rightarrow> co2_entry option \<Rightarrow> co2_entry" where
  "add_co2 v old = (cs_cloudProvider v, (case old of Some (_, c) \<Rightarrow> c + cs_co2e v | None \<Rightarrow> cs_co2e v))"

definition sumCO2ByServiceOrRegion :: "client_result list \<Rightarrow> chart_type \<Rightarrow> (co2_entry obj) result" where
  "sumCO2ByServiceOrRegion data dataType =
     bindR (mapR (checkUnknownTypes dataType) (all_services data)) (\<lambda>values.
       Inr (group_fold (\<lambda>v. null_text (getPropertyFromDataType dataType v)) add_co2 [] values))"

definition sumEstimates :: "client_result list \<Rightarrow> (client_service \<Rightarrow> jsnum) \<Rightarrow> jsnum" where
  "sumEstimates data key = total_of key (all_services data)"

definition calculatePercentChange :: "jsnum \<Rightarrow> jsnum \<Rightarrow> jsnum" where
  "calculatePercentChange oldAmount newAmount =
     (case ((oldAmount - newAmount) / (if oldAmount < 0 then - oldAmount else oldAmount)) * Fin 100 of
        Fin x \<Rightarrow> Fin (of_int \<lceil>x\<rceil>)
      | r \<Rightarrow> r)"

definition tableFormatNearZero :: "(jsnum \<Rightarrow> string) \<Rightarrow> jsnum \<Rightarrow> string" where
  "tableFormatNearZero toLocaleString3 rawValue =
     (let formattedValue = toLocaleString3 rawValue
      in if formattedValue = ''0'' \<and> 0 < rawValue then ''< 0.001'' else formattedValue)"

datatype Co2eUnit = Kilograms | MetricTonnes

definition co2eUnitMultiplier :: "Co2eUnit \<Rightarrow> jsnum" where
  "co2eUnitMultiplier u = (case u of Kilograms \<Rightarrow> Fin 1000 | MetricTonnes \<Rightarrow> 1)"

definition tableFormatRawCo2e :: "(jsnum \<Rightarrow> string) \<Rightarrow> Co2eUnit \<Rightarrow> jsnum \<Rightarrow> string" where
  "tableFormatRawCo2e toLocaleString3 u rawValue =
     tableFormatNearZero toLocaleString3 (rawValue * co2eUnitMultiplier u)"

section \<open>\<open>handleDates.ts\<close>\<close>

record date_config =
  dc_DATE_RANGE :: "int \<times> munit"
  dc_MINIMAL_DATE_AGE :: int
  dc_PREVIOUS_YEAR_OF_USAGE :: bool
  dc_START_DATE :: "date option"
  dc_END_DATE :: "date option"

definition getEmissionDateRange :: "moment_ops \<Rightarrow> date \<Rightarrow> date_config \<Rightarrow> date \<times> date" where
  "getEmissionDateRange M now c =
     (let endDate = (case dc_END_DATE c of Some e \<Rightarrow> e | None \<Rightarrow> m_add M (- dc_MINIMAL_DATE_AGE c) MDay now);
          startDate =
            (if dc_PREVIOUS_YEAR_OF_USAGE c then ms_per_day * days_of_civil (year_of endDate - 1) 1 1
             else (case dc_START_DATE c of
                     Some s \<Rightarrow> s
                   | None \<Rightarrow> m_add M (- fst (dc_DATE_RANGE c)) (snd (dc_DATE_RANGE c)) now))
      in (startDate, endDate))"

definition groupByAmount :: "GroupBy \<Rightarrow> nat" where
  "groupByAmount g = (case g of day \<Rightarrow> 30 | week \<Rightarrow> 4 | month \<Rightarrow> 1 | quarter \<Rightarrow> 1 | year \<Rightarrow> 1)"

definition unit_of_group :: "GroupBy \<Rightarrow> munit" where
  "unit_of_group g = (case g of day \<Rightarrow> MDay | week \<Rightarrow> MWeek | month \<Rightarrow> MMonth | quarter \<Rightarrow> MQuarter | year \<Rightarrow> MYear)"

definition checkFootprintDates :: "moment_ops \<Rightarrow> date \<Rightarrow> date list \<Rightarrow> GroupBy \<Rightarrow> date list" where
  "checkFootprintDates M now timestamps g =
     (let lastMonth = map (\<lambda>n. m_add M (- int n) (unit_of_group g) (m_startOf M (unit_of_group g) now))
                        [0..<groupByAmount g];
          footprintDates = map (m_startOf M (unit_of_group g)) timestamps
      in filter (\<lambda>a. a \<notin> set footprintDates) lastMonth)"

definition checkIfAllDatesExistForForecast :: "date list \<Rightarrow> GroupBy \<Rightarrow> bool" where
  "checkIfAllDatesExistForForecast missingDates g \<longleftrightarrow> groupByAmount g = length missingDates"

text \<open>\<open>slice(start)\<close>: a negative start counts from the end.\<close>

definition js_slice :: "int \<Rightarrow> 'a list \<Rightarrow> 'a list" where
  "js_slice start xs = drop (nat (if start < 0 then max (int (length xs) + start) 0 else start)) xs"

definition sliceFootprintDataByLastMonth :: "'a list \<Rightarrow> GroupBy \<Rightarrow> 'a list" where
  "sliceFootprintDataByLastMonth data g = js_slice (int (length data) - int (groupByAmount g)) data"

section \<open>The bar chart\<close>

text \<open>\<open>Pagination.tsx\<close>: with a page size of 0 the loop does not end.\<close>

partial_function (option) paginate_data :: "nat \<Rightarrow> 'a list \<Rightarrow> 'a list list \<Rightarrow> 'a list list option" where
  "paginate_data pageSize newEntries paginatedData =
     (if newEntries = [] then Some paginatedData
      else paginate_data pageSize (drop pageSize newEntries) (paginatedData @ [take pageSize newEntries]))"

definition usePaginateData :: "'a list \<Rightarrow> nat \<Rightarrow> ('a list list \<times> nat) option" where
  "usePaginateData data pageSize = map_option (\<lambda>p. (p, length p)) (paginate_data pageSize data [])"

text \<open>
  \<open>ApexBarChart/helpers.ts\<close>: the colour of a bar by the carbon intensity of its region, or of the unknown region of
  the provider that is in parentheses.
\<close>

record emission_factor =
  ef_cloudProvider :: string
  ef_region :: string
  ef_mtPerKwHour :: jsnum

definition barChartCustomColors :: "string list" where
  "barChartCustomColors = [''#73B500'', ''#00791E'', ''#D99200'', ''#DF5200'', ''#790000'']"

definition color_index :: "jsnum \<Rightarrow> nat" where
  "color_index m =
     (if Fin (64 / 100000) \<le> m then 4
      else if Fin (48 / 100000) \<le> m \<and> m < Fin (64 / 100000) then 3
      else if Fin (32 / 100000) \<le> m \<and> m < Fin (48 / 100000) then 2
      else if Fin (16 / 100000) \<le> m \<and> m < Fin (32 / 100000) then 1
      else 0)"

definition bar_color :: "emission_factor list \<Rightarrow> string \<Rightarrow> string \<times> string \<Rightarrow> string" where
  "bar_color emissionsData mainTheme region =
     (let (currentRegion, cloudProvider) = region;
          parsedCloudProvider =
            str_substring cloudProvider (index_of cloudProvider ''('' + 1) (last_index_of cloudProvider '')'')
      in case find (\<lambda>item. ef_region item = currentRegion
                       \<or> ef_cloudProvider item = parsedCloudProvider \<and> ef_region item = ''Unknown'') emissionsData of
           None \<Rightarrow> mainTheme
         | Some f \<Rightarrow> barChartCustomColors ! color_index (ef_mtPerKwHour f))"

definition createCustomBarColors :: "(string \<times> string) list \<Rightarrow> emission_factor list \<Rightarrow> string \<Rightarrow> string list" where
  "createCustomBarColors pageData emissionsData mainTheme = map (bar_color emissionsData mainTheme) pageData"

definition mapToRange :: "jsnum \<Rightarrow> jsnum \<Rightarrow> jsnum \<Rightarrow> jsnum \<Rightarrow> jsnum \<Rightarrow> jsnum" where
  "mapToRange v in_min in_max out_min out_max = ((v - in_min) * (out_max - out_min)) / (in_max - in_min) + out_min"

end
