(* ===== verification/Client_Filters.thy ===== *)
theory Client_Filters
  imports Client_Data
begin

text \<open>
  The filters of the dashboard: the options of a page and how a selection in one dropdown changes the selections in
  the others (\<open>packages/client/src/common/FilterBar/utils\<close> and the choosers of the emissions and of the
  recommendations page), and the estimates and recommendations that pass. A set of objects is the list of its
  elements in the order of their insertion.
\<close>

section \<open>Options\<close>

datatype DropdownFilterOptions = SERVICES | CLOUD_PROVIDERS | ACCOUNTS | RECOMMENDATION_TYPES | REGIONS

text \<open>Options are compared as objects: \<open>do_object\<close> is the identity of one, which determines its fields.\<close>

record DropdownOption =
  do_object :: nat
  do_key :: string
  do_name :: string
  do_cloudProvider :: "string option"

definition ALL_KEY :: string where "ALL_KEY = ''all''"

definition ALL_DROPDOWN_FILTER_OPTIONS :: "DropdownFilterOptions \<Rightarrow> DropdownOption" where
  "ALL_DROPDOWN_FILTER_OPTIONS t =
     (case t of
        ACCOUNTS \<Rightarrow> \<lparr>do_object = 0, do_key = ALL_KEY, do_name = ''All Accounts'', do_cloudProvider = Some []\<rparr>
      | SERVICES \<Rightarrow> \<lparr>do_object = 1, do_key = ALL_KEY, do_name = ''All Services'', do_cloudProvider = None\<rparr>
      | CLOUD_PROVIDERS \<Rightarrow> \<lparr>do_object = 2, do_key = ALL_KEY, do_name = ''All Providers'', do_cloudProvider = None\<rparr>
      | RECOMMENDATION_TYPES \<Rightarrow>
          \<lparr>do_object = 3, do_key = ALL_KEY, do_name = ''All Recommendation Types'', do_cloudProvider = Some []\<rparr>
      | REGIONS \<Rightarrow> \<lparr>do_object = 4, do_key = ALL_KEY, do_name = ''All Regions'', do_cloudProvider = Some []\<rparr>)"

text \<open>
  The sorting of the language is stable. The collation of the browser, \<open>localeCompare\<close>, is a parameter: it tells
  whether the first text may stand before the second.
\<close>

fun insert_option :: "(DropdownOption \<Rightarrow> string) \<Rightarrow> (string \<Rightarrow> string \<Rightarrow> bool) \<Rightarrow> DropdownOption
    \<Rightarrow> DropdownOption list \<Rightarrow> DropdownOption list" where
  "insert_option text le x [] = [x]"
| "insert_option text le x (y # ys) =
     (if le (text x) (text y) then x # y # ys else y # insert_option text le x ys)"

definition sort_options :: "(DropdownOption \<Rightarrow> string) \<Rightarrow> (string \<Rightarrow> string \<Rightarrow> bool) \<Rightarrow> DropdownOption list
    \<Rightarrow> DropdownOption list" where
  "sort_options text le xs = foldr (insert_option text le) xs []"

definition alphabetizeDropdownOptions :: "(string \<Rightarrow> string \<Rightarrow> bool) \<Rightarrow> DropdownOption list \<Rightarrow> DropdownOption list" where
  "alphabetizeDropdownOptions le = sort_options (\<lambda>a. toLowerCase (trim (do_name a))) le"

definition sortByCloudProvider :: "(string \<Rightarrow> string \<Rightarrow> bool) \<Rightarrow> DropdownOption list \<Rightarrow> DropdownOption list" where
  "sortByCloudProvider le =
     sort_options (\<lambda>a. case do_cloudProvider a of None \<Rightarrow> [] | Some p \<Rightarrow> p) le"

definition CLOUD_PROVIDER_OPTIONS :: "(string \<Rightarrow> string \<Rightarrow> bool) \<Rightarrow> DropdownOption list \<Rightarrow> DropdownOption list" where
  "CLOUD_PROVIDER_OPTIONS le CURRENT_PROVIDERS =
     ALL_DROPDOWN_FILTER_OPTIONS CLOUD_PROVIDERS # alphabetizeDropdownOptions le CURRENT_PROVIDERS"

definition buildAndOrderDropdownOptions ::
    "(string \<Rightarrow> string \<Rightarrow> bool) \<Rightarrow> DropdownOption list option \<Rightarrow> DropdownOption list \<Rightarrow> DropdownOption list" where
  "buildAndOrderDropdownOptions le dropdownOptions emptyResponse =
     sortByCloudProvider le
       (alphabetizeDropdownOptions le (case dropdownOptions of Some os \<Rightarrow> os | None \<Rightarrow> emptyResponse))"

section \<open>The options that the results offer\<close>

text \<open>\<open>uniq\<close> keeps the first of equal options; the objects are equal by their fields.\<close>

definition same_option :: "DropdownOption \<Rightarrow> DropdownOption \<Rightarrow> bool" where
  "same_option a b \<longleftrightarrow> do_key a = do_key b \<and> do_name a = do_name b \<and> do_cloudProvider a = do_cloudProvider b"

fun uniq_options :: "DropdownOption list \<Rightarrow> DropdownOption list" where
  "uniq_options [] = []"
| "uniq_options (x # xs) = x # filter (\<lambda>y. \<not> same_option x y) (uniq_options xs)"

definition name_option :: "nat \<Rightarrow> string option \<Rightarrow> string option \<Rightarrow> string \<Rightarrow> DropdownOption" where
  "name_option object cloudProvider name unknown =
     (let shown = (case name of Some n \<Rightarrow> if n = [] then unknown else n | None \<Rightarrow> unknown)
      in \<lparr>do_object = object, do_key = shown, do_name = shown, do_cloudProvider = map_option toLowerCase cloudProvider\<rparr>)"

text \<open>\<open>fresh\<close> is the identity of the first of the new objects.\<close>

definition useFilterDataFromEstimates ::
    "nat \<Rightarrow> client_result list \<Rightarrow> (DropdownFilterOptions \<times> DropdownOption list) list" where
  "useFilterDataFromEstimates fresh data =
     (let es = zip [0..<length (all_services data)] (all_services data);
          accountNames = map (\<lambda>(n, e). name_option (fresh + 2 * n) (cs_cloudProvider e) (cs_accountName e) ''Unknown Account'') es;
          serviceNames = map (\<lambda>(n, e). name_option (fresh + 2 * n + 1) (cs_cloudProvider e) (cs_serviceName e) ''Unknown Service'') es
      in [(ACCOUNTS, uniq_options accountNames), (SERVICES, uniq_options serviceNames)])"

text \<open>A recommendation or an estimate on the page of recommendations, with the names that it is filtered by.\<close>

record filtered_item =
  fi_cloudProvider :: "string option"
  fi_accountName :: "string option"
  fi_region :: "string option"
  fi_recommendationType :: "string option"

definition useFilterDataFromRecommendations ::
    "nat \<Rightarrow> ('a filtered_item_scheme list) obj \<Rightarrow> (DropdownFilterOptions \<times> DropdownOption list) list" where
  "useFilterDataFromRecommendations fresh data =
     (let results = concat (map (\<lambda>(dataType, rs). map (Pair dataType) rs) data);
          es = zip [0..<length results] results;
          options = (\<lambda>offset name unknown.
            map (\<lambda>(n, (_, r)). name_option (fresh + 3 * n + offset) (fi_cloudProvider r) (name r) unknown))
      in [(ACCOUNTS, uniq_options (options 0 fi_accountName ''Unknown Account'' es)),
          (REGIONS, uniq_options (options 1 fi_region ''Unknown Region'' es)),
          (RECOMMENDATION_TYPES,
            uniq_options (options 2 fi_recommendationType ''Unknown Recommendation Type''
              (filter (\<lambda>(_, (dataType, _)). dataType = ''recommendations'') es)))])"

section \<open>Selections\<close>

text \<open>
  The selections of a page by dropdown. The provider of an account need not be among the providers of the
  configuration; then the selections get an \<open>undefined\<close>, which is no option.
\<close>

type_synonym selection = "DropdownOption option list"
type_synonym DropdownSelections = "(DropdownFilterOptions \<times> selection) list"
type_synonym FilterOptions = "(DropdownFilterOptions \<times> DropdownOption list) list"

definition defined :: "'a option \<Rightarrow> 'a result" where
  "defined x = (case x of None \<Rightarrow> Inl TypeError | Some y \<Rightarrow> Inr y)"

definition key_of :: "DropdownOption option \<Rightarrow> string result" where
  "key_of x = bindR (defined x) (\<lambda>o1. Inr (do_key o1))"

definition optionIsInDropdownOptions :: "selection \<Rightarrow> DropdownOption option \<Rightarrow> bool result" where
  "optionIsInDropdownOptions comparing dropdownOption =
     bindR (mapR (\<lambda>c. bindR (key_of c) (\<lambda>k. bindR (key_of dropdownOption) (\<lambda>l. Inr (k = l)))) comparing)
       (\<lambda>same. Inr (True \<in> set same))"

definition numSelectedLabel :: "nat \<Rightarrow> nat \<Rightarrow> string \<Rightarrow> string" where
  "numSelectedLabel len totalLength type =
     (let all = integer_text (int totalLength - 1)
      in type @ '': '' @ (if len = totalLength then all else integer_text (int len)) @ '' of '' @ all)"

section \<open>\<open>OptionChooser.ts\<close>\<close>

record OptionChooser =
  oc_filterType :: DropdownFilterOptions
  oc_allOptions :: "DropdownOption list"
  oc_selections :: selection
  oc_oldSelections :: DropdownSelections
  oc_filterOptions :: FilterOptions
  oc_choosers :: "DropdownFilterOptions \<Rightarrow> (selection \<Rightarrow> selection result) option"

definition chooseCurrentFilterOption :: "selection \<Rightarrow> selection result" where
  "chooseCurrentFilterOption selections = Inr (first_occurrences [] selections)"

definition provider_key :: "DropdownOption \<Rightarrow> string" where
  "provider_key o1 =
     (case do_cloudProvider o1 of Some p \<Rightarrow> if p = [] then do_key o1 else p | None \<Rightarrow> do_key o1)"

definition provider_of_selection :: "DropdownOption list \<Rightarrow> DropdownOption option \<Rightarrow> selection result" where
  "provider_of_selection providers s =
     bindR (defined s) (\<lambda>o1.
       Inr (if do_key o1 = ALL_KEY then [] else [find (\<lambda>p. do_key p = provider_key o1) providers]))"

definition getCloudProvidersFromSelections :: "DropdownOption list \<Rightarrow> selection \<Rightarrow> selection result" where
  "getCloudProvidersFromSelections providers selections =
     bindR (mapR (provider_of_selection providers) selections) (\<lambda>ps. Inr (first_occurrences [] (concat ps)))"

definition chooseProviders :: "DropdownOption list \<Rightarrow> selection \<Rightarrow> selection result" where
  "chooseProviders providers selections = getCloudProvidersFromSelections providers selections"

definition options_of_provider :: "DropdownOption option \<Rightarrow> selection \<Rightarrow> selection result" where
  "options_of_provider provider options =
     bindR (mapR (\<lambda>s. bindR (defined s) (\<lambda>o1. bindR (key_of provider) (\<lambda>k.
              Inr (if do_cloudProvider o1 = Some k then [s] else [])))) options)
       (\<lambda>os. Inr (concat os))"

text \<open>
  For the providers of the selections: those of a provider that was selected keep their old selections, the others
  get all of their options.
\<close>

definition chosen_for_provider ::
    "DropdownSelections \<Rightarrow> FilterOptions \<Rightarrow> DropdownFilterOptions \<Rightarrow> DropdownOption option \<Rightarrow> selection result" where
  "chosen_for_provider oldSelections filterOptions filterOption provider =
     bindR (defined (map_of oldSelections CLOUD_PROVIDERS)) (\<lambda>oldProviders.
       bindR (optionIsInDropdownOptions oldProviders provider) (\<lambda>wasSelected.
         if wasSelected
         then bindR (defined (map_of oldSelections filterOption)) (options_of_provider provider)
         else bindR (defined (map_of filterOptions filterOption)) (\<lambda>os. options_of_provider provider (map Some os))))"

definition chosen_for_providers ::
    "DropdownSelections \<Rightarrow> FilterOptions \<Rightarrow> DropdownFilterOptions \<Rightarrow> selection \<Rightarrow> selection result" where
  "chosen_for_providers oldSelections filterOptions filterOption currentCloudProviders =
     bindR (mapR (chosen_for_provider oldSelections filterOptions filterOption) currentCloudProviders)
       (\<lambda>os. Inr (first_occurrences [] (concat os)))"

definition chooseDropdownFilterOption ::
    "DropdownOption list \<Rightarrow> DropdownSelections \<Rightarrow> FilterOptions \<Rightarrow> DropdownFilterOptions \<Rightarrow> selection
     \<Rightarrow> selection result" where
  "chooseDropdownFilterOption providers oldSelections filterOptions filterOption selections =
     bindR (getCloudProvidersFromSelections providers selections)
       (chosen_for_providers oldSelections filterOptions filterOption)"

definition addAllDropDownOptions ::
    "FilterOptions \<Rightarrow> selection \<Rightarrow> DropdownFilterOptions \<Rightarrow> selection result" where
  "addAllDropDownOptions filterOptions currentSelections filterType =
     bindR (defined (map_of filterOptions filterType)) (\<lambda>os.
       Inr (if int (length currentSelections) = int (length os) - 1
            then Some (ALL_DROPDOWN_FILTER_OPTIONS filterType) # currentSelections
            else currentSelections))"

definition chosen_option ::
    "OptionChooser \<Rightarrow> selection \<Rightarrow> DropdownFilterOptions \<Rightarrow> (DropdownFilterOptions \<times> selection) result" where
  "chosen_option C selections option =
     bindR (defined (oc_choosers C option)) (\<lambda>chooser.
       bindR (chooser selections) (\<lambda>chosen.
         bindR (addAllDropDownOptions (oc_filterOptions C) chosen option) (\<lambda>revised. Inr (option, revised))))"

definition OptionChooser_choose :: "OptionChooser \<Rightarrow> DropdownSelections result" where
  "OptionChooser_choose C =
     bindR (mapR key_of (oc_selections C)) (\<lambda>selectionKeys.
     bindR (defined (map_of (oc_oldSelections C) (oc_filterType C))) (\<lambda>old.
     bindR (mapR key_of old) (\<lambda>oldSelectionKeys.
       let allLess1 = int (length (oc_allOptions C)) - 1;
           allOptionsAreSelected = (ALL_KEY \<in> set selectionKeys \<or> int (length selectionKeys) = allLess1);
           allOptionsWereSelected = (ALL_KEY \<in> set oldSelectionKeys);
           selections =
             (if allOptionsAreSelected \<and> \<not> allOptionsWereSelected then map Some (oc_allOptions C)
              else oc_selections C);
           selectionOptions = map fst (oc_oldSelections C)
       in if ALL_KEY \<notin> set selectionKeys \<and> allOptionsWereSelected
          then Inr (map (\<lambda>option. (option, [])) selectionOptions)
          else
            (let selections' =
                   (if int (length selections) = allLess1 \<and> allOptionsWereSelected
                    then filter (\<lambda>s. map_option do_key s \<noteq> Some ALL_KEY) selections
                    else selections)
             in mapR (chosen_option C selections') selectionOptions))))"

section \<open>The choosers of the pages\<close>

text \<open>\<open>EmissionsFilterBar/utils/options\<close>: the choosers that differ from the general one.\<close>

definition services_for_provider ::
    "DropdownSelections \<Rightarrow> FilterOptions \<Rightarrow> DropdownOption option \<Rightarrow> selection result" where
  "services_for_provider oldSelections filterOptions provider =
     (case provider of
        None \<Rightarrow> Inr []
      | Some p \<Rightarrow>
          bindR (defined (map_of filterOptions SERVICES)) (\<lambda>services.
            let cloudProviderKeys = map do_key (filter (\<lambda>s. do_cloudProvider s = Some (do_key p)) services)
            in bindR (defined (map_of oldSelections CLOUD_PROVIDERS)) (\<lambda>oldProviders.
                 bindR (optionIsInDropdownOptions oldProviders provider) (\<lambda>wasSelected.
                   if wasSelected
                   then bindR (defined (map_of oldSelections SERVICES)) (\<lambda>old.
                          bindR (mapR (\<lambda>s. bindR (key_of s) (\<lambda>k. Inr (if k \<in> set cloudProviderKeys then [s] else []))) old)
                            (\<lambda>os. Inr (concat os)))
                   else Inr (map (\<lambda>k. find (\<lambda>s. do_key s = k) services) cloudProviderKeys)))))"

definition chooseServices ::
    "DropdownOption list \<Rightarrow> DropdownSelections \<Rightarrow> FilterOptions \<Rightarrow> selection \<Rightarrow> selection result" where
  "chooseServices providers oldSelections filterOptions selections =
     bindR (getCloudProvidersFromSelections providers selections) (\<lambda>ps.
       bindR (mapR (services_for_provider oldSelections filterOptions) ps) (\<lambda>os.
         Inr (first_occurrences [] (concat os))))"

definition getCloudProvidersFromServices ::
    "DropdownOption list \<Rightarrow> FilterOptions \<Rightarrow> selection \<Rightarrow> selection result" where
  "getCloudProvidersFromServices providers filterOptions serviceSelections =
     bindR (mapR key_of serviceSelections) (\<lambda>keys.
       bindR (defined (map_of filterOptions SERVICES)) (\<lambda>services.
         Inr (first_occurrences []
           (map (\<lambda>s. find (\<lambda>p. Some (do_key p) = do_cloudProvider s) providers)
             (filter (\<lambda>s. do_key s \<noteq> ALL_KEY \<and> do_key s \<in> set keys) services)))))"

definition chooseAccounts ::
    "DropdownOption list \<Rightarrow> DropdownSelections \<Rightarrow> FilterOptions \<Rightarrow> selection \<Rightarrow> selection result" where
  "chooseAccounts providers oldSelections filterOptions selections =
     bindR (getCloudProvidersFromServices providers filterOptions selections)
       (chosen_for_providers oldSelections filterOptions ACCOUNTS)"

datatype filter_page = EmissionsPage | RecommendationsPage

text \<open>The choosers of a dropdown: what chooses the selections of each dropdown when this one is used.\<close>

definition emissions_CloudProviderChooser ::
    "DropdownOption list \<Rightarrow> DropdownSelections \<Rightarrow> FilterOptions \<Rightarrow> DropdownFilterOptions
     \<Rightarrow> (selection \<Rightarrow> selection result) option" where
  "emissions_CloudProviderChooser providers old options option =
     (case option of
        CLOUD_PROVIDERS \<Rightarrow> Some chooseCurrentFilterOption
      | ACCOUNTS \<Rightarrow> Some (chooseDropdownFilterOption providers old options ACCOUNTS)
      | SERVICES \<Rightarrow> Some (chooseDropdownFilterOption providers old options SERVICES)
      | _ \<Rightarrow> None)"

definition emissions_AccountChooser ::
    "DropdownOption list \<Rightarrow> DropdownSelections \<Rightarrow> FilterOptions \<Rightarrow> DropdownFilterOptions
     \<Rightarrow> (selection \<Rightarrow> selection result) option" where
  "emissions_AccountChooser providers old options option =
     (case option of
        CLOUD_PROVIDERS \<Rightarrow> Some (chooseProviders providers)
      | ACCOUNTS \<Rightarrow> Some chooseCurrentFilterOption
      | SERVICES \<Rightarrow> Some (chooseServices providers old options)
      | _ \<Rightarrow> None)"

definition emissions_ServiceChooser ::
    "DropdownOption list \<Rightarrow> DropdownSelections \<Rightarrow> FilterOptions \<Rightarrow> DropdownFilterOptions
     \<Rightarrow> (selection \<Rightarrow> selection result) option" where
  "emissions_ServiceChooser providers old options option =
     (case option of
        CLOUD_PROVIDERS \<Rightarrow> Some (chooseProviders providers)
      | ACCOUNTS \<Rightarrow> Some (chooseAccounts providers old options)
      | SERVICES \<Rightarrow> Some chooseCurrentFilterOption
      | _ \<Rightarrow> None)"

definition recommendations_CloudProviderChooser ::
    "DropdownOption list \<Rightarrow> DropdownSelections \<Rightarrow> FilterOptions \<Rightarrow> DropdownFilterOptions
     \<Rightarrow> (selection \<Rightarrow> selection result) option" where
  "recommendations_CloudProviderChooser providers old options option =
     (case option of
        CLOUD_PROVIDERS \<Rightarrow> Some chooseCurrentFilterOption
      | ACCOUNTS \<Rightarrow> Some (chooseDropdownFilterOption providers old options ACCOUNTS)
      | REGIONS \<Rightarrow> Some (chooseDropdownFilterOption providers old options REGIONS)
      | RECOMMENDATION_TYPES \<Rightarrow> Some (chooseDropdownFilterOption providers old options RECOMMENDATION_TYPES)
      | _ \<Rightarrow> None)"

definition recommendations_AccountChooser ::
    "DropdownOption list \<Rightarrow> DropdownSelections \<Rightarrow> FilterOptions \<Rightarrow> DropdownFilterOptions
     \<Rightarrow> (selection \<Rightarrow> selection result) option" where
  "recommendations_AccountChooser providers old options option =
     (case option of
        ACCOUNTS \<Rightarrow> Some chooseCurrentFilterOption
      | CLOUD_PROVIDERS \<Rightarrow> Some (chooseProviders providers)
      | REGIONS \<Rightarrow> Some (chooseDropdownFilterOption providers old options REGIONS)
      | RECOMMENDATION_TYPES \<Rightarrow> Some (chooseDropdownFilterOption providers old options RECOMMENDATION_TYPES)
      | _ \<Rightarrow> None)"

definition recommendations_RegionChooser ::
    "DropdownOption list \<Rightarrow> DropdownSelections \<Rightarrow> FilterOptions \<Rightarrow> DropdownFilterOptions
     \<Rightarrow> (selection \<Rightarrow> selection result) option" where
  "recommendations_RegionChooser providers old options option =
     (case option of
        REGIONS \<Rightarrow> Some chooseCurrentFilterOption
      | CLOUD_PROVIDERS \<Rightarrow> Some (chooseProviders providers)
      | ACCOUNTS \<Rightarrow> Some (chooseDropdownFilterOption providers old options ACCOUNTS)
      | RECOMMENDATION_TYPES \<Rightarrow> Some (chooseDropdownFilterOption providers old options RECOMMENDATION_TYPES)
      | _ \<Rightarrow> None)"

definition recommendations_RecommendationTypeChooser ::
    "DropdownOption list \<Rightarrow> DropdownSelections \<Rightarrow> FilterOptions \<Rightarrow> DropdownFilterOptions
     \<Rightarrow> (selection \<Rightarrow> selection result) option" where
  "recommendations_RecommendationTypeChooser providers old options option =
     (case option of
        RECOMMENDATION_TYPES \<Rightarrow> Some chooseCurrentFilterOption
      | CLOUD_PROVIDERS \<Rightarrow> Some (chooseProviders providers)
      | ACCOUNTS \<Rightarrow> Some (chooseDropdownFilterOption providers old options ACCOUNTS)
      | REGIONS \<Rightarrow> Some (chooseDropdownFilterOption providers old options REGIONS)
      | _ \<Rightarrow> None)"

text \<open>The chooser of a page by the dropdown that is used.\<close>

definition emissions_choosers ::
    "DropdownOption list \<Rightarrow> DropdownSelections \<Rightarrow> FilterOptions \<Rightarrow> DropdownFilterOptions
     \<Rightarrow> DropdownFilterOptions \<Rightarrow> (selection \<Rightarrow> selection result) option" where
  "emissions_choosers providers old options used =
     (case used of
        CLOUD_PROVIDERS \<Rightarrow> emissions_CloudProviderChooser providers old options
      | ACCOUNTS \<Rightarrow> emissions_AccountChooser providers old options
      | SERVICES \<Rightarrow> emissions_ServiceChooser providers old options
      | _ \<Rightarrow> (\<lambda>option. None))"

definition recommendations_choosers ::
    "DropdownOption list \<Rightarrow> DropdownSelections \<Rightarrow> FilterOptions \<Rightarrow> DropdownFilterOptions
     \<Rightarrow> DropdownFilterOptions \<Rightarrow> (selection \<Rightarrow> selection result) option" where
  "recommendations_choosers providers old options used =
     (case used of
        ACCOUNTS \<Rightarrow> recommendations_AccountChooser providers old options
      | CLOUD_PROVIDERS \<Rightarrow> recommendations_CloudProviderChooser providers old options
      | REGIONS \<Rightarrow> recommendations_RegionChooser providers old options
      | RECOMMENDATION_TYPES \<Rightarrow> recommendations_RecommendationTypeChooser providers old options
      | _ \<Rightarrow> (\<lambda>option. None))"

lemmas choosers_defs =
  emissions_choosers_def emissions_CloudProviderChooser_def emissions_AccountChooser_def emissions_ServiceChooser_def
  recommendations_choosers_def recommendations_CloudProviderChooser_def recommendations_AccountChooser_def
  recommendations_RegionChooser_def recommendations_RecommendationTypeChooser_def

definition createOptionChooser ::
    "filter_page \<Rightarrow> DropdownOption list \<Rightarrow> DropdownFilterOptions \<Rightarrow> selection \<Rightarrow> DropdownSelections \<Rightarrow> FilterOptions
     \<Rightarrow> OptionChooser result" where
  "createOptionChooser page providers filterType selections oldSelections filterOptions =
     (if filterType \<notin> (case page of
            EmissionsPage \<Rightarrow> {CLOUD_PROVIDERS, ACCOUNTS, SERVICES}
          | RecommendationsPage \<Rightarrow> {ACCOUNTS, CLOUD_PROVIDERS, REGIONS, RECOMMENDATION_TYPES})
      then Inl TypeError
      else
        bindR (if filterType = CLOUD_PROVIDERS then Inr providers else defined (map_of filterOptions filterType))
          (\<lambda>allOptions.
            Inr \<lparr>oc_filterType = filterType, oc_allOptions = allOptions, oc_selections = selections,
                 oc_oldSelections = oldSelections, oc_filterOptions = filterOptions,
                 oc_choosers =
                   (case page of
                      EmissionsPage \<Rightarrow> emissions_choosers
                    | RecommendationsPage \<Rightarrow> recommendations_choosers) providers oldSelections filterOptions filterType\<rparr>))"

section \<open>\<open>Filters.ts\<close>\<close>

record FiltersDateRange =
  fd_startDate :: "date option"
  fd_endDate :: "date option"

definition isComplete :: "FiltersDateRange \<Rightarrow> bool" where
  "isComplete r \<longleftrightarrow> fd_startDate r \<noteq> None \<and> fd_endDate r \<noteq> None"

record Filters =
  fl_timeframe :: "int option"
  fl_dateRange :: "FiltersDateRange option"
  fl_options :: DropdownSelections

text \<open>The configuration of a page before its results are there.\<close>

definition emissions_defaultConfig :: "DropdownOption list \<Rightarrow> Filters" where
  "emissions_defaultConfig providers =
     \<lparr>fl_timeframe = Some 36, fl_dateRange = None,
      fl_options =
        [(SERVICES, [Some (ALL_DROPDOWN_FILTER_OPTIONS SERVICES)]), (CLOUD_PROVIDERS, map Some providers),
         (ACCOUNTS, [Some (ALL_DROPDOWN_FILTER_OPTIONS ACCOUNTS)])]\<rparr>"

definition recommendations_defaultConfig :: "DropdownOption list \<Rightarrow> Filters" where
  "recommendations_defaultConfig providers =
     \<lparr>fl_timeframe = None, fl_dateRange = None,
      fl_options =
        [(ACCOUNTS, [Some (ALL_DROPDOWN_FILTER_OPTIONS ACCOUNTS)]), (CLOUD_PROVIDERS, map Some providers),
         (REGIONS, [Some (ALL_DROPDOWN_FILTER_OPTIONS REGIONS)]),
         (RECOMMENDATION_TYPES, [Some (ALL_DROPDOWN_FILTER_OPTIONS RECOMMENDATION_TYPES)])]\<rparr>"

definition filters_defaultConfig :: "filter_page \<Rightarrow> DropdownOption list \<Rightarrow> Filters" where
  "filters_defaultConfig page providers =
     (case page of
        EmissionsPage \<Rightarrow> emissions_defaultConfig providers
      | RecommendationsPage \<Rightarrow> recommendations_defaultConfig providers)"

definition Filters_generateConfig :: "FilterOptions \<Rightarrow> Filters \<Rightarrow> Filters" where
  "Filters_generateConfig newOptions oldConfig =
     oldConfig\<lparr>fl_options :=
       foldl (\<lambda>options (option, os). obj_set options option (map Some (ALL_DROPDOWN_FILTER_OPTIONS option # os)))
         (fl_options oldConfig) newOptions\<rparr>"

definition withTimeFrame :: "Filters \<Rightarrow> int \<Rightarrow> Filters" where
  "withTimeFrame F timeframe =
     (if fl_timeframe F = Some timeframe then F else F\<lparr>fl_dateRange := None, fl_timeframe := Some timeframe\<rparr>)"

definition withDropdownOption ::
    "filter_page \<Rightarrow> DropdownOption list \<Rightarrow> Filters \<Rightarrow> selection \<Rightarrow> FilterOptions \<Rightarrow> DropdownFilterOptions
     \<Rightarrow> Filters result" where
  "withDropdownOption page providers F dropdownOption filterOptions dropdownFilter =
     bindR (createOptionChooser page providers dropdownFilter dropdownOption (fl_options F) filterOptions)
       (\<lambda>C. bindR (OptionChooser_choose C) (\<lambda>options. Inr (F\<lparr>fl_options := options\<rparr>)))"

definition withDateRange :: "Filters \<Rightarrow> FiltersDateRange \<Rightarrow> Filters" where
  "withDateRange F dateRange =
     (if isComplete dateRange then F\<lparr>fl_timeframe := Some (-1), fl_dateRange := Some dateRange\<rparr>
      else F\<lparr>fl_dateRange := Some dateRange\<rparr>)"

definition filterLabels :: "DropdownFilterOptions \<Rightarrow> string" where
  "filterLabels t =
     (case t of
        ACCOUNTS \<Rightarrow> ''Accounts'' | SERVICES \<Rightarrow> ''Services'' | CLOUD_PROVIDERS \<Rightarrow> ''Cloud Providers''
      | REGIONS \<Rightarrow> ''Regions'' | RECOMMENDATION_TYPES \<Rightarrow> ''Recommendation Types'')"

definition filter_label :: "Filters \<Rightarrow> DropdownOption list \<Rightarrow> DropdownFilterOptions \<Rightarrow> string result" where
  "filter_label F allOptions optionType =
     bindR (defined (map_of (fl_options F) optionType)) (\<lambda>selected.
       Inr (numSelectedLabel (length selected) (length allOptions) (filterLabels optionType)))"

section \<open>What passes\<close>

fun someR :: "('a \<Rightarrow> bool result) \<Rightarrow> 'a list \<Rightarrow> bool result" where
  "someR f [] = Inr False"
| "someR f (x # xs) = bindR (f x) (\<lambda>b. if b then Inr True else someR f xs)"

fun filterR :: "('a \<Rightarrow> bool result) \<Rightarrow> 'a list \<Rightarrow> 'a list result" where
  "filterR f [] = Inr []"
| "filterR f (x # xs) = bindR (f x) (\<lambda>b. bindR (filterR f xs) (\<lambda>ys. Inr (if b then x # ys else ys)))"

text \<open>The types without an unknown name give \<open>undefined\<close>, which \<open>includes\<close> reads as a text.\<close>

definition unknownOptionTypes :: "DropdownFilterOptions \<Rightarrow> string" where
  "unknownOptionTypes t =
     (case t of
        ACCOUNTS \<Rightarrow> ''Unknown Account'' | SERVICES \<Rightarrow> ''Unknown Service'' | REGIONS \<Rightarrow> ''Unknown Region''
      | CLOUD_PROVIDERS \<Rightarrow> ''undefined'' | RECOMMENDATION_TYPES \<Rightarrow> ''undefined'')"

definition isUnknownOrSameName :: "DropdownFilterOptions \<Rightarrow> string option \<Rightarrow> DropdownOption option \<Rightarrow> bool result" where
  "isUnknownOrSameName type name dropdownOption =
     bindR (defined dropdownOption) (\<lambda>o1.
       Inr (str_includes (do_name o1) (unknownOptionTypes type) \<and> name = None \<or> Some (do_name o1) = name))"

definition passes :: "DropdownSelections \<Rightarrow> DropdownFilterOptions \<Rightarrow> string option \<Rightarrow> bool result" where
  "passes options type name =
     bindR (defined (map_of options type)) (\<lambda>selected.
       bindR (someR (isUnknownOrSameName type name) selected) (\<lambda>some1.
         Inr (some1 \<or> Some (ALL_DROPDOWN_FILTER_OPTIONS type) \<in> set selected)))"

definition service_name_for :: "DropdownFilterOptions \<Rightarrow> client_service \<Rightarrow> string option" where
  "service_name_for type s = (if type = ACCOUNTS then cs_accountName s else cs_serviceName s)"

definition getResultsFilteredBy ::
    "DropdownSelections \<Rightarrow> DropdownFilterOptions \<Rightarrow> client_result list \<Rightarrow> client_result list result" where
  "getResultsFilteredBy options type previousResults =
     mapR (\<lambda>r. bindR (filterR (\<lambda>s. passes options type (service_name_for type s)) (cl_services r))
                 (\<lambda>ss. Inr (r\<lparr>cl_services := ss\<rparr>))) previousResults"

text \<open>Whole days: the day of the estimate is neither before the start nor after the end.\<close>

definition isBetween_days :: "date \<Rightarrow> date \<Rightarrow> date \<Rightarrow> bool" where
  "isBetween_days t start end1 \<longleftrightarrow>
     (let midnight = t - t mod ms_per_day in start \<le> midnight + ms_per_day - 1 \<and> midnight \<le> end1)"

text \<open>Without a time frame the subtraction does nothing.\<close>

definition filter_window :: "moment_ops \<Rightarrow> date \<Rightarrow> Filters \<Rightarrow> date \<times> date" where
  "filter_window M today F =
     (case (fl_timeframe F, fl_dateRange F) of
        (Some tf, Some r) \<Rightarrow>
          (case fd_startDate r of
             Some start \<Rightarrow>
               if tf < 0 then (start, (case fd_endDate r of Some e \<Rightarrow> e | None \<Rightarrow> today))
               else (m_add M (- tf) MMonth today, today)
           | None \<Rightarrow> (m_add M (- tf) MMonth today, today))
      | (Some tf, None) \<Rightarrow> (m_add M (- tf) MMonth today, today)
      | (None, _) \<Rightarrow> (today, today))"

definition getResultsFilteredByTime :: "moment_ops \<Rightarrow> date \<Rightarrow> Filters \<Rightarrow> client_result list \<Rightarrow> client_result list" where
  "getResultsFilteredByTime M today F previousResults =
     (let (start, end1) = filter_window M today F
      in filter (\<lambda>r. isBetween_days (cl_timestamp r) start end1) previousResults)"

definition EmissionsFilters_filter ::
    "moment_ops \<Rightarrow> date \<Rightarrow> Filters \<Rightarrow> client_result list \<Rightarrow> client_result list result" where
  "EmissionsFilters_filter M today F rawResults =
     bindR (getResultsFilteredBy (fl_options F) SERVICES (getResultsFilteredByTime M today F rawResults))
       (\<lambda>byService. bindR (getResultsFilteredBy (fl_options F) ACCOUNTS byService)
         (\<lambda>byAccount. Inr (filter (\<lambda>r. cl_services r \<noteq> []) byAccount)))"

definition item_name_for :: "DropdownFilterOptions \<Rightarrow> 'a filtered_item_scheme \<Rightarrow> string option" where
  "item_name_for type i =
     (case type of
        REGIONS \<Rightarrow> fi_region i | RECOMMENDATION_TYPES \<Rightarrow> fi_recommendationType i | _ \<Rightarrow> fi_accountName i)"

definition items_filtered_by ::
    "DropdownSelections \<Rightarrow> DropdownFilterOptions \<Rightarrow> 'a filtered_item_scheme list
     \<Rightarrow> 'a filtered_item_scheme list result" where
  "items_filtered_by options type = filterR (\<lambda>i. passes options type (item_name_for type i))"

definition RecommendationsFilters_filter ::
    "Filters \<Rightarrow> ('a filtered_item_scheme list) obj \<Rightarrow> (('a filtered_item_scheme list) obj) result" where
  "RecommendationsFilters_filter F rawResults =
     mapR (\<lambda>(resultType, items).
       bindR (items_filtered_by (fl_options F) ACCOUNTS items) (\<lambda>byAccount.
       bindR (if resultType = ''recommendations'' then items_filtered_by (fl_options F) RECOMMENDATION_TYPES byAccount
              else Inr byAccount) (\<lambda>byType.
       bindR (items_filtered_by (fl_options F) REGIONS byType) (\<lambda>byRegion. Inr (resultType, byRegion))))) rawResults"

section \<open>Selecting keeps the selections consistent\<close>

definition page_types :: "filter_page \<Rightarrow> DropdownFilterOptions set" where
  "page_types page =
     (case page of
        EmissionsPage \<Rightarrow> {CLOUD_PROVIDERS, ACCOUNTS, SERVICES}
      | RecommendationsPage \<Rightarrow> {ACCOUNTS, CLOUD_PROVIDERS, REGIONS, RECOMMENDATION_TYPES})"

definition providers_ok :: "DropdownOption list \<Rightarrow> bool" where
  "providers_ok rest \<longleftrightarrow>
     distinct rest \<and> (\<forall>p \<in> set rest. do_key p \<noteq> ALL_KEY \<and> do_key p \<noteq> [] \<and> do_cloudProvider p \<in> {None, Some []})"

text \<open>The options of a dropdown: the one for all, and the others, each of a provider of the configuration.\<close>

definition options_ok :: "filter_page \<Rightarrow> DropdownOption list \<Rightarrow> (DropdownFilterOptions \<Rightarrow> DropdownOption list) \<Rightarrow> FilterOptions \<Rightarrow> bool" where
  "options_ok page providers rest filterOptions \<longleftrightarrow>
     providers_ok (rest CLOUD_PROVIDERS)
     \<and> providers = ALL_DROPDOWN_FILTER_OPTIONS CLOUD_PROVIDERS # rest CLOUD_PROVIDERS
     \<and> (\<forall>t \<in> page_types page.
          map_of filterOptions t = Some (ALL_DROPDOWN_FILTER_OPTIONS t # rest t) \<and> distinct (rest t)
          \<and> (\<forall>o1 \<in> set (rest t). do_key o1 \<noteq> ALL_KEY
               \<and> (t \<noteq> CLOUD_PROVIDERS \<longrightarrow>
                    (\<exists>p \<in> set (rest CLOUD_PROVIDERS). do_cloudProvider o1 = Some (do_key p)))))"

definition fits :: "DropdownOption list \<Rightarrow> selection \<Rightarrow> bool" where
  "fits rest c \<longleftrightarrow> distinct c \<and> set c \<subseteq> Some ` set rest"

text \<open>The option for all is selected exactly when every option is.\<close>

definition selection_ok :: "DropdownOption \<Rightarrow> DropdownOption list \<Rightarrow> selection \<Rightarrow> bool" where
  "selection_ok all rest c \<longleftrightarrow>
     distinct c \<and> set c \<subseteq> Some ` set (all # rest) \<and> (Some all \<in> set c \<longleftrightarrow> set c = Some ` set (all # rest))"

definition selections_ok :: "filter_page \<Rightarrow> (DropdownFilterOptions \<Rightarrow> DropdownOption list) \<Rightarrow> DropdownSelections \<Rightarrow> bool" where
  "selections_ok page rest d \<longleftrightarrow>
     distinct (map fst d) \<and> set (map fst d) = page_types page
     \<and> (\<forall>(t, c) \<in> set d. selection_ok (ALL_DROPDOWN_FILTER_OPTIONS t) (rest t) c)"

definition toggled :: "DropdownOption list \<Rightarrow> selection \<Rightarrow> selection \<Rightarrow> bool" where
  "toggled options old new \<longleftrightarrow>
     (\<exists>o1 \<in> set options. Some o1 \<notin> set old \<and> new = old @ [Some o1])
     \<or> (\<exists>o1. Some o1 \<in> set old \<and> new = remove1 (Some o1) old)"

lemma all_option_simps [simp]:
  "do_key (ALL_DROPDOWN_FILTER_OPTIONS t) = ALL_KEY"
  "do_cloudProvider (ALL_DROPDOWN_FILTER_OPTIONS t) \<in> {None, Some []}"
  "do_cloudProvider (ALL_DROPDOWN_FILTER_OPTIONS t) = Some k \<longleftrightarrow> k = [] \<and> t \<notin> {SERVICES, CLOUD_PROVIDERS}"
  by (cases t; auto simp: ALL_DROPDOWN_FILTER_OPTIONS_def)+

lemma defined_Some [simp]: "defined (Some x) = Inr x" by (simp add: defined_def)

lemma key_of_Some [simp]: "key_of (Some x) = Inr (do_key x)" by (simp add: key_of_def)

lemma mapR_concat_bounded:
  assumes "\<forall>x \<in> set xs. \<exists>ys. f x = Inr ys \<and> set ys \<subseteq> A"
  shows "\<exists>ys. mapR f xs = Inr ys \<and> set (concat ys) \<subseteq> A"
  using assms
proof (induction xs)
  case (Cons x xs)
  then obtain y ys where "f x = Inr y" "set y \<subseteq> A" "mapR f xs = Inr ys" "set (concat ys) \<subseteq> A" by auto
  then show ?case by (intro exI [of _ "y # ys"]) simp
qed simp

lemma first_occurrences_distinct: "distinct (ks @ xs) \<Longrightarrow> first_occurrences ks xs = ks @ xs"
  by (induction ks xs rule: first_occurrences.induct) auto

lemma all_not_in_rest: "options_ok page providers rest fo \<Longrightarrow> t \<in> page_types page \<Longrightarrow>
  ALL_DROPDOWN_FILTER_OPTIONS t \<notin> set (rest t)"
  unfolding options_ok_def by fastforce

lemma add_all_ok:
  assumes "options_ok page providers rest fo" and "t \<in> page_types page" and "fits (rest t) c"
  shows "\<exists>r. addAllDropDownOptions fo c t = Inr r \<and> selection_ok (ALL_DROPDOWN_FILTER_OPTIONS t) (rest t) r"
proof -
  have new: "Some (ALL_DROPDOWN_FILTER_OPTIONS t) \<notin> set c"
    using all_not_in_rest [OF assms(1,2)] assms(3) by (auto simp: fits_def)
  have os: "map_of fo t = Some (ALL_DROPDOWN_FILTER_OPTIONS t # rest t)" and "distinct (rest t)"
    using assms(1,2) by (simp_all add: options_ok_def)
  have full: "set c = Some ` set (rest t)" if "length c = length (rest t)"
  proof (rule card_subset_eq)
    show "card (set c) = card (Some ` set (rest t))"
      using that assms(3) \<open>distinct (rest t)\<close> by (simp add: fits_def distinct_card card_image)
  qed (use assms(3) in \<open>auto simp: fits_def\<close>)
  show ?thesis
    using os new full assms(3) by (auto simp: addAllDropDownOptions_def selection_ok_def fits_def)
qed

lemma find_provider:
  assumes "options_ok page providers rest fo" and "p \<in> set (rest CLOUD_PROVIDERS)"
  shows "\<exists>q \<in> set (rest CLOUD_PROVIDERS). find (\<lambda>q. do_key q = do_key p) providers = Some q"
proof -
  have p: "do_key p \<noteq> ALL_KEY" using assms by (auto simp: options_ok_def providers_ok_def)
  have "find (\<lambda>q. do_key q = do_key p) (rest CLOUD_PROVIDERS) \<noteq> None"
    using assms(2) by (auto simp: find_None_iff)
  then obtain q where "find (\<lambda>q. do_key q = do_key p) (rest CLOUD_PROVIDERS) = Some q" by auto
  then show ?thesis using assms(1) p by (auto simp: options_ok_def find_Some_iff)
qed

lemma option_provider:
  assumes "options_ok page providers rest fo" and "t \<in> page_types page" and "t \<noteq> CLOUD_PROVIDERS" and "o1 \<in> set (rest t)"
  obtains p where "p \<in> set (rest CLOUD_PROVIDERS)" and "do_cloudProvider o1 = Some (do_key p)"
  using assms unfolding options_ok_def by blast

lemma provider_key_known:
  assumes "options_ok page providers rest fo" and "t \<in> page_types page" and "o1 \<in> set (rest t)"
  shows "\<exists>p \<in> set (rest CLOUD_PROVIDERS). provider_key o1 = do_key p"
proof (cases "t = CLOUD_PROVIDERS")
  case True
  then show ?thesis using assms unfolding options_ok_def providers_ok_def provider_key_def
    by (intro bexI [of _ o1]) auto
next
  case False
  then obtain p where "p \<in> set (rest CLOUD_PROVIDERS)" "do_cloudProvider o1 = Some (do_key p)"
    using option_provider [OF assms(1,2) _ assms(3)] by blast
  then show ?thesis using assms(1) by (intro bexI [of _ p]) (auto simp: provider_key_def options_ok_def providers_ok_def)
qed

text \<open>The providers of a selection.\<close>

lemma providers_of_selections:
  assumes "options_ok page providers rest fo" and "t \<in> page_types page"
    and "set c \<subseteq> Some ` set (ALL_DROPDOWN_FILTER_OPTIONS t # rest t)"
  shows "\<exists>ps. getCloudProvidersFromSelections providers c = Inr ps \<and> fits (rest CLOUD_PROVIDERS) ps"
proof -
  have "\<exists>ys. provider_of_selection providers s = Inr ys \<and> set ys \<subseteq> Some ` set (rest CLOUD_PROVIDERS)"
    if "s \<in> set c" for s
  proof -
    from that assms(3) obtain o1 where s: "s = Some o1" "o1 = ALL_DROPDOWN_FILTER_OPTIONS t \<or> o1 \<in> set (rest t)" by auto
    show ?thesis
    proof (cases "do_key o1 = ALL_KEY")
      case False
      then have "o1 \<in> set (rest t)" using s by auto
      then obtain p where "p \<in> set (rest CLOUD_PROVIDERS)" "provider_key o1 = do_key p"
        using provider_key_known assms(1,2) by blast
      then show ?thesis using find_provider [OF assms(1)] False s(1) by (auto simp: provider_of_selection_def)
    qed (simp add: provider_of_selection_def s(1))
  qed
  then obtain ys where "mapR (provider_of_selection providers) c = Inr ys"
    "set (concat ys) \<subseteq> Some ` set (rest CLOUD_PROVIDERS)"
    using mapR_concat_bounded [of c "provider_of_selection providers"] by blast
  then show ?thesis
    by (simp add: getCloudProvidersFromSelections_def fits_def set_first_occurrences distinct_first_occurrences)
qed


text \<open>What is chosen in another dropdown fits its options.\<close>

lemma options_of_provider_fit:
  assumes "options_ok page providers rest fo" and "t \<in> page_types page" and "p \<in> set (rest CLOUD_PROVIDERS)"
    and "set c \<subseteq> Some ` set (ALL_DROPDOWN_FILTER_OPTIONS t # rest t)"
  shows "\<exists>r. options_of_provider (Some p) c = Inr r \<and> set r \<subseteq> Some ` set (rest t)"
proof -
  have p: "do_key p \<noteq> []" using assms(1,3) by (auto simp: options_ok_def providers_ok_def)
  have "\<exists>ys. bindR (defined s) (\<lambda>o1. bindR (key_of (Some p)) (\<lambda>k.
              Inr (if do_cloudProvider o1 = Some k then [s] else []))) = Inr ys \<and> set ys \<subseteq> Some ` set (rest t)"
    if "s \<in> set c" for s
    using that assms(4) p by (auto simp: subset_iff)
  then show ?thesis unfolding options_of_provider_def
    using mapR_concat_bounded [of c "\<lambda>s. bindR (defined s) (\<lambda>o1. bindR (key_of (Some p)) (\<lambda>k.
              Inr (if do_cloudProvider o1 = Some k then [s] else [])))" "Some ` set (rest t)"] by auto
qed

lemma option_is_in_returns: "None \<notin> set c \<Longrightarrow> \<exists>b. optionIsInDropdownOptions c (Some p) = Inr b"
proof -
  assume "None \<notin> set c"
  then have "\<forall>x \<in> set c. bindR (key_of x) (\<lambda>k. bindR (key_of (Some p)) (\<lambda>l. Inr (k = l))) = Inr (do_key (the x) = do_key p)"
    by (metis bindR_simps(2) key_of_Some option.collapse)
  from mapR_total [OF this] show ?thesis by (simp add: optionIsInDropdownOptions_def)
qed

lemma old_selection:
  assumes "selections_ok page rest old" and "t \<in> page_types page"
  obtains c where "map_of old t = Some c" and "selection_ok (ALL_DROPDOWN_FILTER_OPTIONS t) (rest t) c"
    and "set c \<subseteq> Some ` set (ALL_DROPDOWN_FILTER_OPTIONS t # rest t)" and "None \<notin> set c"
proof -
  obtain c where c: "map_of old t = Some c"
    using assms by (metis domD dom_map_of_conv_image_fst list.set_map selections_ok_def)
  then have "selection_ok (ALL_DROPDOWN_FILTER_OPTIONS t) (rest t) c"
    using assms(1) map_of_SomeD [OF c] by (auto simp: selections_ok_def)
  then show ?thesis using that c by (auto simp: selection_ok_def)
qed

lemma cloud_type [simp]: "CLOUD_PROVIDERS \<in> page_types page"
  by (cases page) (simp_all add: page_types_def)

lemma chosen_for_provider_fits:
  assumes "options_ok page providers rest fo" and "selections_ok page rest old" and "t \<in> page_types page"
    and "p \<in> set (rest CLOUD_PROVIDERS)"
  shows "\<exists>r. chosen_for_provider old fo t (Some p) = Inr r \<and> set r \<subseteq> Some ` set (rest t)"
proof -
  obtain ps where ps: "map_of old CLOUD_PROVIDERS = Some ps" "None \<notin> set ps"
    using old_selection [OF assms(2) cloud_type] by metis
  obtain b where b: "optionIsInDropdownOptions ps (Some p) = Inr b" using option_is_in_returns [OF ps(2)] by blast
  obtain c where c: "map_of old t = Some c" "set c \<subseteq> Some ` set (ALL_DROPDOWN_FILTER_OPTIONS t # rest t)"
    using old_selection [OF assms(2,3)] by metis
  have os: "map_of fo t = Some (ALL_DROPDOWN_FILTER_OPTIONS t # rest t)" using assms(1,3) by (simp add: options_ok_def)
  have "set (map Some (ALL_DROPDOWN_FILTER_OPTIONS t # rest t)) \<subseteq> Some ` set (ALL_DROPDOWN_FILTER_OPTIONS t # rest t)"
    by auto
  note all = options_of_provider_fit [OF assms(1,3,4) this]
  show ?thesis
    unfolding chosen_for_provider_def ps(1) defined_Some bindR_simps b c(1) os
    using options_of_provider_fit [OF assms(1,3,4) c(2)] all by simp
qed

lemma chosen_for_providers_fit:
  assumes "options_ok page providers rest fo" and "selections_ok page rest old" and "t \<in> page_types page"
    and "fits (rest CLOUD_PROVIDERS) ps"
  shows "\<exists>r. chosen_for_providers old fo t ps = Inr r \<and> fits (rest t) r"
proof -
  have "\<forall>x \<in> set ps. \<exists>r. chosen_for_provider old fo t x = Inr r \<and> set r \<subseteq> Some ` set (rest t)"
    using chosen_for_provider_fits [OF assms(1-3)] assms(4) by (auto simp: fits_def subset_iff)
  from mapR_concat_bounded [OF this] show ?thesis
    by (auto simp: chosen_for_providers_def fits_def set_first_occurrences distinct_first_occurrences)
qed

lemma services_for_provider_fit:
  assumes "options_ok page providers rest fo" and "selections_ok page rest old" and "SERVICES \<in> page_types page"
    and "p \<in> set (rest CLOUD_PROVIDERS)"
  shows "\<exists>r. services_for_provider old fo (Some p) = Inr r \<and> set r \<subseteq> Some ` set (rest SERVICES)"
proof -
  let ?all = "ALL_DROPDOWN_FILTER_OPTIONS SERVICES"
  let ?keys = "map do_key (filter (\<lambda>s. do_cloudProvider s = Some (do_key p)) (?all # rest SERVICES))"
  obtain ps where ps: "map_of old CLOUD_PROVIDERS = Some ps" "None \<notin> set ps"
    using old_selection [OF assms(2) cloud_type] by metis
  obtain b where b: "optionIsInDropdownOptions ps (Some p) = Inr b" using option_is_in_returns [OF ps(2)] by blast
  obtain c where c: "map_of old SERVICES = Some c" "set c \<subseteq> Some ` set (?all # rest SERVICES)"
    using old_selection [OF assms(2,3)] by metis
  have os: "map_of fo SERVICES = Some (?all # rest SERVICES)" and keys: "\<forall>o1 \<in> set (rest SERVICES). do_key o1 \<noteq> ALL_KEY"
    using assms(1,3) by (simp_all add: options_ok_def)
  have no_all: "k \<noteq> ALL_KEY" if "k \<in> set ?keys" for k using that keys by auto
  have "\<exists>ys. bindR (key_of s) (\<lambda>k. Inr (if k \<in> set ?keys then [s] else [])) = Inr ys \<and> set ys \<subseteq> Some ` set (rest SERVICES)"
    if "s \<in> set c" for s
  proof -
    from that c(2) obtain o1 where o1: "s = Some o1" "o1 = ?all \<or> o1 \<in> set (rest SERVICES)" by auto
    show ?thesis
    proof (cases "do_key o1 \<in> set ?keys")
      case True
      then have "do_key o1 \<noteq> ALL_KEY" by (rule no_all)
      then show ?thesis using o1 True by (simp only: key_of_Some bindR_simps if_True) auto
    next
      case False
      then show ?thesis using o1 by (simp only: key_of_Some bindR_simps if_False) simp
    qed
  qed
  then have kept: "\<exists>ys. mapR (\<lambda>s. bindR (key_of s) (\<lambda>k. Inr (if k \<in> set ?keys then [s] else []))) c = Inr ys
      \<and> set (concat ys) \<subseteq> Some ` set (rest SERVICES)"
    by (intro mapR_concat_bounded) blast
  have "find (\<lambda>s. do_key s = k) (?all # rest SERVICES) \<in> Some ` set (rest SERVICES)" if "k \<in> set ?keys" for k
  proof -
    have "find (\<lambda>s. do_key s = k) (rest SERVICES) \<noteq> None" using that by (auto simp: find_None_iff)
    then obtain o1 where o1: "find (\<lambda>s. do_key s = k) (rest SERVICES) = Some o1" by auto
    then have "o1 \<in> set (rest SERVICES)" by (auto simp: find_Some_iff)
    then show ?thesis using o1 no_all [OF that] by simp
  qed
  then have new: "set (map (\<lambda>k. find (\<lambda>s. do_key s = k) (?all # rest SERVICES)) ?keys) \<subseteq> Some ` set (rest SERVICES)"
    by (simp only: set_map) blast
  show ?thesis
    unfolding services_for_provider_def option.case os ps(1) defined_Some bindR_simps Let_def b c(1)
    using kept new by (cases b) (simp_all only: if_True if_False, auto)
qed

lemma providers_of_services:
  assumes "options_ok page providers rest fo" and "SERVICES \<in> page_types page" and "t \<in> page_types page"
    and "set c \<subseteq> Some ` set (ALL_DROPDOWN_FILTER_OPTIONS t # rest t)"
  shows "\<exists>ps. getCloudProvidersFromServices providers fo c = Inr ps \<and> fits (rest CLOUD_PROVIDERS) ps"
proof -
  have "\<forall>s \<in> set c. key_of s = Inr (do_key (the s))" using assms(4) by auto
  note keys = mapR_total [OF this]
  have os: "map_of fo SERVICES = Some (ALL_DROPDOWN_FILTER_OPTIONS SERVICES # rest SERVICES)"
    using assms(1,2) by (simp add: options_ok_def)
  have "find (\<lambda>p. Some (do_key p) = do_cloudProvider s) providers \<in> Some ` set (rest CLOUD_PROVIDERS)"
    if s: "s \<in> set (rest SERVICES)" for s
  proof -
    obtain p where p: "p \<in> set (rest CLOUD_PROVIDERS)" "do_cloudProvider s = Some (do_key p)"
      using option_provider [OF assms(1,2) _ s] by blast
    obtain q where q: "q \<in> set (rest CLOUD_PROVIDERS)" "find (\<lambda>q. do_key q = do_key p) providers = Some q"
      using find_provider [OF assms(1) p(1)] by blast
    show ?thesis unfolding p(2) option.inject q(2) using q(1) by (rule imageI)
  qed
  then have found: "(\<lambda>s. find (\<lambda>p. Some (do_key p) = do_cloudProvider s) providers) ` {s \<in> set (rest SERVICES). Q s}
      \<subseteq> Some ` set (rest CLOUD_PROVIDERS)" for Q by blast
  have "fits (rest CLOUD_PROVIDERS) (first_occurrences []
      (map (\<lambda>s. find (\<lambda>p. Some (do_key p) = do_cloudProvider s) providers)
        (filter (\<lambda>s. do_key s \<noteq> ALL_KEY \<and> do_key s \<in> K) (ALL_DROPDOWN_FILTER_OPTIONS SERVICES # rest SERVICES))))" for K
    using found [of "\<lambda>s. do_key s \<noteq> ALL_KEY \<and> do_key s \<in> K"]
    by (simp add: fits_def set_first_occurrences distinct_first_occurrences)
  then show ?thesis
    unfolding getCloudProvidersFromServices_def keys os defined_Some bindR_simps by blast
qed

lemma chooser_fits:
  assumes "options_ok page providers rest fo" and "selections_ok page rest old"
    and "used \<in> page_types page" and "t \<in> page_types page" and "t \<noteq> used"
    and "set c \<subseteq> Some ` set (ALL_DROPDOWN_FILTER_OPTIONS used # rest used)"
  shows "\<exists>chooser r. (case page of EmissionsPage \<Rightarrow> emissions_choosers | RecommendationsPage \<Rightarrow> recommendations_choosers)
      providers old fo used t = Some chooser \<and> chooser c = Inr r \<and> fits (rest t) r"
proof -
  obtain ps where ps: "getCloudProvidersFromSelections providers c = Inr ps" "fits (rest CLOUD_PROVIDERS) ps"
    using providers_of_selections [OF assms(1,3,6)] by blast
  have general: "\<exists>r. chooseDropdownFilterOption providers old fo t c = Inr r \<and> fits (rest t) r"
    using chosen_for_providers_fit [OF assms(1,2,4) ps(2)] by (simp add: chooseDropdownFilterOption_def ps(1))
  have cloud: "\<exists>r. chooseProviders providers c = Inr r \<and> fits (rest CLOUD_PROVIDERS) r"
    using ps by (simp add: chooseProviders_def)
  have services: "\<exists>r. chooseServices providers old fo c = Inr r \<and> fits (rest SERVICES) r"
    if "SERVICES \<in> page_types page"
  proof -
    have "\<forall>x \<in> set ps. \<exists>r. services_for_provider old fo x = Inr r \<and> set r \<subseteq> Some ` set (rest SERVICES)"
      using services_for_provider_fit [OF assms(1,2) that] ps(2) by (auto simp: fits_def subset_iff)
    from mapR_concat_bounded [OF this] show ?thesis
      by (auto simp: chooseServices_def ps(1) fits_def set_first_occurrences distinct_first_occurrences)
  qed
  have accounts: "\<exists>r. chooseAccounts providers old fo c = Inr r \<and> fits (rest ACCOUNTS) r"
    if s: "SERVICES \<in> page_types page" and a: "ACCOUNTS \<in> page_types page"
  proof -
    obtain qs where "getCloudProvidersFromServices providers fo c = Inr qs" "fits (rest CLOUD_PROVIDERS) qs"
      using providers_of_services [OF assms(1) s assms(3,6)] by blast
    then show ?thesis using chosen_for_providers_fit [OF assms(1,2) a] by (simp add: chooseAccounts_def)
  qed
  show ?thesis
  proof (cases page)
    case EmissionsPage
    then show ?thesis using assms(3-5) general cloud services accounts
      by (auto simp: page_types_def choosers_defs)
  next
    case RecommendationsPage
    then show ?thesis using assms(3-5) general cloud
      by (auto simp: page_types_def choosers_defs)
  qed
qed

text \<open>The selections that the choosers are given.\<close>

lemma toggled_keys:
  assumes "set c \<subseteq> Some ` set (ALL_DROPDOWN_FILTER_OPTIONS t # rest)" and "\<forall>o1 \<in> set rest. do_key o1 \<noteq> ALL_KEY"
  shows "mapR key_of c = Inr (map (\<lambda>s. do_key (the s)) c)"
    and "ALL_KEY \<in> (\<lambda>s. do_key (the s)) ` set c \<longleftrightarrow> Some (ALL_DROPDOWN_FILTER_OPTIONS t) \<in> set c"
proof -
  have "\<forall>s \<in> set c. key_of s = Inr (do_key (the s))" using assms(1) by auto
  then show "mapR key_of c = Inr (map (\<lambda>s. do_key (the s)) c)" by (rule mapR_total)
  show "ALL_KEY \<in> (\<lambda>s. do_key (the s)) ` set c \<longleftrightarrow> Some (ALL_DROPDOWN_FILTER_OPTIONS t) \<in> set c"
  proof
    assume "ALL_KEY \<in> (\<lambda>s. do_key (the s)) ` set c"
    then obtain s where "s \<in> set c" "do_key (the s) = ALL_KEY" by auto
    then show "Some (ALL_DROPDOWN_FILTER_OPTIONS t) \<in> set c" using assms by fastforce
  next
    assume "Some (ALL_DROPDOWN_FILTER_OPTIONS t) \<in> set c"
    then show "ALL_KEY \<in> (\<lambda>s. do_key (the s)) ` set c" by (metis all_option_simps(1) imageI option.sel)
  qed
qed

lemma toggled_distinct:
  "selection_ok all rest old \<Longrightarrow> toggled (all # rest) old new \<Longrightarrow> distinct new \<and> set new \<subseteq> Some ` set (all # rest)"
  unfolding selection_ok_def toggled_def by (auto dest: notin_set_remove1 set_remove1_subset [THEN subsetD])


lemma toggled_cases:
  assumes "selection_ok all rest old" and "toggled (all # rest) old new" and "distinct (all # rest)"
  obtains (all) "Some all \<in> set new \<or> length new = length rest" and "Some all \<notin> set old"
  | (none) "Some all \<notin> set new" and "Some all \<in> set old"
  | (less) "Some all \<in> set new" and "Some all \<in> set old" and "length new = length rest"
  | (some) "Some all \<notin> set new" and "Some all \<notin> set old" and "length new \<noteq> length rest"
proof -
  have "length new = length rest" if "Some all \<in> set new" "Some all \<in> set old"
  proof -
    have full: "set old = Some ` set (all # rest)" using assms(1) that(2) by (simp only: selection_ok_def)
    then have "length old = Suc (length rest)"
      using assms(1,3) distinct_card [of old] distinct_card [of "map Some (all # rest)"]
      by (simp add: selection_ok_def distinct_map image_iff)
    moreover obtain o1 where "Some o1 \<in> set old" "new = remove1 (Some o1) old"
      using assms(2) full by (auto simp: toggled_def)
    ultimately show ?thesis by (simp add: length_remove1)
  qed
  then show thesis using all none less some by blast
qed

text \<open>The chosen selections of one dropdown.\<close>

lemma current_option_ok:
  assumes "options_ok page providers rest fo" and "t \<in> page_types page"
    and "c = map Some (ALL_DROPDOWN_FILTER_OPTIONS t # rest t) \<or> fits (rest t) c"
  shows "\<exists>r. bindR (chooseCurrentFilterOption c) (\<lambda>chosen. addAllDropDownOptions fo chosen t) = Inr r
    \<and> selection_ok (ALL_DROPDOWN_FILTER_OPTIONS t) (rest t) r"
  using assms(3)
proof
  assume c: "c = map Some (ALL_DROPDOWN_FILTER_OPTIONS t # rest t)"
  have os: "map_of fo t = Some (ALL_DROPDOWN_FILTER_OPTIONS t # rest t)" and "distinct (rest t)"
    using assms(1,2) by (simp_all add: options_ok_def)
  then have d: "distinct c" using all_not_in_rest [OF assms(1,2)] by (simp add: c distinct_map image_iff)
  then have "chooseCurrentFilterOption c = Inr c"
    by (simp add: chooseCurrentFilterOption_def first_occurrences_distinct)
  moreover have "addAllDropDownOptions fo c t = Inr c" by (simp add: addAllDropDownOptions_def os c)
  moreover have "selection_ok (ALL_DROPDOWN_FILTER_OPTIONS t) (rest t) c" using d by (auto simp: selection_ok_def c)
  ultimately show ?thesis by simp
next
  assume c: "fits (rest t) c"
  then have "chooseCurrentFilterOption c = Inr c"
    by (simp add: chooseCurrentFilterOption_def first_occurrences_distinct fits_def)
  then show ?thesis using add_all_ok [OF assms(1,2) c] by simp
qed

lemma chosen_option_ok:
  assumes "options_ok page providers rest fo" and "selections_ok page rest old"
    and "used \<in> page_types page" and "t \<in> page_types page"
    and "c = map Some (ALL_DROPDOWN_FILTER_OPTIONS used # rest used) \<or> fits (rest used) c"
    and "createOptionChooser page providers used new old fo = Inr C"
  shows "\<exists>r. chosen_option C c t = Inr (t, r) \<and> selection_ok (ALL_DROPDOWN_FILTER_OPTIONS t) (rest t) r"
proof -
  have C: "oc_filterOptions C = fo" "oc_choosers C = (case page of EmissionsPage \<Rightarrow> emissions_choosers
      | RecommendationsPage \<Rightarrow> recommendations_choosers) providers old fo used"
    using assms(6) by (auto simp: createOptionChooser_def bindR_eq_Inr_iff split: if_splits)
  show ?thesis
  proof (cases "t = used")
    case True
    have "oc_choosers C t = Some chooseCurrentFilterOption"
      using assms(3) by (cases page) (auto simp: C True page_types_def choosers_defs)
    moreover obtain r where "bindR (chooseCurrentFilterOption c) (\<lambda>chosen. addAllDropDownOptions fo chosen t) = Inr r"
      "selection_ok (ALL_DROPDOWN_FILTER_OPTIONS t) (rest t) r"
      using current_option_ok [OF assms(1,4), of c] assms(5) True by blast
    ultimately show ?thesis by (auto simp: chosen_option_def C(1) bindR_eq_Inr_iff)
  next
    case False
    have "set c \<subseteq> Some ` set (ALL_DROPDOWN_FILTER_OPTIONS used # rest used)" using assms(5) by (auto simp: fits_def)
    then obtain chooser r where "oc_choosers C t = Some chooser" "chooser c = Inr r" "fits (rest t) r"
      using chooser_fits [OF assms(1-4) False] unfolding C by blast
    moreover obtain r' where "addAllDropDownOptions fo r t = Inr r'"
      "selection_ok (ALL_DROPDOWN_FILTER_OPTIONS t) (rest t) r'"
      using add_all_ok [OF assms(1,4) calculation(3)] by blast
    ultimately show ?thesis by (simp add: chosen_option_def C(1))
  qed
qed


lemma mapR_keyed:
  assumes "\<forall>t \<in> set ts. \<exists>r. f t = Inr (t, r) \<and> Q t r"
  shows "\<exists>d. mapR f ts = Inr d \<and> map fst d = ts \<and> (\<forall>(t, r) \<in> set d. Q t r)"
  using assms
proof (induction ts)
  case (Cons t ts)
  then obtain r d where "f t = Inr (t, r)" "Q t r" "mapR f ts = Inr d" "map fst d = ts" "\<forall>(t, r) \<in> set d. Q t r"
    by auto
  then show ?case by (intro exI [of _ "(t, r) # d"]) simp
qed simp

lemma chosen_options_ok:
  assumes "options_ok page providers rest fo" and "selections_ok page rest old"
    and "used \<in> page_types page"
    and "c = map Some (ALL_DROPDOWN_FILTER_OPTIONS used # rest used) \<or> fits (rest used) c"
    and "createOptionChooser page providers used new old fo = Inr C"
  shows "\<exists>d. mapR (chosen_option C c) (map fst old) = Inr d \<and> selections_ok page rest d"
proof -
  have "\<forall>t \<in> set (map fst old). \<exists>r. chosen_option C c t = Inr (t, r)
      \<and> selection_ok (ALL_DROPDOWN_FILTER_OPTIONS t) (rest t) r"
    using chosen_option_ok [OF assms(1-3) _ assms(4,5)] assms(2) by (simp add: selections_ok_def)
  from mapR_keyed [OF this]
  obtain d where "mapR (chosen_option C c) (map fst old) = Inr d" "map fst d = map fst old"
    "\<forall>(t, r) \<in> set d. selection_ok (ALL_DROPDOWN_FILTER_OPTIONS t) (rest t) r" by blast
  then show ?thesis using assms(2) by (intro exI [of _ d]) (simp only: selections_ok_def simp_thms)
qed

lemma dropdown_keeps_selections:
  assumes "options_ok page providers rest fo" and "selections_ok page rest (fl_options F)"
    and "used \<in> page_types page" and "map_of (fl_options F) used = Some before"
    and "toggled (ALL_DROPDOWN_FILTER_OPTIONS used # rest used) before c"
  shows "\<exists>d. withDropdownOption page providers F c fo used = Inr (F\<lparr>fl_options := d\<rparr>) \<and> selections_ok page rest d"
proof -
  let ?all = "ALL_DROPDOWN_FILTER_OPTIONS used"
  let ?old = "fl_options F"
  have os: "map_of fo used = Some (?all # rest used)" "\<forall>o1 \<in> set (rest used). do_key o1 \<noteq> ALL_KEY"
    and distinct_options: "distinct (?all # rest used)"
    using assms(1,3) all_not_in_rest [OF assms(1,3)] by (simp_all add: options_ok_def)
  have before: "selection_ok ?all (rest used) before" "set before \<subseteq> Some ` set (?all # rest used)"
    using old_selection [OF assms(2,3)] assms(4) by (metis option.inject)+
  have new: "distinct c" "set c \<subseteq> Some ` set (?all # rest used)"
    using toggled_distinct [OF before(1) assms(5)] by simp_all
  obtain C where C: "createOptionChooser page providers used c ?old fo = Inr C"
    "oc_filterType C = used" "oc_allOptions C = ?all # rest used" "oc_selections C = c" "oc_oldSelections C = ?old"
    using assms(1,3) os(1) by (cases page) (auto simp: createOptionChooser_def page_types_def options_ok_def)
  note keys = toggled_keys [OF new(2) os(2)] toggled_keys [OF before(2) os(2)]
  have chosen: "\<exists>d. mapR (chosen_option C c') (map fst ?old) = Inr d \<and> selections_ok page rest d"
    if "c' = map Some (?all # rest used) \<or> fits (rest used) c'" for c'
    using chosen_options_ok [OF assms(1-3) that C(1)] .
  have fits: "fits (rest used) c" if "Some ?all \<notin> set c" using new that by (auto simp: fits_def)
  have without: "fits (rest used) (filter (\<lambda>s. map_option do_key s \<noteq> Some ALL_KEY) c)"
    using new os(2) by (auto simp: fits_def)
  have choose: "\<exists>d. OptionChooser_choose C = Inr d \<and> selections_ok page rest d"
    using before(1) assms(5) distinct_options
  proof (cases rule: toggled_cases)
    case all
    then show ?thesis using chosen [of "map Some (?all # rest used)"]
      by (simp add: OptionChooser_choose_def C assms(4) keys)
  next
    case none
    have "selection_ok (ALL_DROPDOWN_FILTER_OPTIONS t) (rest t) []" for t by (simp add: selection_ok_def)
    then have "selections_ok page rest (map (\<lambda>option. (option, [])) (map fst ?old))"
      using assms(2) by (auto simp: selections_ok_def comp_def)
    then show ?thesis using none by (simp add: OptionChooser_choose_def C assms(4) keys comp_def)
  next
    case less
    then show ?thesis using chosen [OF disjI2, OF without]
      by (simp add: OptionChooser_choose_def C assms(4) keys)
  next
    case some
    then show ?thesis using chosen [OF disjI2, OF fits] by (simp add: OptionChooser_choose_def C assms(4) keys)
  qed
  then show ?thesis by (auto simp: withDropdownOption_def C(1))
qed


text \<open>The filters that a user reaches: from the results of the page, by the dropdowns, the time frames and the dates.\<close>

definition offered :: "filter_page \<Rightarrow> (DropdownFilterOptions \<Rightarrow> DropdownOption list) \<Rightarrow> FilterOptions \<Rightarrow> bool" where
  "offered page rest new \<longleftrightarrow>
     distinct (map fst new) \<and> set (map fst new) = page_types page - {CLOUD_PROVIDERS}
     \<and> (\<forall>(t, os) \<in> set new. distinct os \<and> set os = set (rest t))"

inductive filters_reachable ::
    "filter_page \<Rightarrow> DropdownOption list \<Rightarrow> (DropdownFilterOptions \<Rightarrow> DropdownOption list) \<Rightarrow> FilterOptions \<Rightarrow> Filters \<Rightarrow> bool"
  for page providers rest fo where
  start: "offered page rest new \<Longrightarrow>
    filters_reachable page providers rest fo (Filters_generateConfig new (filters_defaultConfig page providers))"
| dropdown: "filters_reachable page providers rest fo F \<Longrightarrow> t \<in> page_types page \<Longrightarrow>
    map_of (fl_options F) t = Some before \<Longrightarrow> toggled (ALL_DROPDOWN_FILTER_OPTIONS t # rest t) before c \<Longrightarrow>
    withDropdownOption page providers F c fo t = Inr F' \<Longrightarrow> filters_reachable page providers rest fo F'"
| time_frame: "filters_reachable page providers rest fo F \<Longrightarrow> filters_reachable page providers rest fo (withTimeFrame F n)"
| date_range: "filters_reachable page providers rest fo F \<Longrightarrow> filters_reachable page providers rest fo (withDateRange F r)"

definition generated :: "DropdownSelections \<Rightarrow> FilterOptions \<Rightarrow> DropdownSelections" where
  "generated = foldl (\<lambda>options (option, os). obj_set options option (map Some (ALL_DROPDOWN_FILTER_OPTIONS option # os)))"

lemma generated_simps [simp]:
  "generated d [] = d"
  "generated d ((t, os) # new) = generated (obj_set d t (map Some (ALL_DROPDOWN_FILTER_OPTIONS t # os))) new"
  by (simp_all add: generated_def)

lemma generated_keys:
  "distinct (map fst d) \<Longrightarrow> distinct (map fst (generated d new))"
  "set (map fst (generated d new)) = set (map fst d) \<union> set (map fst new)"
proof (induction new arbitrary: d)
  case (Cons n new)
  { case 1 then show ?case using Cons.IH(1) by (cases n) (simp add: distinct_update) }
  { case 2 show ?case by (cases n) (simp only: generated_simps Cons.IH(2) update_keys, auto) }
qed simp_all

lemma generated_get:
  "distinct (map fst new) \<Longrightarrow> map_of (generated d new) t =
    (case map_of new t of Some os \<Rightarrow> Some (map Some (ALL_DROPDOWN_FILTER_OPTIONS t # os)) | None \<Rightarrow> map_of d t)"
proof (induction new arbitrary: d)
  case (Cons n new)
  obtain option os where n: "n = (option, os)" by (cases n)
  have "map_of new option = None" using Cons.prems by (simp add: n map_of_eq_None_iff)
  then show ?case using Cons by (auto simp: n obj_get_set split: option.split)
qed simp

lemma start_ok:
  assumes "options_ok page providers rest fo" and "offered page rest new"
  shows "selections_ok page rest (fl_options (Filters_generateConfig new (filters_defaultConfig page providers)))"
proof -
  let ?d = "fl_options (filters_defaultConfig page providers)"
  let ?g = "fl_options (Filters_generateConfig new (filters_defaultConfig page providers))"
  have keys: "distinct (map fst ?d)" "set (map fst ?d) = page_types page"
    "map_of ?d CLOUD_PROVIDERS = Some (map Some providers)"
    by (cases page; auto simp: filters_defaultConfig_def emissions_defaultConfig_def recommendations_defaultConfig_def
        page_types_def)+
  have new: "distinct (map fst new)" "set (map fst new) = page_types page - {CLOUD_PROVIDERS}"
    "\<forall>(t, os) \<in> set new. distinct os \<and> set os = set (rest t)"
    using assms(2) unfolding offered_def by blast+
  have g: "?g = generated ?d new" by (simp add: Filters_generateConfig_def generated_def)
  have "set (map fst ?g) = page_types page \<union> (page_types page - {CLOUD_PROVIDERS})"
    unfolding g generated_keys(2) keys(2) new(2) ..
  then have g1: "distinct (map fst ?g)" "set (map fst ?g) = page_types page"
    unfolding g using generated_keys(1) [OF keys(1)] by auto
  have "selection_ok (ALL_DROPDOWN_FILTER_OPTIONS t) (rest t) c" if "(t, c) \<in> set ?g" for t c
  proof -
    have t: "t \<in> page_types page" using that g1(2) by force
    have c: "map_of ?g t = Some c" using that g1(1) by simp
    have "\<exists>os. c = map Some (ALL_DROPDOWN_FILTER_OPTIONS t # os) \<and> distinct os \<and> set os = set (rest t)"
    proof (cases "t = CLOUD_PROVIDERS")
      case True
      then have "map_of new t = None" using new(2) by (simp add: map_of_eq_None_iff flip: set_map)
      then have "c = map Some providers" using c keys(3) by (simp add: g generated_get [OF new(1)] True)
      then show ?thesis using assms(1) by (auto simp: True options_ok_def providers_ok_def)
    next
      case False
      then have "t \<in> set (map fst new)" using t new(2) by blast
      then obtain os where os: "map_of new t = Some os" by (metis domD dom_map_of_conv_image_fst list.set_map)
      then have "distinct os \<and> set os = set (rest t)" using new(3) map_of_SomeD [OF os] by auto
      then show ?thesis using c os by (auto simp: g generated_get [OF new(1)])
    qed
    then show ?thesis using all_not_in_rest [OF assms(1) t] by (auto simp: selection_ok_def distinct_map)
  qed
  then show ?thesis using g1 by (simp only: selections_ok_def) blast
qed

lemma reachable_selections_ok:
  assumes "options_ok page providers rest fo" and "filters_reachable page providers rest fo F"
  shows "selections_ok page rest (fl_options F)"
  using assms(2)
proof induction
  case (start new)
  then show ?case using start_ok [OF assms(1)] by simp
next
  case (dropdown F t before c F')
  then show ?case using dropdown_keeps_selections [OF assms(1)] by fastforce
qed (simp_all add: withTimeFrame_def withDateRange_def)

end
