(* ===== verification/Client_Properties.thy ===== *)
theory Client_Properties
  imports Client_Filters "HOL-Library.Multiset"
begin

text \<open>
  What the dashboard shows is what the server answered: the pages are collected, the totals and series are those of
  the estimates, rounding keeps the leading digits, and the bars are cut into pages. Two of the helpers drop data.
\<close>

section \<open>Collecting the pages\<close>

lemma all_services_simps [simp]:
  "all_services [] = []" "all_services (r # rs) = cl_services r @ all_services rs"
  "all_services (rs @ ss) = all_services rs @ all_services ss"
  by (simp_all add: all_services_def)

lemma add_services_keeps_dates [simp]: "map cl_timestamp (add_services rs new) = map cl_timestamp rs"
  by (induction rs) simp_all

lemma mset_add_services:
  "cl_timestamp new \<in> set (map cl_timestamp rs) \<Longrightarrow>
   mset (all_services (add_services rs new)) = mset (all_services rs) + mset (cl_services new)"
  by (induction rs) auto

lemma dates_of_add_result:
  "set (map cl_timestamp rs) \<subseteq> set (map cl_timestamp (add_result ds rs new))"
  by (simp add: add_result_def flip: set_map) auto

lemma mset_add_result:
  "set ds \<subseteq> set (map cl_timestamp rs) \<Longrightarrow>
   mset (all_services (add_result ds rs new)) = mset (all_services rs) + mset (cl_services new)"
  unfolding add_result_def by (cases "cl_timestamp new \<in> set ds") (auto simp: mset_add_services)

lemma mset_add_results:
  "set ds \<subseteq> set (map cl_timestamp rs) \<Longrightarrow>
   mset (all_services (foldl (add_result ds) rs new)) = mset (all_services rs) + mset (all_services new)"
proof (induction new arbitrary: rs)
  case (Cons r new)
  have "set ds \<subseteq> set (map cl_timestamp (add_result ds rs r))"
    using Cons.prems dates_of_add_result by (rule subset_trans)
  then show ?case using Cons.IH [of "add_result ds rs r"] mset_add_result [OF Cons.prems, of r] by simp
qed simp

lemma add_result_nonempty: "rs \<noteq> [] \<Longrightarrow> add_result ds rs r \<noteq> []"
  using dates_of_add_result [of rs ds r] by (cases rs) auto

lemma add_results_nonempty: "rs \<noteq> [] \<Longrightarrow> foldl (add_result ds) rs new \<noteq> []"
  by (induction new arbitrary: rs) (simp_all add: add_result_nonempty)

text \<open>The last service of a page differs from the services that are already there.\<close>

definition new_page :: "client_result list \<Rightarrow> client_service list \<Rightarrow> bool" where
  "new_page page old \<longleftrightarrow>
     page \<noteq> [] \<and> cl_services (last page) \<noteq> []
     \<and> list_all (\<lambda>s. \<not> same_service (last (cl_services (last page))) s) old"

fun new_pages :: "client_service list \<Rightarrow> client_result list list \<Rightarrow> bool" where
  "new_pages old [] \<longleftrightarrow> True"
| "new_pages old (page # pages) \<longleftrightarrow> new_page page old \<and> new_pages (old @ all_services page) pages"

lemma last_service_in: "rs \<noteq> [] \<Longrightarrow> last_service rs = Some s \<Longrightarrow> s \<in> set (all_services rs)"
  by (induction rs rule: rev_induct) (auto simp: last_service_def Let_def split: if_splits)

lemma new_page_not_equal:
  assumes "new_page page old" and "set (all_services es) \<subseteq> set old" and "es \<noteq> []"
  shows "\<not> equal_objects (last_service page) (last_service es)"
proof (cases "last_service es")
  case None
  then show ?thesis using assms(1) by (simp add: new_page_def last_service_def equal_objects_def)
next
  case (Some s)
  then have "s \<in> set old" using assms(2,3) last_service_in by blast
  then show ?thesis using assms(1) Some
    by (simp add: new_page_def last_service_def equal_objects_def list_all_iff)
qed

lemma new_page_not_stopped:
  "new_page page old \<Longrightarrow> set (all_services es) \<subseteq> set old \<Longrightarrow> \<not> checkForEqualObjects (Some page) es"
  using new_page_not_equal [of page old es] by (auto simp: checkForEqualObjects_def new_page_def)

lemma concatenate_new_page:
  assumes "new_page page old" and "set (all_services es) \<subseteq> set old"
  obtains es' where "concatenateResults es (Some page) = Some es'" and "es' \<noteq> []"
    and "mset (all_services es') = mset (all_services es) + mset (all_services page)"
proof (cases "es = []")
  case True
  then show ?thesis using that [of page] assms(1) by (simp add: concatenateResults_def new_page_def)
next
  case False
  then show ?thesis
    using that [of "foldl (add_result (map cl_timestamp es)) es page"] assms new_page_not_stopped [OF assms]
    by (simp add: concatenateResults_def new_page_def add_results_nonempty mset_add_results)
qed

text \<open>The pages of a server, and an empty answer from there on.\<close>

definition server_pages :: "nat \<Rightarrow> client_result list list \<Rightarrow> page_request" where
  "server_pages limit pages skip =
     Some (Inr (Some (case find (\<lambda>n. skip = Fin (of_nat (n * limit))) [0..<length pages] of
                        None \<Rightarrow> []
                      | Some n \<Rightarrow> pages ! n)))"

lemma find_upt_page:
  assumes "0 < limit" and "n < len"
  shows "find (\<lambda>m. Fin (of_nat (n * limit)) = Fin (of_nat (m * limit))) [0..<len] = Some n"
proof -
  have eq: "Fin (of_nat (n * limit)) = Fin (of_nat (m * limit)) \<longleftrightarrow> m = n" for m
    using assms(1) by (simp del: of_nat_mult) auto
  show ?thesis unfolding eq find_Some_iff using assms(2) by (intro exI [of _ n]) auto
qed

lemma server_page:
  assumes "0 < limit" and "n < length pages"
  shows "server_pages limit pages (Fin (of_nat (n * limit))) = Some (Inr (Some (pages ! n)))"
  unfolding server_pages_def find_upt_page [OF assms] by simp

lemma server_no_page:
  assumes "0 < limit"
  shows "server_pages limit pages (Fin (of_nat (length pages * limit))) = Some (Inr (Some []))"
proof -
  have "find (\<lambda>n. Fin (of_nat (length pages * limit)) = Fin (of_nat (n * limit))) [0..<length pages] = None"
    using assms by (auto simp: find_None_iff simp del: of_nat_mult)
  then show ?thesis unfolding server_pages_def by simp
qed

lemma fetch_pages_collects:
  assumes "\<not> fp_ignoreCache P" and "fp_limit P = Some (Fin (of_nat limit))" and "0 < limit"
    and "new_pages old (drop n pages)" and "n \<le> length pages" and "set (all_services es) \<subseteq> set old"
    and "es = [] \<longrightarrow> n < length pages"
  shows "\<exists>es'. fetch_pages P (server_pages limit pages) (Fin (of_nat (n * limit))) es = Some (Some es', None)
    \<and> mset (all_services es') = mset (all_services es) + mset (concat (map all_services (drop n pages)))"
  using assms(4-7)
proof (induction "length pages - n" arbitrary: n es old)
  case 0
  then have n: "n = length pages" and es: "es \<noteq> []" by auto
  have "concatenateResults es (Some []) = Some es" using es by (simp add: concatenateResults_def)
  moreover have "checkForLoopExit (Some []) P es = 0" by (simp add: checkForLoopExit_def)
  ultimately show ?case
    unfolding n fetch_pages.simps [of P _ _ es] server_no_page [OF assms(3)] by simp
next
  case (Suc k)
  then have n: "n < length pages" by simp
  then have pages: "drop n pages = pages ! n # drop (Suc n) pages" by (simp add: Cons_nth_drop_Suc)
  then have page: "new_page (pages ! n) old"
    and rest: "new_pages (old @ all_services (pages ! n)) (drop (Suc n) pages)"
    using Suc.prems(1) by simp_all
  obtain es' where es': "concatenateResults es (Some (pages ! n)) = Some es'" "es' \<noteq> []"
      "mset (all_services es') = mset (all_services es) + mset (all_services (pages ! n))"
    using concatenate_new_page [OF page Suc.prems(3)] by blast
  have go: "0 < checkForLoopExit (Some (pages ! n)) P es"
    using page assms(1) new_page_not_stopped [OF page Suc.prems(3)] by (auto simp: checkForLoopExit_def new_page_def)
  have skip: "rat_of_nat (n * limit) + rat_of_nat limit = rat_of_nat (Suc n * limit)"
    by (simp add: algebra_simps)
  have subset: "set (all_services es') \<subseteq> set (old @ all_services (pages ! n))"
    using Suc.prems(3) es'(3) by (metis mset_append set_mset_mset set_append sup.mono order_refl)
  have k: "k = length pages - Suc n" using Suc.hyps(2) by simp
  obtain es'' where "fetch_pages P (server_pages limit pages) (Fin (of_nat (Suc n * limit))) es' = Some (Some es'', None)"
      "mset (all_services es'') = mset (all_services es') + mset (concat (map all_services (drop (Suc n) pages)))"
    using Suc.hyps(1) [OF k rest _ subset] n es'(2) by auto
  then show ?case
    unfolding fetch_pages.simps [of P _ _ es] server_page [OF assms(3) n]
    using es' go pages by (simp add: assms(2) skip del: of_nat_mult of_nat_Suc mult_Suc)
qed

text \<open>
  C22. The dashboard shows what the server has. When the pages are fetched with a limit and from the cache, and the
  last service of each page differs from the services before it, the loop over the pages ends without an error and
  what it shows has the services of all pages, each as often as the server sent it.
\<close>

theorem dashboard_collects_every_page:
  assumes "\<not> fp_ignoreCache P" and "fp_limit P = Some (Fin (of_nat limit))" and "0 < limit"
    and "new_pages [] pages" and "pages \<noteq> []"
    and "baseUrl = Some (c # url)"
  shows "\<exists>es. fetchEstimates baseUrl True P (server_pages limit pages) [] = Some (Some es, None)
    \<and> mset (all_services es) = mset (concat (map all_services pages))"
  using fetch_pages_collects [OF assms(1-3), of "[]" 0 pages "[]"] assms(4-6)
  by (simp add: fetchEstimates_def flip: zero_jsnum_def)

definition dashboard_service :: "string \<Rightarrow> jsnum \<Rightarrow> client_service" where
  "dashboard_service name co2e =
     \<lparr>cs_cloudProvider = Some ''AWS'', cs_accountId = Some ''1'', cs_accountName = None, cs_serviceName = Some name,
      cs_region = Some ''us-east-1'', cs_kilowattHours = 1, cs_co2e = co2e, cs_cost = 1,
      cs_usesAverageCPUConstant = None, cs_tags = None\<rparr>"

definition dashboard_page :: "date \<Rightarrow> client_service list \<Rightarrow> client_result list" where
  "dashboard_page t ss = [\<lparr>cl_timestamp = t, cl_services = ss, cl_period = (None, None), cl_groupBy = day\<rparr>]"

lemmas client_samples =
  dashboard_service_def dashboard_page_def new_page_def same_service_def equal_objects_def last_service_def

theorem dashboard_collects_every_page_witness:
  "\<exists>es. fetchEstimates (Some ''/api'') True \<lparr>fp_ignoreCache = False, fp_limit = Some (Fin (of_nat 50))\<rparr>
      (server_pages 50 [dashboard_page 0 [dashboard_service ''ebs'' 1], dashboard_page 0 [dashboard_service ''ec2'' 2]]) []
      = Some (Some es, None)
    \<and> mset (all_services es) =
        mset (concat (map all_services [dashboard_page 0 [dashboard_service ''ebs'' 1], dashboard_page 0 [dashboard_service ''ec2'' 2]]))"
  by (rule dashboard_collects_every_page) (simp_all add: client_samples)



section \<open>Rounding\<close>

lemma natural_text_bounds:
  "n < 10 ^ length (natural_text n)" "0 < n \<Longrightarrow> 10 ^ (length (natural_text n) - 1) \<le> n"
proof (induction n rule: natural_text.induct)
  case (1 n)
  { case 1
    show ?case
    proof (cases "n < 10")
      case False
      then have "n div 10 < 10 ^ length (natural_text (n div 10))" using "1.IH" by simp
      then show ?thesis using False by (subst natural_text.simps) simp
    qed (subst natural_text.simps, simp)
  next
    case 2
    show ?case
    proof (cases "n < 10")
      case True
      then show ?thesis using 2 by (subst natural_text.simps) simp
    next
      case False
      obtain k where k: "length (natural_text (n div 10)) = Suc k"
        by (cases "length (natural_text (n div 10))") simp_all
      have "10 ^ k \<le> n div 10" using "1.IH" False k by simp
      then have "10 ^ Suc k \<le> n" by simp
      then show ?thesis using False k by (subst natural_text.simps) simp
    qed
  }
qed

lemma scale10_powi: "scale10 m e = m * 10 powi e"
proof (cases "0 \<le> e")
  case True
  then show ?thesis by (simp add: scale10_def power_int_def)
next
  case False
  then show ?thesis by (simp only: scale10_def power_int_def if_False divide_inverse power_inverse)
qed

lemma scale10_minus: "scale10 m (- e) = m / 10 powi e"
  unfolding scale10_powi power_int_minus by (rule divide_inverse [symmetric])

lemma powi_exponent10_le: "0 < x \<Longrightarrow> 10 powi exponent10 x \<le> x"
proof -
  assume x: "0 < x"
  show ?thesis
  proof (cases "1 \<le> x")
    case True
    let ?n = "nat \<lfloor>x\<rfloor>"
    have "0 < ?n" using True by simp
    then have "10 ^ (length (natural_text ?n) - 1) \<le> ?n" by (rule natural_text_bounds)
    then have "rat_of_nat (10 ^ (length (natural_text ?n) - 1)) \<le> of_nat ?n" by (simp only: of_nat_le_iff)
    also have "\<dots> \<le> x" using x by simp
    finally have "10 ^ (length (natural_text ?n) - 1) \<le> x" by simp
    moreover have "10 powi exponent10 x = (10 :: rat) ^ (length (natural_text ?n) - 1)"
      using True by (simp add: exponent10_def power_int_def nat_diff_distrib)
    ultimately show ?thesis by simp
  next
    case False
    let ?n = "nat (\<lceil>1 / x\<rceil> - 1)"
    have one: "1 < 1 / x" using False x by (simp add: field_simps)
    then have pos: "1 < \<lceil>1 / x\<rceil>" by (simp add: less_ceiling_iff)
    have "Suc ?n \<le> 10 ^ length (natural_text ?n)" using natural_text_bounds(1) [of ?n] by (rule Suc_leI)
    then have "rat_of_nat (Suc ?n) \<le> of_nat (10 ^ length (natural_text ?n))" by (simp only: of_nat_le_iff)
    then have bound: "rat_of_nat (Suc ?n) \<le> 10 ^ length (natural_text ?n)" by (simp only: of_nat_power of_nat_numeral)
    have "int (Suc ?n) = \<lceil>1 / x\<rceil>" using pos by linarith
    then have "rat_of_nat (Suc ?n) = of_int \<lceil>1 / x\<rceil>" by (metis of_int_of_nat_eq)
    then have "1 / x \<le> rat_of_nat (Suc ?n)" using le_of_int_ceiling [of "1 / x"] by (simp only:)
    then have "1 / x \<le> 10 ^ length (natural_text ?n)" using bound by (rule order_trans)
    then have "inverse (10 ^ length (natural_text ?n)) \<le> x" using x by (simp add: field_simps)
    then show ?thesis using False by (simp add: exponent10_def power_int_minus)
  qed
qed

lemma round_to_unit: "0 < u \<Longrightarrow> \<bar>of_int \<lfloor>y / u + 1 / 2\<rfloor> * u - y\<bar> \<le> u / 2" for u y :: rat
proof -
  assume u: "0 < u"
  have "\<bar>of_int \<lfloor>y / u + 1 / 2\<rfloor> - y / u\<bar> \<le> 1 / 2" by linarith
  then have "\<bar>of_int \<lfloor>y / u + 1 / 2\<rfloor> - y / u\<bar> * u \<le> 1 / 2 * u" using u by (intro mult_right_mono) simp_all
  moreover have "\<bar>of_int \<lfloor>y / u + 1 / 2\<rfloor> - y / u\<bar> * u = \<bar>of_int \<lfloor>y / u + 1 / 2\<rfloor> * u - y\<bar>"
    using u by (simp add: abs_mult_pos left_diff_distrib less_imp_le)
  ultimately show ?thesis by simp
qed

lemma round_significant_near:
  assumes "0 < digits"
  shows "\<bar>round_significant digits x - x\<bar> \<le> \<bar>x\<bar> * 5 / 10 ^ digits"
proof (cases "x = 0")
  case False
  let ?e = "exponent10 \<bar>x\<bar> - int digits + 1"
  let ?u = "10 powi ?e :: rat"
  have u: "0 < ?u" by simp
  have r: "round_significant digits x = (if x < 0 then -1 else 1) * (of_int \<lfloor>\<bar>x\<bar> / ?u + 1 / 2\<rfloor> * ?u)"
    using False unfolding round_significant_def Let_def scale10_minus unfolding scale10_powi by simp
  have "\<bar>round_significant digits x - x\<bar> = \<bar>of_int \<lfloor>\<bar>x\<bar> / ?u + 1 / 2\<rfloor> * ?u - \<bar>x\<bar>\<bar>"
    unfolding r by (cases "x < 0") (simp_all add: abs_minus_commute)
  also have "\<dots> \<le> ?u / 2" using u by (rule round_to_unit)
  also have "?u = 10 powi exponent10 \<bar>x\<bar> * 10 / 10 ^ digits"
    by (simp add: power_int_add power_int_diff)
  also have "10 powi exponent10 \<bar>x\<bar> * 10 / 10 ^ digits / 2 \<le> \<bar>x\<bar> * 10 / 10 ^ digits / 2"
    using powi_exponent10_le [of "\<bar>x\<bar>"] False by (simp add: divide_right_mono)
  finally show ?thesis by (simp add: mult.commute)
qed (simp add: round_significant_def)

text \<open>
  C36. Rounding keeps the leading digits: for a finite number the result of \<open>roundNumberBasedOnSize\<close> is finite, and
  its error is at most half a unit of the last digit, \<open>5 / 10 ^ digits\<close> of the number.
\<close>

theorem rounding_keeps_the_digits:
  assumes "0 < digits"
  shows "\<exists>y. roundNumberBasedOnSize (Fin x) digits = Fin y \<and> \<bar>y - x\<bar> \<le> \<bar>x\<bar> * 5 / 10 ^ digits"
proof (cases "1 \<le> x")
  case True
  let ?y = "of_int (fixed_units digits x) / 10 ^ digits"
  have "\<bar>?y - x\<bar> \<le> 1 / (2 * 10 ^ digits)" using fixed_units_near [of digits x] True by simp
  also have "\<dots> \<le> 5 / 10 ^ digits" by (simp add: field_simps)
  also have "\<dots> \<le> \<bar>x\<bar> * 5 / 10 ^ digits" using True by (simp add: divide_right_mono)
  finally show ?thesis using True parseFloat_toFixed [OF assms, of x] by simp
next
  case False
  then show ?thesis using round_significant_near [OF assms] by simp
qed

theorem rounding_keeps_the_digits_witness:
  "\<exists>y. roundNumberBasedOnSize (Fin (1 / 3000)) 4 = Fin y \<and> \<bar>y - 1 / 3000\<bar> \<le> \<bar>1 / 3000\<bar> * 5 / 10 ^ 4"
  by (rule rounding_keeps_the_digits) simp

section \<open>Sums and pages\<close>

lemma total_of_sum_list: "total_of f ss = sum_list (map f ss)"
  unfolding total_of_def by (induction ss rule: rev_induct) (simp_all add: add.commute)

lemma checkUnknownTypes_keeps: "checkUnknownTypes dataType v = Inr w \<Longrightarrow> cs_co2e w = cs_co2e v"
  by (auto simp: checkUnknownTypes_def split: chart_type.splits option.splits if_splits)

text \<open>
  The bars add up: whatever the dimension of the chart, the carbon of its entries is that of all service
  estimates.
\<close>

theorem bars_add_up:
  assumes "sumCO2ByServiceOrRegion data dataType = Inr bars"
  shows "sum_list (map snd (obj_values bars)) = total_of cs_co2e (all_services data)"
proof -
  obtain vs where vs: "mapR (checkUnknownTypes dataType) (all_services data) = Inr vs"
    and bars: "bars = group_fold (\<lambda>v. null_text (getPropertyFromDataType dataType v)) add_co2 [] vs"
    using assms unfolding sumCO2ByServiceOrRegion_def
    by (cases "mapR (checkUnknownTypes dataType) (all_services data)") simp_all
  have "list_all2 (\<lambda>v w. cs_co2e w = cs_co2e v) (all_services data) vs"
    using vs unfolding mapR_pointwise by (rule list_all2_mono) (rule checkUnknownTypes_keeps)
  then have "map cs_co2e vs = map cs_co2e (all_services data)"
    by (induction rule: list_all2_induct) simp_all
  moreover have "sum_list (map snd (obj_values bars)) = sum_list (map cs_co2e vs)"
    unfolding bars
    using sum_list_group_fold [of snd add_co2 cs_co2e "\<lambda>v. null_text (getPropertyFromDataType dataType v)" "[]" vs]
    by (auto simp: add_co2_def obj_values_def)
  ultimately show ?thesis by (simp add: total_of_sum_list)
qed

theorem bars_add_up_witness:
  "sum_list (map snd (obj_values [(''us-east-1'', (Some ''AWS'', 3 :: jsnum))]))
     = total_of cs_co2e (all_services (dashboard_page 0 [dashboard_service ''ebs'' 1, dashboard_service ''ec2'' 2]))"
  by (rule bars_add_up [where dataType = REGION])
    (simp add: sumCO2ByServiceOrRegion_def client_samples checkUnknownTypes_def getPropertyFromDataType_def
      group_fold_def upsert_def add_co2_def null_text_def, code_simp)

lemma paginate_data_pages:
  assumes "0 < n"
  shows "\<exists>ps. paginate_data n xs acc = Some (acc @ ps) \<and> concat ps = xs \<and> (\<forall>p \<in> set ps. p \<noteq> [] \<and> length p \<le> n)"
proof (induction "length xs" arbitrary: xs acc rule: less_induct)
  case less
  show ?case
  proof (cases "xs = []")
    case True
    then show ?thesis by (intro exI [of _ "[]"]) (simp add: paginate_data.simps)
  next
    case False
    then have "length (drop n xs) < length xs" using assms by (cases xs) simp_all
    from less.hyps [OF this, of "acc @ [take n xs]"]
    obtain ps where "paginate_data n (drop n xs) (acc @ [take n xs]) = Some ((acc @ [take n xs]) @ ps)"
      "concat ps = drop n xs" "\<forall>p \<in> set ps. p \<noteq> [] \<and> length p \<le> n" by blast
    then show ?thesis using False assms
      by (intro exI [of _ "take n xs # ps"]) (simp add: paginate_data.simps [of n xs])
  qed
qed

text \<open>
  The pages of the bar chart: for a positive page size the bars are cut into pages that are not empty, none of
  them longer than the page size, whose concatenation is the data.
\<close>

theorem pages_hold_the_data:
  assumes "0 < pageSize"
  shows "\<exists>pages. usePaginateData data pageSize = Some (pages, length pages) \<and> concat pages = data
    \<and> (\<forall>p \<in> set pages. p \<noteq> [] \<and> length p \<le> pageSize)"
  using paginate_data_pages [OF assms, of data "[]"] by (auto simp: usePaginateData_def)

text \<open>
  A forecast from few estimates drops the oldest of them: with at least as many estimates as the grouping asks
  for the last ones are kept, but with fewer the start of the slice is negative and counts from the end again, so of
  \<open>n\<close> estimates only the last \<open>amount - n\<close> remain (ten of twenty days).
\<close>

theorem short_data_is_sliced_again:
  "sliceFootprintDataByLastMonth data g
     = (if groupByAmount g \<le> length data then drop (length data - groupByAmount g) data
        else drop (length data - (groupByAmount g - length data)) data)"
  by (auto simp: sliceFootprintDataByLastMonth_def js_slice_def nat_diff_distrib intro!: arg_cong2 [where f = drop])


section \<open>The filters\<close>






section \<open>What the filters hide\<close>

lemma someR_returns: "None \<notin> set c \<Longrightarrow> \<exists>b. someR (isUnknownOrSameName type name) c = Inr b"
proof (induction c)
  case (Cons a c)
  then obtain o1 where "a = Some o1" by (cases a) simp_all
  then show ?case using Cons by (auto simp: isUnknownOrSameName_def)
qed (intro exI [of _ False], simp)

lemma passes_all:
  assumes "map_of options t = Some c" and "None \<notin> set c" and "Some (ALL_DROPDOWN_FILTER_OPTIONS t) \<in> set c"
  shows "passes options t name = Inr True"
  using someR_returns [OF assms(2), of t name] assms(1,3) by (auto simp: passes_def)

lemma filterR_True: "filterR (\<lambda>x. Inr True) xs = Inr xs"
  by (induction xs) simp_all

lemma filtered_by_all:
  assumes "map_of options t = Some c" and "None \<notin> set c" and "Some (ALL_DROPDOWN_FILTER_OPTIONS t) \<in> set c"
  shows "getResultsFilteredBy options t rs = Inr rs"
  unfolding getResultsFilteredBy_def passes_all [OF assms] filterR_True bindR_simps
  by (induction rs) simp_all

text \<open>
  Filters that select everything hide nothing: when all accounts and all services are selected with the options
  for all, the filter of the emissions page answers exactly the results of the time frame that have service
  estimates, unchanged.
\<close>

theorem everything_selected_hides_nothing:
  assumes "map_of (fl_options F) SERVICES = Some services" and "set services = Some ` set (ALL_DROPDOWN_FILTER_OPTIONS SERVICES # rest SERVICES)"
    and "map_of (fl_options F) ACCOUNTS = Some accounts" and "set accounts = Some ` set (ALL_DROPDOWN_FILTER_OPTIONS ACCOUNTS # rest ACCOUNTS)"
  shows "EmissionsFilters_filter M today F data
       = Inr (filter (\<lambda>r. isBetween_days (cl_timestamp r) (fst (filter_window M today F)) (snd (filter_window M today F))
                       \<and> cl_services r \<noteq> []) data)"
proof -
  have "getResultsFilteredBy (fl_options F) SERVICES rs = Inr rs" for rs
    using assms(2) by (intro filtered_by_all [OF assms(1)]) auto
  moreover have "getResultsFilteredBy (fl_options F) ACCOUNTS rs = Inr rs" for rs
    using assms(4) by (intro filtered_by_all [OF assms(3)]) auto
  ultimately show ?thesis
    by (simp add: EmissionsFilters_filter_def getResultsFilteredByTime_def case_prod_beta conj_commute)
qed

text \<open>
  A recommendation without a type passes no selection of types but that of all, not even one with the option
  that stands for the unknown type: the table of unknown names has no entry for it.
\<close>

theorem unknown_recommendation_type_is_hidden:
  assumes "map_of options RECOMMENDATION_TYPES = Some (map Some selected)"
    and "ALL_DROPDOWN_FILTER_OPTIONS RECOMMENDATION_TYPES \<notin> set selected"
    and "list_all (\<lambda>o1. \<not> str_includes (do_name o1) ''undefined'') selected"
  shows "passes options RECOMMENDATION_TYPES None = Inr False"
proof -
  have "someR (isUnknownOrSameName RECOMMENDATION_TYPES None) (map Some selected) = Inr False"
    using assms(3) by (induction selected) (simp_all add: isUnknownOrSameName_def unknownOptionTypes_def)
  then show ?thesis using assms(1,2) by (auto simp: passes_def)
qed

end
