(* ===== verification/Spec2Isabelle.thy ===== *)
theory Spec2Isabelle
  imports Core_Properties On_Premise_Properties System_Properties Aws_Service_Properties App_Properties Cli_Properties Api_Properties Client_Properties
begin

text \<open>
  Cloud Carbon Footprint estimates the energy and the emissions of cloud usage from billing data. A
  request enters the app (\<open>packages/app\<close>), which validates it, asks the packages of the cloud
  providers (\<open>packages/aws\<close>, \<open>gcp\<close>, \<open>azure\<close>, \<open>ali\<close>) for the estimates of the period, joins them by
  day and caches them. A provider queries its billing data, turns each line into a row, estimates
  the row with the estimators of \<open>packages/core\<close> and appends the estimate to the results of its day;
  rows of unknown usage wait until the end and get a share of the energy recorded so far. The
  numbers, helpers and emissions factors they share are in \<open>packages/common\<close>.

  \<^bold>\<open>Conventions.\<close> The JavaScript side is in the theories \<open>Js_*\<close>. A number is a \<open>jsnum\<close>: a rational
  number, an infinity or NaN, with the arithmetic of the language but without rounding. Objects with
  text keys are association lists in insertion order (\<open>Js_Object\<close>), strings are lists of characters
  (\<open>Js_String\<close>), dates are milliseconds since the epoch (\<open>Js_Date\<close>), where an invalid date is
  \<open>None\<close>. An operation that may throw has a value of \<open>js_error + 'a\<close>; one that reads and writes
  module-level state is a function of type \<open>('s, 'a) eff\<close>, and one that may run for ever, because it
  polls or pages, is of type \<open>('s, 'a) act\<close> and \<open>None\<close> where it does not return (\<open>Js_Effects\<close>); without
  state it is an \<open>'a promise\<close>. \<open>Js_Format\<close> has numbers as texts, and the dates that overflow a month.
  \<open>await\<close> is sequencing and \<open>Promise.all\<close> runs its parts in order. The functions of moment and ramda
  that the code calls are parameters; \<open>Third_Party\<close> states what is documented of them and has
  functions that satisfy it.

  \<^bold>\<open>Common.\<close> \<open>Common_Types\<close>, \<open>Common_Helpers\<close>, \<open>Common_Factors\<close> and \<open>Common_Estimation\<close> model the
  estimation results and their merge by instant (\<open>EstimationResult.ts\<close>), the text tests and unit
  conversions (\<open>helpers/\<close>) and the cache of carbon intensities (\<open>EmissionsFactors.ts\<close>).

  \<^bold>\<open>Core.\<close> \<open>Core_Types\<close>, \<open>Core_Processors\<close> and \<open>Core_Estimators\<close> have the rows, the processors and the
  estimators of compute, storage, networking, memory, embodied emissions and unknown usage;
  \<open>Core_Accumulate\<close> the ledger of kilowatt hours by service and unit, and \<open>Core_Append\<close> the
  appending of an estimate to the results (both \<open>FootprintEstimate.ts\<close>); \<open>Core_Compute_Usage\<close> and
  \<open>Core_Account\<close> the usage builder, the regions and the accounts. \<open>Core_Billing\<close> and \<open>Core_Reader\<close>
  hold the contracts of a report: a locale for the loop over rows whose facts are conservation of
  cost, unique groups, the final ledger and termination. Each provider interprets them on its own
  definitions, in \<open>Aws_Totals\<close>, \<open>Gcp_Totals\<close> and \<open>Azure_Totals\<close>.

  \<^bold>\<open>AWS.\<close> \<open>Aws_Constants\<close>, \<open>Aws_Instances\<close> and \<open>Aws_Usage_Types\<close> are the tables; \<open>Aws_Row\<close>,
  \<open>Aws_Builders\<close> and \<open>Aws_Reports\<close> the rows, the estimate builders and the classification of
  \<open>CostAndUsageReports.ts\<close>; \<open>Aws_Athena\<close> the query with its polling and paging, and the
  account. \<open>Aws_Cloud_Watch\<close> and \<open>Aws_Services\<close> are the services that ask
  CloudWatch, Cost Explorer and the logs directly, by intervals and pages (\<open>ServiceWrapper.ts\<close>, \<open>*Mapper.ts\<close>,
  \<open>EBS.ts\<close>, \<open>S3.ts\<close>, \<open>EC2.ts\<close>, \<open>ElastiCache.ts\<close>, \<open>RDS*.ts\<close>, \<open>Lambda.ts\<close>). \<^bold>\<open>GCP.\<close> \<open>Gcp_Constants\<close>, \<open>Gcp_Billing\<close> (\<open>BillingExportRow.ts\<close>, \<open>BillingExportTable.ts\<close>) and
  \<open>Gcp_Account\<close> with Compute Engine. \<^bold>\<open>Azure.\<close> \<open>Azure_Constants\<close>, \<open>Azure_Machines\<close>,
  \<open>Azure_Billing\<close> and \<open>Azure_Query\<close> (\<open>ConsumptionManagement.ts\<close>: the estimates and the requests with
  their retries and chunks) and \<open>Azure_Account\<close>. \<^bold>\<open>Ali.\<close> \<open>Ali_Constants\<close>,
  \<open>Ali_Service\<close> (\<open>AliCalculateRow.ts\<close> and \<open>AliCostAndUsageService.ts\<close>) and \<open>Ali_Totals\<close>, where its report is
  a computation without state. \<^bold>\<open>On-premise.\<close> \<open>On_Premise_Machines\<close> and \<open>On_Premise_Report\<close>
  (\<open>packages/on-premise\<close>), which estimates the machines of a file from their descriptions.

  \<^bold>\<open>Recommendations.\<close> \<open>Common_Types\<close> has what a recommendation is. \<open>Aws_Rightsizing\<close>,
  \<open>Aws_Optimizer\<close> and \<open>Aws_Recommendations\<close> model \<open>packages/aws/src/lib/Recommendations\<close>: the instances of
  Cost Explorer with their targets, the exported lines of Compute Optimizer, and the choice between the
  services. \<open>Gcp_Recommendations\<close> models \<open>ServiceWrapper.ts\<close> and \<open>Recommendations.ts\<close> of
  \<open>packages/gcp\<close>, where addresses share in what the other recommendations save, and
  \<open>Azure_Recommendations\<close> models \<open>AdvisorRecommendations.ts\<close>. \<open>System_Recommendations\<close> joins them.

  \<^bold>\<open>App.\<close> \<open>App_Request\<close> is the validation (\<open>CreateValidRequest.ts\<close>), \<open>App_Helpers\<close> the dates and the
  merge of the cache, \<open>App_Cache\<close> the caching decorator over the local cache file, and \<open>App_Main\<close>
  the app itself, over the accounts of the providers. \<open>App_Remote_Cache\<close> has the two other caches, the file
  in a bucket and the documents of MongoDB, under the same decorator; \<open>App_Mongo_Store\<close> states what is documented
  of the driver and has a store that satisfies it. \<open>System_Billing\<close> puts the billing data of all four
  providers behind the app, and \<open>System_Recommendations\<close> their recommendations and lookups.

  \<^bold>\<open>API.\<close> \<open>Api_Users\<close>, \<open>Api_Auth\<close> and \<open>Api_Server\<close> model \<open>packages/api\<close>: the users and their repository, the
  sessions with the sign-in at the identity provider, the claims and the two guards of the routes, and the handlers
  with their answers. A relation has the steps that a session takes over the requests of its caller.

  \<^bold>\<open>Command line.\<close> \<open>Cli_Tables\<close> is the command of \<open>packages/cli\<close> with its three tables, their texts and the
  file of comma-separated values.

  \<^bold>\<open>Dashboard.\<close> \<open>Client_Data\<close> and \<open>Client_Filters\<close> model \<open>packages/client\<close> without its rendering: the loop
  that fetches the estimates page by page, the sums, series, rounding and dates of the charts, and the filters, where
  a selection in one dropdown chooses those of the others (\<open>OptionChooser.ts\<close> and the choosers of the two
  pages). A relation has the filters that a user reaches.

  \<^bold>\<open>Properties.\<close> The theories \<open>*_Properties\<close> state them, each with an instance that runs on concrete
  data. They show that costs are conserved from the lines of the billing data to the answer of the
  app over all providers, that its answers are well-typed, that a row is estimated, deferred or left out and exactly one of the three, that the ledger
  records every row, that the daily results and their groups are unique and sorted, that the query
  loops return what the services have, how requests are validated, and that the cache reads back
  what was written and asks for exactly the missing dates. The services of AWS lose no volume and no window of the
  period, and the tables of the command line add up and show what they add up to. The dashboard shows
  what the pages hold, and its filters stay consistent. The recommendations are
  answered one by one with the difference of two estimates, in the order of the providers. Where the code does not do what it means
  to, a property of kind error states what it does.

  \<^bold>\<open>Bounds and fuel.\<close> A request for Azure usage is tried eleven times, which is the bound of the
  source (\<open>maxRetries\<close>); no other bound is chosen by the model. Polling, paging, chunking, the windows of an interval and
  the enumeration of missing dates are \<open>partial_function\<close>s without fuel, and the properties prove where they
  return.

  \<^bold>\<open>Not modelled.\<close> Rounding of floating point numbers, and the exponents with which numbers of
  \<open>10\<^sup>2\<^sup>1\<close> and more are shown; credentials and the wire protocol of the cloud clients; the start of the API server, the
  guided installation, the components of the dashboard and the project template, which are glue around frameworks. Logging
  has no effect in the model. Requests that the source runs concurrently run in sequence here.
\<close>

end
